(* ===== verification/Prelude.thy ===== *)
theory Prelude
  imports Complex_Main
begin

text \<open>
  Shared vocabulary of the development: Go error values, the outcome of a call,
  decoded JSON values, and the generic facts on lists and options that the
  components share.  Nothing here is specific to one resource.
\<close>

section \<open>Collections of facts\<close>

text \<open>
  \<open>errs\<close> holds the definitions of the sentinel errors, \<open>go_string\<close> the evaluation
  rules of the string package, \<open>render\<close> the facts that relate rendered command
  lines to the prefixes the parsers test.
\<close>

named_theorems errs
named_theorems go_string
named_theorems render

section \<open>Error values\<close>

text \<open>
  A sentinel made by \<open>errors.New\<close> is its message, which is unique in the program.
  \<open>Wrap p e\<close> is \<open>fmt.Errorf(p + ": %w", e)\<close>; \<open>Got e as\<close> is a sentinel wrapped with the
  offending values, as in \<open>fmt.Errorf("%w (got %d)", e, v)\<close>; \<open>JoinErr\<close> is
  \<open>errors.Join\<close>; \<open>Foreign\<close> is an error made by code outside the repository.
\<close>

datatype error =
    Sentinel string
  | Wrap string error
  | Got error "detail list"
  | JoinErr error error
  | Foreign string
and detail = DInt int | DStr string | DErr error

text \<open>\<open>errors.Is\<close>: the target occurs in the tree of wrapped errors.\<close>

fun errors_is :: "error \<Rightarrow> error \<Rightarrow> bool" and detail_is :: "detail \<Rightarrow> error \<Rightarrow> bool" where
  "errors_is (Sentinel m) t = (Sentinel m = t)"
| "errors_is (Foreign m) t = (Foreign m = t)"
| "errors_is (Wrap p e) t = (Wrap p e = t \<or> errors_is e t)"
| "errors_is (Got e ds) t = (Got e ds = t \<or> errors_is e t \<or> (\<exists>d\<in>set ds. detail_is d t))"
| "errors_is (JoinErr a b) t = (JoinErr a b = t \<or> errors_is a t \<or> errors_is b t)"
| "detail_is (DErr e) t = errors_is e t"
| "detail_is (DInt i) t = False"
| "detail_is (DStr s) t = False"

text \<open>A check of an optional value: a nil pointer passes.\<close>

definition opt_err :: "('a \<Rightarrow> error option) \<Rightarrow> 'a option \<Rightarrow> error option" where
  "opt_err f p = Option.bind p f"

text \<open>A sequence of checks, each with an early return.\<close>

fun first_error :: "error option list \<Rightarrow> error option" where
  "first_error [] = None"
| "first_error (c # cs) = (case c of Some e \<Rightarrow> Some e | None \<Rightarrow> first_error cs)"

text \<open>A chain of checks passes when every check passes.\<close>

lemma check_chain:
  "(case c of Some e \<Rightarrow> Some e | None \<Rightarrow> d) = None \<longleftrightarrow> c = None \<and> d = None"
  "(if b then Some x else d) = None \<longleftrightarrow> \<not> b \<and> d = None"
  by (auto split: option.split)

lemma first_error_None: "first_error cs = None \<longleftrightarrow> (\<forall>c\<in>set cs. c = None)"
  by (induction cs) (auto split: option.split)

lemma first_error_split:
  "first_error (cs @ ds) = None \<longleftrightarrow> first_error cs = None \<and> first_error ds = None"
  "first_error (map f xs) = None \<longleftrightarrow> (\<forall>x\<in>set xs. f x = None)"
  by (auto simp: first_error_None)

lemma opt_err_None: "opt_err f p = None \<longleftrightarrow> pred_option (\<lambda>v. f v = None) p"
  by (cases p) (simp_all add: opt_err_def)

section \<open>Outcome of a call\<close>

text \<open>
  \<open>Ok v\<close> is a return with a nil error, \<open>Err e\<close> a return with an error, \<open>Panic\<close> a
  run-time panic, and \<open>Blocked\<close> a call that waits on a channel for ever.
\<close>

datatype 'a res = Ok 'a | Err error | Panic | Blocked

definition bind_res :: "'a res \<Rightarrow> ('a \<Rightarrow> 'b res) \<Rightarrow> 'b res" where
  "bind_res r f = (case r of Ok v \<Rightarrow> f v | Err e \<Rightarrow> Err e | Panic \<Rightarrow> Panic | Blocked \<Rightarrow> Blocked)"

lemma bind_res_simps [simp]:
  "bind_res (Ok v) f = f v" "bind_res (Err e) f = Err e"
  "bind_res Panic f = Panic" "bind_res Blocked f = Blocked"
  by (simp_all add: bind_res_def)

text \<open>An error value, nil or not, as an outcome.\<close>

definition check :: "error option \<Rightarrow> unit res" where
  "check e = (case e of None \<Rightarrow> Ok () | Some x \<Rightarrow> Err x)"

lemma check_simps [simp]: "check None = Ok ()" "check (Some x) = Err x"
  by (simp_all add: check_def)

definition is_Ok :: "'a res \<Rightarrow> bool" where
  "is_Ok r \<longleftrightarrow> (\<exists>v. r = Ok v)"

lemma is_Ok_simps [simp]:
  "is_Ok (Ok v)" "\<not> is_Ok (Err e)" "\<not> is_Ok Panic" "\<not> is_Ok Blocked"
  by (simp_all add: is_Ok_def)

lemma is_Ok_code [code]: "is_Ok r = (case r of Ok _ \<Rightarrow> True | _ \<Rightarrow> False)"
  by (cases r) simp_all

definition errorf :: "string \<Rightarrow> 'a res \<Rightarrow> 'a res" where
  "errorf p r = (case r of Err e \<Rightarrow> Err (Wrap p e) | _ \<Rightarrow> r)"

lemma errorf_simps [simp]:
  "errorf p (Ok v) = Ok v" "errorf p (Err e) = Err (Wrap p e)"
  "errorf p Panic = Panic" "errorf p Blocked = Blocked"
  by (simp_all add: errorf_def)

lemma errorf_eq_Ok [simp]: "errorf p r = Ok v \<longleftrightarrow> r = Ok v"
  by (cases r) simp_all

text \<open>The calls that return: neither a panic nor a call that waits for ever.\<close>

definition returns :: "'a res \<Rightarrow> bool" where
  "returns r \<longleftrightarrow> r \<noteq> Panic \<and> r \<noteq> Blocked"

lemma returns_simps [simp]:
  "returns (Ok v)" "returns (Err e)" "\<not> returns Panic" "\<not> returns Blocked"
  by (simp_all add: returns_def)

lemma returns_errorf [simp]: "returns (errorf p r) = returns r"
  by (cases r) simp_all

lemma returns_map_res [simp]: "returns (map_res f r) = returns r"
  by (cases r) simp_all

lemma returns_bind_res: "returns r \<Longrightarrow> (\<And>v. r = Ok v \<Longrightarrow> returns (f v)) \<Longrightarrow> returns (bind_res r f)"
  by (cases r) simp_all

lemma map_res_eq_Ok [simp]: "map_res f r = Ok v \<longleftrightarrow> (\<exists>u. r = Ok u \<and> v = f u)"
  by (cases r) auto

lemma errorf_eq_Err: "errorf p r = Err e \<longleftrightarrow> (\<exists>e'. r = Err e' \<and> e = Wrap p e')"
  by (cases r) auto

lemma map_res_eq_Err [simp]: "map_res f r = Err e \<longleftrightarrow> r = Err e"
  by (cases r) auto

lemma is_Ok_errorf [simp]: "is_Ok (errorf p r) = is_Ok r"
  by (cases r) simp_all

lemma is_Ok_map_res [simp]: "is_Ok (map_res f r) = is_Ok r"
  by (cases r) simp_all

section \<open>Decoded JSON\<close>

text \<open>
  A value of type \<open>any\<close> decoded by \<open>encoding/json\<close>.  Objects are Go maps: an
  association list whose keys are distinct.  A number is a float64, given by its value.
\<close>

datatype json = JNull | JBool bool | JNum rat | JStr string
  | JArr "json list" | JObj "(string \<times> json) list"

type_synonym row = "(string \<times> json) list"

text \<open>The comma-ok type assertions to \<open>string\<close>, \<open>map[string]any\<close>, \<open>float64\<close> and \<open>[]any\<close>.\<close>

definition get_str :: "row \<Rightarrow> string \<Rightarrow> string option" where
  "get_str m k = (case map_of m k of Some (JStr s) \<Rightarrow> Some s | _ \<Rightarrow> None)"

definition get_obj :: "row \<Rightarrow> string \<Rightarrow> row option" where
  "get_obj m k = (case map_of m k of Some (JObj o') \<Rightarrow> Some o' | _ \<Rightarrow> None)"

definition get_num :: "row \<Rightarrow> string \<Rightarrow> rat option" where
  "get_num m k = (case map_of m k of Some (JNum v) \<Rightarrow> Some v | _ \<Rightarrow> None)"

definition get_arr :: "row \<Rightarrow> string \<Rightarrow> json list option" where
  "get_arr m k = (case map_of m k of Some (JArr xs) \<Rightarrow> Some xs | _ \<Rightarrow> None)"

text \<open>\<open>out, _ := resp[0]["output"].(string)\<close>, with the early return for an empty response.\<close>

definition text_output :: "row list \<Rightarrow> string" where
  "text_output resp =
     (case resp of [] \<Rightarrow> '''' | r # _ \<Rightarrow> (case get_str r ''output'' of Some s \<Rightarrow> s | None \<Rightarrow> ''''))"

section \<open>Optional strings and numbers\<close>

text \<open>
  The guard \<open>p != nil && *p != ""\<close>, which every renderer uses, and the copy
  \<open>if r.F != "" { v := r.F; s.F = &v }\<close>, which every reader uses.
\<close>

definition nonempty :: "string option \<Rightarrow> string option" where
  "nonempty p = (case p of Some s \<Rightarrow> if s = [] then None else Some s | None \<Rightarrow> None)"

lemma nonempty_simps [simp]:
  "nonempty None = None" "nonempty (Some []) = None" "nonempty (Some (c # s)) = Some (c # s)"
  by (simp_all add: nonempty_def)

lemma nonempty_eq_Some [simp]: "nonempty p = Some s \<longleftrightarrow> p = Some s \<and> s \<noteq> []"
  by (auto simp: nonempty_def split: option.splits)

lemma nonempty_eq_None [simp]: "nonempty p = None \<longleftrightarrow> p = None \<or> p = Some []"
  by (auto simp: nonempty_def split: option.splits)

text \<open>The value of an option, or a default; a nil pointer read as a zero value.\<close>

definition opt_or :: "'a \<Rightarrow> 'a option \<Rightarrow> 'a" where
  "opt_or d p = (case p of Some v \<Rightarrow> v | None \<Rightarrow> d)"

lemma opt_or_simps [simp]: "opt_or d None = d" "opt_or d (Some v) = v"
  by (simp_all add: opt_or_def)

abbreviation or_empty :: "string option \<Rightarrow> string" where
  "or_empty p \<equiv> opt_or [] p"

abbreviation or_zero :: "int option \<Rightarrow> int" where
  "or_zero p \<equiv> opt_or 0 p"

definition set_str :: "string \<Rightarrow> string option \<Rightarrow> string option" where
  "set_str v old = (if v \<noteq> [] then Some v else old)"

definition set_pos :: "int \<Rightarrow> int option \<Rightarrow> int option" where
  "set_pos v old = (if v > 0 then Some v else old)"

text \<open>The guard \<open>p != nil && *p > 0\<close>.\<close>

definition positive :: "int option \<Rightarrow> int option" where
  "positive p = (case p of Some v \<Rightarrow> if v > 0 then Some v else None | None \<Rightarrow> None)"

lemma positive_simps [simp]:
  "positive None = None" "v > 0 \<Longrightarrow> positive (Some v) = Some v" "v \<le> 0 \<Longrightarrow> positive (Some v) = None"
  by (simp_all add: positive_def)

lemma positive_eq_Some [simp]: "positive p = Some v \<longleftrightarrow> p = Some v \<and> v > 0"
  by (auto simp: positive_def split: option.splits)

definition set_true :: "bool \<Rightarrow> bool option \<Rightarrow> bool option" where
  "set_true v old = (if v then Some True else old)"

lemma set_str_simps [simp]:
  "set_str [] q = q" "set_str (c # s) q = Some (c # s)"
  "set_str (or_empty (nonempty p)) q = (case nonempty p of None \<Rightarrow> q | Some v \<Rightarrow> Some v)"
  by (auto simp: set_str_def nonempty_def split: option.splits)

lemma set_str_back [simp]:
  "set_str (or_empty p) p = p"
  "p \<noteq> Some [] \<Longrightarrow> set_str (or_empty p) None = p"
  by (cases p; simp add: set_str_def)+

lemma nonempty_case [simp]:
  "(case nonempty p of None \<Rightarrow> p | Some v \<Rightarrow> Some v) = p"
  "p \<noteq> Some [] \<Longrightarrow> (case nonempty p of None \<Rightarrow> None | Some v \<Rightarrow> Some v) = p"
  by (auto simp: nonempty_def split: option.splits)

lemma set_pos_back [simp]:
  "set_pos (or_zero p) p = p"
  "pred_option (\<lambda>v. 0 < v) p \<Longrightarrow> set_pos (or_zero p) None = p"
  by (cases p; simp add: set_pos_def)+

lemma set_pos_positive [simp]: "set_pos (or_zero (positive p)) p = p"
  by (auto simp: positive_def set_pos_def split: option.splits)

lemma set_pos_zero [simp]: "set_pos 0 p = p"
  by (simp add: set_pos_def)

lemma set_true_same [simp]: "set_true (p = Some True) p = p"
  by (auto simp: set_true_def)

section \<open>Optional command lines\<close>

text \<open>One line if the option is present, none otherwise.\<close>

definition line_opt :: "('a \<Rightarrow> string) \<Rightarrow> 'a option \<Rightarrow> string list" where
  "line_opt f p = (case p of Some v \<Rightarrow> [f v] | None \<Rightarrow> [])"

definition line_if :: "string \<Rightarrow> bool \<Rightarrow> string list" where
  "line_if l b = (if b then [l] else [])"

lemma line_opt_simps [simp]: "line_opt f None = []" "line_opt f (Some v) = [f v]"
  by (simp_all add: line_opt_def)

lemma line_if_simps [simp]: "line_if l True = [l]" "line_if l False = []"
  by (simp_all add: line_if_def)

text \<open>\<open>if p != nil { if *p { a } else { b } }\<close>.\<close>

definition line_bool :: "string \<Rightarrow> string \<Rightarrow> bool option \<Rightarrow> string list" where
  "line_bool a b p = line_opt (\<lambda>v. if v then a else b) p"

lemma line_bool_simps [simp]:
  "line_bool a b None = []" "line_bool a b (Some v) = [if v then a else b]"
  by (simp_all add: line_bool_def)

text \<open>\<open>if c { a } else { b }\<close>: always one line.\<close>

definition line_toggle :: "string \<Rightarrow> string \<Rightarrow> bool \<Rightarrow> string list" where
  "line_toggle a b c = [if c then a else b]"

lemma any_readable: "pred_option (\<lambda>_. True) p"
  by (simp add: option.pred_set)

section \<open>Generic list facts\<close>

text \<open>
  Folding a step over an optional segment: the effect of the segment on the state is
  the effect of its only line.
\<close>

lemma fold_line_opt: "fold g (line_opt f p) = (case p of Some v \<Rightarrow> g (f v) | None \<Rightarrow> id)"
  by (cases p) simp_all

lemma fold_line_if: "fold g (line_if l b) = (if b then g l else id)"
  by simp

lemma fold_filter_id:
  "(\<And>x s. \<not> P x \<Longrightarrow> g x s = s) \<Longrightarrow> fold g (filter P xs) s = fold g xs s"
  by (induction xs arbitrary: s) auto

lemma fold_invariant_on:
  "(\<And>x s. x \<in> set xs \<Longrightarrow> I s \<Longrightarrow> I (g x s)) \<Longrightarrow> I s \<Longrightarrow> I (fold g xs s)"
  by (induction xs arbitrary: s) auto

end
