(* ===== verification/Go_Strings.thy ===== *)
theory Go_Strings
  imports Prelude
begin

text \<open>
  The operations of Go's package \<open>strings\<close> that the providers call, on byte strings:
  a \<open>char\<close> is one byte, a \<open>string\<close> a sequence of bytes, as in Go.  White space is
  Unicode's, recognised by its UTF-8 encoding, so \<open>TrimSpace\<close> and \<open>Fields\<close> are exact on
  arbitrary bytes.  \<open>ToLower\<close> is exact on ASCII; of the other code points only the two
  whose lower case is an ASCII letter are mapped.
\<close>

section \<open>Prefixes and substrings\<close>

fun CutPrefix :: "string \<Rightarrow> string \<Rightarrow> string option" where
  "CutPrefix s [] = Some s"
| "CutPrefix [] (p # ps) = None"
| "CutPrefix (c # cs) (p # ps) = (if c = p then CutPrefix cs ps else None)"

definition HasPrefix :: "string \<Rightarrow> string \<Rightarrow> bool" where
  "HasPrefix s p \<longleftrightarrow> CutPrefix s p \<noteq> None"

definition TrimPrefix :: "string \<Rightarrow> string \<Rightarrow> string" where
  "TrimPrefix s p = (case CutPrefix s p of Some r \<Rightarrow> r | None \<Rightarrow> s)"

lemma CutPrefix_Nil [simp]: "CutPrefix [] p = (if p = [] then Some [] else None)"
  by (cases p) simp_all

lemma CutPrefix_iff: "CutPrefix s p = Some r \<longleftrightarrow> s = p @ r"
  by (induction s p rule: CutPrefix.induct) auto

lemma CutPrefix_append [simp]: "CutPrefix (p @ s) p = Some s"
  by (simp add: CutPrefix_iff)

lemma HasPrefix_iff: "HasPrefix s p \<longleftrightarrow> (\<exists>r. s = p @ r)"
  by (auto simp: HasPrefix_def CutPrefix_iff)

lemma HasPrefix_append [simp]: "HasPrefix (p @ s) p"
  by (simp add: HasPrefix_def)

lemma TrimPrefix_append [simp]: "TrimPrefix (p @ s) p = s"
  by (simp add: TrimPrefix_def)

lemma HasPrefix_eval [simp, go_string]:
  "HasPrefix s []"
  "HasPrefix [] (p # ps) = False"
  "HasPrefix (c # cs) (p # ps) = (c = p \<and> HasPrefix cs ps)"
  by (simp_all add: HasPrefix_def)

lemma TrimPrefix_Nil [simp]: "TrimPrefix s [] = s"
  by (simp add: TrimPrefix_def)

lemma TrimPrefix_Cons [simp]:
  "HasPrefix cs ps \<Longrightarrow> TrimPrefix (p # cs) (p # ps) = TrimPrefix cs ps"
  by (auto simp: TrimPrefix_def HasPrefix_def)

definition CutSuffix :: "string \<Rightarrow> string \<Rightarrow> string option" where
  "CutSuffix s t = map_option rev (CutPrefix (rev s) (rev t))"

lemma CutSuffix_iff: "CutSuffix s t = Some r \<longleftrightarrow> s = r @ t"
proof -
  have "CutSuffix s t = Some r \<longleftrightarrow> rev s = rev t @ rev r"
    by (auto simp: CutSuffix_def CutPrefix_iff)
  also have "\<dots> \<longleftrightarrow> s = r @ t" by (metis rev_append rev_rev_ident)
  finally show ?thesis .
qed

lemma CutSuffix_append [simp]: "CutSuffix (r @ t) t = Some r"
  by (simp add: CutSuffix_iff)

fun Contains :: "string \<Rightarrow> string \<Rightarrow> bool" where
  "Contains [] t = (t = [])"
| "Contains (c # cs) t = (HasPrefix (c # cs) t \<or> Contains cs t)"

lemma Contains_iff: "Contains s t \<longleftrightarrow> (\<exists>a b. s = a @ t @ b)"
proof (induction s)
  case Nil
  then show ?case by auto
next
  case (Cons c cs)
  have "(\<exists>a b. c # cs = a @ t @ b) \<longleftrightarrow> (\<exists>r. c # cs = t @ r) \<or> (\<exists>a b. cs = a @ t @ b)"
    by (metis (no_types, opaque_lifting) append_Cons append_Nil list.inject neq_Nil_conv)
  with Cons show ?case by (simp add: HasPrefix_iff del: HasPrefix_eval)
qed

section \<open>Splitting at line breaks\<close>

text \<open>\<open>strings.SplitSeq(s, "\n")\<close>: always at least one piece.\<close>

fun split_at :: "char \<Rightarrow> string \<Rightarrow> string list" where
  "split_at d [] = [[]]"
| "split_at d (c # cs) =
     (if c = d then [] # split_at d cs
      else (case split_at d cs of l # ls \<Rightarrow> (c # l) # ls | [] \<Rightarrow> [[c]]))"

abbreviation newline :: char where "newline \<equiv> CHR 0x0A"

definition lines :: "string \<Rightarrow> string list" where
  "lines s = split_at newline s"

lemma split_at_nonempty [simp]: "split_at d s \<noteq> []"
  by (cases s) (auto split: list.splits)

fun Join :: "string list \<Rightarrow> string \<Rightarrow> string" where
  "Join [] sep = []"
| "Join [x] sep = x"
| "Join (x # y # ys) sep = x @ sep @ Join (y # ys) sep"

lemma Join_split_at: "Join (split_at d s) [d] = s"
proof (induction s)
  case Nil
  show ?case by simp
next
  case (Cons c s)
  obtain l ls where e: "split_at d s = l # ls" by (cases "split_at d s") auto
  then show ?case using Cons by (cases ls) auto
qed

lemma split_at_no_delim: "l \<in> set (split_at d s) \<Longrightarrow> d \<notin> set l"
  by (induction s arbitrary: l) (auto split: list.splits if_splits)

lemma split_at_append_delim:
  "d \<notin> set l \<Longrightarrow> split_at d (l @ d # s) = l # split_at d s"
  by (induction l) auto

lemma split_at_single: "d \<notin> set l \<Longrightarrow> split_at d l = [l]"
  by (induction l) auto

lemma split_at_Join:
  "ls \<noteq> [] \<Longrightarrow> (\<And>l. l \<in> set ls \<Longrightarrow> d \<notin> set l) \<Longrightarrow> split_at d (Join ls [d]) = ls"
  by (induction ls "[d]" rule: Join.induct)
    (auto simp: split_at_single split_at_append_delim)

lemma split_at_infix: "l \<in> set (split_at d s) \<Longrightarrow> \<exists>a b. s = a @ l @ b"
proof (induction s arbitrary: l)
  case Nil
  then show ?case by simp
next
  case (Cons c cs)
  obtain m ms where e: "split_at d cs = m # ms" by (cases "split_at d cs") auto
  have hd: "\<exists>b. cs = m @ b"
  proof -
    have "cs = Join (m # ms) [d]" using Join_split_at [of d cs] e by simp
    then show ?thesis by (cases ms) auto
  qed
  have tl: "\<exists>a b. c # cs = a @ x @ b" if "x \<in> set (m # ms)" for x
  proof -
    from that e Cons.IH obtain a b where "cs = a @ x @ b" by metis
    then have "c # cs = (c # a) @ x @ b" by simp
    then show ?thesis by blast
  qed
  show ?case
  proof (cases "c = d")
    case True
    with Cons.prems e consider "l = []" | "l \<in> set (m # ms)" by auto
    then show ?thesis
    proof cases
      case 1
      then have "c # cs = [] @ l @ (c # cs)" by simp
      then show ?thesis by blast
    next
      case 2
      then show ?thesis by (rule tl)
    qed
  next
    case False
    with Cons.prems e consider "l = c # m" | "l \<in> set (m # ms)" by auto
    then show ?thesis
    proof cases
      case 1
      from hd obtain b where "cs = m @ b" by blast
      with 1 have "c # cs = [] @ l @ b" by simp
      then show ?thesis by blast
    next
      case 2
      then show ?thesis by (rule tl)
    qed
  qed
qed

section \<open>White space\<close>

text \<open>
  \<open>unicode.IsSpace\<close> on the UTF-8 encoding: the six ASCII characters, and the code points
  U+0085, U+00A0, U+1680, U+2000 to U+200A, U+2028, U+2029, U+202F, U+205F and U+3000.
\<close>

definition ascii_space :: "char \<Rightarrow> bool" where
  "ascii_space c \<longleftrightarrow> c = CHR '' '' \<or> c = CHR 0x0A \<or> c = CHR 0x09 \<or> c = CHR 0x0D
     \<or> c = CHR 0x0B \<or> c = CHR 0x0C"

definition space2 :: "char \<Rightarrow> char \<Rightarrow> bool" where
  "space2 a b \<longleftrightarrow> a = CHR 0xC2 \<and> (b = CHR 0x85 \<or> b = CHR 0xA0)"

definition space3 :: "char \<Rightarrow> char \<Rightarrow> char \<Rightarrow> bool" where
  "space3 a b c \<longleftrightarrow>
     a = CHR 0xE1 \<and> b = CHR 0x9A \<and> c = CHR 0x80
   \<or> a = CHR 0xE2 \<and> b = CHR 0x80 \<and>
       c \<in> {CHR 0x80, CHR 0x81, CHR 0x82, CHR 0x83, CHR 0x84, CHR 0x85, CHR 0x86, CHR 0x87,
            CHR 0x88, CHR 0x89, CHR 0x8A, CHR 0xA8, CHR 0xA9, CHR 0xAF}
   \<or> a = CHR 0xE2 \<and> b = CHR 0x81 \<and> c = CHR 0x9F
   \<or> a = CHR 0xE3 \<and> b = CHR 0x80 \<and> c = CHR 0x80"

text \<open>Bytes of the white-space code point at the front of a string, 0 if there is none.\<close>

fun space_len :: "string \<Rightarrow> nat" where
  "space_len [] = 0"
| "space_len [a] = (if ascii_space a then 1 else 0)"
| "space_len [a, b] = (if ascii_space a then 1 else if space2 a b then 2 else 0)"
| "space_len (a # b # c # s) =
     (if ascii_space a then 1 else if space2 a b then 2 else if space3 a b c then 3 else 0)"

text \<open>The same at the end of a string, which is given reversed.\<close>

fun space_len_rev :: "string \<Rightarrow> nat" where
  "space_len_rev [] = 0"
| "space_len_rev [a] = (if ascii_space a then 1 else 0)"
| "space_len_rev [a, b] = (if ascii_space a then 1 else if space2 b a then 2 else 0)"
| "space_len_rev (a # b # c # s) =
     (if ascii_space a then 1 else if space2 b a then 2 else if space3 c b a then 3 else 0)"

lemma space_len_le: "space_len s \<le> length s"
  by (cases s rule: space_len.cases) auto

lemma space_len_rev_le: "space_len_rev s \<le> length s"
  by (cases s rule: space_len_rev.cases) auto

function trim_left :: "string \<Rightarrow> string" where
  "trim_left s = (if space_len s = 0 then s else trim_left (drop (space_len s) s))"
  by pat_completeness auto
termination
proof (relation "measure length")
  fix s :: string
  assume "space_len s \<noteq> 0"
  with space_len_le [of s] show "(drop (space_len s) s, s) \<in> measure length" by auto
qed simp

function trim_rev :: "string \<Rightarrow> string" where
  "trim_rev s = (if space_len_rev s = 0 then s else trim_rev (drop (space_len_rev s) s))"
  by pat_completeness auto
termination
proof (relation "measure length")
  fix s :: string
  assume "space_len_rev s \<noteq> 0"
  with space_len_rev_le [of s] show "(drop (space_len_rev s) s, s) \<in> measure length" by auto
qed simp

declare trim_left.simps [simp del] trim_rev.simps [simp del]

definition TrimSpace :: "string \<Rightarrow> string" where
  "TrimSpace s = rev (trim_rev (rev (trim_left s)))"

lemma trim_left_suffix: "\<exists>a. s = a @ trim_left s"
proof (induction s rule: trim_left.induct)
  case (1 s)
  show ?case
  proof (cases "space_len s = 0")
    case True
    then show ?thesis by (simp add: trim_left.simps)
  next
    case False
    with 1 obtain a where "drop (space_len s) s = a @ trim_left (drop (space_len s) s)" by blast
    then have "s = (take (space_len s) s @ a) @ trim_left s"
      using False by (simp add: trim_left.simps [of s])
    then show ?thesis by blast
  qed
qed

lemma trim_rev_suffix: "\<exists>a. s = a @ trim_rev s"
proof (induction s rule: trim_rev.induct)
  case (1 s)
  show ?case
  proof (cases "space_len_rev s = 0")
    case True
    then show ?thesis by (simp add: trim_rev.simps)
  next
    case False
    with 1 obtain a where
      "drop (space_len_rev s) s = a @ trim_rev (drop (space_len_rev s) s)" by blast
    then have "s = (take (space_len_rev s) s @ a) @ trim_rev s"
      using False by (simp add: trim_rev.simps [of s])
    then show ?thesis by blast
  qed
qed

lemma TrimSpace_infix: "\<exists>a b. s = a @ TrimSpace s @ b"
proof -
  obtain a where a: "s = a @ trim_left s" using trim_left_suffix by blast
  obtain b where "rev (trim_left s) = b @ trim_rev (rev (trim_left s))"
    using trim_rev_suffix by blast
  then have "trim_left s = TrimSpace s @ rev b"
    by (metis TrimSpace_def rev_append rev_rev_ident)
  with a show ?thesis by metis
qed

text \<open>Blanks in front of a string, such as the indentation of a block, are dropped.\<close>

lemma space_len_ascii [simp]: "ascii_space c \<Longrightarrow> space_len (c # s) = 1"
  by (cases "c # s" rule: space_len.cases) auto

lemma trim_left_pad:
  "(\<And>c. c \<in> set pad \<Longrightarrow> ascii_space c) \<Longrightarrow> trim_left (pad @ s) = trim_left s"
  by (induction pad) (auto simp: trim_left.simps [of "_ # _"])

lemma TrimSpace_pad:
  "(\<And>c. c \<in> set pad \<Longrightarrow> ascii_space c) \<Longrightarrow> TrimSpace (pad @ s) = TrimSpace s"
  by (simp add: TrimSpace_def trim_left_pad)

lemma trim_left_keep: "space_len s = 0 \<Longrightarrow> trim_left s = s"
  by (simp add: trim_left.simps)

lemma trim_rev_keep: "space_len_rev s = 0 \<Longrightarrow> trim_rev s = s"
  by (simp add: trim_rev.simps)

lemma TrimSpace_keep: "space_len s = 0 \<Longrightarrow> space_len_rev (rev s) = 0 \<Longrightarrow> TrimSpace s = s"
  by (simp add: TrimSpace_def trim_left_keep trim_rev_keep)

lemma TrimSpace_Nil [simp]: "TrimSpace [] = []"
  by (simp add: TrimSpace_keep)

section \<open>Fields\<close>

text \<open>\<open>strings.Fields\<close>: the maximal runs without white space; \<open>cur\<close> is the run being read, reversed.\<close>

definition flush :: "string \<Rightarrow> string list" where
  "flush cur = (if cur = [] then [] else [rev cur])"

function fields_from :: "string \<Rightarrow> string \<Rightarrow> string list" where
  "fields_from cur [] = flush cur"
| "fields_from cur (c # cs) =
     (if space_len (c # cs) = 0 then fields_from (c # cur) cs
      else flush cur @ fields_from [] (drop (space_len (c # cs)) (c # cs)))"
  by pat_completeness auto
termination
proof (relation "measure (\<lambda>(cur, s). length s)")
  fix cur :: string and c :: char and cs :: string
  assume "space_len (c # cs) \<noteq> 0"
  with space_len_le [of "c # cs"]
  show "(([], drop (space_len (c # cs)) (c # cs)), cur, c # cs) \<in> measure (\<lambda>(cur, s). length s)"
    by auto
qed simp_all

definition Fields :: "string \<Rightarrow> string list" where
  "Fields s = fields_from [] s"

text \<open>
  Words: non-empty strings without ASCII blanks and without the bytes that can start the
  encoding of a wider blank.  Identifiers, numbers, addresses and keywords are words.
\<close>

definition space_byte :: "char \<Rightarrow> bool" where
  "space_byte c \<longleftrightarrow> ascii_space c \<or> c = CHR 0xC2 \<or> c = CHR 0xE1 \<or> c = CHR 0xE2 \<or> c = CHR 0xE3"

definition word_string :: "string \<Rightarrow> bool" where
  "word_string w \<longleftrightarrow> w \<noteq> [] \<and> (\<forall>c\<in>set w. \<not> space_byte c)"

lemma space_len_not_space_byte: "\<not> space_byte c \<Longrightarrow> space_len (c # s) = 0"
  by (cases "c # s" rule: space_len.cases) (auto simp: space_byte_def space2_def space3_def)

lemma fields_from_run:
  "(\<And>c. c \<in> set w \<Longrightarrow> \<not> space_byte c) \<Longrightarrow> fields_from cur (w @ s) = fields_from (rev w @ cur) s"
  by (induction w arbitrary: cur) (auto simp: space_len_not_space_byte)

lemma Fields_word_end: "word_string w \<Longrightarrow> Fields w = [w]"
  using fields_from_run [of w "[]" "[]"] by (auto simp: Fields_def word_string_def flush_def)

lemma fields_from_space [simp]:
  "fields_from cur (CHR '' '' # s) = flush cur @ fields_from [] s"
  by (simp add: ascii_space_def)

lemma Fields_word: "word_string w \<Longrightarrow> Fields (w @ CHR '' '' # s) = w # Fields s"
  using fields_from_run [of w "[]" "CHR '' '' # s"]
  by (auto simp: Fields_def word_string_def flush_def simp del: fields_from.simps)

lemma Fields_Nil [simp]: "Fields [] = []"
  by (simp add: Fields_def flush_def)

declare fields_from.simps(2) [simp del]

text \<open>
  Evaluation on lines that start with literal text: the run is collected character by
  character up to the next blank or up to a variable word.
\<close>

lemma fields_from_char [go_string]:
  "\<not> space_byte c \<Longrightarrow> fields_from cur (c # s) = fields_from (c # cur) s"
  by (simp add: fields_from.simps space_len_not_space_byte)

lemma fields_from_word [go_string]:
  "word_string w \<Longrightarrow> fields_from cur (w @ CHR '' '' # s) = rev (rev w @ cur) # fields_from [] s"
  "word_string w \<Longrightarrow> fields_from cur w = [rev (rev w @ cur)]"
  using fields_from_run [of w cur "CHR '' '' # s"] fields_from_run [of w cur "[]"]
  by (auto simp: word_string_def flush_def)

lemma fields_from_Nil [go_string]: "fields_from cur [] = (if cur = [] then [] else [rev cur])"
  by (simp add: flush_def)

lemma word_string_append:
  "word_string v \<Longrightarrow> word_string w \<Longrightarrow> word_string (v @ w)"
  by (auto simp: word_string_def)

text \<open>Splitting and joining words at single blanks are inverse.\<close>

lemma Fields_Join: "(\<And>w. w \<in> set ws \<Longrightarrow> word_string w) \<Longrightarrow> Fields (Join ws '' '') = ws"
  by (induction ws "'' ''" rule: Join.induct) (auto simp: Fields_word Fields_word_end)

section \<open>Other byte-wise operations\<close>

text \<open>\<open>strings.TrimRight\<close> with an ASCII cut set.\<close>

definition TrimRight :: "string \<Rightarrow> string \<Rightarrow> string" where
  "TrimRight s cutset = rev (dropWhile (\<lambda>c. c \<in> set cutset) (rev s))"

text \<open>\<open>strings.NewReplacer\<close> on one-byte old and new strings: the first pair for a byte counts.\<close>

definition replace_bytes :: "(char \<times> char) list \<Rightarrow> string \<Rightarrow> string" where
  "replace_bytes m s = map (\<lambda>c. case map_of m c of Some d \<Rightarrow> d | None \<Rightarrow> c) s"

lemma length_replace_bytes [simp]: "length (replace_bytes m s) = length s"
  by (simp add: replace_bytes_def)

definition lower_char :: "char \<Rightarrow> char" where
  "lower_char c =
     (case map_of (zip ''ABCDEFGHIJKLMNOPQRSTUVWXYZ'' ''abcdefghijklmnopqrstuvwxyz'') c of
        Some d \<Rightarrow> d | None \<Rightarrow> c)"

text \<open>
  \<open>strings.ToLower\<close>.  U+0130 and U+212A are the only code points beyond ASCII whose lower
  case is an ASCII letter; the other letters beyond ASCII are left as they are.
\<close>

fun ToLower :: "string \<Rightarrow> string" where
  "ToLower [] = []"
| "ToLower (a # s) =
     (case s of
        b # s' \<Rightarrow>
          if a = CHR 0xC4 \<and> b = CHR 0xB0 then CHR ''i'' # ToLower s'
          else (case s' of
                  c # s'' \<Rightarrow> if a = CHR 0xE2 \<and> b = CHR 0x84 \<and> c = CHR 0xAA
                             then CHR ''k'' # ToLower s'' else lower_char a # ToLower s
                | [] \<Rightarrow> lower_char a # ToLower s)
      | [] \<Rightarrow> [lower_char a])"

end
