(* ===== verification/Go_Conv.thy ===== *)
theory Go_Conv
  imports Go_Strings
begin

text \<open>
  Decimal conversion, Go's \<open>strconv.Itoa\<close> and \<open>strconv.Atoi\<close>, on 64-bit integers.
  \<open>Atoi\<close> is \<open>None\<close> where Go returns an error, for a syntax error as well as for a value
  outside the 64-bit range.
\<close>

definition int64 :: "int \<Rightarrow> bool" where
  "int64 v \<longleftrightarrow> - 9223372036854775808 \<le> v \<and> v \<le> 9223372036854775807"

definition digits :: string where "digits = ''0123456789''"

definition digit_char :: "nat \<Rightarrow> char" where
  "digit_char n = digits ! n"

definition digit_val :: "char \<Rightarrow> nat option" where
  "digit_val c = map_of (zip digits [0..<length digits]) c"

fun nat_digits :: "nat \<Rightarrow> string" where
  "nat_digits n =
     (if n < 10 then [digit_char n] else nat_digits (n div 10) @ [digit_char (n mod 10)])"

declare nat_digits.simps [simp del]

definition Itoa :: "int \<Rightarrow> string" where
  "Itoa v = (if v < 0 then CHR ''-'' # nat_digits (nat (- v)) else nat_digits (nat v))"

text \<open>The same on \<open>int\<close>, for evaluation: the kernel computes with binary integers, not with unary naturals.\<close>

fun int_digits :: "int \<Rightarrow> string" where
  "int_digits v =
     (if v < 10 then [digit_char (nat v)] else int_digits (v div 10) @ [digit_char (nat (v mod 10))])"

declare int_digits.simps [simp del]

lemma int_digits_nat: "0 \<le> v \<Longrightarrow> int_digits v = nat_digits (nat v)"
proof (induction v rule: int_digits.induct)
  case (1 v)
  then have "nat v < 10 \<longleftrightarrow> v < 10" by linarith
  with 1 show ?case
    by (simp add: int_digits.simps [of v] nat_digits.simps [of "nat v"] nat_div_distrib nat_mod_distrib)
qed

lemma Itoa_code [code]: "Itoa v = (if v < 0 then CHR ''-'' # int_digits (- v) else int_digits v)"
  by (simp add: Itoa_def int_digits_nat)

fun parse_digits :: "nat \<Rightarrow> string \<Rightarrow> nat option" where
  "parse_digits acc [] = Some acc"
| "parse_digits acc (c # cs) =
     (case digit_val c of Some d \<Rightarrow> parse_digits (10 * acc + d) cs | None \<Rightarrow> None)"

definition parse_nat :: "string \<Rightarrow> nat option" where
  "parse_nat s = (if s = [] then None else parse_digits 0 s)"

definition in_range :: "int \<Rightarrow> int option" where
  "in_range v = (if int64 v then Some v else None)"

definition Atoi :: "string \<Rightarrow> int option" where
  "Atoi s =
     (case s of
        [] \<Rightarrow> None
      | c # cs \<Rightarrow>
          if c = CHR ''-'' then Option.bind (parse_nat cs) (\<lambda>n. in_range (- int n))
          else if c = CHR ''+'' then Option.bind (parse_nat cs) (\<lambda>n. in_range (int n))
          else Option.bind (parse_nat s) (\<lambda>n. in_range (int n)))"

section \<open>Digits\<close>

lemma digits_facts [simp]: "length digits = 10" "distinct digits"
  by (simp_all add: digits_def)

lemma digit_val_char [simp]: "n < 10 \<Longrightarrow> digit_val (digit_char n) = Some n"
  unfolding digit_val_def digit_char_def by (subst map_of_zip_nth) auto

lemma digit_char_in: "n < 10 \<Longrightarrow> digit_char n \<in> set digits"
  unfolding digit_char_def by simp

lemma digits_not_special:
  "c \<in> set digits \<Longrightarrow> \<not> space_byte c \<and> c \<noteq> CHR ''-'' \<and> c \<noteq> CHR ''+'' \<and> c \<noteq> CHR '':'' \<and> c \<noteq> newline"
  by (auto simp: digits_def space_byte_def ascii_space_def)

lemma nat_digits_nonempty [simp]: "nat_digits n \<noteq> []"
  by (simp add: nat_digits.simps [of n])

lemma nat_digits_set: "set (nat_digits n) \<subseteq> set digits"
proof (induction n rule: nat_digits.induct)
  case (1 n)
  then show ?case
    by (auto simp: nat_digits.simps [of n] intro: digit_char_in)
qed

lemma word_string_nat_digits [simp]: "word_string (nat_digits n)"
  using nat_digits_set [of n] digits_not_special by (auto simp: word_string_def)

lemma word_string_Itoa [simp]: "word_string (Itoa v)"
proof -
  have "\<not> space_byte (CHR ''-'')" by (simp add: space_byte_def ascii_space_def)
  then have "word_string (CHR ''-'' # w)" if "word_string w" for w
    using that by (simp add: word_string_def)
  then show ?thesis by (simp add: Itoa_def)
qed

lemma Itoa_chars: "set (Itoa v) \<subseteq> insert (CHR ''-'') (set digits)"
  using nat_digits_set by (auto simp: Itoa_def)

lemma Itoa_nonempty [simp]: "Itoa v \<noteq> []"
  by (simp add: Itoa_def)

section \<open>Reading back what was written\<close>

lemma parse_digits_append:
  "parse_digits acc (xs @ ys) = Option.bind (parse_digits acc xs) (\<lambda>a. parse_digits a ys)"
  by (induction xs arbitrary: acc) (auto split: option.splits)

lemma parse_digits_nat_digits: "parse_digits 0 (nat_digits n) = Some n"
proof (induction n rule: nat_digits.induct)
  case (1 n)
  show ?case
  proof (cases "n < 10")
    case True
    then show ?thesis by (simp add: nat_digits.simps [of n])
  next
    case False
    with 1 show ?thesis by (simp add: nat_digits.simps [of n] parse_digits_append)
  qed
qed

lemma parse_nat_nat_digits [simp]: "parse_nat (nat_digits n) = Some n"
  by (simp add: parse_nat_def parse_digits_nat_digits)

lemma Atoi_Itoa [simp]: "int64 v \<Longrightarrow> Atoi (Itoa v) = Some v"
proof (cases "v < 0")
  case True
  assume "int64 v"
  with True show ?thesis by (simp add: Itoa_def Atoi_def in_range_def)
next
  case False
  assume i: "int64 v"
  obtain c cs where e: "nat_digits (nat v) = c # cs" by (cases "nat_digits (nat v)") auto
  then have "c \<in> set digits" using nat_digits_set [of "nat v"] by auto
  then have "c \<noteq> CHR ''-''" "c \<noteq> CHR ''+''" using digits_not_special by blast+
  with e have "Atoi (nat_digits (nat v)) = Option.bind (parse_nat (nat_digits (nat v))) (\<lambda>n. in_range (int n))"
    by (simp add: Atoi_def)
  with False i show ?thesis by (simp add: Itoa_def in_range_def)
qed

lemma Atoi_int64: "Atoi s = Some v \<Longrightarrow> int64 v"
  by (auto simp: Atoi_def in_range_def bind_eq_Some_conv split: list.splits if_splits)

text \<open>Decimal texts determine their numbers.\<close>

lemma digits_no_hyphen: "CHR ''-'' \<notin> set (nat_digits n)"
  using nat_digits_set [of n] digits_not_special by blast

lemma nat_digits_inj: "nat_digits m = nat_digits n \<Longrightarrow> m = n"
  by (metis parse_nat_nat_digits option.inject)

lemma nat_digits_hd: "\<exists>c cs. nat_digits n = c # cs \<and> c \<noteq> CHR ''-''"
  using digits_no_hyphen [of n] nat_digits_nonempty [of n] by (cases "nat_digits n") auto

lemma Itoa_injective:
  assumes "Itoa v = Itoa w"
  shows "v = w"
proof -
  have same: "v < 0 \<longleftrightarrow> w < 0"
    using assms nat_digits_hd [of "nat v"] nat_digits_hd [of "nat w"] by (auto simp: Itoa_def split: if_splits)
  then have "nat_digits (nat \<bar>v\<bar>) = nat_digits (nat \<bar>w\<bar>)" using assms by (auto simp: Itoa_def split: if_splits)
  with same show ?thesis by (auto dest!: nat_digits_inj)
qed

lemma Itoa_inj: "int64 v \<Longrightarrow> int64 w \<Longrightarrow> Itoa v = Itoa w \<Longrightarrow> v = w"
  by (metis Atoi_Itoa option.inject)

lemma int64_small: "0 \<le> v \<Longrightarrow> v \<le> 9223372036854775807 \<Longrightarrow> int64 v"
  by (simp add: int64_def)

lemma positive_int64: "pred_option int64 p \<Longrightarrow> pred_option int64 (positive p)"
  by (auto simp: option.pred_set positive_def split: option.splits if_splits)

text \<open>A reader that keeps the old value when the text is not a number.\<close>

definition atoi_or :: "int \<Rightarrow> string \<Rightarrow> int" where
  "atoi_or old s = (case Atoi s of Some v \<Rightarrow> v | None \<Rightarrow> old)"

lemma atoi_or_Itoa [simp]: "int64 v \<Longrightarrow> atoi_or old (Itoa v) = v"
  by (simp add: atoi_or_def)

end
