(* ===== verification/Go_Float.thy ===== *)
theory Go_Float
  imports Complex_Main "HOL-Library.Log_Nat"
begin

text \<open>
  Go's float64 as far as the program uses it: rounding to the nearest double, with ties to
  the even one, of non-negative numbers in the normal range, and the durations of package
  time as floats.
\<close>

section \<open>Rounding to 53 bits\<close>

definition round_even :: "rat \<Rightarrow> int" where
  "round_even y =
     (let n = \<lfloor>y\<rfloor>; d = y - of_int n
      in if d < 1 / 2 \<or> d = 1 / 2 \<and> even n then n else n + 1)"

text \<open>The exponent of a positive number: the \<open>e\<close> with \<open>2 ^ e \<le> x < 2 ^ (e + 1)\<close>.\<close>

definition exponent :: "rat \<Rightarrow> int" where
  "exponent x =
     (if 1 \<le> x then int (floorlog 2 (nat \<lfloor>x\<rfloor>)) - 1
      else - int (floorlog 2 (nat (\<lceil>1 / x\<rceil> - 1))))"

definition float64 :: "rat \<Rightarrow> rat" where
  "float64 x =
     (if x = 0 then 0
      else (let u = 2 powi (52 - exponent x) in of_int (round_even (x * u)) / u))"

lemma round_even_bounds: "\<bar>of_int (round_even y) - y\<bar> \<le> 1 / 2"
proof -
  define n where "n = \<lfloor>y\<rfloor>"
  have f: "of_int n \<le> y" "y < of_int n + 1" using floor_correct [of y] by (simp_all add: n_def)
  then show ?thesis
    unfolding round_even_def Let_def abs_le_iff n_def [symmetric] by (cases "even n") auto
qed

lemma round_even_ge:
  assumes "of_int n \<le> y"
  shows "n \<le> round_even y"
proof -
  from assms have "n \<le> \<lfloor>y\<rfloor>" by (simp add: le_floor_iff)
  then show ?thesis by (simp add: round_even_def Let_def)
qed

lemma round_even_int [simp]: "round_even (of_int n) = n"
  by (simp add: round_even_def)

lemma exponent_bounds:
  assumes "0 < x"
  shows "2 powi exponent x \<le> x" and "x < 2 powi (exponent x + 1)"
proof -
  have "2 powi exponent x \<le> x \<and> x < 2 powi (exponent x + 1)"
  proof (cases "1 \<le> x")
    case True
    define m where "m = nat \<lfloor>x\<rfloor>"
    have m: "0 < m" "of_nat m \<le> x" "x < of_nat m + 1"
      using True by (simp_all add: m_def le_floor_iff zero_less_floor) linarith+
    define k where "k = floorlog 2 m"
    have b: "2 ^ (k - 1) \<le> m" "m < 2 ^ k"
      using floorlog_bounds [of m 2] m(1) by (simp_all add: k_def)
    have k: "0 < k" using b m(1) by (cases k) auto
    have e: "exponent x = int (k - 1)" using True k by (simp add: exponent_def k_def m_def)
    have "(2::rat) ^ (k - 1) \<le> of_nat m" using b(1) by (metis of_nat_le_iff of_nat_numeral of_nat_power)
    moreover have "of_nat m + 1 \<le> (2::rat) ^ k"
      using b(2) by (metis Suc_leI of_nat_Suc of_nat_le_iff of_nat_numeral of_nat_power add.commute)
    moreover have "exponent x + 1 = int k" using e k by simp
    ultimately show ?thesis using m e by (simp only: power_int_of_nat) linarith
  next
    case False
    define m where "m = nat (\<lceil>1 / x\<rceil> - 1)"
    have x1: "1 < 1 / x" using False assms by simp
    then have c: "1 < \<lceil>1 / x\<rceil>" by (simp add: less_ceiling_iff)
    have m: "0 < m" "of_nat m < 1 / x" "1 / x \<le> of_nat m + 1"
      using c by (simp_all add: m_def) linarith+
    define k where "k = floorlog 2 m"
    have b: "2 ^ (k - 1) \<le> m" "m < 2 ^ k"
      using floorlog_bounds [of m 2] m(1) by (simp_all add: k_def)
    have k: "0 < k" using b m(1) by (cases k) auto
    have e: "exponent x = - int k" "exponent x + 1 = - int (k - 1)"
      using False k by (simp_all add: exponent_def k_def m_def)
    have lo: "(2::rat) ^ (k - 1) \<le> of_nat m" using b(1) by (metis of_nat_le_iff of_nat_numeral of_nat_power)
    have hi: "of_nat m + 1 \<le> (2::rat) ^ k"
      using b(2) by (metis Suc_leI of_nat_Suc of_nat_le_iff of_nat_numeral of_nat_power add.commute)
    have "1 / x \<le> 2 ^ k" "2 ^ (k - 1) < 1 / x" using lo hi m by linarith+
    then have "inverse (2 ^ k) \<le> x" "x < inverse (2 ^ (k - 1))"
      using assms by (simp_all add: field_simps)
    moreover have "(2::rat) powi exponent x = inverse (2 ^ k)"
      unfolding e(1) power_int_minus power_int_of_nat ..
    moreover have "(2::rat) powi (exponent x + 1) = inverse (2 ^ (k - 1))"
      unfolding e(2) power_int_minus power_int_of_nat ..
    ultimately show ?thesis by simp
  qed
  then show "2 powi exponent x \<le> x" and "x < 2 powi (exponent x + 1)" by simp_all
qed

lemma exponent_less:
  assumes "0 < x" and "x < 2 powi b"
  shows "exponent x < b"
proof (rule ccontr)
  assume "\<not> exponent x < b"
  then have "(2::rat) powi b \<le> 2 powi exponent x" by (intro power_int_increasing) auto
  with exponent_bounds(1) [OF assms(1)] assms(2) show False by linarith
qed

text \<open>The error is at most half a unit in the last place.\<close>

lemma float64_le:
  assumes "0 \<le> x" and "x < 2 powi b"
  shows "float64 x \<le> x + 2 powi (b - 54)"
proof (cases "x = 0")
  case True
  then show ?thesis by (simp add: float64_def)
next
  case False
  define e where "e = exponent x"
  define u :: rat where "u = 2 powi (52 - e)"
  have u: "0 < u" by (simp add: u_def)
  have "of_int (round_even (x * u)) \<le> x * u + 1 / 2" using round_even_bounds [of "x * u"] by linarith
  with u have "of_int (round_even (x * u)) / u \<le> x + 1 / 2 / u" by (simp add: field_simps)
  moreover have "1 / 2 / u = 2 powi (e - 53)"
    by (simp add: u_def power_int_diff divide_simps)
  moreover have "(2::rat) powi (e - 53) \<le> 2 powi (b - 54)"
    using exponent_less [of x b] False assms by (intro power_int_increasing) (auto simp: e_def)
  moreover have "float64 x = of_int (round_even (x * u)) / u"
    using False by (simp add: float64_def u_def e_def Let_def)
  ultimately show ?thesis by linarith
qed

text \<open>The exponent and the nearest integer are determined by their bounds.\<close>

lemma round_even_nearest:
  assumes "\<bar>y - of_int n\<bar> < 1 / 2"
  shows "round_even y = n"
proof -
  have "\<bar>of_int (round_even y) - of_int n\<bar> < (1 :: rat)" using assms round_even_bounds [of y] by linarith
  then have "of_int \<bar>round_even y - n\<bar> < (1 :: rat)" by simp
  then show ?thesis by (simp only: of_int_less_1_iff)
qed

lemma exponent_unique:
  assumes "2 powi e \<le> x" and "x < 2 powi (e + 1)"
  shows "exponent x = e"
proof -
  have "(0::rat) < 2 powi e" by simp
  with assms(1) have x: "0 < x" by linarith
  have "exponent x < e + 1" using x assms(2) by (rule exponent_less)
  moreover have "(2::rat) powi e < 2 powi (exponent x + 1)" using assms(1) exponent_bounds(2) [OF x] by linarith
  then have "e < exponent x + 1"
    by (metis linorder_not_less power_int_increasing one_le_numeral)
  ultimately show ?thesis by linarith
qed

lemma float64_eqI:
  assumes "2 powi e \<le> x" and "x < 2 powi (e + 1)" and "\<bar>x * 2 powi (52 - e) - of_int n\<bar> < 1 / 2"
  shows "float64 x = of_int n / 2 powi (52 - e)"
proof -
  have "(0::rat) < 2 powi e" by simp
  with assms(1) have "x \<noteq> 0" by linarith
  then show ?thesis
    using exponent_unique [OF assms(1,2)] round_even_nearest [OF assms(3)] by (simp add: float64_def Let_def)
qed

text \<open>Rounding does not pass an integer, and leaves integers as they are.\<close>

lemma scaled_int:
  assumes "0 < x" and "x < 2 powi 53"
  obtains k where "\<And>n. of_int n * 2 powi (52 - exponent x) = (of_int (n * 2 ^ k) :: rat)"
proof
  from exponent_less [OF assms] have "52 - exponent x = int (nat (52 - exponent x))" by simp
  then have "(2::rat) powi (52 - exponent x) = 2 ^ nat (52 - exponent x)"
    by (metis power_int_of_nat)
  then show "of_int n * 2 powi (52 - exponent x) = (of_int (n * 2 ^ nat (52 - exponent x)) :: rat)" for n
    by simp
qed

lemma float64_ge:
  assumes "0 \<le> x" and "x < 2 powi 53" and "of_int n \<le> x"
  shows "of_int n \<le> float64 x"
proof (cases "x = 0")
  case True
  with assms(3) show ?thesis by (simp add: float64_def)
next
  case False
  with assms(1) have x: "0 < x" by simp
  define u :: rat where "u = 2 powi (52 - exponent x)"
  have u: "0 < u" by (simp add: u_def)
  obtain k where k: "of_int n * u = (of_int (n * 2 ^ k) :: rat)"
    unfolding u_def using scaled_int [OF x assms(2)] by metis
  have "of_int n * u \<le> x * u" using assms(3) u by simp
  then have "n * 2 ^ k \<le> round_even (x * u)" unfolding k by (rule round_even_ge)
  then have "of_int n * u \<le> of_int (round_even (x * u))" unfolding k by (simp only: of_int_le_iff)
  then have "of_int n \<le> of_int (round_even (x * u)) / u" using u by (simp add: field_simps)
  with x show ?thesis by (simp add: float64_def u_def Let_def)
qed

lemma float64_int:
  assumes "0 \<le> n" and "n < 2 ^ 53"
  shows "float64 (of_int n) = of_int n"
proof (cases "n = 0")
  case True
  then show ?thesis by (simp add: float64_def)
next
  case False
  with assms have x: "0 < (of_int n :: rat)" by simp
  have "(of_int n :: rat) < of_int (2 ^ 53)" using assms(2) by (simp only: of_int_less_iff)
  then have x': "(of_int n :: rat) < 2 powi 53" by simp
  define u :: rat where "u = 2 powi (52 - exponent (of_int n))"
  have u: "0 < u" by (simp add: u_def)
  obtain k where k: "of_int n * u = (of_int (n * 2 ^ k) :: rat)"
    unfolding u_def using scaled_int [OF x x'] by metis
  have "of_int (round_even (of_int n * u)) = of_int n * u" unfolding k round_even_int ..
  with x u show ?thesis by (simp add: float64_def u_def Let_def)
qed

section \<open>Durations\<close>

text \<open>
  \<open>Duration.Hours\<close>, \<open>Minutes\<close> and \<open>Seconds\<close> of package time, for a duration of \<open>t\<close>
  nanoseconds and a unit of \<open>u\<close> nanoseconds: the whole units and the rest are converted,
  and added, as floats.  \<open>int(...)\<close> truncates.
\<close>

definition units :: "int \<Rightarrow> int \<Rightarrow> rat" where
  "units u t = float64 (float64 (of_int (t div u)) + float64 (float64 (of_int (t mod u)) / of_int u))"

definition int_units :: "int \<Rightarrow> int \<Rightarrow> int" where
  "int_units u t = \<lfloor>units u t\<rfloor>"

text \<open>
  The float agrees with integer division as long as two roundings cannot reach the next
  whole unit.
\<close>

lemma int_units_div:
  fixes b :: nat
  assumes t: "0 \<le> t" "t < u * 2 ^ b" and b: "b \<le> 53" and u: "0 < u" "u < 2 ^ 53"
    and gap: "2 powi (- 54) + 2 powi (int b - 54) < (1 / of_int u :: rat)"
  shows "int_units u t = t div u"
proof -
  define h r where "h = t div u" and "r = t mod u"
  define q :: rat where "q = of_int r / of_int u"
  have "u * h \<le> t" unfolding h_def using pos_mod_sign [OF u(1), of t] mult_div_mod_eq [of u t] by linarith
  then have "u * h < u * 2 ^ b" using t(2) by linarith
  with t(1) u(1) have h: "0 \<le> h" "h < 2 ^ b" by (simp_all add: h_def pos_imp_zdiv_nonneg_iff)
  have r: "0 \<le> r" "r \<le> u - 1" using u(1) pos_mod_bound [of u t] by (simp_all add: r_def)
  have "(2::int) ^ b \<le> 2 ^ 53" using b by (intro power_increasing) auto
  with h have h53: "h < 2 ^ 53" by linarith
  have "of_int r \<le> (of_int u - 1 :: rat)" using r(2) by (metis of_int_1 of_int_diff of_int_le_iff)
  then have q: "0 \<le> q" "q \<le> 1 - 1 / of_int u" using r(1) u(1) by (simp_all add: q_def field_simps)
  have q1: "q < 2 powi 0" using q(2) u(1) by (simp add: field_simps) (use r(2) in \<open>simp add: q_def field_simps\<close>)
  have q': "0 \<le> float64 q" "float64 q \<le> q + 2 powi (- 54)"
    using float64_ge [of q 0] float64_le [of q 0] q(1) q1 by auto
  define s :: rat where "s = of_int h + float64 q"
  have un: "units u t = float64 s"
    using float64_int [of h] float64_int [of r] h(1) h53 r u(2)
    by (simp add: units_def s_def q_def h_def [symmetric] r_def [symmetric])
  have g: "(0::rat) < 2 powi (int b - 54)" by simp
  have s1: "s + 2 powi (int b - 54) < of_int h + 1" using gap q(2) q'(2) by (simp add: s_def)
  have hb: "of_int h + 1 \<le> (2::rat) ^ b" using h(2)
    by (metis (mono_tags, opaque_lifting) of_int_1 of_int_add of_int_le_iff of_int_numeral of_int_power zless_imp_add1_zle)
  have "0 \<le> (of_int h :: rat)" using h(1) by simp
  then have s0: "0 \<le> s" "s < 2 powi int b" using q'(1) s1 g hb unfolding s_def power_int_of_nat by linarith+
  have "(2::rat) powi int b \<le> 2 powi 53" using b by (intro power_int_increasing) auto
  then have s53: "s < 2 powi 53" using s0 by linarith
  have "of_int h \<le> units u t" unfolding un using q'(1) by (intro float64_ge s0 s53) (simp add: s_def)
  moreover have "units u t < of_int h + 1" unfolding un using float64_le [OF s0] s1 by linarith
  ultimately show ?thesis by (simp add: int_units_def h_def floor_eq_iff)
qed

text \<open>The two roundings of one conversion, given by their results.\<close>

lemma int_units_eqI:
  assumes "t div u = h" "0 \<le> h" "h < 2 ^ 53" and "t mod u = r" "0 \<le> r" "r < 2 ^ 53"
    and "2 powi e \<le> (of_int r / of_int u :: rat)" "of_int r / of_int u < (2 powi (e + 1) :: rat)"
      "\<bar>of_int r / of_int u * 2 powi (52 - e) - of_int n\<bar> < (1 / 2 :: rat)"
    and "q = (of_int n / 2 powi (52 - e) :: rat)"
    and "2 powi e' \<le> of_int h + q" "of_int h + q < 2 powi (e' + 1)"
      "\<bar>(of_int h + q) * 2 powi (52 - e') - of_int n'\<bar> < 1 / 2"
    and "of_int m \<le> (of_int n' / 2 powi (52 - e') :: rat)" "of_int n' / 2 powi (52 - e') < (of_int m + 1 :: rat)"
  shows "int_units u t = m"
proof -
  have "float64 (of_int r / of_int u) = q" unfolding assms(10) by (rule float64_eqI) (rule assms)+
  moreover have "float64 (of_int h + q) = of_int n' / 2 powi (52 - e')" by (rule float64_eqI) (rule assms)+
  ultimately have "units u t = of_int n' / 2 powi (52 - e')"
    using float64_int [of h] float64_int [of r] assms(2,3,5,6) by (simp add: units_def assms(1,4))
  with assms(14,15) show ?thesis by (simp add: int_units_def floor_eq_iff)
qed

lemma rounded_hours: "int_units 3600000000000 14749199999999999 = 4097"
  by (rule int_units_eqI [where h = 4096 and r = 3599999999999 and e = "-1" and n = 9007199254738490 and e' = 12 and n' = 4504699138998272, OF _ _ _ _ _ _ _ _ _ refl])
    (simp_all add: power_int_minus)

lemma rounded_minutes: "int_units 60000000000 14749199999999999 = 245819"
  by (rule int_units_eqI [where h = 245819 and r = 59999999999 and e = "-1" and n = 9007199254590872 and e' = 17 and n' = 8446310885621759, OF _ _ _ _ _ _ _ _ _ refl])
    (simp_all add: power_int_minus)

lemma rounded_seconds: "int_units 1000000000 14749199999999999 = 14749199"
  by (rule int_units_eqI [where h = 14749199 and r = 999999999 and e = "-1" and n = 9007199245733793 and e' = 23 and n' = 7918416455270399, OF _ _ _ _ _ _ _ _ _ refl])
    (simp_all add: power_int_minus)

end
