(* ===== verification/Eapi.thy ===== *)
theory Eapi
  imports Go_Conv Go_Float
begin

text \<open>
  \<open>internal/client/eapi/client.go\<close>: the connection to one device and its named
  configuration sessions.  The third-party node, the HTTP transport, the context and the
  device behind them are the fields of \<open>env\<close>, over an arbitrary state \<open>'w\<close> of the world;
  everything the client itself decides is defined here.
\<close>

section \<open>The environment of a client\<close>

record http_request =
  hr_Url :: string
  hr_Body :: json
  hr_Username :: string
  hr_Password :: string
  hr_Timeout :: int
  hr_InsecureSkipVerify :: bool

text \<open>\<open>richRPCResponse\<close>: the result rows and the error object, if there is one.\<close>

record richRPCResponse =
  rpc_Result :: "row list"
  rpc_Error :: "(int \<times> string) option"

text \<open>
  \<open>goeapi_connect\<close> is \<open>goeapi.Connect(transport, host, username, password, port)\<close> and
  \<open>node_run\<close> is \<open>node.RunCommands\<close>; \<open>new_request_err\<close> is the error of
  \<open>http.NewRequestWithContext\<close> for a URL; \<open>http_do\<close> sends a request and decodes the
  answer (the outer error is the transport's, the inner one the decoder's); \<open>ctx_err\<close> is
  \<open>ctx.Err()\<close> in a state of the world, and \<open>select_done\<close> the choice of \<open>select\<close> when both of its
  branches are ready.
\<close>

record ('n, 'w) env =
  goeapi_connect :: "string \<Rightarrow> string \<Rightarrow> string \<Rightarrow> string \<Rightarrow> int \<Rightarrow> error + 'n"
  node_run :: "'n \<Rightarrow> string list \<Rightarrow> string \<Rightarrow> 'w \<Rightarrow> (error + row list) \<times> 'w"
  new_request_err :: "string \<Rightarrow> error option"
  http_do :: "http_request \<Rightarrow> 'w \<Rightarrow> (error + (error + richRPCResponse)) \<times> 'w"
  ctx_err :: "'w \<Rightarrow> error option"
  select_done :: "'w \<Rightarrow> bool"

section \<open>Configuration and connection\<close>

definition DefaultPort :: int where "DefaultPort = 443"

text \<open>Durations are 64-bit counts of nanoseconds.\<close>

definition second :: int where "second = 1000000000"

definition DefaultCommitTimer :: int where "DefaultCommitTimer = 300 * second"

definition ErrRichRPCFailure :: error where
  [errs]: "ErrRichRPCFailure = Sentinel ''eapi: rich runCmds RPC failure''"
definition ErrHostRequired :: error where
  [errs]: "ErrHostRequired = Sentinel ''eapi: host is required''"
definition ErrUsernameRequired :: error where
  [errs]: "ErrUsernameRequired = Sentinel ''eapi: username is required''"
definition ErrClientNotInit :: error where
  [errs]: "ErrClientNotInit = Sentinel ''eapi: client not initialised''"
definition ErrSessionNameRequired :: error where
  [errs]: "ErrSessionNameRequired = Sentinel ''eapi: session name is required''"
definition ErrSessionClosed :: error where
  [errs]: "ErrSessionClosed = Sentinel ''eapi: session is closed''"

record eapi_config =
  ec_Host :: string
  ec_Port :: int
  ec_Username :: string
  ec_Password :: string
  ec_Timeout :: int
  ec_UseHTTPS :: bool

definition validate_config :: "eapi_config \<Rightarrow> error option" where
  "validate_config c =
     (if ec_Host c = [] then Some ErrHostRequired
      else if ec_Username c = [] then Some ErrUsernameRequired
      else None)"

text \<open>\<open>sessionSlot\<close> is the one-place channel: \<open>True\<close> when it holds a token.\<close>

record 'n client =
  cl_cfg :: eapi_config
  cl_node :: "'n option"
  cl_slot :: bool

definition effective_port :: "int \<Rightarrow> int" where
  "effective_port p = (if p = 0 then DefaultPort else p)"

definition New :: "('n, 'w) env \<Rightarrow> eapi_config \<Rightarrow> 'n client res" where
  "New E cfg =
     (case validate_config cfg of
        Some e \<Rightarrow> Err e
      | None \<Rightarrow>
          (let transport = (if ec_UseHTTPS cfg then ''https'' else ''http'');
               port = effective_port (ec_Port cfg)
           in case goeapi_connect E transport (ec_Host cfg) (ec_Username cfg) (ec_Password cfg) port of
                Inl e \<Rightarrow> Err (Wrap (''eapi: connect '' @ ec_Host cfg) e)
              | Inr node \<Rightarrow> Ok \<lparr>cl_cfg = cfg, cl_node = Some node, cl_slot = False\<rparr>))"

section \<open>Running commands\<close>

definition RunCmds ::
  "('n, 'w) env \<Rightarrow> 'n client \<Rightarrow> string list \<Rightarrow> string \<Rightarrow> 'w \<Rightarrow> row list res \<times> 'w" where
  "RunCmds E c cmds fmt w =
     (case cl_node c of
        None \<Rightarrow> (Err ErrClientNotInit, w)
      | Some node \<Rightarrow>
          (case ctx_err E w of
             Some e \<Rightarrow> (Err e, w)
           | None \<Rightarrow>
               (case node_run E node cmds (if fmt = [] then ''json'' else fmt) w of
                  (Inl e, w') \<Rightarrow> (Err (Wrap (''eapi: runCmds ['' @ Join cmds '' '' @ '']'') e), w')
                | (Inr rows, w') \<Rightarrow> (Ok rows, w'))))"

text \<open>A rich command; \<open>Input = []\<close> is a plain one.\<close>

record command =
  Cmd :: string
  Input :: string

definition payload_cmd :: "command \<Rightarrow> json" where
  "payload_cmd c =
     (if Input c = [] then JStr (Cmd c)
      else JObj [(''cmd'', JStr (Cmd c)), (''input'', JStr (Input c))])"

text \<open>The value that \<open>json.Marshal\<close> renders; marshalling strings and integers cannot fail.\<close>

definition buildRichPayload :: "command list \<Rightarrow> string \<Rightarrow> json" where
  "buildRichPayload cmds fmt =
     JObj [(''jsonrpc'', JStr ''2.0''),
           (''method'', JStr ''runCmds''),
           (''params'', JObj [(''version'', JNum 1),
                              (''cmds'', JArr (JStr ''enable'' # map payload_cmd cmds)),
                              (''format'', JStr fmt)]),
           (''id'', JStr ''1'')]"

definition postEAPI ::
  "('n, 'w) env \<Rightarrow> 'n client \<Rightarrow> json \<Rightarrow> 'w \<Rightarrow> richRPCResponse res \<times> 'w" where
  "postEAPI E c body w =
     (let cfg = cl_cfg c;
          scheme = (if ec_UseHTTPS cfg then ''https'' else ''http'');
          url = scheme @ ''://'' @ ec_Host cfg @ '':'' @ Itoa (effective_port (ec_Port cfg)) @ ''/command-api''
      in case new_request_err E url of
           Some e \<Rightarrow> (Err (Wrap ''eapi: build rich request'' e), w)
         | None \<Rightarrow>
             (case http_do E \<lparr>hr_Url = url, hr_Body = body,
                              hr_Username = ec_Username cfg, hr_Password = ec_Password cfg,
                              hr_Timeout = (if ec_Timeout cfg = 0 then 30 * second else ec_Timeout cfg),
                              hr_InsecureSkipVerify = (\<not> ec_UseHTTPS cfg)\<rparr> w of
                (Inl e, w') \<Rightarrow> (Err (Wrap ''eapi: rich request'' e), w')
              | (Inr (Inl e), w') \<Rightarrow> (Err (Wrap ''eapi: decode rich response'' e), w')
              | (Inr (Inr rpc), w') \<Rightarrow> (Ok rpc, w')))"

definition RunCmdsRich ::
  "('n, 'w) env \<Rightarrow> 'n client \<Rightarrow> command list \<Rightarrow> string \<Rightarrow> 'w \<Rightarrow> row list res \<times> 'w" where
  "RunCmdsRich E c cmds fmt w =
     (case ctx_err E w of
        Some e \<Rightarrow> (Err e, w)
      | None \<Rightarrow>
          (case postEAPI E c (buildRichPayload cmds (if fmt = [] then ''json'' else fmt)) w of
             (r, w') \<Rightarrow>
               (bind_res r (\<lambda>rpc.
                  case rpc_Error rpc of
                    Some (code, msg) \<Rightarrow> Err (Got ErrRichRPCFailure [DInt code, DStr msg])
                  | None \<Rightarrow> Ok (case rpc_Result rpc of [] \<Rightarrow> [] | _ # rows \<Rightarrow> rows)), w')))"

section \<open>Configuration sessions\<close>

text \<open>
  A session holds its parent client, as the Go value holds a pointer to it; the only
  mutable part of the client is the slot, which the operations below thread through.
\<close>

record 'n session =
  s_parent :: "'n client"
  s_name :: string
  s_open :: bool

definition open_cmds :: "string \<Rightarrow> string list" where
  "open_cmds name = [''configure session '' @ name, ''end'']"

text \<open>
  \<open>OpenSession\<close> in its two parts: the \<open>select\<close> that waits for the slot or for the context, and
  the open commands, after whose failure the slot is drained again.
\<close>

definition acquire_slot :: "('n, 'w) env \<Rightarrow> 'n client \<Rightarrow> string \<Rightarrow> 'w \<Rightarrow> 'n client res" where
  "acquire_slot E c name w =
     (if name = [] then Err ErrSessionNameRequired
      else if \<not> cl_slot c \<and> (ctx_err E w = None \<or> \<not> select_done E w) then Ok (c\<lparr>cl_slot := True\<rparr>)
      else (case ctx_err E w of Some e \<Rightarrow> Err e | None \<Rightarrow> Blocked))"

definition finish_open ::
  "('n, 'w) env \<Rightarrow> 'n client \<Rightarrow> string \<Rightarrow> 'w \<Rightarrow> 'n session res \<times> 'n client \<times> 'w" where
  "finish_open E c name w =
     (case RunCmds E c (open_cmds name) ''json'' w of
        (r, w') \<Rightarrow>
          (errorf (''eapi: open session '' @ name)
             (map_res (\<lambda>_. \<lparr>s_parent = c, s_name = name, s_open = True\<rparr>) r),
           (if is_Ok r then c else c\<lparr>cl_slot := False\<rparr>), w'))"

definition OpenSession ::
  "('n, 'w) env \<Rightarrow> 'n client \<Rightarrow> string \<Rightarrow> 'w \<Rightarrow> 'n session res \<times> 'n client \<times> 'w" where
  "OpenSession E c name w =
     (case acquire_slot E c name w of
        Ok c' \<Rightarrow> finish_open E c' name w
      | Err e \<Rightarrow> (Err e, c, w)
      | Panic \<Rightarrow> (Panic, c, w)
      | Blocked \<Rightarrow> (Blocked, c, w))"

lemma OpenSession_eq:
  "OpenSession E c name w =
     (if name = [] then (Err ErrSessionNameRequired, c, w)
      else if \<not> cl_slot c \<and> (ctx_err E w = None \<or> \<not> select_done E w) then
        (let c' = c\<lparr>cl_slot := True\<rparr>
         in case RunCmds E c' (open_cmds name) ''json'' w of
              (r, w') \<Rightarrow>
                (errorf (''eapi: open session '' @ name)
                   (map_res (\<lambda>_. \<lparr>s_parent = c', s_name = name, s_open = True\<rparr>) r),
                 (if is_Ok r then c' else c'\<lparr>cl_slot := False\<rparr>), w'))
      else (case ctx_err E w of
              Some e \<Rightarrow> (Err e, c, w)
            | None \<Rightarrow> (Blocked, c, w)))"
  by (simp add: OpenSession_def acquire_slot_def finish_open_def Let_def split: option.splits)

definition stage_cmds :: "string \<Rightarrow> string list \<Rightarrow> string list" where
  "stage_cmds name cmds = (''configure session '' @ name) # cmds @ [''end'']"

abbreviation drop_value :: "'a res \<Rightarrow> unit res" where
  "drop_value r \<equiv> map_res (\<lambda>_. ()) r"

definition Stage ::
  "('n, 'w) env \<Rightarrow> 'n session \<Rightarrow> string list \<Rightarrow> 'w \<Rightarrow> unit res \<times> 'w" where
  "Stage E s cmds w =
     (if \<not> s_open s then (Err ErrSessionClosed, w)
      else case RunCmds E (s_parent s) (stage_cmds (s_name s) cmds) ''json'' w of
             (r, w') \<Rightarrow> (errorf (''eapi: stage in '' @ s_name s) (drop_value r), w'))"

definition plain :: "string \<Rightarrow> command" where
  "plain l = \<lparr>Cmd = l, Input = []\<rparr>"

definition StageRich ::
  "('n, 'w) env \<Rightarrow> 'n session \<Rightarrow> command list \<Rightarrow> 'w \<Rightarrow> unit res \<times> 'w" where
  "StageRich E s cmds w =
     (if \<not> s_open s then (Err ErrSessionClosed, w)
      else case RunCmdsRich E (s_parent s)
                  (plain (''configure session '' @ s_name s) # cmds @ [plain ''end'']) ''json'' w of
             (r, w') \<Rightarrow> (errorf (''eapi: stage rich in '' @ s_name s) (drop_value r), w'))"

definition Diff :: "('n, 'w) env \<Rightarrow> 'n session \<Rightarrow> 'w \<Rightarrow> string res \<times> 'w" where
  "Diff E s w =
     (if \<not> s_open s then (Err ErrSessionClosed, w)
      else case RunCmds E (s_parent s)
                  [''show session-config named '' @ s_name s @ '' diffs''] ''text'' w of
             (r, w') \<Rightarrow> (errorf (''eapi: diff '' @ s_name s) (map_res text_output r), w'))"

text \<open>\<open>release\<close>: a non-blocking receive from the slot.\<close>

definition release :: "'n session \<Rightarrow> 'n session" where
  "release s = s\<lparr>s_parent := (s_parent s)\<lparr>cl_slot := False\<rparr>\<rparr>"

definition commit_cmd :: "string \<Rightarrow> string" where
  "commit_cmd name = ''configure session '' @ name @ '' commit''"

definition abort_cmd :: "string \<Rightarrow> string" where
  "abort_cmd name = ''no configure session '' @ name"

definition Commit ::
  "('n, 'w) env \<Rightarrow> 'n session \<Rightarrow> 'w \<Rightarrow> unit res \<times> 'n session \<times> 'w" where
  "Commit E s w =
     (if \<not> s_open s then (Err ErrSessionClosed, s, w)
      else case RunCmds E (s_parent s) [commit_cmd (s_name s)] ''json'' w of
             (r, w') \<Rightarrow> (errorf (''eapi: commit '' @ s_name s) (drop_value r),
                         release (s\<lparr>s_open := False\<rparr>), w'))"

definition Abort ::
  "('n, 'w) env \<Rightarrow> 'n session \<Rightarrow> 'w \<Rightarrow> unit res \<times> 'n session \<times> 'w" where
  "Abort E s w =
     (if \<not> s_open s then (Ok (), s, w)
      else case RunCmds E (s_parent s) [abort_cmd (s_name s)] ''json'' w of
             (r, w') \<Rightarrow> (errorf (''eapi: abort '' @ s_name s) (drop_value r),
                         release (s\<lparr>s_open := False\<rparr>), w'))"

section \<open>Confirmed commit\<close>

text \<open>
  \<open>timeout.Hours()\<close> and its kin are float64; \<open>int(...)\<close> truncates.
\<close>

definition pad2 :: "int \<Rightarrow> string" where
  "pad2 v = (if 0 \<le> v \<and> v < 10 then CHR ''0'' # Itoa v else Itoa v)"

lemma length_pad2: "0 \<le> v \<Longrightarrow> v < 100 \<Longrightarrow> length (pad2 v) = 2"
  by (auto simp: pad2_def Itoa_def nat_digits.simps [of "nat v"] nat_digits.simps [of "nat v div 10"])

lemma sexagesimal:
  fixes x :: int
  shows "x div 60 - x div 60 div 60 * 60 = x div 60 mod 60"
    and "x - x div 60 div 60 * 3600 - x div 60 mod 60 * 60 = x mod 60"
proof -
  have x: "x = x div 60 * 60 + x mod 60" by (rule div_mult_mod_eq [symmetric])
  have y: "x div 60 = x div 60 div 60 * 60 + x div 60 mod 60" by (rule div_mult_mod_eq [symmetric])
  from y show "x div 60 - x div 60 div 60 * 60 = x div 60 mod 60" by linarith
  from x y show "x - x div 60 div 60 * 3600 - x div 60 mod 60 * 60 = x mod 60" by linarith
qed

lemma hms_sum:
  fixes x :: int
  shows "x div 60 div 60 * 3600 + x div 60 mod 60 * 60 + x mod 60 = x"
  using sexagesimal [of x] by linarith

definition timer_parts :: "int \<Rightarrow> int \<times> int \<times> int" where
  "timer_parts t =
     (let hh = int_units (3600 * second) t;
          mm = int_units (60 * second) t - hh * 60;
          ss = int_units second t - hh * 3600 - mm * 60
      in (hh, mm, ss))"

text \<open>
  Below 4096 hours the floats truncate to the exact quotients; from there on a duration
  that lies just before a full hour may be rounded up to it.
\<close>

definition exact_timer :: "int \<Rightarrow> bool" where
  "exact_timer t \<longleftrightarrow> t < 4096 * 3600 * second"

lemma int_units_exact:
  assumes "0 \<le> t" and "exact_timer t"
  shows "int_units (3600 * second) t = t div (3600 * second)"
    and "int_units (60 * second) t = t div (60 * second)"
    and "int_units second t = t div second"
  using assms
  by (simp_all add: exact_timer_def second_def int_units_div [where b = 12] int_units_div [where b = 18]
      int_units_div [where b = 24] power_int_minus)

lemma timer_parts_div:
  assumes "0 \<le> t" and "exact_timer t"
  shows "timer_parts t = (t div second div 60 div 60, t div second div 60 mod 60, t div second mod 60)"
proof -
  have "t div (3600 * second) = t div second div 60 div 60" "t div (60 * second) = t div second div 60"
    by (simp_all add: second_def zdiv_zmult2_eq [symmetric])
  then show ?thesis
    unfolding timer_parts_def Let_def int_units_exact [OF assms] by (simp only: sexagesimal)
qed

text \<open>One nanosecond before the 4097th hour the hours and the minutes disagree.\<close>

lemma timer_parts_rounded_up: "timer_parts (4097 * 3600 * second - 1) = (4097, - 1, 59)"
  using rounded_hours rounded_minutes rounded_seconds by (simp add: timer_parts_def Let_def second_def)

definition timer_cmd :: "string \<Rightarrow> int \<Rightarrow> string" where
  "timer_cmd name t =
     (case timer_parts (if t \<le> 0 then DefaultCommitTimer else t) of
        (hh, mm, ss) \<Rightarrow>
          ''configure session '' @ name @ '' commit timer '' @ Itoa hh @ '':'' @ pad2 mm @ '':'' @ pad2 ss)"

definition CommitTimer ::
  "('n, 'w) env \<Rightarrow> 'n session \<Rightarrow> int \<Rightarrow> 'w \<Rightarrow> unit res \<times> 'w" where
  "CommitTimer E s timeout w =
     (if \<not> s_open s then (Err ErrSessionClosed, w)
      else case RunCmds E (s_parent s) [timer_cmd (s_name s) timeout] ''json'' w of
             (r, w') \<Rightarrow> (errorf (''eapi: commit-timer '' @ s_name s) (drop_value r), w'))"

end
