(* ===== verification/Session_Protocol.thy ===== *)
theory Session_Protocol
  imports Eapi
begin

text \<open>
  The protocol every resource follows to change a device: open a session, stage the
  commands, abort on a staging error, commit otherwise.  \<open>with_session\<close> is that pattern
  over any provider of sessions; the locale \<open>config_session\<close> states what it needs of the
  provider, and the interpretations show that the eAPI client gives it, for plain and for
  rich commands.
\<close>

section \<open>The pattern\<close>

text \<open>\<open>if abortErr != nil { return errors.Join(stageErr, abortErr) }; return stageErr\<close>.\<close>

definition after_abort :: "error \<Rightarrow> unit res \<Rightarrow> unit res" where
  "after_abort stageErr r =
     (case r of Ok _ \<Rightarrow> Err stageErr | Err abortErr \<Rightarrow> Err (JoinErr stageErr abortErr)
      | Panic \<Rightarrow> Panic | Blocked \<Rightarrow> Blocked)"

definition with_session ::
  "('c \<Rightarrow> string \<Rightarrow> 'w \<Rightarrow> 's res \<times> 'c \<times> 'w) \<Rightarrow> ('s \<Rightarrow> 'm \<Rightarrow> 'w \<Rightarrow> unit res \<times> 'w) \<Rightarrow>
   ('s \<Rightarrow> 'w \<Rightarrow> unit res \<times> 's \<times> 'w) \<Rightarrow> ('s \<Rightarrow> 'w \<Rightarrow> unit res \<times> 's \<times> 'w) \<Rightarrow> ('s \<Rightarrow> 'c) \<Rightarrow>
   'c \<Rightarrow> string \<Rightarrow> 'm \<Rightarrow> 'w \<Rightarrow> unit res \<times> 'c \<times> 'w" where
  "with_session opn stg abt cmt par c name m w =
     (case opn c name w of
        (Ok s, c1, w1) \<Rightarrow>
          (case stg s m w1 of
             (Ok _, w2) \<Rightarrow> (case cmt s w2 of (r, s', w3) \<Rightarrow> (r, par s', w3))
           | (Err e, w2) \<Rightarrow> (case abt s w2 of (r, s', w3) \<Rightarrow> (after_abort e r, par s', w3))
           | (Panic, w2) \<Rightarrow> (Panic, c1, w2)
           | (Blocked, w2) \<Rightarrow> (Blocked, c1, w2))
      | (r, c1, w1) \<Rightarrow> (map_res (\<lambda>_. ()) r, c1, w1))"

lemma after_abort_simps [simp]:
  "after_abort e (Ok u) = Err e" "after_abort e (Err a) = Err (JoinErr e a)"
  "after_abort e Panic = Panic" "after_abort e Blocked = Blocked"
  by (simp_all add: after_abort_def)

lemma returns_after_abort [simp]: "returns (after_abort e r) = returns r"
  by (cases r) simp_all

lemma after_abort_not_Ok [simp]: "after_abort e r \<noteq> Ok v"
  by (cases r) simp_all

section \<open>What the pattern needs of its provider\<close>

locale config_session =
  fixes opn :: "'c \<Rightarrow> string \<Rightarrow> 'w \<Rightarrow> 's res \<times> 'c \<times> 'w"
    and stg :: "'s \<Rightarrow> 'm \<Rightarrow> 'w \<Rightarrow> unit res \<times> 'w"
    and abt :: "'s \<Rightarrow> 'w \<Rightarrow> unit res \<times> 's \<times> 'w"
    and cmt :: "'s \<Rightarrow> 'w \<Rightarrow> unit res \<times> 's \<times> 'w"
    and par :: "'s \<Rightarrow> 'c"
    and free :: "'c \<Rightarrow> bool"
    and live :: "'s \<Rightarrow> bool"
  assumes open_returns: "free c \<Longrightarrow> returns (fst (opn c name w))"
    and open_live: "free c \<Longrightarrow> opn c name w = (Ok s, c', w') \<Longrightarrow> live s \<and> par s = c' \<and> \<not> free c'"
    and open_failed: "free c \<Longrightarrow> opn c name w = (Err e, c', w') \<Longrightarrow> free c'"
    and stage_returns: "returns (fst (stg s m w))"
    and abort_closes: "live s \<Longrightarrow> abt s w = (r, s', w') \<Longrightarrow> returns r \<and> \<not> live s' \<and> free (par s')"
    and commit_closes: "live s \<Longrightarrow> cmt s w = (r, s', w') \<Longrightarrow> returns r \<and> \<not> live s' \<and> free (par s')"
begin

text \<open>Whatever fails, the pattern returns and the client can open a session again.\<close>

lemma with_session_total:
  assumes "free c" and "with_session opn stg abt cmt par c name m w = (r, c', w')"
  shows "returns r \<and> free c'"
proof -
  obtain ro c1 w1 where o: "opn c name w = (ro, c1, w1)" by (cases "opn c name w") auto
  have ret: "returns ro" using open_returns [OF assms(1), of name w] o by simp
  show ?thesis
  proof (cases ro)
    case (Ok s)
    with o open_live assms(1) have live: "live s" by blast
    obtain rs w2 where st: "stg s m w1 = (rs, w2)" by (cases "stg s m w1")
    have "returns rs" using stage_returns [of s m w1] st by simp
    then consider "rs = Ok ()" | e where "rs = Err e" by (cases rs) auto
    then show ?thesis
    proof cases
      case 1
      obtain rc s' w3 where "cmt s w2 = (rc, s', w3)" by (cases "cmt s w2")
      with 1 o st Ok assms(2) commit_closes [OF live] show ?thesis
        by (auto simp: with_session_def)
    next
      case 2
      obtain ra s' w3 where "abt s w2 = (ra, s', w3)" by (cases "abt s w2")
      with 2 o st Ok assms(2) abort_closes [OF live] show ?thesis
        by (auto simp: with_session_def)
    qed
  next
    case (Err e)
    with o assms open_failed show ?thesis by (auto simp: with_session_def)
  qed (use ret in simp_all)
qed

text \<open>Success means that the three calls succeeded, in this order.\<close>

lemma with_session_Ok:
  assumes "free c" and "with_session opn stg abt cmt par c name m w = (Ok u, c', w')"
  shows "\<exists>s c1 w1 w2 s'. opn c name w = (Ok s, c1, w1) \<and> stg s m w1 = (Ok (), w2)
           \<and> cmt s w2 = (Ok (), s', w')"
  using assms(2) by (auto simp: with_session_def split: prod.splits res.splits)

end

section \<open>The eAPI client provides it\<close>

definition slot_free :: "'n client \<Rightarrow> bool" where
  "slot_free c \<longleftrightarrow> \<not> cl_slot c"

lemma RunCmds_returns: "RunCmds E c cmds fmt w = (r, w') \<Longrightarrow> returns r"
  by (auto simp: RunCmds_def split: option.splits prod.splits sum.splits)

lemma postEAPI_returns: "postEAPI E c body w = (r, w') \<Longrightarrow> returns r"
  by (auto simp: postEAPI_def Let_def split: option.splits prod.splits sum.splits)

lemma RunCmdsRich_returns: "RunCmdsRich E c cmds fmt w = (r, w') \<Longrightarrow> returns r"
proof -
  assume r: "RunCmdsRich E c cmds fmt w = (r, w')"
  show ?thesis
  proof (cases "ctx_err E w")
    case None
    obtain q v where q: "postEAPI E c (buildRichPayload cmds (if fmt = [] then ''json'' else fmt)) w = (q, v)"
      by fastforce
    from r None q have "r = bind_res q (\<lambda>rpc. case rpc_Error rpc of
        Some (code, msg) \<Rightarrow> Err (Got ErrRichRPCFailure [DInt code, DStr msg])
      | None \<Rightarrow> Ok (case rpc_Result rpc of [] \<Rightarrow> [] | _ # rows \<Rightarrow> rows))"
      by (simp add: RunCmdsRich_def)
    then show ?thesis using postEAPI_returns [OF q]
      by (auto intro!: returns_bind_res split: option.split)
  qed (use r in \<open>auto simp: RunCmdsRich_def\<close>)
qed

lemma OpenSession_returns: "slot_free c \<Longrightarrow> returns (fst (OpenSession E c name w))"
  by (auto simp: OpenSession_eq slot_free_def Let_def RunCmds_returns
      split: option.splits prod.splits)

lemma OpenSession_Ok:
  "OpenSession E c name w = (Ok s, c', w') \<Longrightarrow>
     name \<noteq> [] \<and> \<not> cl_slot c \<and> c' = c\<lparr>cl_slot := True\<rparr> \<and>
     s = \<lparr>s_parent = c', s_name = name, s_open = True\<rparr> \<and>
     (\<exists>rows. RunCmds E c' (open_cmds name) ''json'' w = (Ok rows, w'))"
  by (auto simp: OpenSession_eq Let_def split: if_splits option.splits prod.splits)

lemma OpenSession_live:
  "OpenSession E c name w = (Ok s, c', w') \<Longrightarrow> s_open s \<and> s_parent s = c' \<and> \<not> slot_free c'"
  by (auto dest: OpenSession_Ok simp: slot_free_def)

lemma OpenSession_Err: "slot_free c \<Longrightarrow> OpenSession E c name w = (Err e, c', w') \<Longrightarrow> slot_free c'"
  by (auto simp: OpenSession_eq slot_free_def Let_def errorf_eq_Err
      split: if_splits option.splits prod.splits)

lemma release_simps [simp]:
  "s_open (release s) = s_open s" "s_name (release s) = s_name s"
  "slot_free (s_parent (release s))"
  by (simp_all add: release_def slot_free_def)

lemma Commit_closes:
  "s_open s \<Longrightarrow> Commit E s w = (r, s', w') \<Longrightarrow> returns r \<and> \<not> s_open s' \<and> slot_free (s_parent s')"
  by (auto simp: Commit_def RunCmds_returns split: prod.splits)

lemma Abort_closes:
  "s_open s \<Longrightarrow> Abort E s w = (r, s', w') \<Longrightarrow> returns r \<and> \<not> s_open s' \<and> slot_free (s_parent s')"
  by (auto simp: Abort_def RunCmds_returns split: prod.splits)

lemma Stage_returns: "returns (fst (Stage E s cmds w))"
  by (auto simp: Stage_def RunCmds_returns split: prod.splits)

lemma StageRich_returns: "returns (fst (StageRich E s cmds w))"
  by (auto simp: StageRich_def RunCmdsRich_returns split: prod.splits)

interpretation eapi_plain: config_session "OpenSession E" "Stage E" "Abort E" "Commit E"
  s_parent slot_free s_open
  by (intro config_session.intro OpenSession_returns Stage_returns)
    (blast dest: OpenSession_live OpenSession_Err Abort_closes Commit_closes)+

interpretation eapi_rich: config_session "OpenSession E" "StageRich E" "Abort E" "Commit E"
  s_parent slot_free s_open
  by (intro config_session.intro OpenSession_returns StageRich_returns)
    (blast dest: OpenSession_live OpenSession_Err Abort_closes Commit_closes)+

text \<open>The pattern on a client of this repository, as every \<open>apply\<close> function runs it.\<close>

definition run_session ::
  "('n, 'w) env \<Rightarrow> 'n client \<Rightarrow> string \<Rightarrow> string list \<Rightarrow> 'w \<Rightarrow> unit res \<times> 'n client \<times> 'w" where
  "run_session E = with_session (OpenSession E) (Stage E) (Abort E) (Commit E) s_parent"

end
