(* ===== verification/Session_Trace.thy ===== *)
theory Session_Trace
  imports Session_Protocol
begin

text \<open>
  What a run of the session pattern sends to the device.  \<open>traced\<close> adds a log of the
  requests to any environment; \<open>legal_trace\<close> is the specification of the requests of one
  run, and \<open>run_session_trace\<close> shows that the pattern keeps to it.
\<close>

section \<open>Logging the requests\<close>

record call =
  call_cmds :: "string list"
  call_ok :: bool

definition traced :: "('n, 'w) env \<Rightarrow> ('n, 'w \<times> call list) env" where
  "traced E =
     \<lparr>goeapi_connect = goeapi_connect E,
      node_run = (\<lambda>n cmds fmt (w, l). case node_run E n cmds fmt w of
        (r, w') \<Rightarrow> (r, (w', l @ [\<lparr>call_cmds = cmds, call_ok = (\<exists>rows. r = Inr rows)\<rparr>]))),
      new_request_err = new_request_err E,
      http_do = (\<lambda>q (w, l). case http_do E q w of (r, w') \<Rightarrow> (r, (w', l))),
      ctx_err = (\<lambda>(w, l). ctx_err E w),
      select_done = (\<lambda>(w, l). select_done E w)\<rparr>"

text \<open>
  A request that reaches the node leaves one entry; one that the client refuses, because
  the context is done, leaves none and does not change the world.
\<close>

lemma RunCmds_traced:
  assumes "RunCmds (traced E) c cmds fmt (w, l) = (r, (w', l'))" and "cl_node c = Some n"
  shows "(ctx_err E w \<noteq> None \<and> l' = l \<and> w' = w \<and> \<not> is_Ok r)
       \<or> (ctx_err E w = None \<and> l' = l @ [\<lparr>call_cmds = cmds, call_ok = is_Ok r\<rparr>])"
  using assms
  by (auto simp: RunCmds_def traced_def split: option.splits prod.splits sum.splits)

definition request :: "string list \<Rightarrow> bool \<Rightarrow> call" where
  "request cmds ok = \<lparr>call_cmds = cmds, call_ok = ok\<rparr>"

text \<open>
  The requests one run may send, whether the run reports success, and whether the context
  is done at its end: the run stops at the first failure, aborts after a failed staging,
  and commits only what was staged without an error.  A request is left out, the abort
  included, only because the context is done.
\<close>

definition legal_trace :: "string \<Rightarrow> string list \<Rightarrow> bool \<Rightarrow> bool \<Rightarrow> call list \<Rightarrow> bool" where
  "legal_trace name cmds cancelled ok tr \<longleftrightarrow>
     (let op' = request (open_cmds name); st = request (stage_cmds name cmds);
          ab = request [abort_cmd name]; cm = request [commit_cmd name]
      in if ok then tr = [op' True, st True, cm True]
         else tr = [] \<and> (cancelled \<or> name = [])
            \<or> tr = [op' False]
            \<or> cancelled \<and> tr \<in> {[op' True], [op' True, st False], [op' True, st True]}
            \<or> tr \<in> {[op' True, st False, ab True], [op' True, st False, ab False],
                     [op' True, st True, cm False]})"

lemma OpenSession_traced:
  assumes "OpenSession (traced E) c name (w, l) = (r, c', (w', l'))"
    and "slot_free c" and "cl_node c = Some n"
  shows "(is_Ok r \<longrightarrow> l' = l @ [request (open_cmds name) True] \<and> ctx_err E w = None)
       \<and> (\<not> is_Ok r \<longrightarrow> l' = l \<and> (name = [] \<or> ctx_err E w' \<noteq> None) \<or> l' = l @ [request (open_cmds name) False])"
proof (cases "name = []")
  case True
  with assms show ?thesis by (auto simp: OpenSession_eq)
next
  case False
  show ?thesis
  proof (cases "ctx_err (traced E) (w, l) = None \<or> \<not> select_done (traced E) (w, l)")
    case True
    let ?c = "c\<lparr>cl_slot := True\<rparr>"
    obtain q v where q: "RunCmds (traced E) ?c (open_cmds name) ''json'' (w, l) = (q, v)"
    by (rule prod.exhaust)
    with True False assms(1,2) have v: "v = (w', l')" and ok: "is_Ok r = is_Ok q"
      by (auto simp: OpenSession_eq slot_free_def Let_def)
    have "cl_node ?c = Some n" using assms(3) by simp
    from RunCmds_traced [OF q [unfolded v] this] ok show ?thesis by (auto simp: request_def)
  next
    case outer: False
    with False assms(1,2) show ?thesis
      by (auto simp: OpenSession_eq slot_free_def Let_def traced_def split: option.splits)
  qed
qed

lemma Stage_traced:
  assumes "Stage (traced E) s cmds (w, l) = (r, (w', l'))"
    and "s_open s" and "cl_node (s_parent s) = Some n"
  shows "(ctx_err E w \<noteq> None \<and> l' = l \<and> w' = w \<and> \<not> is_Ok r)
       \<or> l' = l @ [request (stage_cmds (s_name s) cmds) (is_Ok r)]"
proof -
  obtain q v where q: "RunCmds (traced E) (s_parent s) (stage_cmds (s_name s) cmds) ''json'' (w, l) = (q, v)"
    by (rule prod.exhaust)
  with assms have v: "v = (w', l')" and "is_Ok r = is_Ok q" by (auto simp: Stage_def)
  with RunCmds_traced [OF q [unfolded v] assms(3)] show ?thesis by (auto simp: request_def)
qed

lemma Commit_traced:
  assumes "Commit (traced E) s (w, l) = (r, s', (w', l'))"
    and "s_open s" and "cl_node (s_parent s) = Some n"
  shows "(ctx_err E w' \<noteq> None \<and> l' = l \<and> \<not> is_Ok r) \<or> l' = l @ [request [commit_cmd (s_name s)] (is_Ok r)]"
proof -
  obtain q v where q: "RunCmds (traced E) (s_parent s) [commit_cmd (s_name s)] ''json'' (w, l) = (q, v)"
    by (rule prod.exhaust)
  with assms have v: "v = (w', l')" and "is_Ok r = is_Ok q" by (auto simp: Commit_def)
  with RunCmds_traced [OF q [unfolded v] assms(3)] show ?thesis by (auto simp: request_def)
qed

lemma Abort_traced:
  assumes "Abort (traced E) s (w, l) = (r, s', (w', l'))"
    and "s_open s" and "cl_node (s_parent s) = Some n"
  shows "(ctx_err E w' \<noteq> None \<and> l' = l \<and> w' = w) \<or> (ctx_err E w = None \<and> l' = l @ [request [abort_cmd (s_name s)] (is_Ok r)])"
proof -
  obtain q v where q: "RunCmds (traced E) (s_parent s) [abort_cmd (s_name s)] ''json'' (w, l) = (q, v)"
    by (rule prod.exhaust)
  with assms have v: "v = (w', l')" and "is_Ok r = is_Ok q" by (auto simp: Abort_def)
  with RunCmds_traced [OF q [unfolded v] assms(3)] show ?thesis by (auto simp: request_def)
qed

text \<open>The session an open call gives back has the client's node and is open.\<close>

lemma OpenSession_session:
  "OpenSession E c name w = (Ok s, c', w') \<Longrightarrow>
     s_open s \<and> s_name s = name \<and> cl_node (s_parent s) = cl_node c"
  by (auto dest: OpenSession_Ok)

lemma run_session_trace:
  assumes run: "run_session (traced E) c name cmds (w, l) = (r, c', (w', l'))"
    and free: "slot_free c" and node: "cl_node c = Some n"
  shows "\<exists>tr. l' = l @ tr \<and> legal_trace name cmds (ctx_err E w' \<noteq> None) (is_Ok r) tr"
proof -
  obtain ro c1 v1 where o: "OpenSession (traced E) c name (w, l) = (ro, c1, v1)"
    by (metis prod.exhaust)
  obtain w1 l1 where v1: "v1 = (w1, l1)" by (cases v1)
  note o' = OpenSession_traced [OF o [unfolded v1] free node]
  have ro: "returns ro" using OpenSession_returns [OF free, of "traced E" name "(w, l)"] o by simp
  show ?thesis
  proof (cases "is_Ok ro")
    case False
    with o run v1 have "r = map_res (\<lambda>_. ()) ro" "l' = l1" "w' = w1"
      by (auto simp: run_session_def with_session_def split: res.splits)
    with o' False show ?thesis by (auto simp: legal_trace_def)
  next
    case True
    then obtain s where s: "ro = Ok s" by (auto simp: is_Ok_def)
    with o have so: "s_open s" and sn: "s_name s = name" and nd: "cl_node (s_parent s) = Some n"
      using OpenSession_session node by (fastforce dest: OpenSession_session)+
    from o' True have l1: "l1 = l @ [request (open_cmds name) True]" by simp
    obtain rs v2 where st: "Stage (traced E) s cmds (w1, l1) = (rs, v2)" by (rule prod.exhaust)
    obtain w2 l2 where v2: "v2 = (w2, l2)" by (cases v2)
    note st' = Stage_traced [OF st [unfolded v2] so nd]
    have "returns rs" using Stage_returns [of "traced E" s cmds "(w1, l1)"] st by simp
    then consider "rs = Ok ()" | e where "rs = Err e" by (cases rs) auto
    then show ?thesis
    proof cases
      case 1
      obtain rc s' v3 where cm: "Commit (traced E) s (w2, l2) = (rc, s', v3)" by (metis prod.exhaust)
      obtain w3 l3 where v3: "v3 = (w3, l3)" by (cases v3)
      from 1 o s st cm v1 v2 v3 run have "r = rc" "l' = l3" "w' = w3"
        by (auto simp: run_session_def with_session_def)
      with 1 l1 st' Commit_traced [OF cm [unfolded v3] so nd] sn show ?thesis
        by (cases "is_Ok rc") (auto simp: legal_trace_def Let_def)
    next
      case 2
      obtain ra s' v3 where ab: "Abort (traced E) s (w2, l2) = (ra, s', v3)" by (metis prod.exhaust)
      obtain w3 l3 where v3: "v3 = (w3, l3)" by (cases v3)
      from 2 o s st ab v1 v2 v3 run have r: "r = after_abort e ra" "l' = l3" "w' = w3"
        by (auto simp: run_session_def with_session_def)
      then have "\<not> is_Ok r" by (auto simp: is_Ok_def)
      with 2 l1 r st' Abort_traced [OF ab [unfolded v3] so nd] sn show ?thesis
        by (cases "is_Ok ra") (auto simp: legal_trace_def Let_def)
    qed
  qed
qed

end
