(* ===== verification/Provider_Config.thy ===== *)
theory Provider_Config
  imports Session_Trace
begin

text \<open>
  \<open>internal/config\<close>: the provider-level configuration, its defaults and validation, and
  the factory of eAPI clients.  \<open>url.Parse\<close>, \<open>time.ParseDuration\<close> and SHA-256 are fields
  of \<open>golib\<close>: the theorems hold whatever these library functions return.
\<close>

section \<open>Library functions\<close>

record url =
  u_Scheme :: string
  u_Host :: string
  u_Hostname :: string
  u_Port :: string
  u_Path :: string

record golib =
  url_Parse :: "string \<Rightarrow> error + url"
  ParseDuration :: "string \<Rightarrow> error + int"
  sha256_hex :: "string \<Rightarrow> string"

section \<open>Provider configuration\<close>

definition defaultTransport :: string where "defaultTransport = ''eapi''"
definition defaultRequestTimeout :: int where "defaultRequestTimeout = 30 * second"
definition defaultSessionPrefix :: string where "defaultSessionPrefix = ''pulumi-''"
definition defaultRetryAttempts :: int where "defaultRetryAttempts = 5"
definition defaultRetryBaseDelay :: int where "defaultRetryBaseDelay = 1 * second"
definition defaultRetryMaxDelay :: int where "defaultRetryMaxDelay = 30 * second"

definition ErrNoEndpoint :: error where
  [errs]: "ErrNoEndpoint = Sentinel ''at least one of eosUrl or cvpUrl must be set''"
definition ErrUnsupportedTransp :: error where
  [errs]: "ErrUnsupportedTransp = Sentinel (''eosTransport must be 'eapi' or 'gnmi'' @ [CHR 0x27])"
definition ErrEOSNotConfigured :: error where
  [errs]: "ErrEOSNotConfigured = Sentinel ''provider eosUrl not configured''"
definition ErrUnsupportedScheme :: error where
  [errs]: "ErrUnsupportedScheme = Sentinel ''eosUrl must be http:// or https://''"

definition TransportEAPI :: string where "TransportEAPI = ''eapi''"
definition TransportGNMI :: string where "TransportGNMI = ''gnmi''"

record Config =
  EOSURL :: string
  EOSUsername :: string
  EOSPassword :: "string option"
  EOSTLSCACert :: "string option"
  EOSTLSClientCert :: "string option"
  EOSTLSClientKey :: "string option"
  EOSInsecure :: "bool option"
  EOSTransport :: "string option"
  EOSRequestTimeout :: "string option"
  EOSSessionPrefix :: "string option"
  CVPURL :: string
  CVPToken :: "string option"
  CVPCACert :: "string option"
  RetryMaxAttempts :: "int option"
  RetryBaseDelay :: "string option"
  RetryMaxDelay :: "string option"

definition transport :: "Config \<Rightarrow> string" where
  "transport c =
     (case nonempty (EOSTransport c) of None \<Rightarrow> defaultTransport | Some t \<Rightarrow> ToLower t)"

definition duration_or :: "golib \<Rightarrow> string option \<Rightarrow> int \<Rightarrow> error + int" where
  "duration_or G p d = (case nonempty p of None \<Rightarrow> Inr d | Some s \<Rightarrow> ParseDuration G s)"

definition requestTimeout :: "golib \<Rightarrow> Config \<Rightarrow> error + int" where
  "requestTimeout G c = duration_or G (EOSRequestTimeout c) defaultRequestTimeout"

definition retryBase :: "golib \<Rightarrow> Config \<Rightarrow> error + int" where
  "retryBase G c = duration_or G (RetryBaseDelay c) defaultRetryBaseDelay"

definition retryMax :: "golib \<Rightarrow> Config \<Rightarrow> error + int" where
  "retryMax G c = duration_or G (RetryMaxDelay c) defaultRetryMaxDelay"

definition SessionPrefix :: "Config \<Rightarrow> string" where
  "SessionPrefix c =
     (case nonempty (EOSSessionPrefix c) of None \<Rightarrow> defaultSessionPrefix | Some p \<Rightarrow> p)"

definition RetryAttempts :: "Config \<Rightarrow> int" where
  "RetryAttempts c =
     (case RetryMaxAttempts c of
        None \<Rightarrow> defaultRetryAttempts
      | Some n \<Rightarrow> if n < 1 then defaultRetryAttempts else n)"

definition HasEOS :: "Config \<Rightarrow> bool" where "HasEOS c \<longleftrightarrow> EOSURL c \<noteq> []"
definition HasCVP :: "Config \<Rightarrow> bool" where "HasCVP c \<longleftrightarrow> CVPURL c \<noteq> []"

text \<open>The error of a parse that must succeed, wrapped with the field's name.\<close>

definition parse_err :: "string \<Rightarrow> error + 'a \<Rightarrow> error option" where
  "parse_err field r = (case r of Inl e \<Rightarrow> Some (Wrap field e) | Inr _ \<Rightarrow> None)"

definition Configure :: "golib \<Rightarrow> Config \<Rightarrow> error option" where
  "Configure G c =
     (if EOSURL c \<noteq> [] \<and> parse_err ''eosUrl is not a valid URL'' (url_Parse G (EOSURL c)) \<noteq> None
        then parse_err ''eosUrl is not a valid URL'' (url_Parse G (EOSURL c))
      else if CVPURL c \<noteq> [] \<and> parse_err ''cvpUrl is not a valid URL'' (url_Parse G (CVPURL c)) \<noteq> None
        then parse_err ''cvpUrl is not a valid URL'' (url_Parse G (CVPURL c))
      else if EOSURL c = [] \<and> CVPURL c = [] then Some ErrNoEndpoint
      else if transport c \<noteq> TransportEAPI \<and> transport c \<noteq> TransportGNMI
        then Some (Got ErrUnsupportedTransp [DStr (transport c)])
      else case parse_err ''eosRequestTimeout'' (requestTimeout G c) of Some e \<Rightarrow> Some e
      | None \<Rightarrow> (case parse_err ''retryBaseDelay'' (retryBase G c) of Some e \<Rightarrow> Some e
      | None \<Rightarrow> parse_err ''retryMaxDelay'' (retryMax G c)))"

section \<open>Endpoint of a resource\<close>

record endpoint =
  ep_Host :: string
  ep_Port :: int
  ep_Scheme :: string

definition hostPort :: "url \<Rightarrow> string \<times> int" where
  "hostPort u =
     (u_Hostname u, if u_Port u = [] then 0 else (case Atoi (u_Port u) of Some v \<Rightarrow> v | None \<Rightarrow> 0))"

text \<open>
  The provider-level part: \<open>host\<close> is the bare override, empty when there is none; then the
  host and the port come from the provider's URL.
\<close>

definition split_provider :: "golib \<Rightarrow> string \<Rightarrow> string \<Rightarrow> error + endpoint" where
  "split_provider G provURL host =
     (if provURL = [] then
        (if host \<noteq> [] then Inr \<lparr>ep_Host = host, ep_Port = 0, ep_Scheme = ''https''\<rparr>
         else Inl ErrEOSNotConfigured)
      else case url_Parse G provURL of
        Inl e \<Rightarrow> Inl (Got (Wrap ''eosUrl'' e) [DStr provURL])
      | Inr u \<Rightarrow>
          if u_Scheme u \<noteq> ''http'' \<and> u_Scheme u \<noteq> ''https'' \<and> u_Scheme u \<noteq> []
          then Inl ErrUnsupportedScheme
          else Inr \<lparr>ep_Host = (if host = [] then fst (hostPort u) else host),
                    ep_Port = snd (hostPort u),
                    ep_Scheme = (if u_Scheme u \<noteq> [] then u_Scheme u else ''https'')\<rparr>)"

definition splitEOSURL :: "golib \<Rightarrow> string \<Rightarrow> string option \<Rightarrow> error + endpoint" where
  "splitEOSURL G provURL override =
     (case nonempty override of
        None \<Rightarrow> split_provider G provURL []
      | Some ov \<Rightarrow>
          if Contains ov ''://'' then
            (case url_Parse G ov of
               Inl e \<Rightarrow> Inl (Got (Wrap ''host override'' e) [DStr ov])
             | Inr u \<Rightarrow> Inr \<lparr>ep_Host = fst (hostPort u), ep_Port = snd (hostPort u),
                             ep_Scheme = u_Scheme u\<rparr>)
          else split_provider G provURL ov)"

section \<open>The eAPI client factory\<close>

text \<open>
  \<open>override\<close>: the per-resource value wins when it is set and not empty.  The provider
  configuration is never nil: \<open>FromContext\<close> returns the address of a value.
\<close>

definition override :: "string option \<Rightarrow> string \<Rightarrow> string" where
  "override p d = (case nonempty p of None \<Rightarrow> d | Some s \<Rightarrow> s)"

definition EAPIClient ::
  "('n, 'w) env \<Rightarrow> golib \<Rightarrow> Config \<Rightarrow> string option \<Rightarrow> string option \<Rightarrow> string option \<Rightarrow> 'n client res"
where
  "EAPIClient E G c hostOverride userOverride passOverride =
     (case splitEOSURL G (EOSURL c) hostOverride of
        Inl e \<Rightarrow> Err e
      | Inr ep \<Rightarrow>
          if ep_Host ep = [] then Err ErrEOSNotConfigured
          else (case requestTimeout G c of
                  Inl e \<Rightarrow> Err (Wrap ''requestTimeout'' e)
                | Inr timeout \<Rightarrow>
                    New E \<lparr>ec_Host = ep_Host ep, ec_Port = ep_Port ep,
                           ec_Username = override userOverride (EOSUsername c),
                           ec_Password = override passOverride (or_empty (EOSPassword c)),
                           ec_Timeout = timeout,
                           ec_UseHTTPS = (ep_Scheme ep = ''https'')\<rparr>))"

section \<open>What the factory gives\<close>

lemma New_Ok:
  "New E cfg = Ok cli \<Longrightarrow>
     cl_cfg cli = cfg \<and> slot_free cli \<and> ec_Host cfg \<noteq> [] \<and> ec_Username cfg \<noteq> [] \<and>
     (\<exists>n. cl_node cli = Some n \<and>
        goeapi_connect E (if ec_UseHTTPS cfg then ''https'' else ''http'') (ec_Host cfg)
          (ec_Username cfg) (ec_Password cfg) (effective_port (ec_Port cfg)) = Inr n)"
  by (auto simp: New_def slot_free_def validate_config_def Let_def
      split: option.splits sum.splits if_splits)

lemma New_returns [simp]: "returns (New E cfg)"
  by (auto simp: New_def Let_def split: option.splits sum.splits)

lemma EAPIClient_returns [simp]: "returns (EAPIClient E G c h u p)"
  by (auto simp: EAPIClient_def split: sum.splits)

lemma EAPIClient_Ok:
  "EAPIClient E G c h u p = Ok cli \<Longrightarrow> slot_free cli \<and> (\<exists>n. cl_node cli = Some n)"
  by (auto simp: EAPIClient_def dest!: New_Ok split: sum.splits if_splits)

lemma SessionPrefix_nonempty [simp]: "SessionPrefix c \<noteq> []"
  by (auto simp: SessionPrefix_def defaultSessionPrefix_def split: option.splits)

lemma RetryAttempts_positive: "1 \<le> RetryAttempts c"
  by (auto simp: RetryAttempts_def defaultRetryAttempts_def split: option.splits)

end
