(* ===== verification/Running_Config.thy ===== *)
theory Running_Config
  imports Go_Conv
begin

text \<open>
  The loop every reader of \<open>show running-config\<close> text shares,
  \<open>for raw := range strings.SplitSeq(out, "\n") { line := strings.TrimSpace(raw); ... }\<close>,
  as a fold of the loop body over the trimmed lines, and the interface \<open>line_scanner\<close>
  of a loop body: it ignores blank lines and the \<open>!\<close> separators of the device, so a
  reader depends on the significant lines only, not on the layout of the text.
\<close>

definition trimmed_lines :: "string \<Rightarrow> string list" where
  "trimmed_lines out = map TrimSpace (lines out)"

definition scan :: "(string \<Rightarrow> 'r \<Rightarrow> 'r) \<Rightarrow> string \<Rightarrow> 'r \<Rightarrow> 'r" where
  "scan body out r = fold body (trimmed_lines out) r"

text \<open>
  Lines a reader may skip: every reader ignores the empty line and the separator, and each
  one some lines that only restate a default, which the device does not print.
\<close>

definition noise :: "string \<Rightarrow> bool" where
  "noise l \<longleftrightarrow> l = [] \<or> l = ''!''"

definition significant :: "(string \<Rightarrow> bool) \<Rightarrow> string list \<Rightarrow> string list" where
  "significant idle ls = filter (\<lambda>l. \<not> idle l) ls"

text \<open>
  \<open>prints idle out cmds\<close>: up to layout and idle lines, the text \<open>out\<close> consists of the
  commands \<open>cmds\<close>, in their order.
\<close>

definition prints :: "(string \<Rightarrow> bool) \<Rightarrow> string \<Rightarrow> string list \<Rightarrow> bool" where
  "prints idle out cmds \<longleftrightarrow> significant idle (trimmed_lines out) = significant idle cmds"

locale line_scanner =
  fixes body :: "string \<Rightarrow> 'r \<Rightarrow> 'r"
    and idle :: "string \<Rightarrow> bool"
  assumes body_idle: "idle l \<Longrightarrow> body l r = r"
    and idle_noise: "noise l \<Longrightarrow> idle l"
begin

lemma fold_significant: "fold body (significant idle ls) r = fold body ls r"
  unfolding significant_def by (rule fold_filter_id) (simp add: body_idle)

lemma scan_prints: "prints idle out cmds \<Longrightarrow> scan body out r = fold body cmds r"
  by (metis fold_significant scan_def prints_def)

text \<open>The result does not depend on indentation, blank lines or separators.\<close>

lemma fold_quiet: "fold body (significant noise ls) r = fold body ls r"
  unfolding significant_def by (rule fold_filter_id) (simp add: body_idle idle_noise)

lemma scan_layout:
  assumes "significant noise (trimmed_lines a) = significant noise (trimmed_lines b)"
  shows "scan body a r = scan body b r"
  using fold_quiet [of "trimmed_lines a" r] fold_quiet [of "trimmed_lines b" r] assms
  by (simp add: scan_def)

end

section \<open>Attributes of a block\<close>

text \<open>
  One optional attribute: the line that renders a value, the values that the reader
  understands, and the field of the row where the loop body puts what it reads.
\<close>

locale attribute =
  fixes body :: "string \<Rightarrow> 'r \<Rightarrow> 'r"
    and render :: "'v \<Rightarrow> string"
    and readable :: "'v \<Rightarrow> bool"
    and get :: "'r \<Rightarrow> 'v"
    and put :: "'v \<Rightarrow> 'r \<Rightarrow> 'r"
  assumes line: "readable v \<Longrightarrow> body (render v) r = put v r"
    and put_get: "put (get r) r = r"
begin

lemma fold_attr: "pred_option readable p \<Longrightarrow> fold body (line_opt render p) r = put (opt_or (get r) p) r"
  by (cases p) (simp_all add: line put_get)

lemma fold_one: "readable v \<Longrightarrow> fold body [render v] r = put v r"
  by (simp add: line)

end

text \<open>A flag: one line sets it, and its absence leaves it alone.\<close>

locale flag =
  fixes body :: "string \<Rightarrow> 'r \<Rightarrow> 'r"
    and word :: string
    and get :: "'r \<Rightarrow> bool"
    and put :: "bool \<Rightarrow> 'r \<Rightarrow> 'r"
  assumes word: "body word r = put True r"
    and put_get: "put (get r) r = r"
begin

lemma fold_flag: "fold body (line_if word b) r = put (get r \<or> b) r"
  by (cases b) (simp_all add: word put_get)

lemma fold_switch:
  assumes "\<And>r. body other r = r"
  shows "fold body (line_bool word other p) r = put (get r \<or> p = Some True) r"
  by (cases p) (simp_all add: word put_get assms)

lemma fold_toggle:
  assumes "\<And>r. body other r = r"
  shows "fold body (line_toggle word other b) r = put (get r \<or> b) r"
  by (cases b) (simp_all add: word put_get assms line_toggle_def)

end

text \<open>A list of entries, one line each: the body appends what it reads.\<close>

locale listing =
  fixes body :: "string \<Rightarrow> 'r \<Rightarrow> 'r"
    and render :: "'v \<Rightarrow> string"
    and readable :: "'v \<Rightarrow> bool"
    and get :: "'r \<Rightarrow> 'v list"
    and put :: "'v list \<Rightarrow> 'r \<Rightarrow> 'r"
  assumes line: "readable v \<Longrightarrow> body (render v) r = put (get r @ [v]) r"
    and put_get: "put (get r) r = r"
    and get_put: "get (put vs r) = vs"
    and put_put: "put vs (put us r) = put vs r"
begin

lemma fold_listing: "\<forall>v\<in>set vs. readable v \<Longrightarrow> fold body (map render vs) r = put (get r @ vs) r"
  by (induction vs arbitrary: r) (simp_all add: line put_get get_put put_put)

end

lemma Contains_infix: "Contains (a @ t @ b) t"
  by (auto simp: Contains_iff)

lemma Contains_trans: "Contains s t \<Longrightarrow> Contains t u \<Longrightarrow> Contains s u"
  by (metis Contains_iff append_assoc)

lemma trimmed_line_Contains: "l \<in> set (trimmed_lines out) \<Longrightarrow> Contains out l"
proof -
  assume "l \<in> set (trimmed_lines out)"
  then obtain raw where raw: "raw \<in> set (lines out)" and l: "l = TrimSpace raw"
    by (auto simp: trimmed_lines_def)
  from raw have "Contains out raw"
    unfolding lines_def Contains_iff by (rule split_at_infix)
  moreover have "Contains raw l" using TrimSpace_infix [of raw] by (auto simp: Contains_iff l)
  ultimately show ?thesis by (rule Contains_trans)
qed

lemma prints_Contains:
  "prints idle out cmds \<Longrightarrow> h \<in> set cmds \<Longrightarrow> \<not> idle h \<Longrightarrow> Contains out h"
proof -
  assume "prints idle out cmds" "h \<in> set cmds" "\<not> idle h"
  then have "h \<in> set (significant idle (trimmed_lines out))"
    unfolding prints_def by (simp add: significant_def)
  then show ?thesis by (auto simp: significant_def intro: trimmed_line_Contains)
qed

lemma Contains_nonempty: "Contains out h \<Longrightarrow> h \<noteq> [] \<Longrightarrow> out \<noteq> []"
  by (auto simp: Contains_iff)

text \<open>
  What the device prints for a block: its lines, each behind its own indentation.  Lines
  without surrounding blanks come back unchanged.
\<close>

definition clean_line :: "string \<Rightarrow> bool" where
  "clean_line l \<longleftrightarrow> TrimSpace l = l \<and> newline \<notin> set l"

definition blanks :: "string \<Rightarrow> bool" where
  "blanks p \<longleftrightarrow> set p \<subseteq> {CHR '' '', CHR 0x09}"

definition block_text :: "string \<Rightarrow> string list \<Rightarrow> string" where
  "block_text pad ls = Join (map (\<lambda>l. pad @ l) ls) [newline]"

lemma trimmed_lines_block_text:
  assumes "blanks pad" and "\<forall>l\<in>set ls. clean_line l" and "ls \<noteq> []"
  shows "trimmed_lines (block_text pad ls) = ls"
proof -
  have pad: "TrimSpace (pad @ l) = TrimSpace l" for l
    by (rule TrimSpace_pad) (use assms(1) in \<open>auto simp: blanks_def ascii_space_def\<close>)
  have "newline \<notin> set (pad @ l)" if "l \<in> set ls" for l
    using that assms by (auto simp: blanks_def clean_line_def)
  then have "lines (block_text pad ls) = map (\<lambda>l. pad @ l) ls"
    unfolding lines_def block_text_def using assms(3) by (intro split_at_Join) auto
  moreover have "TrimSpace l = l" if "l \<in> set ls" for l
    using that assms(2) by (simp add: clean_line_def)
  ultimately show ?thesis by (simp add: trimmed_lines_def pad map_idI)
qed

lemma prints_block_text:
  "blanks pad \<Longrightarrow> \<forall>l\<in>set ls. clean_line l \<Longrightarrow> ls \<noteq> [] \<Longrightarrow> prints idle (block_text pad ls) ls"
  by (simp add: prints_def trimmed_lines_block_text)

end
