(* ===== verification/Resource.thy ===== *)
theory Resource
  imports Provider_Config Running_Config
begin

text \<open>
  What the resources of \<open>internal/resources\<close> have in common.  Every resource repeats the
  same handlers: Create and Update validate, stop on a dry run, and apply the rendered
  commands in one configuration session; Delete applies the removal; Read parses what the
  device shows.  The handlers are written once here, over the resource's own functions,
  and each resource's handlers are their instances.
\<close>

section \<open>Lines that several resources render\<close>

definition description_cmds :: "string option \<Rightarrow> string list" where
  "description_cmds p = line_opt (\<lambda>d. ''description '' @ d) (nonempty p)"

definition mtu_cmds :: "int option \<Rightarrow> string list" where
  "mtu_cmds p = line_opt (\<lambda>m. ''mtu '' @ Itoa m) (positive p)"

definition shutdown_cmds :: "bool option \<Rightarrow> string list" where
  "shutdown_cmds p = line_bool ''shutdown'' ''no shutdown'' p"

section \<open>Requests and responses\<close>

text \<open>The optional connection overrides that every resource's arguments end with.\<close>

record overrides =
  Host :: "string option"
  Username :: "string option"
  Password :: "string option"

definition no_overrides :: overrides where
  "no_overrides = \<lparr>Host = None, Username = None, Password = None\<rparr>"

text \<open>
  The context of a call: the environment of the clients, the provider configuration that
  \<open>config.FromContext\<close> returns, and the library functions.
\<close>

record ('n, 'w) ctx =
  cx_env :: "('n, 'w) env"
  cx_config :: Config
  cx_lib :: golib

record 'a request =
  Inputs :: 'a
  DryRun :: bool

record 's created =
  cr_ID :: string
  cr_Output :: 's

text \<open>A read that finds nothing is \<open>None\<close>: the zero response, whose empty ID means gone.\<close>

record ('a, 's) read_response =
  rd_ID :: string
  rd_Inputs :: 'a
  rd_State :: 's

section \<open>Clients and sessions of a resource\<close>

definition newClient :: "('n, 'w) ctx \<Rightarrow> 'x overrides_scheme \<Rightarrow> 'n client res" where
  "newClient C ov = EAPIClient (cx_env C) (cx_lib C) (cx_config C) (Host ov) (Username ov) (Password ov)"

definition session_name :: "('n, 'w) ctx \<Rightarrow> string \<Rightarrow> string" where
  "session_name C suffix = SessionPrefix (cx_config C) @ suffix"

definition apply_session ::
  "('n, 'w) ctx \<Rightarrow> 'x overrides_scheme \<Rightarrow> string \<Rightarrow> string list \<Rightarrow> 'w \<Rightarrow> unit res \<times> 'w" where
  "apply_session C ov suffix cmds w =
     (case newClient C ov of
        Ok cli \<Rightarrow> (case run_session (cx_env C) cli (session_name C suffix) cmds w of
                     (r, _, w') \<Rightarrow> (r, w'))
      | r \<Rightarrow> (map_res (\<lambda>_. ()) r, w))"

text \<open>
  One \<open>show\<close> command in text form, and a parser of its output; an empty response or an
  empty text counts as not found.
\<close>

definition show_text :: "('n, 'w) ctx \<Rightarrow> 'n client \<Rightarrow> string \<Rightarrow> 'w \<Rightarrow> string res \<times> 'w" where
  "show_text C cli cmd w =
     (case RunCmds (cx_env C) cli [cmd] ''text'' w of (r, w') \<Rightarrow> (map_res text_output r, w'))"

definition read_text ::
  "('n, 'w) ctx \<Rightarrow> 'n client \<Rightarrow> string \<Rightarrow> (string \<Rightarrow> 'r option res) \<Rightarrow> 'w \<Rightarrow> 'r option res \<times> 'w" where
  "read_text C cli cmd parse w =
     (case show_text C cli cmd w of
        (r, w') \<Rightarrow> (bind_res r (\<lambda>out. if out = [] then Ok None else parse out), w'))"

text \<open>An early return on an error, before the world is touched.\<close>

definition and_then :: "'a res \<Rightarrow> ('a \<Rightarrow> 'w \<Rightarrow> 'b res \<times> 'w) \<Rightarrow> 'w \<Rightarrow> 'b res \<times> 'w" where
  "and_then r f w =
     (case r of Ok v \<Rightarrow> f v w | Err e \<Rightarrow> (Err e, w) | Panic \<Rightarrow> (Panic, w) | Blocked \<Rightarrow> (Blocked, w))"

lemma and_then_simps [simp]:
  "and_then (Ok v) f w = f v w" "and_then (Err e) f w = (Err e, w)"
  "and_then Panic f w = (Panic, w)" "and_then Blocked f w = (Blocked, w)"
  by (simp_all add: and_then_def)

lemma and_then_returns:
  "returns r \<Longrightarrow> (\<And>v. returns (fst (f v w))) \<Longrightarrow> returns (fst (and_then r f w))"
  by (cases r) simp_all

section \<open>The four handlers\<close>

definition crud_create ::
  "('a \<Rightarrow> error option) \<Rightarrow> ('a \<Rightarrow> string) \<Rightarrow> ('a \<Rightarrow> bool \<Rightarrow> 'w \<Rightarrow> unit res \<times> 'w) \<Rightarrow> ('a \<Rightarrow> string) \<Rightarrow>
   'a request \<Rightarrow> 'w \<Rightarrow> 'a created res \<times> 'w" where
  "crud_create validate ident apply label req w =
     (let a = Inputs req; resp = \<lparr>cr_ID = ident a, cr_Output = a\<rparr> in
      case validate a of
        Some e \<Rightarrow> (Err e, w)
      | None \<Rightarrow>
          if DryRun req then (Ok resp, w)
          else (case apply a False w of (r, w') \<Rightarrow> (map_res (\<lambda>_. resp) (errorf (label a) r), w')))"

definition crud_update ::
  "('a \<Rightarrow> error option) \<Rightarrow> ('a \<Rightarrow> bool \<Rightarrow> 'w \<Rightarrow> unit res \<times> 'w) \<Rightarrow> ('a \<Rightarrow> string) \<Rightarrow>
   'a request \<Rightarrow> 'w \<Rightarrow> 'a res \<times> 'w" where
  "crud_update validate apply label req w =
     (let a = Inputs req in
      case validate a of
        Some e \<Rightarrow> (Err e, w)
      | None \<Rightarrow>
          if DryRun req then (Ok a, w)
          else (case apply a False w of (r, w') \<Rightarrow> (map_res (\<lambda>_. a) (errorf (label a) r), w')))"

definition crud_delete ::
  "('a \<Rightarrow> bool \<Rightarrow> 'w \<Rightarrow> unit res \<times> 'w) \<Rightarrow> ('a \<Rightarrow> string) \<Rightarrow> 'a \<Rightarrow> 'w \<Rightarrow> unit res \<times> 'w" where
  "crud_delete apply label st w = (case apply st True w of (r, w') \<Rightarrow> (errorf (label st) r, w'))"

definition crud_read ::
  "('a \<Rightarrow> 'c res) \<Rightarrow> ('c \<Rightarrow> 'a \<Rightarrow> 'w \<Rightarrow> 'r option res \<times> 'w) \<Rightarrow> ('a \<Rightarrow> string) \<Rightarrow> ('r \<Rightarrow> 'a \<Rightarrow> 'a) \<Rightarrow>
   'a \<Rightarrow> 'w \<Rightarrow> ('a, 'a) read_response option res \<times> 'w" where
  "crud_read client reader ident fill a w =
     (case client a of
        Ok cli \<Rightarrow>
          (case reader cli a w of
             (r, w') \<Rightarrow>
               (map_res (map_option (\<lambda>row. \<lparr>rd_ID = ident a, rd_Inputs = a, rd_State = fill row a\<rparr>)) r, w'))
      | r \<Rightarrow> (map_res (\<lambda>_. None) r, w))"

text \<open>
  A reader that refills a slice of the state with \<open>append(s.X[:0], new...)\<close> writes into the
  array that the request's inputs share, as long as its capacity allows; \<open>shared_write\<close> is
  what the inputs hold afterwards.  \<open>crud_read_shared\<close> is the read handler of such a
  resource: \<open>fill\<close> gives the inputs and the state after the copy.
\<close>

definition shared_write :: "nat \<Rightarrow> 'v list \<Rightarrow> 'v list \<Rightarrow> 'v list" where
  "shared_write cap old new =
     (if length new \<le> cap then take (length old) new @ drop (length new) old else old)"

definition crud_read_shared ::
  "('a \<Rightarrow> 'c res) \<Rightarrow> ('c \<Rightarrow> 'a \<Rightarrow> 'w \<Rightarrow> 'r option res \<times> 'w) \<Rightarrow> ('a \<Rightarrow> string) \<Rightarrow> ('r \<Rightarrow> 'a \<Rightarrow> 'a \<times> 'a) \<Rightarrow>
   'a \<Rightarrow> 'w \<Rightarrow> ('a, 'a) read_response option res \<times> 'w" where
  "crud_read_shared client reader ident fill a w =
     (case client a of
        Ok cli \<Rightarrow>
          (case reader cli a w of
             (r, w') \<Rightarrow>
               (map_res (map_option (\<lambda>row. case fill row a of
                  (ins, st) \<Rightarrow> \<lparr>rd_ID = ident a, rd_Inputs = ins, rd_State = st\<rparr>)) r, w'))
      | r \<Rightarrow> (map_res (\<lambda>_. None) r, w))"

lemma shared_write_same [simp]: "shared_write cap xs xs = xs"
  by (simp add: shared_write_def)

lemma length_shared_write [simp]: "length (shared_write cap old new) = length old"
  by (simp add: shared_write_def min_def)

section \<open>The session of an apply function\<close>

lemma session_name_nonempty [simp]: "session_name C s \<noteq> []"
  by (simp add: session_name_def)

lemma newClient_returns [simp]: "returns (newClient C ov)"
  by (simp add: newClient_def)

lemma newClient_Ok: "newClient C ov = Ok cli \<Longrightarrow> slot_free cli \<and> (\<exists>n. cl_node cli = Some n)"
  by (simp add: newClient_def EAPIClient_Ok)

lemma run_session_returns:
  "slot_free cli \<Longrightarrow> run_session E cli name cmds w = (r, c', w') \<Longrightarrow> returns r \<and> slot_free c'"
  unfolding run_session_def by (rule eapi_plain.with_session_total)

lemma apply_session_returns: "returns (fst (apply_session C ov suffix cmds w))"
proof (cases "newClient C ov")
  case (Ok cli)
  obtain r c' w' where r: "run_session (cx_env C) cli (session_name C suffix) cmds w = (r, c', w')"
    by (metis prod.exhaust)
  with Ok newClient_Ok run_session_returns show ?thesis by (fastforce simp: apply_session_def)
next
  case Panic
  with newClient_returns [of C ov] show ?thesis by simp
next
  case Blocked
  with newClient_returns [of C ov] show ?thesis by simp
qed (simp add: apply_session_def)

section \<open>Resources managed through sessions\<close>

text \<open>
  The interface of a managed resource.  Its only law is that applying returns: it neither
  panics nor waits for ever.
\<close>

locale managed =
  fixes validate :: "'a \<Rightarrow> error option"
    and ident :: "'a \<Rightarrow> string"
    and apply_to :: "'a \<Rightarrow> bool \<Rightarrow> 'w \<Rightarrow> unit res \<times> 'w"
  assumes apply_returns: "returns (fst (apply_to a rm w))"
begin

lemma create_dry: "DryRun req \<Longrightarrow> snd (crud_create validate ident apply_to lab req w) = w"
  by (auto simp: crud_create_def Let_def split: option.split)

lemma create_invalid:
  "validate (Inputs req) = Some e \<Longrightarrow> crud_create validate ident apply_to lab req w = (Err e, w)"
  by (simp add: crud_create_def)

lemma create_returns: "returns (fst (crud_create validate ident apply_to lab req w))"
  using apply_returns [of "Inputs req" False w]
  by (auto simp: crud_create_def Let_def split: option.split prod.split)

lemma create_Ok_iff:
  "fst (crud_create validate ident apply_to lab req w) = Ok resp \<longleftrightarrow>
     validate (Inputs req) = None \<and> resp = \<lparr>cr_ID = ident (Inputs req), cr_Output = Inputs req\<rparr> \<and>
     (DryRun req \<or> fst (apply_to (Inputs req) False w) = Ok ())"
  by (auto simp: crud_create_def Let_def split: option.split prod.split)

lemma update_dry: "DryRun req \<Longrightarrow> snd (crud_update validate apply_to lab req w) = w"
  by (auto simp: crud_update_def Let_def split: option.split)

lemma update_invalid:
  "validate (Inputs req) = Some e \<Longrightarrow> crud_update validate apply_to lab req w = (Err e, w)"
  by (simp add: crud_update_def)

lemma update_Ok_iff:
  "fst (crud_update validate apply_to lab req w) = Ok st \<longleftrightarrow>
     validate (Inputs req) = None \<and> st = Inputs req \<and>
     (DryRun req \<or> fst (apply_to (Inputs req) False w) = Ok ())"
  by (auto simp: crud_update_def Let_def split: option.split prod.split)

lemma update_returns: "returns (fst (crud_update validate apply_to lab req w))"
  using apply_returns [of "Inputs req" False w]
  by (auto simp: crud_update_def Let_def split: option.split prod.split)

lemma delete_returns: "returns (fst (crud_delete apply_to lab st w))"
  using apply_returns [of st True w] by (auto simp: crud_delete_def split: prod.split)

end

section \<open>Resources read back from the running configuration\<close>

text \<open>
  \<open>shown a\<close> are the lines by which the device shows the resource, \<open>canonical a\<close> the
  arguments that the device's text determines.  The law is the round trip: parsing a text
  that shows a valid resource and filling it into its arguments changes nothing.
\<close>

locale readback =
  fixes validate :: "'a \<Rightarrow> error option"
    and canonical :: "'a \<Rightarrow> bool"
    and idle :: "string \<Rightarrow> bool"
    and shown :: "'a \<Rightarrow> string list"
    and parse :: "'a \<Rightarrow> string \<Rightarrow> 'r option res"
    and fill :: "'r \<Rightarrow> 'a \<Rightarrow> 'a"
  assumes roundtrip:
    "validate a = None \<Longrightarrow> canonical a \<Longrightarrow> prints idle out (shown a) \<Longrightarrow>
       \<exists>row. parse a out = Ok (Some row) \<and> fill row a = a"
    and shown_text: "canonical a \<Longrightarrow> prints idle out (shown a) \<Longrightarrow> out \<noteq> []"
begin

text \<open>A refresh of an unchanged resource reports no drift and keeps its ID.\<close>

lemma refresh_stable:
  assumes "validate a = None" "canonical a" "prints idle out (shown a)"
    and "client a = Ok cli" and "show_text C cli (cmd a) w = (Ok out, w')"
  shows "crud_read client (\<lambda>cli a. read_text C cli (cmd a) (parse a)) ident fill a w
       = (Ok (Some \<lparr>rd_ID = ident a, rd_Inputs = a, rd_State = a\<rparr>), w')"
proof -
  obtain row where "parse a out = Ok (Some row)" "fill row a = a" using roundtrip assms by blast
  moreover have "out \<noteq> []" using shown_text assms(2,3) by blast
  ultimately show ?thesis using assms(4,5) by (simp add: crud_read_def read_text_def)
qed

end

end
