(* ===== verification/Session_Device.thy ===== *)
theory Session_Device
  imports Session_Trace
begin

text \<open>
  What the session pattern achieves on a device that implements configuration sessions as
  EOS documents them.  \<open>honours_sessions\<close> states that documented behaviour for one node and
  one session name, over three observers of the world: the running configuration, the
  commands pending in the named session, and the device's way of merging them.
\<close>

definition honours_sessions ::
  "('n, 'w) env \<Rightarrow> 'n \<Rightarrow> string \<Rightarrow> ('w \<Rightarrow> 'cfg) \<Rightarrow> ('w \<Rightarrow> string list) \<Rightarrow>
   ('cfg \<Rightarrow> string list \<Rightarrow> 'cfg) \<Rightarrow> bool" where
  "honours_sessions E n name running pending merge \<longleftrightarrow>
     (\<forall>w r w'. node_run E n (open_cmds name) ''json'' w = (r, w') \<longrightarrow>
        running w' = running w \<and> pending w' = pending w) \<and>
     (\<forall>w r w' cmds. node_run E n (stage_cmds name cmds) ''json'' w = (r, w') \<longrightarrow>
        running w' = running w \<and> (\<forall>rows. r = Inr rows \<longrightarrow> pending w' = pending w @ cmds)) \<and>
     (\<forall>w r w'. node_run E n [abort_cmd name] ''json'' w = (r, w') \<longrightarrow>
        running w' = running w \<and> (\<forall>rows. r = Inr rows \<longrightarrow> pending w' = [])) \<and>
     (\<forall>w r w'. node_run E n [commit_cmd name] ''json'' w = (r, w') \<longrightarrow>
        (case r of Inr rows \<Rightarrow> running w' = merge (running w) (pending w) \<and> pending w' = []
         | Inl e \<Rightarrow> running w' = running w \<and> pending w' = pending w))"

lemma RunCmds_node:
  assumes "RunCmds E c cmds fmt w = (r, w')" and "cl_node c = Some n" and "fmt \<noteq> []"
  shows "(w' = w \<and> \<not> is_Ok r) \<or>
    (\<exists>q. node_run E n cmds fmt w = (q, w') \<and> is_Ok r = (\<exists>rows. q = Inr rows))"
  using assms
  by (auto simp: RunCmds_def split: option.splits prod.splits sum.splits)

section \<open>Each call on such a device\<close>

lemma OpenSession_device:
  assumes h: "honours_sessions E n name running pending merge"
    and o: "OpenSession E c name w = (r, c', w')" and "cl_node c = Some n"
  shows "running w' = running w \<and> pending w' = pending w"
proof -
  have "w' = w \<or> (\<exists>q. RunCmds E (c\<lparr>cl_slot := True\<rparr>) (open_cmds name) ''json'' w = (q, w'))"
    using o by (auto simp: OpenSession_eq Let_def split: if_splits option.splits prod.splits)
  with h RunCmds_node [of E "c\<lparr>cl_slot := True\<rparr>" "open_cmds name" "''json''" w _ w' n] assms(3)
  show ?thesis by (fastforce simp: honours_sessions_def)
qed

lemma Stage_device:
  assumes h: "honours_sessions E n (s_name s) running pending merge"
    and o: "Stage E s cmds w = (r, w')" and "cl_node (s_parent s) = Some n"
  shows "running w' = running w \<and> (is_Ok r \<longrightarrow> pending w' = pending w @ cmds)"
proof (cases "s_open s")
  case True
  obtain q where q: "RunCmds E (s_parent s) (stage_cmds (s_name s) cmds) ''json'' w = (q, w')"
    and r: "is_Ok r = is_Ok q"
    using o True by (auto simp: Stage_def split: prod.splits)
  from RunCmds_node [OF q assms(3)] h r show ?thesis by (fastforce simp: honours_sessions_def)
qed (use o in \<open>auto simp: Stage_def\<close>)

lemma Abort_device:
  assumes h: "honours_sessions E n (s_name s) running pending merge"
    and o: "Abort E s w = (r, s', w')" and "cl_node (s_parent s) = Some n"
  shows "running w' = running w"
proof (cases "s_open s")
  case True
  obtain q where q: "RunCmds E (s_parent s) [abort_cmd (s_name s)] ''json'' w = (q, w')"
    using o True by (auto simp: Abort_def split: prod.splits)
  from RunCmds_node [OF q assms(3)] h show ?thesis by (fastforce simp: honours_sessions_def)
qed (use o in \<open>auto simp: Abort_def\<close>)

lemma Commit_device:
  assumes h: "honours_sessions E n (s_name s) running pending merge"
    and o: "Commit E s w = (r, s', w')" and "cl_node (s_parent s) = Some n"
  shows "if is_Ok r then running w' = merge (running w) (pending w) \<and> pending w' = []
         else running w' = running w \<and> pending w' = pending w"
proof (cases "s_open s")
  case True
  obtain q where q: "RunCmds E (s_parent s) [commit_cmd (s_name s)] ''json'' w = (q, w')"
    and r: "is_Ok r = is_Ok q"
    using o True by (auto simp: Commit_def split: prod.splits)
  from RunCmds_node [OF q assms(3)] consider "w' = w" "\<not> is_Ok q"
    | p where "node_run E n [commit_cmd (s_name s)] ''json'' w = (p, w')" "is_Ok q = (\<exists>rows. p = Inr rows)"
    by auto
  then show ?thesis
  proof cases
    case 2
    with h r show ?thesis by (cases p) (fastforce simp: honours_sessions_def)+
  qed (use r in simp)
qed (use o in \<open>auto simp: Commit_def\<close>)

section \<open>The whole pattern\<close>

text \<open>
  A run either leaves the running configuration alone and reports an error, or reports
  success and has merged what was pending in the session followed by its own commands.
\<close>

lemma run_session_device:
  assumes h: "honours_sessions E n name running pending merge"
    and run: "run_session E c name cmds w = (r, c', w')"
    and free: "slot_free c" and node: "cl_node c = Some n"
  shows "if is_Ok r then running w' = merge (running w) (pending w @ cmds) \<and> pending w' = []
         else running w' = running w"
proof -
  obtain ro c1 w1 where o: "OpenSession E c name w = (ro, c1, w1)" by (metis prod.exhaust)
  note o' = OpenSession_device [OF h o node]
  show ?thesis
  proof (cases "\<exists>s. ro = Ok s")
    case False
    with o run o' show ?thesis
      by (cases ro) (auto simp: run_session_def with_session_def)
  next
    case True
    then obtain s where s: "ro = Ok s" ..
    with o have sn: "s_name s = name" and nd: "cl_node (s_parent s) = Some n"
      using OpenSession_session node by (fastforce dest: OpenSession_session)+
    obtain rs w2 where st: "Stage E s cmds w1 = (rs, w2)" by (rule prod.exhaust)
    have st': "running w2 = running w1" "is_Ok rs \<Longrightarrow> pending w2 = pending w1 @ cmds"
      using Stage_device [OF h [folded sn] st nd] by auto
    have "returns rs" using Stage_returns [of E s cmds w1] st by simp
    then consider "rs = Ok ()" | e where "rs = Err e" by (cases rs) auto
    then show ?thesis
    proof cases
      case 1
      obtain rc s' w3 where cm: "Commit E s w2 = (rc, s', w3)" by (metis prod.exhaust)
      from 1 o s st cm run have "r = rc" "w' = w3" by (auto simp: run_session_def with_session_def)
      with 1 o' st' Commit_device [OF h [folded sn] cm nd] show ?thesis by (auto split: if_splits)
    next
      case 2
      obtain ra s' w3 where ab: "Abort E s w2 = (ra, s', w3)" by (metis prod.exhaust)
      from 2 o s st ab run have "r = after_abort e ra" "w' = w3"
        by (auto simp: run_session_def with_session_def)
      with o' st' Abort_device [OF h [folded sn] ab nd] show ?thesis by (auto simp: is_Ok_def)
    qed
  qed
qed

section \<open>A commit that fails\<close>

text \<open>
  Commit closes the session whether or not the device accepted it, so the Abort that is to
  follow an error sends nothing: the staged commands stay pending on the device.
\<close>

lemma failed_commit_keeps_pending:
  assumes h: "honours_sessions E n (s_name s) running pending merge"
    and o: "Commit E s w = (Err e, s', w')" and nd: "cl_node (s_parent s) = Some n"
    and op: "s_open s"
  shows "pending w' = pending w \<and> \<not> s_open s' \<and> slot_free (s_parent s') \<and> Abort E s' v = (Ok (), s', v)"
  using Commit_device [OF h o nd] Commit_closes [OF op o] by (simp add: Abort_def)

section \<open>A device that behaves so\<close>

text \<open>
  A small device with one session: its configuration is the list of committed commands,
  and it may refuse a commit.
\<close>

record sim =
  sim_running :: "string list"
  sim_pending :: "string list"
  sim_refuses :: bool

definition sim_run :: "string \<Rightarrow> string list \<Rightarrow> sim \<Rightarrow> (error + row list) \<times> sim" where
  "sim_run name cmds w =
     (if cmds = [commit_cmd name] then
        (if sim_refuses w then (Inl (Foreign ''commit refused''), w)
         else (Inr [], w\<lparr>sim_running := sim_running w @ sim_pending w, sim_pending := []\<rparr>))
      else if cmds = [abort_cmd name] then (Inr [], w\<lparr>sim_pending := []\<rparr>)
      else if cmds \<noteq> [] \<and> hd cmds = ''configure session '' @ name
        then (Inr [], w\<lparr>sim_pending := sim_pending w @ butlast (tl cmds)\<rparr>)
      else if cmds = [''show session-config named '' @ name @ '' diffs'']
        then (Inr [[(''output'', JStr (Join (map (\<lambda>l. ''+'' @ l) (sim_pending w)) [newline]))]], w)
      else (Inr [], w))"

definition sim_env :: "string \<Rightarrow> (unit, sim) env" where
  "sim_env name =
     \<lparr>goeapi_connect = (\<lambda>_ _ _ _ _. Inr ()),
      node_run = (\<lambda>_ cmds _ w. sim_run name cmds w),
      new_request_err = (\<lambda>_. None),
      http_do = (\<lambda>_ w. (Inr (Inr \<lparr>rpc_Result = [], rpc_Error = None\<rparr>), w)),
      ctx_err = (\<lambda>_. None),
      select_done = (\<lambda>_. False)\<rparr>"

lemma sim_honours: "honours_sessions (sim_env name) n name sim_running sim_pending (@)"
proof -
  have "commit_cmd name \<noteq> abort_cmd name" "abort_cmd name \<noteq> commit_cmd name"
    by (simp_all add: commit_cmd_def abort_cmd_def)
  then show ?thesis
    by (auto simp: honours_sessions_def sim_env_def sim_run_def open_cmds_def stage_cmds_def
        split: if_splits)
qed

end
