(* ===== verification/Session_Managed.thy ===== *)
theory Session_Managed
  imports Resource Session_Device
begin

text \<open>
  Resources whose apply function is one configuration session, on a device that implements
  sessions: every handler either merges exactly the commands that the resource renders, or
  leaves the running configuration as it was.
\<close>

text \<open>The effect of a call that sends commands in a session.\<close>

definition changed_by ::
  "('w \<Rightarrow> 'cfg) \<Rightarrow> ('w \<Rightarrow> string list) \<Rightarrow> ('cfg \<Rightarrow> string list \<Rightarrow> 'cfg) \<Rightarrow> string list \<Rightarrow> bool \<Rightarrow> 'w \<Rightarrow> 'w \<Rightarrow> bool" where
  "changed_by running pending merge cmds ok w w' \<longleftrightarrow>
     (if ok then running w' = merge (running w) (pending w @ cmds) \<and> pending w' = []
      else running w' = running w)"

lemma changed_by_refused [simp]: "changed_by running pending merge cmds False w w"
  by (simp add: changed_by_def)

lemma apply_session_device:
  assumes h: "\<forall>n. honours_sessions (cx_env C) n (session_name C suffix) running pending merge"
  shows "changed_by running pending merge cmds (is_Ok (fst (apply_session C ov suffix cmds w))) w
           (snd (apply_session C ov suffix cmds w))"
proof (cases "newClient C ov")
  case (Ok cli)
  then obtain n where free: "slot_free cli" and node: "cl_node cli = Some n" using newClient_Ok by blast
  obtain r c' w' where run: "run_session (cx_env C) cli (session_name C suffix) cmds w = (r, c', w')"
    by (metis prod.exhaust)
  with Ok have "apply_session C ov suffix cmds w = (r, w')" by (simp add: apply_session_def)
  with run_session_device [OF h [rule_format] run free node] show ?thesis by (simp add: changed_by_def)
qed (simp_all add: apply_session_def)

text \<open>A handler has the effect of the apply function it calls.\<close>

lemma crud_changed:
  assumes "\<And>rm. changed_by running pending merge (cmds rm) (is_Ok (fst (app a rm w))) w (snd (app a rm w))"
  shows "changed_by running pending merge (cmds False)
       (is_Ok (fst (crud_create validate ident app lab \<lparr>Inputs = a, DryRun = False\<rparr> w))) w
       (snd (crud_create validate ident app lab \<lparr>Inputs = a, DryRun = False\<rparr> w))"
    and "changed_by running pending merge (cmds False)
       (is_Ok (fst (crud_update validate app lab \<lparr>Inputs = a, DryRun = False\<rparr> w))) w
       (snd (crud_update validate app lab \<lparr>Inputs = a, DryRun = False\<rparr> w))"
    and "changed_by running pending merge (cmds True)
       (is_Ok (fst (crud_delete app lab a w))) w (snd (crud_delete app lab a w))"
  using assms [of False] assms [of True]
  by (cases "validate a"; cases "app a False w"; cases "app a True w";
      simp add: crud_create_def crud_update_def crud_delete_def Let_def)+

text \<open>A handler that validates, stops on a dry run, and otherwise applies and answers \<open>resp\<close>.\<close>

definition guarded :: "bool \<Rightarrow> error option \<Rightarrow> unit res \<times> 'w \<Rightarrow> 'r \<Rightarrow> 'w \<Rightarrow> 'r res \<times> 'w \<Rightarrow> bool" where
  "guarded dry invalid applied resp w out \<longleftrightarrow>
     snd out = (if dry \<or> invalid \<noteq> None then w else snd applied)
     \<and> (is_Ok (fst out) \<longleftrightarrow> invalid = None \<and> (dry \<or> is_Ok (fst applied)))
     \<and> (\<forall>v. fst out = Ok v \<longrightarrow> v = resp)"

lemma crud_guarded:
  "guarded dry (validate a) (app a False w) \<lparr>cr_ID = ident a, cr_Output = a\<rparr> w
     (crud_create validate ident app lab \<lparr>Inputs = a, DryRun = dry\<rparr> w)"
  "guarded dry (validate a) (app a False w) a w (crud_update validate app lab \<lparr>Inputs = a, DryRun = dry\<rparr> w)"
  by (cases "validate a"; cases "app a False w"; cases "fst (app a False w)";
      simp add: guarded_def crud_create_def crud_update_def Let_def)+

text \<open>
  The effect of a handler's call: \<open>session_changed\<close> says that the running configuration was
  merged with the commands if the call succeeded, and is as it was otherwise.
\<close>

definition session_changed ::
  "('n, 'w) ctx \<Rightarrow> ('w \<Rightarrow> 'cfg) \<Rightarrow> (string \<Rightarrow> 'w \<Rightarrow> string list) \<Rightarrow> ('cfg \<Rightarrow> string list \<Rightarrow> 'cfg) \<Rightarrow>
   string \<Rightarrow> string list \<Rightarrow> 'w \<Rightarrow> 'r res \<times> 'w \<Rightarrow> bool" where
  "session_changed C running pending merge suffix cmds w out \<longleftrightarrow>
     changed_by running (pending (session_name C suffix)) merge cmds (is_Ok (fst out)) w (snd out)"

text \<open>
  The interface of such a resource: the suffix of its session's name and the commands it
  renders, and the law that applying is one session with them.
\<close>

locale session_managed =
  fixes C :: "('n, 'w) ctx"
    and validate :: "'x overrides_scheme \<Rightarrow> error option"
    and ident :: "'x overrides_scheme \<Rightarrow> string"
    and apply_to :: "'x overrides_scheme \<Rightarrow> bool \<Rightarrow> 'w \<Rightarrow> unit res \<times> 'w"
    and suffix :: "'x overrides_scheme \<Rightarrow> string"
    and cmds :: "'x overrides_scheme \<Rightarrow> bool \<Rightarrow> string list"
  assumes apply_eq: "apply_to a rm w = apply_session C a (suffix a) (cmds a rm) w"
begin

lemma apply_device:
  "\<forall>n. honours_sessions (cx_env C) n (session_name C (suffix a)) running pending merge \<Longrightarrow>
   changed_by running pending merge (cmds a rm) (is_Ok (fst (apply_to a rm w))) w (snd (apply_to a rm w))"
  unfolding apply_eq by (rule apply_session_device)

end

sublocale session_managed \<subseteq> managed validate ident apply_to
  by unfold_locales (simp add: apply_eq apply_session_returns)

context session_managed begin

text \<open>Create, Update and Delete of such a resource.\<close>

lemmas handlers_device = crud_changed [where app = apply_to, OF apply_device]

end

end
