(* ===== verification/Vlan.thy ===== *)
theory Vlan
  imports Session_Managed
begin

text \<open>\<open>internal/resources/l2/vlan.go\<close>: one VLAN, created and named through a session, read from JSON.\<close>

definition ErrVlanIDOutOfRange :: error where
  [errs]: "ErrVlanIDOutOfRange = Sentinel ''vlan id must be in 1..4094''"

record VlanArgs = overrides +
  vlan_Id :: int
  vlan_Name :: "string option"

text \<open>The state embeds the arguments and adds nothing.\<close>

type_synonym VlanState = VlanArgs

definition validateVlanID :: "int \<Rightarrow> error option" where
  "validateVlanID i =
     (if i < 1 \<or> i > 4094 then Some (Got ErrVlanIDOutOfRange [DInt i]) else None)"

definition vlanID :: "int \<Rightarrow> string" where
  "vlanID i = ''vlan/'' @ Itoa i"

definition buildVlanCmds :: "VlanArgs \<Rightarrow> bool \<Rightarrow> string list" where
  "buildVlanCmds args remove =
     (if remove then [''no vlan '' @ Itoa (vlan_Id args)]
      else [''vlan '' @ Itoa (vlan_Id args)]
           @ line_opt (\<lambda>n. ''name '' @ n) (nonempty (vlan_Name args)))"

definition applyVlan :: "('n, 'w) ctx \<Rightarrow> VlanArgs \<Rightarrow> bool \<Rightarrow> 'w \<Rightarrow> unit res \<times> 'w" where
  "applyVlan C args remove w =
     apply_session C args (''vlan-'' @ Itoa (vlan_Id args)) (buildVlanCmds args remove) w"

text \<open>\<open>vlanRow\<close> has a single field, the name; a missing or non-string name is empty.\<close>

definition vlan_row :: "row list \<Rightarrow> int \<Rightarrow> string option" where
  "vlan_row resp i =
     (case resp of
        [] \<Rightarrow> None
      | r # _ \<Rightarrow>
          (case get_obj r ''vlans'' of
             None \<Rightarrow> None
           | Some vlans \<Rightarrow>
               if vlans = [] then None
               else (case get_obj vlans (Itoa i) of
                       None \<Rightarrow> None
                     | Some entry \<Rightarrow> Some (or_empty (get_str entry ''name'')))))"

definition readVlan :: "('n, 'w) ctx \<Rightarrow> 'n client \<Rightarrow> int \<Rightarrow> 'w \<Rightarrow> string option res \<times> 'w" where
  "readVlan C cli i w =
     (case RunCmds (cx_env C) cli [''show vlan''] ''json'' w of
        (r, w') \<Rightarrow> (map_res (\<lambda>resp. vlan_row resp i) r, w'))"

definition fillVlan :: "string \<Rightarrow> VlanState \<Rightarrow> VlanState" where
  "fillVlan name s = s\<lparr>vlan_Name := set_str name (vlan_Name s)\<rparr>"

definition Vlan_Create :: "('n, 'w) ctx \<Rightarrow> VlanArgs request \<Rightarrow> 'w \<Rightarrow> VlanState created res \<times> 'w" where
  "Vlan_Create C =
     crud_create (\<lambda>a. validateVlanID (vlan_Id a)) (\<lambda>a. vlanID (vlan_Id a)) (applyVlan C)
       (\<lambda>a. ''create vlan '' @ Itoa (vlan_Id a))"

definition Vlan_Read ::
  "('n, 'w) ctx \<Rightarrow> VlanArgs \<Rightarrow> 'w \<Rightarrow> (VlanArgs, VlanState) read_response option res \<times> 'w" where
  "Vlan_Read C =
     crud_read (newClient C) (\<lambda>cli a. readVlan C cli (vlan_Id a)) (\<lambda>a. vlanID (vlan_Id a)) fillVlan"

definition Vlan_Update :: "('n, 'w) ctx \<Rightarrow> VlanArgs request \<Rightarrow> 'w \<Rightarrow> VlanState res \<times> 'w" where
  "Vlan_Update C =
     crud_update (\<lambda>a. validateVlanID (vlan_Id a)) (applyVlan C)
       (\<lambda>a. ''update vlan '' @ Itoa (vlan_Id a))"

definition Vlan_Delete :: "('n, 'w) ctx \<Rightarrow> VlanState \<Rightarrow> 'w \<Rightarrow> unit res \<times> 'w" where
  "Vlan_Delete C = crud_delete (applyVlan C) (\<lambda>a. ''delete vlan '' @ Itoa (vlan_Id a))"

interpretation vlan_mgr: session_managed C "\<lambda>a. validateVlanID (vlan_Id a)" "\<lambda>a. vlanID (vlan_Id a)"
  "applyVlan C" "\<lambda>a. ''vlan-'' @ Itoa (vlan_Id a)" buildVlanCmds
  by unfold_locales (simp add: applyVlan_def)

lemma validateVlanID_None [simp]: "validateVlanID i = None \<longleftrightarrow> 1 \<le> i \<and> i \<le> 4094"
  by (auto simp: validateVlanID_def)

lemma vlan_int64: "validateVlanID i = None \<Longrightarrow> int64 i"
  by (auto simp: int64_def)

lemma vlan_row_fill:
  assumes "get_obj r ''vlans'' = Some vlans" and "get_obj vlans (Itoa i) = Some entry"
  shows "vlan_row (r # rs) i = Some (or_empty (get_str entry ''name''))"
  using assms by (auto simp: vlan_row_def get_obj_def)

end
