(* ===== verification/Vlan_Range.thy ===== *)
theory Vlan_Range
  imports Vlan
begin

text \<open>\<open>internal/resources/l2/vlan_range.go\<close>: a contiguous block of VLANs, probed at its two ends.\<close>

definition ErrVlanRangeStartRange :: error where
  [errs]: "ErrVlanRangeStartRange = Sentinel ''vlanRange start must be in 1..4094''"
definition ErrVlanRangeEndRange :: error where
  [errs]: "ErrVlanRangeEndRange = Sentinel ''vlanRange end must be in 1..4094''"
definition ErrVlanRangeStartGtEnd :: error where
  [errs]: "ErrVlanRangeStartGtEnd = Sentinel ''vlanRange start must be <= end''"

record VlanRangeArgs = overrides +
  vr_Start :: int
  vr_End :: int
  vr_Name :: "string option"

type_synonym VlanRangeState = VlanRangeArgs

definition validateVlanRange :: "VlanRangeArgs \<Rightarrow> error option" where
  "validateVlanRange args =
     (if vr_Start args < 1 \<or> vr_Start args > 4094
        then Some (Got ErrVlanRangeStartRange [DInt (vr_Start args)])
      else if vr_End args < 1 \<or> vr_End args > 4094
        then Some (Got ErrVlanRangeEndRange [DInt (vr_End args)])
      else if vr_Start args > vr_End args
        then Some (Got ErrVlanRangeStartGtEnd [DInt (vr_Start args), DInt (vr_End args)])
      else None)"

definition vlan_span :: "int \<Rightarrow> int \<Rightarrow> string" where
  "vlan_span s e = Itoa s @ ''-'' @ Itoa e"

definition vlanRangeID :: "int \<Rightarrow> int \<Rightarrow> string" where
  "vlanRangeID s e = ''vlan-range/'' @ vlan_span s e"

definition buildVlanRangeCmds :: "VlanRangeArgs \<Rightarrow> bool \<Rightarrow> string list" where
  "buildVlanRangeCmds args remove =
     (let rng = vlan_span (vr_Start args) (vr_End args) in
      if remove then [''no vlan '' @ rng]
      else [''vlan '' @ rng] @ line_opt (\<lambda>n. ''name '' @ n) (nonempty (vr_Name args)))"

definition applyVlanRange :: "('n, 'w) ctx \<Rightarrow> VlanRangeArgs \<Rightarrow> bool \<Rightarrow> 'w \<Rightarrow> unit res \<times> 'w" where
  "applyVlanRange C args remove w =
     apply_session C args (''vlanrange-'' @ vlan_span (vr_Start args) (vr_End args))
       (buildVlanRangeCmds args remove) w"

text \<open>\<open>readVlanForRange\<close>, which unlike \<open>readVlan\<close> does not test the map for emptiness first.\<close>

definition range_row :: "row list \<Rightarrow> int \<Rightarrow> string option" where
  "range_row resp i =
     (case resp of
        [] \<Rightarrow> None
      | r # _ \<Rightarrow>
          (case get_obj r ''vlans'' of
             None \<Rightarrow> None
           | Some vlans \<Rightarrow>
               (case get_obj vlans (Itoa i) of
                  None \<Rightarrow> None
                | Some entry \<Rightarrow> Some (or_empty (get_str entry ''name'')))))"

definition readVlanForRange :: "('n, 'w) ctx \<Rightarrow> 'n client \<Rightarrow> int \<Rightarrow> 'w \<Rightarrow> string option res \<times> 'w" where
  "readVlanForRange C cli i w =
     (case RunCmds (cx_env C) cli [''show vlan''] ''json'' w of
        (r, w') \<Rightarrow> (map_res (\<lambda>resp. range_row resp i) r, w'))"

text \<open>Both ends must be present; the name shown is the lower end's, unless EOS derived it.\<close>

definition readVlanRange ::
  "('n, 'w) ctx \<Rightarrow> 'n client \<Rightarrow> VlanRangeArgs \<Rightarrow> 'w \<Rightarrow> string option res \<times> 'w" where
  "readVlanRange C cli a w =
     (case readVlanForRange C cli (vr_Start a) w of
        (Ok lo, w1) \<Rightarrow>
          (case readVlanForRange C cli (vr_End a) w1 of
             (r, w2) \<Rightarrow> (map_res (\<lambda>hi. if lo = None \<or> hi = None then None else lo) r, w2))
      | (r, w1) \<Rightarrow> (r, w1))"

definition fillVlanRange :: "string \<Rightarrow> VlanRangeState \<Rightarrow> VlanRangeState" where
  "fillVlanRange name s =
     (if name \<noteq> [] \<and> \<not> HasPrefix name ''VLAN'' then s\<lparr>vr_Name := Some name\<rparr> else s)"

definition VlanRange_Create ::
  "('n, 'w) ctx \<Rightarrow> VlanRangeArgs request \<Rightarrow> 'w \<Rightarrow> VlanRangeState created res \<times> 'w" where
  "VlanRange_Create C =
     crud_create validateVlanRange (\<lambda>a. vlanRangeID (vr_Start a) (vr_End a)) (applyVlanRange C)
       (\<lambda>a. ''create vlan-range '' @ vlan_span (vr_Start a) (vr_End a))"

definition VlanRange_Read ::
  "('n, 'w) ctx \<Rightarrow> VlanRangeArgs \<Rightarrow> 'w \<Rightarrow> (VlanRangeArgs, VlanRangeState) read_response option res \<times> 'w" where
  "VlanRange_Read C =
     crud_read (newClient C) (readVlanRange C) (\<lambda>a. vlanRangeID (vr_Start a) (vr_End a)) fillVlanRange"

definition VlanRange_Update ::
  "('n, 'w) ctx \<Rightarrow> VlanRangeArgs request \<Rightarrow> 'w \<Rightarrow> VlanRangeState res \<times> 'w" where
  "VlanRange_Update C =
     crud_update validateVlanRange (applyVlanRange C)
       (\<lambda>a. ''update vlan-range '' @ vlan_span (vr_Start a) (vr_End a))"

definition VlanRange_Delete :: "('n, 'w) ctx \<Rightarrow> VlanRangeState \<Rightarrow> 'w \<Rightarrow> unit res \<times> 'w" where
  "VlanRange_Delete C =
     crud_delete (applyVlanRange C) (\<lambda>a. ''delete vlan-range '' @ vlan_span (vr_Start a) (vr_End a))"

interpretation vlan_range_mgr: session_managed C validateVlanRange "\<lambda>a. vlanRangeID (vr_Start a) (vr_End a)"
  "applyVlanRange C" "\<lambda>a. ''vlanrange-'' @ vlan_span (vr_Start a) (vr_End a)" buildVlanRangeCmds
  by unfold_locales (simp add: applyVlanRange_def)

lemma validateVlanRange_None:
  "validateVlanRange a = None \<longleftrightarrow> 1 \<le> vr_Start a \<and> vr_Start a \<le> vr_End a \<and> vr_End a \<le> 4094"
  by (auto simp: validateVlanRange_def)

end
