(* ===== verification/Switchport.thy ===== *)
theory Switchport
  imports Vlan
begin

text \<open>
  \<open>internal/resources/l2/switchport.go\<close>: the switchport block that physical interfaces and
  port-channels share: validation, rendering, the line parser and the copy into the state.
\<close>

definition SwitchportModeAccess :: string where "SwitchportModeAccess = ''access''"
definition SwitchportModeTrunk :: string where "SwitchportModeTrunk = ''trunk''"
definition SwitchportModeRouted :: string where "SwitchportModeRouted = ''routed''"

lemmas switchport_modes = SwitchportModeAccess_def SwitchportModeTrunk_def SwitchportModeRouted_def

definition ErrSwitchportModeInvalid :: error where
  [errs]: "ErrSwitchportModeInvalid = Sentinel ''switchportMode must be access, trunk, or routed''"
definition ErrSwitchportAccessOnTrunk :: error where
  [errs]: "ErrSwitchportAccessOnTrunk = Sentinel ''accessVlan is only valid when switchportMode=access''"
definition ErrSwitchportTrunkOnAccess :: error where
  [errs]: "ErrSwitchportTrunkOnAccess =
     Sentinel ''trunkAllowedVlans / trunkNativeVlan only valid when switchportMode=trunk''"

record SwitchportFields =
  sp_Mode :: "string option"
  sp_AccessVlan :: "int option"
  sp_TrunkAllowedVlans :: "string option"
  sp_TrunkNativeVlan :: "int option"

definition no_switchport :: SwitchportFields where
  "no_switchport = \<lparr>sp_Mode = None, sp_AccessVlan = None, sp_TrunkAllowedVlans = None,
     sp_TrunkNativeVlan = None\<rparr>"

text \<open>The checks run in the order of the source; the first error wins.\<close>

definition validateSwitchport :: "SwitchportFields \<Rightarrow> error option" where
  "validateSwitchport s =
     (let mode = or_empty (sp_Mode s) in
      if mode \<notin> {[], SwitchportModeAccess, SwitchportModeTrunk, SwitchportModeRouted}
        then Some (Got ErrSwitchportModeInvalid [DStr mode])
      else if opt_err validateVlanID (sp_AccessVlan s) \<noteq> None
        then opt_err validateVlanID (sp_AccessVlan s)
      else if sp_AccessVlan s \<noteq> None \<and> mode \<noteq> [] \<and> mode \<noteq> SwitchportModeAccess
        then Some ErrSwitchportAccessOnTrunk
      else if (sp_TrunkAllowedVlans s \<noteq> None \<or> sp_TrunkNativeVlan s \<noteq> None)
              \<and> mode \<noteq> [] \<and> mode \<noteq> SwitchportModeTrunk
        then Some ErrSwitchportTrunkOnAccess
      else opt_err validateVlanID (sp_TrunkNativeVlan s))"

definition mode_cmds :: "string \<Rightarrow> string list" where
  "mode_cmds m =
     (if m = SwitchportModeRouted then [''no switchport'']
      else if m = SwitchportModeAccess then [''switchport'', ''switchport mode access'']
      else if m = SwitchportModeTrunk then [''switchport'', ''switchport mode trunk'']
      else [])"

definition buildSwitchportCmds :: "SwitchportFields \<Rightarrow> string list" where
  "buildSwitchportCmds s =
     (case sp_Mode s of Some m \<Rightarrow> mode_cmds m | None \<Rightarrow> [])
     @ line_opt (\<lambda>v. ''switchport access vlan '' @ Itoa v) (sp_AccessVlan s)
     @ line_opt (\<lambda>v. ''switchport trunk allowed vlan '' @ v) (nonempty (sp_TrunkAllowedVlans s))
     @ line_opt (\<lambda>v. ''switchport trunk native vlan '' @ Itoa v) (sp_TrunkNativeVlan s)"

record switchportRow =
  sr_Mode :: string
  sr_NoSwitchport :: bool
  sr_AccessVlan :: int
  sr_TrunkAllowedVlans :: string
  sr_TrunkNativeVlan :: int

definition zero_switchportRow :: switchportRow where
  "zero_switchportRow = \<lparr>sr_Mode = [], sr_NoSwitchport = False, sr_AccessVlan = 0,
     sr_TrunkAllowedVlans = [], sr_TrunkNativeVlan = 0\<rparr>"

definition parseSwitchportLine :: "string \<Rightarrow> switchportRow \<Rightarrow> switchportRow \<times> bool" where
  "parseSwitchportLine line row =
     (if line = ''no switchport'' then
        (row\<lparr>sr_NoSwitchport := True, sr_Mode := SwitchportModeRouted\<rparr>, True)
      else if line = ''switchport mode access'' then (row\<lparr>sr_Mode := SwitchportModeAccess\<rparr>, True)
      else if line = ''switchport mode trunk'' then (row\<lparr>sr_Mode := SwitchportModeTrunk\<rparr>, True)
      else if HasPrefix line ''switchport access vlan '' then
        (row\<lparr>sr_AccessVlan := atoi_or (sr_AccessVlan row) (TrimPrefix line ''switchport access vlan '')\<rparr>, True)
      else if HasPrefix line ''switchport trunk allowed vlan '' then
        (row\<lparr>sr_TrunkAllowedVlans := TrimPrefix line ''switchport trunk allowed vlan ''\<rparr>, True)
      else if HasPrefix line ''switchport trunk native vlan '' then
        (row\<lparr>sr_TrunkNativeVlan := atoi_or (sr_TrunkNativeVlan row) (TrimPrefix line ''switchport trunk native vlan '')\<rparr>, True)
      else (row, False))"

definition fillSwitchport :: "switchportRow \<Rightarrow> SwitchportFields \<Rightarrow> SwitchportFields" where
  "fillSwitchport r s =
     s\<lparr>sp_Mode := set_str (sr_Mode r) (sp_Mode s),
       sp_AccessVlan := set_pos (sr_AccessVlan r) (sp_AccessVlan s),
       sp_TrunkAllowedVlans := set_str (sr_TrunkAllowedVlans r) (sp_TrunkAllowedVlans s),
       sp_TrunkNativeVlan := set_pos (sr_TrunkNativeVlan r) (sp_TrunkNativeVlan s)\<rparr>"

section \<open>Reading back a rendered block\<close>

text \<open>What the parser makes of a rendered block, field by field.\<close>

definition shown_switchport :: "SwitchportFields \<Rightarrow> switchportRow \<Rightarrow> switchportRow" where
  "shown_switchport s r =
     r\<lparr>sr_Mode := opt_or (sr_Mode r) (nonempty (sp_Mode s)),
       sr_NoSwitchport := (sr_NoSwitchport r \<or> sp_Mode s = Some SwitchportModeRouted),
       sr_AccessVlan := opt_or (sr_AccessVlan r) (sp_AccessVlan s),
       sr_TrunkAllowedVlans := opt_or (sr_TrunkAllowedVlans r) (nonempty (sp_TrunkAllowedVlans s)),
       sr_TrunkNativeVlan := opt_or (sr_TrunkNativeVlan r) (sp_TrunkNativeVlan s)\<rparr>"

lemma validateSwitchport_vlans:
  assumes "validateSwitchport s = None"
  shows "pred_option (\<lambda>v. 1 \<le> v \<and> v \<le> 4094) (sp_AccessVlan s)"
    and "pred_option (\<lambda>v. 1 \<le> v \<and> v \<le> 4094) (sp_TrunkNativeVlan s)"
  using assms
  by (cases "sp_AccessVlan s"; cases "sp_TrunkNativeVlan s";
      simp add: validateSwitchport_def opt_err_def Let_def split: if_splits)+

text \<open>An empty string is the one way to write "unset" that the device's text cannot give back.\<close>

definition canonical_switchport :: "SwitchportFields \<Rightarrow> bool" where
  "canonical_switchport s \<longleftrightarrow> sp_Mode s \<noteq> Some [] \<and> sp_TrunkAllowedVlans s \<noteq> Some []"

lemma fill_shown_switchport:
  assumes "validateSwitchport s = None" and "canonical_switchport s"
  shows "fillSwitchport (shown_switchport s zero_switchportRow) no_switchport = s"
proof -
  have "pred_option (\<lambda>v. 0 < v) (sp_AccessVlan s)" "pred_option (\<lambda>v. 0 < v) (sp_TrunkNativeVlan s)"
    using validateSwitchport_vlans [OF assms(1)] by (auto simp: option.pred_set)
  with assms(2) show ?thesis
    by (simp add: fillSwitchport_def shown_switchport_def zero_switchportRow_def no_switchport_def
        canonical_switchport_def)
qed

text \<open>
  A parser that hosts the switchport block: its body hands a line to
  \<open>parseSwitchportLine\<close> first and stores the result, and skips the bare \<open>switchport\<close>.
\<close>

locale switchport_host =
  fixes body :: "string \<Rightarrow> 'r \<Rightarrow> 'r"
    and get_sp :: "'r \<Rightarrow> switchportRow"
    and put_sp :: "switchportRow \<Rightarrow> 'r \<Rightarrow> 'r"
  assumes consumes: "parseSwitchportLine l (get_sp r) = (sp, True) \<Longrightarrow> body l r = put_sp sp r"
    and skips: "body ''switchport'' r = r"
    and get_put: "get_sp (put_sp sp r) = sp"
    and put_put: "put_sp sp (put_sp sp' r) = put_sp sp r"
    and put_get: "put_sp (get_sp r) r = r"
begin

lemma fold_mode:
  assumes "m \<in> {[], SwitchportModeAccess, SwitchportModeTrunk, SwitchportModeRouted}"
  shows "fold body (mode_cmds m) r =
    put_sp ((get_sp r)\<lparr>sr_Mode := (if m = [] then sr_Mode (get_sp r) else m),
                       sr_NoSwitchport := (sr_NoSwitchport (get_sp r) \<or> m = SwitchportModeRouted)\<rparr>) r"
proof -
  have "body ''no switchport'' r = put_sp ((get_sp r)\<lparr>sr_Mode := SwitchportModeRouted, sr_NoSwitchport := True\<rparr>) r"
       "body ''switchport mode access'' r = put_sp ((get_sp r)\<lparr>sr_Mode := SwitchportModeAccess\<rparr>) r"
       "body ''switchport mode trunk'' r = put_sp ((get_sp r)\<lparr>sr_Mode := SwitchportModeTrunk\<rparr>) r"
    by (rule consumes; simp add: parseSwitchportLine_def)+
  note lines = this
  from assms consider "m = []" | "m = SwitchportModeAccess" | "m = SwitchportModeTrunk"
    | "m = SwitchportModeRouted" by blast
  then show ?thesis
  proof cases
    case 1
    then show ?thesis by (simp add: mode_cmds_def switchport_modes put_get)
  next
    case 2
    then show ?thesis by (simp add: mode_cmds_def switchport_modes skips lines)
  next
    case 3
    then show ?thesis by (simp add: mode_cmds_def switchport_modes skips lines)
  next
    case 4
    then show ?thesis by (simp add: mode_cmds_def switchport_modes lines)
  qed
qed

lemma fold_access:
  "pred_option int64 p \<Longrightarrow> fold body (line_opt (\<lambda>v. ''switchport access vlan '' @ Itoa v) p) r =
     put_sp ((get_sp r)\<lparr>sr_AccessVlan := opt_or (sr_AccessVlan (get_sp r)) p\<rparr>) r"
proof (cases p)
  case (Some v)
  moreover assume "pred_option int64 p"
  ultimately have "body (''switchport access vlan '' @ Itoa v) r = put_sp ((get_sp r)\<lparr>sr_AccessVlan := v\<rparr>) r"
    by (intro consumes) (simp add: parseSwitchportLine_def)
  with Some show ?thesis by simp
qed (simp add: put_get)

lemma fold_allowed:
  "fold body (line_opt (\<lambda>v. ''switchport trunk allowed vlan '' @ v) p) r =
     put_sp ((get_sp r)\<lparr>sr_TrunkAllowedVlans := opt_or (sr_TrunkAllowedVlans (get_sp r)) p\<rparr>) r"
proof (cases p)
  case (Some v)
  have "body (''switchport trunk allowed vlan '' @ v) r = put_sp ((get_sp r)\<lparr>sr_TrunkAllowedVlans := v\<rparr>) r"
    by (intro consumes) (simp add: parseSwitchportLine_def)
  with Some show ?thesis by simp
qed (simp add: put_get)

lemma fold_native:
  "pred_option int64 p \<Longrightarrow> fold body (line_opt (\<lambda>v. ''switchport trunk native vlan '' @ Itoa v) p) r =
     put_sp ((get_sp r)\<lparr>sr_TrunkNativeVlan := opt_or (sr_TrunkNativeVlan (get_sp r)) p\<rparr>) r"
proof (cases p)
  case (Some v)
  moreover assume "pred_option int64 p"
  ultimately have "body (''switchport trunk native vlan '' @ Itoa v) r = put_sp ((get_sp r)\<lparr>sr_TrunkNativeVlan := v\<rparr>) r"
    by (intro consumes) (simp add: parseSwitchportLine_def)
  with Some show ?thesis by simp
qed (simp add: put_get)

text \<open>The whole block: after a valid block the parser holds exactly its fields.\<close>

lemma fold_switchport:
  assumes "validateSwitchport s = None"
  shows "fold body (buildSwitchportCmds s) r = put_sp (shown_switchport s (get_sp r)) r"
proof -
  have mode: "or_empty (sp_Mode s) \<in> {[], SwitchportModeAccess, SwitchportModeTrunk, SwitchportModeRouted}"
    using assms by (auto simp: validateSwitchport_def Let_def split: if_splits)
  have rng: "pred_option int64 (sp_AccessVlan s)" "pred_option int64 (sp_TrunkNativeVlan s)"
    using validateSwitchport_vlans [OF assms] by (auto simp: int64_def option.pred_set)
  have m: "fold body (case sp_Mode s of Some m \<Rightarrow> mode_cmds m | None \<Rightarrow> []) r =
    put_sp ((get_sp r)\<lparr>sr_Mode := opt_or (sr_Mode (get_sp r)) (nonempty (sp_Mode s)),
             sr_NoSwitchport := (sr_NoSwitchport (get_sp r) \<or> sp_Mode s = Some SwitchportModeRouted)\<rparr>) r"
  proof (cases "sp_Mode s")
    case None
    then show ?thesis by (simp add: put_get)
  next
    case (Some m)
    with mode have "m \<in> {[], SwitchportModeAccess, SwitchportModeTrunk, SwitchportModeRouted}" by simp
    from fold_mode [OF this] Some show ?thesis by (cases m) simp_all
  qed
  show ?thesis
    unfolding buildSwitchportCmds_def fold_append comp_def m fold_access [OF rng(1)] fold_allowed
      fold_native [OF rng(2)] get_put put_put
    by (simp add: shown_switchport_def)
qed

end

end
