(* ===== verification/Interface.thy ===== *)
theory Interface
  imports Switchport
begin

text \<open>
  \<open>internal/resources/l2/interface.go\<close>: a physical interface.  Create and Update render its
  block in one session, Delete resets it with \<open>default interface\<close>, and Read parses the
  running configuration of the interface.
\<close>

definition ChannelGroupModeActive :: string where "ChannelGroupModeActive = ''active''"
definition ChannelGroupModePassive :: string where "ChannelGroupModePassive = ''passive''"
definition ChannelGroupModeOn :: string where "ChannelGroupModeOn = ''on''"

lemmas channel_modes = ChannelGroupModeActive_def ChannelGroupModePassive_def ChannelGroupModeOn_def

definition ErrInterfaceNameRequired :: error where
  [errs]: "ErrInterfaceNameRequired = Sentinel ''interface name is required''"
definition ErrInterfaceCgModeInvalid :: error where
  [errs]: "ErrInterfaceCgModeInvalid = Sentinel ''channelGroup.mode must be active, passive, or on''"

text \<open>The bounds check of the channel-group ID returns a one-off error, not a sentinel.\<close>

definition ChannelGroupIdRange :: error where
  [errs]: "ChannelGroupIdRange = Sentinel ''channelGroup.id must be 1..2000''"

record ChannelGroup =
  cg_Id :: int
  cg_Mode :: string

record InterfaceArgs = overrides +
  if_Name :: string
  if_Description :: "string option"
  if_Mtu :: "int option"
  if_Shutdown :: "bool option"
  if_SwitchportMode :: "string option"
  if_AccessVlan :: "int option"
  if_TrunkAllowedVlans :: "string option"
  if_TrunkNativeVlan :: "int option"
  if_ChannelGroup :: "ChannelGroup option"

type_synonym InterfaceState = InterfaceArgs

definition if_switchport :: "InterfaceArgs \<Rightarrow> SwitchportFields" where
  "if_switchport a =
     \<lparr>sp_Mode = if_SwitchportMode a, sp_AccessVlan = if_AccessVlan a,
      sp_TrunkAllowedVlans = if_TrunkAllowedVlans a, sp_TrunkNativeVlan = if_TrunkNativeVlan a\<rparr>"

definition validateChannelGroup :: "ChannelGroup \<Rightarrow> error option" where
  "validateChannelGroup g =
     (if cg_Mode g \<notin> {ChannelGroupModeActive, ChannelGroupModePassive, ChannelGroupModeOn}
        then Some (Got ErrInterfaceCgModeInvalid [DStr (cg_Mode g)])
      else if cg_Id g < 1 \<or> cg_Id g > 2000 then Some (Got ChannelGroupIdRange [DInt (cg_Id g)])
      else None)"

definition validateInterface :: "InterfaceArgs \<Rightarrow> error option" where
  "validateInterface args =
     (if TrimSpace (if_Name args) = [] then Some ErrInterfaceNameRequired
      else case validateSwitchport (if_switchport args) of
        Some e \<Rightarrow> Some e
      | None \<Rightarrow> opt_err validateChannelGroup (if_ChannelGroup args))"

definition interfaceID :: "string \<Rightarrow> string" where
  "interfaceID name = ''interface/'' @ name"

text \<open>\<open>sanitizeForSession\<close> of package \<open>l2\<close>: three characters become hyphens.\<close>

definition sanitizeForSession :: "string \<Rightarrow> string" where
  "sanitizeForSession name =
     replace_bytes [(CHR ''/'', CHR ''-''), (CHR '' '', CHR ''-''), (CHR '':'', CHR ''-'')] name"

definition channel_group_cmd :: "ChannelGroup \<Rightarrow> string" where
  "channel_group_cmd g = ''channel-group '' @ Itoa (cg_Id g) @ '' mode '' @ cg_Mode g"

definition buildInterfaceCmds :: "InterfaceArgs \<Rightarrow> bool \<Rightarrow> string list" where
  "buildInterfaceCmds args reset =
     (if reset then [''default interface '' @ if_Name args]
      else [''interface '' @ if_Name args]
           @ description_cmds (if_Description args)
           @ mtu_cmds (if_Mtu args)
           @ buildSwitchportCmds (if_switchport args)
           @ line_opt channel_group_cmd (if_ChannelGroup args)
           @ shutdown_cmds (if_Shutdown args))"

definition applyInterface :: "('n, 'w) ctx \<Rightarrow> InterfaceArgs \<Rightarrow> bool \<Rightarrow> 'w \<Rightarrow> unit res \<times> 'w" where
  "applyInterface C args reset w =
     apply_session C args (''iface-'' @ sanitizeForSession (if_Name args)) (buildInterfaceCmds args reset) w"

record interfaceRow =
  ir_Description :: string
  ir_Mtu :: int
  ir_Shutdown :: bool
  ir_Switchport :: switchportRow
  ir_ChannelGroupID :: int
  ir_ChannelGroupMode :: string

definition zero_interfaceRow :: interfaceRow where
  "zero_interfaceRow = \<lparr>ir_Description = [], ir_Mtu = 0, ir_Shutdown = False,
     ir_Switchport = zero_switchportRow, ir_ChannelGroupID = 0, ir_ChannelGroupMode = []\<rparr>"

definition parseChannelGroup :: "string \<Rightarrow> interfaceRow \<Rightarrow> interfaceRow" where
  "parseChannelGroup line row =
     (case Fields line of
        [_, n, m, v] \<Rightarrow>
          if m = ''mode''
          then row\<lparr>ir_ChannelGroupID := atoi_or (ir_ChannelGroupID row) n, ir_ChannelGroupMode := v\<rparr>
          else row
      | _ \<Rightarrow> row)"

text \<open>The body of the loop of \<open>parseInterfaceConfig\<close>.\<close>

definition interface_line :: "string \<Rightarrow> interfaceRow \<Rightarrow> interfaceRow" where
  "interface_line line row =
     (case parseSwitchportLine line (ir_Switchport row) of
        (sp, True) \<Rightarrow> row\<lparr>ir_Switchport := sp\<rparr>
      | (_, False) \<Rightarrow>
          if HasPrefix line ''description '' then row\<lparr>ir_Description := TrimPrefix line ''description ''\<rparr>
          else if HasPrefix line ''mtu '' then row\<lparr>ir_Mtu := atoi_or (ir_Mtu row) (TrimPrefix line ''mtu '')\<rparr>
          else if line = ''shutdown'' then row\<lparr>ir_Shutdown := True\<rparr>
          else if HasPrefix line ''channel-group '' then parseChannelGroup line row
          else row)"

definition parseInterfaceConfig :: "string \<Rightarrow> string \<Rightarrow> interfaceRow option" where
  "parseInterfaceConfig out name =
     (if \<not> Contains out (''interface '' @ name) then None
      else Some (scan interface_line out zero_interfaceRow))"

definition readInterface ::
  "('n, 'w) ctx \<Rightarrow> 'n client \<Rightarrow> string \<Rightarrow> 'w \<Rightarrow> interfaceRow option res \<times> 'w" where
  "readInterface C cli name =
     read_text C cli (''show running-config interfaces '' @ name) (\<lambda>out. Ok (parseInterfaceConfig out name))"

text \<open>\<open>if r.ChannelGroupID > 0 { s.ChannelGroup = ... }\<close>.\<close>

definition fill_channel_group :: "interfaceRow \<Rightarrow> ChannelGroup option \<Rightarrow> ChannelGroup option" where
  "fill_channel_group r old =
     (if ir_ChannelGroupID r > 0
      then Some \<lparr>cg_Id = ir_ChannelGroupID r, cg_Mode = ir_ChannelGroupMode r\<rparr> else old)"

definition fillInterface :: "interfaceRow \<Rightarrow> InterfaceState \<Rightarrow> InterfaceState" where
  "fillInterface r s =
     (let sp = fillSwitchport (ir_Switchport r) no_switchport in
      s\<lparr>if_Description := set_str (ir_Description r) (if_Description s),
        if_Mtu := set_pos (ir_Mtu r) (if_Mtu s),
        if_Shutdown := set_true (ir_Shutdown r) (if_Shutdown s),
        if_SwitchportMode := sp_Mode sp,
        if_AccessVlan := sp_AccessVlan sp,
        if_TrunkAllowedVlans := sp_TrunkAllowedVlans sp,
        if_TrunkNativeVlan := sp_TrunkNativeVlan sp,
        if_ChannelGroup := fill_channel_group r (if_ChannelGroup s)\<rparr>)"

definition Interface_Create ::
  "('n, 'w) ctx \<Rightarrow> InterfaceArgs request \<Rightarrow> 'w \<Rightarrow> InterfaceState created res \<times> 'w" where
  "Interface_Create C =
     crud_create validateInterface (\<lambda>a. interfaceID (if_Name a)) (applyInterface C)
       (\<lambda>a. ''create interface '' @ if_Name a)"

definition Interface_Read ::
  "('n, 'w) ctx \<Rightarrow> InterfaceArgs \<Rightarrow> 'w \<Rightarrow> (InterfaceArgs, InterfaceState) read_response option res \<times> 'w" where
  "Interface_Read C =
     crud_read (newClient C) (\<lambda>cli a. readInterface C cli (if_Name a)) (\<lambda>a. interfaceID (if_Name a)) fillInterface"

definition Interface_Update ::
  "('n, 'w) ctx \<Rightarrow> InterfaceArgs request \<Rightarrow> 'w \<Rightarrow> InterfaceState res \<times> 'w" where
  "Interface_Update C =
     crud_update validateInterface (applyInterface C) (\<lambda>a. ''update interface '' @ if_Name a)"

definition Interface_Delete :: "('n, 'w) ctx \<Rightarrow> InterfaceState \<Rightarrow> 'w \<Rightarrow> unit res \<times> 'w" where
  "Interface_Delete C =
     crud_delete (applyInterface C) (\<lambda>a. ''delete (default) interface '' @ if_Name a)"

section \<open>Reading back a rendered interface\<close>

interpretation interface_sp: switchport_host interface_line ir_Switchport "\<lambda>sp r. r\<lparr>ir_Switchport := sp\<rparr>"
proof (unfold_locales, goal_cases)
  case (1 l r sp) then show ?case by (simp add: interface_line_def)
next
  case (2 r) show ?case by (simp add: interface_line_def parseSwitchportLine_def)
qed simp_all

definition interface_idle :: "string \<Rightarrow> bool" where
  "interface_idle l \<longleftrightarrow> l \<in> {[], ''!'', ''switchport'', ''no shutdown''}"

interpretation interface_scan: line_scanner interface_line interface_idle
proof (unfold_locales, goal_cases)
  case (1 l r)
  then consider "l = []" | "l = ''!''" | "l = ''switchport''" | "l = ''no shutdown''"
    by (auto simp: interface_idle_def)
  then show ?case by cases (simp_all add: interface_line_def parseSwitchportLine_def)
next
  case (2 l)
  then show ?case by (auto simp: interface_idle_def noise_def)
qed

interpretation interface_mgr: session_managed C validateInterface "\<lambda>a. interfaceID (if_Name a)"
  "applyInterface C" "\<lambda>a. ''iface-'' @ sanitizeForSession (if_Name a)" buildInterfaceCmds
  by unfold_locales (simp add: applyInterface_def)

lemma validateChannelGroup_None:
  "validateChannelGroup g = None \<longleftrightarrow>
     cg_Mode g \<in> {''active'', ''passive'', ''on''} \<and> 1 \<le> cg_Id g \<and> cg_Id g \<le> 2000"
  by (simp add: validateChannelGroup_def channel_modes)

lemma parseChannelGroup_cmd:
  assumes "validateChannelGroup g = None"
  shows "parseChannelGroup (channel_group_cmd g) r
       = r\<lparr>ir_ChannelGroupID := cg_Id g, ir_ChannelGroupMode := cg_Mode g\<rparr>"
proof -
  have i: "int64 (cg_Id g)" using assms by (simp add: validateChannelGroup_None int64_def)
  have "word_string (cg_Mode g)"
    using assms unfolding validateChannelGroup_None
    by (elim conjE insertE emptyE; simp add: word_string_def space_byte_def ascii_space_def)
  moreover have "word_string ''channel-group''" "word_string ''mode''"
    by (simp_all add: word_string_def space_byte_def ascii_space_def)
  ultimately have "Fields (Join [''channel-group'', Itoa (cg_Id g), ''mode'', cg_Mode g] '' '')
      = [''channel-group'', Itoa (cg_Id g), ''mode'', cg_Mode g]"
    by (intro Fields_Join) auto
  then have "Fields (channel_group_cmd g) = [''channel-group'', Itoa (cg_Id g), ''mode'', cg_Mode g]"
    by (simp add: channel_group_cmd_def)
  with i show ?thesis by (simp add: parseChannelGroup_def)
qed

lemma interface_quiet_lines:
  "interface_line (''interface '' @ n) r = r"
  "interface_line ''no shutdown'' r = r"
  by (simp_all add: interface_line_def parseSwitchportLine_def)

interpretation if_description: attribute interface_line "\<lambda>d. ''description '' @ d" "\<lambda>_. True"
  ir_Description "\<lambda>d r. r\<lparr>ir_Description := d\<rparr>"
  by unfold_locales (simp_all add: interface_line_def parseSwitchportLine_def)

interpretation if_mtu: attribute interface_line "\<lambda>m. ''mtu '' @ Itoa m" int64 ir_Mtu "\<lambda>m r. r\<lparr>ir_Mtu := m\<rparr>"
  by unfold_locales (simp_all add: interface_line_def parseSwitchportLine_def)

interpretation if_shutdown: flag interface_line "''shutdown''" ir_Shutdown "\<lambda>b r. r\<lparr>ir_Shutdown := b\<rparr>"
  by unfold_locales (simp_all add: interface_line_def parseSwitchportLine_def)

interpretation if_channel_group: attribute interface_line channel_group_cmd "\<lambda>g. validateChannelGroup g = None"
  "\<lambda>r. \<lparr>cg_Id = ir_ChannelGroupID r, cg_Mode = ir_ChannelGroupMode r\<rparr>"
  "\<lambda>g r. r\<lparr>ir_ChannelGroupID := cg_Id g, ir_ChannelGroupMode := cg_Mode g\<rparr>"
proof (unfold_locales, goal_cases)
  case (1 g r)
  have "interface_line (channel_group_cmd g) r = parseChannelGroup (channel_group_cmd g) r"
    by (simp add: interface_line_def parseSwitchportLine_def channel_group_cmd_def)
  with parseChannelGroup_cmd [OF 1] show ?case by simp
qed simp

text \<open>Arguments that the device's text determines: no empty optional string, numbers in range.\<close>

definition canonical_interface :: "InterfaceArgs \<Rightarrow> bool" where
  "canonical_interface a \<longleftrightarrow> canonical_switchport (if_switchport a) \<and> pred_option int64 (if_Mtu a)"

lemma validateInterface_None:
  "validateInterface a = None \<Longrightarrow>
     validateSwitchport (if_switchport a) = None \<and> opt_err validateChannelGroup (if_ChannelGroup a) = None"
  by (auto simp: validateInterface_def split: if_splits option.splits)

lemma interface_roundtrip:
  assumes v: "validateInterface a = None" and c: "canonical_interface a"
    and p: "prints interface_idle out (buildInterfaceCmds a False)"
  shows "\<exists>row. parseInterfaceConfig out (if_Name a) = Some row \<and> fillInterface row a = a"
proof -
  from v have sp: "validateSwitchport (if_switchport a) = None"
    and cg: "opt_err validateChannelGroup (if_ChannelGroup a) = None"
    by (simp_all add: validateInterface_None)
  from c have m: "pred_option int64 (if_Mtu a)" and csp: "canonical_switchport (if_switchport a)"
    by (simp_all add: canonical_interface_def)
  let ?g = "opt_or \<lparr>cg_Id = 0, cg_Mode = []\<rparr> (if_ChannelGroup a)"
  let ?row = "zero_interfaceRow\<lparr>ir_Description := or_empty (nonempty (if_Description a)),
      ir_Mtu := or_zero (positive (if_Mtu a)),
      ir_Switchport := shown_switchport (if_switchport a) zero_switchportRow,
      ir_ChannelGroupID := cg_Id ?g, ir_ChannelGroupMode := cg_Mode ?g,
      ir_Shutdown := (if_Shutdown a = Some True)\<rparr>"
  have hdr: "Contains out (''interface '' @ if_Name a)"
    using p by (rule prints_Contains) (simp_all add: buildInterfaceCmds_def interface_idle_def)
  have cg': "pred_option (\<lambda>g. validateChannelGroup g = None) (if_ChannelGroup a)"
    using cg by (cases "if_ChannelGroup a") (simp_all add: opt_err_def)
  have "scan interface_line out zero_interfaceRow = ?row"
    unfolding interface_scan.scan_prints [OF p] buildInterfaceCmds_def if_False fold_append comp_def
      fold_simps interface_quiet_lines description_cmds_def mtu_cmds_def shutdown_cmds_def
      if_description.fold_attr [OF any_readable] if_mtu.fold_attr [OF positive_int64 [OF m]]
      interface_sp.fold_switchport [OF sp] if_channel_group.fold_attr [OF cg']
      if_shutdown.fold_switch [OF interface_quiet_lines(2)]
    by (simp add: zero_interfaceRow_def)
  with hdr have "parseInterfaceConfig out (if_Name a) = Some ?row"
    by (simp add: parseInterfaceConfig_def)
  moreover have "fillInterface ?row a = a"
  proof -
    have "fill_channel_group ?row (if_ChannelGroup a) = if_ChannelGroup a"
      using cg by (cases "if_ChannelGroup a")
        (auto simp: opt_err_def validateChannelGroup_None fill_channel_group_def)
    then show ?thesis
      using fill_shown_switchport [OF sp csp] by (simp add: fillInterface_def Let_def if_switchport_def)
  qed
  ultimately show ?thesis by blast
qed

interpretation interface_rb: readback validateInterface canonical_interface interface_idle
  "\<lambda>a. buildInterfaceCmds a False" "\<lambda>a out. Ok (parseInterfaceConfig out (if_Name a))" fillInterface
proof (unfold_locales, goal_cases)
  case (1 a out)
  then show ?case using interface_roundtrip by blast
next
  case (2 a out)
  have "Contains out (''interface '' @ if_Name a)"
    using 2(2) by (rule prints_Contains) (simp_all add: buildInterfaceCmds_def interface_idle_def)
  then show ?case by (rule Contains_nonempty) simp
qed

end
