(* ===== verification/Port_Channel.thy ===== *)
theory Port_Channel
  imports Interface
begin

text \<open>
  \<open>internal/resources/l2/port_channel.go\<close>: the logical Port-Channel interface with its LACP
  fallback.  It shares the switchport block with the physical interfaces.
\<close>

definition LacpFallbackStatic :: string where "LacpFallbackStatic = ''static''"
definition LacpFallbackIndividual :: string where "LacpFallbackIndividual = ''individual''"

definition PortChannelIdMin :: int where "PortChannelIdMin = 1"
definition PortChannelIdMax :: int where "PortChannelIdMax = 2000"

definition ErrPortChannelIdRange :: error where
  [errs]: "ErrPortChannelIdRange = Sentinel ''portChannel id must be 1..2000''"
definition ErrLacpFallbackInvalid :: error where
  [errs]: "ErrLacpFallbackInvalid = Sentinel ''lacpFallback must be static or individual''"
definition ErrLacpFallbackTimeoutBad :: error where
  [errs]: "ErrLacpFallbackTimeoutBad = Sentinel ''lacpFallbackTimeout must be greater than 0''"

record PortChannelArgs = overrides +
  pc_Id :: int
  pc_Description :: "string option"
  pc_Mtu :: "int option"
  pc_Shutdown :: "bool option"
  pc_SwitchportMode :: "string option"
  pc_AccessVlan :: "int option"
  pc_TrunkAllowedVlans :: "string option"
  pc_TrunkNativeVlan :: "int option"
  pc_LacpFallback :: "string option"
  pc_LacpFallbackTimeout :: "int option"

type_synonym PortChannelState = PortChannelArgs

definition pc_switchport :: "PortChannelArgs \<Rightarrow> SwitchportFields" where
  "pc_switchport a =
     \<lparr>sp_Mode = pc_SwitchportMode a, sp_AccessVlan = pc_AccessVlan a,
      sp_TrunkAllowedVlans = pc_TrunkAllowedVlans a, sp_TrunkNativeVlan = pc_TrunkNativeVlan a\<rparr>"

definition validate_fallback :: "string \<Rightarrow> error option" where
  "validate_fallback f =
     (if f \<in> {[], LacpFallbackStatic, LacpFallbackIndividual} then None
      else Some (Got ErrLacpFallbackInvalid [DStr f]))"

definition validate_fallback_timeout :: "int \<Rightarrow> error option" where
  "validate_fallback_timeout t =
     (if t \<le> 0 then Some (Got ErrLacpFallbackTimeoutBad [DInt t]) else None)"

definition validatePortChannel :: "PortChannelArgs \<Rightarrow> error option" where
  "validatePortChannel args =
     (if pc_Id args < PortChannelIdMin \<or> pc_Id args > PortChannelIdMax
        then Some (Got ErrPortChannelIdRange [DInt (pc_Id args)])
      else case validateSwitchport (pc_switchport args) of
        Some e \<Rightarrow> Some e
      | None \<Rightarrow>
          (case opt_err validate_fallback (pc_LacpFallback args) of
             Some e \<Rightarrow> Some e
           | None \<Rightarrow> opt_err validate_fallback_timeout (pc_LacpFallbackTimeout args)))"

definition portChannelID :: "int \<Rightarrow> string" where
  "portChannelID i = ''port-channel/'' @ Itoa i"

definition portChannelName :: "int \<Rightarrow> string" where
  "portChannelName i = ''Port-Channel'' @ Itoa i"

definition fallback_cmds :: "PortChannelArgs \<Rightarrow> string list" where
  "fallback_cmds a =
     line_opt (\<lambda>v. ''port-channel lacp fallback '' @ v) (nonempty (pc_LacpFallback a))
     @ line_opt (\<lambda>v. ''port-channel lacp fallback timeout '' @ Itoa v) (positive (pc_LacpFallbackTimeout a))"

definition buildPortChannelCmds :: "PortChannelArgs \<Rightarrow> bool \<Rightarrow> string list" where
  "buildPortChannelCmds args remove =
     (if remove then [''no interface '' @ portChannelName (pc_Id args)]
      else [''interface '' @ portChannelName (pc_Id args)]
           @ description_cmds (pc_Description args)
           @ mtu_cmds (pc_Mtu args)
           @ buildSwitchportCmds (pc_switchport args)
           @ fallback_cmds args
           @ shutdown_cmds (pc_Shutdown args))"

definition applyPortChannel :: "('n, 'w) ctx \<Rightarrow> PortChannelArgs \<Rightarrow> bool \<Rightarrow> 'w \<Rightarrow> unit res \<times> 'w" where
  "applyPortChannel C args remove w =
     apply_session C args (''po-'' @ Itoa (pc_Id args)) (buildPortChannelCmds args remove) w"

record portChannelRow =
  pr_Description :: string
  pr_Mtu :: int
  pr_Shutdown :: bool
  pr_Switchport :: switchportRow
  pr_LacpFallback :: string
  pr_LacpFallbackTimeout :: int

definition zero_portChannelRow :: portChannelRow where
  "zero_portChannelRow = \<lparr>pr_Description = [], pr_Mtu = 0, pr_Shutdown = False,
     pr_Switchport = zero_switchportRow, pr_LacpFallback = [], pr_LacpFallbackTimeout = 0\<rparr>"

text \<open>The body of the loop; the longer of the two fallback prefixes is tested first.\<close>

definition port_channel_line :: "string \<Rightarrow> portChannelRow \<Rightarrow> portChannelRow" where
  "port_channel_line line row =
     (case parseSwitchportLine line (pr_Switchport row) of
        (sp, True) \<Rightarrow> row\<lparr>pr_Switchport := sp\<rparr>
      | (_, False) \<Rightarrow>
          if HasPrefix line ''description '' then row\<lparr>pr_Description := TrimPrefix line ''description ''\<rparr>
          else if HasPrefix line ''mtu '' then row\<lparr>pr_Mtu := atoi_or (pr_Mtu row) (TrimPrefix line ''mtu '')\<rparr>
          else if line = ''shutdown'' then row\<lparr>pr_Shutdown := True\<rparr>
          else if HasPrefix line ''port-channel lacp fallback timeout '' then
            row\<lparr>pr_LacpFallbackTimeout :=
              atoi_or (pr_LacpFallbackTimeout row) (TrimPrefix line ''port-channel lacp fallback timeout '')\<rparr>
          else if HasPrefix line ''port-channel lacp fallback '' then
            row\<lparr>pr_LacpFallback := TrimPrefix line ''port-channel lacp fallback ''\<rparr>
          else row)"

definition parsePortChannelConfig :: "string \<Rightarrow> int \<Rightarrow> portChannelRow option" where
  "parsePortChannelConfig out i =
     (if \<not> Contains out (''interface '' @ portChannelName i) then None
      else Some (scan port_channel_line out zero_portChannelRow))"

definition readPortChannel ::
  "('n, 'w) ctx \<Rightarrow> 'n client \<Rightarrow> int \<Rightarrow> 'w \<Rightarrow> portChannelRow option res \<times> 'w" where
  "readPortChannel C cli i =
     read_text C cli (''show running-config interfaces '' @ portChannelName i)
       (\<lambda>out. Ok (parsePortChannelConfig out i))"

definition fillPortChannel :: "portChannelRow \<Rightarrow> PortChannelState \<Rightarrow> PortChannelState" where
  "fillPortChannel r s =
     (let sp = fillSwitchport (pr_Switchport r) no_switchport in
      s\<lparr>pc_Description := set_str (pr_Description r) (pc_Description s),
        pc_Mtu := set_pos (pr_Mtu r) (pc_Mtu s),
        pc_Shutdown := set_true (pr_Shutdown r) (pc_Shutdown s),
        pc_SwitchportMode := sp_Mode sp,
        pc_AccessVlan := sp_AccessVlan sp,
        pc_TrunkAllowedVlans := sp_TrunkAllowedVlans sp,
        pc_TrunkNativeVlan := sp_TrunkNativeVlan sp,
        pc_LacpFallback := set_str (pr_LacpFallback r) (pc_LacpFallback s),
        pc_LacpFallbackTimeout := set_pos (pr_LacpFallbackTimeout r) (pc_LacpFallbackTimeout s)\<rparr>)"

definition PortChannel_Create ::
  "('n, 'w) ctx \<Rightarrow> PortChannelArgs request \<Rightarrow> 'w \<Rightarrow> PortChannelState created res \<times> 'w" where
  "PortChannel_Create C =
     crud_create validatePortChannel (\<lambda>a. portChannelID (pc_Id a)) (applyPortChannel C)
       (\<lambda>a. ''create port-channel '' @ Itoa (pc_Id a))"

definition PortChannel_Read ::
  "('n, 'w) ctx \<Rightarrow> PortChannelArgs \<Rightarrow> 'w \<Rightarrow> (PortChannelArgs, PortChannelState) read_response option res \<times> 'w" where
  "PortChannel_Read C =
     crud_read (newClient C) (\<lambda>cli a. readPortChannel C cli (pc_Id a)) (\<lambda>a. portChannelID (pc_Id a)) fillPortChannel"

definition PortChannel_Update ::
  "('n, 'w) ctx \<Rightarrow> PortChannelArgs request \<Rightarrow> 'w \<Rightarrow> PortChannelState res \<times> 'w" where
  "PortChannel_Update C =
     crud_update validatePortChannel (applyPortChannel C) (\<lambda>a. ''update port-channel '' @ Itoa (pc_Id a))"

definition PortChannel_Delete :: "('n, 'w) ctx \<Rightarrow> PortChannelState \<Rightarrow> 'w \<Rightarrow> unit res \<times> 'w" where
  "PortChannel_Delete C =
     crud_delete (applyPortChannel C) (\<lambda>a. ''delete port-channel '' @ Itoa (pc_Id a))"

interpretation port_channel_mgr: session_managed C validatePortChannel "\<lambda>a. portChannelID (pc_Id a)"
  "applyPortChannel C" "\<lambda>a. ''po-'' @ Itoa (pc_Id a)" buildPortChannelCmds
  by unfold_locales (simp add: applyPortChannel_def)

section \<open>Reading back a rendered port-channel\<close>

interpretation port_channel_sp: switchport_host port_channel_line pr_Switchport "\<lambda>sp r. r\<lparr>pr_Switchport := sp\<rparr>"
proof (unfold_locales, goal_cases)
  case (1 l r sp) then show ?case by (simp add: port_channel_line_def)
next
  case (2 r) show ?case by (simp add: port_channel_line_def parseSwitchportLine_def)
qed simp_all

interpretation port_channel_scan: line_scanner port_channel_line interface_idle
proof (unfold_locales, goal_cases)
  case (1 l r)
  then consider "l = []" | "l = ''!''" | "l = ''switchport''" | "l = ''no shutdown''"
    by (auto simp: interface_idle_def)
  then show ?case by cases (simp_all add: port_channel_line_def parseSwitchportLine_def)
next
  case (2 l)
  then show ?case by (auto simp: interface_idle_def noise_def)
qed

lemma port_channel_header_line: "port_channel_line (''interface '' @ n) r = r"
  by (simp add: port_channel_line_def parseSwitchportLine_def)

interpretation pc_description: attribute port_channel_line "\<lambda>d. ''description '' @ d" "\<lambda>_. True"
  pr_Description "\<lambda>d r. r\<lparr>pr_Description := d\<rparr>"
  by unfold_locales (simp_all add: port_channel_line_def parseSwitchportLine_def)

interpretation pc_mtu: attribute port_channel_line "\<lambda>m. ''mtu '' @ Itoa m" int64 pr_Mtu "\<lambda>m r. r\<lparr>pr_Mtu := m\<rparr>"
  by unfold_locales (simp_all add: port_channel_line_def parseSwitchportLine_def)

interpretation pc_fallback: attribute port_channel_line "\<lambda>f. ''port-channel lacp fallback '' @ f"
  "\<lambda>f. f \<in> {''static'', ''individual''}" pr_LacpFallback "\<lambda>f r. r\<lparr>pr_LacpFallback := f\<rparr>"
proof (unfold_locales, goal_cases)
  case (1 v r)
  then show ?case by (elim insertE emptyE) (simp_all add: port_channel_line_def parseSwitchportLine_def)
qed simp

interpretation pc_timeout: attribute port_channel_line
  "\<lambda>t. ''port-channel lacp fallback timeout '' @ Itoa t" int64
  pr_LacpFallbackTimeout "\<lambda>t r. r\<lparr>pr_LacpFallbackTimeout := t\<rparr>"
  by unfold_locales (simp_all add: port_channel_line_def parseSwitchportLine_def)

interpretation pc_shutdown: flag port_channel_line "''shutdown''" pr_Shutdown "\<lambda>b r. r\<lparr>pr_Shutdown := b\<rparr>"
  by unfold_locales (simp_all add: port_channel_line_def parseSwitchportLine_def)

lemma port_channel_no_shutdown: "port_channel_line ''no shutdown'' r = r"
  by (simp add: port_channel_line_def parseSwitchportLine_def)

lemma fallback_readable:
  "opt_err validate_fallback p = None \<Longrightarrow> pred_option (\<lambda>f. f \<in> {''static'', ''individual''}) (nonempty p)"
  by (cases p) (auto simp: opt_err_def validate_fallback_def LacpFallbackStatic_def LacpFallbackIndividual_def
      nonempty_def split: if_splits)

lemma timeout_positive:
  "opt_err validate_fallback_timeout p = None \<Longrightarrow> positive p = p"
  by (cases p) (auto simp: opt_err_def validate_fallback_timeout_def split: if_splits)

definition canonical_port_channel :: "PortChannelArgs \<Rightarrow> bool" where
  "canonical_port_channel a \<longleftrightarrow> canonical_switchport (pc_switchport a) \<and> pred_option int64 (pc_Mtu a)
     \<and> pred_option int64 (pc_LacpFallbackTimeout a)"

lemma validatePortChannel_None:
  "validatePortChannel a = None \<longleftrightarrow> 1 \<le> pc_Id a \<and> pc_Id a \<le> 2000
     \<and> validateSwitchport (pc_switchport a) = None
     \<and> opt_err validate_fallback (pc_LacpFallback a) = None
     \<and> opt_err validate_fallback_timeout (pc_LacpFallbackTimeout a) = None"
  by (auto simp: validatePortChannel_def PortChannelIdMin_def PortChannelIdMax_def split: option.splits)

lemma port_channel_header:
  "prints interface_idle out (buildPortChannelCmds a False) \<Longrightarrow>
     Contains out (''interface '' @ portChannelName (pc_Id a))"
  by (erule prints_Contains) (simp_all add: buildPortChannelCmds_def interface_idle_def)

lemma port_channel_roundtrip:
  assumes v: "validatePortChannel a = None" and c: "canonical_port_channel a"
    and p: "prints interface_idle out (buildPortChannelCmds a False)"
  shows "\<exists>row. parsePortChannelConfig out (pc_Id a) = Some row \<and> fillPortChannel row a = a"
proof -
  note v' = v [unfolded validatePortChannel_None]
  from c have m: "pred_option int64 (pc_Mtu a)" and csp: "canonical_switchport (pc_switchport a)"
    and t: "pred_option int64 (pc_LacpFallbackTimeout a)"
    by (simp_all add: canonical_port_channel_def)
  from v' have sp: "validateSwitchport (pc_switchport a) = None"
    and f: "opt_err validate_fallback (pc_LacpFallback a) = None"
    and ft: "opt_err validate_fallback_timeout (pc_LacpFallbackTimeout a) = None" by simp_all
  let ?row = "zero_portChannelRow\<lparr>pr_Description := or_empty (nonempty (pc_Description a)),
      pr_Mtu := or_zero (positive (pc_Mtu a)),
      pr_Switchport := shown_switchport (pc_switchport a) zero_switchportRow,
      pr_LacpFallback := or_empty (nonempty (pc_LacpFallback a)),
      pr_LacpFallbackTimeout := or_zero (pc_LacpFallbackTimeout a),
      pr_Shutdown := (pc_Shutdown a = Some True)\<rparr>"
  have m': "pred_option int64 (positive (pc_Mtu a))" using m by (rule positive_int64)
  have t': "pred_option int64 (positive (pc_LacpFallbackTimeout a))" using t by (rule positive_int64)
  have "scan port_channel_line out zero_portChannelRow = ?row"
    unfolding port_channel_scan.scan_prints [OF p] buildPortChannelCmds_def if_False fold_append comp_def
      fold_simps port_channel_header_line description_cmds_def mtu_cmds_def shutdown_cmds_def fallback_cmds_def
      pc_description.fold_attr [OF any_readable] pc_mtu.fold_attr [OF m'] port_channel_sp.fold_switchport [OF sp]
      pc_fallback.fold_attr [OF fallback_readable [OF f]] pc_timeout.fold_attr [OF t']
      pc_shutdown.fold_switch [OF port_channel_no_shutdown]
    by (simp add: zero_portChannelRow_def timeout_positive [OF ft])
  with port_channel_header [OF p] have "parsePortChannelConfig out (pc_Id a) = Some ?row"
    by (simp add: parsePortChannelConfig_def)
  moreover have "fillPortChannel ?row a = a"
    using fill_shown_switchport [OF sp csp] by (simp add: fillPortChannel_def Let_def pc_switchport_def)
  ultimately show ?thesis by blast
qed

interpretation port_channel_rb: readback validatePortChannel canonical_port_channel interface_idle
  "\<lambda>a. buildPortChannelCmds a False" "\<lambda>a out. Ok (parsePortChannelConfig out (pc_Id a))" fillPortChannel
proof (unfold_locales, goal_cases)
  case (1 a out)
  then show ?case using port_channel_roundtrip by blast
next
  case (2 a out)
  then show ?case using port_channel_header Contains_nonempty by blast
qed

end
