(* ===== verification/Vlan_Interface.thy ===== *)
theory Vlan_Interface
  imports Vlan
begin

text \<open>
  \<open>internal/resources/l2/vlan_interface.go\<close>: a switched virtual interface, with a per-device
  or an anycast address.
\<close>

definition ErrVlanInterfaceVlanIDMissing :: error where
  [errs]: "ErrVlanInterfaceVlanIDMissing = Sentinel ''vlanInterface vlanId is required''"
definition ErrVlanInterfaceAddrConflict :: error where
  [errs]: "ErrVlanInterfaceAddrConflict =
     Sentinel ''vlanInterface ipAddress and ipAddressVirtual are mutually exclusive''"

record VlanInterfaceArgs = overrides +
  vi_VlanId :: int
  vi_Vrf :: "string option"
  vi_IpAddress :: "string option"
  vi_IpAddressVirtual :: "string option"
  vi_Mtu :: "int option"
  vi_Description :: "string option"
  vi_NoAutostate :: "bool option"
  vi_Shutdown :: "bool option"

type_synonym VlanInterfaceState = VlanInterfaceArgs

definition validateVlanInterface :: "VlanInterfaceArgs \<Rightarrow> error option" where
  "validateVlanInterface args =
     (case validateVlanID (vi_VlanId args) of
        Some e \<Rightarrow> Some e
      | None \<Rightarrow>
          if nonempty (vi_IpAddress args) \<noteq> None \<and> nonempty (vi_IpAddressVirtual args) \<noteq> None
          then Some ErrVlanInterfaceAddrConflict else None)"

definition vlanInterfaceID :: "int \<Rightarrow> string" where
  "vlanInterfaceID i = ''vlan-interface/'' @ Itoa i"

definition buildVlanInterfaceCmds :: "VlanInterfaceArgs \<Rightarrow> bool \<Rightarrow> string list" where
  "buildVlanInterfaceCmds args remove =
     (if remove then [''no interface Vlan'' @ Itoa (vi_VlanId args)]
      else [''interface Vlan'' @ Itoa (vi_VlanId args)]
           @ description_cmds (vi_Description args)
           @ line_opt (\<lambda>v. ''vrf '' @ v) (nonempty (vi_Vrf args))
           @ line_opt (\<lambda>v. ''ip address '' @ v) (nonempty (vi_IpAddress args))
           @ line_opt (\<lambda>v. ''ip address virtual '' @ v) (nonempty (vi_IpAddressVirtual args))
           @ mtu_cmds (vi_Mtu args)
           @ line_if ''no autostate'' (vi_NoAutostate args = Some True)
           @ line_if ''shutdown'' (vi_Shutdown args = Some True))"

definition applyVlanInterface :: "('n, 'w) ctx \<Rightarrow> VlanInterfaceArgs \<Rightarrow> bool \<Rightarrow> 'w \<Rightarrow> unit res \<times> 'w" where
  "applyVlanInterface C args remove w =
     apply_session C args (''svi-'' @ Itoa (vi_VlanId args)) (buildVlanInterfaceCmds args remove) w"

record vlanInterfaceRow =
  vir_Description :: string
  vir_Vrf :: string
  vir_Mtu :: int
  vir_Address :: string
  vir_Virtual :: string
  vir_NoAutostate :: bool
  vir_Shutdown :: bool

definition zero_vlanInterfaceRow :: vlanInterfaceRow where
  "zero_vlanInterfaceRow = \<lparr>vir_Description = [], vir_Vrf = [], vir_Mtu = 0, vir_Address = [],
     vir_Virtual = [], vir_NoAutostate = False, vir_Shutdown = False\<rparr>"

text \<open>The body of the loop; the anycast prefix is tested before the plain one.\<close>

definition vlan_interface_line :: "string \<Rightarrow> vlanInterfaceRow \<Rightarrow> vlanInterfaceRow" where
  "vlan_interface_line line row =
     (if HasPrefix line ''description '' then row\<lparr>vir_Description := TrimPrefix line ''description ''\<rparr>
      else if HasPrefix line ''vrf '' then row\<lparr>vir_Vrf := TrimPrefix line ''vrf ''\<rparr>
      else if HasPrefix line ''ip address virtual '' then
        row\<lparr>vir_Virtual := TrimPrefix line ''ip address virtual ''\<rparr>
      else if HasPrefix line ''ip address '' then row\<lparr>vir_Address := TrimPrefix line ''ip address ''\<rparr>
      else if HasPrefix line ''mtu '' then row\<lparr>vir_Mtu := atoi_or (vir_Mtu row) (TrimPrefix line ''mtu '')\<rparr>
      else if line = ''no autostate'' then row\<lparr>vir_NoAutostate := True\<rparr>
      else if line = ''shutdown'' then row\<lparr>vir_Shutdown := True\<rparr>
      else row)"

definition parseVlanInterfaceConfig :: "string \<Rightarrow> int \<Rightarrow> vlanInterfaceRow option" where
  "parseVlanInterfaceConfig out i =
     (if \<not> Contains out (''interface Vlan'' @ Itoa i) then None
      else Some (scan vlan_interface_line out zero_vlanInterfaceRow))"

definition readVlanInterface ::
  "('n, 'w) ctx \<Rightarrow> 'n client \<Rightarrow> int \<Rightarrow> 'w \<Rightarrow> vlanInterfaceRow option res \<times> 'w" where
  "readVlanInterface C cli i =
     read_text C cli (''show running-config interfaces Vlan'' @ Itoa i)
       (\<lambda>out. Ok (parseVlanInterfaceConfig out i))"

definition fillVlanInterface :: "vlanInterfaceRow \<Rightarrow> VlanInterfaceState \<Rightarrow> VlanInterfaceState" where
  "fillVlanInterface r s =
     s\<lparr>vi_Description := set_str (vir_Description r) (vi_Description s),
       vi_Vrf := set_str (vir_Vrf r) (vi_Vrf s),
       vi_IpAddress := set_str (vir_Address r) (vi_IpAddress s),
       vi_IpAddressVirtual := set_str (vir_Virtual r) (vi_IpAddressVirtual s),
       vi_Mtu := set_pos (vir_Mtu r) (vi_Mtu s),
       vi_NoAutostate := set_true (vir_NoAutostate r) (vi_NoAutostate s),
       vi_Shutdown := set_true (vir_Shutdown r) (vi_Shutdown s)\<rparr>"

definition VlanInterface_Create ::
  "('n, 'w) ctx \<Rightarrow> VlanInterfaceArgs request \<Rightarrow> 'w \<Rightarrow> VlanInterfaceState created res \<times> 'w" where
  "VlanInterface_Create C =
     crud_create validateVlanInterface (\<lambda>a. vlanInterfaceID (vi_VlanId a)) (applyVlanInterface C)
       (\<lambda>a. ''create vlan-interface '' @ Itoa (vi_VlanId a))"

definition VlanInterface_Read ::
  "('n, 'w) ctx \<Rightarrow> VlanInterfaceArgs \<Rightarrow> 'w \<Rightarrow>
   (VlanInterfaceArgs, VlanInterfaceState) read_response option res \<times> 'w" where
  "VlanInterface_Read C =
     crud_read (newClient C) (\<lambda>cli a. readVlanInterface C cli (vi_VlanId a))
       (\<lambda>a. vlanInterfaceID (vi_VlanId a)) fillVlanInterface"

definition VlanInterface_Update ::
  "('n, 'w) ctx \<Rightarrow> VlanInterfaceArgs request \<Rightarrow> 'w \<Rightarrow> VlanInterfaceState res \<times> 'w" where
  "VlanInterface_Update C =
     crud_update validateVlanInterface (applyVlanInterface C)
       (\<lambda>a. ''update vlan-interface '' @ Itoa (vi_VlanId a))"

definition VlanInterface_Delete :: "('n, 'w) ctx \<Rightarrow> VlanInterfaceState \<Rightarrow> 'w \<Rightarrow> unit res \<times> 'w" where
  "VlanInterface_Delete C =
     crud_delete (applyVlanInterface C) (\<lambda>a. ''delete vlan-interface '' @ Itoa (vi_VlanId a))"

interpretation vlan_interface_mgr: session_managed C validateVlanInterface "\<lambda>a. vlanInterfaceID (vi_VlanId a)"
  "applyVlanInterface C" "\<lambda>a. ''svi-'' @ Itoa (vi_VlanId a)" buildVlanInterfaceCmds
  by unfold_locales (simp add: applyVlanInterface_def)

section \<open>Reading back a rendered interface\<close>

definition svi_idle :: "string \<Rightarrow> bool" where
  "svi_idle l \<longleftrightarrow> l \<in> {[], ''!'', ''no shutdown'', ''autostate''}"

interpretation svi_scan: line_scanner vlan_interface_line svi_idle
proof (unfold_locales, goal_cases)
  case (1 l r)
  then show ?case
    unfolding svi_idle_def by (elim insertE emptyE) (simp_all add: vlan_interface_line_def)
next
  case (2 l)
  then show ?case by (auto simp: svi_idle_def noise_def)
qed

lemma svi_header_line: "vlan_interface_line (''interface Vlan'' @ n) r = r"
  by (simp add: vlan_interface_line_def)

interpretation vi_description: attribute vlan_interface_line "\<lambda>d. ''description '' @ d" "\<lambda>_. True"
  vir_Description "\<lambda>d r. r\<lparr>vir_Description := d\<rparr>"
  by unfold_locales (simp_all add: vlan_interface_line_def)

interpretation vi_vrf: attribute vlan_interface_line "\<lambda>d. ''vrf '' @ d" "\<lambda>_. True" vir_Vrf "\<lambda>d r. r\<lparr>vir_Vrf := d\<rparr>"
  by unfold_locales (simp_all add: vlan_interface_line_def)

text \<open>A plain address that starts with \<open>virtual\<close> would be read as an anycast one.\<close>

definition plain_address :: "string \<Rightarrow> bool" where
  "plain_address v \<longleftrightarrow> \<not> HasPrefix v ''virtual ''"

interpretation vi_address: attribute vlan_interface_line "\<lambda>v. ''ip address '' @ v" plain_address
  vir_Address "\<lambda>v r. r\<lparr>vir_Address := v\<rparr>"
  by unfold_locales (simp_all add: vlan_interface_line_def plain_address_def)

interpretation vi_virtual: attribute vlan_interface_line "\<lambda>v. ''ip address virtual '' @ v" "\<lambda>_. True"
  vir_Virtual "\<lambda>v r. r\<lparr>vir_Virtual := v\<rparr>"
  by unfold_locales (simp_all add: vlan_interface_line_def)

interpretation vi_mtu: attribute vlan_interface_line "\<lambda>m. ''mtu '' @ Itoa m" int64 vir_Mtu "\<lambda>m r. r\<lparr>vir_Mtu := m\<rparr>"
  by unfold_locales (simp_all add: vlan_interface_line_def)

interpretation vi_autostate: flag vlan_interface_line "''no autostate''" vir_NoAutostate
  "\<lambda>b r. r\<lparr>vir_NoAutostate := b\<rparr>"
  by unfold_locales (simp_all add: vlan_interface_line_def)

interpretation vi_shutdown: flag vlan_interface_line "''shutdown''" vir_Shutdown "\<lambda>b r. r\<lparr>vir_Shutdown := b\<rparr>"
  by unfold_locales (simp_all add: vlan_interface_line_def)

definition canonical_vlan_interface :: "VlanInterfaceArgs \<Rightarrow> bool" where
  "canonical_vlan_interface a \<longleftrightarrow>
     pred_option int64 (vi_Mtu a) \<and> pred_option plain_address (nonempty (vi_IpAddress a))"

lemma svi_header:
  "prints svi_idle out (buildVlanInterfaceCmds a False) \<Longrightarrow> Contains out (''interface Vlan'' @ Itoa (vi_VlanId a))"
  by (erule prints_Contains) (simp_all add: buildVlanInterfaceCmds_def svi_idle_def)

lemma vlan_interface_roundtrip:
  assumes c: "canonical_vlan_interface a" and p: "prints svi_idle out (buildVlanInterfaceCmds a False)"
  shows "\<exists>row. parseVlanInterfaceConfig out (vi_VlanId a) = Some row \<and> fillVlanInterface row a = a"
proof -
  from c have m: "pred_option int64 (vi_Mtu a)" and i: "pred_option plain_address (nonempty (vi_IpAddress a))"
    by (simp_all add: canonical_vlan_interface_def)
  let ?row = "zero_vlanInterfaceRow\<lparr>vir_Description := or_empty (nonempty (vi_Description a)),
      vir_Vrf := or_empty (nonempty (vi_Vrf a)), vir_Address := or_empty (nonempty (vi_IpAddress a)),
      vir_Virtual := or_empty (nonempty (vi_IpAddressVirtual a)), vir_Mtu := or_zero (positive (vi_Mtu a)),
      vir_NoAutostate := (vi_NoAutostate a = Some True), vir_Shutdown := (vi_Shutdown a = Some True)\<rparr>"
  have "scan vlan_interface_line out zero_vlanInterfaceRow = ?row"
    unfolding svi_scan.scan_prints [OF p] buildVlanInterfaceCmds_def if_False fold_append comp_def
      fold_simps svi_header_line description_cmds_def mtu_cmds_def
      vi_description.fold_attr [OF any_readable] vi_vrf.fold_attr [OF any_readable]
      vi_address.fold_attr [OF i] vi_virtual.fold_attr [OF any_readable]
      vi_mtu.fold_attr [OF positive_int64 [OF m]] vi_autostate.fold_flag vi_shutdown.fold_flag
    by (simp add: zero_vlanInterfaceRow_def)
  with svi_header [OF p] have "parseVlanInterfaceConfig out (vi_VlanId a) = Some ?row"
    by (simp add: parseVlanInterfaceConfig_def)
  moreover have "fillVlanInterface ?row a = a" by (simp add: fillVlanInterface_def)
  ultimately show ?thesis by blast
qed

interpretation vlan_interface_rb: readback validateVlanInterface canonical_vlan_interface svi_idle
  "\<lambda>a. buildVlanInterfaceCmds a False" "\<lambda>a out. Ok (parseVlanInterfaceConfig out (vi_VlanId a))" fillVlanInterface
proof (unfold_locales, goal_cases)
  case (1 a out)
  then show ?case using vlan_interface_roundtrip by blast
next
  case (2 a out)
  then show ?case using svi_header Contains_nonempty by blast
qed

lemma validateVlanInterface_None:
  "validateVlanInterface a = None \<longleftrightarrow> 1 \<le> vi_VlanId a \<and> vi_VlanId a \<le> 4094
     \<and> (nonempty (vi_IpAddress a) = None \<or> nonempty (vi_IpAddressVirtual a) = None)"
  by (auto simp: validateVlanInterface_def validateVlanID_def split: option.splits if_splits)

end
