(* ===== verification/Go_Net.thy ===== *)
theory Go_Net
  imports Go_Conv
begin

text \<open>
  The address parsers of Go's packages \<open>net\<close> and \<open>net/netip\<close> that the validators call:
  \<open>netip.ParseAddr\<close>, \<open>netip.ParsePrefix\<close>, \<open>net.ParseIP\<close> and \<open>net.ParseMAC\<close> with
  \<open>HardwareAddr.String\<close>.  They return the parsed value or \<open>None\<close>; the text of their errors
  plays no role.  The lemmas show that what they accept is written in a small alphabet, so
  that an accepted address is one word of a command line, and that printing a hardware
  address and parsing it again are inverse.
\<close>

section \<open>Hexadecimal digits\<close>

definition lower_hex :: string where "lower_hex = digits @ ''abcdef''"

definition hex_val :: "char \<Rightarrow> nat option" where
  "hex_val c = map_of (zip lower_hex [0..<16] @ zip ''ABCDEF'' [10..<16]) c"

definition hex_chars :: "char set" where
  "hex_chars = set (lower_hex @ ''ABCDEF'')"

lemma length_lower_hex [simp]: "length lower_hex = 16"
  by (simp add: lower_hex_def)

lemma distinct_lower_hex: "distinct lower_hex"
  by (simp add: lower_hex_def digits_def)

lemma hex_val_None: "hex_val c = None \<longleftrightarrow> c \<notin> hex_chars"
proof -
  have "dom (map_of (zip lower_hex [0..<16] @ zip ''ABCDEF'' [10..<16])) = hex_chars"
    by (simp add: dom_map_of_conv_image_fst hex_chars_def image_Un flip: set_map)
  then show ?thesis unfolding hex_val_def by blast
qed

lemma hex_val_lower [simp]: "n < 16 \<Longrightarrow> hex_val (lower_hex ! n) = Some n"
  unfolding hex_val_def map_of_append
  by (simp add: map_of_zip_nth distinct_lower_hex map_add_def split: option.split)

lemma hex_chars_plain:
  "c \<in> hex_chars \<Longrightarrow> \<not> space_byte c \<and> c \<notin> set '':.-% ''"
  by (auto simp: hex_chars_def lower_hex_def digits_def space_byte_def ascii_space_def)

section \<open>Addresses\<close>

text \<open>An IPv4 address is its four octets, an IPv6 address its eight groups and its zone.\<close>

datatype addr = Addr4 "nat list" | Addr6 "nat list" string

fun Is4 :: "addr \<Rightarrow> bool" where
  "Is4 (Addr4 _) = True"
| "Is4 (Addr6 _ _) = False"

definition Is6 :: "addr \<Rightarrow> bool" where
  "Is6 a \<longleftrightarrow> \<not> Is4 a"

fun Is4In6 :: "addr \<Rightarrow> bool" where
  "Is4In6 (Addr4 _) = False"
| "Is4In6 (Addr6 g _) = (take 6 g = [0, 0, 0, 0, 0, 65535])"

fun zone :: "addr \<Rightarrow> string" where
  "zone (Addr4 _) = []"
| "zone (Addr6 _ z) = z"

text \<open>A decimal octet: digits without a leading zero, at most 255.\<close>

definition octet :: "string \<Rightarrow> nat option" where
  "octet s =
     (if s = [] \<or> (length s > 1 \<and> hd s = CHR ''0'') then None
      else case parse_digits 0 s of Some n \<Rightarrow> if n \<le> 255 then Some n else None | None \<Rightarrow> None)"

fun all_some :: "'a option list \<Rightarrow> 'a list option" where
  "all_some [] = Some []"
| "all_some (None # xs) = None"
| "all_some (Some x # xs) = map_option ((#) x) (all_some xs)"

text \<open>\<open>parseIPv4Fields\<close>: exactly four octets between dots.\<close>

definition ipv4_fields :: "string \<Rightarrow> nat list option" where
  "ipv4_fields s =
     (let fs = split_at (CHR ''.'') s in if length fs = 4 then all_some (map octet fs) else None)"

text \<open>A group: the hexadecimal digits at the front of the text.\<close>

definition hex_run :: "string \<Rightarrow> string" where
  "hex_run s = takeWhile (\<lambda>c. c \<in> hex_chars) s"

definition hex_number :: "string \<Rightarrow> nat" where
  "hex_number s = fold (\<lambda>c n. 16 * n + (case hex_val c of Some v \<Rightarrow> v | None \<Rightarrow> 0)) s 0"

text \<open>
  The loop of \<open>parseIPv6\<close>.  \<open>g\<close> holds the groups read so far, \<open>e\<close> the position of the
  double colon, if one was met; the first argument bounds the groups still to come, eight
  at the start.  The result is the groups, the position and the text left over.
\<close>

fun ipv6_groups ::
  "nat \<Rightarrow> nat list \<Rightarrow> nat option \<Rightarrow> string \<Rightarrow> (nat list \<times> nat option \<times> string) option" where
  "ipv6_groups 0 g e s = Some (g, e, s)"
| "ipv6_groups (Suc k) g e s =
     (let d = hex_run s; rest = drop (length d) s in
      if d = [] \<or> length d > 4 then None
      else if rest \<noteq> [] \<and> hd rest = CHR ''.'' then
        (if (e = None \<and> length g \<noteq> 6) \<or> length g > 6 then None
         else map_option (\<lambda>o'. (case o' of
                 [a, b, c, d'] \<Rightarrow> (g @ [256 * a + b, 256 * c + d'], e, [])
               | _ \<Rightarrow> (g, e, s))) (ipv4_fields s))
      else
        (let g' = g @ [hex_number d] in
         if rest = [] then Some (g', e, [])
         else if hd rest \<noteq> CHR '':'' \<or> tl rest = [] then None
         else
           (let s' = tl rest in
            if hd s' = CHR '':'' then
              (if e \<noteq> None then None
               else if tl s' = [] then Some (g', Some (length g'), [])
               else ipv6_groups k g' (Some (length g')) (tl s'))
            else ipv6_groups k g' e s')))"

declare ipv6_groups.simps(2) [simp del]

definition ipv6_finish :: "nat list \<times> nat option \<times> string \<Rightarrow> nat list option" where
  "ipv6_finish r =
     (case r of (g, e, s) \<Rightarrow>
        if s \<noteq> [] then None
        else if length g < 8 then
          map_option (\<lambda>p. take p g @ replicate (8 - length g) 0 @ drop p g) e
        else if e \<noteq> None then None else Some g)"

text \<open>The zone, if any, is split off first and must not be empty.\<close>

definition split_zone :: "string \<Rightarrow> (string \<times> string) option" where
  "split_zone s =
     (if CHR ''%'' \<notin> set s then Some (s, [])
      else let a = takeWhile (\<lambda>c. c \<noteq> CHR ''%'') s; z = drop (Suc (length a)) s in
           if z = [] then None else Some (a, z))"

definition parseIPv6 :: "string \<Rightarrow> addr option" where
  "parseIPv6 input =
     (case split_zone input of
        None \<Rightarrow> None
      | Some (s, z) \<Rightarrow>
          map_option (\<lambda>g. Addr6 g z)
            (case CutPrefix s ''::'' of
               Some rest \<Rightarrow>
                 if rest = [] then Some (replicate 8 0)
                 else Option.bind (ipv6_groups 8 [] (Some 0) rest) ipv6_finish
             | None \<Rightarrow> Option.bind (ipv6_groups 8 [] None s) ipv6_finish))"

text \<open>The first dot, colon or percent sign decides the kind of address.\<close>

definition ParseAddr :: "string \<Rightarrow> addr option" where
  "ParseAddr s =
     (case dropWhile (\<lambda>c. c \<notin> set ''.:%'') s of
        [] \<Rightarrow> None
      | c # _ \<Rightarrow>
          if c = CHR ''.'' then map_option Addr4 (ipv4_fields s)
          else if c = CHR '':'' then parseIPv6 s
          else None)"

definition ParseIP :: "string \<Rightarrow> addr option" where
  "ParseIP s =
     (case ParseAddr s of Some a \<Rightarrow> if zone a = [] then Some a else None | None \<Rightarrow> None)"

text \<open>\<open>ParsePrefix\<close> splits at the last slash; a zone is refused, and so is a sign or a leading zero.\<close>

definition prefix_bits :: "string \<Rightarrow> int option" where
  "prefix_bits b =
     (if length b > 1 \<and> hd b \<notin> set ''123456789'' then None else Atoi b)"

definition ParsePrefix :: "string \<Rightarrow> (addr \<times> int) option" where
  "ParsePrefix s =
     (if CHR ''/'' \<notin> set s then None
      else let b = rev (takeWhile (\<lambda>c. c \<noteq> CHR ''/'') (rev s));
               a = take (length s - Suc (length b)) s in
           case ParseAddr a of
             None \<Rightarrow> None
           | Some ip \<Rightarrow>
               if zone ip \<noteq> [] then None
               else (case prefix_bits b of
                       None \<Rightarrow> None
                     | Some n \<Rightarrow>
                         if 0 \<le> n \<and> n \<le> (if Is4 ip then 32 else 128) then Some (ip, n) else None))"

section \<open>Hardware addresses\<close>

text \<open>\<open>xtoi2\<close>: two digits, followed by the end of the text or by the separator.\<close>

fun xtoi2 :: "string \<Rightarrow> char option \<Rightarrow> nat option" where
  "xtoi2 (a # b # rest) sep =
     (if rest \<noteq> [] \<and> Some (hd rest) \<noteq> sep then None
      else (case (hex_val a, hex_val b) of (Some x, Some y) \<Rightarrow> Some (16 * x + y) | _ \<Rightarrow> None))"
| "xtoi2 _ sep = None"

fun mac_triples :: "nat \<Rightarrow> char \<Rightarrow> string \<Rightarrow> nat list option" where
  "mac_triples 0 sep s = Some []"
| "mac_triples (Suc n) sep s =
     (case xtoi2 s (Some sep) of
        None \<Rightarrow> None
      | Some b \<Rightarrow> map_option ((#) b) (mac_triples n sep (drop 3 s)))"

fun mac_quads :: "nat \<Rightarrow> string \<Rightarrow> nat list option" where
  "mac_quads 0 s = Some []"
| "mac_quads (Suc n) s =
     (case (xtoi2 (take 2 s) None, xtoi2 (drop 2 s) (Some (CHR ''.''))) of
        (Some b, Some b') \<Rightarrow> map_option (\<lambda>bs. b # b' # bs) (mac_quads n (drop 5 s))
      | _ \<Rightarrow> None)"

text \<open>Six, eight or twenty bytes, in pairs behind colons or hyphens or in quads behind dots.\<close>

definition ParseMAC :: "string \<Rightarrow> nat list option" where
  "ParseMAC s =
     (if length s < 14 then None
      else if s ! 2 = CHR '':'' \<or> s ! 2 = CHR ''-'' then
        (if (length s + 1) mod 3 \<noteq> 0 \<or> (length s + 1) div 3 \<notin> {6, 8, 20} then None
         else mac_triples ((length s + 1) div 3) (s ! 2) s)
      else if s ! 4 = CHR ''.'' then
        (if (length s + 1) mod 5 \<noteq> 0 \<or> 2 * (length s + 1) div 5 \<notin> {6, 8, 20} then None
         else mac_quads ((length s + 1) div 5) s)
      else None)"

definition hex_byte :: "nat \<Rightarrow> string" where
  "hex_byte b = [lower_hex ! (b div 16), lower_hex ! (b mod 16)]"

text \<open>\<open>HardwareAddr.String\<close>: lower-case pairs between colons.\<close>

definition mac_String :: "nat list \<Rightarrow> string" where
  "mac_String bs = Join (map hex_byte bs) '':''"

section \<open>Accepted addresses are words\<close>

definition address_chars :: "char set" where
  "address_chars = hex_chars \<union> {CHR ''.'', CHR '':''}"

lemma address_char_plain: "c \<in> address_chars \<Longrightarrow> \<not> space_byte c"
  unfolding address_chars_def using hex_chars_plain by (elim UnE) (auto simp: space_byte_def ascii_space_def)

lemma address_chars_word: "s \<noteq> [] \<Longrightarrow> set s \<subseteq> address_chars \<Longrightarrow> word_string s"
  unfolding word_string_def using address_char_plain by blast

lemma all_some_Some: "all_some xs = Some ys \<Longrightarrow> xs = map Some ys"
  by (induction xs arbitrary: ys rule: all_some.induct) auto

lemma digit_val_set: "digit_val c = Some d \<Longrightarrow> c \<in> set digits"
  unfolding digit_val_def by (drule map_of_SomeD) (erule set_zip_leftD)

lemma parse_digits_set: "parse_digits acc s = Some n \<Longrightarrow> set s \<subseteq> set digits"
proof (induction s arbitrary: acc)
  case (Cons c s)
  then show ?case by (auto split: option.splits dest: digit_val_set)
qed simp

lemma digits_address: "set digits \<subseteq> address_chars"
  by (auto simp: address_chars_def hex_chars_def lower_hex_def)

lemma octet_chars: "octet s = Some n \<Longrightarrow> set s \<subseteq> address_chars"
  unfolding octet_def using digits_address parse_digits_set [of 0 s]
  by (cases "parse_digits 0 s") (auto split: if_splits)

lemma set_Join: "set (Join ls d) \<subseteq> set d \<union> (\<Union>l\<in>set ls. set l)"
  by (induction ls d rule: Join.induct) auto

lemma split_at_set: "set s \<subseteq> insert d (\<Union>l\<in>set (split_at d s). set l)"
  using set_Join [of "split_at d s" "[d]"] by (simp add: Join_split_at)

lemma ipv4_fields_chars: "ipv4_fields s = Some ns \<Longrightarrow> set s \<subseteq> address_chars \<and> length ns = 4"
proof -
  let ?fs = "split_at (CHR ''.'') s"
  assume "ipv4_fields s = Some ns"
  then have ns: "map octet ?fs = map Some ns" and len: "length ?fs = 4"
    by (auto simp: ipv4_fields_def Let_def split: if_splits dest: all_some_Some)
  have "set l \<subseteq> address_chars" if "l \<in> set ?fs" for l
  proof -
    from that ns obtain n where "octet l = Some n" by (metis (no_types, lifting) in_set_conv_nth length_map nth_map)
    then show ?thesis by (rule octet_chars)
  qed
  then have "set s \<subseteq> address_chars" using split_at_set [of s "CHR ''.''"] by (force simp: address_chars_def)
  moreover have "length ns = 4" using arg_cong [OF ns, of length] len by simp
  ultimately show ?thesis by blast
qed

lemma hex_run_split: "s = hex_run s @ drop (length (hex_run s)) s"
  unfolding hex_run_def by (metis dropWhile_eq_drop takeWhile_dropWhile_id)

lemma hex_run_chars: "set (hex_run s) \<subseteq> address_chars"
  by (auto simp: hex_run_def address_chars_def dest: set_takeWhileD)

lemma ipv6_groups_chars: "ipv6_groups k g e s = Some (g', e', []) \<Longrightarrow> set s \<subseteq> address_chars"
proof (induction k g e s rule: ipv6_groups.induct)
  case (2 k g e s)
  define d rest where "d = hex_run s" and "rest = drop (length d) s"
  have s: "s = d @ rest" using hex_run_split [of s] by (simp add: d_def rest_def)
  have d: "set d \<subseteq> address_chars" using hex_run_chars by (simp add: d_def)
  note run = "2.prems" [unfolded ipv6_groups.simps Let_def, folded d_def, folded rest_def]
  show ?case
  proof (cases "rest \<noteq> [] \<and> hd rest = CHR ''.''")
    case True
    with run obtain ns where "ipv4_fields s = Some ns" by (auto split: if_splits)
    then show ?thesis using ipv4_fields_chars by blast
  next
    case nodot: False
    show ?thesis
    proof (cases "rest = []")
      case True
      with d s show ?thesis by simp
    next
      case False
      with run nodot have colon: "hd rest = CHR '':''" and more: "tl rest \<noteq> []" by (auto split: if_splits)
      have colon_in: "CHR '':'' \<in> address_chars" by (simp add: address_chars_def)
      have "set (tl rest) \<subseteq> address_chars"
      proof (cases "hd (tl rest) = CHR '':''")
        case True
        have "set (tl (tl rest)) \<subseteq> address_chars" if "tl (tl rest) \<noteq> []"
          using "2.IH"(1) [OF d_def rest_def] run nodot False colon more True that by (auto split: if_splits)
        then have "set (tl (tl rest)) \<subseteq> address_chars" by (cases "tl (tl rest) = []") simp_all
        moreover have "tl rest = CHR '':'' # tl (tl rest)" using True more by (cases "tl rest") simp_all
        ultimately show ?thesis using colon_in by (metis insert_subset list.set(2))
      next
        case False
        then show ?thesis
          using "2.IH"(2) [OF d_def rest_def] run nodot \<open>rest \<noteq> []\<close> colon more by (auto split: if_splits)
      qed
      with False colon have "set rest \<subseteq> address_chars" by (cases rest) (auto simp: address_chars_def)
      with d s show ?thesis by (metis Un_least set_append)
    qed
  qed
qed simp

lemma ipv6_finish_chars: "Option.bind (ipv6_groups k g e s) ipv6_finish = Some gs \<Longrightarrow> set s \<subseteq> address_chars"
proof -
  assume "Option.bind (ipv6_groups k g e s) ipv6_finish = Some gs"
  then obtain g' e' s' where r: "ipv6_groups k g e s = Some (g', e', s')" and f: "ipv6_finish (g', e', s') = Some gs"
    by (auto simp: bind_eq_Some_conv)
  from f have "s' = []" by (simp add: ipv6_finish_def split: if_splits)
  with r show ?thesis using ipv6_groups_chars by blast
qed

text \<open>An accepted address without a zone is made of digits, dots and colons.\<close>

theorem ParseAddr_chars: "ParseAddr s = Some a \<Longrightarrow> zone a = [] \<Longrightarrow> set s \<subseteq> address_chars"
proof -
  assume p: "ParseAddr s = Some a" and z: "zone a = []"
  show ?thesis
  proof (cases "\<exists>ns. ipv4_fields s = Some ns \<and> a = Addr4 ns")
    case True
    then show ?thesis using ipv4_fields_chars by blast
  next
    case False
    with p have "parseIPv6 s = Some a" by (auto simp: ParseAddr_def split: list.splits if_splits)
    then obtain t z' where sz: "split_zone s = Some (t, z')" and a: "zone a = z'"
      and g: "(case CutPrefix t ''::'' of
               Some rest \<Rightarrow>
                 if rest = [] then Some (replicate 8 0)
                 else Option.bind (ipv6_groups 8 [] (Some 0) rest) ipv6_finish
             | None \<Rightarrow> Option.bind (ipv6_groups 8 [] None t) ipv6_finish) \<noteq> None"
      by (auto simp: parseIPv6_def split: option.splits prod.splits)
    from sz z a have "t = s" by (auto simp: split_zone_def Let_def split: if_splits)
    show ?thesis
    proof (cases "CutPrefix s ''::''")
      case None
      with g \<open>t = s\<close> obtain gs where "Option.bind (ipv6_groups 8 [] None s) ipv6_finish = Some gs" by auto
      then show ?thesis by (rule ipv6_finish_chars)
    next
      case (Some rest)
      then have "s = ''::'' @ rest" by (simp add: CutPrefix_iff)
      moreover have "set rest \<subseteq> address_chars"
        using g \<open>t = s\<close> Some by (cases "rest = []") (auto dest: ipv6_finish_chars)
      ultimately show ?thesis by (auto simp: address_chars_def)
    qed
  qed
qed

lemma ParseAddr_Nil [simp]: "ParseAddr [] = None"
  by (simp add: ParseAddr_def)

theorem ParseIP_word: "ParseIP s = Some a \<Longrightarrow> word_string s"
proof -
  assume p: "ParseIP s = Some a"
  then have "ParseAddr s = Some a" "zone a = []" by (auto simp: ParseIP_def split: option.splits if_splits)
  then have "set s \<subseteq> address_chars" by (rule ParseAddr_chars)
  moreover from \<open>ParseAddr s = Some a\<close> have "s \<noteq> []" by auto
  ultimately show ?thesis by (simp add: address_chars_word)
qed

section \<open>Printing and parsing a hardware address\<close>

lemma hex_byte_plain: "b < 256 \<Longrightarrow> set (hex_byte b) \<subseteq> hex_chars"
proof -
  assume "b < 256"
  then have "b div 16 < 16" "b mod 16 < 16" by simp_all
  then show ?thesis by (auto simp: hex_byte_def hex_chars_def)
qed

lemma xtoi2_hex_byte: "b < 256 \<Longrightarrow> rest = [] \<or> Some (hd rest) = sep \<Longrightarrow> xtoi2 (hex_byte b @ rest) sep = Some b"
proof -
  assume "b < 256" and r: "rest = [] \<or> Some (hd rest) = sep"
  then have "b div 16 < 16" "b mod 16 < 16" by simp_all
  then show ?thesis using r by (auto simp: hex_byte_def)
qed

lemma mac_String_Cons: "bs \<noteq> [] \<Longrightarrow> mac_String (b # bs) = hex_byte b @ '':'' @ mac_String bs"
  by (cases bs) (simp_all add: mac_String_def)

lemma length_mac_String: "bs \<noteq> [] \<Longrightarrow> length (mac_String bs) = 3 * length bs - 1"
proof (induction bs)
  case (Cons b bs)
  then show ?case
  proof (cases bs)
    case Nil
    then show ?thesis by (simp add: mac_String_def hex_byte_def)
  next
    case (Cons c cs)
    then show ?thesis using Cons.IH by (simp add: mac_String_Cons hex_byte_def)
  qed
qed simp

lemma mac_triples_String:
  "\<forall>b\<in>set bs. b < 256 \<Longrightarrow> mac_triples (length bs) (CHR '':'') (mac_String bs) = Some bs"
proof (induction bs)
  case (Cons b bs)
  show ?case
  proof (cases "bs = []")
    case True
    with Cons.prems xtoi2_hex_byte [of b "[]"] show ?thesis by (simp add: mac_String_def)
  next
    case False
    with Cons xtoi2_hex_byte [of b "'':'' @ mac_String bs" "Some (CHR '':'')"] show ?thesis
      by (simp add: mac_String_Cons hex_byte_def)
  qed
qed simp

theorem ParseMAC_String:
  assumes "length bs \<in> {6, 8, 20}" and "\<forall>b\<in>set bs. b < 256"
  shows "ParseMAC (mac_String bs) = Some bs"
proof -
  from assms(1) obtain b bs' where bs: "bs = b # bs'" "bs' \<noteq> []" by (cases bs; cases "tl bs") auto
  have len: "length (mac_String bs) + 1 = 3 * length bs"
    using length_mac_String [of bs] bs(1) by simp
  have "mac_String bs ! 2 = CHR '':''" using bs by (simp add: mac_String_Cons hex_byte_def)
  then show ?thesis
    using len assms(1) mac_triples_String [OF assms(2)] by (auto simp: ParseMAC_def)
qed

text \<open>What is parsed has a legal length and bytes in range.\<close>

lemma hex_val_less: "hex_val c = Some v \<Longrightarrow> v < 16"
  unfolding hex_val_def by (drule map_of_SomeD) (auto dest: set_zip_rightD)

lemma xtoi2_byte: "xtoi2 s sep = Some b \<Longrightarrow> b < 256"
  by (induction s sep rule: xtoi2.induct)
     (auto dest!: hex_val_less split: if_splits option.splits)

lemma mac_triples_bytes:
  "mac_triples n sep s = Some bs \<Longrightarrow> length bs = n \<and> (\<forall>b\<in>set bs. b < 256)"
  by (induction n sep s arbitrary: bs rule: mac_triples.induct) (auto split: option.splits dest: xtoi2_byte)

lemma mac_quads_bytes:
  "mac_quads n s = Some bs \<Longrightarrow> length bs = 2 * n \<and> (\<forall>b\<in>set bs. b < 256)"
  by (induction n s arbitrary: bs rule: mac_quads.induct) (auto split: option.splits dest: xtoi2_byte)

theorem ParseMAC_bytes: "ParseMAC s = Some bs \<Longrightarrow> length bs \<in> {6, 8, 20} \<and> (\<forall>b\<in>set bs. b < 256)"
proof -
  assume p: "ParseMAC s = Some bs"
  show ?thesis
  proof (cases "s ! 2 = CHR '':'' \<or> s ! 2 = CHR ''-''")
    case True
    with p have "mac_triples ((length s + 1) div 3) (s ! 2) s = Some bs" "(length s + 1) div 3 \<in> {6, 8, 20}"
      by (auto simp: ParseMAC_def split: if_splits)
    with mac_triples_bytes show ?thesis by metis
  next
    case False
    with p have "mac_quads ((length s + 1) div 5) s = Some bs" "2 * (length s + 1) div 5 \<in> {6, 8, 20}"
      "(length s + 1) mod 5 = 0"
      by (auto simp: ParseMAC_def split: if_splits)
    moreover from this(3) have "2 * (length s + 1) div 5 = 2 * ((length s + 1) div 5)"
      by presburger
    ultimately show ?thesis using mac_quads_bytes by metis
  qed
qed

lemma mac_String_word: "bs \<noteq> [] \<Longrightarrow> \<forall>b\<in>set bs. b < 256 \<Longrightarrow> word_string (mac_String bs)"
proof (rule address_chars_word)
  assume ne: "bs \<noteq> []" and b: "\<forall>b\<in>set bs. b < 256"
  from ne show "mac_String bs \<noteq> []" using length_mac_String [OF ne] by (cases bs) auto
  have "set (mac_String bs) \<subseteq> insert (CHR '':'') (\<Union>b\<in>set bs. set (hex_byte b))"
    using set_Join [of "map hex_byte bs" "'':''"] by (auto simp: mac_String_def)
  moreover have "(\<Union>b\<in>set bs. set (hex_byte b)) \<subseteq> hex_chars" using b hex_byte_plain by blast
  ultimately show "set (mac_String bs) \<subseteq> address_chars" unfolding address_chars_def by blast
qed

end
