(* ===== verification/Vxlan_Interface.thy ===== *)
theory Vxlan_Interface
  imports Vlan Go_Net "HOL-Library.List_Lexorder" "HOL-Library.Char_ord" "HOL-Library.Multiset"
begin

text \<open>
  \<open>internal/resources/l2/vxlan_interface.go\<close>: the VXLAN tunnel interface with its VLAN and VRF
  bindings and the head-end replication list.  Strings are ordered byte by byte, as Go
  orders them; \<open>sort.Slice\<close> is the stable \<open>sort_key\<close>, which for the distinct keys of
  validated arguments is the only sorted order.
\<close>

definition VniMin :: int where "VniMin = 1"
definition VniMax :: int where "VniMax = 16777214"

definition ErrVxlanIDOutOfRange :: error where
  [errs]: "ErrVxlanIDOutOfRange = Sentinel ''vxlanInterface id must be > 0''"
definition ErrVxlanSourceMissing :: error where
  [errs]: "ErrVxlanSourceMissing = Sentinel ''vxlanInterface sourceInterface is required''"
definition ErrVxlanVniOutOfRange :: error where
  [errs]: "ErrVxlanVniOutOfRange = Sentinel ''vni must be in 1..16777214 (RFC 7348)''"
definition ErrVxlanUDPPortOutOfRange :: error where
  [errs]: "ErrVxlanUDPPortOutOfRange = Sentinel ''udpPort must be in 1..65535''"
definition ErrVxlanVlanVniDuplicate :: error where
  [errs]: "ErrVxlanVlanVniDuplicate = Sentinel ''vlanVniMap contains duplicate vlan id''"
definition ErrVxlanVrfVniDuplicate :: error where
  [errs]: "ErrVxlanVrfVniDuplicate = Sentinel ''vrfVniMap contains duplicate vrf name''"
definition ErrVxlanFloodVtepNotIP :: error where
  [errs]: "ErrVxlanFloodVtepNotIP = Sentinel ''floodVteps entry is not a valid IP address''"

text \<open>An empty VRF name gives a one-off error.\<close>

definition VrfNameEmpty :: error where
  [errs]: "VrfNameEmpty = Sentinel ''vrfVniMap entry has empty vrf name''"

record VlanVniEntry =
  vv_VlanId :: int
  vv_Vni :: int

record VrfVniEntry =
  fv_Vrf :: string
  fv_Vni :: int

record VxlanInterfaceArgs = overrides +
  vx_Id :: int
  vx_Description :: "string option"
  vx_SourceInterface :: string
  vx_UdpPort :: "int option"
  vx_VlanVniMap :: "VlanVniEntry list"
  vx_VrfVniMap :: "VrfVniEntry list"
  vx_FloodVteps :: "string list"

type_synonym VxlanInterfaceState = VxlanInterfaceArgs

definition validateVni :: "int \<Rightarrow> error option" where
  "validateVni v = (if v < VniMin \<or> v > VniMax then Some (Got ErrVxlanVniOutOfRange [DInt v]) else None)"

text \<open>The loops over the bindings carry the set of keys seen so far.\<close>

fun check_vlans :: "int list \<Rightarrow> VlanVniEntry list \<Rightarrow> error option" where
  "check_vlans seen [] = None"
| "check_vlans seen (e # es) =
     (case validateVlanID (vv_VlanId e) of
        Some x \<Rightarrow> Some x
      | None \<Rightarrow>
          (case validateVni (vv_Vni e) of
             Some x \<Rightarrow> Some x
           | None \<Rightarrow>
               if vv_VlanId e \<in> set seen then Some (Got ErrVxlanVlanVniDuplicate [DInt (vv_VlanId e)])
               else check_vlans (vv_VlanId e # seen) es))"

fun check_vrfs :: "string list \<Rightarrow> VrfVniEntry list \<Rightarrow> error option" where
  "check_vrfs seen [] = None"
| "check_vrfs seen (e # es) =
     (if TrimSpace (fv_Vrf e) = [] then Some VrfNameEmpty
      else case validateVni (fv_Vni e) of
        Some x \<Rightarrow> Some x
      | None \<Rightarrow>
          if fv_Vrf e \<in> set seen then Some (Got ErrVxlanVrfVniDuplicate [DStr (fv_Vrf e)])
          else check_vrfs (fv_Vrf e # seen) es)"

fun check_vteps :: "string list \<Rightarrow> error option" where
  "check_vteps [] = None"
| "check_vteps (v # vs) =
     (if ParseIP v = None then Some (Got ErrVxlanFloodVtepNotIP [DStr v]) else check_vteps vs)"

definition validate_udp :: "int \<Rightarrow> error option" where
  "validate_udp p = (if p < 1 \<or> p > 65535 then Some (Got ErrVxlanUDPPortOutOfRange [DInt p]) else None)"

definition validateVxlanInterface :: "VxlanInterfaceArgs \<Rightarrow> error option" where
  "validateVxlanInterface args =
     (if vx_Id args < 1 then Some (Got ErrVxlanIDOutOfRange [DInt (vx_Id args)])
      else if TrimSpace (vx_SourceInterface args) = [] then Some ErrVxlanSourceMissing
      else case opt_err validate_udp (vx_UdpPort args) of
        Some e \<Rightarrow> Some e
      | None \<Rightarrow>
          (case check_vlans [] (vx_VlanVniMap args) of
             Some e \<Rightarrow> Some e
           | None \<Rightarrow>
               (case check_vrfs [] (vx_VrfVniMap args) of
                  Some e \<Rightarrow> Some e
                | None \<Rightarrow> check_vteps (vx_FloodVteps args))))"

definition vxlanInterfaceID :: "int \<Rightarrow> string" where
  "vxlanInterfaceID i = ''vxlan-interface/'' @ Itoa i"

definition vxlanInterfaceName :: "int \<Rightarrow> string" where
  "vxlanInterfaceName i = ''Vxlan'' @ Itoa i"

definition vlan_vni_cmd :: "VlanVniEntry \<Rightarrow> string" where
  "vlan_vni_cmd e = ''vxlan vlan '' @ Itoa (vv_VlanId e) @ '' vni '' @ Itoa (vv_Vni e)"

definition vrf_vni_cmd :: "VrfVniEntry \<Rightarrow> string" where
  "vrf_vni_cmd e = ''vxlan vrf '' @ fv_Vrf e @ '' vni '' @ Itoa (fv_Vni e)"

definition flood_cmds :: "string list \<Rightarrow> string list" where
  "flood_cmds vs = (if vs = [] then [] else [''vxlan flood vtep '' @ Join (sort vs) '' ''])"

definition buildVxlanInterfaceCmds :: "VxlanInterfaceArgs \<Rightarrow> bool \<Rightarrow> string list" where
  "buildVxlanInterfaceCmds args remove =
     (if remove then [''no interface '' @ vxlanInterfaceName (vx_Id args)]
      else [''interface '' @ vxlanInterfaceName (vx_Id args)]
           @ description_cmds (vx_Description args)
           @ [''vxlan source-interface '' @ vx_SourceInterface args]
           @ line_opt (\<lambda>p. ''vxlan udp-port '' @ Itoa p) (positive (vx_UdpPort args))
           @ map vlan_vni_cmd (sort_key vv_VlanId (vx_VlanVniMap args))
           @ map vrf_vni_cmd (sort_key fv_Vrf (vx_VrfVniMap args))
           @ flood_cmds (vx_FloodVteps args))"

definition applyVxlanInterface :: "('n, 'w) ctx \<Rightarrow> VxlanInterfaceArgs \<Rightarrow> bool \<Rightarrow> 'w \<Rightarrow> unit res \<times> 'w" where
  "applyVxlanInterface C args remove w =
     apply_session C args (''vxlan-'' @ Itoa (vx_Id args)) (buildVxlanInterfaceCmds args remove) w"

record vxlanInterfaceRow =
  vxr_Description :: string
  vxr_SourceInterface :: string
  vxr_UdpPort :: int
  vxr_VlanVni :: "VlanVniEntry list"
  vxr_VrfVni :: "VrfVniEntry list"
  vxr_FloodVteps :: "string list"

definition zero_vxlanInterfaceRow :: vxlanInterfaceRow where
  "zero_vxlanInterfaceRow = \<lparr>vxr_Description = [], vxr_SourceInterface = [], vxr_UdpPort = 0,
     vxr_VlanVni = [], vxr_VrfVni = [], vxr_FloodVteps = []\<rparr>"

definition parseVxlanVlanLine :: "string \<Rightarrow> vxlanInterfaceRow \<Rightarrow> vxlanInterfaceRow" where
  "parseVxlanVlanLine line row =
     (case Fields line of
        [_, _, n, k, v] \<Rightarrow>
          if k \<noteq> ''vni'' then row
          else (case (Atoi n, Atoi v) of
                  (Some i, Some j) \<Rightarrow>
                    row\<lparr>vxr_VlanVni := vxr_VlanVni row @ [\<lparr>vv_VlanId = i, vv_Vni = j\<rparr>]\<rparr>
                | _ \<Rightarrow> row)
      | _ \<Rightarrow> row)"

definition parseVxlanVrfLine :: "string \<Rightarrow> vxlanInterfaceRow \<Rightarrow> vxlanInterfaceRow" where
  "parseVxlanVrfLine line row =
     (case Fields line of
        [_, _, n, k, v] \<Rightarrow>
          if k \<noteq> ''vni'' then row
          else (case Atoi v of
                  Some j \<Rightarrow> row\<lparr>vxr_VrfVni := vxr_VrfVni row @ [\<lparr>fv_Vrf = n, fv_Vni = j\<rparr>]\<rparr>
                | None \<Rightarrow> row)
      | _ \<Rightarrow> row)"

definition vxlan_line :: "string \<Rightarrow> vxlanInterfaceRow \<Rightarrow> vxlanInterfaceRow" where
  "vxlan_line line row =
     (if HasPrefix line ''description '' then row\<lparr>vxr_Description := TrimPrefix line ''description ''\<rparr>
      else if HasPrefix line ''vxlan source-interface '' then
        row\<lparr>vxr_SourceInterface := TrimPrefix line ''vxlan source-interface ''\<rparr>
      else if HasPrefix line ''vxlan udp-port '' then
        row\<lparr>vxr_UdpPort := atoi_or (vxr_UdpPort row) (TrimPrefix line ''vxlan udp-port '')\<rparr>
      else if HasPrefix line ''vxlan vlan '' then parseVxlanVlanLine line row
      else if HasPrefix line ''vxlan vrf '' then parseVxlanVrfLine line row
      else if HasPrefix line ''vxlan flood vtep '' then
        row\<lparr>vxr_FloodVteps := vxr_FloodVteps row @ Fields (TrimPrefix line ''vxlan flood vtep '')\<rparr>
      else row)"

definition parseVxlanInterfaceConfig :: "string \<Rightarrow> int \<Rightarrow> vxlanInterfaceRow option" where
  "parseVxlanInterfaceConfig out i =
     (if \<not> Contains out (''interface '' @ vxlanInterfaceName i) then None
      else Some (scan vxlan_line out zero_vxlanInterfaceRow))"

definition readVxlanInterface ::
  "('n, 'w) ctx \<Rightarrow> 'n client \<Rightarrow> int \<Rightarrow> 'w \<Rightarrow> vxlanInterfaceRow option res \<times> 'w" where
  "readVxlanInterface C cli i =
     read_text C cli (''show running-config interfaces '' @ vxlanInterfaceName i)
       (\<lambda>out. Ok (parseVxlanInterfaceConfig out i))"

definition set_list :: "'v list \<Rightarrow> 'v list \<Rightarrow> 'v list" where
  "set_list new old = (if new = [] then old else new)"

definition fillVxlanInterface :: "vxlanInterfaceRow \<Rightarrow> VxlanInterfaceState \<Rightarrow> VxlanInterfaceState" where
  "fillVxlanInterface r s =
     s\<lparr>vx_Description := set_str (vxr_Description r) (vx_Description s),
       vx_SourceInterface := (if vxr_SourceInterface r = [] then vx_SourceInterface s else vxr_SourceInterface r),
       vx_UdpPort := set_pos (vxr_UdpPort r) (vx_UdpPort s),
       vx_VlanVniMap := set_list (vxr_VlanVni r) (vx_VlanVniMap s),
       vx_VrfVniMap := set_list (vxr_VrfVni r) (vx_VrfVniMap s),
       vx_FloodVteps := set_list (vxr_FloodVteps r) (vx_FloodVteps s)\<rparr>"

text \<open>
  The three slices of the state are refilled in place, so the request's inputs, which share
  their arrays, change too; the capacities of the three arrays are a parameter.
\<close>

type_synonym caps = "nat \<times> nat \<times> nat"

definition shared_inputs :: "caps \<Rightarrow> vxlanInterfaceRow \<Rightarrow> VxlanInterfaceArgs \<Rightarrow> VxlanInterfaceArgs" where
  "shared_inputs caps r a =
     (case caps of (c1, c2, c3) \<Rightarrow>
        a\<lparr>vx_VlanVniMap := shared_write c1 (vx_VlanVniMap a) (vxr_VlanVni r),
          vx_VrfVniMap := shared_write c2 (vx_VrfVniMap a) (vxr_VrfVni r),
          vx_FloodVteps := shared_write c3 (vx_FloodVteps a) (vxr_FloodVteps r)\<rparr>)"

definition VxlanInterface_Create ::
  "('n, 'w) ctx \<Rightarrow> VxlanInterfaceArgs request \<Rightarrow> 'w \<Rightarrow> VxlanInterfaceState created res \<times> 'w" where
  "VxlanInterface_Create C =
     crud_create validateVxlanInterface (\<lambda>a. vxlanInterfaceID (vx_Id a)) (applyVxlanInterface C)
       (\<lambda>a. ''create vxlan-interface '' @ Itoa (vx_Id a))"

definition VxlanInterface_Read ::
  "('n, 'w) ctx \<Rightarrow> caps \<Rightarrow> VxlanInterfaceArgs \<Rightarrow> 'w \<Rightarrow>
   (VxlanInterfaceArgs, VxlanInterfaceState) read_response option res \<times> 'w" where
  "VxlanInterface_Read C caps =
     crud_read_shared (newClient C) (\<lambda>cli a. readVxlanInterface C cli (vx_Id a))
       (\<lambda>a. vxlanInterfaceID (vx_Id a)) (\<lambda>row a. (shared_inputs caps row a, fillVxlanInterface row a))"

definition VxlanInterface_Update ::
  "('n, 'w) ctx \<Rightarrow> VxlanInterfaceArgs request \<Rightarrow> 'w \<Rightarrow> VxlanInterfaceState res \<times> 'w" where
  "VxlanInterface_Update C =
     crud_update validateVxlanInterface (applyVxlanInterface C)
       (\<lambda>a. ''update vxlan-interface '' @ Itoa (vx_Id a))"

definition VxlanInterface_Delete :: "('n, 'w) ctx \<Rightarrow> VxlanInterfaceState \<Rightarrow> 'w \<Rightarrow> unit res \<times> 'w" where
  "VxlanInterface_Delete C =
     crud_delete (applyVxlanInterface C) (\<lambda>a. ''delete vxlan-interface '' @ Itoa (vx_Id a))"

interpretation vxlan_mgr: session_managed C validateVxlanInterface "\<lambda>a. vxlanInterfaceID (vx_Id a)"
  "applyVxlanInterface C" "\<lambda>a. ''vxlan-'' @ Itoa (vx_Id a)" buildVxlanInterfaceCmds
  by unfold_locales (simp add: applyVxlanInterface_def)

section \<open>What validation guarantees\<close>

lemma validateVni_None [simp]: "validateVni v = None \<longleftrightarrow> 1 \<le> v \<and> v \<le> 16777214"
  by (auto simp: validateVni_def VniMin_def VniMax_def)

definition valid_vlan_vni :: "VlanVniEntry \<Rightarrow> bool" where
  "valid_vlan_vni e \<longleftrightarrow> 1 \<le> vv_VlanId e \<and> vv_VlanId e \<le> 4094 \<and> 1 \<le> vv_Vni e \<and> vv_Vni e \<le> 16777214"

definition valid_vrf_vni :: "VrfVniEntry \<Rightarrow> bool" where
  "valid_vrf_vni e \<longleftrightarrow> TrimSpace (fv_Vrf e) \<noteq> [] \<and> 1 \<le> fv_Vni e \<and> fv_Vni e \<le> 16777214"

lemma check_vlans_None:
  "check_vlans seen es = None \<longleftrightarrow>
     (\<forall>e\<in>set es. valid_vlan_vni e) \<and> distinct (map vv_VlanId es) \<and> set seen \<inter> vv_VlanId ` set es = {}"
proof (induction es arbitrary: seen)
  case (Cons e es)
  have "check_vlans seen (e # es) = None \<longleftrightarrow>
      valid_vlan_vni e \<and> vv_VlanId e \<notin> set seen \<and> check_vlans (vv_VlanId e # seen) es = None"
    by (auto simp: valid_vlan_vni_def validateVlanID_def validateVni_def VniMin_def VniMax_def)
  then show ?case unfolding Cons.IH by auto
qed simp

lemma check_vrfs_None:
  "check_vrfs seen es = None \<longleftrightarrow>
     (\<forall>e\<in>set es. valid_vrf_vni e) \<and> distinct (map fv_Vrf es) \<and> set seen \<inter> fv_Vrf ` set es = {}"
proof (induction es arbitrary: seen)
  case (Cons e es)
  have "check_vrfs seen (e # es) = None \<longleftrightarrow>
      valid_vrf_vni e \<and> fv_Vrf e \<notin> set seen \<and> check_vrfs (fv_Vrf e # seen) es = None"
    by (auto simp: valid_vrf_vni_def validateVni_def VniMin_def VniMax_def)
  then show ?case unfolding Cons.IH by auto
qed simp

lemma check_vteps_None: "check_vteps vs = None \<longleftrightarrow> (\<forall>v\<in>set vs. ParseIP v \<noteq> None)"
  by (induction vs) auto

lemma validateVxlanInterface_None:
  "validateVxlanInterface a = None \<longleftrightarrow>
     1 \<le> vx_Id a \<and> TrimSpace (vx_SourceInterface a) \<noteq> []
     \<and> pred_option (\<lambda>p. 1 \<le> p \<and> p \<le> 65535) (vx_UdpPort a)
     \<and> (\<forall>e\<in>set (vx_VlanVniMap a). valid_vlan_vni e) \<and> distinct (map vv_VlanId (vx_VlanVniMap a))
     \<and> (\<forall>e\<in>set (vx_VrfVniMap a). valid_vrf_vni e) \<and> distinct (map fv_Vrf (vx_VrfVniMap a))
     \<and> (\<forall>v\<in>set (vx_FloodVteps a). ParseIP v \<noteq> None)"
proof -
  have "opt_err validate_udp p = None \<longleftrightarrow> pred_option (\<lambda>p. 1 \<le> p \<and> p \<le> 65535) p" for p
    by (cases p) (auto simp: opt_err_def validate_udp_def)
  then show ?thesis
    unfolding validateVxlanInterface_def check_chain check_vlans_None check_vrfs_None check_vteps_None
    by (auto simp: not_less)
qed

section \<open>Reading back a rendered interface\<close>

definition vxlan_idle :: "string \<Rightarrow> bool" where
  "vxlan_idle l \<longleftrightarrow> l \<in> {[], ''!'', ''no shutdown''}"

interpretation vxlan_scan: line_scanner vxlan_line vxlan_idle
proof (unfold_locales, goal_cases)
  case (1 l r)
  then show ?case unfolding vxlan_idle_def by (elim insertE emptyE) (simp_all add: vxlan_line_def)
next
  case (2 l)
  then show ?case by (auto simp: vxlan_idle_def noise_def)
qed

lemma vxlan_words: "word_string ''vxlan''" "word_string ''vlan''" "word_string ''vrf''" "word_string ''vni''"
  by (simp_all add: word_string_def space_byte_def ascii_space_def)

lemma Fields_vlan_vni:
  "Fields (vlan_vni_cmd e) = [''vxlan'', ''vlan'', Itoa (vv_VlanId e), ''vni'', Itoa (vv_Vni e)]"
proof -
  have "vlan_vni_cmd e = Join [''vxlan'', ''vlan'', Itoa (vv_VlanId e), ''vni'', Itoa (vv_Vni e)] '' ''"
    by (simp add: vlan_vni_cmd_def)
  then show ?thesis by (simp only:) (rule Fields_Join, auto simp: vxlan_words)
qed

lemma Fields_vrf_vni:
  "word_string (fv_Vrf e) \<Longrightarrow> Fields (vrf_vni_cmd e) = [''vxlan'', ''vrf'', fv_Vrf e, ''vni'', Itoa (fv_Vni e)]"
proof -
  assume w: "word_string (fv_Vrf e)"
  have "vrf_vni_cmd e = Join [''vxlan'', ''vrf'', fv_Vrf e, ''vni'', Itoa (fv_Vni e)] '' ''"
    by (simp add: vrf_vni_cmd_def)
  then show ?thesis by (simp only:) (rule Fields_Join, use w in \<open>auto simp: vxlan_words\<close>)
qed

lemma vxlan_line_kinds:
  "vxlan_line (''interface Vxlan'' @ n) r = r"
  "vxlan_line (vlan_vni_cmd e) r = parseVxlanVlanLine (vlan_vni_cmd e) r"
  "vxlan_line (vrf_vni_cmd f) r = parseVxlanVrfLine (vrf_vni_cmd f) r"
  by (simp_all add: vxlan_line_def vlan_vni_cmd_def vrf_vni_cmd_def)

interpretation vx_description: attribute vxlan_line "\<lambda>d. ''description '' @ d" "\<lambda>_. True"
  vxr_Description "\<lambda>d r. r\<lparr>vxr_Description := d\<rparr>"
  by unfold_locales (simp_all add: vxlan_line_def)

interpretation vx_source: attribute vxlan_line "\<lambda>d. ''vxlan source-interface '' @ d" "\<lambda>_. True"
  vxr_SourceInterface "\<lambda>d r. r\<lparr>vxr_SourceInterface := d\<rparr>"
  by unfold_locales (simp_all add: vxlan_line_def)

interpretation vx_udp: attribute vxlan_line "\<lambda>m. ''vxlan udp-port '' @ Itoa m" int64
  vxr_UdpPort "\<lambda>m r. r\<lparr>vxr_UdpPort := m\<rparr>"
  by unfold_locales (simp_all add: vxlan_line_def)

interpretation vx_vlans: listing vxlan_line vlan_vni_cmd valid_vlan_vni
  vxr_VlanVni "\<lambda>es r. r\<lparr>vxr_VlanVni := es\<rparr>"
proof (unfold_locales, goal_cases)
  case (1 e r)
  then have "int64 (vv_VlanId e)" "int64 (vv_Vni e)" by (simp_all add: valid_vlan_vni_def int64_def)
  then show ?case by (simp add: vxlan_line_kinds parseVxlanVlanLine_def Fields_vlan_vni)
qed simp_all

interpretation vx_vrfs: listing vxlan_line vrf_vni_cmd "\<lambda>e. valid_vrf_vni e \<and> word_string (fv_Vrf e)"
  vxr_VrfVni "\<lambda>es r. r\<lparr>vxr_VrfVni := es\<rparr>"
proof (unfold_locales, goal_cases)
  case (1 e r)
  then have "int64 (fv_Vni e)" by (simp add: valid_vrf_vni_def int64_def)
  with 1 show ?case by (simp add: vxlan_line_kinds parseVxlanVrfLine_def Fields_vrf_vni)
qed simp_all

lemma flood_segment:
  assumes "\<forall>v\<in>set vs. ParseIP v \<noteq> None"
  shows "fold vxlan_line (flood_cmds vs) r = r\<lparr>vxr_FloodVteps := vxr_FloodVteps r @ sort vs\<rparr>"
proof -
  have "Fields (Join (sort vs) '' '') = sort vs"
    by (rule Fields_Join) (use assms ParseIP_word in auto)
  then show ?thesis by (simp add: flood_cmds_def vxlan_line_def)
qed

text \<open>Bindings and VTEPs in the device's order, VRF names that are single words.\<close>

definition canonical_vxlan :: "VxlanInterfaceArgs \<Rightarrow> bool" where
  "canonical_vxlan a \<longleftrightarrow>
     sorted (map vv_VlanId (vx_VlanVniMap a)) \<and> sorted (map fv_Vrf (vx_VrfVniMap a))
     \<and> sorted (vx_FloodVteps a) \<and> (\<forall>e\<in>set (vx_VrfVniMap a). word_string (fv_Vrf e))"

lemma vxlan_header:
  "prints vxlan_idle out (buildVxlanInterfaceCmds a False) \<Longrightarrow>
     Contains out (''interface '' @ vxlanInterfaceName (vx_Id a))"
  by (erule prints_Contains) (simp_all add: buildVxlanInterfaceCmds_def vxlan_idle_def)

text \<open>What a reader finds, whatever the order of the arguments: everything, sorted.\<close>

definition shown_vxlan :: "VxlanInterfaceArgs \<Rightarrow> vxlanInterfaceRow" where
  "shown_vxlan a =
     \<lparr>vxr_Description = or_empty (nonempty (vx_Description a)), vxr_SourceInterface = vx_SourceInterface a,
      vxr_UdpPort = or_zero (positive (vx_UdpPort a)),
      vxr_VlanVni = sort_key vv_VlanId (vx_VlanVniMap a), vxr_VrfVni = sort_key fv_Vrf (vx_VrfVniMap a),
      vxr_FloodVteps = sort (vx_FloodVteps a)\<rparr>"

lemma parse_shown_vxlan:
  assumes v: "validateVxlanInterface a = None" and w: "\<forall>e\<in>set (vx_VrfVniMap a). word_string (fv_Vrf e)"
    and p: "prints vxlan_idle out (buildVxlanInterfaceCmds a False)"
  shows "parseVxlanInterfaceConfig out (vx_Id a) = Some (shown_vxlan a)"
proof -
  note v' = v [unfolded validateVxlanInterface_None]
  have udp: "pred_option int64 (positive (vx_UdpPort a))"
    using v' by (intro positive_int64) (auto simp: option.pred_set int64_def)
  have vlans: "\<forall>e\<in>set (sort_key vv_VlanId (vx_VlanVniMap a)). valid_vlan_vni e" using v' by simp
  have vrfs: "\<forall>e\<in>set (sort_key fv_Vrf (vx_VrfVniMap a)). valid_vrf_vni e \<and> word_string (fv_Vrf e)"
    using v' w by simp
  have flood: "\<forall>x\<in>set (vx_FloodVteps a). ParseIP x \<noteq> None" using v' by blast
  have src: "fold vxlan_line [''vxlan source-interface '' @ vx_SourceInterface a] r
      = r\<lparr>vxr_SourceInterface := vx_SourceInterface a\<rparr>" for r
    using vx_source.fold_attr [of "Some (vx_SourceInterface a)" r] by simp
  have hd: "fold vxlan_line [''interface Vxlan'' @ n] r = r" for n r by (simp add: vxlan_line_def)
  have "scan vxlan_line out zero_vxlanInterfaceRow = shown_vxlan a"
    unfolding vxlan_scan.scan_prints [OF p] buildVxlanInterfaceCmds_def if_False fold_append comp_def
      vxlanInterfaceName_def description_cmds_def
  proof -
    have "''interface '' @ ''Vxlan'' @ Itoa (vx_Id a) = ''interface Vxlan'' @ Itoa (vx_Id a)" by simp
    then show "fold vxlan_line (flood_cmds (vx_FloodVteps a))
      (fold vxlan_line (map vrf_vni_cmd (sort_key fv_Vrf (vx_VrfVniMap a)))
       (fold vxlan_line (map vlan_vni_cmd (sort_key vv_VlanId (vx_VlanVniMap a)))
        (fold vxlan_line (line_opt (\<lambda>p. ''vxlan udp-port '' @ Itoa p) (positive (vx_UdpPort a)))
         (fold vxlan_line [''vxlan source-interface '' @ vx_SourceInterface a]
          (fold vxlan_line (line_opt (\<lambda>d. ''description '' @ d) (nonempty (vx_Description a)))
           (fold vxlan_line [''interface '' @ ''Vxlan'' @ Itoa (vx_Id a)] zero_vxlanInterfaceRow)))))) = shown_vxlan a"
      unfolding vx_description.fold_attr [OF any_readable] src vx_udp.fold_attr [OF udp]
        vx_vlans.fold_listing [OF vlans] vx_vrfs.fold_listing [OF vrfs] flood_segment [OF flood]
      by (simp only: hd) (simp add: shown_vxlan_def zero_vxlanInterfaceRow_def)
  qed
  with vxlan_header [OF p] show ?thesis by (simp add: parseVxlanInterfaceConfig_def)
qed

lemma fill_shown_vxlan:
  assumes "canonical_vxlan a" shows "fillVxlanInterface (shown_vxlan a) a = a"
proof -
  have "sort_key vv_VlanId (vx_VlanVniMap a) = vx_VlanVniMap a"
    and "sort_key fv_Vrf (vx_VrfVniMap a) = vx_VrfVniMap a" and "sort (vx_FloodVteps a) = vx_FloodVteps a"
    using assms by (simp_all add: canonical_vxlan_def sort_key_id_if_sorted sorted_sort_id)
  then show ?thesis by (simp add: fillVxlanInterface_def shown_vxlan_def set_list_def)
qed

lemma shared_shown_vxlan:
  assumes "canonical_vxlan a" shows "shared_inputs caps (shown_vxlan a) a = a"
proof -
  have "sort_key vv_VlanId (vx_VlanVniMap a) = vx_VlanVniMap a"
    and "sort_key fv_Vrf (vx_VrfVniMap a) = vx_VrfVniMap a" and "sort (vx_FloodVteps a) = vx_FloodVteps a"
    using assms by (simp_all add: canonical_vxlan_def sort_key_id_if_sorted sorted_sort_id)
  then show ?thesis by (simp add: shared_inputs_def shown_vxlan_def split: prod.split)
qed

interpretation vxlan_rb: readback validateVxlanInterface canonical_vxlan vxlan_idle
  "\<lambda>a. buildVxlanInterfaceCmds a False" "\<lambda>a out. Ok (parseVxlanInterfaceConfig out (vx_Id a))" fillVxlanInterface
proof (unfold_locales, goal_cases)
  case (1 a out)
  then show ?case using parse_shown_vxlan fill_shown_vxlan by (auto simp: canonical_vxlan_def)
next
  case (2 a out)
  then show ?case using vxlan_header Contains_nonempty by blast
qed

section \<open>Orders\<close>

text \<open>Two argument lists with the same bindings render the same commands.\<close>

lemma sort_key_mset_eq:
  "distinct (map f xs) \<Longrightarrow> mset xs = mset ys \<Longrightarrow> sort_key f xs = sort_key f ys"
  by (rule sort_key_inj_key_eq) (simp_all add: distinct_map)

end
