(* ===== verification/Varp.thy ===== *)
theory Varp
  imports Session_Managed Go_Net
begin

text \<open>
  \<open>internal/resources/l2/varp.go\<close>: the global virtual MAC address.  The renderer can fail, so
  the apply function has one more way to abort than the other resources.
\<close>

definition ErrVarpMacRequired :: error where
  [errs]: "ErrVarpMacRequired = Sentinel ''varp macAddress is required''"
definition ErrVarpMacBadFormat :: error where
  [errs]: "ErrVarpMacBadFormat =
     Sentinel ''varp macAddress must be a valid MAC (e.g. 00:1c:73:00:00:01 or 001c.7300.0001)''"
definition ErrVarpMacMulticast :: error where
  [errs]: "ErrVarpMacMulticast =
     Sentinel ''varp macAddress must be unicast (lowest bit of first octet must be 0)''"

text \<open>The error of \<open>net.ParseMAC\<close>.\<close>

definition invalid_mac :: "string \<Rightarrow> error" where
  "invalid_mac s = Foreign (''address '' @ s @ '': invalid MAC address'')"

record VarpArgs = overrides +
  va_MacAddress :: string

type_synonym VarpState = VarpArgs

definition validateVarp :: "VarpArgs \<Rightarrow> error option" where
  "validateVarp args =
     (let t = TrimSpace (va_MacAddress args) in
      if t = [] then Some ErrVarpMacRequired
      else case ParseMAC t of
        None \<Rightarrow> Some (Got ErrVarpMacBadFormat [DStr (va_MacAddress args), DErr (invalid_mac t)])
      | Some mac \<Rightarrow> if odd (hd mac) then Some (Got ErrVarpMacMulticast [DStr (mac_String mac)]) else None)"

definition normalizeMac :: "string \<Rightarrow> string option" where
  "normalizeMac s = map_option mac_String (ParseMAC s)"

definition varpID :: string where "varpID = ''varp''"

definition buildVarpCmds :: "VarpArgs \<Rightarrow> bool \<Rightarrow> error + string list" where
  "buildVarpCmds args remove =
     (let t = TrimSpace (va_MacAddress args) in
      case normalizeMac t of
        None \<Rightarrow> Inl (Got ErrVarpMacBadFormat [DStr (va_MacAddress args), DErr (invalid_mac t)])
      | Some mac \<Rightarrow> Inr [(if remove then ''no ip virtual-router mac-address '' else ''ip virtual-router mac-address '') @ mac])"

text \<open>The session is opened before the commands are rendered; a rendering error aborts it.\<close>

definition applyVarp :: "('n, 'w) ctx \<Rightarrow> VarpArgs \<Rightarrow> bool \<Rightarrow> 'w \<Rightarrow> unit res \<times> 'w" where
  "applyVarp C args remove w =
     (case buildVarpCmds args remove of
        Inr cmds \<Rightarrow> apply_session C args ''varp'' cmds w
      | Inl e \<Rightarrow>
          and_then (newClient C args) (\<lambda>cli w.
            case OpenSession (cx_env C) cli (session_name C ''varp'') w of
              (Ok s, _, w1) \<Rightarrow> (case Abort (cx_env C) s w1 of (r, _, w2) \<Rightarrow> (after_abort e r, w2))
            | (r, _, w1) \<Rightarrow> (map_res (\<lambda>_. ()) r, w1)) w)"

text \<open>The loop returns at the first line with the directive.\<close>

fun first_cut :: "string \<Rightarrow> string list \<Rightarrow> string option" where
  "first_cut p [] = None"
| "first_cut p (l # ls) = (case CutPrefix l p of Some r \<Rightarrow> Some r | None \<Rightarrow> first_cut p ls)"

definition parseVarpConfig :: "string \<Rightarrow> string option" where
  "parseVarpConfig out =
     map_option ToLower (first_cut ''ip virtual-router mac-address '' (trimmed_lines out))"

definition readVarp :: "('n, 'w) ctx \<Rightarrow> 'n client \<Rightarrow> 'w \<Rightarrow> string option res \<times> 'w" where
  "readVarp C cli w =
     (case show_text C cli ''show running-config | include ^ip virtual-router mac-address'' w of
        (r, w') \<Rightarrow> (map_res parseVarpConfig r, w'))"

definition Varp_Create :: "('n, 'w) ctx \<Rightarrow> VarpArgs request \<Rightarrow> 'w \<Rightarrow> VarpState created res \<times> 'w" where
  "Varp_Create C = crud_create validateVarp (\<lambda>_. varpID) (applyVarp C) (\<lambda>_. ''create varp'')"

definition Varp_Read ::
  "('n, 'w) ctx \<Rightarrow> VarpArgs \<Rightarrow> 'w \<Rightarrow> (VarpArgs, VarpState) read_response option res \<times> 'w" where
  "Varp_Read C =
     crud_read (newClient C) (\<lambda>cli a. readVarp C cli) (\<lambda>_. varpID) (\<lambda>mac a. a\<lparr>va_MacAddress := mac\<rparr>)"

definition Varp_Update :: "('n, 'w) ctx \<Rightarrow> VarpArgs request \<Rightarrow> 'w \<Rightarrow> VarpState res \<times> 'w" where
  "Varp_Update C = crud_update validateVarp (applyVarp C) (\<lambda>_. ''update varp'')"

definition Varp_Delete :: "('n, 'w) ctx \<Rightarrow> VarpState \<Rightarrow> 'w \<Rightarrow> unit res \<times> 'w" where
  "Varp_Delete C = crud_delete (applyVarp C) (\<lambda>_. ''delete varp'')"

section \<open>Applying returns\<close>

lemma applyVarp_returns: "returns (fst (applyVarp C a rm w))"
proof (cases "buildVarpCmds a rm")
  case (Inr cmds)
  then show ?thesis by (simp add: applyVarp_def apply_session_returns)
next
  case (Inl e)
  show ?thesis
  proof (cases "newClient C a")
    case (Ok cli)
    then have free: "slot_free cli" using newClient_Ok by blast
    obtain ro c1 w1 where o: "OpenSession (cx_env C) cli (session_name C ''varp'') w = (ro, c1, w1)"
      by (metis prod.exhaust)
    have ret: "returns ro" using OpenSession_returns [OF free, of "cx_env C" "session_name C ''varp''" w] o by simp
    show ?thesis
    proof (cases ro)
      case (Ok s)
      with o have "s_open s" by (auto dest: OpenSession_live)
      moreover obtain ra sa wa where ab: "Abort (cx_env C) s w1 = (ra, sa, wa)" by (metis prod.exhaust)
      ultimately have "returns ra" using Abort_closes [of s "cx_env C" w1 ra sa wa] by simp
      with Ok o ab Inl \<open>newClient C a = Ok cli\<close> show ?thesis by (simp add: applyVarp_def)
    qed (use ret o Inl Ok in \<open>simp_all add: applyVarp_def\<close>)
  next
    case (Err e)
    with Inl show ?thesis by (simp add: applyVarp_def)
  qed (use newClient_returns [of C a] in simp_all)
qed

interpretation varp_mgr: managed validateVarp "\<lambda>_. varpID" "applyVarp C"
  by unfold_locales (rule applyVarp_returns)

text \<open>A rendering error opens and aborts a session, which changes nothing on the device.\<close>

definition varp_cmds :: "VarpArgs \<Rightarrow> bool \<Rightarrow> string list" where
  "varp_cmds a rm = (case buildVarpCmds a rm of Inr cmds \<Rightarrow> cmds | Inl _ \<Rightarrow> [])"

lemma after_abort_fails [simp]: "\<not> is_Ok (after_abort e r)"
  by (cases r) simp_all

lemma applyVarp_device:
  assumes h: "\<forall>n. honours_sessions (cx_env C) n (session_name C ''varp'') running pending merge"
  shows "changed_by running pending merge (varp_cmds a rm) (is_Ok (fst (applyVarp C a rm w))) w (snd (applyVarp C a rm w))"
proof (cases "buildVarpCmds a rm")
  case (Inr cmds)
  then show ?thesis using apply_session_device [OF h] by (simp add: applyVarp_def varp_cmds_def)
next
  case (Inl e)
  show ?thesis
  proof (cases "newClient C a")
    case (Ok cli)
    then obtain n where node: "cl_node cli = Some n" using newClient_Ok by blast
    obtain ro c1 w1 where o: "OpenSession (cx_env C) cli (session_name C ''varp'') w = (ro, c1, w1)"
      by (metis prod.exhaust)
    note kept = OpenSession_device [OF h [rule_format] o node]
    show ?thesis
    proof (cases ro)
      case (Ok s)
      obtain ra sa wa where ab: "Abort (cx_env C) s w1 = (ra, sa, wa)" by (metis prod.exhaust)
      from o Ok have "s_name s = session_name C ''varp''" "cl_node (s_parent s) = Some n"
        using OpenSession_session node by (fastforce dest: OpenSession_session)+
      then have "running wa = running w1" using Abort_device [OF _ ab] h by metis
      with kept Inl Ok o ab \<open>newClient C a = Ok cli\<close> show ?thesis
        by (simp add: applyVarp_def changed_by_def)
    qed (use Inl kept o \<open>newClient C a = Ok cli\<close> in \<open>simp_all add: applyVarp_def changed_by_def\<close>)
  qed (use Inl in \<open>simp_all add: applyVarp_def\<close>)
qed

lemmas varp_handlers_device = crud_changed [where app = "applyVarp C" for C, OF applyVarp_device]

section \<open>Normal form of the address\<close>

lemma ParseMAC_nonempty: "ParseMAC s = Some bs \<Longrightarrow> bs \<noteq> []"
  using ParseMAC_bytes by fastforce

lemma normalizeMac_idem: "normalizeMac s = Some t \<Longrightarrow> normalizeMac t = Some t"
  using ParseMAC_bytes ParseMAC_String by (auto simp: normalizeMac_def)

lemma validateVarp_None:
  "validateVarp a = None \<longleftrightarrow> (\<exists>bs. ParseMAC (TrimSpace (va_MacAddress a)) = Some bs \<and> even (hd bs))"
  by (auto simp: validateVarp_def Let_def ParseMAC_def split: option.splits)

text \<open>A validated address always renders, so applying it runs the session pattern.\<close>

lemma valid_varp_renders:
  "validateVarp a = None \<Longrightarrow> \<exists>mac. normalizeMac (TrimSpace (va_MacAddress a)) = Some mac
     \<and> buildVarpCmds a False = Inr [''ip virtual-router mac-address '' @ mac]"
  by (auto simp: validateVarp_None buildVarpCmds_def normalizeMac_def)

section \<open>Reading the address back\<close>

definition plain_lower :: "char \<Rightarrow> bool" where
  "plain_lower c \<longleftrightarrow> lower_char c = c \<and> c \<noteq> CHR 0xC4 \<and> c \<noteq> CHR 0xE2"

lemma ToLower_Cons: "plain_lower a \<Longrightarrow> ToLower (a # s) = a # ToLower s"
  by (cases s rule: remdups_adj.cases) (simp_all add: plain_lower_def)

lemma ToLower_plain: "\<forall>c\<in>set s. plain_lower c \<Longrightarrow> ToLower s = s"
  by (induction s) (simp_all add: ToLower_Cons del: ToLower.simps(2))

lemma plain_lower_mac: "\<forall>c\<in>insert (CHR '':'') (set lower_hex). plain_lower c"
  by code_simp

lemma mac_String_chars:
  "\<forall>b\<in>set bs. b < 256 \<Longrightarrow> set (mac_String bs) \<subseteq> insert (CHR '':'') (set lower_hex)"
proof -
  assume b: "\<forall>b\<in>set bs. b < 256"
  have "set (hex_byte n) \<subseteq> set lower_hex" if "n < 256" for n
  proof -
    from that have "n div 16 < 16" "n mod 16 < 16" by simp_all
    then show ?thesis by (auto simp: hex_byte_def)
  qed
  with b have "(\<Union>b\<in>set bs. set (hex_byte b)) \<subseteq> set lower_hex" by blast
  moreover have "set (mac_String bs) \<subseteq> insert (CHR '':'') (\<Union>b\<in>set bs. set (hex_byte b))"
    using set_Join [of "map hex_byte bs" "'':''"] by (auto simp: mac_String_def)
  ultimately show ?thesis by blast
qed

lemma ToLower_mac [simp]: "\<forall>b\<in>set bs. b < 256 \<Longrightarrow> ToLower (mac_String bs) = mac_String bs"
  using mac_String_chars plain_lower_mac by (intro ToLower_plain) blast

text \<open>
  What is written is read back in normal form, whatever form the address was given in.
\<close>

lemma first_cut_significant:
  "(\<And>l. noise l \<Longrightarrow> CutPrefix l p = None) \<Longrightarrow> first_cut p (significant noise ls) = first_cut p ls"
  by (induction ls) (auto simp: significant_def split: option.split)

lemma parseVarp_written:
  assumes "validateVarp a = None" and "buildVarpCmds a False = Inr cmds" and "prints noise out cmds"
  shows "parseVarpConfig out = normalizeMac (TrimSpace (va_MacAddress a))"
proof -
  from assms(1) obtain bs where bs: "ParseMAC (TrimSpace (va_MacAddress a)) = Some bs"
    by (auto simp: validateVarp_None)
  with assms(2) have cmds: "cmds = [''ip virtual-router mac-address '' @ mac_String bs]"
    by (auto simp: buildVarpCmds_def normalizeMac_def Let_def)
  have none: "CutPrefix l ''ip virtual-router mac-address '' = None" if "noise l" for l
    using that by (auto simp: noise_def)
  have "first_cut ''ip virtual-router mac-address '' (trimmed_lines out)
      = first_cut ''ip virtual-router mac-address '' (significant noise (trimmed_lines out))"
    using first_cut_significant [OF none] by metis
  also have "\<dots> = first_cut ''ip virtual-router mac-address '' cmds"
    using assms(3) first_cut_significant [OF none] unfolding prints_def by metis
  also have "\<dots> = Some (mac_String bs)" by (simp add: cmds)
  finally show ?thesis using ParseMAC_bytes [OF bs] bs by (simp add: parseVarpConfig_def normalizeMac_def)
qed

end
