(* ===== verification/Mac_Address_Table.thy ===== *)
theory Mac_Address_Table
  imports Resource
begin

text \<open>
  \<open>internal/resources/l2/mac_address_table.go\<close>: a read-only function that returns the unicast
  MAC address table, filtered by VLAN and entry type.
\<close>

definition ErrMacAddressTableInvalidEntryType :: error where
  [errs]: "ErrMacAddressTableInvalidEntryType =
     Sentinel ''entryType must be one of: dynamic, static, all''"

record MacAddressTableArgs = overrides +
  mt_Vlan :: "int option"
  mt_EntryType :: "string option"

text \<open>\<open>LastMove\<close> is a float64; the others are converted by \<open>int(v)\<close>, which drops the fraction.\<close>

record MacAddressEntry =
  me_Vlan :: int
  me_Mac :: string
  me_EntryType :: string
  me_Interface :: string
  me_Moves :: int
  me_LastMove :: rat

record MacAddressTableResult =
  mr_Entries :: "MacAddressEntry list"
  mr_Count :: nat

definition validateMacEntryType :: "string option \<Rightarrow> error option" where
  "validateMacEntryType t =
     (case t of
        None \<Rightarrow> None
      | Some v \<Rightarrow>
          if ToLower v \<in> {''dynamic'', ''static'', ''all''} then None
          else Some (Got ErrMacAddressTableInvalidEntryType [DStr v]))"

definition truncate_num :: "rat \<Rightarrow> int" where
  "truncate_num v = (if 0 \<le> v then \<lfloor>v\<rfloor> else - \<lfloor>- v\<rfloor>)"

definition macEntryFromRow :: "row \<Rightarrow> MacAddressEntry" where
  "macEntryFromRow row =
     \<lparr>me_Vlan = truncate_num (opt_or 0 (get_num row ''vlanId'')),
      me_Mac = ToLower (or_empty (get_str row ''macAddress'')),
      me_EntryType = ToLower (or_empty (get_str row ''entryType'')),
      me_Interface = or_empty (get_str row ''interface''),
      me_Moves = truncate_num (opt_or 0 (get_num row ''moves'')),
      me_LastMove = opt_or 0 (get_num row ''lastMove'')\<rparr>"

definition wantType :: "string option \<Rightarrow> string" where
  "wantType t = (case t of None \<Rightarrow> ''all'' | Some v \<Rightarrow> ToLower v)"

text \<open>One step of the loop: elements that are no objects and rows that do not match are skipped.\<close>

definition keep_entry :: "int option \<Rightarrow> string option \<Rightarrow> json \<Rightarrow> MacAddressEntry option" where
  "keep_entry vlan entryType raw =
     (case raw of
        JObj row \<Rightarrow>
          (let e = macEntryFromRow row in
           if (\<exists>v. vlan = Some v \<and> me_Vlan e \<noteq> v) then None
           else if wantType entryType \<noteq> ''all'' \<and> me_EntryType e \<noteq> wantType entryType then None
           else Some e)
      | _ \<Rightarrow> None)"

definition parseMacTable :: "row list \<Rightarrow> int option \<Rightarrow> string option \<Rightarrow> MacAddressEntry list" where
  "parseMacTable resp vlan entryType =
     (case resp of
        [] \<Rightarrow> []
      | r # _ \<Rightarrow>
          (case get_obj r ''unicastTable'' of
             None \<Rightarrow> []
           | Some uni \<Rightarrow>
               (case get_arr uni ''tableEntries'' of
                  None \<Rightarrow> []
                | Some rows \<Rightarrow> List.map_filter (keep_entry vlan entryType) rows)))"

definition MacAddressTable_Invoke ::
  "('n, 'w) ctx \<Rightarrow> MacAddressTableArgs \<Rightarrow> 'w \<Rightarrow> MacAddressTableResult res \<times> 'w" where
  "MacAddressTable_Invoke C args w =
     (case validateMacEntryType (mt_EntryType args) of
        Some e \<Rightarrow> (Err e, w)
      | None \<Rightarrow>
          and_then (newClient C args) (\<lambda>cli w.
            case RunCmds (cx_env C) cli [''show mac address-table''] ''json'' w of
              (r, w') \<Rightarrow>
                (map_res (\<lambda>resp. let es = parseMacTable resp (mt_Vlan args) (mt_EntryType args)
                                 in \<lparr>mr_Entries = es, mr_Count = length es\<rparr>)
                   (errorf ''show mac address-table'' r), w')) w)"

section \<open>The filter\<close>

text \<open>The rows of a well-formed response.\<close>

definition json_row :: "json \<Rightarrow> row option" where
  "json_row j = (case j of JObj row \<Rightarrow> Some row | _ \<Rightarrow> None)"

definition table_rows :: "row list \<Rightarrow> row list" where
  "table_rows resp =
     (case resp of
        [] \<Rightarrow> []
      | r # _ \<Rightarrow>
          (case Option.bind (get_obj r ''unicastTable'') (\<lambda>u. get_arr u ''tableEntries'') of
             None \<Rightarrow> []
           | Some js \<Rightarrow> List.map_filter json_row js))"

definition matches :: "int option \<Rightarrow> string option \<Rightarrow> MacAddressEntry \<Rightarrow> bool" where
  "matches vlan entryType e \<longleftrightarrow>
     (vlan = None \<or> vlan = Some (me_Vlan e)) \<and> (wantType entryType = ''all'' \<or> me_EntryType e = wantType entryType)"

lemma keep_entry_matches:
  "keep_entry vlan t (JObj row) =
     (if matches vlan t (macEntryFromRow row) then Some (macEntryFromRow row) else None)"
  unfolding keep_entry_def matches_def Let_def by (cases vlan) auto

lemma map_filter_keep:
  "List.map_filter (keep_entry vlan t) js =
     filter (matches vlan t) (map macEntryFromRow (List.map_filter json_row js))"
proof (induction js)
  case (Cons j js)
  have "keep_entry vlan t j = None" if "json_row j = None"
    using that by (cases j) (simp_all add: keep_entry_def json_row_def)
  moreover have "j = JObj row" if "json_row j = Some row" for row
    using that by (cases j) (simp_all add: json_row_def)
  ultimately show ?case
    using Cons by (cases "json_row j") (simp_all add: List.map_filter_simps keep_entry_matches)
qed (simp add: List.map_filter_simps)

lemma parseMacTable_filter:
  "parseMacTable resp vlan t = filter (matches vlan t) (map macEntryFromRow (table_rows resp))"
  by (auto simp: parseMacTable_def table_rows_def map_filter_keep split: list.split option.split)

end
