(* ===== verification/Stp.thy ===== *)
theory Stp
  imports Session_Managed "HOL-Library.Multiset"
begin

text \<open>
  \<open>internal/resources/l2/stp.go\<close>: the global spanning-tree block.  Its reader keeps one bit
  of parser state: whether the lines belong to the MST sub-block.
\<close>

definition StpModeMstp :: string where "StpModeMstp = ''mstp''"
definition StpModeRstp :: string where "StpModeRstp = ''rstp''"
definition StpModeRapidPvst :: string where "StpModeRapidPvst = ''rapid-pvst''"
definition StpModeNone :: string where "StpModeNone = ''none''"

definition MstInstanceMin :: int where "MstInstanceMin = 1"
definition MstInstanceMax :: int where "MstInstanceMax = 4094"
definition MstRevisionMin :: int where "MstRevisionMin = 0"
definition MstRevisionMax :: int where "MstRevisionMax = 65535"

definition ErrStpModeInvalid :: error where
  [errs]: "ErrStpModeInvalid = Sentinel ''stp mode must be mstp, rstp, rapid-pvst, or none''"
definition ErrStpMstInstanceRange :: error where
  [errs]: "ErrStpMstInstanceRange = Sentinel ''mst instance id must be 1..4094''"
definition ErrStpMstInstanceVlanEmpty :: error where
  [errs]: "ErrStpMstInstanceVlanEmpty = Sentinel ''mst instance vlanRange is required''"
definition ErrStpMstInstanceDup :: error where
  [errs]: "ErrStpMstInstanceDup = Sentinel ''mst configuration contains duplicate instance id''"
definition ErrStpMstRevisionRange :: error where
  [errs]: "ErrStpMstRevisionRange = Sentinel ''mst revision must be 0..65535''"

record MstInstance =
  mi_Id :: int
  mi_VlanRange :: string

record MstConfiguration =
  mc_Name :: "string option"
  mc_Revision :: "int option"
  mc_Instances :: "MstInstance list"

record StpArgs = overrides +
  st_Mode :: "string option"
  st_EdgePortBpduGuardDefault :: "bool option"
  st_Mst :: "MstConfiguration option"

type_synonym StpState = StpArgs

definition stp_mode :: "string \<Rightarrow> error option" where
  "stp_mode m =
     (if m \<in> {[], StpModeMstp, StpModeRstp, StpModeRapidPvst, StpModeNone} then None
      else Some (Got ErrStpModeInvalid [DStr m]))"

definition mst_revision :: "int \<Rightarrow> error option" where
  "mst_revision r =
     (if r < MstRevisionMin \<or> r > MstRevisionMax then Some (Got ErrStpMstRevisionRange [DInt r]) else None)"

fun mst_instances :: "int list \<Rightarrow> MstInstance list \<Rightarrow> error option" where
  "mst_instances seen [] = None"
| "mst_instances seen (e # es) =
     (if mi_Id e < MstInstanceMin \<or> mi_Id e > MstInstanceMax then Some (Got ErrStpMstInstanceRange [DInt (mi_Id e)])
      else if TrimSpace (mi_VlanRange e) = [] then Some (Got ErrStpMstInstanceVlanEmpty [DInt (mi_Id e)])
      else if mi_Id e \<in> set seen then Some (Got ErrStpMstInstanceDup [DInt (mi_Id e)])
      else mst_instances (mi_Id e # seen) es)"

definition validateMstConfiguration :: "MstConfiguration \<Rightarrow> error option" where
  "validateMstConfiguration m =
     first_error [opt_err mst_revision (mc_Revision m), mst_instances [] (mc_Instances m)]"

definition validateStp :: "StpArgs \<Rightarrow> error option" where
  "validateStp a = first_error [opt_err stp_mode (st_Mode a), opt_err validateMstConfiguration (st_Mst a)]"

definition stpID :: string where "stpID = ''stp''"

definition mst_instance_cmd :: "MstInstance \<Rightarrow> string" where
  "mst_instance_cmd e = ''instance '' @ Itoa (mi_Id e) @ '' vlan '' @ mi_VlanRange e"

definition mst_cmds :: "MstConfiguration \<Rightarrow> string list" where
  "mst_cmds m =
     [''no spanning-tree mst configuration'', ''spanning-tree mst configuration'']
     @ line_opt (\<lambda>n. ''name '' @ n) (nonempty (mc_Name m))
     @ line_opt (\<lambda>r. ''revision '' @ Itoa r) (mc_Revision m)
     @ map mst_instance_cmd (sort_key mi_Id (mc_Instances m))
     @ [''exit'']"

definition buildStpCmds :: "StpArgs \<Rightarrow> bool \<Rightarrow> string list" where
  "buildStpCmds a reset =
     (if reset then [''default spanning-tree mode'', ''no spanning-tree edge-port bpduguard default'',
                     ''no spanning-tree mst configuration'']
      else line_opt (\<lambda>m. ''spanning-tree mode '' @ m) (nonempty (st_Mode a))
           @ line_bool ''spanning-tree edge-port bpduguard default''
               ''no spanning-tree edge-port bpduguard default'' (st_EdgePortBpduGuardDefault a)
           @ (case st_Mst a of Some m \<Rightarrow> mst_cmds m | None \<Rightarrow> []))"

definition applyStp :: "('n, 'w) ctx \<Rightarrow> StpArgs \<Rightarrow> bool \<Rightarrow> 'w \<Rightarrow> unit res \<times> 'w" where
  "applyStp C a reset w = apply_session C a ''stp'' (buildStpCmds a reset) w"

text \<open>The row, the MST block collected so far and the parser's \<open>inMst\<close>.\<close>

record stpRow =
  str_Mode :: string
  str_EdgePortBpduGuardDefault :: "bool option"
  str_Mst :: MstConfiguration
  str_hasMst :: bool
  str_inMst :: bool

definition no_mst :: MstConfiguration where
  "no_mst = \<lparr>mc_Name = None, mc_Revision = None, mc_Instances = []\<rparr>"

definition zero_stpRow :: stpRow where
  "zero_stpRow = \<lparr>str_Mode = [], str_EdgePortBpduGuardDefault = None, str_Mst = no_mst,
     str_hasMst = False, str_inMst = False\<rparr>"

definition parseStpMstLine :: "string \<Rightarrow> MstConfiguration \<Rightarrow> MstConfiguration" where
  "parseStpMstLine line m =
     (if HasPrefix line ''name '' then m\<lparr>mc_Name := Some (TrimPrefix line ''name '')\<rparr>
      else if HasPrefix line ''revision '' then
        (case Atoi (TrimPrefix line ''revision '') of Some v \<Rightarrow> m\<lparr>mc_Revision := Some v\<rparr> | None \<Rightarrow> m)
      else if HasPrefix line ''instance '' then
        (case Fields line of
           p0 # p1 # p2 # p3 # ps \<Rightarrow>
             if p2 = ''vlan'' then
               (case Atoi p1 of
                  Some i \<Rightarrow> m\<lparr>mc_Instances := mc_Instances m @ [\<lparr>mi_Id = i, mi_VlanRange = Join (p3 # ps) '' ''\<rparr>]\<rparr>
                | None \<Rightarrow> m)
             else m
         | _ \<Rightarrow> m)
      else m)"

definition stp_line :: "string \<Rightarrow> stpRow \<Rightarrow> stpRow" where
  "stp_line line r =
     (if line = ''spanning-tree mst configuration'' then r\<lparr>str_inMst := True, str_hasMst := True\<rparr>
      else if line = ''exit'' then r\<lparr>str_inMst := False\<rparr>
      else if str_inMst r then r\<lparr>str_Mst := parseStpMstLine line (str_Mst r)\<rparr>
      else if HasPrefix line ''spanning-tree mode '' then
        r\<lparr>str_Mode := TrimPrefix line ''spanning-tree mode ''\<rparr>
      else if line = ''spanning-tree edge-port bpduguard default'' then
        r\<lparr>str_EdgePortBpduGuardDefault := Some True\<rparr>
      else if line = ''no spanning-tree edge-port bpduguard default'' then
        r\<lparr>str_EdgePortBpduGuardDefault := Some False\<rparr>
      else r)"

definition parseStpConfig :: "string \<Rightarrow> stpRow option" where
  "parseStpConfig out =
     (if \<not> Contains out ''spanning-tree'' then None else Some (scan stp_line out zero_stpRow))"

definition readStp :: "('n, 'w) ctx \<Rightarrow> 'n client \<Rightarrow> 'w \<Rightarrow> stpRow option res \<times> 'w" where
  "readStp C cli =
     read_text C cli ''show running-config | section spanning-tree'' (\<lambda>out. Ok (parseStpConfig out))"

text \<open>The MST block replaces the old one when the device shows one.\<close>

definition fillStp :: "stpRow \<Rightarrow> StpState \<Rightarrow> StpState" where
  "fillStp r s =
     s\<lparr>st_Mode := set_str (str_Mode r) (st_Mode s),
       st_EdgePortBpduGuardDefault :=
         (case str_EdgePortBpduGuardDefault r of Some b \<Rightarrow> Some b | None \<Rightarrow> st_EdgePortBpduGuardDefault s),
       st_Mst := (if str_hasMst r then Some (str_Mst r) else st_Mst s)\<rparr>"

definition Stp_Create :: "('n, 'w) ctx \<Rightarrow> StpArgs request \<Rightarrow> 'w \<Rightarrow> StpState created res \<times> 'w" where
  "Stp_Create C = crud_create validateStp (\<lambda>_. stpID) (applyStp C) (\<lambda>_. ''create stp'')"

definition Stp_Read ::
  "('n, 'w) ctx \<Rightarrow> StpArgs \<Rightarrow> 'w \<Rightarrow> (StpArgs, StpState) read_response option res \<times> 'w" where
  "Stp_Read C = crud_read (newClient C) (\<lambda>cli a. readStp C cli) (\<lambda>_. stpID) fillStp"

definition Stp_Update :: "('n, 'w) ctx \<Rightarrow> StpArgs request \<Rightarrow> 'w \<Rightarrow> StpState res \<times> 'w" where
  "Stp_Update C = crud_update validateStp (applyStp C) (\<lambda>_. ''update stp'')"

definition Stp_Delete :: "('n, 'w) ctx \<Rightarrow> StpState \<Rightarrow> 'w \<Rightarrow> unit res \<times> 'w" where
  "Stp_Delete C = crud_delete (applyStp C) (\<lambda>_. ''delete stp'')"

interpretation stp_mgr: session_managed C validateStp "\<lambda>_. stpID"
  "applyStp C" "\<lambda>_. ''stp''" buildStpCmds
  by unfold_locales (simp add: applyStp_def)

section \<open>Reading back a rendered block\<close>

text \<open>
  The device prints neither the negations nor the \<open>exit\<close> of the rendered commands; the rest
  is \<open>shown_stp\<close>.
\<close>

definition shown_mst_cmds :: "MstConfiguration \<Rightarrow> string list" where
  "shown_mst_cmds m =
     [''spanning-tree mst configuration'']
     @ line_opt (\<lambda>n. ''name '' @ n) (nonempty (mc_Name m))
     @ line_opt (\<lambda>r. ''revision '' @ Itoa r) (mc_Revision m)
     @ map mst_instance_cmd (sort_key mi_Id (mc_Instances m))"

definition shown_stp :: "StpArgs \<Rightarrow> string list" where
  "shown_stp a =
     line_opt (\<lambda>m. ''spanning-tree mode '' @ m) (nonempty (st_Mode a))
     @ line_if ''spanning-tree edge-port bpduguard default'' (st_EdgePortBpduGuardDefault a = Some True)
     @ (case st_Mst a of Some m \<Rightarrow> shown_mst_cmds m | None \<Rightarrow> [])"

lemma filter_line_opt: "(\<And>v. P (f v)) \<Longrightarrow> filter P (line_opt f p) = line_opt f p"
  by (cases p) simp_all

lemma shown_stp_rendered:
  "shown_stp a = filter (\<lambda>l. l \<noteq> ''exit'' \<and> \<not> HasPrefix l ''no '') (buildStpCmds a False)"
proof -
  let ?P = "\<lambda>l. l \<noteq> ''exit'' \<and> \<not> HasPrefix l ''no ''"
  have "filter ?P (mst_cmds m) = shown_mst_cmds m" for m
  proof -
    have "filter ?P (map mst_instance_cmd xs) = map mst_instance_cmd xs" for xs
      by (rule filter_True) (auto simp: mst_instance_cmd_def)
    then show ?thesis by (simp add: mst_cmds_def shown_mst_cmds_def filter_line_opt)
  qed
  then have mst: "filter ?P (case o' of Some m \<Rightarrow> mst_cmds m | None \<Rightarrow> [])
      = (case o' of Some m \<Rightarrow> shown_mst_cmds m | None \<Rightarrow> [])" for o' by (cases o') simp_all
  have mode: "filter ?P (line_opt (\<lambda>m. ''spanning-tree mode '' @ m) p)
      = line_opt (\<lambda>m. ''spanning-tree mode '' @ m) p" for p by (rule filter_line_opt) simp
  have edge: "filter ?P (line_bool ''spanning-tree edge-port bpduguard default''
        ''no spanning-tree edge-port bpduguard default'' b)
      = line_if ''spanning-tree edge-port bpduguard default'' (b = Some True)" for b by (cases b) simp_all
  show ?thesis unfolding shown_stp_def buildStpCmds_def if_False filter_append mode mst edge ..
qed

definition stp_idle :: "string \<Rightarrow> bool" where
  "stp_idle l \<longleftrightarrow> l \<in> {[], ''!'', ''no spanning-tree mst configuration''}"

interpretation stp_scan: line_scanner stp_line stp_idle
proof (unfold_locales, goal_cases)
  case (1 l r)
  then show ?case
    unfolding stp_idle_def by (elim insertE emptyE) (simp_all add: stp_line_def parseStpMstLine_def)
next
  case (2 l)
  then show ?case by (auto simp: stp_idle_def noise_def)
qed

text \<open>The lines of the MST block are attributes of a row that is inside the block.\<close>

definition mst_line :: "string \<Rightarrow> MstConfiguration \<Rightarrow> MstConfiguration" where
  "mst_line line m =
     (if line = ''exit'' \<or> line = ''spanning-tree mst configuration'' then m else parseStpMstLine line m)"

lemma stp_inside:
  assumes "str_inMst r" and "\<forall>l\<in>set ls. l \<noteq> ''exit'' \<and> l \<noteq> ''spanning-tree mst configuration''"
  shows "fold stp_line ls r = r\<lparr>str_Mst := fold mst_line ls (str_Mst r)\<rparr>"
  using assms by (induction ls arbitrary: r) (simp_all add: stp_line_def mst_line_def)

lemma mst_attributes:
  "fold mst_line (line_opt (\<lambda>n. ''name '' @ n) p) m
     = (case p of Some n \<Rightarrow> m\<lparr>mc_Name := Some n\<rparr> | None \<Rightarrow> m)"
  "pred_option int64 q \<Longrightarrow> fold mst_line (line_opt (\<lambda>v. ''revision '' @ Itoa v) q) m
     = (case q of Some v \<Rightarrow> m\<lparr>mc_Revision := Some v\<rparr> | None \<Rightarrow> m)"
  by (cases p; cases q; simp add: mst_line_def parseStpMstLine_def)+

text \<open>A VLAN range is given back with its blanks normalised.\<close>

definition plain_range :: "string \<Rightarrow> bool" where
  "plain_range v \<longleftrightarrow> Fields v \<noteq> [] \<and> Join (Fields v) '' '' = v"

interpretation mst_listing: listing mst_line mst_instance_cmd "\<lambda>e. int64 (mi_Id e) \<and> plain_range (mi_VlanRange e)"
  mc_Instances "\<lambda>es m. m\<lparr>mc_Instances := es\<rparr>"
proof (unfold_locales, goal_cases)
  case (1 e m)
  have w: "word_string ''instance''" "word_string ''vlan''"
    by (simp_all add: word_string_def space_byte_def ascii_space_def)
  have "mst_instance_cmd e = ''instance'' @ CHR '' '' # (Itoa (mi_Id e) @ CHR '' '' # (''vlan'' @ CHR '' '' # mi_VlanRange e))"
    by (simp add: mst_instance_cmd_def)
  then have "Fields (mst_instance_cmd e) = ''instance'' # Itoa (mi_Id e) # ''vlan'' # Fields (mi_VlanRange e)"
    using w by (simp only: Fields_word word_string_Itoa)
  moreover obtain p ps where "Fields (mi_VlanRange e) = p # ps"
    using 1 by (cases "Fields (mi_VlanRange e)") (auto simp: plain_range_def)
  moreover have "mst_line (mst_instance_cmd e) m = parseStpMstLine (mst_instance_cmd e) m"
    "HasPrefix (mst_instance_cmd e) ''instance ''" "\<not> HasPrefix (mst_instance_cmd e) ''name ''"
    "\<not> HasPrefix (mst_instance_cmd e) ''revision ''"
    by (simp_all add: mst_line_def mst_instance_cmd_def)
  ultimately show ?case using 1 by (simp add: parseStpMstLine_def plain_range_def)
qed simp_all

definition canonical_mst :: "MstConfiguration \<Rightarrow> bool" where
  "canonical_mst m \<longleftrightarrow> mc_Name m \<noteq> Some [] \<and> sorted (map mi_Id (mc_Instances m))
     \<and> (\<forall>e\<in>set (mc_Instances m). plain_range (mi_VlanRange e))"

definition canonical_stp :: "StpArgs \<Rightarrow> bool" where
  "canonical_stp a \<longleftrightarrow> shown_stp a \<noteq> [] \<and> pred_option canonical_mst (st_Mst a)"

lemma mst_instances_None:
  "mst_instances seen es = None \<longleftrightarrow>
     (\<forall>e\<in>set es. 1 \<le> mi_Id e \<and> mi_Id e \<le> 4094 \<and> TrimSpace (mi_VlanRange e) \<noteq> [])
     \<and> distinct (map mi_Id es) \<and> set seen \<inter> mi_Id ` set es = {}"
proof (induction es arbitrary: seen)
  case (Cons e es)
  then show ?case by (auto simp: MstInstanceMin_def MstInstanceMax_def)
qed simp

lemma validateMst_None:
  "validateMstConfiguration m = None \<longleftrightarrow> pred_option (\<lambda>r. 0 \<le> r \<and> r \<le> 65535) (mc_Revision m)
     \<and> (\<forall>e\<in>set (mc_Instances m). 1 \<le> mi_Id e \<and> mi_Id e \<le> 4094 \<and> TrimSpace (mi_VlanRange e) \<noteq> [])
     \<and> distinct (map mi_Id (mc_Instances m))"
  by (simp add: validateMstConfiguration_def first_error_None opt_err_None mst_revision_def check_chain
      MstRevisionMin_def MstRevisionMax_def mst_instances_None not_less)

lemma validateStp_None:
  "validateStp a = None \<longleftrightarrow>
     pred_option (\<lambda>m. m \<in> {[], ''mstp'', ''rstp'', ''rapid-pvst'', ''none''}) (st_Mode a)
     \<and> pred_option (\<lambda>m. validateMstConfiguration m = None) (st_Mst a)"
  unfolding validateStp_def first_error_None opt_err_None stp_mode_def
    StpModeMstp_def StpModeRstp_def StpModeRapidPvst_def StpModeNone_def
  by (simp add: opt_err_None check_chain)

text \<open>Inside the block the lines rebuild the configuration that was rendered.\<close>

lemma mst_block:
  assumes "validateMstConfiguration m = None" and "canonical_mst m"
  shows "fold mst_line (tl (shown_mst_cmds m)) no_mst = m"
proof -
  note v = assms(1) [unfolded validateMst_None]
  have rev: "pred_option int64 (mc_Revision m)" using v by (auto simp: option.pred_set int64_def)
  have inst: "\<forall>e\<in>set (mc_Instances m). int64 (mi_Id e) \<and> plain_range (mi_VlanRange e)"
    using v assms(2) by (auto simp: canonical_mst_def int64_def)
  have srt: "sort_key mi_Id (mc_Instances m) = mc_Instances m"
    using assms(2) by (simp add: canonical_mst_def sort_key_id_if_sorted)
  have name: "mc_Name m \<noteq> Some []" using assms(2) by (simp add: canonical_mst_def)
  have "tl (shown_mst_cmds m) = line_opt (\<lambda>n. ''name '' @ n) (nonempty (mc_Name m))
      @ line_opt (\<lambda>r. ''revision '' @ Itoa r) (mc_Revision m) @ map mst_instance_cmd (mc_Instances m)"
    by (simp add: shown_mst_cmds_def srt)
  then have "fold mst_line (tl (shown_mst_cmds m)) no_mst =
      (let m1 = (case nonempty (mc_Name m) of Some n \<Rightarrow> no_mst\<lparr>mc_Name := Some n\<rparr> | None \<Rightarrow> no_mst);
           m2 = (case mc_Revision m of Some v \<Rightarrow> m1\<lparr>mc_Revision := Some v\<rparr> | None \<Rightarrow> m1)
       in m2\<lparr>mc_Instances := mc_Instances m2 @ mc_Instances m\<rparr>)"
    by (simp only: fold_append comp_def mst_attributes(1) mst_attributes(2) [OF rev]
        mst_listing.fold_listing [OF inst] Let_def)
  also have "\<dots> = m"
    using name by (cases "mc_Name m"; cases "mc_Revision m") (simp_all add: no_mst_def nonempty_def)
  finally show ?thesis .
qed

lemma mst_lines_inside:
  "\<forall>l\<in>set (tl (shown_mst_cmds m)). l \<noteq> ''exit'' \<and> l \<noteq> ''spanning-tree mst configuration''"
  by (auto simp: shown_mst_cmds_def mst_instance_cmd_def line_opt_def split: option.splits)

text \<open>The row a shown block is read back as.\<close>

lemma stp_head:
  assumes "pred_option (\<lambda>m. m \<in> {[], ''mstp'', ''rstp'', ''rapid-pvst'', ''none''}) p"
  shows "fold stp_line (line_opt (\<lambda>m. ''spanning-tree mode '' @ m) (nonempty p)) zero_stpRow
       = zero_stpRow\<lparr>str_Mode := or_empty (nonempty p)\<rparr>"
proof (cases "nonempty p")
  case None
  then show ?thesis by (simp add: zero_stpRow_def del: nonempty_eq_None)
next
  case (Some m)
  with assms have "m \<in> {''mstp'', ''rstp'', ''rapid-pvst'', ''none''}" by auto
  then have "stp_line (''spanning-tree mode '' @ m) zero_stpRow = zero_stpRow\<lparr>str_Mode := m\<rparr>"
    by (elim insertE emptyE) (simp_all add: stp_line_def zero_stpRow_def)
  with Some show ?thesis by (simp del: nonempty_eq_Some append.simps)
qed

lemma stp_guard:
  "\<not> str_inMst r \<Longrightarrow> fold stp_line (line_if ''spanning-tree edge-port bpduguard default'' b) r
     = (if b then r\<lparr>str_EdgePortBpduGuardDefault := Some True\<rparr> else r)"
  by (cases b) (simp_all add: stp_line_def)

lemma stp_block:
  assumes "validateMstConfiguration m = None" and "canonical_mst m" and "str_Mst r = no_mst"
  shows "fold stp_line (shown_mst_cmds m) r = r\<lparr>str_inMst := True, str_hasMst := True, str_Mst := m\<rparr>"
proof -
  let ?r = "r\<lparr>str_inMst := True, str_hasMst := True\<rparr>"
  have "stp_line ''spanning-tree mst configuration'' r = ?r" by (simp add: stp_line_def)
  moreover obtain ls where "shown_mst_cmds m = ''spanning-tree mst configuration'' # ls"
    by (simp add: shown_mst_cmds_def)
  ultimately have "fold stp_line (shown_mst_cmds m) r = fold stp_line (tl (shown_mst_cmds m)) ?r"
    by (simp only: fold_simps list.sel)
  also have "\<dots> = ?r\<lparr>str_Mst := fold mst_line (tl (shown_mst_cmds m)) (str_Mst ?r)\<rparr>"
    by (rule stp_inside) (simp_all add: mst_lines_inside)
  finally show ?thesis using mst_block [OF assms(1,2)] assms(3) by simp
qed

lemma stp_header:
  assumes "canonical_stp a" and "prints stp_idle out (shown_stp a)"
  shows "Contains out ''spanning-tree''"
proof -
  have mode: "\<exists>l\<in>set (shown_stp a). Contains l ''spanning-tree'' \<and> \<not> stp_idle l"
  proof (cases "st_Mst a")
    case (Some m)
    then have "''spanning-tree mst configuration'' \<in> set (shown_stp a)"
      by (simp add: shown_stp_def shown_mst_cmds_def)
    then show ?thesis by (rule rev_bexI) (simp add: stp_idle_def)
  next
    case None
    with assms(1) obtain l where "l \<in> set (shown_stp a)" "shown_stp a \<noteq> []"
      by (cases "shown_stp a") (auto simp: canonical_stp_def)
    moreover from this(1) None have "(\<exists>m. l = ''spanning-tree mode '' @ m) \<or> l = ''spanning-tree edge-port bpduguard default''"
      by (auto simp: shown_stp_def line_opt_def line_if_def split: option.splits if_splits)
    then have "Contains l ''spanning-tree'' \<and> \<not> stp_idle l" by (auto simp: stp_idle_def)
    ultimately show ?thesis by blast
  qed
  then show ?thesis using prints_Contains [OF assms(2)] Contains_trans by blast
qed

lemma stp_roundtrip:
  assumes v: "validateStp a = None" and c: "canonical_stp a" and p: "prints stp_idle out (shown_stp a)"
  shows "\<exists>row. parseStpConfig out = Some row \<and> fillStp row a = a"
proof -
  note v' = v [unfolded validateStp_None]
  let ?r0 = "zero_stpRow\<lparr>str_Mode := or_empty (nonempty (st_Mode a))\<rparr>"
  let ?r1 = "if st_EdgePortBpduGuardDefault a = Some True then ?r0\<lparr>str_EdgePortBpduGuardDefault := Some True\<rparr> else ?r0"
  let ?row = "case st_Mst a of Some m \<Rightarrow> ?r1\<lparr>str_inMst := True, str_hasMst := True, str_Mst := m\<rparr> | None \<Rightarrow> ?r1"
  have out: "str_Mst ?r1 = no_mst" by (simp add: zero_stpRow_def)
  have mst: "fold stp_line (case st_Mst a of Some m \<Rightarrow> shown_mst_cmds m | None \<Rightarrow> []) ?r1 = ?row"
  proof (cases "st_Mst a")
    case (Some m)
    with v' c have "validateMstConfiguration m = None" "canonical_mst m" by (simp_all add: canonical_stp_def)
    from stp_block [OF this out] Some show ?thesis by simp
  qed simp
  have "scan stp_line out zero_stpRow = fold stp_line (shown_stp a) zero_stpRow"
    using p by (rule stp_scan.scan_prints)
  also have "\<dots> = fold stp_line (case st_Mst a of Some m \<Rightarrow> shown_mst_cmds m | None \<Rightarrow> [])
      (fold stp_line (line_if ''spanning-tree edge-port bpduguard default'' (st_EdgePortBpduGuardDefault a = Some True)) ?r0)"
    unfolding shown_stp_def fold_append comp_def by (subst stp_head) (use v' in simp_all)
  also have "\<dots> = fold stp_line (case st_Mst a of Some m \<Rightarrow> shown_mst_cmds m | None \<Rightarrow> []) ?r1"
    by (subst stp_guard) (simp_all add: zero_stpRow_def)
  also have "\<dots> = ?row" by (rule mst)
  finally have "scan stp_line out zero_stpRow = ?row" .
  moreover have "Contains out ''spanning-tree''" using stp_header [OF c p] .
  ultimately have "parseStpConfig out = Some ?row" by (simp add: parseStpConfig_def)
  moreover have "fillStp ?row a = a"
    by (cases "st_Mst a") (auto simp: fillStp_def zero_stpRow_def)
  ultimately show ?thesis by blast
qed

interpretation stp_rb: readback validateStp canonical_stp stp_idle shown_stp
  "\<lambda>a out. Ok (parseStpConfig out)" fillStp
proof (unfold_locales, goal_cases)
  case (1 a out)
  then show ?case using stp_roundtrip by blast
next
  case (2 a out)
  then show ?case using stp_header Contains_nonempty by blast
qed

end
