(* ===== verification/Mlag.thy ===== *)
theory Mlag
  imports Session_Managed Go_Net
begin

text \<open>
  \<open>internal/resources/l2/mlag.go\<close>: the single \<open>mlag configuration\<close> block of a device.  Every
  apply negates the whole block first.
\<close>

definition DualPrimaryActionErrdisable :: string where
  "DualPrimaryActionErrdisable = ''errdisable all-interfaces''"

definition PrimaryPriorityMin :: int where "PrimaryPriorityMin = 0"
definition PrimaryPriorityMax :: int where "PrimaryPriorityMax = 32767"

definition ErrMlagDomainRequired :: error where
  [errs]: "ErrMlagDomainRequired = Sentinel ''mlag domainId is required''"
definition ErrMlagLocalIfaceRequired :: error where
  [errs]: "ErrMlagLocalIfaceRequired = Sentinel ''mlag localInterface is required''"
definition ErrMlagPeerLinkRequired :: error where
  [errs]: "ErrMlagPeerLinkRequired = Sentinel ''mlag peerLink is required''"
definition ErrMlagPeerAddressRequired :: error where
  [errs]: "ErrMlagPeerAddressRequired = Sentinel ''mlag peerAddress is required''"
definition ErrMlagPeerAddressNotIP :: error where
  [errs]: "ErrMlagPeerAddressNotIP = Sentinel ''mlag peerAddress is not a valid IP''"
definition ErrMlagHeartbeatNotIP :: error where
  [errs]: "ErrMlagHeartbeatNotIP = Sentinel ''mlag peerAddressHeartbeat is not a valid IP''"
definition ErrMlagPrimaryPriorityRange :: error where
  [errs]: "ErrMlagPrimaryPriorityRange = Sentinel ''mlag primaryPriority must be 0..32767''"
definition ErrMlagDualPrimaryDelayRange :: error where
  [errs]: "ErrMlagDualPrimaryDelayRange = Sentinel ''mlag dualPrimaryDetectionDelay must be > 0''"
definition ErrMlagDualPrimaryActionInvalid :: error where
  [errs]: "ErrMlagDualPrimaryActionInvalid =
     Sentinel (''mlag dualPrimaryAction must be '' @ [CHR 0x27] @ ''errdisable all-interfaces'' @ [CHR 0x27])"
definition ErrMlagRecoveryDelayNegative :: error where
  [errs]: "ErrMlagRecoveryDelayNegative = Sentinel ''mlag dualPrimaryRecoveryDelay* must be >= 0''"
definition ErrMlagReloadDelayNegative :: error where
  [errs]: "ErrMlagReloadDelayNegative = Sentinel ''mlag reloadDelay* must be >= 0''"
definition ErrMlagDualPrimaryActionWithDelay :: error where
  [errs]: "ErrMlagDualPrimaryActionWithDelay =
     Sentinel ''mlag dualPrimaryAction requires dualPrimaryDetectionDelay''"

record MlagArgs = overrides +
  ml_DomainId :: string
  ml_LocalInterface :: string
  ml_PeerLink :: string
  ml_PeerAddress :: string
  ml_PeerAddressHeartbeat :: "string option"
  ml_PeerAddressHeartbeatVrf :: "string option"
  ml_PrimaryPriority :: "int option"
  ml_DualPrimaryDetectionDelay :: "int option"
  ml_DualPrimaryAction :: "string option"
  ml_DualPrimaryRecoveryDelayMlag :: "int option"
  ml_DualPrimaryRecoveryDelayNonMlag :: "int option"
  ml_ReloadDelayMlag :: "int option"
  ml_ReloadDelayNonMlag :: "int option"
  ml_Shutdown :: "bool option"

type_synonym MlagState = MlagArgs

definition mlag_required :: "MlagArgs \<Rightarrow> error option" where
  "mlag_required a =
     (if TrimSpace (ml_DomainId a) = [] then Some ErrMlagDomainRequired
      else if TrimSpace (ml_LocalInterface a) = [] then Some ErrMlagLocalIfaceRequired
      else if TrimSpace (ml_PeerLink a) = [] then Some ErrMlagPeerLinkRequired
      else if TrimSpace (ml_PeerAddress a) = [] then Some ErrMlagPeerAddressRequired
      else if ParseIP (ml_PeerAddress a) = None then Some (Got ErrMlagPeerAddressNotIP [DStr (ml_PeerAddress a)])
      else None)"

definition mlag_heartbeat :: "string \<Rightarrow> error option" where
  "mlag_heartbeat h = (if ParseIP h = None then Some (Got ErrMlagHeartbeatNotIP [DStr h]) else None)"

definition mlag_priority :: "int \<Rightarrow> error option" where
  "mlag_priority p =
     (if p < PrimaryPriorityMin \<or> p > PrimaryPriorityMax then Some (Got ErrMlagPrimaryPriorityRange [DInt p])
      else None)"

definition mlag_delay :: "int \<Rightarrow> error option" where
  "mlag_delay d = (if d \<le> 0 then Some (Got ErrMlagDualPrimaryDelayRange [DInt d]) else None)"

definition mlag_action :: "MlagArgs \<Rightarrow> string \<Rightarrow> error option" where
  "mlag_action a v =
     (if v \<noteq> DualPrimaryActionErrdisable then Some (Got ErrMlagDualPrimaryActionInvalid [DStr v])
      else if ml_DualPrimaryDetectionDelay a = None then Some ErrMlagDualPrimaryActionWithDelay else None)"

definition mlag_negative :: "error \<Rightarrow> string \<Rightarrow> int \<Rightarrow> error option" where
  "mlag_negative e side v = (if v < 0 then Some (Got e [DStr side, DInt v]) else None)"

definition validateMlag :: "MlagArgs \<Rightarrow> error option" where
  "validateMlag a =
     first_error
       [mlag_required a,
        opt_err mlag_heartbeat (nonempty (ml_PeerAddressHeartbeat a)),
        opt_err mlag_priority (ml_PrimaryPriority a),
        opt_err mlag_delay (ml_DualPrimaryDetectionDelay a),
        opt_err (mlag_action a) (nonempty (ml_DualPrimaryAction a)),
        opt_err (mlag_negative ErrMlagRecoveryDelayNegative ''mlag'') (ml_DualPrimaryRecoveryDelayMlag a),
        opt_err (mlag_negative ErrMlagRecoveryDelayNegative ''non-mlag'') (ml_DualPrimaryRecoveryDelayNonMlag a),
        opt_err (mlag_negative ErrMlagReloadDelayNegative ''mlag'') (ml_ReloadDelayMlag a),
        opt_err (mlag_negative ErrMlagReloadDelayNegative ''non-mlag'') (ml_ReloadDelayNonMlag a)]"

definition mlagID :: string where "mlagID = ''mlag''"

definition heartbeat_cmd :: "string option \<Rightarrow> string \<Rightarrow> string" where
  "heartbeat_cmd vrf h =
     ''peer-address heartbeat '' @ h @ (case nonempty vrf of Some v \<Rightarrow> '' vrf '' @ v | None \<Rightarrow> [])"

definition detection_cmd :: "string option \<Rightarrow> int \<Rightarrow> string" where
  "detection_cmd action d =
     ''dual-primary detection delay '' @ Itoa d
       @ (case nonempty action of Some v \<Rightarrow> '' action '' @ v | None \<Rightarrow> [])"

text \<open>Either delay alone makes the device set both, the missing one to zero.\<close>

definition recovery_pair :: "MlagArgs \<Rightarrow> (int \<times> int) option" where
  "recovery_pair a =
     (if ml_DualPrimaryRecoveryDelayMlag a = None \<and> ml_DualPrimaryRecoveryDelayNonMlag a = None then None
      else Some (or_zero (ml_DualPrimaryRecoveryDelayMlag a), or_zero (ml_DualPrimaryRecoveryDelayNonMlag a)))"

definition recovery_cmd :: "int \<times> int \<Rightarrow> string" where
  "recovery_cmd p = ''dual-primary recovery delay mlag '' @ Itoa (fst p) @ '' non-mlag '' @ Itoa (snd p)"

definition buildMlagCmds :: "MlagArgs \<Rightarrow> bool \<Rightarrow> string list" where
  "buildMlagCmds a remove =
     (if remove then [''no mlag configuration'']
      else [''no mlag configuration'', ''mlag configuration'']
           @ [''domain-id '' @ ml_DomainId a]
           @ [''local-interface '' @ ml_LocalInterface a]
           @ [''peer-link '' @ ml_PeerLink a]
           @ [''peer-address '' @ ml_PeerAddress a]
           @ line_opt (heartbeat_cmd (ml_PeerAddressHeartbeatVrf a)) (nonempty (ml_PeerAddressHeartbeat a))
           @ line_opt (\<lambda>v. ''primary-priority '' @ Itoa v) (ml_PrimaryPriority a)
           @ line_opt (detection_cmd (ml_DualPrimaryAction a)) (ml_DualPrimaryDetectionDelay a)
           @ line_opt recovery_cmd (recovery_pair a)
           @ line_opt (\<lambda>v. ''reload-delay mlag '' @ Itoa v) (ml_ReloadDelayMlag a)
           @ line_opt (\<lambda>v. ''reload-delay non-mlag '' @ Itoa v) (ml_ReloadDelayNonMlag a)
           @ shutdown_cmds (ml_Shutdown a))"

definition applyMlag :: "('n, 'w) ctx \<Rightarrow> MlagArgs \<Rightarrow> bool \<Rightarrow> 'w \<Rightarrow> unit res \<times> 'w" where
  "applyMlag C a remove w = apply_session C a ''mlag'' (buildMlagCmds a remove) w"

record mlagRow =
  mlr_DomainId :: string
  mlr_LocalInterface :: string
  mlr_PeerLink :: string
  mlr_PeerAddress :: string
  mlr_PeerAddressHeartbeat :: string
  mlr_PeerAddressHeartbeatVrf :: string
  mlr_PrimaryPriority :: int
  mlr_DualPrimaryDetectionDelay :: int
  mlr_DualPrimaryAction :: string
  mlr_RecoveryMlag :: int
  mlr_RecoveryNonMlag :: int
  mlr_ReloadDelayMlag :: int
  mlr_ReloadDelayNonMlag :: int
  mlr_Shutdown :: bool
  mlr_hasRecoveryDelay :: bool

definition zero_mlagRow :: mlagRow where
  "zero_mlagRow = \<lparr>mlr_DomainId = [], mlr_LocalInterface = [], mlr_PeerLink = [], mlr_PeerAddress = [],
     mlr_PeerAddressHeartbeat = [], mlr_PeerAddressHeartbeatVrf = [], mlr_PrimaryPriority = 0,
     mlr_DualPrimaryDetectionDelay = 0, mlr_DualPrimaryAction = [], mlr_RecoveryMlag = 0,
     mlr_RecoveryNonMlag = 0, mlr_ReloadDelayMlag = 0, mlr_ReloadDelayNonMlag = 0,
     mlr_Shutdown = False, mlr_hasRecoveryDelay = False\<rparr>"

text \<open>The loop over the words after the address: each \<open>vrf\<close> takes the word that follows.\<close>

fun last_vrf :: "string list \<Rightarrow> string \<Rightarrow> string" where
  "last_vrf (p # q # ps) v = last_vrf (q # ps) (if p = ''vrf'' then q else v)"
| "last_vrf _ v = v"

definition parse_heartbeat :: "string \<Rightarrow> mlagRow \<Rightarrow> mlagRow" where
  "parse_heartbeat rest row =
     (case Fields rest of
        [] \<Rightarrow> row
      | h # ps \<Rightarrow>
          row\<lparr>mlr_PeerAddressHeartbeat := h,
              mlr_PeerAddressHeartbeatVrf := last_vrf ps (mlr_PeerAddressHeartbeatVrf row)\<rparr>)"

text \<open>\<open>indexOf\<close>: the first position, or -1.\<close>

fun indexOf :: "string list \<Rightarrow> string \<Rightarrow> int" where
  "indexOf [] t = - 1"
| "indexOf (x # xs) t = (if x = t then 0 else let i = indexOf xs t in if i < 0 then - 1 else i + 1)"

definition parseMlagDualPrimaryDelay :: "string \<Rightarrow> mlagRow \<Rightarrow> mlagRow" where
  "parseMlagDualPrimaryDelay line row =
     (let parts = Fields (TrimPrefix line ''dual-primary detection delay '');
          i = indexOf parts ''action'' in
      if parts = [] then row
      else row\<lparr>mlr_DualPrimaryDetectionDelay := atoi_or (mlr_DualPrimaryDetectionDelay row) (hd parts),
               mlr_DualPrimaryAction :=
                 (if i \<ge> 0 \<and> i + 1 < int (length parts) then Join (drop (nat (i + 1)) parts) '' ''
                  else mlr_DualPrimaryAction row)\<rparr>)"

fun recovery_words :: "string list \<Rightarrow> mlagRow \<Rightarrow> mlagRow" where
  "recovery_words (p # q # ps) row =
     recovery_words (q # ps)
       (if p = ''mlag'' then
          (case Atoi q of Some v \<Rightarrow> row\<lparr>mlr_RecoveryMlag := v, mlr_hasRecoveryDelay := True\<rparr> | None \<Rightarrow> row)
        else if p = ''non-mlag'' then
          (case Atoi q of Some v \<Rightarrow> row\<lparr>mlr_RecoveryNonMlag := v, mlr_hasRecoveryDelay := True\<rparr> | None \<Rightarrow> row)
        else row)"
| "recovery_words _ row = row"

definition parseMlagRecoveryDelay :: "string \<Rightarrow> mlagRow \<Rightarrow> mlagRow" where
  "parseMlagRecoveryDelay line row =
     recovery_words (Fields (TrimPrefix line ''dual-primary recovery delay '')) row"

definition mlag_line :: "string \<Rightarrow> mlagRow \<Rightarrow> mlagRow" where
  "mlag_line line row =
     (if HasPrefix line ''domain-id '' then row\<lparr>mlr_DomainId := TrimPrefix line ''domain-id ''\<rparr>
      else if HasPrefix line ''local-interface '' then
        row\<lparr>mlr_LocalInterface := TrimPrefix line ''local-interface ''\<rparr>
      else if HasPrefix line ''peer-link '' then row\<lparr>mlr_PeerLink := TrimPrefix line ''peer-link ''\<rparr>
      else if HasPrefix line ''peer-address heartbeat '' then
        parse_heartbeat (TrimPrefix line ''peer-address heartbeat '') row
      else if HasPrefix line ''peer-address '' then row\<lparr>mlr_PeerAddress := TrimPrefix line ''peer-address ''\<rparr>
      else if HasPrefix line ''primary-priority '' then
        row\<lparr>mlr_PrimaryPriority := atoi_or (mlr_PrimaryPriority row) (TrimPrefix line ''primary-priority '')\<rparr>
      else if HasPrefix line ''dual-primary detection delay '' then parseMlagDualPrimaryDelay line row
      else if HasPrefix line ''dual-primary recovery delay '' then parseMlagRecoveryDelay line row
      else if HasPrefix line ''reload-delay mlag '' then
        row\<lparr>mlr_ReloadDelayMlag := atoi_or (mlr_ReloadDelayMlag row) (TrimPrefix line ''reload-delay mlag '')\<rparr>
      else if HasPrefix line ''reload-delay non-mlag '' then
        row\<lparr>mlr_ReloadDelayNonMlag := atoi_or (mlr_ReloadDelayNonMlag row) (TrimPrefix line ''reload-delay non-mlag '')\<rparr>
      else if line = ''shutdown'' then row\<lparr>mlr_Shutdown := True\<rparr>
      else row)"

definition parseMlagConfig :: "string \<Rightarrow> mlagRow option" where
  "parseMlagConfig out =
     (if \<not> Contains out ''mlag configuration'' then None else Some (scan mlag_line out zero_mlagRow))"

definition readMlag :: "('n, 'w) ctx \<Rightarrow> 'n client \<Rightarrow> 'w \<Rightarrow> mlagRow option res \<times> 'w" where
  "readMlag C cli =
     read_text C cli ''show running-config | section mlag configuration'' (\<lambda>out. Ok (parseMlagConfig out))"

definition fillMlag :: "mlagRow \<Rightarrow> MlagState \<Rightarrow> MlagState" where
  "fillMlag r s =
     s\<lparr>ml_DomainId := opt_or (ml_DomainId s) (set_str (mlr_DomainId r) None),
       ml_LocalInterface := opt_or (ml_LocalInterface s) (set_str (mlr_LocalInterface r) None),
       ml_PeerLink := opt_or (ml_PeerLink s) (set_str (mlr_PeerLink r) None),
       ml_PeerAddress := opt_or (ml_PeerAddress s) (set_str (mlr_PeerAddress r) None),
       ml_PeerAddressHeartbeat := set_str (mlr_PeerAddressHeartbeat r) (ml_PeerAddressHeartbeat s),
       ml_PeerAddressHeartbeatVrf := set_str (mlr_PeerAddressHeartbeatVrf r) (ml_PeerAddressHeartbeatVrf s),
       ml_PrimaryPriority := set_pos (mlr_PrimaryPriority r) (ml_PrimaryPriority s),
       ml_DualPrimaryDetectionDelay := set_pos (mlr_DualPrimaryDetectionDelay r) (ml_DualPrimaryDetectionDelay s),
       ml_DualPrimaryAction := set_str (mlr_DualPrimaryAction r) (ml_DualPrimaryAction s),
       ml_DualPrimaryRecoveryDelayMlag :=
         (if mlr_hasRecoveryDelay r then Some (mlr_RecoveryMlag r) else ml_DualPrimaryRecoveryDelayMlag s),
       ml_DualPrimaryRecoveryDelayNonMlag :=
         (if mlr_hasRecoveryDelay r then Some (mlr_RecoveryNonMlag r) else ml_DualPrimaryRecoveryDelayNonMlag s),
       ml_ReloadDelayMlag := set_pos (mlr_ReloadDelayMlag r) (ml_ReloadDelayMlag s),
       ml_ReloadDelayNonMlag := set_pos (mlr_ReloadDelayNonMlag r) (ml_ReloadDelayNonMlag s),
       ml_Shutdown := set_true (mlr_Shutdown r) (ml_Shutdown s)\<rparr>"

definition Mlag_Create :: "('n, 'w) ctx \<Rightarrow> MlagArgs request \<Rightarrow> 'w \<Rightarrow> MlagState created res \<times> 'w" where
  "Mlag_Create C = crud_create validateMlag (\<lambda>_. mlagID) (applyMlag C) (\<lambda>_. ''create mlag'')"

definition Mlag_Read ::
  "('n, 'w) ctx \<Rightarrow> MlagArgs \<Rightarrow> 'w \<Rightarrow> (MlagArgs, MlagState) read_response option res \<times> 'w" where
  "Mlag_Read C = crud_read (newClient C) (\<lambda>cli a. readMlag C cli) (\<lambda>_. mlagID) fillMlag"

definition Mlag_Update :: "('n, 'w) ctx \<Rightarrow> MlagArgs request \<Rightarrow> 'w \<Rightarrow> MlagState res \<times> 'w" where
  "Mlag_Update C = crud_update validateMlag (applyMlag C) (\<lambda>_. ''update mlag'')"

definition Mlag_Delete :: "('n, 'w) ctx \<Rightarrow> MlagState \<Rightarrow> 'w \<Rightarrow> unit res \<times> 'w" where
  "Mlag_Delete C = crud_delete (applyMlag C) (\<lambda>_. ''delete mlag'')"

interpretation mlag_mgr: session_managed C validateMlag "\<lambda>_. mlagID"
  "applyMlag C" "\<lambda>_. ''mlag''" buildMlagCmds
  by unfold_locales (simp add: applyMlag_def)

section \<open>Reading back a rendered block\<close>

definition mlag_idle :: "string \<Rightarrow> bool" where
  "mlag_idle l \<longleftrightarrow> l \<in> {[], ''!'', ''no shutdown'', ''no mlag configuration''}"

interpretation mlag_scan: line_scanner mlag_line mlag_idle
proof (unfold_locales, goal_cases)
  case (1 l r)
  then show ?case unfolding mlag_idle_def by (elim insertE emptyE) (simp_all add: mlag_line_def)
next
  case (2 l)
  then show ?case by (auto simp: mlag_idle_def noise_def)
qed

interpretation ml_domain: attribute mlag_line "\<lambda>v. ''domain-id '' @ v" "\<lambda>_. True"
  mlr_DomainId "\<lambda>v r. r\<lparr>mlr_DomainId := v\<rparr>"
  by unfold_locales (simp_all add: mlag_line_def)

interpretation ml_local: attribute mlag_line "\<lambda>v. ''local-interface '' @ v" "\<lambda>_. True"
  mlr_LocalInterface "\<lambda>v r. r\<lparr>mlr_LocalInterface := v\<rparr>"
  by unfold_locales (simp_all add: mlag_line_def)

interpretation ml_link: attribute mlag_line "\<lambda>v. ''peer-link '' @ v" "\<lambda>_. True"
  mlr_PeerLink "\<lambda>v r. r\<lparr>mlr_PeerLink := v\<rparr>"
  by unfold_locales (simp_all add: mlag_line_def)

text \<open>An address is one word, so its line cannot be taken for the heartbeat's.\<close>

lemma word_no_space: "word_string v \<Longrightarrow> CHR '' '' \<notin> set v"
  by (auto simp: word_string_def space_byte_def ascii_space_def)

lemma word_not_heartbeat: "word_string v \<Longrightarrow> \<not> HasPrefix v ''heartbeat ''"
  using word_no_space [of v] by (auto simp: HasPrefix_iff)

interpretation ml_peer: attribute mlag_line "\<lambda>v. ''peer-address '' @ v" word_string
  mlr_PeerAddress "\<lambda>v r. r\<lparr>mlr_PeerAddress := v\<rparr>"
  by unfold_locales (simp_all add: mlag_line_def word_not_heartbeat)

lemma Fields_pair: "word_string h \<Longrightarrow> word_string v \<Longrightarrow> Fields (h @ '' vrf '' @ v) = [h, ''vrf'', v]"
proof -
  assume "word_string h" "word_string v"
  moreover have "word_string ''vrf''" by (simp add: word_string_def space_byte_def ascii_space_def)
  ultimately have "Fields (Join [h, ''vrf'', v] '' '') = [h, ''vrf'', v]" by (intro Fields_Join) auto
  then show ?thesis by simp
qed

lemma heartbeat_line:
  assumes "word_string h" and "pred_option word_string (nonempty vrf)"
  shows "mlag_line (heartbeat_cmd vrf h) r =
    r\<lparr>mlr_PeerAddressHeartbeat := h,
      mlr_PeerAddressHeartbeatVrf := opt_or (mlr_PeerAddressHeartbeatVrf r) (nonempty vrf)\<rparr>"
proof -
  have "mlag_line (heartbeat_cmd vrf h) r
      = parse_heartbeat (h @ (case nonempty vrf of Some v \<Rightarrow> '' vrf '' @ v | None \<Rightarrow> [])) r"
    by (simp add: mlag_line_def heartbeat_cmd_def)
  also have "\<dots> = r\<lparr>mlr_PeerAddressHeartbeat := h,
      mlr_PeerAddressHeartbeatVrf := opt_or (mlr_PeerAddressHeartbeatVrf r) (nonempty vrf)\<rparr>"
  proof (cases "nonempty vrf")
    case None
    then show ?thesis using Fields_word_end [OF assms(1)] by (simp add: parse_heartbeat_def del: nonempty_eq_None)
  next
    case (Some v)
    with assms(2) have "word_string v" by simp
    with Some Fields_pair [OF assms(1)] show ?thesis by (simp add: parse_heartbeat_def del: append.simps nonempty_eq_Some)
  qed
  finally show ?thesis .
qed

interpretation ml_priority: attribute mlag_line "\<lambda>v. ''primary-priority '' @ Itoa v" int64
  mlr_PrimaryPriority "\<lambda>v r. r\<lparr>mlr_PrimaryPriority := v\<rparr>"
  by unfold_locales (simp_all add: mlag_line_def)

interpretation ml_reload: attribute mlag_line "\<lambda>v. ''reload-delay mlag '' @ Itoa v" int64
  mlr_ReloadDelayMlag "\<lambda>v r. r\<lparr>mlr_ReloadDelayMlag := v\<rparr>"
  by unfold_locales (simp_all add: mlag_line_def)

interpretation ml_reload_non: attribute mlag_line "\<lambda>v. ''reload-delay non-mlag '' @ Itoa v" int64
  mlr_ReloadDelayNonMlag "\<lambda>v r. r\<lparr>mlr_ReloadDelayNonMlag := v\<rparr>"
  by unfold_locales (simp_all add: mlag_line_def)

interpretation ml_shutdown: flag mlag_line "''shutdown''" mlr_Shutdown "\<lambda>b r. r\<lparr>mlr_Shutdown := b\<rparr>"
  by unfold_locales (simp_all add: mlag_line_def)

lemma detection_words:
  "word_string ''action''" "word_string ''errdisable''" "word_string ''all-interfaces''" "word_string ''mlag''"
  "word_string ''non-mlag''"
  by (simp_all add: word_string_def space_byte_def ascii_space_def)

lemma detection_line:
  assumes "int64 d" and "nonempty act = None \<or> nonempty act = Some DualPrimaryActionErrdisable"
  shows "mlag_line (detection_cmd act d) r =
    r\<lparr>mlr_DualPrimaryDetectionDelay := d,
      mlr_DualPrimaryAction := opt_or (mlr_DualPrimaryAction r) (nonempty act)\<rparr>"
proof -
  have tp: "mlag_line (detection_cmd act d) r = parseMlagDualPrimaryDelay (detection_cmd act d) r"
    "TrimPrefix (detection_cmd act d) ''dual-primary detection delay '' =
       Itoa d @ (case nonempty act of Some v \<Rightarrow> '' action '' @ v | None \<Rightarrow> [])"
    by (simp_all add: mlag_line_def detection_cmd_def)
  from assms(2) show ?thesis
  proof
    assume n: "nonempty act = None"
    have "Fields (Itoa d) = [Itoa d]" by (rule Fields_word_end) simp
    moreover have "Itoa d \<noteq> ''action''" using Itoa_chars [of d] by (auto simp: digits_def)
    ultimately show ?thesis using n assms(1) tp
      by (simp add: parseMlagDualPrimaryDelay_def Let_def del: nonempty_eq_None)
  next
    assume s: "nonempty act = Some DualPrimaryActionErrdisable"
    have "Fields (Join [Itoa d, ''action'', ''errdisable'', ''all-interfaces''] '' '')
        = [Itoa d, ''action'', ''errdisable'', ''all-interfaces'']"
      by (rule Fields_Join) (auto simp: detection_words)
    then have "Fields (Itoa d @ '' action '' @ DualPrimaryActionErrdisable) = [Itoa d, ''action'', ''errdisable'', ''all-interfaces'']"
      by (simp add: DualPrimaryActionErrdisable_def)
    moreover have "Itoa d \<noteq> ''action''" using Itoa_chars [of d] by (auto simp: digits_def)
    ultimately show ?thesis using s assms(1) tp
      by (simp add: parseMlagDualPrimaryDelay_def Let_def DualPrimaryActionErrdisable_def del: nonempty_eq_Some append.simps)
  qed
qed

lemma recovery_line:
  assumes "int64 x" and "int64 y"
  shows "mlag_line (recovery_cmd (x, y)) r =
    r\<lparr>mlr_RecoveryMlag := x, mlr_RecoveryNonMlag := y, mlr_hasRecoveryDelay := True\<rparr>"
proof -
  have "Fields (Join [''mlag'', Itoa x, ''non-mlag'', Itoa y] '' '') = [''mlag'', Itoa x, ''non-mlag'', Itoa y]"
    by (rule Fields_Join) (auto simp: detection_words)
  then have f: "Fields (''mlag '' @ Itoa x @ '' non-mlag '' @ Itoa y) = [''mlag'', Itoa x, ''non-mlag'', Itoa y]"
    by simp
  have "Itoa x \<noteq> ''mlag''" "Itoa x \<noteq> ''non-mlag''" using Itoa_chars [of x] by (auto simp: digits_def)
  moreover have "mlag_line (recovery_cmd (x, y)) r = recovery_words (Fields (''mlag '' @ Itoa x @ '' non-mlag '' @ Itoa y)) r"
    by (simp add: mlag_line_def recovery_cmd_def parseMlagRecoveryDelay_def)
  ultimately show ?thesis using assms unfolding f by simp
qed

text \<open>
  \<open>readable_mlag\<close>: the VRF is one word and the numbers fit; the device's text then has
  everything that was rendered.  It determines both recovery delays or neither.
\<close>

definition readable_mlag :: "MlagArgs \<Rightarrow> bool" where
  "readable_mlag a \<longleftrightarrow>
     pred_option word_string (nonempty (ml_PeerAddressHeartbeatVrf a))
     \<and> pred_option int64 (ml_DualPrimaryDetectionDelay a)
     \<and> pred_option int64 (ml_DualPrimaryRecoveryDelayMlag a) \<and> pred_option int64 (ml_DualPrimaryRecoveryDelayNonMlag a)
     \<and> pred_option int64 (ml_ReloadDelayMlag a) \<and> pred_option int64 (ml_ReloadDelayNonMlag a)"

definition canonical_mlag :: "MlagArgs \<Rightarrow> bool" where
  "canonical_mlag a \<longleftrightarrow> readable_mlag a
     \<and> ((ml_DualPrimaryRecoveryDelayMlag a = None) = (ml_DualPrimaryRecoveryDelayNonMlag a = None))"

lemma validateMlag_None:
  assumes "validateMlag a = None"
  shows "ParseIP (ml_PeerAddress a) \<noteq> None"
    and "pred_option (\<lambda>h. ParseIP h \<noteq> None) (nonempty (ml_PeerAddressHeartbeat a))"
    and "pred_option (\<lambda>p. 0 \<le> p \<and> p \<le> 32767) (ml_PrimaryPriority a)"
    and "pred_option (\<lambda>d. 0 < d) (ml_DualPrimaryDetectionDelay a)"
    and "nonempty (ml_DualPrimaryAction a) = None
         \<or> nonempty (ml_DualPrimaryAction a) = Some DualPrimaryActionErrdisable \<and> ml_DualPrimaryDetectionDelay a \<noteq> None"
    and "TrimSpace (ml_DomainId a) \<noteq> [] \<and> TrimSpace (ml_LocalInterface a) \<noteq> [] \<and> TrimSpace (ml_PeerLink a) \<noteq> []"
proof -
  have n: "mlag_required a = None" "opt_err mlag_heartbeat (nonempty (ml_PeerAddressHeartbeat a)) = None"
    "opt_err mlag_priority (ml_PrimaryPriority a) = None" "opt_err mlag_delay (ml_DualPrimaryDetectionDelay a) = None"
    "opt_err (mlag_action a) (nonempty (ml_DualPrimaryAction a)) = None"
    using assms unfolding validateMlag_def first_error_None by simp_all
  from n(1) show "ParseIP (ml_PeerAddress a) \<noteq> None"
    "TrimSpace (ml_DomainId a) \<noteq> [] \<and> TrimSpace (ml_LocalInterface a) \<noteq> [] \<and> TrimSpace (ml_PeerLink a) \<noteq> []"
    by (auto simp: mlag_required_def split: if_splits)
  from n(2) show "pred_option (\<lambda>h. ParseIP h \<noteq> None) (nonempty (ml_PeerAddressHeartbeat a))"
    by (simp add: opt_err_None mlag_heartbeat_def check_chain)
  from n(3) show "pred_option (\<lambda>p. 0 \<le> p \<and> p \<le> 32767) (ml_PrimaryPriority a)"
    by (simp add: opt_err_None mlag_priority_def check_chain PrimaryPriorityMin_def PrimaryPriorityMax_def not_less)
  from n(4) show "pred_option (\<lambda>d. 0 < d) (ml_DualPrimaryDetectionDelay a)"
    by (simp add: opt_err_None mlag_delay_def check_chain not_le)
  from n(5) show "nonempty (ml_DualPrimaryAction a) = None
       \<or> nonempty (ml_DualPrimaryAction a) = Some DualPrimaryActionErrdisable \<and> ml_DualPrimaryDetectionDelay a \<noteq> None"
    by (cases "nonempty (ml_DualPrimaryAction a)")
       (simp_all add: opt_err_def mlag_action_def check_chain del: nonempty_eq_Some nonempty_eq_None)
qed

lemma mlag_header:
  "prints mlag_idle out (buildMlagCmds a False) \<Longrightarrow> Contains out ''mlag configuration''"
  by (erule prints_Contains) (simp_all add: buildMlagCmds_def mlag_idle_def)

text \<open>The row that a rendered block is read back as.\<close>

definition shown_mlag :: "MlagArgs \<Rightarrow> mlagRow" where
  "shown_mlag a =
     \<lparr>mlr_DomainId = ml_DomainId a, mlr_LocalInterface = ml_LocalInterface a, mlr_PeerLink = ml_PeerLink a,
      mlr_PeerAddress = ml_PeerAddress a,
      mlr_PeerAddressHeartbeat = or_empty (nonempty (ml_PeerAddressHeartbeat a)),
      mlr_PeerAddressHeartbeatVrf =
        (if nonempty (ml_PeerAddressHeartbeat a) = None then [] else or_empty (nonempty (ml_PeerAddressHeartbeatVrf a))),
      mlr_PrimaryPriority = or_zero (ml_PrimaryPriority a),
      mlr_DualPrimaryDetectionDelay = or_zero (ml_DualPrimaryDetectionDelay a),
      mlr_DualPrimaryAction =
        (if ml_DualPrimaryDetectionDelay a = None then [] else or_empty (nonempty (ml_DualPrimaryAction a))),
      mlr_RecoveryMlag = or_zero (map_option fst (recovery_pair a)),
      mlr_RecoveryNonMlag = or_zero (map_option snd (recovery_pair a)),
      mlr_ReloadDelayMlag = or_zero (ml_ReloadDelayMlag a), mlr_ReloadDelayNonMlag = or_zero (ml_ReloadDelayNonMlag a),
      mlr_Shutdown = (ml_Shutdown a = Some True), mlr_hasRecoveryDelay = (recovery_pair a \<noteq> None)\<rparr>"

lemma heartbeat_segment:
  assumes "pred_option (\<lambda>h. ParseIP h \<noteq> None) p" and "pred_option word_string (nonempty vrf)"
  shows "fold mlag_line (line_opt (heartbeat_cmd vrf) p) r =
    r\<lparr>mlr_PeerAddressHeartbeat := opt_or (mlr_PeerAddressHeartbeat r) p,
      mlr_PeerAddressHeartbeatVrf :=
        (if p = None then mlr_PeerAddressHeartbeatVrf r else opt_or (mlr_PeerAddressHeartbeatVrf r) (nonempty vrf))\<rparr>"
proof (cases p)
  case (Some h)
  with assms(1) have "word_string h" using ParseIP_word by auto
  with Some heartbeat_line [OF _ assms(2)] show ?thesis by simp
qed simp

lemma detection_segment:
  assumes "pred_option int64 p" and "nonempty act = None \<or> nonempty act = Some DualPrimaryActionErrdisable"
  shows "fold mlag_line (line_opt (detection_cmd act) p) r =
    r\<lparr>mlr_DualPrimaryDetectionDelay := opt_or (mlr_DualPrimaryDetectionDelay r) p,
      mlr_DualPrimaryAction :=
        (if p = None then mlr_DualPrimaryAction r else opt_or (mlr_DualPrimaryAction r) (nonempty act))\<rparr>"
proof (cases p)
  case (Some d)
  with assms detection_line [of d act r] show ?thesis by simp
qed simp

lemma recovery_segment:
  assumes "pred_option (\<lambda>q. int64 (fst q) \<and> int64 (snd q)) p"
  shows "fold mlag_line (line_opt recovery_cmd p) r =
    r\<lparr>mlr_RecoveryMlag := opt_or (mlr_RecoveryMlag r) (map_option fst p),
      mlr_RecoveryNonMlag := opt_or (mlr_RecoveryNonMlag r) (map_option snd p),
      mlr_hasRecoveryDelay := (mlr_hasRecoveryDelay r \<or> p \<noteq> None)\<rparr>"
proof (cases p)
  case (Some q)
  with assms recovery_line [of "fst q" "snd q" r] show ?thesis by simp
qed simp

lemma mlag_quiet:
  "fold mlag_line [''no mlag configuration'', ''mlag configuration''] r = r" "mlag_line ''no shutdown'' r = r"
  by (simp_all add: mlag_line_def)

lemma parse_shown_mlag:
  assumes v: "validateMlag a = None" and c: "readable_mlag a"
    and p: "prints mlag_idle out (buildMlagCmds a False)"
  shows "parseMlagConfig out = Some (shown_mlag a)"
proof -
  note v' = validateMlag_None [OF v]
  have vrf: "pred_option word_string (nonempty (ml_PeerAddressHeartbeatVrf a))"
    and dd: "pred_option int64 (ml_DualPrimaryDetectionDelay a)"
    and rl: "pred_option int64 (ml_ReloadDelayMlag a)" "pred_option int64 (ml_ReloadDelayNonMlag a)"
    using c by (simp_all add: readable_mlag_def)
  have peer: "word_string (ml_PeerAddress a)" using v'(1) ParseIP_word by blast
  have pri: "pred_option int64 (ml_PrimaryPriority a)" using v'(3) by (auto simp: option.pred_set int64_def)
  have act: "nonempty (ml_DualPrimaryAction a) = None \<or> nonempty (ml_DualPrimaryAction a) = Some DualPrimaryActionErrdisable"
    using v'(5) by blast
  have zero: "int64 0" by (simp add: int64_def)
  have rec: "pred_option (\<lambda>q. int64 (fst q) \<and> int64 (snd q)) (recovery_pair a)"
    using c zero by (auto simp: readable_mlag_def recovery_pair_def opt_or_def split: option.splits)
  have "scan mlag_line out zero_mlagRow = shown_mlag a"
    unfolding mlag_scan.scan_prints [OF p] buildMlagCmds_def if_False fold_append comp_def shutdown_cmds_def
      mlag_quiet(1) ml_domain.fold_one [OF TrueI] ml_local.fold_one [OF TrueI] ml_link.fold_one [OF TrueI]
      ml_peer.fold_one [OF peer] heartbeat_segment [OF v'(2) vrf] ml_priority.fold_attr [OF pri]
      detection_segment [OF dd act] recovery_segment [OF rec] ml_reload.fold_attr [OF rl(1)]
      ml_reload_non.fold_attr [OF rl(2)] ml_shutdown.fold_switch [OF mlag_quiet(2)]
    by (simp add: shown_mlag_def zero_mlagRow_def)
  with mlag_header [OF p] show ?thesis by (simp add: parseMlagConfig_def)
qed

lemma fill_shown_mlag:
  assumes "canonical_mlag a" shows "fillMlag (shown_mlag a) a = a"
proof -
  have "(ml_DualPrimaryRecoveryDelayMlag a = None) = (ml_DualPrimaryRecoveryDelayNonMlag a = None)"
    using assms by (simp add: canonical_mlag_def)
  then have "(if mlr_hasRecoveryDelay (shown_mlag a) then Some (mlr_RecoveryMlag (shown_mlag a))
        else ml_DualPrimaryRecoveryDelayMlag a) = ml_DualPrimaryRecoveryDelayMlag a"
    and "(if mlr_hasRecoveryDelay (shown_mlag a) then Some (mlr_RecoveryNonMlag (shown_mlag a))
        else ml_DualPrimaryRecoveryDelayNonMlag a) = ml_DualPrimaryRecoveryDelayNonMlag a"
    by (auto simp: shown_mlag_def recovery_pair_def)
  moreover have "opt_or x (set_str x None) = x" for x by (simp add: set_str_def)
  ultimately show ?thesis
    unfolding fillMlag_def by (simp add: shown_mlag_def)
qed

interpretation mlag_rb: readback validateMlag canonical_mlag mlag_idle
  "\<lambda>a. buildMlagCmds a False" "\<lambda>a out. Ok (parseMlagConfig out)" fillMlag
proof (unfold_locales, goal_cases)
  case (1 a out)
  then show ?case using parse_shown_mlag fill_shown_mlag canonical_mlag_def by blast
next
  case (2 a out)
  then show ?case using mlag_header Contains_nonempty by blast
qed

text \<open>
  With one recovery delay only, the reader reports the other one as zero: a refresh of an
  unchanged block shows a change.
\<close>

lemma recovery_phantom:
  assumes "ml_DualPrimaryRecoveryDelayMlag a = Some d" and "ml_DualPrimaryRecoveryDelayNonMlag a = None"
  shows "ml_DualPrimaryRecoveryDelayNonMlag (fillMlag (shown_mlag a) a) = Some 0"
  using assms by (simp add: fillMlag_def shown_mlag_def recovery_pair_def)

end
