(* ===== verification/Evpn_Es.thy ===== *)
theory Evpn_Es
  imports Interface Go_Net
begin

text \<open>
  \<open>internal/resources/l2/evpn_ethernet_segment.go\<close>: the EVPN block inside a parent interface.
  Its line parser can panic, so the loop body returns a result.
\<close>

definition EsRedundancyAllActive :: string where "EsRedundancyAllActive = ''all-active''"
definition EsRedundancySingleActive :: string where "EsRedundancySingleActive = ''single-active''"
definition EsRedundancyPortActive :: string where "EsRedundancyPortActive = ''port-active''"

definition EsDfAlgorithmModulus :: string where "EsDfAlgorithmModulus = ''modulus''"
definition EsDfAlgorithmHrw :: string where "EsDfAlgorithmHrw = ''hrw''"
definition EsDfAlgorithmPreference :: string where "EsDfAlgorithmPreference = ''preference''"

lemmas es_words = EsRedundancyAllActive_def EsRedundancySingleActive_def EsRedundancyPortActive_def
  EsDfAlgorithmModulus_def EsDfAlgorithmHrw_def EsDfAlgorithmPreference_def

definition DfPreferenceMin :: int where "DfPreferenceMin = 0"
definition DfPreferenceMax :: int where "DfPreferenceMax = 65535"

definition ErrEsParentRequired :: error where
  [errs]: "ErrEsParentRequired = Sentinel ''evpnEthernetSegment parentInterface is required''"
definition ErrEsIdentifierRequired :: error where
  [errs]: "ErrEsIdentifierRequired = Sentinel ''evpnEthernetSegment identifier is required''"
definition ErrEsIdentifierBadFormat :: error where
  [errs]: "ErrEsIdentifierBadFormat = Sentinel ''evpnEthernetSegment identifier must be five colon-separated hex groups of four digits, e.g. 0011:1111:1111:1111:1111''"
definition ErrEsRouteTargetBadFormat :: error where
  [errs]: "ErrEsRouteTargetBadFormat = Sentinel ''evpnEthernetSegment routeTargetImport must be a MAC-style six-group hex string, e.g. 12:23:34:45:56:67''"
definition ErrEsRedundancyInvalid :: error where
  [errs]: "ErrEsRedundancyInvalid = Sentinel ''evpnEthernetSegment redundancy must be all-active, single-active, or port-active''"
definition ErrEsDfAlgorithmInvalid :: error where
  [errs]: "ErrEsDfAlgorithmInvalid = Sentinel ''evpnEthernetSegment designatedForwarder.algorithm must be modulus, hrw, or preference''"
definition ErrEsDfPreferenceRange :: error where
  [errs]: "ErrEsDfPreferenceRange = Sentinel ''evpnEthernetSegment designatedForwarder.preference must be 0..65535''"
definition ErrEsDfPreferenceWithAlg :: error where
  [errs]: "ErrEsDfPreferenceWithAlg = Sentinel ''evpnEthernetSegment designatedForwarder.preference is only valid when algorithm=preference''"
definition ErrEsDfHoldTimeRange :: error where
  [errs]: "ErrEsDfHoldTimeRange = Sentinel ''evpnEthernetSegment designatedForwarder.holdTime must be greater than 0''"

text \<open>
  The two anchored patterns: groups of hexadecimal digits between colons.  The pattern is
  matched against the whole text.
\<close>

definition hex_group :: "nat \<Rightarrow> nat \<Rightarrow> string \<Rightarrow> bool" where
  "hex_group lo hi s \<longleftrightarrow> lo \<le> length s \<and> length s \<le> hi \<and> (\<forall>c\<in>set s. c \<in> hex_chars)"

definition hex_groups :: "nat \<Rightarrow> nat \<Rightarrow> nat \<Rightarrow> string \<Rightarrow> bool" where
  "hex_groups n lo hi s \<longleftrightarrow>
     (let gs = split_at (CHR '':'') s in length gs = n \<and> (\<forall>g\<in>set gs. hex_group lo hi g))"

definition esIdentifierRE :: "string \<Rightarrow> bool" where
  "esIdentifierRE s = hex_groups 5 4 4 s"

definition esRouteTargetRE :: "string \<Rightarrow> bool" where
  "esRouteTargetRE s = hex_groups 6 1 2 s"

record DesignatedForwarder =
  df_Algorithm :: string
  df_Preference :: "int option"
  df_DontPreempt :: "bool option"
  df_HoldTime :: "int option"

record EvpnEthernetSegmentArgs = overrides +
  es_ParentInterface :: string
  es_Identifier :: string
  es_Redundancy :: "string option"
  es_RouteTargetImport :: "string option"
  es_DesignatedForwarder :: "DesignatedForwarder option"

type_synonym EvpnEthernetSegmentState = EvpnEthernetSegmentArgs

definition df_preference :: "DesignatedForwarder \<Rightarrow> int \<Rightarrow> error option" where
  "df_preference d p =
     (if df_Algorithm d \<noteq> EsDfAlgorithmPreference then Some ErrEsDfPreferenceWithAlg
      else if p < DfPreferenceMin \<or> p > DfPreferenceMax then Some (Got ErrEsDfPreferenceRange [DInt p])
      else None)"

definition df_hold_time :: "int \<Rightarrow> error option" where
  "df_hold_time h = (if h \<le> 0 then Some (Got ErrEsDfHoldTimeRange [DInt h]) else None)"

definition validateDesignatedForwarder :: "DesignatedForwarder \<Rightarrow> error option" where
  "validateDesignatedForwarder d =
     first_error
       [if df_Algorithm d \<in> {[], EsDfAlgorithmModulus, EsDfAlgorithmHrw, EsDfAlgorithmPreference} then None
        else Some (Got ErrEsDfAlgorithmInvalid [DStr (df_Algorithm d)]),
        opt_err (df_preference d) (df_Preference d),
        opt_err df_hold_time (df_HoldTime d)]"

definition es_route_target :: "string \<Rightarrow> error option" where
  "es_route_target t =
     (if esRouteTargetRE t then None else Some (Got ErrEsRouteTargetBadFormat [DStr t]))"

definition es_redundancy :: "string \<Rightarrow> error option" where
  "es_redundancy r =
     (if r \<in> {[], EsRedundancyAllActive, EsRedundancySingleActive, EsRedundancyPortActive} then None
      else Some (Got ErrEsRedundancyInvalid [DStr r]))"

definition validateEvpnEthernetSegment :: "EvpnEthernetSegmentArgs \<Rightarrow> error option" where
  "validateEvpnEthernetSegment a =
     first_error
       [if TrimSpace (es_ParentInterface a) = [] then Some ErrEsParentRequired else None,
        if TrimSpace (es_Identifier a) = [] then Some ErrEsIdentifierRequired else None,
        if \<not> esIdentifierRE (es_Identifier a) then Some (Got ErrEsIdentifierBadFormat [DStr (es_Identifier a)]) else None,
        opt_err es_route_target (nonempty (es_RouteTargetImport a)),
        opt_err es_redundancy (es_Redundancy a),
        opt_err validateDesignatedForwarder (es_DesignatedForwarder a)]"

definition evpnEthernetSegmentID :: "string \<Rightarrow> string" where
  "evpnEthernetSegmentID parent = ''evpn-ethernet-segment/'' @ parent"

definition df_algorithm_cmd :: "DesignatedForwarder \<Rightarrow> string" where
  "df_algorithm_cmd d =
     ''designated-forwarder election algorithm '' @ df_Algorithm d
       @ (if df_Algorithm d = EsDfAlgorithmPreference
          then (case df_Preference d of
                  Some p \<Rightarrow> '' '' @ Itoa p @ (if df_DontPreempt d = Some True then '' dont-preempt'' else [])
                | None \<Rightarrow> [])
          else [])"

definition dfElectionCmds :: "DesignatedForwarder \<Rightarrow> string list" where
  "dfElectionCmds d =
     (if df_Algorithm d = [] then [] else [df_algorithm_cmd d])
     @ line_opt (\<lambda>h. ''designated-forwarder election hold-time '' @ Itoa h) (positive (df_HoldTime d))"

definition buildEvpnEthernetSegmentCmds :: "EvpnEthernetSegmentArgs \<Rightarrow> bool \<Rightarrow> string list" where
  "buildEvpnEthernetSegmentCmds a remove =
     [''interface '' @ es_ParentInterface a, ''no evpn ethernet-segment'']
     @ (if remove then []
        else [''evpn ethernet-segment'', ''identifier '' @ es_Identifier a]
             @ line_opt (\<lambda>r. ''redundancy '' @ r) (nonempty (es_Redundancy a))
             @ line_opt (\<lambda>t. ''route-target import '' @ t) (nonempty (es_RouteTargetImport a))
             @ (case es_DesignatedForwarder a of Some d \<Rightarrow> dfElectionCmds d | None \<Rightarrow> []))"

definition applyEvpnEthernetSegment ::
  "('n, 'w) ctx \<Rightarrow> EvpnEthernetSegmentArgs \<Rightarrow> bool \<Rightarrow> 'w \<Rightarrow> unit res \<times> 'w" where
  "applyEvpnEthernetSegment C a remove w =
     apply_session C a (''es-'' @ sanitizeForSession (es_ParentInterface a)) (buildEvpnEthernetSegmentCmds a remove) w"

text \<open>The parsed row and the two flags of the loop.\<close>

record evpnEthernetSegmentRow =
  er_Identifier :: string
  er_Redundancy :: string
  er_RouteTargetImport :: string
  er_DfAlgorithm :: string
  er_DfPreference :: int
  er_DfDontPreempt :: bool
  er_DfHoldTime :: int
  er_inEs :: bool
  er_found :: bool

definition zero_esRow :: evpnEthernetSegmentRow where
  "zero_esRow = \<lparr>er_Identifier = [], er_Redundancy = [], er_RouteTargetImport = [], er_DfAlgorithm = [],
     er_DfPreference = 0, er_DfDontPreempt = False, er_DfHoldTime = 0, er_inEs = False, er_found = False\<rparr>"

text \<open>The slice \<open>parts[2:]\<close> of a line with the word \<open>preference\<close> alone is out of bounds.\<close>

definition parseDfAlgorithmLine :: "string \<Rightarrow> evpnEthernetSegmentRow \<Rightarrow> evpnEthernetSegmentRow res" where
  "parseDfAlgorithmLine line row =
     (case Fields (TrimPrefix line ''designated-forwarder election algorithm '') of
        [] \<Rightarrow> Ok row
      | p0 # ps \<Rightarrow>
          if p0 \<noteq> EsDfAlgorithmPreference then Ok (row\<lparr>er_DfAlgorithm := p0\<rparr>)
          else (case ps of
                  [] \<Rightarrow> Panic
                | p1 # toks \<Rightarrow>
                    Ok (row\<lparr>er_DfAlgorithm := p0,
                            er_DfPreference := atoi_or (er_DfPreference row) p1,
                            er_DfDontPreempt := (er_DfDontPreempt row \<or> ''dont-preempt'' \<in> set toks)\<rparr>)))"

definition es_inner :: "string \<Rightarrow> evpnEthernetSegmentRow \<Rightarrow> evpnEthernetSegmentRow res" where
  "es_inner line r =
     (if HasPrefix line ''identifier '' then Ok (r\<lparr>er_Identifier := TrimPrefix line ''identifier ''\<rparr>)
      else if HasPrefix line ''redundancy '' then Ok (r\<lparr>er_Redundancy := TrimPrefix line ''redundancy ''\<rparr>)
      else if HasPrefix line ''route-target import '' then
        Ok (r\<lparr>er_RouteTargetImport := TrimPrefix line ''route-target import ''\<rparr>)
      else if HasPrefix line ''designated-forwarder election algorithm '' then parseDfAlgorithmLine line r
      else if HasPrefix line ''designated-forwarder election hold-time '' then
        Ok (r\<lparr>er_DfHoldTime :=
               atoi_or (er_DfHoldTime r) (TrimPrefix line ''designated-forwarder election hold-time '')\<rparr>)
      else Ok r)"

definition es_line :: "string \<Rightarrow> string \<Rightarrow> evpnEthernetSegmentRow \<Rightarrow> evpnEthernetSegmentRow res" where
  "es_line header line r =
     (if line = ''evpn ethernet-segment'' then Ok (r\<lparr>er_inEs := True, er_found := True\<rparr>)
      else let r' = (if HasPrefix line ''interface '' \<and> line \<noteq> header then r\<lparr>er_inEs := False\<rparr> else r) in
           if \<not> er_inEs r' then Ok r' else es_inner line r')"

text \<open>The loop stops at a panic.\<close>

definition es_step :: "string \<Rightarrow> string \<Rightarrow> evpnEthernetSegmentRow res \<Rightarrow> evpnEthernetSegmentRow res" where
  "es_step header line r = bind_res r (es_line header line)"

definition parseEvpnEthernetSegmentConfig :: "string \<Rightarrow> string \<Rightarrow> evpnEthernetSegmentRow option res" where
  "parseEvpnEthernetSegmentConfig out parent =
     (let header = ''interface '' @ parent in
      if \<not> Contains out header then Ok None
      else map_res (\<lambda>row. if er_found row then Some row else None)
             (scan (es_step header) out (Ok zero_esRow)))"

definition readEvpnEthernetSegment ::
  "('n, 'w) ctx \<Rightarrow> 'n client \<Rightarrow> string \<Rightarrow> 'w \<Rightarrow> evpnEthernetSegmentRow option res \<times> 'w" where
  "readEvpnEthernetSegment C cli parent =
     read_text C cli (''show running-config interfaces '' @ parent)
       (\<lambda>out. parseEvpnEthernetSegmentConfig out parent)"

definition fill_df :: "evpnEthernetSegmentRow \<Rightarrow> DesignatedForwarder" where
  "fill_df r =
     \<lparr>df_Algorithm = er_DfAlgorithm r,
      df_Preference = (if er_DfPreference r > 0 \<or> er_DfAlgorithm r = EsDfAlgorithmPreference
                       then Some (er_DfPreference r) else None),
      df_DontPreempt = set_true (er_DfDontPreempt r) None,
      df_HoldTime = set_pos (er_DfHoldTime r) None\<rparr>"

definition fillEvpnEthernetSegment ::
  "evpnEthernetSegmentRow \<Rightarrow> EvpnEthernetSegmentState \<Rightarrow> EvpnEthernetSegmentState" where
  "fillEvpnEthernetSegment r s =
     s\<lparr>es_Identifier := opt_or (es_Identifier s) (set_str (er_Identifier r) None),
       es_Redundancy := set_str (er_Redundancy r) (es_Redundancy s),
       es_RouteTargetImport := set_str (er_RouteTargetImport r) (es_RouteTargetImport s),
       es_DesignatedForwarder :=
         (if er_DfAlgorithm r \<noteq> [] \<or> er_DfHoldTime r > 0 then Some (fill_df r) else es_DesignatedForwarder s)\<rparr>"

definition EvpnEthernetSegment_Create ::
  "('n, 'w) ctx \<Rightarrow> EvpnEthernetSegmentArgs request \<Rightarrow> 'w \<Rightarrow> EvpnEthernetSegmentState created res \<times> 'w" where
  "EvpnEthernetSegment_Create C =
     crud_create validateEvpnEthernetSegment (\<lambda>a. evpnEthernetSegmentID (es_ParentInterface a))
       (applyEvpnEthernetSegment C) (\<lambda>a. ''create evpn-ethernet-segment '' @ es_ParentInterface a)"

definition EvpnEthernetSegment_Read ::
  "('n, 'w) ctx \<Rightarrow> EvpnEthernetSegmentArgs \<Rightarrow> 'w \<Rightarrow>
   (EvpnEthernetSegmentArgs, EvpnEthernetSegmentState) read_response option res \<times> 'w" where
  "EvpnEthernetSegment_Read C =
     crud_read (newClient C) (\<lambda>cli a. readEvpnEthernetSegment C cli (es_ParentInterface a))
       (\<lambda>a. evpnEthernetSegmentID (es_ParentInterface a)) fillEvpnEthernetSegment"

definition EvpnEthernetSegment_Update ::
  "('n, 'w) ctx \<Rightarrow> EvpnEthernetSegmentArgs request \<Rightarrow> 'w \<Rightarrow> EvpnEthernetSegmentState res \<times> 'w" where
  "EvpnEthernetSegment_Update C =
     crud_update validateEvpnEthernetSegment (applyEvpnEthernetSegment C)
       (\<lambda>a. ''update evpn-ethernet-segment '' @ es_ParentInterface a)"

definition EvpnEthernetSegment_Delete ::
  "('n, 'w) ctx \<Rightarrow> EvpnEthernetSegmentState \<Rightarrow> 'w \<Rightarrow> unit res \<times> 'w" where
  "EvpnEthernetSegment_Delete C =
     crud_delete (applyEvpnEthernetSegment C) (\<lambda>a. ''delete evpn-ethernet-segment '' @ es_ParentInterface a)"

interpretation es_mgr: session_managed C validateEvpnEthernetSegment "\<lambda>a. evpnEthernetSegmentID (es_ParentInterface a)"
  "applyEvpnEthernetSegment C" "\<lambda>a. ''es-'' @ sanitizeForSession (es_ParentInterface a)" buildEvpnEthernetSegmentCmds
  by unfold_locales (simp add: applyEvpnEthernetSegment_def)

section \<open>Reading back a rendered block\<close>

definition es_idle :: "string \<Rightarrow> bool" where
  "es_idle l \<longleftrightarrow> l \<in> {[], ''!'', ''no shutdown'', ''no evpn ethernet-segment''}"

interpretation es_scan: line_scanner "es_step header" es_idle
proof (unfold_locales, goal_cases)
  case (1 l r)
  then have "es_line header l row = Ok row" for row
    unfolding es_idle_def by (elim insertE emptyE) (simp_all add: es_line_def es_inner_def)
  then show ?case by (cases r) (simp_all add: es_step_def)
next
  case (2 l)
  then show ?case by (auto simp: es_idle_def noise_def)
qed

text \<open>Inside the block, and away from the panic, the body is a plain update of the row.\<close>

definition es_body :: "string \<Rightarrow> evpnEthernetSegmentRow \<Rightarrow> evpnEthernetSegmentRow" where
  "es_body l r = (case es_inner l r of Ok r' \<Rightarrow> r' | _ \<Rightarrow> r)"

definition inner_ok :: "string \<Rightarrow> bool" where
  "inner_ok l \<longleftrightarrow> l \<noteq> ''evpn ethernet-segment'' \<and> \<not> HasPrefix l ''interface ''
     \<and> (\<forall>r. \<exists>r'. es_inner l r = Ok r' \<and> er_inEs r' = er_inEs r)"

lemma es_body_Ok: "inner_ok l \<Longrightarrow> es_inner l r = Ok (es_body l r) \<and> er_inEs (es_body l r) = er_inEs r"
proof -
  assume "inner_ok l"
  then obtain r' where "es_inner l r = Ok r'" "er_inEs r' = er_inEs r" unfolding inner_ok_def by blast
  then show ?thesis by (simp add: es_body_def)
qed

lemma es_inside:
  "er_inEs r \<Longrightarrow> \<forall>l\<in>set ls. inner_ok l \<Longrightarrow>
     fold (es_step header) ls (Ok r) = Ok (fold es_body ls r) \<and> er_inEs (fold es_body ls r)"
proof (induction ls arbitrary: r)
  case (Cons l ls)
  then have l: "inner_ok l" by simp
  with Cons.prems es_body_Ok [OF l, of r] have "es_step header l (Ok r) = Ok (es_body l r)"
    by (simp add: es_step_def es_line_def inner_ok_def)
  with Cons es_body_Ok [OF l, of r] show ?case by simp
qed simp

interpretation es_ident: attribute es_body "\<lambda>v. ''identifier '' @ v" "\<lambda>_. True"
  er_Identifier "\<lambda>v r. r\<lparr>er_Identifier := v\<rparr>"
  by unfold_locales (simp_all add: es_body_def es_inner_def)

interpretation es_redun: attribute es_body "\<lambda>v. ''redundancy '' @ v" "\<lambda>_. True"
  er_Redundancy "\<lambda>v r. r\<lparr>er_Redundancy := v\<rparr>"
  by unfold_locales (simp_all add: es_body_def es_inner_def)

interpretation es_rt: attribute es_body "\<lambda>v. ''route-target import '' @ v" "\<lambda>_. True"
  er_RouteTargetImport "\<lambda>v r. r\<lparr>er_RouteTargetImport := v\<rparr>"
  by unfold_locales (simp_all add: es_body_def es_inner_def)

interpretation es_hold: attribute es_body "\<lambda>v. ''designated-forwarder election hold-time '' @ Itoa v" int64
  er_DfHoldTime "\<lambda>v r. r\<lparr>er_DfHoldTime := v\<rparr>"
  by unfold_locales (simp_all add: es_body_def es_inner_def)

text \<open>The algorithm line, for an algorithm that has its preference.\<close>

definition df_shown :: "DesignatedForwarder \<Rightarrow> bool" where
  "df_shown d \<longleftrightarrow> df_Algorithm d \<in> {''modulus'', ''hrw'', ''preference''}
     \<and> (df_Algorithm d = ''preference'' \<longrightarrow> (\<exists>p. df_Preference d = Some p \<and> int64 p))"

definition df_put :: "DesignatedForwarder \<Rightarrow> evpnEthernetSegmentRow \<Rightarrow> evpnEthernetSegmentRow" where
  "df_put d r =
     (if df_Algorithm d = ''preference''
      then r\<lparr>er_DfAlgorithm := ''preference'', er_DfPreference := or_zero (df_Preference d),
             er_DfDontPreempt := (er_DfDontPreempt r \<or> df_DontPreempt d = Some True)\<rparr>
      else r\<lparr>er_DfAlgorithm := df_Algorithm d\<rparr>)"

lemma df_words:
  "word_string ''modulus''" "word_string ''hrw''" "word_string ''preference''" "word_string ''dont-preempt''"
  by (simp_all add: word_string_def space_byte_def ascii_space_def)

lemma df_line_Fields:
  assumes "df_shown d"
  shows "Fields (TrimPrefix (df_algorithm_cmd d) ''designated-forwarder election algorithm '') =
    df_Algorithm d # (if df_Algorithm d = ''preference''
      then Itoa (or_zero (df_Preference d)) # (if df_DontPreempt d = Some True then [''dont-preempt''] else []) else [])"
    (is "?L = ?ws")
proof -
  have "TrimPrefix (df_algorithm_cmd d) ''designated-forwarder election algorithm '' = Join ?ws '' ''"
    using assms by (auto simp: df_algorithm_cmd_def df_shown_def EsDfAlgorithmPreference_def)
  moreover have "Fields (Join ?ws '' '') = ?ws"
    by (rule Fields_Join) (use assms df_words in \<open>auto simp: df_shown_def split: if_splits\<close>)
  ultimately show ?thesis by simp
qed

lemma df_line:
  assumes "df_shown d"
  shows "es_inner (df_algorithm_cmd d) r = Ok (df_put d r)"
proof -
  have "es_inner (df_algorithm_cmd d) r = parseDfAlgorithmLine (df_algorithm_cmd d) r"
    by (simp add: es_inner_def df_algorithm_cmd_def)
  with assms df_line_Fields [OF assms] show ?thesis
    by (auto simp: parseDfAlgorithmLine_def df_put_def df_shown_def EsDfAlgorithmPreference_def)
qed

text \<open>
  What the reader makes of a validated block: it panics when the algorithm is
  \<open>preference\<close> and no preference was given.
\<close>

lemma df_panic:
  "df_Algorithm d = ''preference'' \<Longrightarrow> df_Preference d = None \<Longrightarrow> es_inner (df_algorithm_cmd d) r = Panic"
proof -
  assume d: "df_Algorithm d = ''preference''" "df_Preference d = None"
  then have "df_algorithm_cmd d = ''designated-forwarder election algorithm '' @ ''preference''"
    by (simp add: df_algorithm_cmd_def)
  moreover have "Fields ''preference'' = [''preference'']" by (rule Fields_word_end) (rule df_words(3))
  ultimately show ?thesis
    by (simp add: es_inner_def parseDfAlgorithmLine_def EsDfAlgorithmPreference_def)
qed

lemma inner_ok_lines:
  "inner_ok (''identifier '' @ v)" "inner_ok (''redundancy '' @ v)" "inner_ok (''route-target import '' @ v)"
  "inner_ok (''designated-forwarder election hold-time '' @ v)"
  by (simp_all add: inner_ok_def es_inner_def)

lemma line_opt_all: "(\<And>v. P (f v)) \<Longrightarrow> \<forall>l\<in>set (line_opt f p). P l"
  by (cases p) simp_all

lemma inner_ok_options:
  "\<forall>l\<in>set (line_opt (\<lambda>r. ''redundancy '' @ r) p). inner_ok l"
  "\<forall>l\<in>set (line_opt (\<lambda>t. ''route-target import '' @ t) p). inner_ok l"
  by (rule line_opt_all, rule inner_ok_lines)+

lemma inner_ok_df: "df_shown d \<Longrightarrow> inner_ok (df_algorithm_cmd d)"
  using df_line [of d] by (auto simp: inner_ok_def df_algorithm_cmd_def df_put_def)

definition canonical_df :: "DesignatedForwarder \<Rightarrow> bool" where
  "canonical_df d \<longleftrightarrow>
     (df_Algorithm d = ''preference'' \<longrightarrow> df_Preference d \<noteq> None) \<and>
     (df_Algorithm d \<noteq> ''preference'' \<longrightarrow> df_DontPreempt d = None) \<and>
     df_DontPreempt d \<noteq> Some False \<and> pred_option int64 (df_HoldTime d)"

definition canonical_es :: "EvpnEthernetSegmentArgs \<Rightarrow> bool" where
  "canonical_es a \<longleftrightarrow> pred_option canonical_df (es_DesignatedForwarder a)"

lemma validate_df_None:
  "validateDesignatedForwarder d = None \<longleftrightarrow>
     df_Algorithm d \<in> {[], ''modulus'', ''hrw'', ''preference''}
     \<and> pred_option (\<lambda>p. df_Algorithm d = ''preference'' \<and> 0 \<le> p \<and> p \<le> 65535) (df_Preference d)
     \<and> pred_option (\<lambda>h. 0 < h) (df_HoldTime d)"
  unfolding validateDesignatedForwarder_def first_error_None df_preference_def df_hold_time_def es_words
    DfPreferenceMin_def DfPreferenceMax_def
  by (simp add: opt_err_None check_chain not_less not_le)

definition df_fill_row :: "DesignatedForwarder \<Rightarrow> evpnEthernetSegmentRow \<Rightarrow> evpnEthernetSegmentRow" where
  "df_fill_row d r =
     (let r1 = (if df_Algorithm d = [] then r else df_put d r)
      in r1\<lparr>er_DfHoldTime := opt_or (er_DfHoldTime r1) (df_HoldTime d)\<rparr>)"

lemma df_segment:
  assumes v: "validateDesignatedForwarder d = None" and c: "canonical_df d"
  shows "\<forall>l\<in>set (dfElectionCmds d). inner_ok l" and "fold es_body (dfElectionCmds d) r = df_fill_row d r"
proof -
  note v' = v [unfolded validate_df_None]
  have sh: "df_shown d" if "df_Algorithm d \<noteq> []"
    using that v' c by (auto simp: df_shown_def canonical_df_def int64_def)
  have h: "positive (df_HoldTime d) = df_HoldTime d" "pred_option int64 (df_HoldTime d)"
    using v' c by (cases "df_HoldTime d"; simp add: canonical_df_def)+
  show "\<forall>l\<in>set (dfElectionCmds d). inner_ok l"
    using inner_ok_df [OF sh] inner_ok_lines(4)
    by (auto simp: dfElectionCmds_def line_opt_def simp del: append.simps split: option.splits)
  show "fold es_body (dfElectionCmds d) r = df_fill_row d r"
    unfolding dfElectionCmds_def h(1) fold_append comp_def es_hold.fold_attr [OF h(2)]
    using df_line [OF sh] by (auto simp: df_fill_row_def es_body_def Let_def)
qed

lemma fill_df_back:
  assumes v: "validateDesignatedForwarder d = None" and c: "canonical_df d"
    and r: "er_DfAlgorithm r = []" "er_DfPreference r = 0" "\<not> er_DfDontPreempt r" "er_DfHoldTime r = 0"
  shows "(if er_DfAlgorithm (df_fill_row d r) \<noteq> [] \<or> er_DfHoldTime (df_fill_row d r) > 0
          then Some (fill_df (df_fill_row d r)) else Some d) = Some d"
proof -
  note v' = v [unfolded validate_df_None]
  obtain alg pref dp h where d: "d = \<lparr>df_Algorithm = alg, df_Preference = pref, df_DontPreempt = dp, df_HoldTime = h\<rparr>"
    by (cases d)
  have dp: "dp = None \<or> dp = Some True" using c d by (cases dp) (auto simp: canonical_df_def)
  show ?thesis
  proof (cases "alg = ''preference''")
    case True
    then obtain p where "pref = Some p" using c d by (auto simp: canonical_df_def)
    with True dp v' d r show ?thesis
      by (cases h) (auto simp: df_fill_row_def df_put_def fill_df_def es_words Let_def set_true_def set_pos_def)
  next
    case False
    then have "dp = None" "pref = None" using c d v' by (cases pref; simp add: canonical_df_def)+
    with False v' d r show ?thesis
      by (cases h) (auto simp: df_fill_row_def df_put_def fill_df_def es_words Let_def set_true_def set_pos_def)
  qed
qed

definition es_inner_cmds :: "EvpnEthernetSegmentArgs \<Rightarrow> string list" where
  "es_inner_cmds a =
     [''identifier '' @ es_Identifier a]
     @ line_opt (\<lambda>r. ''redundancy '' @ r) (nonempty (es_Redundancy a))
     @ line_opt (\<lambda>t. ''route-target import '' @ t) (nonempty (es_RouteTargetImport a))
     @ (case es_DesignatedForwarder a of Some d \<Rightarrow> dfElectionCmds d | None \<Rightarrow> [])"

lemma build_es_cmds:
  "buildEvpnEthernetSegmentCmds a False =
     [''interface '' @ es_ParentInterface a, ''no evpn ethernet-segment'', ''evpn ethernet-segment''] @ es_inner_cmds a"
proof -
  have "[h, n] @ [e, i] @ X = [h, n, e] @ [i] @ X" for h n e i :: string and X by simp
  then show ?thesis unfolding buildEvpnEthernetSegmentCmds_def es_inner_cmds_def if_False .
qed

lemma es_header:
  "prints es_idle out (buildEvpnEthernetSegmentCmds a False) \<Longrightarrow> Contains out (''interface '' @ es_ParentInterface a)"
  by (erule prints_Contains) (simp_all add: buildEvpnEthernetSegmentCmds_def es_idle_def)

lemma validate_es_df:
  "validateEvpnEthernetSegment a = None \<Longrightarrow>
     pred_option (\<lambda>d. validateDesignatedForwarder d = None) (es_DesignatedForwarder a)
     \<and> es_Identifier a \<noteq> []"
  unfolding validateEvpnEthernetSegment_def first_error_None by (auto simp: opt_err_None check_chain)

definition shown_es :: "EvpnEthernetSegmentArgs \<Rightarrow> evpnEthernetSegmentRow" where
  "shown_es a =
     (let r = zero_esRow\<lparr>er_inEs := True, er_found := True, er_Identifier := es_Identifier a,
                er_Redundancy := or_empty (nonempty (es_Redundancy a)),
                er_RouteTargetImport := or_empty (nonempty (es_RouteTargetImport a))\<rparr>
      in case es_DesignatedForwarder a of Some d \<Rightarrow> df_fill_row d r | None \<Rightarrow> r)"

lemma parse_shown_es:
  assumes v: "validateEvpnEthernetSegment a = None" and c: "canonical_es a"
    and p: "prints es_idle out (buildEvpnEthernetSegmentCmds a False)"
  shows "parseEvpnEthernetSegmentConfig out (es_ParentInterface a) = Ok (Some (shown_es a))"
proof -
  let ?h = "''interface '' @ es_ParentInterface a"
  let ?r = "zero_esRow\<lparr>er_inEs := True, er_found := True\<rparr>"
  have df: "validateDesignatedForwarder d = None" "canonical_df d" if "es_DesignatedForwarder a = Some d" for d
    using validate_es_df [OF v] c that by (simp_all add: canonical_es_def)
  have ok: "\<forall>l\<in>set (es_inner_cmds a). inner_ok l"
    using df_segment(1) [OF df] unfolding es_inner_cmds_def set_append ball_Un
    by (cases "es_DesignatedForwarder a") (simp_all add: inner_ok_options inner_ok_lines del: append.simps)
  have body: "fold es_body (es_inner_cmds a) ?r = shown_es a"
    unfolding es_inner_cmds_def fold_append comp_def es_ident.fold_one [OF TrueI]
      es_redun.fold_attr [OF any_readable] es_rt.fold_attr [OF any_readable]
    using df_segment(2) [OF df]
    by (cases "es_DesignatedForwarder a") (simp_all add: shown_es_def zero_esRow_def)
  have start: "fold (es_step ?h) [?h, ''no evpn ethernet-segment'', ''evpn ethernet-segment''] (Ok zero_esRow) = Ok ?r"
    by (simp add: es_step_def es_line_def zero_esRow_def)
  have "scan (es_step ?h) out (Ok zero_esRow) = Ok (shown_es a)"
    unfolding es_scan.scan_prints [OF p] build_es_cmds fold_append comp_def start
    using es_inside [OF _ ok, of ?r] body by simp
  moreover have "er_found (shown_es a)"
    by (simp add: shown_es_def df_fill_row_def df_put_def Let_def split: option.split)
  ultimately show ?thesis using es_header [OF p] by (simp add: parseEvpnEthernetSegmentConfig_def Let_def)
qed

lemma fill_shown_es:
  assumes v: "validateEvpnEthernetSegment a = None" and c: "canonical_es a"
  shows "fillEvpnEthernetSegment (shown_es a) a = a"
proof -
  let ?r = "zero_esRow\<lparr>er_inEs := True, er_found := True, er_Identifier := es_Identifier a,
                er_Redundancy := or_empty (nonempty (es_Redundancy a)),
                er_RouteTargetImport := or_empty (nonempty (es_RouteTargetImport a))\<rparr>"
  have other: "er_Identifier (shown_es a) = es_Identifier a"
    "er_Redundancy (shown_es a) = or_empty (nonempty (es_Redundancy a))"
    "er_RouteTargetImport (shown_es a) = or_empty (nonempty (es_RouteTargetImport a))"
    by (simp_all add: shown_es_def df_fill_row_def df_put_def Let_def split: option.split)
  have df: "(if er_DfAlgorithm (shown_es a) \<noteq> [] \<or> er_DfHoldTime (shown_es a) > 0
      then Some (fill_df (shown_es a)) else es_DesignatedForwarder a) = es_DesignatedForwarder a"
  proof (cases "es_DesignatedForwarder a")
    case None
    then show ?thesis by (simp add: shown_es_def zero_esRow_def)
  next
    case (Some d)
    then have "validateDesignatedForwarder d = None" "canonical_df d"
      using validate_es_df [OF v] c by (simp_all add: canonical_es_def)
    then have kept: "(if er_DfAlgorithm (df_fill_row d ?r) \<noteq> [] \<or> er_DfHoldTime (df_fill_row d ?r) > 0
          then Some (fill_df (df_fill_row d ?r)) else Some d) = Some d"
      by (rule fill_df_back) (simp_all add: zero_esRow_def)
    have eq: "shown_es a = df_fill_row d ?r" using Some by (simp add: shown_es_def Let_def)
    show ?thesis unfolding eq Some by (rule kept)
  qed
  have "opt_or x (set_str x None) = x" for x by (simp add: set_str_def)
  then show ?thesis unfolding fillEvpnEthernetSegment_def other df by simp
qed

interpretation es_rb: readback validateEvpnEthernetSegment canonical_es es_idle
  "\<lambda>a. buildEvpnEthernetSegmentCmds a False"
  "\<lambda>a out. parseEvpnEthernetSegmentConfig out (es_ParentInterface a)" fillEvpnEthernetSegment
proof (unfold_locales, goal_cases)
  case (1 a out)
  then show ?case using parse_shown_es fill_shown_es by blast
next
  case (2 a out)
  then show ?case using es_header Contains_nonempty by blast
qed

text \<open>
  A validated segment with the algorithm \<open>preference\<close> and no preference makes its own
  reader panic on the text that shows it.
\<close>

lemma es_reader_panics:
  assumes v: "validateEvpnEthernetSegment a = None"
    and d: "es_DesignatedForwarder a = Some d" "df_Algorithm d = ''preference''" "df_Preference d = None"
    and p: "prints es_idle out (buildEvpnEthernetSegmentCmds a False)"
  shows "parseEvpnEthernetSegmentConfig out (es_ParentInterface a) = Panic"
proof -
  let ?h = "''interface '' @ es_ParentInterface a"
  let ?r = "zero_esRow\<lparr>er_inEs := True, er_found := True\<rparr>"
  let ?front = "[''identifier '' @ es_Identifier a] @ line_opt (\<lambda>r. ''redundancy '' @ r) (nonempty (es_Redundancy a))
     @ line_opt (\<lambda>t. ''route-target import '' @ t) (nonempty (es_RouteTargetImport a))"
  let ?hold = "line_opt (\<lambda>h. ''designated-forwarder election hold-time '' @ Itoa h) (positive (df_HoldTime d))"
  have cmds: "es_inner_cmds a = ?front @ [df_algorithm_cmd d] @ ?hold"
    using d unfolding es_inner_cmds_def dfElectionCmds_def by (simp del: append.simps add: append_assoc)
  have ok: "\<forall>l\<in>set ?front. inner_ok l"
    unfolding set_append ball_Un by (simp add: inner_ok_options inner_ok_lines del: append.simps)
  have start: "fold (es_step ?h) [?h, ''no evpn ethernet-segment'', ''evpn ethernet-segment''] (Ok zero_esRow) = Ok ?r"
    by (simp add: es_step_def es_line_def zero_esRow_def)
  have "es_step ?h (df_algorithm_cmd d) (Ok q) = Panic" if "er_inEs q" for q
    using that df_panic [OF d(2,3)] by (simp add: es_step_def es_line_def df_algorithm_cmd_def)
  moreover have "fold (es_step ?h) ls Panic = Panic" for ls by (induction ls) (simp_all add: es_step_def)
  moreover have "fold (es_step ?h) ?front (Ok ?r) = Ok (fold es_body ?front ?r)
      \<and> er_inEs (fold es_body ?front ?r)"
    by (rule es_inside [OF _ ok]) simp
  ultimately have "scan (es_step ?h) out (Ok zero_esRow) = Panic"
    unfolding es_scan.scan_prints [OF p] build_es_cmds fold_append comp_def start cmds by simp
  then show ?thesis using es_header [OF p] by (simp add: parseEvpnEthernetSegmentConfig_def Let_def)
qed

end
