(* ===== verification/Session_Slot.thy ===== *)
theory Session_Slot
  imports Session_Protocol
begin

text \<open>
  The one-place channel \<open>sessionSlot\<close> under concurrency: goroutines, numbered, share one
  client, and each runs the pattern of the apply functions once.  A step is one operation of
  the client, done by one goroutine: the two parts of \<open>OpenSession\<close>, then \<open>Stage\<close>, then
  \<open>Commit\<close> or \<open>Abort\<close>.  The world of a step is arbitrary, so between two steps of a goroutine
  the device and its own context may have changed in any way.
\<close>

text \<open>
  \<open>Ready\<close>: before \<open>OpenSession\<close>; \<open>Opening\<close>: the token is in the slot, the open commands are still
  to be sent; \<open>Staging\<close>, \<open>AtCommit\<close>, \<open>AtAbort\<close>: before that call on the session, with the error that
  \<open>Stage\<close> gave; \<open>Done\<close>: back from the pattern after it had the slot; \<open>Refused\<close>: back without
  having had it; \<open>Absent\<close>: no goroutine has that number.
\<close>

datatype 'n goroutine =
    Ready string "string list"
  | Opening string "string list"
  | Staging "'n session" "string list"
  | AtCommit "'n session"
  | AtAbort "'n session" error
  | Done "unit res"
  | Refused error
  | Absent

record 'n slot_sys =
  ss_client :: "'n client"
  ss_pc :: "nat \<Rightarrow> 'n goroutine"

definition slot_start :: "'n client \<Rightarrow> (string \<times> string list) list \<Rightarrow> 'n slot_sys" where
  "slot_start c jobs =
     \<lparr>ss_client = c\<lparr>cl_slot := False\<rparr>,
      ss_pc = (\<lambda>i. if i < length jobs then Ready (fst (jobs ! i)) (snd (jobs ! i)) else Absent)\<rparr>"

text \<open>A session points to the client that all goroutines share.\<close>

definition at_client :: "'n slot_sys \<Rightarrow> 'n session \<Rightarrow> 'n session" where
  "at_client s h = h\<lparr>s_parent := ss_client s\<rparr>"

text \<open>Goroutine \<open>i\<close> goes on at \<open>g\<close> and leaves the client as \<open>c\<close>.\<close>

definition moved :: "'n slot_sys \<Rightarrow> nat \<Rightarrow> 'n client \<Rightarrow> 'n goroutine \<Rightarrow> 'n slot_sys" where
  "moved s i c g = \<lparr>ss_client = c, ss_pc = (ss_pc s)(i := g)\<rparr>"

lemma moved_simps [simp]:
  "ss_client (moved s i c g) = c" "ss_pc (moved s i c g) = (ss_pc s)(i := g)"
  by (simp_all add: moved_def)

text \<open>Where the calls that can fail lead to.\<close>

definition after_open :: "'n session res \<Rightarrow> string list \<Rightarrow> 'n goroutine" where
  "after_open r cmds = (case r of Ok h \<Rightarrow> Staging h cmds | _ \<Rightarrow> Done (map_res (\<lambda>_. ()) r))"

definition after_stage :: "unit res \<Rightarrow> 'n session \<Rightarrow> 'n goroutine" where
  "after_stage r h = (case r of Ok _ \<Rightarrow> AtCommit h | Err e \<Rightarrow> AtAbort h e | _ \<Rightarrow> Done r)"

text \<open>
  A goroutine whose \<open>select\<close> has neither branch ready, \<open>acquire_slot\<close> being \<open>Blocked\<close>, has no step:
  it waits.
\<close>

inductive slot_step :: "('n, 'w) env \<Rightarrow> 'n slot_sys \<Rightarrow> 'n slot_sys \<Rightarrow> bool" for E where
  enter: "ss_pc s i = Ready name cmds \<Longrightarrow> acquire_slot E (ss_client s) name w = Ok c \<Longrightarrow>
     slot_step E s (moved s i c (Opening name cmds))"
| refuse: "ss_pc s i = Ready name cmds \<Longrightarrow> acquire_slot E (ss_client s) name w = Err e \<Longrightarrow>
     slot_step E s (moved s i (ss_client s) (Refused e))"
| opened: "ss_pc s i = Opening name cmds \<Longrightarrow> finish_open E (ss_client s) name w = (r, c, w') \<Longrightarrow>
     slot_step E s (moved s i c (after_open r cmds))"
| staged: "ss_pc s i = Staging h cmds \<Longrightarrow> Stage E (at_client s h) cmds w = (r, w') \<Longrightarrow>
     slot_step E s (moved s i (ss_client s) (after_stage r h))"
| committed: "ss_pc s i = AtCommit h \<Longrightarrow> Commit E (at_client s h) w = (r, h', w') \<Longrightarrow>
     slot_step E s (moved s i (s_parent h') (Done r))"
| aborted: "ss_pc s i = AtAbort h e \<Longrightarrow> Abort E (at_client s h) w = (r, h', w') \<Longrightarrow>
     slot_step E s (moved s i (s_parent h') (Done (after_abort e r)))"

inductive slot_reachable :: "('n, 'w) env \<Rightarrow> 'n client \<Rightarrow> (string \<times> string list) list \<Rightarrow> 'n slot_sys \<Rightarrow> bool"
  for E c jobs where
  slot_begin: "slot_reachable E c jobs (slot_start c jobs)"
| slot_next: "slot_reachable E c jobs s \<Longrightarrow> slot_step E s t \<Longrightarrow> slot_reachable E c jobs t"

section \<open>One session at a time\<close>

fun in_session :: "'n goroutine \<Rightarrow> bool" where
  "in_session (Opening _ _) = True"
| "in_session (Staging _ _) = True"
| "in_session (AtCommit _) = True"
| "in_session (AtAbort _ _) = True"
| "in_session _ = False"

fun holds_open :: "'n goroutine \<Rightarrow> bool" where
  "holds_open (Staging h _) = s_open h"
| "holds_open (AtCommit h) = s_open h"
| "holds_open (AtAbort h _) = s_open h"
| "holds_open _ = True"

text \<open>
  The invariant ties the token to its owner: the slot is full exactly while some goroutine
  is in a session, no two are at once, and the sessions they hold are open.
\<close>

definition slot_inv :: "'n slot_sys \<Rightarrow> bool" where
  "slot_inv s \<longleftrightarrow>
     (cl_slot (ss_client s) \<longleftrightarrow> (\<exists>i. in_session (ss_pc s i))) \<and>
     (\<forall>i j. in_session (ss_pc s i) \<longrightarrow> in_session (ss_pc s j) \<longrightarrow> i = j) \<and>
     (\<forall>i. holds_open (ss_pc s i))"

lemma slot_inv_start: "slot_inv (slot_start c jobs)"
  by (simp add: slot_inv_def slot_start_def)

lemma inv_holds_open: "slot_inv s \<Longrightarrow> holds_open (ss_pc s i)"
  by (simp add: slot_inv_def)

text \<open>The four ways in which a step can change who is in a session.\<close>

lemma inv_enter:
  assumes "slot_inv s" and "\<not> cl_slot (ss_client s)" and "cl_slot c" "in_session g" "holds_open g"
  shows "slot_inv (moved s i c g)"
  using assms by (auto simp: slot_inv_def)

lemma inv_outside:
  assumes "slot_inv s" and "\<not> in_session (ss_pc s i)" and "\<not> in_session g" "holds_open g"
  shows "slot_inv (moved s i (ss_client s) g)"
proof -
  have "in_session (((ss_pc s)(i := g)) j) = in_session (ss_pc s j)" for j using assms(2,3) by simp
  then show ?thesis using assms(1,4) by (simp add: slot_inv_def)
qed

lemma inv_inside:
  assumes "slot_inv s" and "in_session (ss_pc s i)" and "in_session g" "holds_open g"
    and "cl_slot c = cl_slot (ss_client s)"
  shows "slot_inv (moved s i c g)"
proof -
  have "in_session (((ss_pc s)(i := g)) j) = in_session (ss_pc s j)" for j using assms(2,3) by simp
  then show ?thesis using assms(1,4,5) by (simp add: slot_inv_def)
qed

lemma inv_leave:
  assumes "slot_inv s" and "in_session (ss_pc s i)" and "\<not> in_session g" "holds_open g" and "\<not> cl_slot c"
  shows "slot_inv (moved s i c g)"
proof -
  have "in_session (ss_pc s j) \<Longrightarrow> j = i" for j using assms(1,2) by (simp add: slot_inv_def)
  then show ?thesis using assms by (auto simp: slot_inv_def)
qed

section \<open>The operations and the slot\<close>

lemma acquire_slot_Ok:
  "acquire_slot E c name w = Ok c' \<Longrightarrow> \<not> cl_slot c \<and> c' = c\<lparr>cl_slot := True\<rparr>"
  by (auto simp: acquire_slot_def split: if_splits option.splits)

lemma acquire_slot_Err:
  "acquire_slot E c name w = Err e \<Longrightarrow> name = [] \<or> ctx_err E w \<noteq> None"
  by (auto simp: acquire_slot_def split: if_splits option.splits)

lemma acquire_slot_free:
  "\<not> cl_slot c \<Longrightarrow> (\<exists>c'. acquire_slot E c name w = Ok c') \<or> (\<exists>e. acquire_slot E c name w = Err e)"
  by (auto simp: acquire_slot_def split: option.split)

lemma finish_open_cases:
  assumes "finish_open E c name w = (r, c', w')"
  obtains h where "r = Ok h" "c' = c" "s_open h" "h = \<lparr>s_parent = c, s_name = name, s_open = True\<rparr>"
    | e where "r = Err e" "\<not> cl_slot c'"
proof -
  obtain q v where q: "RunCmds E c (open_cmds name) ''json'' w = (q, v)" by fastforce
  then have "returns q" by (rule RunCmds_returns)
  then consider rows where "q = Ok rows" | e where "q = Err e" by (cases q) simp_all
  then show ?thesis
  proof cases
    case 1
    with assms q show ?thesis by (intro that(1) [OF _ _ _ refl]) (auto simp: finish_open_def)
  next
    case 2
    with assms q show ?thesis
      by (intro that(2) [of "Wrap (''eapi: open session '' @ name) e"]) (auto simp: finish_open_def)
  qed
qed

lemma slot_step_inv: "slot_step E s t \<Longrightarrow> slot_inv s \<Longrightarrow> slot_inv t"
proof (induction rule: slot_step.induct)
  case (enter s i name cmds w c)
  from acquire_slot_Ok [OF enter.hyps(2)] show ?case by (intro inv_enter enter.prems) auto
next
  case (refuse s i name cmds w e)
  then show ?case by (intro inv_outside) auto
next
  case (opened s i name cmds w r c w')
  have i: "in_session (ss_pc s i)" using opened.hyps(1) by simp
  show ?case using opened.hyps(2)
  proof (cases rule: finish_open_cases)
    case (1 h)
    then show ?thesis by (intro inv_inside opened.prems i) (simp_all add: after_open_def)
  next
    case (2 e)
    then show ?thesis by (intro inv_leave opened.prems i) (simp_all add: after_open_def)
  qed
next
  case (staged s i h cmds w r w')
  have i: "in_session (ss_pc s i)" "s_open h"
    using staged.hyps(1) inv_holds_open [OF staged.prems, of i] by simp_all
  have "returns r" using Stage_returns [of E "at_client s h" cmds w] staged.hyps(2) by simp
  then show ?case by (intro inv_inside staged.prems i(1)) (cases r; simp add: after_stage_def i(2))+
next
  case (committed s i h w r h' w')
  have i: "in_session (ss_pc s i)" "s_open (at_client s h)"
    using committed.hyps(1) inv_holds_open [OF committed.prems, of i] by (simp_all add: at_client_def)
  from Commit_closes [OF i(2) committed.hyps(2)] show ?case
    by (intro inv_leave committed.prems i(1)) (simp_all add: slot_free_def)
next
  case (aborted s i h e w r h' w')
  have i: "in_session (ss_pc s i)" "s_open (at_client s h)"
    using aborted.hyps(1) inv_holds_open [OF aborted.prems, of i] by (simp_all add: at_client_def)
  from Abort_closes [OF i(2) aborted.hyps(2)] show ?case
    by (intro inv_leave aborted.prems i(1)) (simp_all add: slot_free_def)
qed

lemma slot_reachable_inv: "slot_reachable E c jobs s \<Longrightarrow> slot_inv s"
  by (induction rule: slot_reachable.induct) (auto intro: slot_inv_start slot_step_inv)

section \<open>A goroutine by itself\<close>

text \<open>
  The steps of one goroutine, when no other comes between, are \<open>run_session\<close>: it ends with
  the same result and leaves the client in the same state.
\<close>

fun outcome :: "'n goroutine \<Rightarrow> unit res option" where
  "outcome (Done r) = Some r"
| "outcome (Refused e) = Some (Err e)"
| "outcome _ = None"

definition ends_with :: "('n, 'w) env \<Rightarrow> 'n slot_sys \<Rightarrow> nat \<Rightarrow> 'n client \<Rightarrow> unit res \<Rightarrow> bool" where
  "ends_with E s i c r \<longleftrightarrow>
     (\<exists>g. (slot_step E)\<^sup>*\<^sup>* s (moved s i c g) \<and> outcome g = Some r)"

lemma ends_with_step:
  assumes "slot_step E s (moved s i c1 g)" and "ends_with E (moved s i c1 g) i c r"
  shows "ends_with E s i c r"
proof -
  have "moved (moved s i c1 g) i c g' = moved s i c g'" for g' by (simp add: moved_def)
  with assms show ?thesis unfolding ends_with_def by (metis converse_rtranclp_into_rtranclp)
qed

lemma ends_with_last:
  "slot_step E s (moved s i c g) \<Longrightarrow> outcome g = Some r \<Longrightarrow> ends_with E s i c r"
  unfolding ends_with_def by blast

lemma close_ends_with:
  assumes "ss_pc s i = after_stage rs h" and "s_parent h = ss_client s"
    and "rs = Ok () \<Longrightarrow> Commit E h w = (rc, h', w') \<and> r = rc"
    and "\<And>e. rs = Err e \<Longrightarrow> Abort E h w = (rc, h', w') \<and> r = after_abort e rc"
    and "returns rs"
  shows "ends_with E s i (s_parent h') r"
proof -
  have h: "at_client s h = h" using assms(2) by (simp add: at_client_def)
  show ?thesis
  proof (cases rs)
    case (Ok u)
    then have "slot_step E s (moved s i (s_parent h') (Done rc))"
      using assms(1,3) by (intro slot_step.committed [where h = h and w = w and w' = w']) (simp_all add: after_stage_def h)
    from ends_with_last [OF this] show ?thesis using assms(3) Ok by simp
  next
    case (Err e)
    then have "slot_step E s (moved s i (s_parent h') (Done (after_abort e rc)))"
      using assms(1,4) by (intro slot_step.aborted [where h = h and w = w and w' = w']) (simp_all add: after_stage_def h)
    from ends_with_last [OF this] show ?thesis using assms(4) Err by simp
  qed (use assms(5) in simp_all)
qed

lemma run_session_ends_with:
  assumes pc: "ss_pc s i = Ready name cmds" and free: "\<not> cl_slot (ss_client s)"
    and run: "run_session E (ss_client s) name cmds w = (r, c', w')"
  shows "ends_with E s i c' r"
proof -
  let ?c = "ss_client s"
  from acquire_slot_free [OF free, of E name w]
  consider e where "acquire_slot E ?c name w = Err e" | c where "acquire_slot E ?c name w = Ok c" by blast
  then show ?thesis
  proof cases
    case 1
    with run have "r = Err e" "c' = ?c" by (simp_all add: run_session_def with_session_def OpenSession_def)
    with ends_with_last [OF slot_step.refuse [OF pc 1]] show ?thesis by simp
  next
    case 2
    let ?s = "moved s i c (Opening name cmds)"
    have "ends_with E ?s i c' r"
    proof -
      obtain ro c1 w1 where f: "finish_open E c name w = (ro, c1, w1)" by (metis prod.exhaust)
      then have f': "finish_open E (ss_client ?s) name w = (ro, c1, w1)" by simp
      have o: "OpenSession E ?c name w = (ro, c1, w1)" by (simp add: OpenSession_def 2 f)
      let ?t = "moved ?s i c1 (after_open ro cmds)"
      have st: "slot_step E ?s ?t" by (rule slot_step.opened [OF _ f']) simp
      show ?thesis using f
      proof (cases rule: finish_open_cases)
        case (2 e)
        with run o have "r = Err e" "c' = c1" by (simp_all add: run_session_def with_session_def)
        with 2 ends_with_last [OF st] show ?thesis by (simp add: after_open_def)
      next
        case (1 h)
        then have pc1: "ss_pc ?t i = Staging h cmds" and h: "at_client ?t h = h" "s_parent h = c1"
          by (simp_all add: after_open_def at_client_def)
        obtain rs w2 where sg: "Stage E h cmds w1 = (rs, w2)" by (rule prod.exhaust)
        have rs: "returns rs" using Stage_returns [of E h cmds w1] sg by simp
        let ?u = "moved ?t i c1 (after_stage rs h)"
        have su: "slot_step E ?t ?u"
          using slot_step.staged [OF pc1, of E w1 rs w2] sg h(1) by simp
        from rs consider (yes) "rs = Ok ()" | (no) e where "rs = Err e" by (cases rs) simp_all
        then have "ends_with E ?u i c' r"
        proof cases
          case yes
          obtain rc h' w3 where cm: "Commit E h w2 = (rc, h', w3)" by (metis prod.exhaust)
          with run o 1(1) sg yes have "r = rc" "c' = s_parent h'"
            by (simp_all add: run_session_def with_session_def)
          with cm yes show ?thesis
            using close_ends_with [of ?u i rs h E w2 rc h' w3 r] h(2) by simp
        next
          case no
          obtain rc h' w3 where ab: "Abort E h w2 = (rc, h', w3)" by (metis prod.exhaust)
          with run o 1(1) sg no have "r = after_abort e rc" "c' = s_parent h'"
            by (simp_all add: run_session_def with_session_def)
          with ab no show ?thesis
            using close_ends_with [of ?u i rs h E w2 rc h' w3 r] h(2) by simp
        qed
        with su have "ends_with E ?t i c' r" by (rule ends_with_step)
        with st show ?thesis by (rule ends_with_step)
      qed
    qed
    with slot_step.enter [OF pc 2] show ?thesis by (rule ends_with_step)
  qed
qed

end
