(* ===== verification/Fixtures.thy ===== *)
theory Fixtures
  imports Session_Managed Session_Slot
begin

text \<open>
  Concrete inputs at which the properties are instantiated: a provider configuration, the
  library functions on the few strings that occur, and contexts whose device is the
  reference device of \<open>Session_Device\<close> or a device that answers every command with one text.
\<close>

definition demo_config :: Config where
  "demo_config =
     \<lparr>EOSURL = ''https://leaf-01'', EOSUsername = ''admin'', EOSPassword = Some ''s3cret'',
      EOSTLSCACert = None, EOSTLSClientCert = None, EOSTLSClientKey = None,
      EOSInsecure = None, EOSTransport = None, EOSRequestTimeout = None, EOSSessionPrefix = None,
      CVPURL = [], CVPToken = None, CVPCACert = None,
      RetryMaxAttempts = None, RetryBaseDelay = None, RetryMaxDelay = None\<rparr>"

definition demo_url :: "string \<Rightarrow> error + url" where
  "demo_url s =
     (case CutPrefix s ''https://'' of
        Some h \<Rightarrow> Inr \<lparr>u_Scheme = ''https'', u_Host = h, u_Hostname = h, u_Port = [], u_Path = []\<rparr>
      | None \<Rightarrow>
          (case CutPrefix s ''ssh://'' of
             Some h \<Rightarrow> Inr \<lparr>u_Scheme = ''ssh'', u_Host = h, u_Hostname = h, u_Port = [], u_Path = []\<rparr>
           | None \<Rightarrow> Inl (Foreign ''parse'')))"

definition demo_lib :: golib where
  "demo_lib =
     \<lparr>url_Parse = demo_url, ParseDuration = (\<lambda>s. Inl (Foreign ''duration'')),
      sha256_hex = (\<lambda>s. s)\<rparr>"

definition demo_client :: "unit client" where
  "demo_client =
     \<lparr>cl_cfg = \<lparr>ec_Host = ''leaf-01'', ec_Port = 0, ec_Username = ''admin'', ec_Password = ''s3cret'',
                ec_Timeout = 30 * second, ec_UseHTTPS = True\<rparr>,
      cl_node = Some (), cl_slot = False\<rparr>"

definition sim_ctx :: "string \<Rightarrow> (unit, sim) ctx" where
  "sim_ctx suffix = \<lparr>cx_env = sim_env (''pulumi-'' @ suffix), cx_config = demo_config, cx_lib = demo_lib\<rparr>"

text \<open>A device that shows one text, whatever it is asked.\<close>

definition text_env :: "string \<Rightarrow> (unit, unit) env" where
  "text_env out =
     \<lparr>goeapi_connect = (\<lambda>_ _ _ _ _. Inr ()),
      node_run = (\<lambda>_ cmds _ w. (Inr [[(''output'', JStr out)]], w)),
      new_request_err = (\<lambda>_. None),
      http_do = (\<lambda>_ w. (Inr (Inr \<lparr>rpc_Result = [], rpc_Error = None\<rparr>), w)),
      ctx_err = (\<lambda>_. None),
      select_done = (\<lambda>_. False)\<rparr>"

definition text_ctx :: "string \<Rightarrow> (unit, unit) ctx" where
  "text_ctx out = \<lparr>cx_env = text_env out, cx_config = demo_config, cx_lib = demo_lib\<rparr>"

lemma connect_demo:
  "goeapi_connect E = (\<lambda>_ _ _ _ _. Inr ()) \<Longrightarrow> Host ov = None \<Longrightarrow> Username ov = None \<Longrightarrow> Password ov = None \<Longrightarrow>
     newClient \<lparr>cx_env = E, cx_config = demo_config, cx_lib = demo_lib\<rparr> ov = Ok demo_client"
  by (simp add: newClient_def EAPIClient_def splitEOSURL_def split_provider_def demo_config_def
      demo_lib_def demo_url_def hostPort_def requestTimeout_def duration_or_def
      defaultRequestTimeout_def New_def validate_config_def demo_client_def override_def)

lemma newClient_sim: "Host ov = None \<Longrightarrow> Username ov = None \<Longrightarrow> Password ov = None \<Longrightarrow>
    newClient (sim_ctx suffix) ov = Ok demo_client"
  unfolding sim_ctx_def by (rule connect_demo) (simp_all add: sim_env_def)

lemma newClient_text: "Host ov = None \<Longrightarrow> Username ov = None \<Longrightarrow> Password ov = None \<Longrightarrow>
    newClient (text_ctx out) ov = Ok demo_client"
  unfolding text_ctx_def by (rule connect_demo) (simp_all add: text_env_def)

lemma session_name_sim: "session_name (sim_ctx suffix) s = ''pulumi-'' @ s"
  by (simp add: session_name_def sim_ctx_def demo_config_def SessionPrefix_def defaultSessionPrefix_def)

lemma show_text_ctx: "show_text (text_ctx out) demo_client cmd w = (Ok out, w)"
  by (simp add: show_text_def RunCmds_def text_ctx_def text_env_def demo_client_def text_output_def get_str_def)

lemma demo_client_simps [simp]: "slot_free demo_client" "cl_node demo_client = Some ()"
  by (simp_all add: demo_client_def slot_free_def)

section \<open>A device with many sessions\<close>

text \<open>
  Unlike the reference device of \<open>Session_Device\<close>, which knows one session, this one reads
  the name of the session from the command and keeps what is pending under every name.
\<close>

record multi =
  mu_running :: "string list"
  mu_pending :: "string \<Rightarrow> string list"

definition multi_single :: "string \<Rightarrow> multi \<Rightarrow> multi" where
  "multi_single c w =
     (case CutPrefix c ''no configure session '' of
        Some name \<Rightarrow> w\<lparr>mu_pending := (mu_pending w)(name := [])\<rparr>
      | None \<Rightarrow>
          (case CutPrefix c ''configure session '' of
             Some r \<Rightarrow>
               (let name = take (length r - length '' commit'') r in
                w\<lparr>mu_running := mu_running w @ mu_pending w name, mu_pending := (mu_pending w)(name := [])\<rparr>)
           | None \<Rightarrow> w))"

definition multi_run :: "string list \<Rightarrow> multi \<Rightarrow> multi" where
  "multi_run cmds w =
     (case cmds of
        [] \<Rightarrow> w
      | c # rest \<Rightarrow>
          if rest = [] then multi_single c w
          else (case CutPrefix c ''configure session '' of
             Some name \<Rightarrow> w\<lparr>mu_pending := (mu_pending w)(name := mu_pending w name @ butlast rest)\<rparr>
           | None \<Rightarrow> w))"

definition multi_ctx :: "(unit, multi) ctx" where
  "multi_ctx =
     \<lparr>cx_env = \<lparr>goeapi_connect = (\<lambda>_ _ _ _ _. Inr ()), node_run = (\<lambda>_ cmds _ w. (Inr [], multi_run cmds w)),
        new_request_err = (\<lambda>_. None), http_do = (\<lambda>_ w. (Inr (Inr \<lparr>rpc_Result = [], rpc_Error = None\<rparr>), w)),
        ctx_err = (\<lambda>_. None), select_done = (\<lambda>_. False)\<rparr>,
      cx_config = demo_config, cx_lib = demo_lib\<rparr>"

lemma multi_honours:
  "honours_sessions (cx_env multi_ctx) n name mu_running (\<lambda>w. mu_pending w name) (@)"
  by (simp add: honours_sessions_def multi_ctx_def multi_run_def multi_single_def open_cmds_def
      stage_cmds_def commit_cmd_def abort_cmd_def)

lemma newClient_multi: "Host ov = None \<Longrightarrow> Username ov = None \<Longrightarrow> Password ov = None \<Longrightarrow>
    newClient multi_ctx ov = Ok demo_client"
  unfolding multi_ctx_def by (rule connect_demo) simp_all

end
