(* ===== verification/L2_Properties.thy ===== *)
theory L2_Properties
  imports Vlan_Range Port_Channel Vlan_Interface Vxlan_Interface Varp Mac_Address_Table Stp Mlag Evpn_Es Fixtures
begin

text \<open>
  The properties of the switching resources of \<open>internal/resources/l2\<close>, each with the concrete
  input at which it is instantiated.
\<close>

section \<open>A refresh of an unchanged resource\<close>

text \<open>
  Refresh of an interface.  When the device shows the commands that a valid interface
  renders (in any layout, and without the lines that only restate a default), reading it
  back returns its arguments unchanged, under its own ID: a refresh reports no drift.
\<close>

theorem interface_refresh_stable:
  assumes "validateInterface a = None" and "canonical_interface a"
    and "prints interface_idle out (buildInterfaceCmds a False)" and "newClient C a = Ok cli"
    and "show_text C cli (''show running-config interfaces '' @ if_Name a) w = (Ok out, w')"
  shows "Interface_Read C a w
       = (Ok (Some \<lparr>rd_ID = interfaceID (if_Name a), rd_Inputs = a, rd_State = a\<rparr>), w')"
  unfolding Interface_Read_def readInterface_def by (rule interface_rb.refresh_stable) (rule assms)+

definition demo_interface :: InterfaceArgs where
  "demo_interface =
     \<lparr>Host = None, Username = None, Password = None, if_Name = ''Ethernet1/1'', if_Description = Some ''to spine'',
      if_Mtu = Some 9214, if_Shutdown = Some False, if_SwitchportMode = Some ''trunk'', if_AccessVlan = None,
      if_TrunkAllowedVlans = Some ''10-20'', if_TrunkNativeVlan = Some 99,
      if_ChannelGroup = Some \<lparr>cg_Id = 7, cg_Mode = ''active''\<rparr>\<rparr>"

definition demo_text :: "string list \<Rightarrow> string" where
  "demo_text ls = block_text ''   '' ls"

lemma demo_read:
  assumes "\<forall>l\<in>set ls. clean_line l" and "ls \<noteq> []"
  shows "prints idle (demo_text ls) ls"
  unfolding demo_text_def using assms by (intro prints_block_text) (simp_all add: blanks_def)

theorem interface_refresh_stable_witness:
  "Interface_Read (text_ctx (demo_text (buildInterfaceCmds demo_interface False))) demo_interface ()
     = (Ok (Some \<lparr>rd_ID = ''interface/Ethernet1/1'', rd_Inputs = demo_interface, rd_State = demo_interface\<rparr>), ())"
proof -
  let ?out = "demo_text (buildInterfaceCmds demo_interface False)"
  have v: "validateInterface demo_interface = None" by code_simp
  have c: "canonical_interface demo_interface"
    by (simp add: canonical_interface_def canonical_switchport_def if_switchport_def demo_interface_def int64_def)
  have "\<forall>l\<in>set (buildInterfaceCmds demo_interface False). clean_line l" by code_simp
  then have p: "prints interface_idle ?out (buildInterfaceCmds demo_interface False)"
    by (rule demo_read) (simp add: buildInterfaceCmds_def)
  have cli: "newClient (text_ctx ?out) demo_interface = Ok demo_client"
    by (rule newClient_text) (simp_all add: demo_interface_def)
  from interface_refresh_stable [OF v c p cli show_text_ctx] show ?thesis
    by (simp add: interfaceID_def demo_interface_def)
qed

text \<open>
  Refresh of a port-channel: as for an interface, with the LACP fallback.
\<close>

theorem port_channel_refresh_stable:
  assumes "validatePortChannel a = None" and "canonical_port_channel a"
    and "prints interface_idle out (buildPortChannelCmds a False)" and "newClient C a = Ok cli"
    and "show_text C cli (''show running-config interfaces '' @ portChannelName (pc_Id a)) w = (Ok out, w')"
  shows "PortChannel_Read C a w
       = (Ok (Some \<lparr>rd_ID = portChannelID (pc_Id a), rd_Inputs = a, rd_State = a\<rparr>), w')"
  unfolding PortChannel_Read_def readPortChannel_def by (rule port_channel_rb.refresh_stable) (rule assms)+

definition demo_port_channel :: PortChannelArgs where
  "demo_port_channel =
     \<lparr>Host = None, Username = None, Password = None, pc_Id = 100, pc_Description = None, pc_Mtu = Some 9214,
      pc_Shutdown = None, pc_SwitchportMode = Some ''access'', pc_AccessVlan = Some 12,
      pc_TrunkAllowedVlans = None, pc_TrunkNativeVlan = None,
      pc_LacpFallback = Some ''individual'', pc_LacpFallbackTimeout = Some 30\<rparr>"

theorem port_channel_refresh_stable_witness:
  "PortChannel_Read (text_ctx (demo_text (buildPortChannelCmds demo_port_channel False))) demo_port_channel ()
     = (Ok (Some \<lparr>rd_ID = ''port-channel/100'', rd_Inputs = demo_port_channel, rd_State = demo_port_channel\<rparr>), ())"
proof -
  let ?out = "demo_text (buildPortChannelCmds demo_port_channel False)"
  have v: "validatePortChannel demo_port_channel = None" by code_simp
  have c: "canonical_port_channel demo_port_channel"
    by (simp add: canonical_port_channel_def canonical_switchport_def pc_switchport_def demo_port_channel_def int64_def)
  have "\<forall>l\<in>set (buildPortChannelCmds demo_port_channel False). clean_line l" by code_simp
  then have p: "prints interface_idle ?out (buildPortChannelCmds demo_port_channel False)"
    by (rule demo_read) (simp add: buildPortChannelCmds_def)
  have cli: "newClient (text_ctx ?out) demo_port_channel = Ok demo_client"
    by (rule newClient_text) (simp_all add: demo_port_channel_def)
  have i: "portChannelID (pc_Id demo_port_channel) = ''port-channel/100''" by code_simp
  from port_channel_refresh_stable [OF v c p cli show_text_ctx] show ?thesis unfolding i .
qed

text \<open>
  Refresh of a switched virtual interface, likewise; the anycast address is told apart
  from the per-device one.
\<close>

theorem vlan_interface_refresh_stable:
  assumes "validateVlanInterface a = None" and "canonical_vlan_interface a"
    and "prints svi_idle out (buildVlanInterfaceCmds a False)" and "newClient C a = Ok cli"
    and "show_text C cli (''show running-config interfaces Vlan'' @ Itoa (vi_VlanId a)) w = (Ok out, w')"
  shows "VlanInterface_Read C a w
       = (Ok (Some \<lparr>rd_ID = vlanInterfaceID (vi_VlanId a), rd_Inputs = a, rd_State = a\<rparr>), w')"
  unfolding VlanInterface_Read_def readVlanInterface_def by (rule vlan_interface_rb.refresh_stable) (rule assms)+

definition demo_svi :: VlanInterfaceArgs where
  "demo_svi =
     \<lparr>Host = None, Username = None, Password = None, vi_VlanId = 10, vi_Vrf = Some ''blue'', vi_IpAddress = None,
      vi_IpAddressVirtual = Some ''10.0.0.1/24'', vi_Mtu = None, vi_Description = None,
      vi_NoAutostate = Some True, vi_Shutdown = None\<rparr>"

theorem vlan_interface_refresh_stable_witness:
  "VlanInterface_Read (text_ctx (demo_text (buildVlanInterfaceCmds demo_svi False))) demo_svi ()
     = (Ok (Some \<lparr>rd_ID = ''vlan-interface/10'', rd_Inputs = demo_svi, rd_State = demo_svi\<rparr>), ())"
proof -
  let ?out = "demo_text (buildVlanInterfaceCmds demo_svi False)"
  have v: "validateVlanInterface demo_svi = None" by code_simp
  have c: "canonical_vlan_interface demo_svi"
    by (simp add: canonical_vlan_interface_def demo_svi_def)
  have "\<forall>l\<in>set (buildVlanInterfaceCmds demo_svi False). clean_line l" by code_simp
  then have p: "prints svi_idle ?out (buildVlanInterfaceCmds demo_svi False)"
    by (rule demo_read) (simp add: buildVlanInterfaceCmds_def)
  have cli: "newClient (text_ctx ?out) demo_svi = Ok demo_client"
    by (rule newClient_text) (simp_all add: demo_svi_def)
  have i: "vlanInterfaceID (vi_VlanId demo_svi) = ''vlan-interface/10''" by code_simp
  from vlan_interface_refresh_stable [OF v c p cli show_text_ctx] show ?thesis unfolding i .
qed

text \<open>
  C15. Refresh of the VXLAN interface.  The bindings and VTEPs are read back sorted, so a
  refresh is stable for arguments in that order; the inputs, whose arrays the reader
  writes into, keep their values then, whatever the capacities of the arrays.
\<close>

theorem vxlan_refresh_stable:
  assumes "validateVxlanInterface a = None" and "canonical_vxlan a"
    and "prints vxlan_idle out (buildVxlanInterfaceCmds a False)" and "newClient C a = Ok cli"
    and "show_text C cli (''show running-config interfaces '' @ vxlanInterfaceName (vx_Id a)) w = (Ok out, w')"
  shows "VxlanInterface_Read C caps a w
       = (Ok (Some \<lparr>rd_ID = vxlanInterfaceID (vx_Id a), rd_Inputs = a, rd_State = a\<rparr>), w')"
proof -
  have "parseVxlanInterfaceConfig out (vx_Id a) = Some (shown_vxlan a)" and "out \<noteq> []"
    using assms(1,2,3) parse_shown_vxlan vxlan_rb.shown_text by (auto simp: canonical_vxlan_def)
  then show ?thesis
    using assms(2,4,5) fill_shown_vxlan shared_shown_vxlan
    by (simp add: VxlanInterface_Read_def crud_read_shared_def readVxlanInterface_def read_text_def)
qed

definition demo_vxlan :: VxlanInterfaceArgs where
  "demo_vxlan =
     \<lparr>Host = None, Username = None, Password = None, vx_Id = 1, vx_Description = None,
      vx_SourceInterface = ''Loopback1'', vx_UdpPort = Some 4789,
      vx_VlanVniMap = [\<lparr>vv_VlanId = 10, vv_Vni = 10010\<rparr>, \<lparr>vv_VlanId = 20, vv_Vni = 10020\<rparr>],
      vx_VrfVniMap = [\<lparr>fv_Vrf = ''blue'', fv_Vni = 50001\<rparr>], vx_FloodVteps = [''10.0.0.1'', ''10.0.0.2'']\<rparr>"

theorem vxlan_refresh_stable_witness:
  "VxlanInterface_Read (text_ctx (demo_text (buildVxlanInterfaceCmds demo_vxlan False))) (2, 1, 4) demo_vxlan ()
     = (Ok (Some \<lparr>rd_ID = ''vxlan-interface/1'', rd_Inputs = demo_vxlan, rd_State = demo_vxlan\<rparr>), ())"
proof -
  let ?out = "demo_text (buildVxlanInterfaceCmds demo_vxlan False)"
  have v: "validateVxlanInterface demo_vxlan = None" by code_simp
  have c: "canonical_vxlan demo_vxlan" by code_simp
  have "\<forall>l\<in>set (buildVxlanInterfaceCmds demo_vxlan False). clean_line l" by code_simp
  then have p: "prints vxlan_idle ?out (buildVxlanInterfaceCmds demo_vxlan False)"
    by (rule demo_read) (simp add: buildVxlanInterfaceCmds_def)
  have cli: "newClient (text_ctx ?out) demo_vxlan = Ok demo_client"
    by (rule newClient_text) (simp_all add: demo_vxlan_def)
  have i: "vxlanInterfaceID (vx_Id demo_vxlan) = ''vxlan-interface/1''" by code_simp
  from vxlan_refresh_stable [OF v c p cli show_text_ctx] show ?thesis unfolding i .
qed

text \<open>
  Refresh of the MLAG configuration, for arguments that give both recovery delays or
  neither.
\<close>

theorem mlag_refresh_stable:
  assumes "validateMlag a = None" and "canonical_mlag a"
    and "prints mlag_idle out (buildMlagCmds a False)" and "newClient C a = Ok cli"
    and "show_text C cli ''show running-config | section mlag configuration'' w = (Ok out, w')"
  shows "Mlag_Read C a w = (Ok (Some \<lparr>rd_ID = mlagID, rd_Inputs = a, rd_State = a\<rparr>), w')"
  unfolding Mlag_Read_def readMlag_def by (rule mlag_rb.refresh_stable) (rule assms)+

definition demo_mlag :: MlagArgs where
  "demo_mlag =
     \<lparr>Host = None, Username = None, Password = None, ml_DomainId = ''fabric'', ml_LocalInterface = ''Vlan4094'',
      ml_PeerLink = ''Port-Channel10'', ml_PeerAddress = ''10.255.0.2'',
      ml_PeerAddressHeartbeat = Some ''192.168.0.2'', ml_PeerAddressHeartbeatVrf = Some ''mgmt'',
      ml_PrimaryPriority = Some 100, ml_DualPrimaryDetectionDelay = Some 10,
      ml_DualPrimaryAction = Some ''errdisable all-interfaces'',
      ml_DualPrimaryRecoveryDelayMlag = Some 60, ml_DualPrimaryRecoveryDelayNonMlag = None,
      ml_ReloadDelayMlag = Some 300, ml_ReloadDelayNonMlag = None, ml_Shutdown = Some False\<rparr>"

definition both_delays :: MlagArgs where
  "both_delays = demo_mlag\<lparr>ml_DualPrimaryRecoveryDelayNonMlag := Some 90\<rparr>"

theorem mlag_refresh_stable_witness:
  "Mlag_Read (text_ctx (demo_text (buildMlagCmds both_delays False))) both_delays ()
     = (Ok (Some \<lparr>rd_ID = ''mlag'', rd_Inputs = both_delays, rd_State = both_delays\<rparr>), ())"
proof -
  let ?out = "demo_text (buildMlagCmds both_delays False)"
  have v: "validateMlag both_delays = None" by code_simp
  have c: "canonical_mlag both_delays"
    by (simp add: canonical_mlag_def readable_mlag_def both_delays_def demo_mlag_def int64_def
        word_string_def space_byte_def ascii_space_def)
  have "\<forall>l\<in>set (buildMlagCmds both_delays False). clean_line l" by code_simp
  then have p: "prints mlag_idle ?out (buildMlagCmds both_delays False)"
    by (rule demo_read) (simp add: buildMlagCmds_def)
  have cli: "newClient (text_ctx ?out) both_delays = Ok demo_client"
    by (rule newClient_text) (simp_all add: both_delays_def demo_mlag_def)
  from mlag_refresh_stable [OF v c p cli show_text_ctx] show ?thesis by (simp add: mlagID_def)
qed

text \<open>
  Refresh of the spanning tree.  The device does not show the commands that restate a
  default, so the text is that of the other commands; the instances are read back in the
  order of their numbers, in which the arguments have to list them.
\<close>

theorem stp_refresh_stable:
  assumes "validateStp a = None" and "canonical_stp a"
    and "prints stp_idle out (shown_stp a)" and "newClient C a = Ok cli"
    and "show_text C cli ''show running-config | section spanning-tree'' w = (Ok out, w')"
  shows "Stp_Read C a w = (Ok (Some \<lparr>rd_ID = stpID, rd_Inputs = a, rd_State = a\<rparr>), w')"
  unfolding Stp_Read_def readStp_def by (rule stp_rb.refresh_stable) (rule assms)+

definition demo_stp :: StpArgs where
  "demo_stp =
     \<lparr>Host = None, Username = None, Password = None, st_Mode = Some ''mstp'',
      st_EdgePortBpduGuardDefault = Some True,
      st_Mst = Some \<lparr>mc_Name = Some ''dc1'', mc_Revision = Some 3,
        mc_Instances = [\<lparr>mi_Id = 1, mi_VlanRange = ''1-99''\<rparr>, \<lparr>mi_Id = 2, mi_VlanRange = ''100,200''\<rparr>]\<rparr>\<rparr>"

theorem stp_refresh_stable_witness:
  "Stp_Read (text_ctx (demo_text (shown_stp demo_stp))) demo_stp ()
     = (Ok (Some \<lparr>rd_ID = ''stp'', rd_Inputs = demo_stp, rd_State = demo_stp\<rparr>), ())"
proof -
  let ?out = "demo_text (shown_stp demo_stp)"
  have v: "validateStp demo_stp = None" by code_simp
  have "shown_stp demo_stp \<noteq> []" "canonical_mst (the (st_Mst demo_stp))" by code_simp+
  then have c: "canonical_stp demo_stp" by (simp add: canonical_stp_def demo_stp_def)
  have l: "\<forall>l\<in>set (shown_stp demo_stp). clean_line l" by code_simp
  have "shown_stp demo_stp \<noteq> []" using c by (simp add: canonical_stp_def)
  with l have p: "prints stp_idle ?out (shown_stp demo_stp)" by (rule demo_read)
  have cli: "newClient (text_ctx ?out) demo_stp = Ok demo_client"
    by (rule newClient_text) (simp_all add: demo_stp_def)
  from stp_refresh_stable [OF v c p cli show_text_ctx] show ?thesis by (simp add: stpID_def)
qed

text \<open>
  Refresh of an EVPN Ethernet segment, for an election whose preference is given with
  its algorithm.
\<close>

theorem es_refresh_stable:
  assumes "validateEvpnEthernetSegment a = None" and "canonical_es a"
    and "prints es_idle out (buildEvpnEthernetSegmentCmds a False)" and "newClient C a = Ok cli"
    and "show_text C cli (''show running-config interfaces '' @ es_ParentInterface a) w = (Ok out, w')"
  shows "EvpnEthernetSegment_Read C a w
       = (Ok (Some \<lparr>rd_ID = evpnEthernetSegmentID (es_ParentInterface a), rd_Inputs = a, rd_State = a\<rparr>), w')"
  unfolding EvpnEthernetSegment_Read_def readEvpnEthernetSegment_def
  by (rule es_rb.refresh_stable) (rule assms)+

definition demo_es :: EvpnEthernetSegmentArgs where
  "demo_es =
     \<lparr>Host = None, Username = None, Password = None, es_ParentInterface = ''Port-Channel5'',
      es_Identifier = ''0011:2233:4455:6677:8899'', es_Redundancy = Some ''all-active'',
      es_RouteTargetImport = Some ''00:11:22:33:44:55'',
      es_DesignatedForwarder = Some \<lparr>df_Algorithm = ''preference'', df_Preference = Some 200,
        df_DontPreempt = Some True, df_HoldTime = Some 5\<rparr>\<rparr>"

theorem es_refresh_stable_witness:
  "EvpnEthernetSegment_Read (text_ctx (demo_text (buildEvpnEthernetSegmentCmds demo_es False))) demo_es ()
     = (Ok (Some \<lparr>rd_ID = ''evpn-ethernet-segment/Port-Channel5'', rd_Inputs = demo_es, rd_State = demo_es\<rparr>), ())"
proof -
  let ?out = "demo_text (buildEvpnEthernetSegmentCmds demo_es False)"
  have v: "validateEvpnEthernetSegment demo_es = None" by code_simp
  have c: "canonical_es demo_es" by (simp add: canonical_es_def canonical_df_def demo_es_def int64_def)
  have "\<forall>l\<in>set (buildEvpnEthernetSegmentCmds demo_es False). clean_line l" by code_simp
  then have p: "prints es_idle ?out (buildEvpnEthernetSegmentCmds demo_es False)"
    by (rule demo_read) (simp add: buildEvpnEthernetSegmentCmds_def)
  have cli: "newClient (text_ctx ?out) demo_es = Ok demo_client"
    by (rule newClient_text) (simp_all add: demo_es_def)
  have i: "evpnEthernetSegmentID (es_ParentInterface demo_es) = ''evpn-ethernet-segment/Port-Channel5''" by code_simp
  from es_refresh_stable [OF v c p cli show_text_ctx] show ?thesis unfolding i .
qed

section \<open>What the readers get wrong\<close>

text \<open>
  C16. A validated Ethernet segment whose election uses the algorithm \<open>preference\<close> without
  a preference cannot be read: the reader indexes past the end of the line that its own
  renderer produced, and the refresh panics.
\<close>

theorem es_read_panics:
  assumes "validateEvpnEthernetSegment a = None" and "es_DesignatedForwarder a = Some d"
    and "df_Algorithm d = ''preference''" and "df_Preference d = None"
    and "prints es_idle out (buildEvpnEthernetSegmentCmds a False)" and "newClient C a = Ok cli"
    and "show_text C cli (''show running-config interfaces '' @ es_ParentInterface a) w = (Ok out, w')"
  shows "EvpnEthernetSegment_Read C a w = (Panic, w')"
proof -
  have "parseEvpnEthernetSegmentConfig out (es_ParentInterface a) = Panic"
    by (rule es_reader_panics) (rule assms)+
  moreover have "out \<noteq> []" using es_header [OF assms(5)] Contains_nonempty by blast
  ultimately show ?thesis
    using assms(6,7)
    by (simp add: EvpnEthernetSegment_Read_def crud_read_def readEvpnEthernetSegment_def read_text_def)
qed

definition bare_es :: EvpnEthernetSegmentArgs where
  "bare_es = demo_es\<lparr>es_DesignatedForwarder := Some \<lparr>df_Algorithm = ''preference'', df_Preference = None,
        df_DontPreempt = None, df_HoldTime = None\<rparr>\<rparr>"

theorem es_read_panics_witness:
  "validateEvpnEthernetSegment bare_es = None \<and>
   EvpnEthernetSegment_Read (text_ctx (demo_text (buildEvpnEthernetSegmentCmds bare_es False))) bare_es () = (Panic, ())"
proof -
  let ?out = "demo_text (buildEvpnEthernetSegmentCmds bare_es False)"
  have v: "validateEvpnEthernetSegment bare_es = None" by code_simp
  have "\<forall>l\<in>set (buildEvpnEthernetSegmentCmds bare_es False). clean_line l" by code_simp
  then have p: "prints es_idle ?out (buildEvpnEthernetSegmentCmds bare_es False)"
    by (rule demo_read) (simp add: buildEvpnEthernetSegmentCmds_def)
  have cli: "newClient (text_ctx ?out) bare_es = Ok demo_client"
    by (rule newClient_text) (simp_all add: bare_es_def demo_es_def)
  have d: "es_DesignatedForwarder bare_es = Some \<lparr>df_Algorithm = ''preference'', df_Preference = None,
        df_DontPreempt = None, df_HoldTime = None\<rparr>" by (simp add: bare_es_def)
  from es_read_panics [OF v d _ _ p cli show_text_ctx] v show ?thesis by simp
qed

text \<open>
  One recovery delay given, the other one appears.  The reader of the MLAG
  configuration reports a delay that was not given as zero, so a refresh of an unchanged
  block shows a change.
\<close>

theorem mlag_refresh_adds_delay:
  assumes "validateMlag a = None" and "readable_mlag a"
    and "ml_DualPrimaryRecoveryDelayMlag a = Some d" and "ml_DualPrimaryRecoveryDelayNonMlag a = None"
    and "prints mlag_idle out (buildMlagCmds a False)" and "newClient C a = Ok cli"
    and "show_text C cli ''show running-config | section mlag configuration'' w = (Ok out, w')"
  shows "\<exists>s. Mlag_Read C a w = (Ok (Some \<lparr>rd_ID = mlagID, rd_Inputs = a, rd_State = s\<rparr>), w')
            \<and> ml_DualPrimaryRecoveryDelayNonMlag s = Some 0"
proof -
  have "parseMlagConfig out = Some (shown_mlag a)" by (rule parse_shown_mlag) (rule assms)+
  moreover have "out \<noteq> []" using mlag_header [OF assms(5)] Contains_nonempty by blast
  ultimately show ?thesis
    using assms(6,7) recovery_phantom [OF assms(3,4)]
    by (simp add: Mlag_Read_def crud_read_def readMlag_def read_text_def)
qed

theorem mlag_refresh_adds_delay_witness:
  "ml_DualPrimaryRecoveryDelayNonMlag demo_mlag = None \<and>
   (\<exists>s. Mlag_Read (text_ctx (demo_text (buildMlagCmds demo_mlag False))) demo_mlag ()
      = (Ok (Some \<lparr>rd_ID = mlagID, rd_Inputs = demo_mlag, rd_State = s\<rparr>), ())
    \<and> ml_DualPrimaryRecoveryDelayNonMlag s = Some 0)"
proof -
  let ?out = "demo_text (buildMlagCmds demo_mlag False)"
  have v: "validateMlag demo_mlag = None" by code_simp
  have c: "readable_mlag demo_mlag"
    by (simp add: readable_mlag_def demo_mlag_def int64_def word_string_def space_byte_def ascii_space_def)
  have d: "ml_DualPrimaryRecoveryDelayMlag demo_mlag = Some 60" "ml_DualPrimaryRecoveryDelayNonMlag demo_mlag = None"
    by (simp_all add: demo_mlag_def)
  have "\<forall>l\<in>set (buildMlagCmds demo_mlag False). clean_line l" by code_simp
  then have p: "prints mlag_idle ?out (buildMlagCmds demo_mlag False)"
    by (rule demo_read) (simp add: buildMlagCmds_def)
  have cli: "newClient (text_ctx ?out) demo_mlag = Ok demo_client"
    by (rule newClient_text) (simp_all add: demo_mlag_def)
  from mlag_refresh_adds_delay [OF v c d p cli show_text_ctx] d show ?thesis by blast
qed

text \<open>
  C17. A refresh of the VXLAN interface changes its inputs.  The bindings are read back
  sorted, into the array that the inputs share: inputs that list them in another order are
  reordered, although nobody asked for a change.
\<close>

theorem vxlan_refresh_rewrites_inputs:
  assumes "validateVxlanInterface a = None" and "\<forall>e\<in>set (vx_VrfVniMap a). word_string (fv_Vrf e)"
    and "length (vx_VlanVniMap a) \<le> n1" and "length (vx_VrfVniMap a) \<le> n2" and "length (vx_FloodVteps a) \<le> n3"
    and "prints vxlan_idle out (buildVxlanInterfaceCmds a False)" and "newClient C a = Ok cli"
    and "show_text C cli (''show running-config interfaces '' @ vxlanInterfaceName (vx_Id a)) w = (Ok out, w')"
  shows "\<exists>r. VxlanInterface_Read C (n1, n2, n3) a w = (Ok (Some r), w')
       \<and> rd_Inputs r = a\<lparr>vx_VlanVniMap := sort_key vv_VlanId (vx_VlanVniMap a),
            vx_VrfVniMap := sort_key fv_Vrf (vx_VrfVniMap a), vx_FloodVteps := sort (vx_FloodVteps a)\<rparr>"
proof -
  have parse: "parseVxlanInterfaceConfig out (vx_Id a) = Some (shown_vxlan a)"
    by (rule parse_shown_vxlan) (rule assms)+
  have "out \<noteq> []" using vxlan_header [OF assms(6)] Contains_nonempty by blast
  moreover have "shared_inputs (n1, n2, n3) (shown_vxlan a) a
      = a\<lparr>vx_VlanVniMap := sort_key vv_VlanId (vx_VlanVniMap a),
          vx_VrfVniMap := sort_key fv_Vrf (vx_VrfVniMap a), vx_FloodVteps := sort (vx_FloodVteps a)\<rparr>"
    using assms(3,4,5) by (simp add: shared_inputs_def shown_vxlan_def shared_write_def)
  ultimately show ?thesis
    using assms(7,8) parse
    by (simp add: VxlanInterface_Read_def crud_read_shared_def readVxlanInterface_def read_text_def)
qed

definition swapped_vxlan :: VxlanInterfaceArgs where
  "swapped_vxlan = demo_vxlan\<lparr>vx_VlanVniMap := [\<lparr>vv_VlanId = 20, vv_Vni = 10020\<rparr>, \<lparr>vv_VlanId = 10, vv_Vni = 10010\<rparr>]\<rparr>"

theorem vxlan_refresh_rewrites_inputs_witness:
  "\<exists>r. VxlanInterface_Read (text_ctx (demo_text (buildVxlanInterfaceCmds swapped_vxlan False))) (2, 1, 2) swapped_vxlan ()
      = (Ok (Some r), ()) \<and> vx_VlanVniMap (rd_Inputs r) \<noteq> vx_VlanVniMap swapped_vxlan"
proof -
  let ?out = "demo_text (buildVxlanInterfaceCmds swapped_vxlan False)"
  have v: "validateVxlanInterface swapped_vxlan = None" by code_simp
  have wd: "\<forall>e\<in>set (vx_VrfVniMap swapped_vxlan). word_string (fv_Vrf e)" by code_simp
  have "\<forall>l\<in>set (buildVxlanInterfaceCmds swapped_vxlan False). clean_line l" by code_simp
  then have p: "prints vxlan_idle ?out (buildVxlanInterfaceCmds swapped_vxlan False)"
    by (rule demo_read) (simp add: buildVxlanInterfaceCmds_def)
  have cli: "newClient (text_ctx ?out) swapped_vxlan = Ok demo_client"
    by (rule newClient_text) (simp_all add: swapped_vxlan_def demo_vxlan_def)
  have n: "length (vx_VlanVniMap swapped_vxlan) \<le> 2" "length (vx_VrfVniMap swapped_vxlan) \<le> 1"
    "length (vx_FloodVteps swapped_vxlan) \<le> 2" by (simp_all add: swapped_vxlan_def demo_vxlan_def)
  have "sort_key vv_VlanId (vx_VlanVniMap swapped_vxlan) \<noteq> vx_VlanVniMap swapped_vxlan" by code_simp
  with vxlan_refresh_rewrites_inputs [OF v wd n p cli show_text_ctx] show ?thesis by force
qed

section \<open>Normal forms\<close>

text \<open>
  The rendered VXLAN interface does not depend on the order in which bindings and
  VTEPs are given, so reordering them in a program is no change on the device.
\<close>

theorem vxlan_order_irrelevant:
  assumes "validateVxlanInterface a = None"
    and "mset vlans = mset (vx_VlanVniMap a)" and "mset vrfs = mset (vx_VrfVniMap a)"
    and "mset vteps = mset (vx_FloodVteps a)"
  shows "buildVxlanInterfaceCmds (a\<lparr>vx_VlanVniMap := vlans, vx_VrfVniMap := vrfs, vx_FloodVteps := vteps\<rparr>) rm
       = buildVxlanInterfaceCmds a rm"
proof -
  have d: "distinct (map vv_VlanId (vx_VlanVniMap a))" "distinct (map fv_Vrf (vx_VrfVniMap a))"
    using assms(1) by (simp_all add: validateVxlanInterface_None)
  have "sort_key vv_VlanId vlans = sort_key vv_VlanId (vx_VlanVniMap a)"
    and "sort_key fv_Vrf vrfs = sort_key fv_Vrf (vx_VrfVniMap a)"
    using sort_key_mset_eq [OF d(1) assms(2) [symmetric]] sort_key_mset_eq [OF d(2) assms(3) [symmetric]]
    by simp_all
  moreover have "sort vteps = sort (vx_FloodVteps a)" "vteps = [] \<longleftrightarrow> vx_FloodVteps a = []"
    using assms(4) by (metis sorted_list_of_multiset_mset, metis mset_zero_iff)
  ultimately show ?thesis by (simp add: buildVxlanInterfaceCmds_def flood_cmds_def)
qed

theorem vxlan_order_irrelevant_witness:
  "buildVxlanInterfaceCmds swapped_vxlan False = buildVxlanInterfaceCmds demo_vxlan False"
proof -
  have v: "validateVxlanInterface demo_vxlan = None" by code_simp
  have "mset (vx_VlanVniMap swapped_vxlan) = mset (vx_VlanVniMap demo_vxlan)"
    by (simp add: swapped_vxlan_def demo_vxlan_def)
  from vxlan_order_irrelevant [OF v this refl refl, of False] show ?thesis
    by (simp add: swapped_vxlan_def demo_vxlan_def)
qed

text \<open>
  The virtual-router address.  A valid address, in whatever notation it is given,
  renders in one normal form, which is its own normal form and is what the device's text is
  read back as.
\<close>

theorem varp_normal_form:
  assumes "validateVarp a = None"
  shows "\<exists>mac. buildVarpCmds a False = Inr [''ip virtual-router mac-address '' @ mac]
       \<and> normalizeMac (TrimSpace (va_MacAddress a)) = Some mac \<and> normalizeMac mac = Some mac
       \<and> (\<forall>out. prints noise out [''ip virtual-router mac-address '' @ mac] \<longrightarrow> parseVarpConfig out = Some mac)"
proof -
  obtain mac where n: "normalizeMac (TrimSpace (va_MacAddress a)) = Some mac"
    and b: "buildVarpCmds a False = Inr [''ip virtual-router mac-address '' @ mac]"
    using valid_varp_renders [OF assms] by blast
  with normalizeMac_idem parseVarp_written [OF assms b] show ?thesis by metis
qed

theorem varp_normal_form_witness:
  "buildVarpCmds \<lparr>Host = None, Username = None, Password = None, va_MacAddress = '' 001C.7300.0001''\<rparr> False
     = Inr [''ip virtual-router mac-address 00:1c:73:00:00:01'']
   \<and> normalizeMac ''00:1c:73:00:00:01'' = Some ''00:1c:73:00:00:01''"
proof -
  let ?a = "\<lparr>Host = None, Username = None, Password = None, va_MacAddress = '' 001C.7300.0001''\<rparr>"
  have v: "validateVarp ?a = None" by code_simp
  have "normalizeMac (TrimSpace (va_MacAddress ?a)) = Some ''00:1c:73:00:00:01''" by code_simp
  with varp_normal_form [OF v] show ?thesis by auto
qed

text \<open>
  The MAC address table.  The call returns exactly the rows of the response that match
  the VLAN and the entry type asked for, in the response's order, and their number.
\<close>

theorem mac_table_filtered:
  assumes "validateMacEntryType (mt_EntryType a) = None" and "newClient C a = Ok cli"
    and "RunCmds (cx_env C) cli [''show mac address-table''] ''json'' w = (Ok resp, w')"
  shows "\<exists>res. MacAddressTable_Invoke C a w = (Ok res, w')
       \<and> mr_Entries res = filter (matches (mt_Vlan a) (mt_EntryType a)) (map macEntryFromRow (table_rows resp))
       \<and> mr_Count res = length (mr_Entries res)"
  using assms by (simp add: MacAddressTable_Invoke_def and_then_def parseMacTable_filter Let_def errorf_def)

definition demo_table :: "row list" where
  "demo_table =
     (let entry = (\<lambda>v m t. JObj [(''vlanId'', JNum v), (''macAddress'', JStr m), (''entryType'', JStr t),
                                (''interface'', JStr ''Ethernet1'')])
      in [[(''unicastTable'', JObj [(''tableEntries'',
            JArr [entry 10 ''00:1C:73:00:00:01'' ''dynamic'', entry 20 ''00:1C:73:00:00:02'' ''static'',
                  JStr ''?'', entry 10 ''00:1C:73:00:00:03'' ''static''])])]])"

definition table_ctx :: "(unit, unit) ctx" where
  "table_ctx = \<lparr>cx_env = (text_env [])\<lparr>node_run := \<lambda>_ cmds _ w. (Inr demo_table, w)\<rparr>,
                cx_config = demo_config, cx_lib = demo_lib\<rparr>"

definition demo_query :: MacAddressTableArgs where
  "demo_query = \<lparr>Host = None, Username = None, Password = None, mt_Vlan = Some 10, mt_EntryType = Some ''Static''\<rparr>"

theorem mac_table_filtered_witness:
  "\<exists>res. MacAddressTable_Invoke table_ctx demo_query () = (Ok res, ())
     \<and> map me_Mac (mr_Entries res) = [''00:1c:73:00:00:03''] \<and> mr_Count res = 1"
proof -
  have v: "validateMacEntryType (mt_EntryType demo_query) = None" by code_simp
  have cli: "newClient table_ctx demo_query = Ok demo_client"
    unfolding table_ctx_def by (rule connect_demo) (simp_all add: text_env_def demo_query_def)
  have run: "RunCmds (cx_env table_ctx) demo_client [''show mac address-table''] ''json'' () = (Ok demo_table, ())"
    by (simp add: RunCmds_def table_ctx_def text_env_def demo_client_def)
  have "map me_Mac (filter (matches (Some 10) (Some ''Static'')) (map macEntryFromRow (table_rows demo_table)))
      = [''00:1c:73:00:00:03'']"
    by code_simp
  with mac_table_filtered [OF v cli run] show ?thesis by (auto simp: demo_query_def dest: arg_cong [of _ _ length])
qed

section \<open>VLANs\<close>

text \<open>
  Refresh of a VLAN.  A VLAN that the device lists keeps its arguments, with the name
  that the device shows, the one it derives by itself included; a VLAN that is not listed is
  reported as gone.
\<close>

theorem vlan_refresh:
  assumes "newClient C a = Ok cli" and "RunCmds (cx_env C) cli [''show vlan''] ''json'' w = (Ok (row # rows), w')"
    and "get_obj row ''vlans'' = Some vlans"
  shows "Vlan_Read C a w
     = (Ok (map_option (\<lambda>entry. \<lparr>rd_ID = vlanID (vlan_Id a), rd_Inputs = a,
               rd_State = (case nonempty (get_str entry ''name'') of
                             Some n \<Rightarrow> a\<lparr>vlan_Name := Some n\<rparr> | None \<Rightarrow> a)\<rparr>)
             (get_obj vlans (Itoa (vlan_Id a)))), w')"
proof -
  have "vlan_row (row # rows) (vlan_Id a)
      = map_option (\<lambda>entry. or_empty (get_str entry ''name'')) (get_obj vlans (Itoa (vlan_Id a)))"
    using assms(3) by (auto simp: vlan_row_def get_obj_def split: option.split)
  moreover have "fillVlan (or_empty p) a
      = (case nonempty p of Some n \<Rightarrow> a\<lparr>vlan_Name := Some n\<rparr> | None \<Rightarrow> a)" for p
    by (cases p) (simp_all add: fillVlan_def set_str_def nonempty_def)
  ultimately show ?thesis
    using assms(1,2) by (simp add: Vlan_Read_def crud_read_def readVlan_def option.map_comp comp_def)
qed

text \<open>The answer of \<open>show vlan\<close> for a table of VLANs and their names.\<close>

definition vlan_rows :: "(int \<times> string) list \<Rightarrow> row list" where
  "vlan_rows vs = [[(''vlans'', JObj (map (\<lambda>(i, name). (Itoa i, JObj [(''name'', JStr name)])) vs))]]"

definition lists_vlans :: "('n, 'w) env \<Rightarrow> 'n \<Rightarrow> ('w \<Rightarrow> (int \<times> string) list) \<Rightarrow> bool" where
  "lists_vlans E n vlans \<longleftrightarrow>
     (\<forall>w. node_run E n [''show vlan''] ''json'' w = (Inr (vlan_rows (vlans w)), w))"

lemma range_row_vlan_rows: "range_row (vlan_rows vs) i = map_of vs i"
proof -
  have "map_of (map (\<lambda>(i, name). (Itoa i, JObj [(''name'', JStr name)])) vs) (Itoa i)
      = map_option (\<lambda>name. JObj [(''name'', JStr name)]) (map_of vs i)"
    by (induction vs) (auto dest: Itoa_injective)
  then show ?thesis
    by (cases "map_of vs i") (simp_all add: range_row_def vlan_rows_def get_obj_def get_str_def)
qed

lemma readVlanForRange_listed:
  assumes "lists_vlans (cx_env C) n vlans" and "cl_node cli = Some n"
  shows "readVlanForRange C cli i w
     = ((case ctx_err (cx_env C) w of Some e \<Rightarrow> Err e | None \<Rightarrow> Ok (map_of (vlans w) i)), w)"
  using assms by (simp add: readVlanForRange_def RunCmds_def lists_vlans_def range_row_vlan_rows split: option.split)

text \<open>
  C20. Refresh of a range of VLANs looks at both of its ends and at nothing else.  On a device
  that lists its VLANs, Read reports the range as gone when its first or its last VLAN is
  missing, and otherwise as the inputs, with the name of the first VLAN unless that is
  empty or one that the device made up; a context that is done is an error.  So two tables
  that agree at the two ends give the same answer: a VLAN removed from the middle of the
  range, or renamed there, goes unnoticed.
\<close>

theorem vlan_range_refresh:
  assumes "newClient C a = Ok cli" and "cl_node cli = Some n" and "lists_vlans (cx_env C) n vlans"
  shows "VlanRange_Read C a w
     = ((case ctx_err (cx_env C) w of
           Some e \<Rightarrow> Err e
         | None \<Rightarrow>
             Ok (case map_of (vlans w) (vr_Start a) of
                   None \<Rightarrow> None
                 | Some name \<Rightarrow>
                     (if map_of (vlans w) (vr_End a) = None then None
                      else Some \<lparr>rd_ID = vlanRangeID (vr_Start a) (vr_End a), rd_Inputs = a,
                                 rd_State = (if name = [] \<or> HasPrefix name ''VLAN'' then a
                                             else a\<lparr>vr_Name := Some name\<rparr>)\<rparr>))), w)
     \<and> (\<forall>w'. ctx_err (cx_env C) w' = ctx_err (cx_env C) w
          \<longrightarrow> map_of (vlans w') (vr_Start a) = map_of (vlans w) (vr_Start a)
          \<longrightarrow> map_of (vlans w') (vr_End a) = map_of (vlans w) (vr_End a)
          \<longrightarrow> fst (VlanRange_Read C a w') = fst (VlanRange_Read C a w))"
  using assms(1) readVlanForRange_listed [OF assms(3,2)]
  by (simp add: VlanRange_Read_def crud_read_def readVlanRange_def fillVlanRange_def split: option.split)

text \<open>A device that lists the VLANs 10 and 12.\<close>

definition vlan_table :: "row list" where
  "vlan_table =
     [[(''vlans'', JObj [(''10'', JObj [(''name'', JStr ''users'')]), (''12'', JObj [(''name'', JStr ''VLAN0012'')])])]]"

definition vlan_ctx :: "(unit, unit) ctx" where
  "vlan_ctx = \<lparr>cx_env = (text_env [])\<lparr>node_run := \<lambda>_ cmds _ w. (Inr vlan_table, w)\<rparr>,
               cx_config = demo_config, cx_lib = demo_lib\<rparr>"

lemma vlan_ctx_run: "RunCmds (cx_env vlan_ctx) demo_client [''show vlan''] ''json'' () = (Ok vlan_table, ())"
  by (simp add: RunCmds_def vlan_ctx_def text_env_def demo_client_def)

definition demo_vlan_args :: VlanArgs where
  "demo_vlan_args = \<lparr>Host = None, Username = None, Password = None, vlan_Id = 12, vlan_Name = None\<rparr>"

theorem vlan_refresh_witness:
  "Vlan_Read vlan_ctx demo_vlan_args ()
     = (Ok (Some \<lparr>rd_ID = ''vlan/12'', rd_Inputs = demo_vlan_args,
                  rd_State = demo_vlan_args\<lparr>vlan_Name := Some ''VLAN0012''\<rparr>\<rparr>), ())"
proof -
  have cli: "newClient vlan_ctx demo_vlan_args = Ok demo_client"
    unfolding vlan_ctx_def by (rule connect_demo) (simp_all add: text_env_def demo_vlan_args_def)
  obtain row vlans where t: "vlan_table = row # []" and o: "get_obj row ''vlans'' = Some vlans"
    and e: "get_obj vlans ''12'' = Some [(''name'', JStr ''VLAN0012'')]"
    by (simp add: vlan_table_def get_obj_def)
  have i: "Itoa 12 = ''12''" "vlanID 12 = ''vlan/12''" by code_simp+
  have n: "vlan_Id demo_vlan_args = 12" by (simp add: demo_vlan_args_def)
  from vlan_refresh [OF cli vlan_ctx_run [unfolded t] o] show ?thesis
    by (simp add: n i e get_str_def nonempty_def)
qed

definition demo_range :: VlanRangeArgs where
  "demo_range = \<lparr>Host = None, Username = None, Password = None, vr_Start = 10, vr_End = 12, vr_Name = Some ''users''\<rparr>"

text \<open>A device whose state is its table of VLANs.\<close>

definition vlans_ctx :: "(unit, (int \<times> string) list) ctx" where
  "vlans_ctx =
     \<lparr>cx_env = \<lparr>goeapi_connect = (\<lambda>_ _ _ _ _. Inr ()), node_run = (\<lambda>_ cmds _ vs. (Inr (vlan_rows vs), vs)),
        new_request_err = (\<lambda>_. None), http_do = (\<lambda>_ w. (Inr (Inr \<lparr>rpc_Result = [], rpc_Error = None\<rparr>), w)),
        ctx_err = (\<lambda>_. None), select_done = (\<lambda>_. False)\<rparr>,
      cx_config = demo_config, cx_lib = demo_lib\<rparr>"

theorem vlan_range_refresh_witness:
  "fst (VlanRange_Read vlans_ctx demo_range [(10, ''users''), (11, ''users''), (12, ''users'')])
     = Ok (Some \<lparr>rd_ID = ''vlan-range/10-12'', rd_Inputs = demo_range, rd_State = demo_range\<rparr>)
   \<and> fst (VlanRange_Read vlans_ctx demo_range [(10, ''users''), (12, ''users'')])
     = Ok (Some \<lparr>rd_ID = ''vlan-range/10-12'', rd_Inputs = demo_range, rd_State = demo_range\<rparr>)
   \<and> fst (VlanRange_Read vlans_ctx demo_range [(10, ''users''), (11, ''users'')]) = Ok None"
proof -
  have cli: "newClient vlans_ctx demo_range = Ok demo_client"
    unfolding vlans_ctx_def by (rule connect_demo) (simp_all add: demo_range_def)
  have l: "lists_vlans (cx_env vlans_ctx) () (\<lambda>vs. vs)" and live: "ctx_err (cx_env vlans_ctx) w = None" for w
    by (simp_all add: lists_vlans_def vlans_ctx_def)
  have i: "vlanRangeID 10 12 = ''vlan-range/10-12''" by code_simp
  have p: "\<not> HasPrefix ''users'' ''VLAN''" by simp
  from vlan_range_refresh [OF cli demo_client_simps(2) l] show ?thesis
    by (simp add: live demo_range_def i p)
qed

end
