(* ===== verification/Configlet.thy ===== *)
theory Configlet
  imports Resource
begin

text \<open>
  \<open>internal/resources/device/configlet.go\<close>: a named block of raw configuration lines,
  applied in one session; its digest is the drift signal.  The lines that the package
  shares with \<open>raw_cli.go\<close> are here too.
\<close>

definition ErrConfigletNameRequired :: error where
  [errs]: "ErrConfigletNameRequired = Sentinel ''configlet name is required''"
definition ErrConfigletContentRequired :: error where
  [errs]: "ErrConfigletContentRequired =
     Sentinel ''configlet content is required (at least one non-blank line)''"

record ConfigletArgs = overrides +
  cf_Name :: string
  cf_Description :: "string option"
  cf_Body :: string

record ConfigletState = ConfigletArgs +
  cf_BodySha256 :: string

text \<open>\<open>strings.TrimRight(raw, " \t\r")\<close> on each line; lines that are blank are dropped.\<close>

definition trailing :: string where
  "trailing = [CHR '' '', CHR 0x09, CHR 0x0D]"

definition canonicalConfigletLines :: "string \<Rightarrow> string list" where
  "canonicalConfigletLines body =
     filter (\<lambda>l. TrimSpace l \<noteq> []) (map (\<lambda>raw. TrimRight raw trailing) (lines body))"

definition body_digest :: "golib \<Rightarrow> string list \<Rightarrow> string" where
  "body_digest L cmds = sha256_hex L (Join cmds [newline])"

definition prepareConfiglet :: "golib \<Rightarrow> ConfigletArgs \<Rightarrow> (string list \<times> string) res" where
  "prepareConfiglet L args =
     (if TrimSpace (cf_Name args) = [] then Err ErrConfigletNameRequired
      else let cmds = canonicalConfigletLines (cf_Body args) in
           if cmds = [] then Err ErrConfigletContentRequired
           else Ok (cmds, body_digest L cmds))"

definition configletID :: "string \<Rightarrow> string" where
  "configletID name = ''configlet/'' @ name"

text \<open>\<open>sanitizeForSession\<close> of package \<open>device\<close>: four characters become hyphens.\<close>

definition device_sanitizeForSession :: "string \<Rightarrow> string" where
  "device_sanitizeForSession name =
     replace_bytes [(CHR ''/'', CHR ''-''), (CHR '' '', CHR ''-''), (CHR '':'', CHR ''-''), (CHR ''.'', CHR ''-'')] name"

definition applyConfiglet ::
  "('n, 'w) ctx \<Rightarrow> ConfigletArgs \<Rightarrow> string list \<Rightarrow> 'w \<Rightarrow> unit res \<times> 'w" where
  "applyConfiglet C args cmds w =
     apply_session C args (''configlet-'' @ device_sanitizeForSession (cf_Name args)) cmds w"

definition configlet_state :: "ConfigletArgs \<Rightarrow> string \<Rightarrow> ConfigletState" where
  "configlet_state a digest = ConfigletArgs.extend a (ConfigletState.fields digest)"

definition Configlet_Create ::
  "('n, 'w) ctx \<Rightarrow> ConfigletArgs request \<Rightarrow> 'w \<Rightarrow> ConfigletState created res \<times> 'w" where
  "Configlet_Create C req =
     and_then (prepareConfiglet (cx_lib C) (Inputs req)) (\<lambda>(cmds, digest) w.
       let a = Inputs req;
           resp = \<lparr>cr_ID = configletID (cf_Name a), cr_Output = configlet_state a digest\<rparr> in
       if DryRun req then (Ok resp, w)
       else (case applyConfiglet C a cmds w of
               (r, w') \<Rightarrow> (map_res (\<lambda>_. resp) (errorf (''create configlet '' @ cf_Name a) r), w')))"

definition Configlet_Read ::
  "('n, 'w) ctx \<Rightarrow> ConfigletArgs \<Rightarrow> (ConfigletArgs, ConfigletState) read_response res" where
  "Configlet_Read C a =
     map_res (\<lambda>(cmds, digest). \<lparr>rd_ID = configletID (cf_Name a), rd_Inputs = a, rd_State = configlet_state a digest\<rparr>)
       (prepareConfiglet (cx_lib C) a)"

definition Configlet_Update ::
  "('n, 'w) ctx \<Rightarrow> ConfigletArgs request \<Rightarrow> 'w \<Rightarrow> ConfigletState res \<times> 'w" where
  "Configlet_Update C req =
     and_then (prepareConfiglet (cx_lib C) (Inputs req)) (\<lambda>(cmds, digest) w.
       let a = Inputs req; st = configlet_state a digest in
       if DryRun req then (Ok st, w)
       else (case applyConfiglet C a cmds w of
               (r, w') \<Rightarrow> (map_res (\<lambda>_. st) (errorf (''update configlet '' @ cf_Name a) r), w')))"

text \<open>Delete leaves the device alone.\<close>

definition Configlet_Delete :: "ConfigletState \<Rightarrow> 'w \<Rightarrow> unit res \<times> 'w" where
  "Configlet_Delete st w = (Ok (), w)"

section \<open>Canonical bodies\<close>

lemma TrimRight_idem [simp]: "TrimRight (TrimRight s c) c = TrimRight s c"
  by (simp add: TrimRight_def)

lemma TrimRight_prefix: "\<exists>b. s = TrimRight s c @ b \<and> set b \<subseteq> set c"
proof -
  have "rev s = takeWhile (\<lambda>x. x \<in> set c) (rev s) @ dropWhile (\<lambda>x. x \<in> set c) (rev s)" by simp
  then have "s = TrimRight s c @ rev (takeWhile (\<lambda>x. x \<in> set c) (rev s))"
    unfolding TrimRight_def by (metis rev_append rev_rev_ident)
  then show ?thesis by (intro exI conjI) (auto dest: set_takeWhileD)
qed

definition canonical_line :: "string \<Rightarrow> bool" where
  "canonical_line l \<longleftrightarrow> TrimSpace l \<noteq> [] \<and> TrimRight l trailing = l \<and> newline \<notin> set l"

lemma canonicalConfigletLines_lines:
  "l \<in> set (canonicalConfigletLines body) \<Longrightarrow> canonical_line l"
proof -
  assume "l \<in> set (canonicalConfigletLines body)"
  then obtain raw where raw: "raw \<in> set (lines body)" and l: "l = TrimRight raw trailing" and "TrimSpace l \<noteq> []"
    by (auto simp: canonicalConfigletLines_def)
  moreover have "newline \<notin> set raw" using raw unfolding lines_def by (rule split_at_no_delim)
  then have "newline \<notin> set l" using TrimRight_prefix [of raw trailing] l by (metis UnI1 set_append)
  ultimately show ?thesis by (simp add: canonical_line_def)
qed

text \<open>Canonicalising is stable: the joined canonical lines are their own canonical form.\<close>

lemma canonicalConfigletLines_Join:
  assumes "\<forall>l\<in>set ls. canonical_line l" and "ls \<noteq> []"
  shows "canonicalConfigletLines (Join ls [newline]) = ls"
proof -
  have "lines (Join ls [newline]) = ls"
    unfolding lines_def by (rule split_at_Join) (use assms in \<open>auto simp: canonical_line_def\<close>)
  moreover have "map (\<lambda>raw. TrimRight raw trailing) ls = ls"
    using assms(1) by (simp add: canonical_line_def map_idI)
  moreover have "filter (\<lambda>l. TrimSpace l \<noteq> []) ls = ls"
    using assms(1) by (simp add: canonical_line_def filter_id_conv)
  ultimately show ?thesis by (simp add: canonicalConfigletLines_def)
qed

lemma configlet_canonical_stable:
  "canonicalConfigletLines (Join (canonicalConfigletLines body) [newline]) = canonicalConfigletLines body"
proof (cases "canonicalConfigletLines body = []")
  case True
  then show ?thesis
    by (simp add: canonicalConfigletLines_def lines_def TrimRight_def)
next
  case False
  then show ?thesis using canonicalConfigletLines_Join canonicalConfigletLines_lines by metis
qed

lemma prepareConfiglet_Ok:
  "prepareConfiglet L a = Ok (cmds, d) \<longleftrightarrow>
     TrimSpace (cf_Name a) \<noteq> [] \<and> cmds = canonicalConfigletLines (cf_Body a) \<and> cmds \<noteq> [] \<and> d = body_digest L cmds"
  by (auto simp: prepareConfiglet_def Let_def)

section \<open>Every handler returns\<close>

lemma prepareConfiglet_returns [simp]: "returns (prepareConfiglet L a)"
  by (simp add: prepareConfiglet_def Let_def)

lemma applyConfiglet_returns: "applyConfiglet C a cmds w = (r, w') \<Longrightarrow> returns r"
  using apply_session_returns unfolding applyConfiglet_def by (metis fst_conv)

lemma configlet_returns:
  "returns (fst (Configlet_Create C req w))" "returns (fst (Configlet_Update C req w))" "returns (fst (Configlet_Delete st w))"
  unfolding Configlet_Create_def Configlet_Update_def Configlet_Delete_def Let_def
  by ((intro and_then_returns prepareConfiglet_returns)?; auto dest: applyConfiglet_returns split: prod.split)+

end
