(* ===== verification/Raw_Cli.thy ===== *)
theory Raw_Cli
  imports Configlet Session_Device
begin

text \<open>
  \<open>internal/resources/device/raw_cli.go\<close>: a raw block that is committed only when the
  session differs from the running configuration.  \<open>with_diff_session\<close> is the session
  pattern with that inspection; the locale \<open>diff_session\<close> extends the interface of a session
  provider by the inspection.
\<close>

definition ErrRawCliNameRequired :: error where
  [errs]: "ErrRawCliNameRequired = Sentinel ''rawCli name is required''"
definition ErrRawCliContentRequired :: error where
  [errs]: "ErrRawCliContentRequired = Sentinel ''rawCli body is required (at least one non-blank line)''"

record RawCliArgs = overrides +
  rc_Name :: string
  rc_Description :: "string option"
  rc_Body :: string
  rc_DeleteBody :: "string option"

record RawCliState = RawCliArgs +
  rc_BodySha256 :: string
  rc_LastDiffSha256 :: string
  rc_LastDiffEmpty :: bool

definition prepareRawCli :: "golib \<Rightarrow> 'x RawCliArgs_scheme \<Rightarrow> (string list \<times> string) res" where
  "prepareRawCli L args =
     (if TrimSpace (rc_Name args) = [] then Err ErrRawCliNameRequired
      else let cmds = canonicalConfigletLines (rc_Body args) in
           if cmds = [] then Err ErrRawCliContentRequired
           else Ok (cmds, body_digest L cmds))"

text \<open>Only blank lines and the two header lines: nothing changed.\<close>

definition diff_noise :: "string \<Rightarrow> bool" where
  "diff_noise line \<longleftrightarrow> line = [] \<or> HasPrefix line ''---'' \<or> HasPrefix line ''+++''"

definition isEmptyDiff :: "string \<Rightarrow> bool" where
  "isEmptyDiff diff \<longleftrightarrow> (\<forall>line\<in>set (trimmed_lines diff). diff_noise line)"

text \<open>
  The pattern: open, stage, inspect, then abort when the difference counts as empty and
  commit otherwise; a failed staging or inspection aborts too.  On success the result is
  \<open>None\<close> after an abort and the difference after a commit.
\<close>

definition with_diff_session ::
  "('c \<Rightarrow> string \<Rightarrow> 'w \<Rightarrow> 's res \<times> 'c \<times> 'w) \<Rightarrow> ('s \<Rightarrow> 'm \<Rightarrow> 'w \<Rightarrow> unit res \<times> 'w) \<Rightarrow>
   ('s \<Rightarrow> 'w \<Rightarrow> string res \<times> 'w) \<Rightarrow>
   ('s \<Rightarrow> 'w \<Rightarrow> unit res \<times> 's \<times> 'w) \<Rightarrow> ('s \<Rightarrow> 'w \<Rightarrow> unit res \<times> 's \<times> 'w) \<Rightarrow> ('s \<Rightarrow> 'c) \<Rightarrow>
   'c \<Rightarrow> string \<Rightarrow> 'm \<Rightarrow> 'w \<Rightarrow> string option res \<times> 'c \<times> 'w" where
  "with_diff_session opn stg dif abt cmt par c name m w =
     (case opn c name w of
        (Ok s, c1, w1) \<Rightarrow>
          (case stg s m w1 of
             (Ok _, w2) \<Rightarrow>
               (case dif s w2 of
                  (Ok d, w3) \<Rightarrow>
                    (if isEmptyDiff d then (case abt s w3 of (r, s', w4) \<Rightarrow> (map_res (\<lambda>_. None) r, par s', w4))
                     else (case cmt s w3 of (r, s', w4) \<Rightarrow> (map_res (\<lambda>_. Some d) r, par s', w4)))
                | (Err e, w3) \<Rightarrow>
                    (case abt s w3 of (r, s', w4) \<Rightarrow> (map_res (\<lambda>_. None) (after_abort e r), par s', w4))
                | (Panic, w3) \<Rightarrow> (Panic, c1, w3)
                | (Blocked, w3) \<Rightarrow> (Blocked, c1, w3))
           | (Err e, w2) \<Rightarrow>
               (case abt s w2 of (r, s', w3) \<Rightarrow> (map_res (\<lambda>_. None) (after_abort e r), par s', w3))
           | (Panic, w2) \<Rightarrow> (Panic, c1, w2)
           | (Blocked, w2) \<Rightarrow> (Blocked, c1, w2))
      | (r, c1, w1) \<Rightarrow> (map_res (\<lambda>_. None) r, c1, w1))"

definition run_diff_session ::
  "('n, 'w) env \<Rightarrow> 'n client \<Rightarrow> string \<Rightarrow> string list \<Rightarrow> 'w \<Rightarrow> string option res \<times> 'n client \<times> 'w" where
  "run_diff_session E = with_diff_session (OpenSession E) (Stage E) (Diff E) (Abort E) (Commit E) s_parent"

text \<open>The digest of the committed difference, empty after a no-op, and whether it was one.\<close>

definition diff_outcome :: "golib \<Rightarrow> string option \<Rightarrow> string \<times> bool" where
  "diff_outcome L d = (case d of None \<Rightarrow> ([], True) | Some t \<Rightarrow> (sha256_hex L t, False))"

definition rawcli_suffix :: "string \<Rightarrow> string \<Rightarrow> string" where
  "rawcli_suffix op' name = ''rawcli-'' @ op' @ ''-'' @ device_sanitizeForSession name"

definition applyRawCli ::
  "('n, 'w) ctx \<Rightarrow> 'x RawCliArgs_scheme \<Rightarrow> string list \<Rightarrow> string \<Rightarrow> 'w \<Rightarrow> (string \<times> bool) res \<times> 'w" where
  "applyRawCli C args cmds op' =
     and_then (newClient C args) (\<lambda>cli w.
       case run_diff_session (cx_env C) cli (session_name C (rawcli_suffix op' (rc_Name args))) cmds w of
         (r, _, w') \<Rightarrow> (map_res (diff_outcome (cx_lib C)) r, w'))"

definition rawCliID :: "string \<Rightarrow> string" where
  "rawCliID name = ''rawCli/'' @ name"

definition rawcli_state :: "RawCliArgs \<Rightarrow> string \<Rightarrow> string \<Rightarrow> bool \<Rightarrow> RawCliState" where
  "rawcli_state a body diff noop = RawCliArgs.extend a (RawCliState.fields body diff noop)"

definition RawCli_Create ::
  "('n, 'w) ctx \<Rightarrow> RawCliArgs request \<Rightarrow> 'w \<Rightarrow> RawCliState created res \<times> 'w" where
  "RawCli_Create C req =
     and_then (prepareRawCli (cx_lib C) (Inputs req)) (\<lambda>(cmds, digest) w.
       let a = Inputs req; i = rawCliID (rc_Name a) in
       if DryRun req then (Ok \<lparr>cr_ID = i, cr_Output = rawcli_state a digest [] False\<rparr>, w)
       else (case applyRawCli C a cmds ''create'' w of
               (r, w') \<Rightarrow> (map_res (\<lambda>(sha, noop). \<lparr>cr_ID = i, cr_Output = rawcli_state a digest sha noop\<rparr>)
                            (errorf (''create rawCli '' @ rc_Name a) r), w')))"

text \<open>Read keeps the two facts about the last apply from the prior state.\<close>

definition RawCli_Read ::
  "('n, 'w) ctx \<Rightarrow> RawCliArgs \<Rightarrow> RawCliState \<Rightarrow> (RawCliArgs, RawCliState) read_response res" where
  "RawCli_Read C a prior =
     map_res (\<lambda>(cmds, digest).
         \<lparr>rd_ID = rawCliID (rc_Name a), rd_Inputs = a,
          rd_State = rawcli_state a digest (rc_LastDiffSha256 prior) (rc_LastDiffEmpty prior)\<rparr>)
       (prepareRawCli (cx_lib C) a)"

definition RawCli_Update ::
  "('n, 'w) ctx \<Rightarrow> RawCliArgs request \<Rightarrow> 'w \<Rightarrow> RawCliState res \<times> 'w" where
  "RawCli_Update C req =
     and_then (prepareRawCli (cx_lib C) (Inputs req)) (\<lambda>(cmds, digest) w.
       let a = Inputs req in
       if DryRun req then (Ok (rawcli_state a digest [] False), w)
       else (case applyRawCli C a cmds ''update'' w of
               (r, w') \<Rightarrow> (map_res (\<lambda>(sha, noop). rawcli_state a digest sha noop)
                            (errorf (''update rawCli '' @ rc_Name a) r), w')))"

definition RawCli_Delete :: "('n, 'w) ctx \<Rightarrow> RawCliState \<Rightarrow> 'w \<Rightarrow> unit res \<times> 'w" where
  "RawCli_Delete C st w =
     (case rc_DeleteBody st of
        None \<Rightarrow> (Ok (), w)
      | Some b \<Rightarrow>
          (let cmds = canonicalConfigletLines b in
           if cmds = [] then (Ok (), w)
           else (case applyRawCli C st cmds ''delete'' w of
                   (r, w') \<Rightarrow> (map_res (\<lambda>_. ()) (errorf (''delete rawCli '' @ rc_Name st) r), w'))))"

section \<open>The pattern always ends, with the slot free\<close>

locale diff_session = config_session opn stg abt cmt par free live
  for opn :: "'c \<Rightarrow> string \<Rightarrow> 'w \<Rightarrow> 's res \<times> 'c \<times> 'w"
    and stg :: "'s \<Rightarrow> 'm \<Rightarrow> 'w \<Rightarrow> unit res \<times> 'w"
    and abt :: "'s \<Rightarrow> 'w \<Rightarrow> unit res \<times> 's \<times> 'w"
    and cmt :: "'s \<Rightarrow> 'w \<Rightarrow> unit res \<times> 's \<times> 'w"
    and par :: "'s \<Rightarrow> 'c"
    and free :: "'c \<Rightarrow> bool"
    and live :: "'s \<Rightarrow> bool" +
  fixes dif :: "'s \<Rightarrow> 'w \<Rightarrow> string res \<times> 'w"
  assumes diff_returns: "returns (fst (dif s w))"
begin

lemma with_diff_session_total:
  assumes "free c" and "with_diff_session opn stg dif abt cmt par c name m w = (r, c', w')"
  shows "returns r \<and> free c'"
proof -
  obtain ro c1 w1 where o: "opn c name w = (ro, c1, w1)" by (cases "opn c name w") auto
  have ret: "returns ro" using open_returns [OF assms(1), of name w] o by simp
  show ?thesis
  proof (cases ro)
    case (Ok s)
    with o open_live assms(1) have live: "live s" by blast
    obtain rs w2 where st: "stg s m w1 = (rs, w2)" by (cases "stg s m w1")
    obtain rd w3 where df: "dif s w2 = (rd, w3)" by (cases "dif s w2")
    have "returns rs" "returns rd" using stage_returns [of s m w1] st diff_returns [of s w2] df by simp_all
    note closes = abort_closes [OF live] commit_closes [OF live]
    note run = assms(2) [unfolded with_diff_session_def, simplified o Ok st, simplified]
    show ?thesis
    proof (cases rs)
      case (Err e)
      obtain ra s' w3 where ab: "abt s w2 = (ra, s', w3)" by (cases "abt s w2")
      with run st Err closes(1) [OF ab] show ?thesis by auto
    next
      case (Ok u)
      obtain ra sa wa where ab: "abt s w3 = (ra, sa, wa)" by (cases "abt s w3")
      obtain rc sc wc where cm: "cmt s w3 = (rc, sc, wc)" by (cases "cmt s w3")
      from run st Ok ab cm df closes(1) [OF ab] closes(2) [OF cm] \<open>returns rd\<close> show ?thesis
        by (cases rd) (auto split: if_splits)
    qed (use \<open>returns rs\<close> in simp_all)
  next
    case (Err e)
    with o assms open_failed show ?thesis by (auto simp: with_diff_session_def)
  qed (use ret in simp_all)
qed

end

lemma Diff_returns: "returns (fst (Diff E s w))"
  by (auto simp: Diff_def RunCmds_returns split: prod.splits)

interpretation eapi_diff: diff_session "OpenSession E" "Stage E" "Abort E" "Commit E"
  s_parent slot_free s_open "Diff E"
  by unfold_locales (rule Diff_returns)

section \<open>On a device that honours sessions\<close>

text \<open>
  The inspection changes neither configuration, and its text is the difference between the
  running configuration and what the session would make of it, as a function of the two.
\<close>

definition shows_diffs ::
  "('n, 'w) env \<Rightarrow> 'n \<Rightarrow> string \<Rightarrow> ('w \<Rightarrow> 'cfg) \<Rightarrow> ('w \<Rightarrow> string list) \<Rightarrow> ('cfg \<Rightarrow> string list \<Rightarrow> string) \<Rightarrow> bool"
where
  "shows_diffs E n name running pending diff \<longleftrightarrow>
     (\<forall>w r w'. node_run E n [''show session-config named '' @ name @ '' diffs''] ''text'' w = (r, w') \<longrightarrow>
        running w' = running w \<and> pending w' = pending w
        \<and> (\<forall>rows. r = Inr rows \<longrightarrow> text_output rows = diff (running w) (pending w)))"

lemma RunCmds_rows:
  assumes "RunCmds E c cmds fmt w = (Ok rows, w')" and "cl_node c = Some n" and "fmt \<noteq> []"
  shows "node_run E n cmds fmt w = (Inr rows, w')"
  using assms by (auto simp: RunCmds_def split: option.splits prod.splits sum.splits)

lemma Diff_device:
  assumes "shows_diffs E n (s_name s) running pending diff" and d: "Diff E s w = (r, w')" and "cl_node (s_parent s) = Some n"
  shows "running w' = running w \<and> pending w' = pending w \<and> (\<forall>t. r = Ok t \<longrightarrow> t = diff (running w) (pending w))"
proof (cases "s_open s")
  case True
  obtain q where q: "RunCmds E (s_parent s) [''show session-config named '' @ s_name s @ '' diffs''] ''text'' w = (q, w')"
    and r: "r = errorf (''eapi: diff '' @ s_name s) (map_res text_output q)"
    using d True by (auto simp: Diff_def split: prod.splits)
  have "t = diff (running w) (pending w)" if t: "r = Ok t" for t
  proof -
    obtain rows where rows: "q = Ok rows" "t = text_output rows" using t r by auto
    have "node_run E n [''show session-config named '' @ s_name s @ '' diffs''] ''text'' w = (Inr rows, w')"
      using RunCmds_rows [OF q [unfolded rows(1)] assms(3)] by simp
    with assms(1) rows(2) show ?thesis unfolding shows_diffs_def by blast
  qed
  with RunCmds_node [OF q assms(3)] assms(1) show ?thesis by (fastforce simp: shows_diffs_def)
qed (use d in \<open>auto simp: Diff_def\<close>)

text \<open>An abort that succeeds leaves nothing pending.\<close>

lemma Abort_clears:
  assumes "honours_sessions E n (s_name s) running pending merge"
    and "Abort E s w = (Ok u, s', w')" and "s_open s" and "cl_node (s_parent s) = Some n"
  shows "pending w' = []"
proof -
  obtain rows where "RunCmds E (s_parent s) [abort_cmd (s_name s)] ''json'' w = (Ok rows, w')"
    using assms(2,3) by (auto simp: Abort_def split: prod.splits)
  from RunCmds_rows [OF this assms(4)] assms(1) show ?thesis by (simp add: honours_sessions_def)
qed

text \<open>
  What one run does, by the difference \<open>d\<close> that the device shows: nothing when it counts as
  empty, and the merge of all that is pending otherwise.
\<close>

definition diff_run_effect ::
  "('w \<Rightarrow> 'cfg) \<Rightarrow> ('w \<Rightarrow> string list) \<Rightarrow> 'cfg \<Rightarrow> string \<Rightarrow> 'w \<Rightarrow> string option res \<Rightarrow> 'w \<Rightarrow> bool" where
  "diff_run_effect running pending merged d w r w' \<longleftrightarrow>
     (case r of
        Ok shown \<Rightarrow>
          shown = (if isEmptyDiff d then None else Some d)
          \<and> running w' = (if isEmptyDiff d then running w else merged) \<and> pending w' = []
      | _ \<Rightarrow> running w' = running w)"

lemma run_diff_session_device:
  assumes h: "honours_sessions E n name running pending merge" and sd: "shows_diffs E n name running pending diff"
    and run: "run_diff_session E c name cmds w = (r, c', w')"
    and free: "slot_free c" and node: "cl_node c = Some n"
  shows "diff_run_effect running pending (merge (running w) (pending w @ cmds))
      (diff (running w) (pending w @ cmds)) w r w'"
proof -
  obtain ro c1 w1 where o: "OpenSession E c name w = (ro, c1, w1)" by (metis prod.exhaust)
  note o' = OpenSession_device [OF h o node]
  show ?thesis
  proof (cases "\<exists>s. ro = Ok s")
    case False
    with o run o' show ?thesis
      by (cases ro) (auto simp: run_diff_session_def with_diff_session_def diff_run_effect_def)
  next
    case True
    then obtain s where s: "ro = Ok s" ..
    with o have so: "s_open s" and sn: "s_name s = name" and nd: "cl_node (s_parent s) = Some n"
      using OpenSession_session node by (fastforce dest: OpenSession_session)+
    obtain rs w2 where st: "Stage E s cmds w1 = (rs, w2)" by (rule prod.exhaust)
    obtain rd w3 where df: "Diff E s w2 = (rd, w3)" by (rule prod.exhaust)
    note st' = Stage_device [OF h [folded sn] st nd] and df' = Diff_device [OF sd [folded sn] df nd]
    note run' = run [unfolded run_diff_session_def with_diff_session_def, simplified o s st, simplified]
    show ?thesis
    proof (cases rs)
      case (Err e)
      obtain ra s' w4 where ab: "Abort E s w2 = (ra, s', w4)" by (metis prod.exhaust)
      from run' st Err ab Abort_device [OF h [folded sn] ab nd] st' o' show ?thesis
        by (auto simp: diff_run_effect_def split: res.split)
    next
      case (Ok u)
      obtain ra sa wa where ab: "Abort E s w3 = (ra, sa, wa)" by (metis prod.exhaust)
      obtain rc sc wc where cm: "Commit E s w3 = (rc, sc, wc)" by (metis prod.exhaust)
      note ab' = Abort_device [OF h [folded sn] ab nd] and cm' = Commit_device [OF h [folded sn] cm nd]
      have clears: "ra = Ok u' \<Longrightarrow> pending wa = []" for u'
        using Abort_clears [OF h [folded sn] _ so nd] ab by blast
      from run' st Ok df ab cm ab' cm' st' df' o' clears
      show ?thesis
        by (cases rd; cases rc; cases ra) (auto simp: diff_run_effect_def split: if_splits)
    qed (use run' st st' o' in \<open>auto simp: diff_run_effect_def\<close>)
  qed
qed

section \<open>Which differences count as empty\<close>

text \<open>The lines of a unified difference: the two file headers, hunk headers and the three kinds of body lines.\<close>

datatype diff_line =
    Old_File string
  | New_File string
  | Hunk string
  | Kept string
  | Removed string
  | Added string

fun diff_line_text :: "diff_line \<Rightarrow> string" where
  "diff_line_text (Old_File s) = ''--- '' @ s"
| "diff_line_text (New_File s) = ''+++ '' @ s"
| "diff_line_text (Hunk s) = ''@@'' @ s"
| "diff_line_text (Kept l) = '' '' @ l"
| "diff_line_text (Removed l) = ''-'' @ l"
| "diff_line_text (Added l) = ''+'' @ l"

definition diff_text :: "diff_line list \<Rightarrow> string" where
  "diff_text ls = Join (map diff_line_text ls) [newline]"

text \<open>The lines that the inspection passes over.\<close>

fun passed_over :: "diff_line \<Rightarrow> bool" where
  "passed_over (Old_File s) = True"
| "passed_over (New_File s) = True"
| "passed_over (Hunk s) = False"
| "passed_over (Kept l) = diff_noise (TrimSpace l)"
| "passed_over (Removed l) = HasPrefix l ''--''"
| "passed_over (Added l) = HasPrefix l ''++''"

definition diff_marks :: "char set" where
  "diff_marks = {CHR ''-'', CHR ''+'', CHR ''@''}"

text \<open>Trimming a line that begins with marks keeps them.\<close>

lemma mark_no_space:
  assumes "c \<in> diff_marks"
  shows "\<not> ascii_space c" "\<not> space2 c x" "\<not> space2 x c" "\<not> space3 c x y" "\<not> space3 x c y" "\<not> space3 x y c"
proof -
  from assms consider "c = CHR ''-''" | "c = CHR ''+''" | "c = CHR ''@''" by (auto simp: diff_marks_def)
  then have "\<not> ascii_space c \<and> \<not> space2 c x \<and> \<not> space2 x c \<and> \<not> space3 c x y \<and> \<not> space3 x c y \<and> \<not> space3 x y c"
    by cases (simp_all add: ascii_space_def space2_def space3_def)
  then show "\<not> ascii_space c" "\<not> space2 c x" "\<not> space2 x c" "\<not> space3 c x y" "\<not> space3 x c y" "\<not> space3 x y c"
    by simp_all
qed

lemma space_len_mark: "c \<in> diff_marks \<Longrightarrow> space_len (c # s) = 0"
  by (cases "c # s" rule: space_len.cases) (simp_all add: mark_no_space)

lemma space_len_rev_mark: "c \<in> diff_marks \<Longrightarrow> space_len_rev (c # s) = 0"
  by (cases "c # s" rule: space_len_rev.cases) (simp_all add: mark_no_space)

lemma space_len_rev_mark2: "c \<in> diff_marks \<Longrightarrow> space_len_rev (x # c # s) \<le> 1"
  by (cases s) (simp_all add: mark_no_space)

lemma space_len_rev_mark3: "c \<in> diff_marks \<Longrightarrow> space_len_rev (x # y # c # s) \<le> 2"
  by (simp add: mark_no_space)

lemma space_len_rev_3: "space_len_rev s \<le> 3"
  by (cases s rule: space_len_rev.cases) simp_all

lemma space_len_rev_marks:
  assumes "set q \<subseteq> diff_marks"
  shows "space_len_rev (r @ q) \<le> length r"
proof (cases q)
  case Nil
  then show ?thesis using space_len_rev_le [of r] by simp
next
  case (Cons c q')
  with assms have c: "c \<in> diff_marks" by simp
  consider "r = []" | x where "r = [x]" | x y where "r = [x, y]" | "3 \<le> length r"
    by (cases r; cases "tl r"; cases "tl (tl r)") auto
  then show ?thesis
  proof cases
    case 4
    with space_len_rev_3 [of "r @ q"] show ?thesis by linarith
  qed (use c Cons in \<open>simp_all add: space_len_rev_mark space_len_rev_mark2 [simplified] mark_no_space\<close>)
qed

lemma trim_rev_marks:
  assumes "set q \<subseteq> diff_marks"
  shows "\<exists>z. trim_rev (r @ q) = z @ q"
proof (induction "length r" arbitrary: r rule: less_induct)
  case less
  let ?k = "space_len_rev (r @ q)"
  have k: "?k \<le> length r" using assms by (rule space_len_rev_marks)
  show ?case
  proof (cases "?k = 0")
    case True
    then show ?thesis by (simp add: trim_rev.simps)
  next
    case False
    with k have "length (drop ?k r) < length r" by simp
    from less [OF this] k show ?thesis using False by (simp add: trim_rev.simps [of "r @ q"])
  qed
qed

lemma HasPrefix_TrimSpace_marks:
  assumes "set p \<subseteq> diff_marks" and "c \<in> diff_marks"
  shows "HasPrefix (TrimSpace (c # s)) p \<longleftrightarrow> HasPrefix (c # s) p"
proof -
  have t: "TrimSpace (c # s) = rev (trim_rev (rev (c # s)))"
    by (simp add: TrimSpace_def trim_left_keep space_len_mark [OF assms(2)])
  obtain b where "rev (c # s) = b @ trim_rev (rev (c # s))" using trim_rev_suffix by blast
  then have pre: "c # s = TrimSpace (c # s) @ rev b" unfolding t by (metis rev_append rev_rev_ident)
  show ?thesis
  proof
    assume "HasPrefix (TrimSpace (c # s)) p"
    then obtain r where "TrimSpace (c # s) = p @ r" by (auto simp: HasPrefix_iff)
    with pre show "HasPrefix (c # s) p" by (metis HasPrefix_iff append.assoc)
  next
    assume "HasPrefix (c # s) p"
    then obtain r where r: "c # s = p @ r" by (auto simp: HasPrefix_iff)
    obtain z where "trim_rev (rev r @ rev p) = z @ rev p" using trim_rev_marks [of "rev p" "rev r"] assms(1) by auto
    then have "trim_rev (rev (c # s)) = z @ rev p" unfolding r by simp
    then have "TrimSpace (c # s) = p @ rev z" unfolding t by simp
    then show "HasPrefix (TrimSpace (c # s)) p" by (auto simp: HasPrefix_iff)
  qed
qed

lemma diff_noise_marks:
  assumes "c \<in> diff_marks"
  shows "diff_noise (TrimSpace (c # s)) \<longleftrightarrow> HasPrefix (c # s) ''---'' \<or> HasPrefix (c # s) ''+++''"
proof -
  have "HasPrefix (TrimSpace (c # s)) [c]" using assms by (subst HasPrefix_TrimSpace_marks) (auto simp: HasPrefix_iff)
  then have "TrimSpace (c # s) \<noteq> []" by (auto simp: HasPrefix_iff)
  moreover have "set ''---'' \<subseteq> diff_marks" "set ''+++'' \<subseteq> diff_marks" by (simp_all add: diff_marks_def)
  ultimately show ?thesis
    using HasPrefix_TrimSpace_marks [OF _ assms] unfolding diff_noise_def by blast
qed

lemma diff_noise_line: "diff_noise (TrimSpace (diff_line_text l)) \<longleftrightarrow> passed_over l"
proof (cases l)
  case (Kept x)
  have "TrimSpace ('' '' @ x) = TrimSpace x" by (rule TrimSpace_pad) (simp add: ascii_space_def)
  with Kept show ?thesis by simp
qed (simp_all add: diff_noise_marks diff_marks_def HasPrefix_def)

lemma isEmptyDiff_text:
  assumes "\<forall>l\<in>set ls. newline \<notin> set (diff_line_text l)"
  shows "isEmptyDiff (diff_text ls) \<longleftrightarrow> (\<forall>l\<in>set ls. passed_over l)"
proof (cases "ls = []")
  case True
  then show ?thesis by (simp add: diff_text_def isEmptyDiff_def trimmed_lines_def lines_def diff_noise_def)
next
  case False
  then have "lines (diff_text ls) = map diff_line_text ls"
    unfolding lines_def diff_text_def using assms by (intro split_at_Join) auto
  then show ?thesis by (simp add: isEmptyDiff_def trimmed_lines_def diff_noise_line)
qed

section \<open>Every handler returns\<close>

lemma applyRawCli_returns: "applyRawCli C a cmds op' w = (q, v) \<Longrightarrow> returns q"
proof (cases "newClient C a")
  assume a: "applyRawCli C a cmds op' w = (q, v)"
  case (Ok cli)
  obtain r c' w' where run: "run_diff_session (cx_env C) cli (session_name C (rawcli_suffix op' (rc_Name a))) cmds w
      = (r, c', w')" by (metis prod.exhaust)
  have "slot_free cli" using newClient_Ok [OF Ok] by blast
  from eapi_diff.with_diff_session_total [OF this run [unfolded run_diff_session_def]] Ok run a show ?thesis
    by (auto simp: applyRawCli_def)
qed (use newClient_returns [of C a] in \<open>auto simp: applyRawCli_def\<close>)

lemma prepareRawCli_returns: "returns (prepareRawCli L a)"
  by (simp add: prepareRawCli_def Let_def)

lemma rawcli_returns:
  "returns (fst (RawCli_Create C req w))" "returns (fst (RawCli_Update C req w))" "returns (fst (RawCli_Delete C st w))"
  unfolding RawCli_Create_def RawCli_Update_def RawCli_Delete_def Let_def
  by ((intro and_then_returns prepareRawCli_returns)?; auto dest: applyRawCli_returns split: prod.split option.split)+

section \<open>Guards\<close>

text \<open>
  A handler of the two resources: it prepares its input, stops on a dry run with the response
  \<open>planned\<close>, and otherwise applies what it prepared and answers \<open>resp\<close>.
\<close>

definition prepared_guarded ::
  "bool \<Rightarrow> 'p res \<Rightarrow> ('p \<Rightarrow> 'b res \<times> 'w) \<Rightarrow> ('p \<Rightarrow> 'r) \<Rightarrow> ('p \<Rightarrow> 'b \<Rightarrow> 'r) \<Rightarrow> 'w \<Rightarrow> 'r res \<times> 'w \<Rightarrow> bool" where
  "prepared_guarded dry prep applied planned resp w out \<longleftrightarrow>
     (case prep of
        Ok p \<Rightarrow>
          (if dry then out = (Ok (planned p), w)
           else snd out = snd (applied p)
             \<and> (case fst (applied p) of Ok b \<Rightarrow> fst out = Ok (resp p b) | _ \<Rightarrow> \<not> is_Ok (fst out)))
      | _ \<Rightarrow> snd out = w \<and> \<not> is_Ok (fst out))"

lemma configlet_guarded:
  "prepared_guarded dry (prepareConfiglet (cx_lib C) a) (\<lambda>p. applyConfiglet C a (fst p) w)
     (\<lambda>p. \<lparr>cr_ID = configletID (cf_Name a), cr_Output = configlet_state a (snd p)\<rparr>)
     (\<lambda>p _. \<lparr>cr_ID = configletID (cf_Name a), cr_Output = configlet_state a (snd p)\<rparr>) w
     (Configlet_Create C \<lparr>Inputs = a, DryRun = dry\<rparr> w)"
  "prepared_guarded dry (prepareConfiglet (cx_lib C) a) (\<lambda>p. applyConfiglet C a (fst p) w)
     (\<lambda>p. configlet_state a (snd p)) (\<lambda>p _. configlet_state a (snd p)) w
     (Configlet_Update C \<lparr>Inputs = a, DryRun = dry\<rparr> w)"
  unfolding prepared_guarded_def Configlet_Create_def Configlet_Update_def
  by (auto simp: and_then_def Let_def split: res.splits prod.splits)

lemma rawcli_guarded:
  "prepared_guarded dry (prepareRawCli (cx_lib C) b) (\<lambda>p. applyRawCli C b (fst p) ''create'' w)
     (\<lambda>p. \<lparr>cr_ID = rawCliID (rc_Name b), cr_Output = rawcli_state b (snd p) [] False\<rparr>)
     (\<lambda>p d. \<lparr>cr_ID = rawCliID (rc_Name b), cr_Output = rawcli_state b (snd p) (fst d) (snd d)\<rparr>) w
     (RawCli_Create C \<lparr>Inputs = b, DryRun = dry\<rparr> w)"
  "prepared_guarded dry (prepareRawCli (cx_lib C) b) (\<lambda>p. applyRawCli C b (fst p) ''update'' w)
     (\<lambda>p. rawcli_state b (snd p) [] False) (\<lambda>p d. rawcli_state b (snd p) (fst d) (snd d)) w
     (RawCli_Update C \<lparr>Inputs = b, DryRun = dry\<rparr> w)"
  unfolding prepared_guarded_def RawCli_Create_def RawCli_Update_def
  by (auto simp: and_then_def Let_def split: res.splits prod.splits)

text \<open>Delete applies the lines of the delete body, if there are any.\<close>

definition delete_lines :: "RawCliState \<Rightarrow> string list" where
  "delete_lines st = (case rc_DeleteBody st of None \<Rightarrow> [] | Some b \<Rightarrow> canonicalConfigletLines b)"

lemma rawcli_delete_guarded:
  "if delete_lines st = [] then RawCli_Delete C st w = (Ok (), w)
   else snd (RawCli_Delete C st w) = snd (applyRawCli C st (delete_lines st) ''delete'' w)
     \<and> is_Ok (fst (RawCli_Delete C st w)) = is_Ok (fst (applyRawCli C st (delete_lines st) ''delete'' w))"
  by (auto simp: RawCli_Delete_def delete_lines_def Let_def is_Ok_def split: option.split prod.split)

end
