(* ===== verification/Device_Facts.thy ===== *)
theory Device_Facts
  imports Resource
begin

text \<open>
  \<open>internal/resources/device/device.go\<close>: a read-only handle on a switch.  Create and Read
  collect the facts of \<open>show version\<close>; nothing is ever changed on the device.
\<close>

definition ErrFactsMissing :: error where
  [errs]: "ErrFactsMissing = Sentinel ''device: show version returned no rows''"

record DeviceArgs =
  dv_Host :: string
  dv_Port :: "int option"
  dv_Username :: "string option"
  dv_Password :: "string option"

record DeviceState = DeviceArgs +
  dv_Model :: string
  dv_SerialNumber :: string
  dv_HardwareRev :: string
  dv_EOSVersion :: string
  dv_SystemMAC :: string

text \<open>The handle's own factory takes a port and ignores it.\<close>

definition device_newClient ::
  "('n, 'w) ctx \<Rightarrow> string \<Rightarrow> string option \<Rightarrow> string option \<Rightarrow> int option \<Rightarrow> 'n client res" where
  "device_newClient C host user pass port =
     EAPIClient (cx_env C) (cx_lib C) (cx_config C) (Some host) user pass"

definition take_fact :: "row \<Rightarrow> string \<Rightarrow> string \<Rightarrow> string" where
  "take_fact row key old = opt_or old (get_str row key)"

definition fill_facts :: "row \<Rightarrow> DeviceState \<Rightarrow> DeviceState" where
  "fill_facts row s =
     s\<lparr>dv_Model := take_fact row ''modelName'' (dv_Model s),
       dv_SerialNumber := take_fact row ''serialNumber'' (dv_SerialNumber s),
       dv_HardwareRev := take_fact row ''hardwareRevision'' (dv_HardwareRev s),
       dv_EOSVersion := take_fact row ''version'' (dv_EOSVersion s),
       dv_SystemMAC := take_fact row ''systemMacAddress'' (dv_SystemMAC s)\<rparr>"

definition readFacts :: "('n, 'w) ctx \<Rightarrow> DeviceState \<Rightarrow> 'w \<Rightarrow> DeviceState res \<times> 'w" where
  "readFacts C st =
     and_then (device_newClient C (dv_Host st) (dv_Username st) (dv_Password st) (dv_Port st)) (\<lambda>cli w.
       case RunCmds (cx_env C) cli [''show version''] ''json'' w of
         (r, w') \<Rightarrow>
           (bind_res (errorf ''show version'' r)
              (\<lambda>resp. case resp of [] \<Rightarrow> Err ErrFactsMissing | row # _ \<Rightarrow> Ok (fill_facts row st)), w'))"

definition device_state :: "DeviceArgs \<Rightarrow> DeviceState" where
  "device_state a = DeviceArgs.extend a (DeviceState.fields [] [] [] [] [])"

definition with_device_args :: "DeviceArgs \<Rightarrow> DeviceState \<Rightarrow> DeviceState" where
  "with_device_args a s = DeviceArgs.extend a (DeviceArgs.more s)"

text \<open>Create shows an empty handle on a dry run; Read starts from the prior state.\<close>

definition Device_Create ::
  "('n, 'w) ctx \<Rightarrow> DeviceArgs request \<Rightarrow> 'w \<Rightarrow> DeviceState created res \<times> 'w" where
  "Device_Create C req w =
     (let st = device_state (Inputs req); i = dv_Host (Inputs req) in
      if DryRun req then (Ok \<lparr>cr_ID = i, cr_Output = st\<rparr>, w)
      else (case readFacts C st w of
              (r, w') \<Rightarrow> (map_res (\<lambda>st'. \<lparr>cr_ID = i, cr_Output = st'\<rparr>) (errorf ''read facts'' r), w')))"

definition Device_Read ::
  "('n, 'w) ctx \<Rightarrow> string \<Rightarrow> DeviceArgs \<Rightarrow> DeviceState \<Rightarrow> 'w \<Rightarrow>
   (DeviceArgs, DeviceState) read_response res \<times> 'w" where
  "Device_Read C i a prior w =
     (case readFacts C (with_device_args a prior) w of
        (r, w') \<Rightarrow> (map_res (\<lambda>st. \<lparr>rd_ID = i, rd_Inputs = a, rd_State = st\<rparr>) (errorf ''read facts'' r), w'))"

definition Device_Delete :: "DeviceState \<Rightarrow> 'w \<Rightarrow> unit res \<times> 'w" where
  "Device_Delete st w = (Ok (), w)"

lemma fill_facts_args [simp]: "DeviceArgs.truncate (fill_facts row s) = DeviceArgs.truncate s"
  by (simp add: fill_facts_def DeviceArgs.defs)

lemma with_device_args_truncate [simp]: "DeviceArgs.truncate (with_device_args a s) = a"
  by (simp add: with_device_args_def DeviceArgs.defs)

text \<open>The facts of a row that has them all do not depend on what was known before.\<close>

lemma fill_facts_complete:
  assumes "\<forall>k\<in>{''modelName'', ''serialNumber'', ''hardwareRevision'', ''version'', ''systemMacAddress''}. get_str row k \<noteq> None"
    and "DeviceArgs.truncate s = DeviceArgs.truncate t"
  shows "fill_facts row s = fill_facts row t"
  using assms by (cases s; cases t) (auto simp: fill_facts_def take_fact_def DeviceArgs.defs)

end
