(* ===== verification/Device_Properties.thy ===== *)
theory Device_Properties
  imports Raw_Cli Device_Facts Fixtures
begin

text \<open>
  The properties of the resources of \<open>internal/resources/device\<close>, each with the concrete input
  at which it is instantiated.
\<close>

section \<open>Configlets\<close>

text \<open>
  The digest of a configlet.  A prepared configlet has at least one line, and every
  line is free of trailing blanks and not blank; the digest depends on those lines alone, so
  a body with the same canonical lines, in particular the lines as they were sent, is no
  drift.
\<close>

theorem configlet_digest_stable:
  assumes "prepareConfiglet L a = Ok (cmds, digest)"
  shows "cmds \<noteq> [] \<and> (\<forall>l\<in>set cmds. canonical_line l)
     \<and> (\<forall>body. canonicalConfigletLines body = cmds \<longrightarrow> prepareConfiglet L (a\<lparr>cf_Body := body\<rparr>) = Ok (cmds, digest))
     \<and> prepareConfiglet L (a\<lparr>cf_Body := Join cmds [newline]\<rparr>) = Ok (cmds, digest)"
  using assms canonicalConfigletLines_lines configlet_canonical_stable
  by (auto simp: prepareConfiglet_Ok)

definition demo_configlet :: ConfigletArgs where
  "demo_configlet =
     \<lparr>Host = None, Username = None, Password = None, cf_Name = ''ntp'', cf_Description = None,
      cf_Body = ''ntp server 10.0.0.1  '' @ [newline, newline] @ ''  vrf mgmt''\<rparr>"

theorem configlet_digest_stable_witness:
  "prepareConfiglet demo_lib demo_configlet
     = Ok ([''ntp server 10.0.0.1'', ''  vrf mgmt''], ''ntp server 10.0.0.1'' @ [newline] @ ''  vrf mgmt'')
   \<and> prepareConfiglet demo_lib (demo_configlet\<lparr>cf_Body := ''ntp server 10.0.0.1'' @ [newline] @ ''  vrf mgmt''\<rparr>)
     = Ok ([''ntp server 10.0.0.1'', ''  vrf mgmt''], ''ntp server 10.0.0.1'' @ [newline] @ ''  vrf mgmt'')"
proof -
  have "prepareConfiglet demo_lib demo_configlet
     = Ok ([''ntp server 10.0.0.1'', ''  vrf mgmt''], ''ntp server 10.0.0.1'' @ [newline] @ ''  vrf mgmt'')"
    by code_simp
  from configlet_digest_stable [OF this] this show ?thesis by simp
qed

section \<open>Raw blocks\<close>

text \<open>
  C18. A raw block is committed exactly when it changes something.  Take a device that
  implements sessions as documented and shows, as the difference of a session, a text \<open>diff\<close> of its
  running configuration and the commands of the session.  When creating a raw block succeeds,
  it has merged the block (with what was pending under its name) if that text is a change,
  and has left the running configuration as it was if the text counts as empty; the state
  reports which of the two, with the digest of the text after a merge, and nothing stays
  pending.  When the call fails, the running configuration is as it was.
\<close>

theorem rawcli_create_atomic:
  assumes "RawCli_Create C \<lparr>Inputs = a, DryRun = False\<rparr> w = (r, w')"
    and "prepareRawCli (cx_lib C) a = Ok (cmds, digest)" and "newClient C a = Ok cli" and "cl_node cli = Some n"
    and "honours_sessions (cx_env C) n (session_name C (rawcli_suffix ''create'' (rc_Name a))) running pending merge"
    and "shows_diffs (cx_env C) n (session_name C (rawcli_suffix ''create'' (rc_Name a))) running pending diff"
  shows "case r of
      Ok resp \<Rightarrow>
        (let d = diff (running w) (pending w @ cmds)
         in rc_LastDiffEmpty (cr_Output resp) = isEmptyDiff d
          \<and> rc_LastDiffSha256 (cr_Output resp) = (if isEmptyDiff d then [] else sha256_hex (cx_lib C) d)
          \<and> running w' = (if isEmptyDiff d then running w else merge (running w) (pending w @ cmds))
          \<and> pending w' = [])
    | _ \<Rightarrow> running w' = running w"
proof -
  obtain q c' where run: "run_diff_session (cx_env C) cli
      (session_name C (rawcli_suffix ''create'' (rc_Name a))) cmds w = (q, c', w')"
    and r: "r = map_res (\<lambda>(sha, noop). \<lparr>cr_ID = rawCliID (rc_Name a), cr_Output = rawcli_state a digest sha noop\<rparr>)
              (errorf (''create rawCli '' @ rc_Name a) (map_res (diff_outcome (cx_lib C)) q))"
    using assms(1-3) by (auto simp: RawCli_Create_def applyRawCli_def Let_def split: prod.splits)
  have "slot_free cli" using newClient_Ok [OF assms(3)] by blast
  from run_diff_session_device [OF assms(5,6) run this assms(4)] r show ?thesis
    by (cases q) (simp_all add: diff_run_effect_def diff_outcome_def rawcli_state_def RawCliArgs.defs RawCliState.defs)
qed

definition demo_raw :: RawCliArgs where
  "demo_raw =
     \<lparr>Host = None, Username = None, Password = None, rc_Name = ''motd'', rc_Description = None,
      rc_Body = ''ntp server 10.0.0.1'', rc_DeleteBody = None\<rparr>"

text \<open>The reference device shows the lines that the session adds.\<close>

definition added_text :: "string list \<Rightarrow> string list \<Rightarrow> string" where
  "added_text running pending = Join (map ((@) ''+'') pending) [newline]"

lemma sim_shows_diffs: "shows_diffs (sim_env name) n name sim_running sim_pending added_text"
  by (auto simp: shows_diffs_def sim_env_def sim_run_def commit_cmd_def abort_cmd_def text_output_def
      get_str_def added_text_def)

theorem rawcli_create_atomic_witness:
  "\<exists>resp w'. RawCli_Create (sim_ctx ''rawcli-create-motd'') \<lparr>Inputs = demo_raw, DryRun = False\<rparr>
        \<lparr>sim_running = [''hostname a''], sim_pending = [], sim_refuses = False\<rparr> = (Ok resp, w')
     \<and> rc_LastDiffSha256 (cr_Output resp) = ''+ntp server 10.0.0.1''
     \<and> sim_running w' = [''hostname a'', ''ntp server 10.0.0.1''] \<and> sim_pending w' = []"
proof -
  let ?C = "sim_ctx ''rawcli-create-motd''"
  let ?w = "\<lparr>sim_running = [''hostname a''], sim_pending = [], sim_refuses = False\<rparr>"
  obtain r w' where run: "RawCli_Create ?C \<lparr>Inputs = demo_raw, DryRun = False\<rparr> ?w = (r, w')" by (rule prod.exhaust)
  have "is_Ok (fst (RawCli_Create ?C \<lparr>Inputs = demo_raw, DryRun = False\<rparr> ?w))" by code_simp
  with run obtain resp where r: "r = Ok resp" by (auto simp: is_Ok_def)
  have prep: "prepareRawCli (cx_lib ?C) demo_raw = Ok ([''ntp server 10.0.0.1''], ''ntp server 10.0.0.1'')"
    by code_simp
  have cli: "newClient ?C demo_raw = Ok demo_client" by (rule newClient_sim) (simp_all add: demo_raw_def)
  have suffix: "rawcli_suffix ''create'' (rc_Name demo_raw) = ''rawcli-create-motd''" by code_simp
  have h: "honours_sessions (cx_env ?C) () (session_name ?C (rawcli_suffix ''create'' (rc_Name demo_raw)))
      sim_running sim_pending (@)"
    and d: "shows_diffs (cx_env ?C) () (session_name ?C (rawcli_suffix ''create'' (rc_Name demo_raw)))
      sim_running sim_pending added_text"
    unfolding suffix session_name_sim by (simp_all add: sim_ctx_def sim_honours sim_shows_diffs)
  have t: "added_text [''hostname a''] [''ntp server 10.0.0.1''] = ''+ntp server 10.0.0.1''"
    "isEmptyDiff ''+ntp server 10.0.0.1'' = False" "sha256_hex (cx_lib ?C) ''+ntp server 10.0.0.1'' = ''+ntp server 10.0.0.1''"
    by code_simp+
  from rawcli_create_atomic [OF run prep cli _ h d] run show ?thesis by (simp add: r t Let_def)
qed

text \<open>
  C19. What the inspection takes for no change, of a unified difference given by its lines: file
  headers, hunk headers, kept, removed and added lines.  It counts as empty exactly when it
  has no hunk header, every removed line begins with two hyphens, every added one with two
  plus signs, and every kept one is blank or begins with three of them.  So a difference with
  a hunk header, as diff programs write it, is never taken for empty; one without hunk
  headers may be, although it changes such lines.
\<close>

theorem empty_diff_verdict:
  assumes "\<forall>l\<in>set ls. newline \<notin> set (diff_line_text l)"
  shows "(isEmptyDiff (diff_text ls) \<longleftrightarrow> (\<forall>l\<in>set ls. passed_over l))
     \<and> (\<forall>h. Hunk h \<in> set ls \<longrightarrow> \<not> isEmptyDiff (diff_text ls))"
  using isEmptyDiff_text [OF assms] by fastforce

text \<open>A difference as in the tests of the repository, its header alone, and a dropped ruler.\<close>

theorem empty_diff_verdict_witness:
  "\<not> isEmptyDiff (Join [''--- a'', ''+++ b'', ''@@ -1 +1,2 @@'', ''+vlan 100''] [newline])
   \<and> isEmptyDiff (Join [''--- a'', ''+++ b''] [newline])
   \<and> isEmptyDiff (Join [''--- a'', ''+++ b'', ''--- maintenance --''] [newline])"
proof -
  have "\<forall>l\<in>set [Old_File ''a'', New_File ''b'', Hunk '' -1 +1,2 @@'', Added ''vlan 100'']. newline \<notin> set (diff_line_text l)"
    "\<forall>l\<in>set [Old_File ''a'', New_File ''b'']. newline \<notin> set (diff_line_text l)"
    "\<forall>l\<in>set [Old_File ''a'', New_File ''b'', Removed ''-- maintenance --'']. newline \<notin> set (diff_line_text l)"
    by code_simp+
  from this [THEN empty_diff_verdict] show ?thesis by (simp add: diff_text_def HasPrefix_def)
qed

section \<open>Facts\<close>

text \<open>
  A refresh of a device handle reports the device's own answer.  When the row of
  \<open>show version\<close> has the five facts, the state holds exactly those and the inputs,
  whatever was known before.
\<close>

theorem device_read_reports:
  assumes "device_newClient C (dv_Host a) (dv_Username a) (dv_Password a) (dv_Port a) = Ok cli"
    and "RunCmds (cx_env C) cli [''show version''] ''json'' w = (Ok (row # rows), w')"
    and "get_str row ''modelName'' = Some model" and "get_str row ''serialNumber'' = Some serial"
    and "get_str row ''hardwareRevision'' = Some hw" and "get_str row ''version'' = Some version"
    and "get_str row ''systemMacAddress'' = Some mac"
  shows "Device_Read C i a prior w
     = (Ok \<lparr>rd_ID = i, rd_Inputs = a,
            rd_State = DeviceArgs.extend a (DeviceState.fields model serial hw version mac)\<rparr>, w')"
  using assms by (cases a; cases prior)
    (simp add: Device_Read_def readFacts_def with_device_args_def fill_facts_def take_fact_def
      DeviceArgs.defs DeviceState.defs)

definition demo_version :: row where
  "demo_version =
     [(''modelName'', JStr ''cEOSLab''), (''serialNumber'', JStr ''SN1''), (''hardwareRevision'', JStr ''''),
      (''version'', JStr ''4.36.0F''), (''systemMacAddress'', JStr ''00:1c:73:00:00:01'')]"

definition version_ctx :: "(unit, unit) ctx" where
  "version_ctx = \<lparr>cx_env = (text_env [])\<lparr>node_run := \<lambda>_ cmds _ w. (Inr [demo_version], w)\<rparr>,
                cx_config = demo_config, cx_lib = demo_lib\<rparr>"

definition demo_device :: DeviceArgs where
  "demo_device = \<lparr>dv_Host = ''leaf-01'', dv_Port = None, dv_Username = None, dv_Password = None\<rparr>"

definition stale_state :: DeviceState where
  "stale_state = DeviceArgs.extend demo_device (DeviceState.fields ''cEOSLab'' ''SN1'' '''' ''4.30.1F'' '''')"

theorem device_read_reports_witness:
  "Device_Read version_ctx ''leaf-01'' demo_device stale_state ()
     = (Ok \<lparr>rd_ID = ''leaf-01'', rd_Inputs = demo_device,
            rd_State = DeviceArgs.extend demo_device
              (DeviceState.fields ''cEOSLab'' ''SN1'' '''' ''4.36.0F'' ''00:1c:73:00:00:01'')\<rparr>, ())"
proof -
  obtain cli where cli: "device_newClient version_ctx (dv_Host demo_device) (dv_Username demo_device)
      (dv_Password demo_device) (dv_Port demo_device) = Ok cli" and "cl_node cli = Some ()"
    by (simp add: device_newClient_def version_ctx_def demo_device_def EAPIClient_def splitEOSURL_def
        split_provider_def demo_config_def demo_lib_def demo_url_def hostPort_def requestTimeout_def
        duration_or_def defaultRequestTimeout_def New_def validate_config_def override_def text_env_def)
  then have run: "RunCmds (cx_env version_ctx) cli [''show version''] ''json'' () = (Ok (demo_version # []), ())"
    by (simp add: RunCmds_def version_ctx_def text_env_def)
  show ?thesis
    by (rule device_read_reports [OF cli run]) (simp_all add: demo_version_def get_str_def)
qed

end
