(* ===== verification/L3_Common.thy ===== *)
theory L3_Common
  imports Session_Managed Go_Net
begin

text \<open>
  What the resources of \<open>internal/resources/l3\<close> share: the checks of CIDR notation, the
  interface names that their regular expressions accept, and the words of \<open>types.go\<close>.
\<close>

definition listTypeStandard :: string where "listTypeStandard = ''standard''"
definition listTypeRegexp :: string where "listTypeRegexp = ''regexp''"
definition keywordShutdown :: string where "keywordShutdown = ''shutdown''"
definition keywordNoShutdown :: string where "keywordNoShutdown = ''no shutdown''"

lemmas l3_words = listTypeStandard_def listTypeRegexp_def keywordShutdown_def keywordNoShutdown_def

text \<open>\<open>pfx, err := netip.ParsePrefix(s); err == nil && pfx.Addr().Is4()\<close>, and its IPv6 kin.\<close>

definition ipv4_cidr :: "string \<Rightarrow> bool" where
  "ipv4_cidr s \<longleftrightarrow> (case ParsePrefix s of Some (a, _) \<Rightarrow> Is4 a | None \<Rightarrow> False)"

definition ipv6_cidr :: "string \<Rightarrow> bool" where
  "ipv6_cidr s \<longleftrightarrow> (case ParsePrefix s of Some (a, _) \<Rightarrow> Is6 a \<and> \<not> Is4In6 a | None \<Rightarrow> False)"

definition ipv4_addr :: "string \<Rightarrow> bool" where
  "ipv4_addr s \<longleftrightarrow> (case ParseAddr s of Some a \<Rightarrow> Is4 a | None \<Rightarrow> False)"

section \<open>Interface names\<close>

text \<open>
  The pieces of the regular expressions: \<open>\d+\<close>, \<open>(\/\d+)*\<close> and \<open>(\.\d+)?$\<close>.  Every piece is
  followed by something that starts with no digit, so the greedy match is the only one.
\<close>

definition drop_digits :: "string \<Rightarrow> string option" where
  "drop_digits s =
     (case s of [] \<Rightarrow> None
      | c # _ \<Rightarrow> if c \<in> set digits then Some (dropWhile (\<lambda>x. x \<in> set digits) s) else None)"

lemma drop_digits_shorter: "drop_digits s = Some r \<Longrightarrow> length r < length s"
  using length_dropWhile_le [of "\<lambda>x. x \<in> set digits"]
  by (auto simp: drop_digits_def less_Suc_eq_le split: list.splits if_splits)

function slash_groups :: "string \<Rightarrow> string" where
  "slash_groups s =
     (case s of
        c # r \<Rightarrow>
          (if c = CHR ''/'' then (case drop_digits r of Some r' \<Rightarrow> slash_groups r' | None \<Rightarrow> s) else s)
      | [] \<Rightarrow> [])"
  by pat_completeness auto

termination
  by (relation "measure length") (auto dest!: drop_digits_shorter)

declare slash_groups.simps [simp del]

definition all_digits :: "string \<Rightarrow> bool" where
  "all_digits s \<longleftrightarrow> drop_digits s = Some []"

definition dot_group :: "string \<Rightarrow> bool" where
  "dot_group s \<longleftrightarrow> (case s of c # r \<Rightarrow> c = CHR ''.'' \<and> all_digits r | [] \<Rightarrow> False)"

text \<open>\<open>after s p f\<close>: the text begins with \<open>p\<close> and one number, and \<open>f\<close> accepts the rest.\<close>

definition after :: "string \<Rightarrow> string \<Rightarrow> (string \<Rightarrow> bool) \<Rightarrow> bool" where
  "after s p f \<longleftrightarrow>
     (case Option.bind (CutPrefix s p) drop_digits of Some r \<Rightarrow> f r | None \<Rightarrow> False)"

definition optional_dot :: "string \<Rightarrow> bool" where
  "optional_dot r \<longleftrightarrow> r = [] \<or> dot_group r"

text \<open>\<open>^[A-Za-z][A-Za-z0-9_-]*$\<close>\<close>

definition letters :: string where
  "letters = ''abcdefghijklmnopqrstuvwxyzABCDEFGHIJKLMNOPQRSTUVWXYZ''"

definition unit_name :: "string \<Rightarrow> bool" where
  "unit_name s \<longleftrightarrow>
     (case s of [] \<Rightarrow> False | c # cs \<Rightarrow> c \<in> set letters \<and> set cs \<subseteq> set (letters @ digits @ ''_-''))"

section \<open>Accepted texts are words\<close>

lemma parse_nat_set: "parse_nat s = Some n \<Longrightarrow> set s \<subseteq> set digits"
  by (auto simp: parse_nat_def split: if_splits dest: parse_digits_set)

lemma Atoi_set: "Atoi s = Some v \<Longrightarrow> s \<noteq> [] \<and> set s \<subseteq> insert (CHR ''+'') (insert (CHR ''-'') (set digits))"
  using parse_nat_set by (fastforce simp: Atoi_def bind_eq_Some_conv split: list.splits if_splits)

definition plain_chars :: "char set" where
  "plain_chars = {c. \<not> space_byte c}"

lemma plain_char_sets:
  "set digits \<subseteq> plain_chars" "address_chars \<subseteq> plain_chars"
  "CHR ''/'' \<in> plain_chars" "CHR ''.'' \<in> plain_chars" "CHR ''+'' \<in> plain_chars" "CHR ''-'' \<in> plain_chars"
proof -
  show "address_chars \<subseteq> plain_chars" using address_char_plain by (auto simp: plain_chars_def)
  then show "set digits \<subseteq> plain_chars" using digits_address by blast
qed (simp_all add: plain_chars_def space_byte_def ascii_space_def)

lemma plain_word: "s \<noteq> [] \<Longrightarrow> set s \<subseteq> plain_chars \<Longrightarrow> word_string s"
  by (auto simp: plain_chars_def word_string_def)

lemma Atoi_plain: "Atoi s = Some v \<Longrightarrow> set s \<subseteq> plain_chars"
  using Atoi_set plain_char_sets by blast

lemma ParsePrefix_word: "ParsePrefix s = Some r \<Longrightarrow> word_string s"
proof -
  assume p: "ParsePrefix s = Some r"
  let ?b = "rev (takeWhile (\<lambda>c. c \<noteq> CHR ''/'') (rev s))"
  let ?a = "take (length s - Suc (length ?b)) s"
  from p obtain ip where ip: "ParseAddr ?a = Some ip" "zone ip = []" and b: "prefix_bits ?b \<noteq> None"
    and slash: "CHR ''/'' \<in> set s"
    by (auto simp: ParsePrefix_def Let_def split: if_splits option.splits)
  from b obtain n where "Atoi ?b = Some n" by (auto simp: prefix_bits_def split: if_splits)
  then have "set ?b \<subseteq> plain_chars" by (rule Atoi_plain)
  moreover have "set ?a \<subseteq> plain_chars" using ParseAddr_chars [OF ip] plain_char_sets(2) by blast
  moreover have "dropWhile (\<lambda>c. c \<noteq> CHR ''/'') (rev s) \<noteq> []" using slash by (auto simp: dropWhile_eq_Nil_conv)
  then obtain y t where "dropWhile (\<lambda>c. c \<noteq> CHR ''/'') (rev s) = y # t" by (meson neq_Nil_conv)
  then have "rev s = takeWhile (\<lambda>c. c \<noteq> CHR ''/'') (rev s) @ y # t" and "y = CHR ''/''"
    unfolding dropWhile_eq_Cons_conv by blast+
  then have "rev s = takeWhile (\<lambda>c. c \<noteq> CHR ''/'') (rev s) @ CHR ''/'' # t" by metis
  from arg_cong [OF this, of rev] have s: "s = rev t @ CHR ''/'' # ?b"
    by (simp only: rev_append rev.simps append_assoc rev_rev_ident append.simps)
  then have "length s = length t + Suc (length ?b)" by (metis length_Cons length_append length_rev)
  then have "?a = rev t" by (subst s) simp
  ultimately have "set (rev t @ CHR ''/'' # ?b) \<subseteq> plain_chars" using plain_char_sets(3) by simp
  then have "set s \<subseteq> plain_chars" by (simp only: s [symmetric])
  moreover have "s \<noteq> []" using slash by auto
  ultimately show ?thesis by (simp add: plain_word)
qed

lemma cidr_word: "ipv4_cidr s \<Longrightarrow> word_string s" "ipv6_cidr s \<Longrightarrow> word_string s"
  by (auto simp: ipv4_cidr_def ipv6_cidr_def split: option.splits intro: ParsePrefix_word)

lemma addr_word: "ipv4_addr s \<Longrightarrow> word_string s"
proof -
  assume "ipv4_addr s"
  then obtain a where a: "ParseAddr s = Some a" "Is4 a" by (auto simp: ipv4_addr_def split: option.splits)
  from a(2) have "zone a = []" by (cases a) simp_all
  from ParseAddr_chars [OF a(1) this] a(1) show ?thesis by (cases s) (simp_all add: address_chars_word)
qed

lemma drop_digits_chars: "drop_digits s = Some r \<Longrightarrow> set s \<subseteq> plain_chars \<union> set r"
proof -
  assume "drop_digits s = Some r"
  then have "s = takeWhile (\<lambda>x. x \<in> set digits) s @ r"
    by (auto simp: drop_digits_def split: list.splits if_splits)
  then have "set s = set (takeWhile (\<lambda>x. x \<in> set digits) s) \<union> set r" by (metis set_append)
  then show ?thesis using plain_char_sets(1) by (auto dest: set_takeWhileD)
qed

lemma slash_groups_chars: "set s \<subseteq> plain_chars \<union> set (slash_groups s)"
proof (induction s rule: slash_groups.induct)
  case (1 s)
  show ?case
  proof (cases s)
    case (Cons c r)
    show ?thesis
    proof (cases "c = CHR ''/'' \<and> drop_digits r \<noteq> None")
      case True
      then obtain r' where r': "drop_digits r = Some r'" by blast
      with Cons True have "slash_groups s = slash_groups r'" by (subst slash_groups.simps) simp
      with 1 [OF Cons _ r'] drop_digits_chars [OF r'] Cons True plain_char_sets(3) show ?thesis by auto
    next
      case False
      with Cons have "slash_groups s = s" by (subst slash_groups.simps) (auto split: option.splits)
      then show ?thesis by simp
    qed
  qed simp
qed

lemma dot_group_chars: "dot_group s \<Longrightarrow> set s \<subseteq> plain_chars"
  using drop_digits_chars plain_char_sets(4) by (fastforce simp: dot_group_def all_digits_def split: list.splits)

lemma optional_dot_chars: "optional_dot s \<Longrightarrow> set s \<subseteq> plain_chars"
  using dot_group_chars by (auto simp: optional_dot_def)

lemma after_chars:
  assumes "after s p f" and "set p \<subseteq> plain_chars" and "\<And>r. f r \<Longrightarrow> set r \<subseteq> plain_chars" and "p \<noteq> []"
  shows "word_string s"
proof -
  from assms(1) obtain t r where "s = p @ t" "drop_digits t = Some r" "f r"
    by (auto simp: after_def bind_eq_Some_conv CutPrefix_iff split: option.splits)
  with assms(2-4) drop_digits_chars [of t r] show ?thesis by (intro plain_word) auto
qed

section \<open>Lists kept as one line per entry\<close>

text \<open>
  Prefix lists, AS-path, community and extended community lists are shown as one line per
  entry, among the lines of every other list.  \<open>sanitizePrefixListName\<close> (\<open>prefix_list.go\<close>) makes the
  name of a session out of the name of a list.
\<close>

definition sanitizePrefixListName :: "string \<Rightarrow> string" where
  "sanitizePrefixListName name =
     replace_bytes [(CHR ''.'', CHR ''-''), (CHR '' '', CHR ''-''), (CHR '':'', CHR ''-''), (CHR ''/'', CHR ''-'')] name"

definition permit_deny :: "string \<Rightarrow> bool" where
  "permit_deny s \<longleftrightarrow> s = ''permit'' \<or> s = ''deny''"

text \<open>\<open>strings.SplitN(s, " ", 2)\<close> when it gives two parts, and with 3 when it gives three.\<close>

definition split2 :: "string \<Rightarrow> (string \<times> string) option" where
  "split2 s =
     (case dropWhile (\<lambda>c. c \<noteq> CHR '' '') s of
        [] \<Rightarrow> None | _ # r \<Rightarrow> Some (takeWhile (\<lambda>c. c \<noteq> CHR '' '') s, r))"

definition split3 :: "string \<Rightarrow> (string \<times> string \<times> string) option" where
  "split3 s = Option.bind (split2 s) (\<lambda>(a, r). map_option (\<lambda>(b, c). (a, b, c)) (split2 r))"

lemma split2_word: "CHR '' '' \<notin> set a \<Longrightarrow> split2 (a @ CHR '' '' # r) = Some (a, r)"
proof -
  assume a: "CHR '' '' \<notin> set a"
  then have "\<forall>c\<in>set a. c \<noteq> CHR '' ''" by metis
  then show ?thesis by (simp add: split2_def dropWhile_append2 takeWhile_append2)
qed

lemma permit_deny_blank: "permit_deny s \<Longrightarrow> CHR '' '' \<notin> set s"
  by (auto simp: permit_deny_def)

text \<open>A word that is followed by a blank is not the beginning of another one.\<close>

lemma prefix_word:
  assumes "n \<noteq> k" and "CHR '' '' \<notin> set n" and "CHR '' '' \<notin> set k"
  shows "CutPrefix (n @ CHR '' '' # r) (k @ CHR '' '' # t) = None"
proof (rule ccontr)
  assume "CutPrefix (n @ CHR '' '' # r) (k @ CHR '' '' # t) \<noteq> None"
  then obtain u where "n @ CHR '' '' # r = k @ CHR '' '' # (t @ u)" by (auto simp: CutPrefix_iff)
  with assms(2,3) have "n = k" by (metis split_at_append_delim list.inject)
  with assms(1) show False by simp
qed

definition list_entries :: "(string \<Rightarrow> 'e option) \<Rightarrow> string \<Rightarrow> 'e list" where
  "list_entries parse_line out = List.map_filter parse_line (trimmed_lines out)"

text \<open>\<open>lists_entries\<close>: the lines that the reader takes show the entries \<open>es\<close>, in their order.\<close>

definition lists_entries :: "(string \<Rightarrow> 'e option) \<Rightarrow> ('e \<Rightarrow> string \<Rightarrow> bool) \<Rightarrow> string \<Rightarrow> 'e list \<Rightarrow> bool" where
  "lists_entries parse_line shown out es \<longleftrightarrow>
     list_all2 (\<lambda>l e. shown e l) (filter (\<lambda>l. parse_line l \<noteq> None) (trimmed_lines out)) es"

locale entry_list =
  fixes parse_line :: "'a \<Rightarrow> string \<Rightarrow> 'e option"
    and shown :: "'a \<Rightarrow> 'e \<Rightarrow> string \<Rightarrow> bool"
    and readable :: "'a \<Rightarrow> 'e \<Rightarrow> bool"
  assumes line: "readable a e \<Longrightarrow> shown a e l \<Longrightarrow> parse_line a l = Some e"
begin

lemma entries_back:
  assumes "lists_entries (parse_line a) (shown a) out es" and "\<forall>e\<in>set es. readable a e"
  shows "list_entries (parse_line a) out = es"
proof -
  have "list_all2 (\<lambda>l e. shown a e l) (filter (\<lambda>l. parse_line a l \<noteq> None) ls) es \<Longrightarrow>
      \<forall>e\<in>set es. readable a e \<Longrightarrow> List.map_filter (parse_line a) ls = es" for ls
  proof (induction ls arbitrary: es)
    case (Cons l ls)
    show ?case
    proof (cases "parse_line a l")
      case None
      with Cons show ?thesis by (simp add: map_filter_simps)
    next
      case (Some x)
      with Cons.prems(1) obtain e es' where es: "es = e # es'" "shown a e l"
        "list_all2 (\<lambda>l e. shown a e l) (filter (\<lambda>l. parse_line a l \<noteq> None) ls) es'"
        by (auto simp: list_all2_Cons1)
      with Cons.prems(2) have "parse_line a l = Some e" by (simp add: line)
      with Some Cons.IH [OF es(3)] Cons.prems(2) es(1) show ?thesis by (simp add: map_filter_simps)
    qed
  qed (simp add: map_filter_simps)
  with assms show ?thesis by (simp add: lists_entries_def list_entries_def)
qed

end

section \<open>Rows with pointers\<close>

text \<open>\<open>if r.F != nil { s.F = r.F }\<close>, and the lines that set such a field.\<close>

definition set_some :: "'a option \<Rightarrow> 'a option \<Rightarrow> 'a option" where
  "set_some new old = (case new of Some v \<Rightarrow> Some v | None \<Rightarrow> old)"

lemma set_some_simps [simp]:
  "set_some None q = q" "set_some (Some v) q = Some v" "set_some p p = p" "set_some p None = p"
  by (simp_all add: set_some_def split: option.split)

text \<open>\<open>if v, err := strconv.Atoi(s); err == nil { row.F = &v }\<close>\<close>

definition atoi_ptr :: "int option \<Rightarrow> string \<Rightarrow> int option" where
  "atoi_ptr old s = set_some (Atoi s) old"

lemma atoi_ptr_Itoa [simp]: "int64 v \<Longrightarrow> atoi_ptr old (Itoa v) = Some v"
  by (simp add: atoi_ptr_def)

locale pointer =
  fixes body :: "string \<Rightarrow> 'r \<Rightarrow> 'r"
    and render :: "'v \<Rightarrow> string"
    and readable :: "'v \<Rightarrow> bool"
    and get :: "'r \<Rightarrow> 'v option"
    and put :: "'v option \<Rightarrow> 'r \<Rightarrow> 'r"
  assumes line: "readable v \<Longrightarrow> body (render v) r = put (Some v) r"
    and put_get: "put (get r) r = r"
begin

lemma fold_pointer: "pred_option readable p \<Longrightarrow> fold body (line_opt render p) r = put (set_some p (get r)) r"
  by (cases p) (simp_all add: line put_get)

end

section \<open>BFD timers\<close>

text \<open>
  The words of \<open>interval I min-rx M multiplier N\<close>, found by their keywords among the tokens
  of a line: \<open>for i := range len(tokens) - 1\<close>.
\<close>

definition timer_token :: "string \<times> string \<Rightarrow> int \<times> int \<times> int \<Rightarrow> int \<times> int \<times> int" where
  "timer_token kv t =
     (case (kv, t) of ((k, v), (i, m, n)) \<Rightarrow>
        if k = ''interval'' then (atoi_or i v, m, n)
        else if k = ''min-rx'' then (i, atoi_or m v, n)
        else if k = ''multiplier'' then (i, m, atoi_or n v)
        else t)"

definition timer_line :: "string \<Rightarrow> int \<times> int \<times> int \<Rightarrow> int \<times> int \<times> int" where
  "timer_line line t = (let ts = Fields line in fold timer_token (zip ts (tl ts)) t)"

definition timer_words :: "int \<Rightarrow> int \<Rightarrow> int \<Rightarrow> string list" where
  "timer_words i m n = [''interval'', Itoa i, ''min-rx'', Itoa m, ''multiplier'', Itoa n]"

lemma Itoa_no_word: "Atoi w = None \<Longrightarrow> int64 i \<Longrightarrow> Itoa i \<noteq> w"
  by auto

lemma timer_keywords: "Atoi ''interval'' = None" "Atoi ''min-rx'' = None" "Atoi ''multiplier'' = None"
  by code_simp+

lemma timer_line_words:
  assumes n: "int64 i" "int64 m" "int64 n" and pre: "pre \<in> {[], [''bfd'']}" and post: "post \<in> {[], [''default'']}"
  shows "timer_line (Join (pre @ timer_words i m n @ post) '' '') t = (i, m, n)"
proof -
  have words: "Fields (Join (pre @ timer_words i m n @ post) '' '') = pre @ timer_words i m n @ post"
  proof (rule Fields_Join)
    have "word_string ''bfd''" "word_string ''default''" "word_string ''interval''" "word_string ''min-rx''"
      "word_string ''multiplier''"
      by (simp_all add: word_string_def space_byte_def ascii_space_def)
    then show "word_string w" if "w \<in> set (pre @ timer_words i m n @ post)" for w
      using that pre post by (auto simp: timer_words_def)
  qed
  have no: "Itoa v \<noteq> ''interval''" "Itoa v \<noteq> ''min-rx''" "Itoa v \<noteq> ''multiplier''" if "int64 v" for v
    using that timer_keywords by (simp_all add: Itoa_no_word)
  show ?thesis
    using pre post no [OF n(1)] no [OF n(2)] no [OF n(3)] n
    unfolding timer_line_def words by (cases t) (auto simp: timer_words_def timer_token_def)
qed

end
