(* ===== verification/Loopback.thy ===== *)
theory Loopback
  imports L3_Common
begin

text \<open>\<open>internal/resources/l3/loopback.go\<close>: a loopback interface.\<close>

definition ErrLoopbackNumberOutOfRange :: error where
  [errs]: "ErrLoopbackNumberOutOfRange = Sentinel ''loopback number must be in 0..1000''"
definition ErrLoopbackBadIPv4 :: error where
  [errs]: "ErrLoopbackBadIPv4 = Sentinel ''loopback ipAddress must be a valid IPv4 CIDR (e.g. 10.0.0.1/32)''"
definition ErrLoopbackBadIPv6 :: error where
  [errs]: "ErrLoopbackBadIPv6 = Sentinel ''loopback ipv6Address must be a valid IPv6 CIDR (e.g. fc00::1/128)''"
definition ErrLoopbackNoAddress :: error where
  [errs]: "ErrLoopbackNoAddress = Sentinel ''loopback requires at least one of ipAddress or ipv6Address''"

record LoopbackArgs = overrides +
  lo_Number :: int
  lo_IPAddress :: "string option"
  lo_IPv6Address :: "string option"
  lo_Vrf :: "string option"
  lo_Description :: "string option"
  lo_Shutdown :: "bool option"

type_synonym LoopbackState = LoopbackArgs

definition validateLoopback :: "LoopbackArgs \<Rightarrow> error option" where
  "validateLoopback args =
     (if lo_Number args < 0 \<or> lo_Number args > 1000
        then Some (Got ErrLoopbackNumberOutOfRange [DInt (lo_Number args)])
      else if nonempty (lo_IPAddress args) = None \<and> nonempty (lo_IPv6Address args) = None
        then Some ErrLoopbackNoAddress
      else first_error
        [opt_err (\<lambda>s. if ipv4_cidr s then None else Some (Got ErrLoopbackBadIPv4 [DStr s])) (nonempty (lo_IPAddress args)),
         opt_err (\<lambda>s. if ipv6_cidr s then None else Some (Got ErrLoopbackBadIPv6 [DStr s])) (nonempty (lo_IPv6Address args))])"

definition loopbackID :: "int \<Rightarrow> string" where
  "loopbackID n = ''loopback/'' @ Itoa n"

definition loopbackName :: "int \<Rightarrow> string" where
  "loopbackName n = ''Loopback'' @ Itoa n"

definition buildLoopbackCmds :: "LoopbackArgs \<Rightarrow> bool \<Rightarrow> string list" where
  "buildLoopbackCmds args remove =
     (if remove then [''no interface '' @ loopbackName (lo_Number args)]
      else [''interface '' @ loopbackName (lo_Number args)]
           @ description_cmds (lo_Description args)
           @ line_opt (\<lambda>v. ''vrf '' @ v) (nonempty (lo_Vrf args))
           @ line_opt (\<lambda>v. ''ip address '' @ v) (nonempty (lo_IPAddress args))
           @ line_opt (\<lambda>v. ''ipv6 address '' @ v) (nonempty (lo_IPv6Address args))
           @ line_toggle ''shutdown'' ''no shutdown'' (lo_Shutdown args = Some True))"

definition applyLoopback :: "('n, 'w) ctx \<Rightarrow> LoopbackArgs \<Rightarrow> bool \<Rightarrow> 'w \<Rightarrow> unit res \<times> 'w" where
  "applyLoopback C args remove w =
     apply_session C args (''loopback-'' @ Itoa (lo_Number args)) (buildLoopbackCmds args remove) w"

record loopbackRow =
  lor_Description :: string
  lor_Vrf :: string
  lor_Address :: string
  lor_IPv6Address :: string
  lor_Shutdown :: bool

definition zero_loopbackRow :: loopbackRow where
  "zero_loopbackRow = \<lparr>lor_Description = [], lor_Vrf = [], lor_Address = [], lor_IPv6Address = [], lor_Shutdown = False\<rparr>"

definition loopback_line :: "string \<Rightarrow> loopbackRow \<Rightarrow> loopbackRow" where
  "loopback_line line row =
     (if HasPrefix line ''description '' then row\<lparr>lor_Description := TrimPrefix line ''description ''\<rparr>
      else if HasPrefix line ''vrf '' then row\<lparr>lor_Vrf := TrimPrefix line ''vrf ''\<rparr>
      else if HasPrefix line ''ipv6 address '' then row\<lparr>lor_IPv6Address := TrimPrefix line ''ipv6 address ''\<rparr>
      else if HasPrefix line ''ip address '' then row\<lparr>lor_Address := TrimPrefix line ''ip address ''\<rparr>
      else if line = ''shutdown'' then row\<lparr>lor_Shutdown := True\<rparr>
      else row)"

definition parseLoopbackConfig :: "string \<Rightarrow> int \<Rightarrow> loopbackRow option" where
  "parseLoopbackConfig out n =
     (if \<not> Contains out (''interface '' @ loopbackName n) then None
      else Some (scan loopback_line out zero_loopbackRow))"

definition readLoopback :: "('n, 'w) ctx \<Rightarrow> 'n client \<Rightarrow> int \<Rightarrow> 'w \<Rightarrow> loopbackRow option res \<times> 'w" where
  "readLoopback C cli n =
     read_text C cli (''show running-config interfaces '' @ loopbackName n) (\<lambda>out. Ok (parseLoopbackConfig out n))"

definition fillLoopback :: "loopbackRow \<Rightarrow> LoopbackState \<Rightarrow> LoopbackState" where
  "fillLoopback r s =
     s\<lparr>lo_Description := set_str (lor_Description r) (lo_Description s),
       lo_Vrf := set_str (lor_Vrf r) (lo_Vrf s),
       lo_IPAddress := set_str (lor_Address r) (lo_IPAddress s),
       lo_IPv6Address := set_str (lor_IPv6Address r) (lo_IPv6Address s),
       lo_Shutdown := set_true (lor_Shutdown r) (lo_Shutdown s)\<rparr>"

definition Loopback_Create :: "('n, 'w) ctx \<Rightarrow> LoopbackArgs request \<Rightarrow> 'w \<Rightarrow> LoopbackState created res \<times> 'w" where
  "Loopback_Create C =
     crud_create validateLoopback (\<lambda>a. loopbackID (lo_Number a)) (applyLoopback C)
       (\<lambda>a. ''create loopback '' @ Itoa (lo_Number a))"

definition Loopback_Read ::
  "('n, 'w) ctx \<Rightarrow> LoopbackArgs \<Rightarrow> 'w \<Rightarrow> (LoopbackArgs, LoopbackState) read_response option res \<times> 'w" where
  "Loopback_Read C =
     crud_read (newClient C) (\<lambda>cli a. readLoopback C cli (lo_Number a)) (\<lambda>a. loopbackID (lo_Number a)) fillLoopback"

definition Loopback_Update :: "('n, 'w) ctx \<Rightarrow> LoopbackArgs request \<Rightarrow> 'w \<Rightarrow> LoopbackState res \<times> 'w" where
  "Loopback_Update C =
     crud_update validateLoopback (applyLoopback C) (\<lambda>a. ''update loopback '' @ Itoa (lo_Number a))"

definition Loopback_Delete :: "('n, 'w) ctx \<Rightarrow> LoopbackState \<Rightarrow> 'w \<Rightarrow> unit res \<times> 'w" where
  "Loopback_Delete C = crud_delete (applyLoopback C) (\<lambda>a. ''delete loopback '' @ Itoa (lo_Number a))"

interpretation loopback_mgr: session_managed C validateLoopback "\<lambda>a. loopbackID (lo_Number a)"
  "applyLoopback C" "\<lambda>a. ''loopback-'' @ Itoa (lo_Number a)" buildLoopbackCmds
  by unfold_locales (simp add: applyLoopback_def)

section \<open>Reading back a rendered interface\<close>

definition loopback_idle :: "string \<Rightarrow> bool" where
  "loopback_idle l \<longleftrightarrow> l \<in> {[], ''!'', ''no shutdown''}"

interpretation lo_scan: line_scanner loopback_line loopback_idle
proof (unfold_locales, goal_cases)
  case (1 l r)
  then show ?case unfolding loopback_idle_def by (elim insertE emptyE) (simp_all add: loopback_line_def)
next
  case (2 l)
  then show ?case by (auto simp: loopback_idle_def noise_def)
qed

interpretation lo_description: attribute loopback_line "\<lambda>d. ''description '' @ d" "\<lambda>_. True"
  lor_Description "\<lambda>d r. r\<lparr>lor_Description := d\<rparr>"
  by unfold_locales (simp_all add: loopback_line_def)

interpretation lo_vrf: attribute loopback_line "\<lambda>d. ''vrf '' @ d" "\<lambda>_. True" lor_Vrf "\<lambda>d r. r\<lparr>lor_Vrf := d\<rparr>"
  by unfold_locales (simp_all add: loopback_line_def)

interpretation lo_ip: attribute loopback_line "\<lambda>d. ''ip address '' @ d" "\<lambda>_. True"
  lor_Address "\<lambda>d r. r\<lparr>lor_Address := d\<rparr>"
  by unfold_locales (simp_all add: loopback_line_def)

interpretation lo_ip6: attribute loopback_line "\<lambda>d. ''ipv6 address '' @ d" "\<lambda>_. True"
  lor_IPv6Address "\<lambda>d r. r\<lparr>lor_IPv6Address := d\<rparr>"
  by unfold_locales (simp_all add: loopback_line_def)

interpretation lo_shutdown: flag loopback_line "''shutdown''" lor_Shutdown "\<lambda>b r. r\<lparr>lor_Shutdown := b\<rparr>"
  by unfold_locales (simp_all add: loopback_line_def)

lemma loopback_quiet:
  "loopback_line (''interface '' @ loopbackName n) r = r" "loopback_line ''no shutdown'' r = r"
  by (simp_all add: loopback_line_def loopbackName_def)

lemma loopback_header:
  "prints loopback_idle out (buildLoopbackCmds a False) \<Longrightarrow> Contains out (''interface '' @ loopbackName (lo_Number a))"
  by (erule prints_Contains) (simp_all add: buildLoopbackCmds_def loopback_idle_def)

lemma loopback_roundtrip:
  assumes p: "prints loopback_idle out (buildLoopbackCmds a False)"
  shows "\<exists>row. parseLoopbackConfig out (lo_Number a) = Some row \<and> fillLoopback row a = a"
proof -
  let ?row = "zero_loopbackRow\<lparr>lor_Description := or_empty (nonempty (lo_Description a)),
      lor_Vrf := or_empty (nonempty (lo_Vrf a)), lor_Address := or_empty (nonempty (lo_IPAddress a)),
      lor_IPv6Address := or_empty (nonempty (lo_IPv6Address a)), lor_Shutdown := (lo_Shutdown a = Some True)\<rparr>"
  have "scan loopback_line out zero_loopbackRow = ?row"
    unfolding lo_scan.scan_prints [OF p] buildLoopbackCmds_def if_False fold_append comp_def
      lo_shutdown.fold_toggle [OF loopback_quiet(2)] fold_simps loopback_quiet(1) description_cmds_def
      lo_description.fold_attr [OF any_readable] lo_vrf.fold_attr [OF any_readable]
      lo_ip.fold_attr [OF any_readable] lo_ip6.fold_attr [OF any_readable]
    by (simp add: zero_loopbackRow_def)
  with loopback_header [OF p] have "parseLoopbackConfig out (lo_Number a) = Some ?row"
    by (simp add: parseLoopbackConfig_def)
  moreover have "fillLoopback ?row a = a" by (simp add: fillLoopback_def)
  ultimately show ?thesis by blast
qed

interpretation loopback_rb: readback validateLoopback "\<lambda>_. True" loopback_idle
  "\<lambda>a. buildLoopbackCmds a False" "\<lambda>a out. Ok (parseLoopbackConfig out (lo_Number a))" fillLoopback
proof (unfold_locales, goal_cases)
  case (1 a out)
  then show ?case using loopback_roundtrip by blast
next
  case (2 a out)
  then show ?case using loopback_header Contains_nonempty by blast
qed

end
