(* ===== verification/Static_Route.thy ===== *)
theory Static_Route
  imports L3_Common
begin

text \<open>
  \<open>internal/resources/l3/static_route.go\<close>: one \<open>ip route\<close> line, identified by VRF, prefix, next
  hop and distance.
\<close>

definition ErrStaticRouteBadPrefix :: error where
  [errs]: "ErrStaticRouteBadPrefix =
     Sentinel ''staticRoute prefix must be a valid IPv4 CIDR''"
definition ErrStaticRouteBadNextHop :: error where
  [errs]: "ErrStaticRouteBadNextHop =
     Sentinel ''staticRoute nextHop must be an IPv4 address or an EOS interface name''"
definition ErrStaticRouteBadDistance :: error where
  [errs]: "ErrStaticRouteBadDistance =
     Sentinel ''staticRoute distance must be in 1..255''"
definition ErrStaticRouteBadTag :: error where
  [errs]: "ErrStaticRouteBadTag =
     Sentinel ''staticRoute tag must be in 0..4294967295''"
definition ErrStaticRouteBadMetric :: error where
  [errs]: "ErrStaticRouteBadMetric = Sentinel ''staticRoute metric must be > 0''"
definition ErrStaticRouteEmptyText :: error where
  [errs]: "ErrStaticRouteEmptyText =
     Sentinel ''staticRoute name / track must be non-empty when set''"
definition ErrStaticRouteSpacesInText :: error where
  [errs]: "ErrStaticRouteSpacesInText =
     Sentinel ''staticRoute name / track must not contain spaces''"

record StaticRouteArgs = overrides +
  sr_Prefix :: string
  sr_NextHop :: string
  sr_Vrf :: "string option"
  sr_Distance :: "int option"
  sr_Tag :: "int option"
  sr_Name :: "string option"
  sr_Metric :: "int option"
  sr_Track :: "string option"

type_synonym StaticRouteState = StaticRouteArgs

definition staticRouteIfaceRe :: "string \<Rightarrow> bool" where
  "staticRouteIfaceRe s \<longleftrightarrow>
     s = ''Null0'' \<or> after s ''Ethernet'' (\<lambda>r. optional_dot (slash_groups r))
     \<or> after s ''Loopback'' (\<lambda>r. r = []) \<or> after s ''Management'' (\<lambda>r. r = [])
     \<or> after s ''Port-Channel'' optional_dot \<or> after s ''Vlan'' (\<lambda>r. r = []) \<or> after s ''Vxlan'' (\<lambda>r. r = [])"

definition validStaticRouteNextHop :: "string \<Rightarrow> bool" where
  "validStaticRouteNextHop s \<longleftrightarrow> ipv4_addr s \<or> staticRouteIfaceRe s"

definition validateStaticRouteText :: "string \<Rightarrow> string \<Rightarrow> error option" where
  "validateStaticRouteText field s =
     (if s = [] then Some (Got ErrStaticRouteEmptyText [DStr field])
      else if CHR '' '' \<in> set s \<or> CHR 0x09 \<in> set s then Some (Got ErrStaticRouteSpacesInText [DStr field, DStr s])
      else None)"

definition route_distance :: "int \<Rightarrow> error option" where
  "route_distance d = (if d < 1 \<or> d > 255 then Some (Got ErrStaticRouteBadDistance [DInt d]) else None)"

definition route_tag :: "int \<Rightarrow> error option" where
  "route_tag t = (if t < 0 \<or> t > 4294967295 then Some (Got ErrStaticRouteBadTag [DInt t]) else None)"

definition route_metric :: "int \<Rightarrow> error option" where
  "route_metric m = (if m \<le> 0 then Some (Got ErrStaticRouteBadMetric [DInt m]) else None)"

definition validateStaticRoute :: "StaticRouteArgs \<Rightarrow> error option" where
  "validateStaticRoute a =
     first_error
       [if ipv4_cidr (sr_Prefix a) then None else Some (Got ErrStaticRouteBadPrefix [DStr (sr_Prefix a)]),
        if validStaticRouteNextHop (sr_NextHop a) then None else Some (Got ErrStaticRouteBadNextHop [DStr (sr_NextHop a)]),
        opt_err route_distance (sr_Distance a),
        opt_err route_tag (sr_Tag a),
        opt_err route_metric (sr_Metric a),
        opt_err (validateStaticRouteText ''name'') (sr_Name a),
        opt_err (validateStaticRouteText ''track'') (sr_Track a)]"

definition route_vrf :: "StaticRouteArgs \<Rightarrow> string" where
  "route_vrf a = opt_or ''default'' (nonempty (sr_Vrf a))"

definition staticRouteID :: "StaticRouteArgs \<Rightarrow> string" where
  "staticRouteID a =
     ''route/'' @ route_vrf a @ ''/'' @ sr_Prefix a @ ''/'' @ sr_NextHop a @ ''/'' @ Itoa (opt_or 1 (sr_Distance a))"

definition route_token :: "string \<Rightarrow> string" where
  "route_token s =
     replace_bytes [(CHR ''/'', CHR ''-''), (CHR ''.'', CHR ''-''), (CHR '':'', CHR ''-''), (CHR '' '', CHR ''-'')] s"

definition staticRouteSessionToken :: "StaticRouteArgs \<Rightarrow> string" where
  "staticRouteSessionToken a =
     route_token (route_vrf a) @ ''-'' @ route_token (sr_Prefix a) @ ''-'' @ route_token (sr_NextHop a)
     @ ''-'' @ Itoa (opt_or 1 (sr_Distance a))"

text \<open>The words of the line: \<open>keyed k v\<close> is a keyword and its value, if there is one.\<close>

definition keyed :: "string \<Rightarrow> string option \<Rightarrow> string list" where
  "keyed k p = (case p of Some v \<Rightarrow> [k, v] | None \<Rightarrow> [])"

definition route_words :: "StaticRouteArgs \<Rightarrow> string list" where
  "route_words a =
     [''ip'', ''route''] @ keyed ''vrf'' (nonempty (sr_Vrf a)) @ [sr_Prefix a, sr_NextHop a]
     @ (case sr_Distance a of Some d \<Rightarrow> if d \<noteq> 1 then [Itoa d] else [] | None \<Rightarrow> [])"

definition route_knobs :: "StaticRouteArgs \<Rightarrow> string list" where
  "route_knobs a =
     keyed ''tag'' (case sr_Tag a of Some t \<Rightarrow> if t \<noteq> 0 then Some (Itoa t) else None | None \<Rightarrow> None)
     @ keyed ''name'' (nonempty (sr_Name a))
     @ keyed ''metric'' (map_option Itoa (positive (sr_Metric a)))
     @ keyed ''track'' (nonempty (sr_Track a))"

definition buildStaticRouteCmds :: "StaticRouteArgs \<Rightarrow> bool \<Rightarrow> string list" where
  "buildStaticRouteCmds a remove =
     (if remove then [''no '' @ Join (route_words a) '' '']
      else [Join (route_words a @ route_knobs a) '' ''])"

definition applyStaticRoute :: "('n, 'w) ctx \<Rightarrow> StaticRouteArgs \<Rightarrow> bool \<Rightarrow> 'w \<Rightarrow> unit res \<times> 'w" where
  "applyStaticRoute C a remove w =
     apply_session C a (''route-'' @ staticRouteSessionToken a) (buildStaticRouteCmds a remove) w"

record staticRouteRow =
  srr_Distance :: int
  srr_Tag :: int
  srr_Name :: string
  srr_Metric :: int
  srr_Track :: string

definition route_knob :: "string \<Rightarrow> string \<Rightarrow> staticRouteRow \<Rightarrow> staticRouteRow" where
  "route_knob k v r =
     (if k = ''tag'' then r\<lparr>srr_Tag := atoi_or (srr_Tag r) v\<rparr>
      else if k = ''name'' then r\<lparr>srr_Name := v\<rparr>
      else if k = ''metric'' then r\<lparr>srr_Metric := atoi_or (srr_Metric r) v\<rparr>
      else if k = ''track'' then r\<lparr>srr_Track := v\<rparr>
      else r)"

text \<open>The loop over the trailing words, two at a time.\<close>

fun route_pairs :: "string list \<Rightarrow> staticRouteRow \<Rightarrow> staticRouteRow" where
  "route_pairs (k # v # rest) r = route_pairs rest (route_knob k v r)"
| "route_pairs _ r = r"

text \<open>The row of one line, with its VRF (empty for the default one), its prefix and its next hop.\<close>

definition parseStaticRouteLine :: "string \<Rightarrow> (staticRouteRow \<times> string \<times> string \<times> string) option" where
  "parseStaticRouteLine line =
     (case Fields line of
        t0 # t1 # rest \<Rightarrow>
          if length rest < 2 \<or> t0 \<noteq> ''ip'' \<or> t1 \<noteq> ''route'' then None
          else (let (vrf, ws) = (if hd rest = ''vrf'' then (hd (tl rest), tl (tl rest)) else ([], rest)) in
                case ws of
                  prefix # nh # ks \<Rightarrow>
                    (let r0 = \<lparr>srr_Distance = 1, srr_Tag = 0, srr_Name = [], srr_Metric = 0, srr_Track = []\<rparr>;
                         (r1, ks') = (case ks of
                             d # ks1 \<Rightarrow>
                               (case Atoi d of
                                  Some v \<Rightarrow> if 1 \<le> v \<and> v \<le> 255 then (r0\<lparr>srr_Distance := v\<rparr>, ks1) else (r0, ks)
                                | None \<Rightarrow> (r0, ks))
                           | [] \<Rightarrow> (r0, ks))
                     in Some (route_pairs ks' r1, vrf, prefix, nh))
                | _ \<Rightarrow> None)
      | _ \<Rightarrow> None)"

text \<open>The first line of the route; the distance is not compared.\<close>

definition route_match :: "StaticRouteArgs \<Rightarrow> string \<Rightarrow> staticRouteRow option" where
  "route_match a line =
     (if \<not> HasPrefix line ''ip route '' then None
      else case parseStaticRouteLine line of
        Some (row, vrf, prefix, nh) \<Rightarrow>
          if vrf \<noteq> or_empty (nonempty (sr_Vrf a)) \<or> prefix \<noteq> sr_Prefix a \<or> nh \<noteq> sr_NextHop a then None else Some row
      | None \<Rightarrow> None)"

fun first_match :: "('l \<Rightarrow> 'r option) \<Rightarrow> 'l list \<Rightarrow> 'r option" where
  "first_match f [] = None"
| "first_match f (l # ls) = (case f l of Some r \<Rightarrow> Some r | None \<Rightarrow> first_match f ls)"

definition parseStaticRouteLines :: "string \<Rightarrow> StaticRouteArgs \<Rightarrow> staticRouteRow option" where
  "parseStaticRouteLines out a = first_match (route_match a) (trimmed_lines out)"

definition readStaticRoute ::
  "('n, 'w) ctx \<Rightarrow> 'n client \<Rightarrow> StaticRouteArgs \<Rightarrow> 'w \<Rightarrow> staticRouteRow option res \<times> 'w" where
  "readStaticRoute C cli a w =
     (case show_text C cli ''show running-config | grep ip'' w of
        (r, w') \<Rightarrow> (map_res (\<lambda>out. parseStaticRouteLines out a) r, w'))"

definition fillStaticRoute :: "staticRouteRow \<Rightarrow> StaticRouteState \<Rightarrow> StaticRouteState" where
  "fillStaticRoute r s =
     s\<lparr>sr_Distance := (if srr_Distance r > 0 \<and> srr_Distance r \<noteq> 1 then Some (srr_Distance r) else sr_Distance s),
       sr_Tag := set_pos (srr_Tag r) (sr_Tag s),
       sr_Name := set_str (srr_Name r) (sr_Name s),
       sr_Metric := set_pos (srr_Metric r) (sr_Metric s),
       sr_Track := set_str (srr_Track r) (sr_Track s)\<rparr>"

definition StaticRoute_Create ::
  "('n, 'w) ctx \<Rightarrow> StaticRouteArgs request \<Rightarrow> 'w \<Rightarrow> StaticRouteState created res \<times> 'w" where
  "StaticRoute_Create C =
     crud_create validateStaticRoute (\<lambda>a. staticRouteID a) (applyStaticRoute C)
       (\<lambda>a. ''create static route '' @ staticRouteID a)"

definition StaticRoute_Read ::
  "('n, 'w) ctx \<Rightarrow> StaticRouteArgs \<Rightarrow> 'w \<Rightarrow> (StaticRouteArgs, StaticRouteState) read_response option res \<times> 'w" where
  "StaticRoute_Read C =
     crud_read (newClient C) (\<lambda>cli a. readStaticRoute C cli a) (\<lambda>a. staticRouteID a) fillStaticRoute"

definition StaticRoute_Update :: "('n, 'w) ctx \<Rightarrow> StaticRouteArgs request \<Rightarrow> 'w \<Rightarrow> StaticRouteState res \<times> 'w" where
  "StaticRoute_Update C =
     crud_update validateStaticRoute (applyStaticRoute C)
       (\<lambda>a. ''update static route '' @ staticRouteID a)"

definition StaticRoute_Delete :: "('n, 'w) ctx \<Rightarrow> StaticRouteState \<Rightarrow> 'w \<Rightarrow> unit res \<times> 'w" where
  "StaticRoute_Delete C =
     crud_delete (applyStaticRoute C)
       (\<lambda>a. ''delete static route '' @ staticRouteID a)"

interpretation static_route_mgr: session_managed C validateStaticRoute "\<lambda>a. staticRouteID a"
  "applyStaticRoute C" "\<lambda>a. ''route-'' @ staticRouteSessionToken a" buildStaticRouteCmds
  by unfold_locales (simp add: applyStaticRoute_def)

section \<open>Reading back a rendered route\<close>

lemma route_nexthop_word:
  assumes "validStaticRouteNextHop s" shows "word_string s"
proof -
  have none: "set r \<subseteq> plain_chars" if "r = []" for r using that by simp
  have ether: "set r \<subseteq> plain_chars" if "optional_dot (slash_groups r)" for r
    using slash_groups_chars [of r] optional_dot_chars [OF that] by blast
  have p: "set ''Ethernet'' \<subseteq> plain_chars" "set ''Loopback'' \<subseteq> plain_chars" "set ''Management'' \<subseteq> plain_chars"
    "set ''Port-Channel'' \<subseteq> plain_chars" "set ''Vlan'' \<subseteq> plain_chars" "set ''Vxlan'' \<subseteq> plain_chars"
    by (simp_all add: plain_chars_def space_byte_def ascii_space_def)
  have null: "word_string ''Null0''" by (simp add: word_string_def space_byte_def ascii_space_def)
  from assms consider "ipv4_addr s" | "s = ''Null0''" | "after s ''Ethernet'' (\<lambda>r. optional_dot (slash_groups r))"
    | "after s ''Port-Channel'' optional_dot"
    | p where "p \<in> {''Loopback'', ''Management'', ''Vlan'', ''Vxlan''}" "after s p (\<lambda>r. r = [])"
    unfolding validStaticRouteNextHop_def staticRouteIfaceRe_def by blast
  then show ?thesis
  proof cases
    case 1
    then show ?thesis by (rule addr_word)
  next
    case 2
    with null show ?thesis by simp
  next
    case 3
    from after_chars [OF this p(1) ether] show ?thesis by simp
  next
    case 4
    from after_chars [OF this p(4) optional_dot_chars] show ?thesis by simp
  next
    case 5
    with p have "set p \<subseteq> plain_chars" "p \<noteq> []" by auto
    with after_chars [OF 5(2) _ none] show ?thesis by blast
  qed
qed

definition canonical_route :: "StaticRouteArgs \<Rightarrow> bool" where
  "canonical_route a \<longleftrightarrow>
     pred_option word_string (nonempty (sr_Vrf a)) \<and> pred_option word_string (sr_Name a)
     \<and> pred_option word_string (sr_Track a) \<and> pred_option int64 (sr_Metric a)"

definition shown_route :: "StaticRouteArgs \<Rightarrow> staticRouteRow" where
  "shown_route a =
     \<lparr>srr_Distance = opt_or 1 (sr_Distance a), srr_Tag = or_zero (sr_Tag a), srr_Name = or_empty (sr_Name a),
      srr_Metric = or_zero (sr_Metric a), srr_Track = or_empty (sr_Track a)\<rparr>"

lemma validateStaticRoute_None:
  assumes "validateStaticRoute a = None"
  shows "word_string (sr_Prefix a)" and "word_string (sr_NextHop a)" and "sr_Prefix a \<noteq> ''vrf''"
    and "pred_option (\<lambda>d. 1 \<le> d \<and> d \<le> 255) (sr_Distance a)"
    and "pred_option (\<lambda>t. 0 \<le> t \<and> t \<le> 4294967295) (sr_Tag a)"
    and "pred_option (\<lambda>m. 0 < m) (sr_Metric a)"
    and "sr_Name a \<noteq> Some []" and "sr_Track a \<noteq> Some []"
proof -
  note v = assms [unfolded validateStaticRoute_def first_error_None]
  from v have "ipv4_cidr (sr_Prefix a)" "validStaticRouteNextHop (sr_NextHop a)" by (simp_all split: if_splits)
  then show "word_string (sr_Prefix a)" "word_string (sr_NextHop a)"
    by (simp_all add: cidr_word route_nexthop_word)
  show "sr_Prefix a \<noteq> ''vrf''"
  proof
    assume "sr_Prefix a = ''vrf''"
    with \<open>ipv4_cidr (sr_Prefix a)\<close> show False by (simp add: ipv4_cidr_def ParsePrefix_def)
  qed
  show "pred_option (\<lambda>d. 1 \<le> d \<and> d \<le> 255) (sr_Distance a)"
    "pred_option (\<lambda>t. 0 \<le> t \<and> t \<le> 4294967295) (sr_Tag a)" "pred_option (\<lambda>m. 0 < m) (sr_Metric a)"
    using v by (auto simp: opt_err_None route_distance_def route_tag_def route_metric_def option.pred_set not_less
        split: if_splits)
  show "sr_Name a \<noteq> Some []" "sr_Track a \<noteq> Some []"
    using v by (auto simp: opt_err_None validateStaticRouteText_def)
qed

lemma keyed_words: "pred_option word_string p \<Longrightarrow> word_string k \<Longrightarrow> list_all word_string (keyed k p)"
  by (cases p) (auto simp: keyed_def)

lemma route_keywords:
  "word_string ''ip''" "word_string ''route''" "word_string ''vrf''" "word_string ''tag''" "word_string ''name''"
  "word_string ''metric''" "word_string ''track''"
  by (simp_all add: word_string_def space_byte_def ascii_space_def)

lemma route_pairs_keyed:
  "route_pairs (keyed k p @ ws) r = route_pairs ws (case p of Some v \<Rightarrow> route_knob k v r | None \<Rightarrow> r)"
  by (cases p) (simp_all add: keyed_def)

lemma route_line_words:
  assumes v: "validateStaticRoute a = None" and c: "canonical_route a"
  shows "Fields (Join (route_words a @ route_knobs a) '' '') = route_words a @ route_knobs a"
proof (rule Fields_Join)
  have vrf: "pred_option word_string (nonempty (sr_Vrf a))" and nm: "pred_option word_string (nonempty (sr_Name a))"
    and tr: "pred_option word_string (nonempty (sr_Track a))"
    using c by (auto simp: canonical_route_def option.pred_set)
  have num: "pred_option word_string (map_option Itoa p)" for p by (cases p) simp_all
  have tag: "pred_option word_string (case sr_Tag a of Some t \<Rightarrow> if t \<noteq> 0 then Some (Itoa t) else None | None \<Rightarrow> None)"
    by (simp split: option.split)
  have dist: "list_all word_string (case sr_Distance a of Some d \<Rightarrow> if d \<noteq> 1 then [Itoa d] else [] | None \<Rightarrow> [])"
    by (simp split: option.split)
  have "list_all word_string (route_words a @ route_knobs a)"
    unfolding route_words_def route_knobs_def list_all_append list.pred_inject
    by (intro conjI TrueI dist route_keywords validateStaticRoute_None(1,2) [OF v]
        keyed_words [OF vrf] keyed_words [OF nm] keyed_words [OF tr] keyed_words [OF num] keyed_words [OF tag]) simp_all
  then show "word_string w" if "w \<in> set (route_words a @ route_knobs a)" for w
    using that unfolding list_all_iff by blast
qed

lemma route_pairs_knobs:
  assumes v: "validateStaticRoute a = None" and c: "canonical_route a"
  shows "route_pairs (route_knobs a) \<lparr>srr_Distance = d, srr_Tag = 0, srr_Name = [], srr_Metric = 0, srr_Track = []\<rparr>
     = (shown_route a)\<lparr>srr_Distance := d\<rparr>"
proof -
  note v' = validateStaticRoute_None [OF v]
  have t: "pred_option int64 (sr_Tag a)" using v'(5) by (auto simp: option.pred_set int64_def)
  have m: "pred_option int64 (sr_Metric a)" using c by (simp add: canonical_route_def)
  have "route_pairs (keyed k p) r = (case p of Some x \<Rightarrow> route_knob k x r | None \<Rightarrow> r)" for k p r
    using route_pairs_keyed [of k p "[]" r] by simp
  then show ?thesis
    unfolding route_knobs_def route_pairs_keyed
    using t m v'(6-8) by (cases "sr_Tag a"; cases "sr_Name a"; cases "sr_Metric a"; cases "sr_Track a")
      (auto simp: route_knob_def shown_route_def nonempty_def)
qed

lemma parse_shown_route:
  assumes v: "validateStaticRoute a = None" and c: "canonical_route a"
  shows "route_match a (Join (route_words a @ route_knobs a) '' '') = Some (shown_route a)"
proof -
  note v' = validateStaticRoute_None [OF v]
  let ?l = "Join (route_words a @ route_knobs a) '' ''"
  have pre: "HasPrefix ?l ''ip route ''"
    by (cases "nonempty (sr_Vrf a)") (simp_all add: route_words_def keyed_def del: nonempty_eq_Some nonempty_eq_None)
  let ?r0 = "\<lambda>d. \<lparr>srr_Distance = d, srr_Tag = 0, srr_Name = [], srr_Metric = 0, srr_Track = []\<rparr>"
  let ?ds = "case sr_Distance a of Some d \<Rightarrow> if d \<noteq> 1 then [Itoa d] else [] | None \<Rightarrow> []"
  have knob: "Atoi k = None" if "route_knobs a = k # ks" for k ks
  proof -
    from that have "k \<in> {''tag'', ''name'', ''metric'', ''track''}"
      by (auto simp: route_knobs_def keyed_def split: option.splits)
    moreover have "Atoi ''tag'' = None" "Atoi ''name'' = None" "Atoi ''metric'' = None" "Atoi ''track'' = None"
      by code_simp+
    ultimately show ?thesis by blast
  qed
  have tail: "(case ?ds @ route_knobs a of
       d # ks1 \<Rightarrow>
         (case Atoi d of
            Some v \<Rightarrow> if 1 \<le> v \<and> v \<le> 255 then ((?r0 1)\<lparr>srr_Distance := v\<rparr>, ks1) else (?r0 1, ?ds @ route_knobs a)
          | None \<Rightarrow> (?r0 1, ?ds @ route_knobs a))
     | [] \<Rightarrow> (?r0 1, ?ds @ route_knobs a)) = (?r0 (opt_or 1 (sr_Distance a)), route_knobs a)"
  proof (cases "sr_Distance a = None \<or> sr_Distance a = Some 1")
    case True
    with knob show ?thesis by (cases "route_knobs a") auto
  next
    case False
    then obtain d where d: "sr_Distance a = Some d" "d \<noteq> 1" by auto
    with v'(4) have "Atoi (Itoa d) = Some d" "1 \<le> d" "d \<le> 255" by (simp_all add: int64_def)
    with d show ?thesis by simp
  qed
  have same: "(shown_route a)\<lparr>srr_Distance := opt_or 1 (sr_Distance a)\<rparr> = shown_route a"
    by (simp add: shown_route_def)
  have "parseStaticRouteLine ?l = Some (shown_route a, or_empty (nonempty (sr_Vrf a)), sr_Prefix a, sr_NextHop a)"
    unfolding parseStaticRouteLine_def route_line_words [OF v c]
    using tail route_pairs_knobs [OF v c, of "opt_or 1 (sr_Distance a)"] same v'(3)
    by (cases "nonempty (sr_Vrf a)")
      (simp_all add: route_words_def keyed_def Let_def del: nonempty_eq_Some nonempty_eq_None)
  with pre show ?thesis by (simp add: route_match_def)
qed

lemma fill_shown_route:
  assumes "validateStaticRoute a = None"
  shows "fillStaticRoute (shown_route a) a = a"
  using validateStaticRoute_None(4) [OF assms]
  by (cases "sr_Distance a") (simp_all add: fillStaticRoute_def shown_route_def)

text \<open>
  A listing from which every line for the same VRF, prefix and next hop is the route's own line, and
  which has that line, gives the route back.
\<close>

lemma first_match_only:
  assumes "l \<in> set ls" and "f l = Some r" and "\<And>x. x \<in> set ls \<Longrightarrow> f x \<noteq> None \<Longrightarrow> x = l"
  shows "first_match f ls = Some r"
  using assms(1,3)
proof (induction ls)
  case (Cons x xs)
  show ?case
  proof (cases "f x")
    case None
    with Cons.prems(1) assms(2) have "l \<in> set xs" by auto
    with Cons.IH Cons.prems(2) None show ?thesis by simp
  next
    case (Some y)
    then have "x = l" using Cons.prems(2) by simp
    with assms(2) show ?thesis by simp
  qed
qed simp

lemma parse_only_route:
  assumes "validateStaticRoute a = None" and "canonical_route a"
    and "hd (buildStaticRouteCmds a False) \<in> set (trimmed_lines out)"
    and "\<And>l. l \<in> set (trimmed_lines out) \<Longrightarrow> route_match a l \<noteq> None \<Longrightarrow> l = hd (buildStaticRouteCmds a False)"
  shows "parseStaticRouteLines out a = Some (shown_route a)"
  unfolding parseStaticRouteLines_def
  by (rule first_match_only [OF assms(3) _ assms(4)]) (simp_all add: buildStaticRouteCmds_def parse_shown_route assms(1,2))

end
