(* ===== verification/Vrf.thy ===== *)
theory Vrf
  imports L3_Common
begin

text \<open>
  \<open>internal/resources/l3/vrf.go\<close>: a VRF instance and the global switches that route it.
\<close>

definition ErrVrfNameRequired :: error where
  [errs]: "ErrVrfNameRequired = Sentinel ''vrf name is required''"
definition ErrVrfNameReserved :: error where
  [errs]: "ErrVrfNameReserved = Sentinel (''vrf name '' @ [CHR 0x27] @ ''default'' @ [CHR 0x27] @ '' is reserved'')"

record VrfArgs = overrides +
  vrf_Name :: string
  vrf_Description :: "string option"
  vrf_IPRouting :: "bool option"
  vrf_IPv6Routing :: "bool option"

type_synonym VrfState = VrfArgs

text \<open>\<open>strings.EqualFold\<close> against \<open>default\<close>: no letter of it folds to a code point beyond ASCII.\<close>

definition validateVrf :: "VrfArgs \<Rightarrow> error option" where
  "validateVrf args =
     (let name = TrimSpace (vrf_Name args)
      in if name = [] then Some ErrVrfNameRequired
         else if ToLower name = ''default'' then Some ErrVrfNameReserved
         else None)"

definition vrfID :: "string \<Rightarrow> string" where
  "vrfID name = ''vrf/'' @ name"

definition buildVrfCmds :: "VrfArgs \<Rightarrow> bool \<Rightarrow> string list" where
  "buildVrfCmds args remove =
     (if remove then
        [''no ip routing vrf '' @ vrf_Name args,
         ''no ipv6 unicast-routing vrf '' @ vrf_Name args,
         ''no vrf instance '' @ vrf_Name args]
      else
        [''vrf instance '' @ vrf_Name args]
        @ [case nonempty (vrf_Description args) of Some d \<Rightarrow> ''description '' @ d | None \<Rightarrow> ''no description'']
        @ [''exit'']
        @ [if opt_or True (vrf_IPRouting args) then ''ip routing vrf '' @ vrf_Name args
           else ''no ip routing vrf '' @ vrf_Name args]
        @ [if opt_or False (vrf_IPv6Routing args) then ''ipv6 unicast-routing vrf '' @ vrf_Name args
           else ''no ipv6 unicast-routing vrf '' @ vrf_Name args])"

definition applyVrf :: "('n, 'w) ctx \<Rightarrow> VrfArgs \<Rightarrow> bool \<Rightarrow> 'w \<Rightarrow> unit res \<times> 'w" where
  "applyVrf C args remove w =
     apply_session C args (''vrf-'' @ vrf_Name args) (buildVrfCmds args remove) w"

record vrfRow =
  vrr_Description :: string
  vrr_IPRouting :: bool
  vrr_IPv6Routing :: bool

definition zero_vrfRow :: vrfRow where
  "zero_vrfRow = \<lparr>vrr_Description = [], vrr_IPRouting = False, vrr_IPv6Routing = False\<rparr>"

definition vrf_line :: "string \<Rightarrow> vrfRow \<Rightarrow> vrfRow" where
  "vrf_line line row =
     (case CutPrefix line ''description '' of Some v \<Rightarrow> row\<lparr>vrr_Description := v\<rparr> | None \<Rightarrow> row)"

definition parseVrfSection :: "string \<Rightarrow> string \<Rightarrow> vrfRow option" where
  "parseVrfSection out name =
     (if \<not> Contains out (''vrf instance '' @ name) then None else Some (scan vrf_line out zero_vrfRow))"

definition vrf_needle :: "string \<Rightarrow> bool \<Rightarrow> string" where
  "vrf_needle name ipv6 = (if ipv6 then ''ipv6 unicast-routing vrf '' @ name else ''ip routing vrf '' @ name)"

definition vrfRoutingEnabled :: "('n, 'w) ctx \<Rightarrow> 'n client \<Rightarrow> string \<Rightarrow> bool \<Rightarrow> 'w \<Rightarrow> bool res \<times> 'w" where
  "vrfRoutingEnabled C cli name ipv6 w =
     (case show_text C cli (''show running-config | include '' @ vrf_needle name ipv6) w of
        (r, w') \<Rightarrow> (map_res (\<lambda>out. vrf_needle name ipv6 \<in> set (trimmed_lines out)) r, w'))"

text \<open>\<open>if v, err := probe(); err == nil { row.F = v }\<close>: an error leaves the row as it is.\<close>

definition probe :: "'b res \<times> 'w \<Rightarrow> ('b \<Rightarrow> 'r) \<Rightarrow> 'r \<Rightarrow> 'r res \<times> 'w" where
  "probe out put row =
     (case out of (r, w) \<Rightarrow>
        ((case r of Ok v \<Rightarrow> Ok (put v) | Err _ \<Rightarrow> Ok row | Panic \<Rightarrow> Panic | Blocked \<Rightarrow> Blocked), w))"

definition readVrf :: "('n, 'w) ctx \<Rightarrow> 'n client \<Rightarrow> string \<Rightarrow> 'w \<Rightarrow> vrfRow option res \<times> 'w" where
  "readVrf C cli name w =
     (case show_text C cli (''show running-config | section vrf instance '' @ name) w of
        (r, w1) \<Rightarrow>
          and_then (map_res (\<lambda>out. parseVrfSection out name) r)
            (\<lambda>found w1. case found of
               None \<Rightarrow> (Ok None, w1)
             | Some row \<Rightarrow>
                 (case probe (vrfRoutingEnabled C cli name False w1) (\<lambda>v. row\<lparr>vrr_IPRouting := v\<rparr>) row of
                    (r4, w2) \<Rightarrow>
                      and_then r4
                        (\<lambda>row w2.
                           case probe (vrfRoutingEnabled C cli name True w2) (\<lambda>v. row\<lparr>vrr_IPv6Routing := v\<rparr>) row of
                             (r6, w3) \<Rightarrow> (map_res Some r6, w3)) w2)) w1)"

definition fillVrf :: "vrfRow \<Rightarrow> VrfState \<Rightarrow> VrfState" where
  "fillVrf r s =
     s\<lparr>vrf_Description := set_str (vrr_Description r) (vrf_Description s),
       vrf_IPRouting := Some (vrr_IPRouting r),
       vrf_IPv6Routing := Some (vrr_IPv6Routing r)\<rparr>"

definition Vrf_Create ::
  "('n, 'w) ctx \<Rightarrow> VrfArgs request \<Rightarrow> 'w \<Rightarrow> VrfState created res \<times> 'w" where
  "Vrf_Create C =
     crud_create validateVrf (\<lambda>a. vrfID (vrf_Name a)) (applyVrf C)
       (\<lambda>a. ''create vrf '' @ vrf_Name a)"

definition Vrf_Read ::
  "('n, 'w) ctx \<Rightarrow> VrfArgs \<Rightarrow> 'w \<Rightarrow> (VrfArgs, VrfState) read_response option res \<times> 'w" where
  "Vrf_Read C =
     crud_read (newClient C) (\<lambda>cli a. readVrf C cli (vrf_Name a)) (\<lambda>a. vrfID (vrf_Name a)) fillVrf"

definition Vrf_Update :: "('n, 'w) ctx \<Rightarrow> VrfArgs request \<Rightarrow> 'w \<Rightarrow> VrfState res \<times> 'w" where
  "Vrf_Update C =
     crud_update validateVrf (applyVrf C)
       (\<lambda>a. ''update vrf '' @ vrf_Name a)"

definition Vrf_Delete :: "('n, 'w) ctx \<Rightarrow> VrfState \<Rightarrow> 'w \<Rightarrow> unit res \<times> 'w" where
  "Vrf_Delete C =
     crud_delete (applyVrf C)
       (\<lambda>a. ''delete vrf '' @ vrf_Name a)"

interpretation vrf_mgr: session_managed C validateVrf "\<lambda>a. vrfID (vrf_Name a)"
  "applyVrf C" "\<lambda>a. ''vrf-'' @ vrf_Name a" buildVrfCmds
  by unfold_locales (simp add: applyVrf_def)

section \<open>Reading back\<close>

definition vrf_idle :: "string \<Rightarrow> bool" where
  "vrf_idle l \<longleftrightarrow> l \<in> {[], ''!'', ''no description''}"

interpretation vrf_scan: line_scanner vrf_line vrf_idle
proof (unfold_locales, goal_cases)
  case (1 l r)
  then show ?case unfolding vrf_idle_def by (elim insertE emptyE) (simp_all add: vrf_line_def)
next
  case (2 l)
  then show ?case by (auto simp: vrf_idle_def noise_def)
qed

interpretation vrf_description: attribute vrf_line "\<lambda>d. ''description '' @ d" "\<lambda>_. True"
  vrr_Description "\<lambda>v r. r\<lparr>vrr_Description := v\<rparr>"
  by unfold_locales (simp_all add: vrf_line_def)

text \<open>What the device shows in the section of the VRF: the instance and its description.\<close>

definition vrf_section :: "VrfArgs \<Rightarrow> string list" where
  "vrf_section a =
     [''vrf instance '' @ vrf_Name a] @ line_opt (\<lambda>d. ''description '' @ d) (nonempty (vrf_Description a))"

lemma vrf_section_rendered: "set (vrf_section a) \<subseteq> set (buildVrfCmds a False)"
  by (cases "nonempty (vrf_Description a)") (simp_all add: vrf_section_def buildVrfCmds_def del: nonempty_eq_Some nonempty_eq_None)

lemma parse_vrf_section:
  assumes p: "prints vrf_idle out (vrf_section a)"
  shows "parseVrfSection out (vrf_Name a)
    = Some (zero_vrfRow\<lparr>vrr_Description := or_empty (nonempty (vrf_Description a))\<rparr>)"
proof -
  have "Contains out (''vrf instance '' @ vrf_Name a)"
    by (rule prints_Contains [OF p]) (simp_all add: vrf_section_def vrf_idle_def)
  moreover have quiet: "vrf_line (''vrf instance '' @ n) r = r" for n r by (simp add: vrf_line_def)
  have "scan vrf_line out zero_vrfRow = zero_vrfRow\<lparr>vrr_Description := or_empty (nonempty (vrf_Description a))\<rparr>"
    unfolding vrf_scan.scan_prints [OF p] vrf_section_def fold_append comp_def fold_simps quiet
      vrf_description.fold_attr [OF any_readable]
    by (simp add: zero_vrfRow_def)
  ultimately show ?thesis by (simp add: parseVrfSection_def)
qed

text \<open>The global switches, as the commands of the resource leave them.\<close>

definition vrf_switch :: "VrfArgs \<Rightarrow> bool \<Rightarrow> bool" where
  "vrf_switch a ipv6 = (if ipv6 then opt_or False (vrf_IPv6Routing a) else opt_or True (vrf_IPRouting a))"

definition vrf_shown :: "VrfArgs \<Rightarrow> bool \<Rightarrow> string \<Rightarrow> bool" where
  "vrf_shown a ipv6 out \<longleftrightarrow> (vrf_needle (vrf_Name a) ipv6 \<in> set (trimmed_lines out)) = vrf_switch a ipv6"

lemma vrf_switch_rendered:
  "vrf_needle (vrf_Name a) ipv6 \<in> set (buildVrfCmds a False) \<longleftrightarrow> vrf_switch a ipv6"
  by (auto simp: vrf_needle_def buildVrfCmds_def vrf_switch_def split: option.split simp del: nonempty_eq_Some nonempty_eq_None)

text \<open>The state after a refresh: the description as it was, the switches spelled out.\<close>

lemma readVrf_settled:
  assumes "show_text C cli (''show running-config | section vrf instance '' @ vrf_Name a) w = (Ok out, w1)"
    and "prints vrf_idle out (vrf_section a)"
    and "show_text C cli (''show running-config | include '' @ vrf_needle (vrf_Name a) False) w1 = (Ok out4, w2)"
    and "vrf_shown a False out4"
    and "show_text C cli (''show running-config | include '' @ vrf_needle (vrf_Name a) True) w2 = (Ok out6, w3)"
    and "vrf_shown a True out6"
  shows "readVrf C cli (vrf_Name a) w =
    (Ok (Some \<lparr>vrr_Description = or_empty (nonempty (vrf_Description a)),
               vrr_IPRouting = vrf_switch a False, vrr_IPv6Routing = vrf_switch a True\<rparr>), w3)"
  using assms
  by (simp add: readVrf_def vrfRoutingEnabled_def probe_def parse_vrf_section vrf_shown_def zero_vrfRow_def)

lemma fillVrf_settled:
  "fillVrf \<lparr>vrr_Description = or_empty (nonempty (vrf_Description a)),
            vrr_IPRouting = vrf_switch a False, vrr_IPv6Routing = vrf_switch a True\<rparr> a
   = a\<lparr>vrf_IPRouting := Some (vrf_switch a False), vrf_IPv6Routing := Some (vrf_switch a True)\<rparr>"
  by (simp add: fillVrf_def)

end
