(* ===== verification/As_Path_Access_List.thy ===== *)
theory As_Path_Access_List
  imports L3_Common
begin

text \<open>\<open>internal/resources/l3/as_path_access_list.go\<close>: an AS-path access list.\<close>

definition ErrAsPathListNameRequired :: error where
  [errs]: "ErrAsPathListNameRequired = Sentinel ''asPathAccessList name is required''"
definition ErrAsPathListEmptyEntries :: error where
  [errs]: "ErrAsPathListEmptyEntries = Sentinel ''asPathAccessList must have at least one entry''"
definition ErrAsPathListAction :: error where
  [errs]: "ErrAsPathListAction =
     Sentinel (''asPathAccessList entry action must be '' @ [CHR 0x27] @ ''permit'' @ [CHR 0x27] @ '' or ''
       @ [CHR 0x27] @ ''deny'' @ [CHR 0x27])"
definition ErrAsPathListRegexEmpty :: error where
  [errs]: "ErrAsPathListRegexEmpty = Sentinel ''asPathAccessList entry regex is required''"

record AsPathAccessListEntry =
  ape_Action :: string
  ape_Regex :: string

record AsPathAccessListArgs = overrides +
  ap_Name :: string
  ap_Entries :: "AsPathAccessListEntry list"

type_synonym AsPathAccessListState = AsPathAccessListArgs

definition as_path_entry :: "AsPathAccessListEntry \<Rightarrow> error option" where
  "as_path_entry e =
     (if \<not> permit_deny (ape_Action e) then Some (Got ErrAsPathListAction [DStr (ape_Action e)])
      else if TrimSpace (ape_Regex e) = [] then Some ErrAsPathListRegexEmpty
      else None)"

definition validateAsPathAccessList :: "AsPathAccessListArgs \<Rightarrow> error option" where
  "validateAsPathAccessList args =
     (if TrimSpace (ap_Name args) = [] then Some ErrAsPathListNameRequired
      else if ap_Entries args = [] then Some ErrAsPathListEmptyEntries
      else first_error (map as_path_entry (ap_Entries args)))"

definition asPathAccessListID :: "string \<Rightarrow> string" where
  "asPathAccessListID name = ''as-path-access-list/'' @ name"

definition as_path_cmd :: "AsPathAccessListArgs \<Rightarrow> AsPathAccessListEntry \<Rightarrow> string" where
  "as_path_cmd args e = ''ip as-path access-list '' @ ap_Name args @ '' '' @ ape_Action e @ '' '' @ ape_Regex e"

definition buildAsPathAccessListCmds :: "AsPathAccessListArgs \<Rightarrow> bool \<Rightarrow> string list" where
  "buildAsPathAccessListCmds args remove =
     (if remove then [''no ip as-path access-list '' @ ap_Name args]
      else [''no ip as-path access-list '' @ ap_Name args] @ map (as_path_cmd args) (ap_Entries args))"

definition applyAsPathAccessList :: "('n, 'w) ctx \<Rightarrow> AsPathAccessListArgs \<Rightarrow> bool \<Rightarrow> 'w \<Rightarrow> unit res \<times> 'w" where
  "applyAsPathAccessList C args remove w =
     apply_session C args (''aspath-'' @ sanitizePrefixListName (ap_Name args))
       (buildAsPathAccessListCmds args remove) w"

record asPathAccessListRow =
  apr_Name :: string
  apr_Entries :: "AsPathAccessListEntry list"

definition parseAsPathAccessListEntryRest :: "string \<Rightarrow> AsPathAccessListEntry option" where
  "parseAsPathAccessListEntryRest rest =
     (case split2 rest of
        None \<Rightarrow> None
      | Some (action, raw) \<Rightarrow>
          if \<not> permit_deny action then None
          else (let body = (case CutSuffix raw '' any'' of Some trimmed \<Rightarrow> trimmed | None \<Rightarrow> raw)
                in if body = [] then None else Some \<lparr>ape_Action = action, ape_Regex = body\<rparr>))"

definition as_path_line :: "string \<Rightarrow> string \<Rightarrow> AsPathAccessListEntry option" where
  "as_path_line name line =
     Option.bind (CutPrefix line (''ip as-path access-list '' @ name @ '' '')) parseAsPathAccessListEntryRest"

definition parseAsPathAccessListLines :: "string \<Rightarrow> string \<Rightarrow> asPathAccessListRow option" where
  "parseAsPathAccessListLines out name =
     (let entries = list_entries (as_path_line name) out
      in if entries = [] then None else Some \<lparr>apr_Name = name, apr_Entries = entries\<rparr>)"

definition readAsPathAccessList ::
  "('n, 'w) ctx \<Rightarrow> 'n client \<Rightarrow> string \<Rightarrow> 'w \<Rightarrow> asPathAccessListRow option res \<times> 'w" where
  "readAsPathAccessList C cli name w =
     (case show_text C cli ''show running-config | grep as-path'' w of
        (r, w') \<Rightarrow> (map_res (\<lambda>out. parseAsPathAccessListLines out name) r, w'))"

definition fillAsPathAccessList :: "asPathAccessListRow \<Rightarrow> AsPathAccessListState \<Rightarrow> AsPathAccessListState" where
  "fillAsPathAccessList r s =
     s\<lparr>ap_Entries := (if apr_Entries r \<noteq> [] then apr_Entries r else ap_Entries s)\<rparr>"

definition AsPathAccessList_Create ::
  "('n, 'w) ctx \<Rightarrow> AsPathAccessListArgs request \<Rightarrow> 'w \<Rightarrow> AsPathAccessListState created res \<times> 'w" where
  "AsPathAccessList_Create C =
     crud_create validateAsPathAccessList (\<lambda>a. asPathAccessListID (ap_Name a)) (applyAsPathAccessList C)
       (\<lambda>a. ''create as-path access-list '' @ ap_Name a)"

definition AsPathAccessList_Read ::
  "('n, 'w) ctx \<Rightarrow> AsPathAccessListArgs \<Rightarrow> 'w \<Rightarrow> (AsPathAccessListArgs, AsPathAccessListState) read_response option res \<times> 'w" where
  "AsPathAccessList_Read C =
     crud_read (newClient C) (\<lambda>cli a. readAsPathAccessList C cli (ap_Name a)) (\<lambda>a. asPathAccessListID (ap_Name a)) fillAsPathAccessList"

definition AsPathAccessList_Update :: "('n, 'w) ctx \<Rightarrow> AsPathAccessListArgs request \<Rightarrow> 'w \<Rightarrow> AsPathAccessListState res \<times> 'w" where
  "AsPathAccessList_Update C =
     crud_update validateAsPathAccessList (applyAsPathAccessList C)
       (\<lambda>a. ''update as-path access-list '' @ ap_Name a)"

definition AsPathAccessList_Delete :: "('n, 'w) ctx \<Rightarrow> AsPathAccessListState \<Rightarrow> 'w \<Rightarrow> unit res \<times> 'w" where
  "AsPathAccessList_Delete C =
     crud_delete (applyAsPathAccessList C)
       (\<lambda>a. ''delete as-path access-list '' @ ap_Name a)"

interpretation as_path_mgr: session_managed C validateAsPathAccessList "\<lambda>a. asPathAccessListID (ap_Name a)"
  "applyAsPathAccessList C" "\<lambda>a. ''aspath-'' @ sanitizePrefixListName (ap_Name a)" buildAsPathAccessListCmds
  by unfold_locales (simp add: applyAsPathAccessList_def)

section \<open>Reading back\<close>

text \<open>
  The device adds the origin \<open>any\<close> to the entries.  A regular expression that ends in it
  itself is only read back when the device added its own.
\<close>

definition as_path_shown :: "AsPathAccessListArgs \<Rightarrow> AsPathAccessListEntry \<Rightarrow> string \<Rightarrow> bool" where
  "as_path_shown a e l \<longleftrightarrow>
     l = as_path_cmd a e @ '' any'' \<or> l = as_path_cmd a e \<and> CutSuffix (ape_Regex e) '' any'' = None"

definition as_path_readable :: "AsPathAccessListArgs \<Rightarrow> AsPathAccessListEntry \<Rightarrow> bool" where
  "as_path_readable a e \<longleftrightarrow> as_path_entry e = None"

interpretation as_path_list: entry_list "\<lambda>a. as_path_line (ap_Name a)" as_path_shown as_path_readable
proof (unfold_locales, goal_cases)
  case (1 a e l)
  then have act: "permit_deny (ape_Action e)" and rx: "ape_Regex e \<noteq> []"
    by (auto simp: as_path_readable_def as_path_entry_def TrimSpace_Nil split: if_splits)
  have split: "split2 (ape_Action e @ CHR '' '' # r) = Some (ape_Action e, r)" for r
    by (rule split2_word) (rule permit_deny_blank [OF act])
  have cut: "CutPrefix (as_path_cmd a e @ t) (''ip as-path access-list '' @ ap_Name a @ '' '')
      = Some (ape_Action e @ CHR '' '' # ape_Regex e @ t)" for t
    by (simp add: CutPrefix_iff as_path_cmd_def)
  have any: "CutSuffix (ape_Regex e @ '' any'') '' any'' = Some (ape_Regex e)" by (rule CutSuffix_append)
  from 1(2) consider "l = as_path_cmd a e @ '' any''" | "l = as_path_cmd a e" "CutSuffix (ape_Regex e) '' any'' = None"
    by (auto simp: as_path_shown_def)
  then show ?case
  proof cases
    case 1
    have "as_path_line (ap_Name a) l = parseAsPathAccessListEntryRest (ape_Action e @ CHR '' '' # ape_Regex e @ '' any'')"
      unfolding 1 as_path_line_def cut by simp
    with any act rx show ?thesis unfolding parseAsPathAccessListEntryRest_def split by simp
  next
    case 2
    have "as_path_line (ap_Name a) l = parseAsPathAccessListEntryRest (ape_Action e @ CHR '' '' # ape_Regex e)"
      unfolding 2(1) as_path_line_def using cut [of "[]"] by simp
    with 2(2) act rx show ?thesis unfolding parseAsPathAccessListEntryRest_def split by simp
  qed
qed

lemma as_path_roundtrip:
  assumes "validateAsPathAccessList a = None"
    and "lists_entries (as_path_line (ap_Name a)) (as_path_shown a) out (ap_Entries a)"
  shows "parseAsPathAccessListLines out (ap_Name a) = Some \<lparr>apr_Name = ap_Name a, apr_Entries = ap_Entries a\<rparr>"
proof -
  from assms(1) have "ap_Entries a \<noteq> []" and e: "\<forall>e\<in>set (ap_Entries a). as_path_readable a e"
    by (auto simp: validateAsPathAccessList_def as_path_readable_def first_error_None split: if_splits)
  with as_path_list.entries_back [OF assms(2) e] show ?thesis by (simp add: parseAsPathAccessListLines_def)
qed

end
