(* ===== verification/Community_List.thy ===== *)
theory Community_List
  imports L3_Common
begin

text \<open>
  \<open>internal/resources/l3/community_list.go\<close>: a BGP community list, of literal values or of
  regular expressions.
\<close>

definition ErrCommunityListNameRequired :: error where
  [errs]: "ErrCommunityListNameRequired = Sentinel ''communityList name is required''"
definition ErrCommunityListTypeInvalid :: error where
  [errs]: "ErrCommunityListTypeInvalid =
     Sentinel (''communityList type must be '' @ [CHR 0x27] @ ''standard'' @ [CHR 0x27] @ '' or ''
       @ [CHR 0x27] @ ''regexp'' @ [CHR 0x27])"
definition ErrCommunityListEmptyEntries :: error where
  [errs]: "ErrCommunityListEmptyEntries =
     Sentinel ''communityList must have at least one entry''"
definition ErrCommunityListAction :: error where
  [errs]: "ErrCommunityListAction =
     Sentinel (''communityList entry action must be '' @ [CHR 0x27] @ ''permit'' @ [CHR 0x27] @ '' or ''
       @ [CHR 0x27] @ ''deny'' @ [CHR 0x27])"
definition ErrCommunityListValueEmpty :: error where
  [errs]: "ErrCommunityListValueEmpty =
     Sentinel ''communityList entry value is required''"
definition ErrCommunityListValueStd :: error where
  [errs]: "ErrCommunityListValueStd =
     Sentinel ''communityList standard entry must be a well-known keyword (internet|local-as|no-advertise|no-export|GSHUT), aa:nn pair, or 0..4294967040''"

record CommunityListEntry =
  cle_Action :: string
  cle_Value :: string

record CommunityListArgs = overrides +
  cl_Name :: string
  cl_Type :: "string option"
  cl_Entries :: "CommunityListEntry list"

type_synonym CommunityListState = CommunityListArgs

definition communityWellKnown :: "string set" where
  "communityWellKnown = {''internet'', ''local-as'', ''no-advertise'', ''no-export'', ''GSHUT''}"

definition communityListType :: "string option \<Rightarrow> string" where
  "communityListType p = opt_or listTypeStandard (nonempty p)"

text \<open>\<open>^([0-9]{1,5}):([0-9]{1,5})$\<close>: the two groups.\<close>

definition communityAANN :: "string \<Rightarrow> (string \<times> string) option" where
  "communityAANN v =
     (case split_at (CHR '':'') v of
        [a, n] \<Rightarrow>
          if all_digits a \<and> length a \<le> 5 \<and> all_digits n \<and> length n \<le> 5 then Some (a, n) else None
      | _ \<Rightarrow> None)"

definition validCommunityStandardValue :: "string \<Rightarrow> bool" where
  "validCommunityStandardValue v \<longleftrightarrow>
     (if v \<in> communityWellKnown then True
      else case communityAANN v of
        Some (a, n) \<Rightarrow>
          (case (Atoi a, Atoi n) of
             (Some aa, Some nn) \<Rightarrow> aa \<ge> 0 \<and> aa \<le> 65535 \<and> nn \<ge> 0 \<and> nn \<le> 65535
           | _ \<Rightarrow> False)
      | None \<Rightarrow> (case Atoi v of Some n \<Rightarrow> n \<ge> 0 \<and> n \<le> 4294967040 | None \<Rightarrow> False))"

definition community_entry :: "string \<Rightarrow> CommunityListEntry \<Rightarrow> error option" where
  "community_entry t e =
     (if \<not> permit_deny (cle_Action e) then Some (Got ErrCommunityListAction [DStr (cle_Action e)])
      else if TrimSpace (cle_Value e) = [] then Some ErrCommunityListValueEmpty
      else if t = listTypeStandard \<and> \<not> validCommunityStandardValue (cle_Value e)
        then Some (Got ErrCommunityListValueStd [DStr (cle_Value e)])
      else None)"

definition validateCommunityList :: "CommunityListArgs \<Rightarrow> error option" where
  "validateCommunityList args =
     (if TrimSpace (cl_Name args) = [] then Some ErrCommunityListNameRequired
      else let t = communityListType (cl_Type args)
        in if t \<noteq> listTypeStandard \<and> t \<noteq> listTypeRegexp then Some (Got ErrCommunityListTypeInvalid [DStr t])
        else if cl_Entries args = [] then Some ErrCommunityListEmptyEntries
        else first_error (map (community_entry t) (cl_Entries args)))"

definition communityListID :: "string \<Rightarrow> string" where
  "communityListID name = ''community-list/'' @ name"

definition community_prefix :: "bool \<Rightarrow> string \<Rightarrow> string" where
  "community_prefix regexp name =
     (if regexp then ''ip community-list regexp '' else ''ip community-list '') @ name @ '' ''"

definition community_cmd :: "CommunityListArgs \<Rightarrow> CommunityListEntry \<Rightarrow> string" where
  "community_cmd args e =
     community_prefix (communityListType (cl_Type args) = listTypeRegexp) (cl_Name args)
       @ cle_Action e @ '' '' @ cle_Value e"

definition buildCommunityListCmds :: "CommunityListArgs \<Rightarrow> bool \<Rightarrow> string list" where
  "buildCommunityListCmds args remove =
     (if remove then [''no ip community-list '' @ cl_Name args]
      else [''no ip community-list '' @ cl_Name args] @ map (community_cmd args) (cl_Entries args))"

definition applyCommunityList :: "('n, 'w) ctx \<Rightarrow> CommunityListArgs \<Rightarrow> bool \<Rightarrow> 'w \<Rightarrow> unit res \<times> 'w" where
  "applyCommunityList C args remove w =
     apply_session C args (''comm-'' @ sanitizePrefixListName (cl_Name args))
       (buildCommunityListCmds args remove) w"

record communityListRow =
  clr_Name :: string
  clr_Type :: string
  clr_Entries :: "CommunityListEntry list"

definition parseCommunityListEntryRest :: "string \<Rightarrow> CommunityListEntry option" where
  "parseCommunityListEntryRest rest =
     (case split2 rest of
        None \<Rightarrow> None
      | Some (action, v) \<Rightarrow> if \<not> permit_deny action then None else Some \<lparr>cle_Action = action, cle_Value = v\<rparr>)"

text \<open>A line of the list, of either kind; the regular expressions are tried first.\<close>

definition community_line :: "string \<Rightarrow> string \<Rightarrow> CommunityListEntry option" where
  "community_line name line =
     (case CutPrefix line (community_prefix True name) of
        Some rest \<Rightarrow> parseCommunityListEntryRest rest
      | None \<Rightarrow>
          (case CutPrefix line (community_prefix False name) of
             Some rest \<Rightarrow> parseCommunityListEntryRest rest
           | None \<Rightarrow> None))"

definition parseCommunityListLines :: "string \<Rightarrow> string \<Rightarrow> communityListRow option" where
  "parseCommunityListLines out name =
     (let entries = list_entries (community_line name) out
      in if entries = [] then None
         else Some \<lparr>clr_Name = name,
                    clr_Type = (if \<exists>l\<in>set (trimmed_lines out). HasPrefix l (community_prefix True name)
                                then listTypeRegexp else listTypeStandard),
                    clr_Entries = entries\<rparr>)"

definition readCommunityList ::
  "('n, 'w) ctx \<Rightarrow> 'n client \<Rightarrow> string \<Rightarrow> 'w \<Rightarrow> communityListRow option res \<times> 'w" where
  "readCommunityList C cli name w =
     (case show_text C cli ''show running-config | grep community-list'' w of
        (r, w') \<Rightarrow> (map_res (\<lambda>out. parseCommunityListLines out name) r, w'))"

definition fillCommunityList :: "communityListRow \<Rightarrow> CommunityListState \<Rightarrow> CommunityListState" where
  "fillCommunityList r s =
     s\<lparr>cl_Type := Some (clr_Type r),
       cl_Entries := (if clr_Entries r \<noteq> [] then clr_Entries r else cl_Entries s)\<rparr>"

definition CommunityList_Create ::
  "('n, 'w) ctx \<Rightarrow> CommunityListArgs request \<Rightarrow> 'w \<Rightarrow> CommunityListState created res \<times> 'w" where
  "CommunityList_Create C =
     crud_create validateCommunityList (\<lambda>a. communityListID (cl_Name a)) (applyCommunityList C)
       (\<lambda>a. ''create community-list '' @ cl_Name a)"

definition CommunityList_Read ::
  "('n, 'w) ctx \<Rightarrow> CommunityListArgs \<Rightarrow> 'w \<Rightarrow> (CommunityListArgs, CommunityListState) read_response option res \<times> 'w" where
  "CommunityList_Read C =
     crud_read (newClient C) (\<lambda>cli a. readCommunityList C cli (cl_Name a)) (\<lambda>a. communityListID (cl_Name a)) fillCommunityList"

definition CommunityList_Update :: "('n, 'w) ctx \<Rightarrow> CommunityListArgs request \<Rightarrow> 'w \<Rightarrow> CommunityListState res \<times> 'w" where
  "CommunityList_Update C =
     crud_update validateCommunityList (applyCommunityList C)
       (\<lambda>a. ''update community-list '' @ cl_Name a)"

definition CommunityList_Delete :: "('n, 'w) ctx \<Rightarrow> CommunityListState \<Rightarrow> 'w \<Rightarrow> unit res \<times> 'w" where
  "CommunityList_Delete C =
     crud_delete (applyCommunityList C)
       (\<lambda>a. ''delete community-list '' @ cl_Name a)"

interpretation community_mgr: session_managed C validateCommunityList "\<lambda>a. communityListID (cl_Name a)"
  "applyCommunityList C" "\<lambda>a. ''comm-'' @ sanitizePrefixListName (cl_Name a)" buildCommunityListCmds
  by unfold_locales (simp add: applyCommunityList_def)

section \<open>Reading back\<close>

text \<open>
  A list named \<open>regexp\<close> would take the lines of every list of regular expressions, so names
  are words other than that.
\<close>

definition community_readable :: "CommunityListArgs \<Rightarrow> CommunityListEntry \<Rightarrow> bool" where
  "community_readable a e \<longleftrightarrow>
     cl_Name a \<noteq> ''regexp'' \<and> CHR '' '' \<notin> set (cl_Name a)
     \<and> community_entry (communityListType (cl_Type a)) e = None"

definition community_shown :: "CommunityListArgs \<Rightarrow> CommunityListEntry \<Rightarrow> string \<Rightarrow> bool" where
  "community_shown a e l \<longleftrightarrow> l = community_cmd a e"

text \<open>The line of a literal entry does not begin like one of a regular expression.\<close>

lemma community_cross:
  assumes "n \<noteq> ''regexp''" and "CHR '' '' \<notin> set n"
  shows "CutPrefix (community_prefix False n @ r) (community_prefix True n) = None"
  using prefix_word [OF assms(1,2), of r "n @ '' ''"] by (simp add: community_prefix_def)

interpretation community_list: entry_list "\<lambda>a. community_line (cl_Name a)" community_shown community_readable
proof (unfold_locales, goal_cases)
  case (1 a e l)
  then have act: "permit_deny (cle_Action e)"
    and n: "cl_Name a \<noteq> ''regexp''" "CHR '' '' \<notin> set (cl_Name a)"
    by (auto simp: community_readable_def community_entry_def split: if_splits)
  have split: "split2 (cle_Action e @ CHR '' '' # r) = Some (cle_Action e, r)" for r
    by (rule split2_word) (rule permit_deny_blank [OF act])
  have parse: "parseCommunityListEntryRest (cle_Action e @ '' '' @ cle_Value e) = Some e"
    using act split [of "cle_Value e"] by (simp add: parseCommunityListEntryRest_def)
  let ?r = "communityListType (cl_Type a) = listTypeRegexp"
  have l: "l = community_prefix ?r (cl_Name a) @ cle_Action e @ '' '' @ cle_Value e"
    using 1(2) by (simp add: community_shown_def community_cmd_def)
  show ?case
  proof (cases ?r)
    case True
    show ?thesis unfolding community_line_def l if_P [OF True] using True parse by simp
  next
    case False
    with l have l': "l = community_prefix False (cl_Name a) @ cle_Action e @ '' '' @ cle_Value e" by simp
    show ?thesis unfolding community_line_def l' community_cross [OF n] option.case CutPrefix_append by (rule parse)
  qed
qed

lemma community_roundtrip:
  assumes v: "validateCommunityList a = None" and n: "cl_Name a \<noteq> ''regexp''" "CHR '' '' \<notin> set (cl_Name a)"
    and p: "lists_entries (community_line (cl_Name a)) (community_shown a) out (cl_Entries a)"
    and k: "(\<exists>l\<in>set (trimmed_lines out). HasPrefix l (community_prefix True (cl_Name a)))
      = (communityListType (cl_Type a) = listTypeRegexp)"
  shows "parseCommunityListLines out (cl_Name a)
    = Some \<lparr>clr_Name = cl_Name a, clr_Type = communityListType (cl_Type a), clr_Entries = cl_Entries a\<rparr>"
proof -
  from v have ne: "cl_Entries a \<noteq> []" and e: "\<forall>e\<in>set (cl_Entries a). community_readable a e"
    and t: "communityListType (cl_Type a) \<in> {listTypeStandard, listTypeRegexp}"
    using n by (auto simp: validateCommunityList_def community_readable_def first_error_None Let_def split: if_splits)
  with community_list.entries_back [OF p e] k show ?thesis
    by (auto simp: parseCommunityListLines_def)
qed

end
