(* ===== verification/Prefix_List.thy ===== *)
theory Prefix_List
  imports L3_Common "HOL-Library.Multiset"
begin

text \<open>
  \<open>internal/resources/l3/prefix_list.go\<close>: an IPv4 prefix list, whose entries are ordered by
  their sequence numbers.
\<close>

definition ErrPrefixListNameRequired :: error where
  [errs]: "ErrPrefixListNameRequired = Sentinel ''prefixList name is required''"
definition ErrPrefixListEntriesEmpty :: error where
  [errs]: "ErrPrefixListEntriesEmpty =
     Sentinel ''prefixList must have at least one entry''"
definition ErrPrefixListSeqOutOfRange :: error where
  [errs]: "ErrPrefixListSeqOutOfRange =
     Sentinel ''prefixList entry seq must be in 0..65535''"
definition ErrPrefixListSeqDuplicate :: error where
  [errs]: "ErrPrefixListSeqDuplicate =
     Sentinel ''prefixList entry seq numbers must be unique within a list''"
definition ErrPrefixListActionInvalid :: error where
  [errs]: "ErrPrefixListActionInvalid =
     Sentinel (''prefixList entry action must be '' @ [CHR 0x27] @ ''permit'' @ [CHR 0x27] @ '' or ''
       @ [CHR 0x27] @ ''deny'' @ [CHR 0x27])"
definition ErrPrefixListBadPrefix :: error where
  [errs]: "ErrPrefixListBadPrefix =
     Sentinel ''prefixList entry prefix must be a valid IPv4 CIDR''"
definition ErrPrefixListMaskOutOfRange :: error where
  [errs]: "ErrPrefixListMaskOutOfRange =
     Sentinel ''prefixList eq / ge / le must be in 1..32''"
definition ErrPrefixListMaskCombo :: error where
  [errs]: "ErrPrefixListMaskCombo =
     Sentinel ''prefixList eq is mutually exclusive with ge / le''"
definition ErrPrefixListGeLeOrder :: error where
  [errs]: "ErrPrefixListGeLeOrder =
     Sentinel ''prefixList ge must be <= le when both are set''"
definition ErrPrefixListGeAtLeastPfx :: error where
  [errs]: "ErrPrefixListGeAtLeastPfx =
     Sentinel ''prefixList ge must be >= the prefix length''"

record PrefixListEntry =
  ple_Seq :: int
  ple_Action :: string
  ple_Prefix :: string
  ple_Eq :: "int option"
  ple_Ge :: "int option"
  ple_Le :: "int option"

record PrefixListArgs = overrides +
  pl_Name :: string
  pl_Remark :: "string option"
  pl_Entries :: "PrefixListEntry list"

type_synonym PrefixListState = PrefixListArgs

definition prefix_mask :: "int \<Rightarrow> error option" where
  "prefix_mask m = (if m < 1 \<or> m > 32 then Some (Got ErrPrefixListMaskOutOfRange [DInt m]) else None)"

definition validatePrefixListEntry :: "PrefixListEntry \<Rightarrow> error option" where
  "validatePrefixListEntry e =
     (if ple_Seq e < 0 \<or> ple_Seq e > 65535 then Some (Got ErrPrefixListSeqOutOfRange [DInt (ple_Seq e)])
      else if \<not> permit_deny (ple_Action e) then Some (Got ErrPrefixListActionInvalid [DStr (ple_Action e)])
      else case ParsePrefix (ple_Prefix e) of
        None \<Rightarrow> Some (Got ErrPrefixListBadPrefix [DStr (ple_Prefix e)])
      | Some (addr, bits) \<Rightarrow>
          if \<not> Is4 addr then Some (Got ErrPrefixListBadPrefix [DStr (ple_Prefix e)])
          else if ple_Eq e \<noteq> None \<and> (ple_Ge e \<noteq> None \<or> ple_Le e \<noteq> None) then Some ErrPrefixListMaskCombo
          else first_error
            ([opt_err prefix_mask (ple_Eq e), opt_err prefix_mask (ple_Ge e), opt_err prefix_mask (ple_Le e)]
             @ [case (ple_Ge e, ple_Le e) of
                  (Some g, Some l) \<Rightarrow> if g > l then Some (Got ErrPrefixListGeLeOrder [DInt g, DInt l]) else None
                | _ \<Rightarrow> None,
                opt_err (\<lambda>g. if g < bits then Some (Got ErrPrefixListGeAtLeastPfx [DInt bits, DInt g]) else None)
                  (ple_Ge e)]))"

text \<open>The loop over the entries, with the sequence numbers seen so far.\<close>

fun prefix_entries :: "int set \<Rightarrow> PrefixListEntry list \<Rightarrow> error option" where
  "prefix_entries seen [] = None"
| "prefix_entries seen (e # es) =
     (case validatePrefixListEntry e of
        Some err \<Rightarrow> Some (Wrap (''entry '' @ Itoa (ple_Seq e)) err)
      | None \<Rightarrow>
          if ple_Seq e \<in> seen then Some (Got ErrPrefixListSeqDuplicate [DInt (ple_Seq e)])
          else prefix_entries (insert (ple_Seq e) seen) es)"

definition validatePrefixList :: "PrefixListArgs \<Rightarrow> error option" where
  "validatePrefixList args =
     (if TrimSpace (pl_Name args) = [] then Some ErrPrefixListNameRequired
      else if pl_Entries args = [] then Some ErrPrefixListEntriesEmpty
      else prefix_entries {} (pl_Entries args))"

definition prefixListID :: "string \<Rightarrow> string" where
  "prefixListID name = ''prefix-list/'' @ name"

definition prefix_masks :: "PrefixListEntry \<Rightarrow> string list" where
  "prefix_masks e =
     (case (ple_Eq e, ple_Ge e, ple_Le e) of
        (Some q, _, _) \<Rightarrow> [''eq'', Itoa q]
      | (None, Some g, Some l) \<Rightarrow> [''ge'', Itoa g, ''le'', Itoa l]
      | (None, Some g, None) \<Rightarrow> [''ge'', Itoa g]
      | (None, None, Some l) \<Rightarrow> [''le'', Itoa l]
      | (None, None, None) \<Rightarrow> [])"

definition prefixListEntryCmd :: "string \<Rightarrow> PrefixListEntry \<Rightarrow> string" where
  "prefixListEntryCmd name e =
     Join ([''ip'', ''prefix-list'', name, ''seq'', Itoa (ple_Seq e), ple_Action e, ple_Prefix e] @ prefix_masks e) '' ''"

definition prefix_remark_cmd :: "string \<Rightarrow> string \<Rightarrow> string" where
  "prefix_remark_cmd name v = ''ip prefix-list '' @ name @ '' remark '' @ v"

text \<open>\<open>sort.Slice\<close> on the sequence numbers, which validation makes distinct.\<close>

definition buildPrefixListCmds :: "PrefixListArgs \<Rightarrow> bool \<Rightarrow> string list" where
  "buildPrefixListCmds args remove =
     (if remove then [''no ip prefix-list '' @ pl_Name args]
      else [''no ip prefix-list '' @ pl_Name args]
           @ line_opt (prefix_remark_cmd (pl_Name args)) (nonempty (pl_Remark args))
           @ map (prefixListEntryCmd (pl_Name args)) (sort_key ple_Seq (pl_Entries args)))"

definition applyPrefixList :: "('n, 'w) ctx \<Rightarrow> PrefixListArgs \<Rightarrow> bool \<Rightarrow> 'w \<Rightarrow> unit res \<times> 'w" where
  "applyPrefixList C args remove w =
     apply_session C args (''pfxlist-'' @ sanitizePrefixListName (pl_Name args)) (buildPrefixListCmds args remove) w"

record prefixListRow =
  plr_Name :: string
  plr_Remark :: string
  plr_Entries :: "PrefixListEntry list"

text \<open>The loop over the trailing words, two at a time.\<close>

definition prefix_knob :: "string \<Rightarrow> int \<Rightarrow> PrefixListEntry \<Rightarrow> PrefixListEntry" where
  "prefix_knob k v e =
     (if k = ''eq'' then e\<lparr>ple_Eq := Some v\<rparr>
      else if k = ''ge'' then e\<lparr>ple_Ge := Some v\<rparr>
      else if k = ''le'' then e\<lparr>ple_Le := Some v\<rparr>
      else e)"

fun prefix_pairs :: "string list \<Rightarrow> PrefixListEntry \<Rightarrow> PrefixListEntry" where
  "prefix_pairs (k # t # rest) e =
     prefix_pairs rest (case Atoi t of Some v \<Rightarrow> prefix_knob k v e | None \<Rightarrow> e)"
| "prefix_pairs _ e = e"

definition parsePrefixListEntryRest :: "string \<Rightarrow> PrefixListEntry option" where
  "parsePrefixListEntryRest rest =
     (case Fields rest of
        t0 # t1 # action # pfx # knobs \<Rightarrow>
          if t0 \<noteq> ''seq'' then None
          else (case Atoi t1 of
            None \<Rightarrow> None
          | Some seq \<Rightarrow>
              if \<not> permit_deny action then None
              else Some (prefix_pairs knobs
                \<lparr>ple_Seq = seq, ple_Action = action, ple_Prefix = pfx, ple_Eq = None, ple_Ge = None, ple_Le = None\<rparr>))
      | _ \<Rightarrow> None)"

definition prefix_rest :: "string \<Rightarrow> string \<Rightarrow> string option" where
  "prefix_rest name line = CutPrefix line (''ip prefix-list '' @ name @ '' '')"

text \<open>The loop over the lines, by what it collects: the entries, and the last remark.\<close>

definition prefix_entry_line :: "string \<Rightarrow> string \<Rightarrow> PrefixListEntry option" where
  "prefix_entry_line name line =
     Option.bind (prefix_rest name line)
       (\<lambda>rest. if HasPrefix rest ''remark '' then None else parsePrefixListEntryRest rest)"

definition prefix_remark_line :: "string \<Rightarrow> string \<Rightarrow> string \<Rightarrow> string" where
  "prefix_remark_line name line old =
     (case Option.bind (prefix_rest name line) (\<lambda>rest. CutPrefix rest ''remark '') of
        Some v \<Rightarrow> v | None \<Rightarrow> old)"

definition parsePrefixListLines :: "string \<Rightarrow> string \<Rightarrow> prefixListRow option" where
  "parsePrefixListLines out name =
     (if \<forall>l\<in>set (trimmed_lines out). prefix_rest name l = None then None
      else Some \<lparr>plr_Name = name,
                 plr_Remark = scan (prefix_remark_line name) out [],
                 plr_Entries = sort_key ple_Seq (list_entries (prefix_entry_line name) out)\<rparr>)"

definition readPrefixList :: "('n, 'w) ctx \<Rightarrow> 'n client \<Rightarrow> string \<Rightarrow> 'w \<Rightarrow> prefixListRow option res \<times> 'w" where
  "readPrefixList C cli name w =
     (case show_text C cli ''show running-config | grep prefix-list'' w of
        (r, w') \<Rightarrow> (map_res (\<lambda>out. parsePrefixListLines out name) r, w'))"

definition fillPrefixList :: "prefixListRow \<Rightarrow> PrefixListState \<Rightarrow> PrefixListState" where
  "fillPrefixList r s =
     s\<lparr>pl_Remark := set_str (plr_Remark r) (pl_Remark s),
       pl_Entries := (if plr_Entries r \<noteq> [] then plr_Entries r else pl_Entries s)\<rparr>"

definition PrefixList_Create ::
  "('n, 'w) ctx \<Rightarrow> PrefixListArgs request \<Rightarrow> 'w \<Rightarrow> PrefixListState created res \<times> 'w" where
  "PrefixList_Create C =
     crud_create validatePrefixList (\<lambda>a. prefixListID (pl_Name a)) (applyPrefixList C)
       (\<lambda>a. ''create prefix-list '' @ pl_Name a)"

definition PrefixList_Read ::
  "('n, 'w) ctx \<Rightarrow> PrefixListArgs \<Rightarrow> 'w \<Rightarrow> (PrefixListArgs, PrefixListState) read_response option res \<times> 'w" where
  "PrefixList_Read C =
     crud_read (newClient C) (\<lambda>cli a. readPrefixList C cli (pl_Name a)) (\<lambda>a. prefixListID (pl_Name a)) fillPrefixList"

definition PrefixList_Update :: "('n, 'w) ctx \<Rightarrow> PrefixListArgs request \<Rightarrow> 'w \<Rightarrow> PrefixListState res \<times> 'w" where
  "PrefixList_Update C =
     crud_update validatePrefixList (applyPrefixList C)
       (\<lambda>a. ''update prefix-list '' @ pl_Name a)"

definition PrefixList_Delete :: "('n, 'w) ctx \<Rightarrow> PrefixListState \<Rightarrow> 'w \<Rightarrow> unit res \<times> 'w" where
  "PrefixList_Delete C =
     crud_delete (applyPrefixList C)
       (\<lambda>a. ''delete prefix-list '' @ pl_Name a)"

interpretation prefix_list_mgr: session_managed C validatePrefixList "\<lambda>a. prefixListID (pl_Name a)"
  "applyPrefixList C" "\<lambda>a. ''pfxlist-'' @ sanitizePrefixListName (pl_Name a)" buildPrefixListCmds
  by unfold_locales (simp add: applyPrefixList_def)

section \<open>The order of the entries\<close>

lemma prefix_entries_None:
  "prefix_entries seen es = None \<longleftrightarrow>
     (\<forall>e\<in>set es. validatePrefixListEntry e = None) \<and> distinct (map ple_Seq es) \<and> ple_Seq ` set es \<inter> seen = {}"
  by (induction es arbitrary: seen) (auto split: option.split)

lemma validatePrefixList_None:
  assumes "validatePrefixList a = None"
  shows "\<forall>e\<in>set (pl_Entries a). validatePrefixListEntry e = None" and "distinct (map ple_Seq (pl_Entries a))"
    and "pl_Entries a \<noteq> []"
  using assms by (auto simp: validatePrefixList_def prefix_entries_None split: if_splits)

text \<open>With distinct keys there is one sorted order, so any sorting routine gives it.\<close>

lemma filter_key: "distinct (map f xs) \<Longrightarrow> k \<in> set xs \<Longrightarrow> filter (\<lambda>x. f k = f x) xs = [k]"
  by (induction xs) (auto simp: filter_empty_conv image_iff)

lemma sorted_order_unique:
  fixes f :: "'a \<Rightarrow> 'k::linorder"
  assumes m: "mset ys = mset xs" and d: "distinct (map f xs)" and s: "sorted (map f ys)"
  shows "ys = sort_key f xs"
proof -
  have "mset (map f ys) = mset (map f xs)" using m by simp
  with d have d': "distinct (map f ys)" by (metis mset_eq_imp_distinct_iff)
  from m have "set ys = set xs" by (metis set_mset_mset)
  then have "\<forall>k\<in>set ys. filter (\<lambda>x. f k = f x) ys = filter (\<lambda>x. f k = f x) xs"
    using filter_key [OF d] filter_key [OF d'] by simp
  then have "sort_key f xs = ys" by (intro properties_for_sort_key m s) simp
  then show ?thesis ..
qed

lemma sort_key_order: "mset ys = mset xs \<Longrightarrow> distinct (map f xs) \<Longrightarrow> sort_key f ys = sort_key f xs"
  for f :: "'a \<Rightarrow> 'k::linorder"
  by (rule sorted_order_unique) simp_all

text \<open>The commands do not depend on the order in which the entries are given.\<close>

lemma prefix_list_order_irrelevant:
  assumes "validatePrefixList a = None" and "mset es = mset (pl_Entries a)"
  shows "buildPrefixListCmds (a\<lparr>pl_Entries := es\<rparr>) rm = buildPrefixListCmds a rm"
  using sort_key_order [OF assms(2) validatePrefixList_None(2) [OF assms(1)]]
  by (simp add: buildPrefixListCmds_def)

section \<open>Reading back\<close>

definition prefix_readable :: "PrefixListArgs \<Rightarrow> PrefixListEntry \<Rightarrow> bool" where
  "prefix_readable a e \<longleftrightarrow> word_string (pl_Name a) \<and> validatePrefixListEntry e = None"

definition prefix_shown :: "PrefixListArgs \<Rightarrow> PrefixListEntry \<Rightarrow> string \<Rightarrow> bool" where
  "prefix_shown a e l \<longleftrightarrow> l = prefixListEntryCmd (pl_Name a) e"

lemma validatePrefixListEntry_None:
  assumes "validatePrefixListEntry e = None"
  shows "int64 (ple_Seq e)" and "permit_deny (ple_Action e)" and "word_string (ple_Prefix e)"
    and "pred_option int64 (ple_Eq e)" "pred_option int64 (ple_Ge e)" "pred_option int64 (ple_Le e)"
    and "ple_Eq e = None \<or> ple_Ge e = None \<and> ple_Le e = None"
proof -
  note v = assms [unfolded validatePrefixListEntry_def]
  show "int64 (ple_Seq e)" "permit_deny (ple_Action e)"
    using v by (auto simp: int64_def split: if_splits)
  from v obtain r where r: "ParsePrefix (ple_Prefix e) = Some r" by (auto split: if_splits option.splits)
  then show "word_string (ple_Prefix e)" by (rule ParsePrefix_word)
  have m: "opt_err prefix_mask p = None \<Longrightarrow> pred_option int64 p" for p
    by (cases p) (auto simp: opt_err_def prefix_mask_def int64_def split: if_splits)
  obtain x y where xy: "r = (x, y)" by (cases r)
  have "opt_err prefix_mask (ple_Eq e) = None" "opt_err prefix_mask (ple_Ge e) = None"
    "opt_err prefix_mask (ple_Le e) = None"
    using v unfolding r xy option.case prod.case first_error_None check_chain by (simp_all split: if_splits)
  then show "pred_option int64 (ple_Eq e)" "pred_option int64 (ple_Ge e)" "pred_option int64 (ple_Le e)"
    by (simp_all add: m)
  show "ple_Eq e = None \<or> ple_Ge e = None \<and> ple_Le e = None"
    using v unfolding r xy option.case prod.case by (auto split: if_splits)
qed

lemma permit_deny_word: "permit_deny s \<Longrightarrow> word_string s"
  by (auto simp: permit_deny_def word_string_def space_byte_def ascii_space_def)

lemma prefix_pairs_masks:
  assumes "validatePrefixListEntry e = None"
  shows "prefix_pairs (prefix_masks e) (e\<lparr>ple_Eq := None, ple_Ge := None, ple_Le := None\<rparr>) = e"
  using validatePrefixListEntry_None(4-7) [OF assms]
  by (cases e; cases "ple_Eq e"; cases "ple_Ge e"; cases "ple_Le e") (auto simp: prefix_masks_def prefix_knob_def)

interpretation prefix_list: entry_list "\<lambda>a. prefix_entry_line (pl_Name a)" prefix_shown prefix_readable
proof (unfold_locales, goal_cases)
  case (1 a e l)
  then have v: "validatePrefixListEntry e = None" and n: "word_string (pl_Name a)" by (simp_all add: prefix_readable_def)
  note e = validatePrefixListEntry_None [OF v]
  let ?ws = "[''seq'', Itoa (ple_Seq e), ple_Action e, ple_Prefix e] @ prefix_masks e"
  have "word_string ''seq''" "word_string ''eq''" "word_string ''ge''" "word_string ''le''"
    by (simp_all add: word_string_def space_byte_def ascii_space_def)
  then have "list_all word_string (prefix_masks e)"
    by (simp add: prefix_masks_def split: option.split)
  with \<open>word_string ''seq''\<close> e(3) permit_deny_word [OF e(2)] have "Fields (Join ?ws '' '') = ?ws"
    by (intro Fields_Join) (auto simp: list_all_iff)
  moreover have "prefix_rest (pl_Name a) l = Some (Join ?ws '' '')"
    using 1(2) by (simp add: prefix_rest_def prefix_shown_def prefixListEntryCmd_def CutPrefix_iff)
  moreover have "\<not> HasPrefix (Join ?ws '' '') ''remark ''" by simp
  moreover have "prefix_pairs (prefix_masks e) \<lparr>ple_Seq = ple_Seq e, ple_Action = ple_Action e, ple_Prefix = ple_Prefix e,
      ple_Eq = None, ple_Ge = None, ple_Le = None\<rparr> = e"
    using prefix_pairs_masks [OF v] by (cases e) simp
  ultimately show ?case
    using e(1,2) by (simp add: prefix_entry_line_def parsePrefixListEntryRest_def del: HasPrefix_eval Join.simps)
qed

text \<open>
  The lines may come in any order: the reader sorts them, and a refresh leaves the entries in
  the order of their sequence numbers.
\<close>

definition shows_prefix_list :: "PrefixListArgs \<Rightarrow> string \<Rightarrow> bool" where
  "shows_prefix_list a out \<longleftrightarrow>
     mset (filter (\<lambda>l. prefix_rest (pl_Name a) l \<noteq> None) (trimmed_lines out)) = mset (tl (buildPrefixListCmds a False))"

lemma mset_map_filter: "mset xs = mset ys \<Longrightarrow> mset (List.map_filter f xs) = mset (List.map_filter f ys)"
  by (simp add: map_filter_def)

lemma map_filter_within:
  assumes "\<And>x. f x \<noteq> None \<Longrightarrow> P x"
  shows "List.map_filter f (filter P xs) = List.map_filter f xs"
  using assms by (induction xs) (auto simp: map_filter_simps split: option.split)

lemma map_filter_map_Some:
  "(\<And>x. x \<in> set xs \<Longrightarrow> f (g x) = Some x) \<Longrightarrow> List.map_filter f (map g xs) = xs"
  by (induction xs) (simp_all add: map_filter_simps)

lemma mset_short: "mset xs = mset (line_opt f p) \<Longrightarrow> xs = line_opt f p"
  by (cases p) auto

definition remark_line :: "string \<Rightarrow> string \<Rightarrow> bool" where
  "remark_line n l \<longleftrightarrow> Option.bind (prefix_rest n l) (\<lambda>rest. CutPrefix rest ''remark '') \<noteq> None"

lemma prefix_remark_cut:
  "prefix_rest n (prefix_remark_cmd n v) = Some (''remark '' @ v)"
  "prefix_rest n (prefixListEntryCmd n e)
     = Some (Join ([''seq'', Itoa (ple_Seq e), ple_Action e, ple_Prefix e] @ prefix_masks e) '' '')"
  by (simp_all add: prefix_rest_def CutPrefix_iff prefixListEntryCmd_def prefix_remark_cmd_def)

lemma prefix_entry_remark: "prefix_entry_line n (prefix_remark_cmd n v) = None"
  unfolding prefix_entry_line_def prefix_remark_cut by simp

lemma remark_line_rendered:
  "remark_line n (prefix_remark_cmd n v)" "\<not> remark_line n (prefixListEntryCmd n e)"
  unfolding remark_line_def prefix_remark_cut by simp_all

lemma prefix_list_back:
  assumes v: "validatePrefixList a = None" and n: "word_string (pl_Name a)" and p: "shows_prefix_list a out"
  shows "parsePrefixListLines out (pl_Name a)
    = Some \<lparr>plr_Name = pl_Name a, plr_Remark = or_empty (nonempty (pl_Remark a)),
            plr_Entries = sort_key ple_Seq (pl_Entries a)\<rparr>"
proof -
  let ?n = "pl_Name a" and ?es = "sort_key ple_Seq (pl_Entries a)" and ?ls = "trimmed_lines out"
  let ?rm = "line_opt (prefix_remark_cmd ?n) (nonempty (pl_Remark a))"
  let ?mine = "filter (\<lambda>l. prefix_rest ?n l \<noteq> None) ?ls"
  from p have m: "mset ?mine = mset (?rm @ map (prefixListEntryCmd ?n) ?es)"
    by (simp add: shows_prefix_list_def buildPrefixListCmds_def)
  have "prefix_entry_line ?n (prefixListEntryCmd ?n e) = Some e" if "e \<in> set ?es" for e
    using that prefix_list.line [of a e] validatePrefixList_None(1) [OF v] n
    by (simp add: prefix_readable_def prefix_shown_def)
  then have "List.map_filter (prefix_entry_line ?n) (map (prefixListEntryCmd ?n) ?es) = ?es"
    by (rule map_filter_map_Some)
  moreover have "List.map_filter (prefix_entry_line ?n) ?rm = []"
    by (cases "nonempty (pl_Remark a)") (simp_all add: map_filter_simps prefix_entry_remark del: nonempty_eq_Some nonempty_eq_None)
  ultimately have "List.map_filter (prefix_entry_line ?n) (?rm @ map (prefixListEntryCmd ?n) ?es) = ?es"
    by (simp add: map_filter_def)
  with mset_map_filter [OF m, of "prefix_entry_line ?n"] have "mset (List.map_filter (prefix_entry_line ?n) ?mine) = mset (pl_Entries a)" by simp
  moreover have "List.map_filter (prefix_entry_line ?n) ?mine = list_entries (prefix_entry_line ?n) out"
    unfolding list_entries_def by (rule map_filter_within) (auto simp: prefix_entry_line_def bind_eq_Some_conv)
  ultimately have entries: "sort_key ple_Seq (list_entries (prefix_entry_line ?n) out) = ?es"
    by (intro sort_key_order validatePrefixList_None(2) [OF v]) simp
  have "filter (remark_line ?n) (map (prefixListEntryCmd ?n) ?es) = []"
    by (simp add: filter_empty_conv remark_line_rendered)
  moreover have "filter (remark_line ?n) ?rm = ?rm"
    by (cases "nonempty (pl_Remark a)") (simp_all add: remark_line_rendered del: nonempty_eq_Some nonempty_eq_None)
  moreover have "mset (filter (remark_line ?n) ?mine) = mset (filter (remark_line ?n) (?rm @ map (prefixListEntryCmd ?n) ?es))"
    using m by (metis mset_filter)
  ultimately have "filter (remark_line ?n) ?mine = ?rm" by (intro mset_short) simp
  moreover have "filter (remark_line ?n) ?mine = filter (remark_line ?n) ?ls"
    unfolding filter_filter by (rule filter_cong) (auto simp: remark_line_def bind_eq_Some_conv)
  moreover have "fold (prefix_remark_line ?n) (filter (remark_line ?n) ?ls) [] = fold (prefix_remark_line ?n) ?ls []"
    by (rule fold_filter_id) (simp add: remark_line_def prefix_remark_line_def)
  moreover have "fold (prefix_remark_line ?n) ?rm [] = or_empty (nonempty (pl_Remark a))"
    by (cases "nonempty (pl_Remark a)")
      (simp_all add: prefix_remark_line_def prefix_remark_cut del: nonempty_eq_Some nonempty_eq_None)
  ultimately have remark: "scan (prefix_remark_line ?n) out [] = or_empty (nonempty (pl_Remark a))"
    by (simp add: scan_def)
  have "?es \<noteq> []" using validatePrefixList_None(3) [OF v] by (metis mset_sort mset_zero_iff)
  then have "?rm @ map (prefixListEntryCmd ?n) ?es \<noteq> []" by simp
  then have "?mine \<noteq> []" using m by (metis mset_zero_iff)
  then have "\<exists>l\<in>set ?ls. prefix_rest ?n l \<noteq> None" unfolding filter_empty_conv by blast
  with entries remark show ?thesis by (auto simp: parsePrefixListLines_def)
qed

end
