(* ===== verification/Ext_Community_List.thy ===== *)
theory Ext_Community_List
  imports L3_Common
begin

text \<open>
  \<open>internal/resources/l3/ext_community_list.go\<close>: a BGP extended community list; a literal
  entry is a route target or a site of origin.
\<close>

definition ErrExtCommunityListNameRequired :: error where
  [errs]: "ErrExtCommunityListNameRequired =
     Sentinel ''extCommunityList name is required''"
definition ErrExtCommunityListTypeInvalid :: error where
  [errs]: "ErrExtCommunityListTypeInvalid =
     Sentinel (''extCommunityList listType must be '' @ [CHR 0x27] @ ''standard'' @ [CHR 0x27] @ '' or ''
       @ [CHR 0x27] @ ''regexp'' @ [CHR 0x27])"
definition ErrExtCommunityListEmptyEntries :: error where
  [errs]: "ErrExtCommunityListEmptyEntries =
     Sentinel ''extCommunityList must have at least one entry''"
definition ErrExtCommunityListAction :: error where
  [errs]: "ErrExtCommunityListAction =
     Sentinel (''extCommunityList entry action must be '' @ [CHR 0x27] @ ''permit'' @ [CHR 0x27] @ '' or ''
       @ [CHR 0x27] @ ''deny'' @ [CHR 0x27])"
definition ErrExtCommunityListValueEmpty :: error where
  [errs]: "ErrExtCommunityListValueEmpty =
     Sentinel ''extCommunityList entry value is required''"
definition ErrExtCommunityListEntryType :: error where
  [errs]: "ErrExtCommunityListEntryType =
     Sentinel (''extCommunityList standard entry type must be '' @ [CHR 0x27] @ ''rt'' @ [CHR 0x27] @ '' or ''
       @ [CHR 0x27] @ ''soo'' @ [CHR 0x27])"
definition ErrExtCommunityListStdValue :: error where
  [errs]: "ErrExtCommunityListStdValue =
     Sentinel ''extCommunityList standard entry value must be aa:nn or A.B.C.D:nn''"
definition ErrExtCommunityListRegexpHasTyp :: error where
  [errs]: "ErrExtCommunityListRegexpHasTyp =
     Sentinel (''extCommunityList regexp entry must not set type '' @ [CHR 0xE2, CHR 0x80, CHR 0x94]
       @ '' the type prefix is part of the regex'')"

record ExtCommunityListEntry =
  ece_Action :: string
  ece_Type :: "string option"
  ece_Value :: string

record ExtCommunityListArgs = overrides +
  ec_Name :: string
  ec_ListType :: "string option"
  ec_Entries :: "ExtCommunityListEntry list"

type_synonym ExtCommunityListState = ExtCommunityListArgs

text \<open>\<open>^([0-9]+(\.[0-9]+){0,3}):[0-9]+$\<close>\<close>

definition extCommunityValueRe :: "string \<Rightarrow> bool" where
  "extCommunityValueRe v \<longleftrightarrow>
     (case split_at (CHR '':'') v of
        [a, n] \<Rightarrow> length (split_at (CHR ''.'') a) \<le> 4 \<and> list_all all_digits (split_at (CHR ''.'') a) \<and> all_digits n
      | _ \<Rightarrow> False)"

definition extCommunityValidEntryType :: "string set" where
  "extCommunityValidEntryType = {''rt'', ''soo''}"

definition extCommunityListType :: "string option \<Rightarrow> string" where
  "extCommunityListType p = opt_or listTypeStandard (nonempty p)"

definition ext_community_entry :: "string \<Rightarrow> ExtCommunityListEntry \<Rightarrow> error option" where
  "ext_community_entry t e =
     (if \<not> permit_deny (ece_Action e) then Some (Got ErrExtCommunityListAction [DStr (ece_Action e)])
      else if TrimSpace (ece_Value e) = [] then Some ErrExtCommunityListValueEmpty
      else first_error
        [if t = listTypeStandard then
           (case nonempty (ece_Type e) of
              None \<Rightarrow> Some (Got ErrExtCommunityListEntryType [DStr (ece_Value e)])
            | Some k \<Rightarrow>
                if k \<notin> extCommunityValidEntryType then Some (Got ErrExtCommunityListEntryType [DStr k])
                else if \<not> extCommunityValueRe (ece_Value e) then Some (Got ErrExtCommunityListStdValue [DStr (ece_Value e)])
                else None)
         else None,
         if t = listTypeRegexp then
           opt_err (\<lambda>k. Some (Got ErrExtCommunityListRegexpHasTyp [DStr k])) (nonempty (ece_Type e))
         else None])"

definition validateExtCommunityList :: "ExtCommunityListArgs \<Rightarrow> error option" where
  "validateExtCommunityList args =
     (if TrimSpace (ec_Name args) = [] then Some ErrExtCommunityListNameRequired
      else let t = extCommunityListType (ec_ListType args)
        in if t \<noteq> listTypeStandard \<and> t \<noteq> listTypeRegexp then Some (Got ErrExtCommunityListTypeInvalid [DStr t])
        else if ec_Entries args = [] then Some ErrExtCommunityListEmptyEntries
        else first_error (map (ext_community_entry t) (ec_Entries args)))"

definition extCommunityListID :: "string \<Rightarrow> string" where
  "extCommunityListID name = ''ext-community-list/'' @ name"

definition ext_community_prefix :: "bool \<Rightarrow> string \<Rightarrow> string" where
  "ext_community_prefix regexp name =
     (if regexp then ''ip extcommunity-list regexp '' else ''ip extcommunity-list '') @ name @ '' ''"

text \<open>The pointer \<open>e.Type\<close> of a literal entry is not nil: it has been validated.\<close>

definition ext_community_cmd :: "ExtCommunityListArgs \<Rightarrow> ExtCommunityListEntry \<Rightarrow> string" where
  "ext_community_cmd args e =
     (if extCommunityListType (ec_ListType args) = listTypeRegexp
      then ext_community_prefix True (ec_Name args) @ ece_Action e @ '' '' @ ece_Value e
      else ext_community_prefix False (ec_Name args) @ ece_Action e @ '' '' @ or_empty (ece_Type e) @ '' '' @ ece_Value e)"

definition buildExtCommunityListCmds :: "ExtCommunityListArgs \<Rightarrow> bool \<Rightarrow> string list" where
  "buildExtCommunityListCmds args remove =
     (if remove then [''no ip extcommunity-list '' @ ec_Name args]
      else [''no ip extcommunity-list '' @ ec_Name args] @ map (ext_community_cmd args) (ec_Entries args))"

definition applyExtCommunityList :: "('n, 'w) ctx \<Rightarrow> ExtCommunityListArgs \<Rightarrow> bool \<Rightarrow> 'w \<Rightarrow> unit res \<times> 'w" where
  "applyExtCommunityList C args remove w =
     apply_session C args (''extcomm-'' @ sanitizePrefixListName (ec_Name args))
       (buildExtCommunityListCmds args remove) w"

record extCommunityListRow =
  ecr_Name :: string
  ecr_Type :: string
  ecr_Entries :: "ExtCommunityListEntry list"

definition parseExtCommunityListEntryRest :: "string \<Rightarrow> bool \<Rightarrow> ExtCommunityListEntry option" where
  "parseExtCommunityListEntryRest rest isRegexp =
     (if isRegexp then
        (case split2 rest of
           None \<Rightarrow> None
         | Some (action, v) \<Rightarrow>
             if \<not> permit_deny action then None else Some \<lparr>ece_Action = action, ece_Type = None, ece_Value = v\<rparr>)
      else
        (case split3 rest of
           None \<Rightarrow> None
         | Some (action, typ, v) \<Rightarrow>
             if \<not> permit_deny action then None else Some \<lparr>ece_Action = action, ece_Type = Some typ, ece_Value = v\<rparr>))"

definition ext_community_line :: "string \<Rightarrow> string \<Rightarrow> ExtCommunityListEntry option" where
  "ext_community_line name line =
     (case CutPrefix line (ext_community_prefix True name) of
        Some rest \<Rightarrow> parseExtCommunityListEntryRest rest True
      | None \<Rightarrow>
          (case CutPrefix line (ext_community_prefix False name) of
             Some rest \<Rightarrow> parseExtCommunityListEntryRest rest False
           | None \<Rightarrow> None))"

definition parseExtCommunityListLines :: "string \<Rightarrow> string \<Rightarrow> extCommunityListRow option" where
  "parseExtCommunityListLines out name =
     (let entries = list_entries (ext_community_line name) out
      in if entries = [] then None
         else Some \<lparr>ecr_Name = name,
                    ecr_Type = (if \<exists>l\<in>set (trimmed_lines out). HasPrefix l (ext_community_prefix True name)
                                then listTypeRegexp else listTypeStandard),
                    ecr_Entries = entries\<rparr>)"

definition readExtCommunityList ::
  "('n, 'w) ctx \<Rightarrow> 'n client \<Rightarrow> string \<Rightarrow> 'w \<Rightarrow> extCommunityListRow option res \<times> 'w" where
  "readExtCommunityList C cli name w =
     (case show_text C cli ''show running-config | grep extcommunity'' w of
        (r, w') \<Rightarrow> (map_res (\<lambda>out. parseExtCommunityListLines out name) r, w'))"

definition fillExtCommunityList :: "extCommunityListRow \<Rightarrow> ExtCommunityListState \<Rightarrow> ExtCommunityListState" where
  "fillExtCommunityList r s =
     s\<lparr>ec_ListType := Some (ecr_Type r),
       ec_Entries := (if ecr_Entries r \<noteq> [] then ecr_Entries r else ec_Entries s)\<rparr>"

definition ExtCommunityList_Create ::
  "('n, 'w) ctx \<Rightarrow> ExtCommunityListArgs request \<Rightarrow> 'w \<Rightarrow> ExtCommunityListState created res \<times> 'w" where
  "ExtCommunityList_Create C =
     crud_create validateExtCommunityList (\<lambda>a. extCommunityListID (ec_Name a)) (applyExtCommunityList C)
       (\<lambda>a. ''create ext-community-list '' @ ec_Name a)"

definition ExtCommunityList_Read ::
  "('n, 'w) ctx \<Rightarrow> ExtCommunityListArgs \<Rightarrow> 'w \<Rightarrow> (ExtCommunityListArgs, ExtCommunityListState) read_response option res \<times> 'w" where
  "ExtCommunityList_Read C =
     crud_read (newClient C) (\<lambda>cli a. readExtCommunityList C cli (ec_Name a)) (\<lambda>a. extCommunityListID (ec_Name a)) fillExtCommunityList"

definition ExtCommunityList_Update :: "('n, 'w) ctx \<Rightarrow> ExtCommunityListArgs request \<Rightarrow> 'w \<Rightarrow> ExtCommunityListState res \<times> 'w" where
  "ExtCommunityList_Update C =
     crud_update validateExtCommunityList (applyExtCommunityList C)
       (\<lambda>a. ''update ext-community-list '' @ ec_Name a)"

definition ExtCommunityList_Delete :: "('n, 'w) ctx \<Rightarrow> ExtCommunityListState \<Rightarrow> 'w \<Rightarrow> unit res \<times> 'w" where
  "ExtCommunityList_Delete C =
     crud_delete (applyExtCommunityList C)
       (\<lambda>a. ''delete ext-community-list '' @ ec_Name a)"

interpretation ext_community_mgr: session_managed C validateExtCommunityList "\<lambda>a. extCommunityListID (ec_Name a)"
  "applyExtCommunityList C" "\<lambda>a. ''extcomm-'' @ sanitizePrefixListName (ec_Name a)" buildExtCommunityListCmds
  by unfold_locales (simp add: applyExtCommunityList_def)

section \<open>Reading back\<close>

text \<open>An entry of a regular expression must leave its type nil, for that is what the reader gives it.\<close>

definition ext_community_readable :: "ExtCommunityListArgs \<Rightarrow> ExtCommunityListEntry \<Rightarrow> bool" where
  "ext_community_readable a e \<longleftrightarrow>
     ec_Name a \<noteq> ''regexp'' \<and> CHR '' '' \<notin> set (ec_Name a) \<and> ece_Type e \<noteq> Some []
     \<and> extCommunityListType (ec_ListType a) \<in> {listTypeStandard, listTypeRegexp}
     \<and> ext_community_entry (extCommunityListType (ec_ListType a)) e = None"

definition ext_community_shown :: "ExtCommunityListArgs \<Rightarrow> ExtCommunityListEntry \<Rightarrow> string \<Rightarrow> bool" where
  "ext_community_shown a e l \<longleftrightarrow> l = ext_community_cmd a e"

lemma ext_community_cross:
  assumes "n \<noteq> ''regexp''" and "CHR '' '' \<notin> set n"
  shows "CutPrefix (ext_community_prefix False n @ r) (ext_community_prefix True n) = None"
  using prefix_word [OF assms(1,2), of r "n @ '' ''"] by (simp add: ext_community_prefix_def)

lemma ext_types: "listTypeStandard \<noteq> listTypeRegexp"
  by (simp add: l3_words)

interpretation ext_community_list: entry_list "\<lambda>a. ext_community_line (ec_Name a)" ext_community_shown ext_community_readable
proof (unfold_locales, goal_cases)
  case (1 a e l)
  let ?t = "extCommunityListType (ec_ListType a)"
  from 1(1) have act: "permit_deny (ece_Action e)" and n: "ec_Name a \<noteq> ''regexp''" "CHR '' '' \<notin> set (ec_Name a)"
    and t: "?t = listTypeStandard \<or> ?t = listTypeRegexp" and ty: "ece_Type e \<noteq> Some []"
    by (auto simp: ext_community_readable_def ext_community_entry_def split: if_splits)
  have split: "split2 (ece_Action e @ CHR '' '' # r) = Some (ece_Action e, r)" for r
    by (rule split2_word) (rule permit_deny_blank [OF act])
  show ?case
  proof (cases "?t = listTypeRegexp")
    case True
    with 1(1) ext_types act have "ece_Type e = None"
      by (auto simp: ext_community_readable_def ext_community_entry_def opt_err_def nonempty_def split: if_splits option.splits)
    moreover have l: "l = ext_community_prefix True (ec_Name a) @ ece_Action e @ '' '' @ ece_Value e"
      using 1(2) True by (simp add: ext_community_shown_def ext_community_cmd_def)
    ultimately show ?thesis
      unfolding ext_community_line_def l CutPrefix_append option.case
      using act split [of "ece_Value e"] by (simp add: parseExtCommunityListEntryRest_def)
  next
    case False
    with t have s: "?t = listTypeStandard" by blast
    with 1(1) ext_types obtain k where k: "ece_Type e = Some k" "k \<in> extCommunityValidEntryType"
      by (auto simp: ext_community_readable_def ext_community_entry_def split: if_splits option.splits)
    then have "CHR '' '' \<notin> set k" by (auto simp: extCommunityValidEntryType_def)
    then have "split3 (ece_Action e @ CHR '' '' # k @ CHR '' '' # ece_Value e) = Some (ece_Action e, k, ece_Value e)"
      by (simp add: split3_def split split2_word)
    moreover have l: "l = ext_community_prefix False (ec_Name a) @ ece_Action e @ '' '' @ k @ '' '' @ ece_Value e"
      using 1(2) False k(1) by (simp add: ext_community_shown_def ext_community_cmd_def)
    ultimately show ?thesis
      unfolding ext_community_line_def l ext_community_cross [OF n] CutPrefix_append option.case
      using act k(1) by (simp add: parseExtCommunityListEntryRest_def)
  qed
qed

lemma ext_community_roundtrip:
  assumes v: "validateExtCommunityList a = None" and n: "ec_Name a \<noteq> ''regexp''" "CHR '' '' \<notin> set (ec_Name a)"
    and ty: "\<forall>e\<in>set (ec_Entries a). ece_Type e \<noteq> Some []"
    and p: "lists_entries (ext_community_line (ec_Name a)) (ext_community_shown a) out (ec_Entries a)"
    and k: "(\<exists>l\<in>set (trimmed_lines out). HasPrefix l (ext_community_prefix True (ec_Name a)))
      = (extCommunityListType (ec_ListType a) = listTypeRegexp)"
  shows "parseExtCommunityListLines out (ec_Name a)
    = Some \<lparr>ecr_Name = ec_Name a, ecr_Type = extCommunityListType (ec_ListType a), ecr_Entries = ec_Entries a\<rparr>"
proof -
  from v have ne: "ec_Entries a \<noteq> []" and e: "\<forall>e\<in>set (ec_Entries a). ext_community_readable a e"
    and t: "extCommunityListType (ec_ListType a) \<in> {listTypeStandard, listTypeRegexp}"
    using n ty
    by (auto simp: validateExtCommunityList_def ext_community_readable_def first_error_None Let_def split: if_splits)
  with ext_community_list.entries_back [OF p e] k show ?thesis
    by (auto simp: parseExtCommunityListLines_def)
qed

end
