(* ===== verification/Bfd.thy ===== *)
theory Bfd
  imports L3_Common
begin

text \<open>\<open>internal/resources/l3/bfd.go\<close>: the global BFD timers, one per switch.\<close>

definition ErrBfdTimerBundleIncomplete :: error where
  [errs]: "ErrBfdTimerBundleIncomplete =
     Sentinel ''bfd interval / minRx / multiplier must be set together (all or none)''"
definition ErrBfdMultiplierOutOfRange :: error where
  [errs]: "ErrBfdMultiplierOutOfRange = Sentinel ''bfd multiplier must be in 3..50''"
definition ErrBfdIntervalNonPositive :: error where
  [errs]: "ErrBfdIntervalNonPositive =
     Sentinel ''bfd interval / minRx must be > 0 ms''"
definition ErrBfdSlowTimerNonPositive :: error where
  [errs]: "ErrBfdSlowTimerNonPositive = Sentinel ''bfd slowTimer must be > 0 ms''"

record BfdArgs = overrides +
  bfd_Interval :: "int option"
  bfd_MinRx :: "int option"
  bfd_Multiplier :: "int option"
  bfd_SlowTimer :: "int option"
  bfd_Shutdown :: "bool option"

type_synonym BfdState = BfdArgs

text \<open>The bundle: all three timers are set.\<close>

definition bfd_bundle :: "BfdArgs \<Rightarrow> (int \<times> int \<times> int) option" where
  "bfd_bundle a =
     (case (bfd_Interval a, bfd_MinRx a, bfd_Multiplier a) of
        (Some i, Some m, Some n) \<Rightarrow> Some (i, m, n) | _ \<Rightarrow> None)"

definition validateBfd :: "BfdArgs \<Rightarrow> error option" where
  "validateBfd args =
     (if (bfd_Interval args \<noteq> None \<or> bfd_MinRx args \<noteq> None \<or> bfd_Multiplier args \<noteq> None) \<and> bfd_bundle args = None
      then Some ErrBfdTimerBundleIncomplete
      else first_error
        [opt_err (\<lambda>(i, m, n).
            if i \<le> 0 \<or> m \<le> 0 then Some (Got ErrBfdIntervalNonPositive [DInt i, DInt m])
            else if n < 3 \<or> n > 50 then Some (Got ErrBfdMultiplierOutOfRange [DInt n])
            else None) (bfd_bundle args),
         opt_err (\<lambda>t. if t \<le> 0 then Some (Got ErrBfdSlowTimerNonPositive [DInt t]) else None) (bfd_SlowTimer args)])"

definition bfdID :: string where
  "bfdID = ''bfd/global''"

definition bfd_timers_cmd :: "int \<times> int \<times> int \<Rightarrow> string" where
  "bfd_timers_cmd t =
     (case t of (i, m, n) \<Rightarrow>
        ''interval '' @ Itoa i @ '' min-rx '' @ Itoa m @ '' multiplier '' @ Itoa n @ '' default'')"

definition buildBfdCmds :: "BfdArgs \<Rightarrow> bool \<Rightarrow> string list" where
  "buildBfdCmds args reset =
     (if reset then [''no router bfd'']
      else [''router bfd'']
           @ line_opt bfd_timers_cmd (bfd_bundle args)
           @ line_opt (\<lambda>t. ''slow-timer '' @ Itoa t) (bfd_SlowTimer args)
           @ line_bool ''shutdown'' ''no shutdown'' (bfd_Shutdown args)
           @ [''exit''])"

definition applyBfd :: "('n, 'w) ctx \<Rightarrow> BfdArgs \<Rightarrow> bool \<Rightarrow> 'w \<Rightarrow> unit res \<times> 'w" where
  "applyBfd C args reset w = apply_session C args ''bfd-global'' (buildBfdCmds args reset) w"

record bfdRow =
  bfr_Interval :: int
  bfr_MinRx :: int
  bfr_Multiplier :: int
  bfr_SlowTimer :: int
  bfr_Shutdown :: bool
  bfr_HasTimers :: bool

definition zero_bfdRow :: bfdRow where
  "zero_bfdRow =
     \<lparr>bfr_Interval = 0, bfr_MinRx = 0, bfr_Multiplier = 0, bfr_SlowTimer = 0, bfr_Shutdown = False,
      bfr_HasTimers = False\<rparr>"

definition parseBfdTimerLine :: "string \<Rightarrow> bfdRow \<Rightarrow> bfdRow" where
  "parseBfdTimerLine line row =
     (case timer_line line (bfr_Interval row, bfr_MinRx row, bfr_Multiplier row) of (i, m, n) \<Rightarrow>
        row\<lparr>bfr_Interval := i, bfr_MinRx := m, bfr_Multiplier := n,
            bfr_HasTimers := (if i > 0 \<and> m > 0 \<and> n > 0 then True else bfr_HasTimers row)\<rparr>)"

definition bfd_line :: "string \<Rightarrow> bfdRow \<Rightarrow> bfdRow" where
  "bfd_line line row =
     (if line = ''shutdown'' then row\<lparr>bfr_Shutdown := True\<rparr>
      else if HasPrefix line ''slow-timer '' then
        row\<lparr>bfr_SlowTimer := atoi_or (bfr_SlowTimer row) (TrimPrefix line ''slow-timer '')\<rparr>
      else if HasPrefix line ''interval '' then parseBfdTimerLine line row
      else row)"

definition parseBfdSection :: "string \<Rightarrow> bfdRow" where
  "parseBfdSection out = scan bfd_line out zero_bfdRow"

text \<open>The section always reads as a row: the resource is never reported missing.\<close>

definition readBfd :: "('n, 'w) ctx \<Rightarrow> 'n client \<Rightarrow> 'w \<Rightarrow> bfdRow option res \<times> 'w" where
  "readBfd C cli w =
     (case show_text C cli ''show running-config | section router bfd'' w of
        (r, w') \<Rightarrow> (map_res (\<lambda>out. Some (parseBfdSection out)) r, w'))"

definition fillBfd :: "bfdRow \<Rightarrow> BfdState \<Rightarrow> BfdState" where
  "fillBfd r s =
     s\<lparr>bfd_Interval := (if bfr_HasTimers r then Some (bfr_Interval r) else bfd_Interval s),
       bfd_MinRx := (if bfr_HasTimers r then Some (bfr_MinRx r) else bfd_MinRx s),
       bfd_Multiplier := (if bfr_HasTimers r then Some (bfr_Multiplier r) else bfd_Multiplier s),
       bfd_SlowTimer := set_pos (bfr_SlowTimer r) (bfd_SlowTimer s),
       bfd_Shutdown := set_true (bfr_Shutdown r) (bfd_Shutdown s)\<rparr>"

definition Bfd_Create ::
  "('n, 'w) ctx \<Rightarrow> BfdArgs request \<Rightarrow> 'w \<Rightarrow> BfdState created res \<times> 'w" where
  "Bfd_Create C =
     crud_create validateBfd (\<lambda>a. bfdID) (applyBfd C)
       (\<lambda>a. ''create bfd'')"

definition Bfd_Read ::
  "('n, 'w) ctx \<Rightarrow> BfdArgs \<Rightarrow> 'w \<Rightarrow> (BfdArgs, BfdState) read_response option res \<times> 'w" where
  "Bfd_Read C =
     crud_read (newClient C) (\<lambda>cli a. readBfd C cli) (\<lambda>a. bfdID) fillBfd"

definition Bfd_Update :: "('n, 'w) ctx \<Rightarrow> BfdArgs request \<Rightarrow> 'w \<Rightarrow> BfdState res \<times> 'w" where
  "Bfd_Update C =
     crud_update validateBfd (applyBfd C)
       (\<lambda>a. ''update bfd'')"

definition Bfd_Delete :: "('n, 'w) ctx \<Rightarrow> BfdState \<Rightarrow> 'w \<Rightarrow> unit res \<times> 'w" where
  "Bfd_Delete C =
     crud_delete (applyBfd C)
       (\<lambda>a. ''delete bfd'')"

interpretation bfd_mgr: session_managed C validateBfd "\<lambda>a. bfdID"
  "applyBfd C" "\<lambda>a. ''bfd-global''" buildBfdCmds
  by unfold_locales (simp add: applyBfd_def)

section \<open>Reading back\<close>

definition bfd_idle :: "string \<Rightarrow> bool" where
  "bfd_idle l \<longleftrightarrow> l \<in> {[], ''!'', ''exit'', ''no shutdown'', ''router bfd''}"

interpretation bfd_scan: line_scanner bfd_line bfd_idle
proof (unfold_locales, goal_cases)
  case (1 l r)
  then show ?case unfolding bfd_idle_def by (elim insertE emptyE) (simp_all add: bfd_line_def)
next
  case (2 l)
  then show ?case by (auto simp: bfd_idle_def noise_def)
qed

interpretation bfd_slow: attribute bfd_line "\<lambda>t. ''slow-timer '' @ Itoa t" int64
  bfr_SlowTimer "\<lambda>v r. r\<lparr>bfr_SlowTimer := v\<rparr>"
  by unfold_locales (simp_all add: bfd_line_def)

interpretation bfd_shutdown: flag bfd_line "''shutdown''" bfr_Shutdown "\<lambda>b r. r\<lparr>bfr_Shutdown := b\<rparr>"
  by unfold_locales (simp_all add: bfd_line_def)

definition canonical_bfd :: "BfdArgs \<Rightarrow> bool" where
  "canonical_bfd a \<longleftrightarrow>
     pred_option (\<lambda>(i, m, n). int64 i \<and> int64 m) (bfd_bundle a) \<and> pred_option int64 (bfd_SlowTimer a)"

lemma bfd_timers_line:
  assumes "int64 i" "int64 m" "int64 n" "0 < i" "0 < m" "0 < n"
  shows "bfd_line (bfd_timers_cmd (i, m, n)) r
    = r\<lparr>bfr_Interval := i, bfr_MinRx := m, bfr_Multiplier := n, bfr_HasTimers := True\<rparr>"
proof -
  have j: "bfd_timers_cmd (i, m, n) = Join ([] @ timer_words i m n @ [''default'']) '' ''"
    by (simp add: bfd_timers_cmd_def timer_words_def)
  have "HasPrefix (bfd_timers_cmd (i, m, n)) ''interval ''" "bfd_timers_cmd (i, m, n) \<noteq> ''shutdown''"
    "\<not> HasPrefix (bfd_timers_cmd (i, m, n)) ''slow-timer ''"
    by (simp_all add: bfd_timers_cmd_def)
  moreover have "timer_line (bfd_timers_cmd (i, m, n)) t = (i, m, n)" for t
    unfolding j by (rule timer_line_words) (use assms in simp_all)
  ultimately show ?thesis using assms(4-6) by (simp add: bfd_line_def parseBfdTimerLine_def)
qed

lemma bfd_quiet: "bfd_line ''router bfd'' r = r" "bfd_line ''no shutdown'' r = r" "bfd_line ''exit'' r = r"
  by (simp_all add: bfd_line_def)

lemma validateBfd_None:
  assumes "validateBfd a = None"
  shows "pred_option (\<lambda>(i, m, n). 0 < i \<and> 0 < m \<and> 3 \<le> n \<and> n \<le> 50) (bfd_bundle a)"
    and "pred_option (\<lambda>t. 0 < t) (bfd_SlowTimer a)"
    and "bfd_bundle a = None \<Longrightarrow> bfd_Interval a = None \<and> bfd_MinRx a = None \<and> bfd_Multiplier a = None"
proof -
  note v = assms [unfolded validateBfd_def check_chain first_error_None]
  from v show "pred_option (\<lambda>(i, m, n). 0 < i \<and> 0 < m \<and> 3 \<le> n \<and> n \<le> 50) (bfd_bundle a)"
    by (cases "bfd_bundle a") (auto simp: opt_err_def split: if_splits)
  from v show "pred_option (\<lambda>t. 0 < t) (bfd_SlowTimer a)"
    by (cases "bfd_SlowTimer a") (auto simp: opt_err_def split: if_splits)
  from v show "bfd_bundle a = None \<Longrightarrow> bfd_Interval a = None \<and> bfd_MinRx a = None \<and> bfd_Multiplier a = None"
    by simp
qed

lemma bfd_roundtrip:
  assumes v: "validateBfd a = None" and c: "canonical_bfd a" and p: "prints bfd_idle out (buildBfdCmds a False)"
  shows "fillBfd (parseBfdSection out) a = a"
proof -
  note v' = validateBfd_None [OF v]
  have s: "pred_option int64 (bfd_SlowTimer a)" using c by (simp add: canonical_bfd_def)
  have scanned: "parseBfdSection out =
      (fold bfd_line (line_opt bfd_timers_cmd (bfd_bundle a)) zero_bfdRow)
        \<lparr>bfr_SlowTimer := or_zero (bfd_SlowTimer a), bfr_Shutdown := (bfd_Shutdown a = Some True)\<rparr>"
    if "\<And>r. r = fold bfd_line (line_opt bfd_timers_cmd (bfd_bundle a)) zero_bfdRow \<Longrightarrow>
        bfr_SlowTimer r = 0 \<and> \<not> bfr_Shutdown r"
    unfolding parseBfdSection_def bfd_scan.scan_prints [OF p] buildBfdCmds_def if_False fold_append comp_def fold_simps
      bfd_quiet bfd_slow.fold_attr [OF s] bfd_shutdown.fold_switch [OF bfd_quiet(2)]
    using that by simp
  show ?thesis
  proof (cases "bfd_bundle a")
    case None
    with scanned v'(3) show ?thesis by (simp add: fillBfd_def zero_bfdRow_def)
  next
    case (Some t)
    obtain i m n where t: "t = (i, m, n)" by (cases t)
    from Some t c v'(1) have "int64 i" "int64 m" "int64 n" "0 < i" "0 < m" "0 < n"
      by (auto simp: canonical_bfd_def int64_def)
    then have "fold bfd_line (line_opt bfd_timers_cmd (bfd_bundle a)) zero_bfdRow
      = zero_bfdRow\<lparr>bfr_Interval := i, bfr_MinRx := m, bfr_Multiplier := n, bfr_HasTimers := True\<rparr>"
      by (simp add: Some t bfd_timers_line)
    moreover have "bfd_Interval a = Some i" "bfd_MinRx a = Some m" "bfd_Multiplier a = Some n"
      using Some t by (auto simp: bfd_bundle_def split: option.splits)
    ultimately show ?thesis using scanned by (simp add: fillBfd_def zero_bfdRow_def)
  qed
qed

end
