(* ===== verification/Resilient_Ecmp.thy ===== *)
theory Resilient_Ecmp
  imports L3_Common
begin

text \<open>
  \<open>internal/resources/l3/resilient_ecmp.go\<close>: the resilient hashing of the next hops of a prefix, in
  one line of either address family.
\<close>

definition ErrResilientEcmpPrefixInvalid :: error where
  [errs]: "ErrResilientEcmpPrefixInvalid =
     Sentinel ''resilientEcmp prefix must be a valid IPv4 or IPv6 CIDR''"
definition ErrResilientEcmpAFMismatch :: error where
  [errs]: "ErrResilientEcmpAFMismatch =
     Sentinel (''resilientEcmp ipFamily must be '' @ [CHR 0x27] @ ''ipv4'' @ [CHR 0x27] @ '' or ''
       @ [CHR 0x27] @ ''ipv6'' @ [CHR 0x27] @ '' and match the prefix family'')"
definition ErrResilientEcmpCapacityRange :: error where
  [errs]: "ErrResilientEcmpCapacityRange =
     Sentinel (''resilientEcmp capacity must be in 1..1024 (per-platform max varies; see EOS TOI 13938 ''
       @ [CHR 0xC2, CHR 0xA7] @ ''Limitations)'')"
definition ErrResilientEcmpRedundancyRange :: error where
  [errs]: "ErrResilientEcmpRedundancyRange =
     Sentinel (''resilientEcmp redundancy must be in 1..1023 (per-platform max varies; see EOS TOI 13938 ''
       @ [CHR 0xC2, CHR 0xA7] @ ''Limitations)'')"
definition ErrResilientEcmpProductExceeded :: error where
  [errs]: "ErrResilientEcmpProductExceeded =
     Sentinel (''resilientEcmp capacity * redundancy exceeds per-platform limit (e.g. 1024 on 7050X3, 2047 on 7280/7500/7800; see EOS TOI 13938 ''
       @ [CHR 0xC2, CHR 0xA7] @ ''Limitations)'')"

record ResilientEcmpArgs = overrides +
  re_Prefix :: string
  re_IpFamily :: "string option"
  re_Capacity :: int
  re_Redundancy :: int
  re_Ordered :: "bool option"

type_synonym ResilientEcmpState = ResilientEcmpArgs

definition validResilientEcmpFamily :: "string set" where
  "validResilientEcmpFamily = {''ipv4'', ''ipv6''}"

definition canonicaliseFamily :: "ResilientEcmpArgs \<Rightarrow> string res" where
  "canonicaliseFamily args =
     (case ParsePrefix (re_Prefix args) of
        None \<Rightarrow> Err (Got ErrResilientEcmpPrefixInvalid [DStr (re_Prefix args)])
      | Some (addr, _) \<Rightarrow>
          let wantFamily = (if Is6 addr then ''ipv6'' else ''ipv4'')
          in case nonempty (re_IpFamily args) of
               None \<Rightarrow> Ok wantFamily
             | Some f \<Rightarrow>
                 if f \<notin> validResilientEcmpFamily then Err (Got ErrResilientEcmpAFMismatch [DStr f])
                 else if f \<noteq> wantFamily then Err (Got ErrResilientEcmpAFMismatch [DStr wantFamily, DStr f])
                 else Ok wantFamily)"

text \<open>The product of two validated numbers is at most 1024 * 1023: it does not wrap.\<close>

definition validateResilientEcmp :: "ResilientEcmpArgs \<Rightarrow> error option" where
  "validateResilientEcmp args =
     (case canonicaliseFamily args of
        Err e \<Rightarrow> Some e
      | _ \<Rightarrow>
          if re_Capacity args < 1 \<or> re_Capacity args > 1024
            then Some (Got ErrResilientEcmpCapacityRange [DInt (re_Capacity args)])
          else if re_Redundancy args < 1 \<or> re_Redundancy args > 1023
            then Some (Got ErrResilientEcmpRedundancyRange [DInt (re_Redundancy args)])
          else if re_Capacity args * re_Redundancy args > 2047
            then Some (Got ErrResilientEcmpProductExceeded
              [DInt (re_Capacity args), DInt (re_Redundancy args), DInt (re_Capacity args * re_Redundancy args)])
          else None)"

definition resilientEcmpID :: "string \<Rightarrow> string \<Rightarrow> string" where
  "resilientEcmpID prefix family =
     ''resilient-ecmp/'' @ (if family = [] then ''ipv4'' else family) @ ''/'' @ prefix"

definition resilientEcmpKeyword :: "string \<Rightarrow> string" where
  "resilientEcmpKeyword family = (if family = ''ipv6'' then ''ipv6'' else ''ip'')"

definition ecmp_header :: "string \<Rightarrow> string \<Rightarrow> string" where
  "ecmp_header family prefix = resilientEcmpKeyword family @ '' hardware fib ecmp resilience '' @ prefix"

definition buildResilientEcmpCmds :: "ResilientEcmpArgs \<Rightarrow> string \<Rightarrow> bool \<Rightarrow> string list" where
  "buildResilientEcmpCmds args family remove =
     (if remove then [''no '' @ ecmp_header family (re_Prefix args)]
      else [ecmp_header family (re_Prefix args)
            @ '' capacity '' @ Itoa (re_Capacity args) @ '' redundancy '' @ Itoa (re_Redundancy args)
            @ (if re_Ordered args = Some True then '' ordered'' else [])])"

definition applyResilientEcmp :: "('n, 'w) ctx \<Rightarrow> ResilientEcmpArgs \<Rightarrow> bool \<Rightarrow> 'w \<Rightarrow> unit res \<times> 'w" where
  "applyResilientEcmp C args remove w =
     and_then (canonicaliseFamily args)
       (\<lambda>family. apply_session C args (''recmp-'' @ sanitizePrefixListName (re_Prefix args))
          (buildResilientEcmpCmds args family remove)) w"

record resilientEcmpRow =
  rer_Prefix :: string
  rer_Family :: string
  rer_Capacity :: int
  rer_Redundancy :: int
  rer_Ordered :: bool

definition ecmp_token :: "string \<times> string option \<Rightarrow> resilientEcmpRow \<Rightarrow> resilientEcmpRow" where
  "ecmp_token kv row =
     (case kv of (k, v) \<Rightarrow>
        if k = ''capacity'' then
          (case v of Some s \<Rightarrow> row\<lparr>rer_Capacity := atoi_or (rer_Capacity row) s\<rparr> | None \<Rightarrow> row)
        else if k = ''redundancy'' then
          (case v of Some s \<Rightarrow> row\<lparr>rer_Redundancy := atoi_or (rer_Redundancy row) s\<rparr> | None \<Rightarrow> row)
        else if k = ''ordered'' then row\<lparr>rer_Ordered := True\<rparr>
        else row)"

text \<open>Every token, with the one behind it if there is one.\<close>

definition applyResilientEcmpLine :: "resilientEcmpRow \<Rightarrow> string \<Rightarrow> resilientEcmpRow" where
  "applyResilientEcmpLine row rest =
     (let ts = Fields rest in fold ecmp_token (zip ts (map Some (tl ts) @ [None])) row)"

fun ecmp_lines :: "string \<Rightarrow> string \<Rightarrow> string list \<Rightarrow> resilientEcmpRow option" where
  "ecmp_lines prefix family [] = None"
| "ecmp_lines prefix family (line # ls) =
     (case CutPrefix line (ecmp_header family prefix @ '' '') of
        None \<Rightarrow> ecmp_lines prefix family ls
      | Some rest \<Rightarrow>
          Some (applyResilientEcmpLine
            \<lparr>rer_Prefix = prefix, rer_Family = family, rer_Capacity = 0, rer_Redundancy = 0, rer_Ordered = False\<rparr> rest))"

definition parseResilientEcmpLines :: "string \<Rightarrow> string \<Rightarrow> string \<Rightarrow> resilientEcmpRow option" where
  "parseResilientEcmpLines out prefix family = ecmp_lines prefix family (trimmed_lines out)"

definition readResilientEcmp ::
  "('n, 'w) ctx \<Rightarrow> 'n client \<Rightarrow> string \<Rightarrow> string \<Rightarrow> 'w \<Rightarrow> resilientEcmpRow option res \<times> 'w" where
  "readResilientEcmp C cli prefix family w =
     (case show_text C cli ''show running-config | grep ecmp'' w of
        (r, w') \<Rightarrow>
          (map_res (\<lambda>out. parseResilientEcmpLines out prefix (if family = [] then ''ipv4'' else family)) r, w'))"

definition fillResilientEcmp :: "resilientEcmpRow \<Rightarrow> ResilientEcmpState \<Rightarrow> ResilientEcmpState" where
  "fillResilientEcmp r s =
     s\<lparr>re_IpFamily := set_str (rer_Family r) (re_IpFamily s),
       re_Capacity := (if rer_Capacity r > 0 then rer_Capacity r else re_Capacity s),
       re_Redundancy := (if rer_Redundancy r > 0 then rer_Redundancy r else re_Redundancy s),
       re_Ordered := set_true (rer_Ordered r) (re_Ordered s)\<rparr>"

definition ResilientEcmp_Create ::
  "('n, 'w) ctx \<Rightarrow> ResilientEcmpArgs request \<Rightarrow> 'w \<Rightarrow> ResilientEcmpState created res \<times> 'w" where
  "ResilientEcmp_Create C =
     crud_create validateResilientEcmp (\<lambda>a. resilientEcmpID (re_Prefix a) (or_empty (re_IpFamily a))) (applyResilientEcmp C)
       (\<lambda>a. ''create resilientEcmp '' @ re_Prefix a)"

definition ResilientEcmp_Read ::
  "('n, 'w) ctx \<Rightarrow> ResilientEcmpArgs \<Rightarrow> 'w \<Rightarrow> (ResilientEcmpArgs, ResilientEcmpState) read_response option res \<times> 'w" where
  "ResilientEcmp_Read C =
     crud_read (newClient C) (\<lambda>cli a. readResilientEcmp C cli (re_Prefix a) (or_empty (re_IpFamily a))) (\<lambda>a. resilientEcmpID (re_Prefix a) (or_empty (re_IpFamily a))) fillResilientEcmp"

definition ResilientEcmp_Update :: "('n, 'w) ctx \<Rightarrow> ResilientEcmpArgs request \<Rightarrow> 'w \<Rightarrow> ResilientEcmpState res \<times> 'w" where
  "ResilientEcmp_Update C =
     crud_update validateResilientEcmp (applyResilientEcmp C)
       (\<lambda>a. ''update resilientEcmp '' @ re_Prefix a)"

definition ResilientEcmp_Delete :: "('n, 'w) ctx \<Rightarrow> ResilientEcmpState \<Rightarrow> 'w \<Rightarrow> unit res \<times> 'w" where
  "ResilientEcmp_Delete C =
     crud_delete (applyResilientEcmp C)
       (\<lambda>a. ''delete resilientEcmp '' @ re_Prefix a)"

text \<open>The family is known when the arguments have passed validation; a deletion may fail on it.\<close>

interpretation ecmp_mgr: managed validateResilientEcmp "\<lambda>a. resilientEcmpID (re_Prefix a) (or_empty (re_IpFamily a))"
  "applyResilientEcmp C"
  by unfold_locales
    (auto simp: applyResilientEcmp_def canonicaliseFamily_def Let_def apply_session_returns intro!: and_then_returns
      split: option.split)

section \<open>Reading back\<close>

lemma canonicaliseFamily_cases:
  assumes "validateResilientEcmp a = None"
  shows "canonicaliseFamily a = Ok ''ipv4'' \<or> canonicaliseFamily a = Ok ''ipv6''"
  using assms
  by (auto simp: validateResilientEcmp_def canonicaliseFamily_def Let_def split: option.splits if_splits)

lemma canonicaliseFamily_given:
  "canonicaliseFamily a = Ok f \<Longrightarrow> re_IpFamily a = Some f \<or> nonempty (re_IpFamily a) = None"
  by (auto simp: canonicaliseFamily_def Let_def nonempty_def split: option.splits if_splits)

lemma ecmp_line_back:
  assumes n: "int64 c" "int64 d"
  shows "applyResilientEcmpLine row (Join ([''capacity'', Itoa c, ''redundancy'', Itoa d] @ (if b then [''ordered''] else [])) '' '')
    = row\<lparr>rer_Capacity := c, rer_Redundancy := d, rer_Ordered := (rer_Ordered row \<or> b)\<rparr>"
proof -
  let ?ws = "[''capacity'', Itoa c, ''redundancy'', Itoa d] @ (if b then [''ordered''] else [])"
  have words: "Fields (Join ?ws '' '') = ?ws"
  proof (rule Fields_Join)
    have "word_string ''capacity''" "word_string ''redundancy''" "word_string ''ordered''"
      by (simp_all add: word_string_def space_byte_def ascii_space_def)
    then show "word_string w" if "w \<in> set ?ws" for w using that by (auto split: if_splits)
  qed
  have "Atoi ''capacity'' = None" "Atoi ''redundancy'' = None" "Atoi ''ordered'' = None" by code_simp+
  then have no: "Itoa v \<noteq> ''capacity''" "Itoa v \<noteq> ''redundancy''" "Itoa v \<noteq> ''ordered''" if "int64 v" for v
    using that by (simp_all add: Itoa_no_word)
  show ?thesis
    using no [OF n(1)] no [OF n(2)] n unfolding applyResilientEcmpLine_def words
    by (cases row) (simp add: ecmp_token_def)
qed

lemma ecmp_cmd_rest:
  "buildResilientEcmpCmds a f False = [ecmp_header f (re_Prefix a) @ '' ''
     @ Join ([''capacity'', Itoa (re_Capacity a), ''redundancy'', Itoa (re_Redundancy a)]
         @ (if re_Ordered a = Some True then [''ordered''] else [])) '' '']"
  by (simp add: buildResilientEcmpCmds_def)

lemma ecmp_keyword_differs:
  "CutPrefix (ecmp_header ''ipv6'' p @ r) (ecmp_header ''ipv4'' q @ s) = None"
  by (simp add: ecmp_header_def resilientEcmpKeyword_def)

text \<open>A text whose only line for the prefix is the one of the resource gives it back.\<close>

lemma ecmp_lines_only:
  "filter (\<lambda>l. HasPrefix l (ecmp_header f p @ '' '')) ls = [ecmp_header f p @ '' '' @ rest] \<Longrightarrow>
   ecmp_lines p f ls = Some (applyResilientEcmpLine
     \<lparr>rer_Prefix = p, rer_Family = f, rer_Capacity = 0, rer_Redundancy = 0, rer_Ordered = False\<rparr> rest)"
proof (induction ls)
  case (Cons l ls)
  show ?case
  proof (cases "HasPrefix l (ecmp_header f p @ '' '')")
    case True
    with Cons.prems have "l = (ecmp_header f p @ '' '') @ rest" by simp
    then show ?thesis by (simp only: ecmp_lines.simps CutPrefix_append option.case)
  next
    case False
    then have "CutPrefix l (ecmp_header f p @ '' '') = None" by (simp add: HasPrefix_def)
    with Cons False show ?thesis by simp
  qed
qed simp

definition shows_ecmp :: "ResilientEcmpArgs \<Rightarrow> string \<Rightarrow> string \<Rightarrow> bool" where
  "shows_ecmp a f out \<longleftrightarrow>
     filter (\<lambda>l. HasPrefix l (ecmp_header f (re_Prefix a) @ '' '')) (trimmed_lines out) = buildResilientEcmpCmds a f False"

lemma ecmp_back:
  assumes v: "validateResilientEcmp a = None" and s: "shows_ecmp a f out"
  shows "parseResilientEcmpLines out (re_Prefix a) f
    = Some \<lparr>rer_Prefix = re_Prefix a, rer_Family = f, rer_Capacity = re_Capacity a, rer_Redundancy = re_Redundancy a,
            rer_Ordered = (re_Ordered a = Some True)\<rparr>"
proof -
  have "int64 (re_Capacity a)" "int64 (re_Redundancy a)"
    using v by (auto simp: validateResilientEcmp_def int64_def split: res.splits if_splits)
  note row = ecmp_line_back [OF this]
  show ?thesis
    unfolding parseResilientEcmpLines_def ecmp_lines_only [OF s [unfolded shows_ecmp_def ecmp_cmd_rest]] row by simp
qed

text \<open>
  Without an explicit family the reader looks for the IPv4 keyword: the line of an IPv6 prefix,
  which the resource itself applied, is not found.
\<close>

lemma ecmp_lines_none:
  "\<forall>l\<in>set ls. CutPrefix l (ecmp_header f p @ '' '') = None \<Longrightarrow> ecmp_lines p f ls = None"
  by (induction ls) simp_all

lemma ecmp_family_lost:
  assumes "prints noise out (buildResilientEcmpCmds a ''ipv6'' False)"
  shows "parseResilientEcmpLines out p ''ipv4'' = None"
  unfolding parseResilientEcmpLines_def
proof (rule ecmp_lines_none, rule ballI)
  fix l assume l: "l \<in> set (trimmed_lines out)"
  show "CutPrefix l (ecmp_header ''ipv4'' p @ '' '') = None"
  proof (cases "noise l")
    case True
    then show ?thesis by (auto simp: noise_def ecmp_header_def resilientEcmpKeyword_def)
  next
    case False
    with l have "l \<in> set (significant noise (trimmed_lines out))" by (simp add: significant_def)
    then have "l \<in> set (significant noise (buildResilientEcmpCmds a ''ipv6'' False))"
      using assms by (simp only: prints_def)
    then have "l \<in> set (buildResilientEcmpCmds a ''ipv6'' False)" by (simp add: significant_def)
    then show ?thesis unfolding ecmp_cmd_rest using ecmp_keyword_differs by simp
  qed
qed

end
