(* ===== verification/Subinterface.thy ===== *)
theory Subinterface
  imports L3_Common
begin

text \<open>
  \<open>internal/resources/l3/subinterface.go\<close>: a routed subinterface of an Ethernet or Port-Channel
  interface, with its encapsulation VLAN and BFD timers.
\<close>

definition ErrSubinterfaceNameInvalid :: error where
  [errs]: "ErrSubinterfaceNameInvalid =
     Sentinel ''subinterface name must be Ethernet<N>[/<sub>...].<id> or Port-Channel<N>.<id>''"
definition ErrSubinterfaceVlanOutOfRange :: error where
  [errs]: "ErrSubinterfaceVlanOutOfRange =
     Sentinel ''encapsulationVlan must be in 1..4094''"
definition ErrSubinterfaceBadIPv4 :: error where
  [errs]: "ErrSubinterfaceBadIPv4 =
     Sentinel ''subinterface ipAddress must be a valid IPv4 CIDR''"
definition ErrSubinterfaceBadIPv6 :: error where
  [errs]: "ErrSubinterfaceBadIPv6 =
     Sentinel ''subinterface ipv6Address must be a valid IPv6 CIDR''"
definition ErrSubinterfaceBfdIncomplete :: error where
  [errs]: "ErrSubinterfaceBfdIncomplete =
     Sentinel ''subinterface bfd requires interval, minRx, and multiplier together''"
definition ErrSubinterfaceBfdMultiplier :: error where
  [errs]: "ErrSubinterfaceBfdMultiplier =
     Sentinel ''subinterface bfd multiplier must be in 3..50''"
definition ErrSubinterfaceBfdInterval :: error where
  [errs]: "ErrSubinterfaceBfdInterval =
     Sentinel ''subinterface bfd interval and minRx must be > 0 ms''"

text \<open>\<open>^(Ethernet|Port-Channel)\d+(\/\d+)*\.\d+$\<close>\<close>

definition subinterfaceNameRe :: "string \<Rightarrow> bool" where
  "subinterfaceNameRe s \<longleftrightarrow>
     after s ''Ethernet'' (\<lambda>r. dot_group (slash_groups r)) \<or> after s ''Port-Channel'' (\<lambda>r. dot_group (slash_groups r))"

record SubinterfaceBfd =
  sb_Interval :: int
  sb_MinRx :: int
  sb_Multiplier :: int

record SubinterfaceArgs = overrides +
  su_Name :: string
  su_EncapsulationVlan :: int
  su_Description :: "string option"
  su_IPAddress :: "string option"
  su_IPv6Address :: "string option"
  su_Vrf :: "string option"
  su_Mtu :: "int option"
  su_Shutdown :: "bool option"
  su_Bfd :: "SubinterfaceBfd option"

type_synonym SubinterfaceState = SubinterfaceArgs

definition sub_bfd :: "SubinterfaceBfd \<Rightarrow> error option" where
  "sub_bfd b =
     (if sb_Interval b \<le> 0 \<or> sb_MinRx b \<le> 0
        then Some (Got ErrSubinterfaceBfdInterval [DInt (sb_Interval b), DInt (sb_MinRx b)])
      else if sb_Multiplier b < 3 \<or> sb_Multiplier b > 50
        then Some (Got ErrSubinterfaceBfdMultiplier [DInt (sb_Multiplier b)])
      else None)"

definition validateSubinterface :: "SubinterfaceArgs \<Rightarrow> error option" where
  "validateSubinterface args =
     (if \<not> subinterfaceNameRe (su_Name args) then Some (Got ErrSubinterfaceNameInvalid [DStr (su_Name args)])
      else if su_EncapsulationVlan args < 1 \<or> su_EncapsulationVlan args > 4094
        then Some (Got ErrSubinterfaceVlanOutOfRange [DInt (su_EncapsulationVlan args)])
      else first_error
        [opt_err (\<lambda>s. if ipv4_cidr s then None else Some (Got ErrSubinterfaceBadIPv4 [DStr s])) (nonempty (su_IPAddress args)),
         opt_err (\<lambda>s. if ipv6_cidr s then None else Some (Got ErrSubinterfaceBadIPv6 [DStr s])) (nonempty (su_IPv6Address args)),
         opt_err sub_bfd (su_Bfd args)])"

definition subinterfaceID :: "string \<Rightarrow> string" where
  "subinterfaceID name = ''subinterface/'' @ name"

definition sanitizeSessionName :: "string \<Rightarrow> string" where
  "sanitizeSessionName name = replace_bytes [(CHR ''.'', CHR ''-'')] name"

definition sub_bfd_cmd :: "SubinterfaceBfd \<Rightarrow> string" where
  "sub_bfd_cmd b =
     ''bfd interval '' @ Itoa (sb_Interval b) @ '' min-rx '' @ Itoa (sb_MinRx b)
     @ '' multiplier '' @ Itoa (sb_Multiplier b)"

definition buildSubinterfaceCmds :: "SubinterfaceArgs \<Rightarrow> bool \<Rightarrow> string list" where
  "buildSubinterfaceCmds args remove =
     (if remove then [''no interface '' @ su_Name args]
      else [''interface '' @ su_Name args, ''encapsulation dot1q vlan '' @ Itoa (su_EncapsulationVlan args)]
           @ line_opt (\<lambda>v. ''description '' @ v) (nonempty (su_Description args))
           @ line_opt (\<lambda>v. ''vrf '' @ v) (nonempty (su_Vrf args))
           @ line_opt (\<lambda>v. ''ip address '' @ v) (nonempty (su_IPAddress args))
           @ line_opt (\<lambda>v. ''ipv6 address '' @ v) (nonempty (su_IPv6Address args))
           @ line_opt (\<lambda>v. ''mtu '' @ Itoa v) (positive (su_Mtu args))
           @ line_opt sub_bfd_cmd (su_Bfd args)
           @ line_toggle ''shutdown'' ''no shutdown'' (su_Shutdown args = Some True))"

definition applySubinterface :: "('n, 'w) ctx \<Rightarrow> SubinterfaceArgs \<Rightarrow> bool \<Rightarrow> 'w \<Rightarrow> unit res \<times> 'w" where
  "applySubinterface C args remove w =
     apply_session C args (''subif-'' @ sanitizeSessionName (su_Name args)) (buildSubinterfaceCmds args remove) w"

record subinterfaceRow =
  sur_EncapsulationVlan :: int
  sur_Description :: string
  sur_Vrf :: string
  sur_IPAddress :: string
  sur_IPv6Address :: string
  sur_Mtu :: int
  sur_Shutdown :: bool
  sur_Bfd :: "SubinterfaceBfd option"

definition zero_subinterfaceRow :: subinterfaceRow where
  "zero_subinterfaceRow =
     \<lparr>sur_EncapsulationVlan = 0, sur_Description = [], sur_Vrf = [], sur_IPAddress = [], sur_IPv6Address = [],
      sur_Mtu = 0, sur_Shutdown = False, sur_Bfd = None\<rparr>"

definition parseSubBfdLine :: "string \<Rightarrow> SubinterfaceBfd option" where
  "parseSubBfdLine line =
     (case timer_line line (0, 0, 0) of (i, m, n) \<Rightarrow>
        if i = 0 \<or> m = 0 \<or> n = 0 then None
        else Some \<lparr>sb_Interval = i, sb_MinRx = m, sb_Multiplier = n\<rparr>)"

definition subinterface_line :: "string \<Rightarrow> subinterfaceRow \<Rightarrow> subinterfaceRow" where
  "subinterface_line line row =
     (if HasPrefix line ''encapsulation dot1q vlan '' then
        row\<lparr>sur_EncapsulationVlan :=
          atoi_or (sur_EncapsulationVlan row) (TrimPrefix line ''encapsulation dot1q vlan '')\<rparr>
      else if HasPrefix line ''description '' then row\<lparr>sur_Description := TrimPrefix line ''description ''\<rparr>
      else if HasPrefix line ''vrf '' then row\<lparr>sur_Vrf := TrimPrefix line ''vrf ''\<rparr>
      else if HasPrefix line ''ipv6 address '' then row\<lparr>sur_IPv6Address := TrimPrefix line ''ipv6 address ''\<rparr>
      else if HasPrefix line ''ip address '' then row\<lparr>sur_IPAddress := TrimPrefix line ''ip address ''\<rparr>
      else if HasPrefix line ''mtu '' then row\<lparr>sur_Mtu := atoi_or (sur_Mtu row) (TrimPrefix line ''mtu '')\<rparr>
      else if line = ''shutdown'' then row\<lparr>sur_Shutdown := True\<rparr>
      else if HasPrefix line ''bfd interval '' then row\<lparr>sur_Bfd := parseSubBfdLine line\<rparr>
      else row)"

text \<open>Without the header the row is zero, and the resource is still found.\<close>

definition parseSubinterfaceConfig :: "string \<Rightarrow> string \<Rightarrow> subinterfaceRow" where
  "parseSubinterfaceConfig out name =
     (if \<not> Contains out (''interface '' @ name) then zero_subinterfaceRow
      else scan subinterface_line out zero_subinterfaceRow)"

definition readSubinterface :: "('n, 'w) ctx \<Rightarrow> 'n client \<Rightarrow> string \<Rightarrow> 'w \<Rightarrow> subinterfaceRow option res \<times> 'w" where
  "readSubinterface C cli name =
     read_text C cli (''show running-config interfaces '' @ name) (\<lambda>out. Ok (Some (parseSubinterfaceConfig out name)))"

definition fillSubinterface :: "subinterfaceRow \<Rightarrow> SubinterfaceState \<Rightarrow> SubinterfaceState" where
  "fillSubinterface r s =
     s\<lparr>su_EncapsulationVlan := (if sur_EncapsulationVlan r > 0 then sur_EncapsulationVlan r else su_EncapsulationVlan s),
       su_Description := set_str (sur_Description r) (su_Description s),
       su_Vrf := set_str (sur_Vrf r) (su_Vrf s),
       su_IPAddress := set_str (sur_IPAddress r) (su_IPAddress s),
       su_IPv6Address := set_str (sur_IPv6Address r) (su_IPv6Address s),
       su_Mtu := set_pos (sur_Mtu r) (su_Mtu s),
       su_Shutdown := set_true (sur_Shutdown r) (su_Shutdown s),
       su_Bfd := set_some (sur_Bfd r) (su_Bfd s)\<rparr>"

definition Subinterface_Create ::
  "('n, 'w) ctx \<Rightarrow> SubinterfaceArgs request \<Rightarrow> 'w \<Rightarrow> SubinterfaceState created res \<times> 'w" where
  "Subinterface_Create C =
     crud_create validateSubinterface (\<lambda>a. subinterfaceID (su_Name a)) (applySubinterface C)
       (\<lambda>a. ''create subinterface '' @ su_Name a)"

definition Subinterface_Read ::
  "('n, 'w) ctx \<Rightarrow> SubinterfaceArgs \<Rightarrow> 'w \<Rightarrow> (SubinterfaceArgs, SubinterfaceState) read_response option res \<times> 'w" where
  "Subinterface_Read C =
     crud_read (newClient C) (\<lambda>cli a. readSubinterface C cli (su_Name a)) (\<lambda>a. subinterfaceID (su_Name a)) fillSubinterface"

definition Subinterface_Update :: "('n, 'w) ctx \<Rightarrow> SubinterfaceArgs request \<Rightarrow> 'w \<Rightarrow> SubinterfaceState res \<times> 'w" where
  "Subinterface_Update C =
     crud_update validateSubinterface (applySubinterface C)
       (\<lambda>a. ''update subinterface '' @ su_Name a)"

definition Subinterface_Delete :: "('n, 'w) ctx \<Rightarrow> SubinterfaceState \<Rightarrow> 'w \<Rightarrow> unit res \<times> 'w" where
  "Subinterface_Delete C =
     crud_delete (applySubinterface C)
       (\<lambda>a. ''delete subinterface '' @ su_Name a)"

interpretation subinterface_mgr: session_managed C validateSubinterface "\<lambda>a. subinterfaceID (su_Name a)"
  "applySubinterface C" "\<lambda>a. ''subif-'' @ sanitizeSessionName (su_Name a)" buildSubinterfaceCmds
  by unfold_locales (simp add: applySubinterface_def)

section \<open>Reading back\<close>

definition subinterface_idle :: "string \<Rightarrow> bool" where
  "subinterface_idle l \<longleftrightarrow> l \<in> {[], ''!'', ''no shutdown''}"

interpretation su_scan: line_scanner subinterface_line subinterface_idle
proof (unfold_locales, goal_cases)
  case (1 l r)
  then show ?case unfolding subinterface_idle_def by (elim insertE emptyE) (simp_all add: subinterface_line_def)
next
  case (2 l)
  then show ?case by (auto simp: subinterface_idle_def noise_def)
qed

interpretation su_vlan: attribute subinterface_line "\<lambda>d. ''encapsulation dot1q vlan '' @ Itoa d" int64
  sur_EncapsulationVlan "\<lambda>v r. r\<lparr>sur_EncapsulationVlan := v\<rparr>"
  by unfold_locales (simp_all add: subinterface_line_def)
interpretation su_description: attribute subinterface_line "\<lambda>d. ''description '' @ d" "\<lambda>_. True"
  sur_Description "\<lambda>v r. r\<lparr>sur_Description := v\<rparr>"
  by unfold_locales (simp_all add: subinterface_line_def)
interpretation su_vrf: attribute subinterface_line "\<lambda>d. ''vrf '' @ d" "\<lambda>_. True"
  sur_Vrf "\<lambda>v r. r\<lparr>sur_Vrf := v\<rparr>"
  by unfold_locales (simp_all add: subinterface_line_def)
interpretation su_ip: attribute subinterface_line "\<lambda>d. ''ip address '' @ d" "\<lambda>_. True"
  sur_IPAddress "\<lambda>v r. r\<lparr>sur_IPAddress := v\<rparr>"
  by unfold_locales (simp_all add: subinterface_line_def)
interpretation su_ip6: attribute subinterface_line "\<lambda>d. ''ipv6 address '' @ d" "\<lambda>_. True"
  sur_IPv6Address "\<lambda>v r. r\<lparr>sur_IPv6Address := v\<rparr>"
  by unfold_locales (simp_all add: subinterface_line_def)
interpretation su_mtu: attribute subinterface_line "\<lambda>d. ''mtu '' @ Itoa d" int64
  sur_Mtu "\<lambda>v r. r\<lparr>sur_Mtu := v\<rparr>"
  by unfold_locales (simp_all add: subinterface_line_def)
interpretation su_shutdown: flag subinterface_line "''shutdown''" sur_Shutdown "\<lambda>b r. r\<lparr>sur_Shutdown := b\<rparr>"
  by unfold_locales (simp_all add: subinterface_line_def)

definition sub_bfd_readable :: "SubinterfaceBfd \<Rightarrow> bool" where
  "sub_bfd_readable b \<longleftrightarrow> sub_bfd b = None \<and> int64 (sb_Interval b) \<and> int64 (sb_MinRx b)"

lemma sub_bfd_line:
  assumes "sub_bfd_readable b"
  shows "parseSubBfdLine (sub_bfd_cmd b) = Some b"
proof -
  have "int64 (sb_Interval b)" "int64 (sb_MinRx b)" "int64 (sb_Multiplier b)"
    and p: "sb_Interval b \<noteq> 0" "sb_MinRx b \<noteq> 0" "sb_Multiplier b \<noteq> 0"
    using assms by (auto simp: sub_bfd_readable_def sub_bfd_def int64_def split: if_splits)
  then have "timer_line (Join ([''bfd''] @ timer_words (sb_Interval b) (sb_MinRx b) (sb_Multiplier b) @ []) '' '') t
    = (sb_Interval b, sb_MinRx b, sb_Multiplier b)" for t by (intro timer_line_words) simp_all
  moreover have "sub_bfd_cmd b = Join ([''bfd''] @ timer_words (sb_Interval b) (sb_MinRx b) (sb_Multiplier b) @ []) '' ''"
    by (simp add: sub_bfd_cmd_def timer_words_def)
  ultimately show ?thesis using p by (simp add: parseSubBfdLine_def del: Join.simps)
qed

definition canonical_subinterface :: "SubinterfaceArgs \<Rightarrow> bool" where
  "canonical_subinterface a \<longleftrightarrow>
     pred_option int64 (su_Mtu a) \<and> pred_option (\<lambda>b. int64 (sb_Interval b) \<and> int64 (sb_MinRx b)) (su_Bfd a)"

lemma subinterface_quiet:
  "subinterface_line (''interface '' @ n) r = r" "subinterface_line ''no shutdown'' r = r"
  by (simp_all add: subinterface_line_def)

interpretation su_bfd: pointer subinterface_line sub_bfd_cmd sub_bfd_readable
  sur_Bfd "\<lambda>v r. r\<lparr>sur_Bfd := v\<rparr>"
proof (unfold_locales, goal_cases)
  case (1 b r)
  have "subinterface_line (sub_bfd_cmd b) r = r\<lparr>sur_Bfd := parseSubBfdLine (sub_bfd_cmd b)\<rparr>"
    unfolding subinterface_line_def by (simp add: sub_bfd_cmd_def)
  with sub_bfd_line [OF 1] show ?case by simp
qed simp

lemma subinterface_header:
  "prints subinterface_idle out (buildSubinterfaceCmds a False) \<Longrightarrow> Contains out (''interface '' @ su_Name a)"
  by (erule prints_Contains) (simp_all add: buildSubinterfaceCmds_def subinterface_idle_def)

lemma subinterface_roundtrip:
  assumes v: "validateSubinterface a = None" and c: "canonical_subinterface a"
    and p: "prints subinterface_idle out (buildSubinterfaceCmds a False)"
  shows "fillSubinterface (parseSubinterfaceConfig out (su_Name a)) a = a"
proof -
  have vl: "int64 (su_EncapsulationVlan a)" "0 < su_EncapsulationVlan a"
    and b: "pred_option sub_bfd_readable (su_Bfd a)"
    using v [unfolded validateSubinterface_def check_chain first_error_None opt_err_None] c
    by (cases "su_Bfd a"; auto simp: canonical_subinterface_def int64_def sub_bfd_readable_def opt_err_def)+
  have m: "pred_option int64 (positive (su_Mtu a))" using c by (simp add: canonical_subinterface_def positive_int64)
  have "scan subinterface_line out zero_subinterfaceRow = zero_subinterfaceRow
      \<lparr>sur_EncapsulationVlan := su_EncapsulationVlan a, sur_Description := or_empty (nonempty (su_Description a)),
       sur_Vrf := or_empty (nonempty (su_Vrf a)), sur_IPAddress := or_empty (nonempty (su_IPAddress a)),
       sur_IPv6Address := or_empty (nonempty (su_IPv6Address a)), sur_Mtu := or_zero (positive (su_Mtu a)),
       sur_Bfd := su_Bfd a, sur_Shutdown := (su_Shutdown a = Some True)\<rparr>"
    unfolding su_scan.scan_prints [OF p] buildSubinterfaceCmds_def if_False fold_append comp_def
      su_vlan.line [OF vl(1)] su_shutdown.fold_toggle [OF subinterface_quiet(2)] fold_simps subinterface_quiet(1)
      su_description.fold_attr [OF any_readable] su_vrf.fold_attr [OF any_readable]
      su_ip.fold_attr [OF any_readable] su_ip6.fold_attr [OF any_readable] su_mtu.fold_attr [OF m] su_bfd.fold_pointer [OF b]
    by (simp add: zero_subinterfaceRow_def)
  with subinterface_header [OF p] vl(2) show ?thesis
    by (simp add: parseSubinterfaceConfig_def fillSubinterface_def)
qed

interpretation subinterface_rb: readback validateSubinterface canonical_subinterface subinterface_idle
  "\<lambda>a. buildSubinterfaceCmds a False" "\<lambda>a out. Ok (Some (parseSubinterfaceConfig out (su_Name a)))" fillSubinterface
proof (unfold_locales, goal_cases)
  case (1 a out)
  then show ?case using subinterface_roundtrip by blast
next
  case (2 a out)
  then show ?case using subinterface_header Contains_nonempty by blast
qed

text \<open>
  A text that does not have the interface is read as an unchanged resource, not as a missing
  one.
\<close>

lemma subinterface_never_missing:
  assumes "\<not> Contains out (''interface '' @ su_Name a)"
  shows "fillSubinterface (parseSubinterfaceConfig out (su_Name a)) a = a"
  using assms by (simp add: parseSubinterfaceConfig_def fillSubinterface_def zero_subinterfaceRow_def set_true_def)

end
