(* ===== verification/Gre_Tunnel.thy ===== *)
theory Gre_Tunnel
  imports L3_Common
begin

text \<open>\<open>internal/resources/l3/gre_tunnel.go\<close>: a GRE tunnel interface.\<close>

definition ErrGreTunnelIDRange :: error where
  [errs]: "ErrGreTunnelIDRange = Sentinel ''greTunnel id must be in 0..65535''"
definition ErrGreTunnelModeInvalid :: error where
  [errs]: "ErrGreTunnelModeInvalid =
     Sentinel ''greTunnel mode must be gre | ipsec (mpls-gre / mpls-over-gre deferred to v1)''"
definition ErrGreTunnelSourceBadIPv4 :: error where
  [errs]: "ErrGreTunnelSourceBadIPv4 =
     Sentinel ''greTunnel source must be a valid IPv4 address''"
definition ErrGreTunnelDestBadIPv4 :: error where
  [errs]: "ErrGreTunnelDestBadIPv4 =
     Sentinel ''greTunnel destination must be a valid IPv4 address''"
definition ErrGreTunnelTosRange :: error where
  [errs]: "ErrGreTunnelTosRange = Sentinel ''greTunnel tos must be in 0..255''"
definition ErrGreTunnelKeyRange :: error where
  [errs]: "ErrGreTunnelKeyRange = Sentinel ''greTunnel key must be in 0..4294967295''"
definition ErrGreTunnelMssRange :: error where
  [errs]: "ErrGreTunnelMssRange = Sentinel ''greTunnel mssCeiling must be > 0''"
definition ErrGreTunnelMtuRange :: error where
  [errs]: "ErrGreTunnelMtuRange = Sentinel ''greTunnel mtu must be in 68..9214''"
definition ErrGreTunnelIPCidrInvalid :: error where
  [errs]: "ErrGreTunnelIPCidrInvalid =
     Sentinel ''greTunnel ipAddress must be a valid IPv4 CIDR (A.B.C.D/M)''"

definition validGreTunnelModes :: "string set" where
  "validGreTunnelModes = {''gre'', ''ipsec''}"

record GreTunnelArgs = overrides +
  gr_Id :: int
  gr_Description :: "string option"
  gr_Mode :: "string option"
  gr_Source :: "string option"
  gr_Destination :: "string option"
  gr_UnderlayVrf :: "string option"
  gr_Tos :: "int option"
  gr_Key :: "int option"
  gr_MssCeiling :: "int option"
  gr_PathMtuDiscovery :: "bool option"
  gr_DontFragment :: "bool option"
  gr_IpAddress :: "string option"
  gr_Mtu :: "int option"
  gr_Vrf :: "string option"
  gr_Shutdown :: "bool option"

type_synonym GreTunnelState = GreTunnelArgs

text \<open>A number that must lie in a range.\<close>

definition in_bounds :: "error \<Rightarrow> int \<Rightarrow> int \<Rightarrow> int \<Rightarrow> error option" where
  "in_bounds e lo hi v = (if v < lo \<or> v > hi then Some (Got e [DInt v]) else None)"

definition validateGreTunnel :: "GreTunnelArgs \<Rightarrow> error option" where
  "validateGreTunnel args =
     first_error
       [in_bounds ErrGreTunnelIDRange 0 65535 (gr_Id args),
        opt_err (\<lambda>m. if m \<in> validGreTunnelModes then None else Some (Got ErrGreTunnelModeInvalid [DStr m]))
          (nonempty (gr_Mode args)),
        opt_err (\<lambda>s. if ipv4_addr s then None else Some (Got ErrGreTunnelSourceBadIPv4 [DStr s])) (nonempty (gr_Source args)),
        opt_err (\<lambda>s. if ipv4_addr s then None else Some (Got ErrGreTunnelDestBadIPv4 [DStr s])) (nonempty (gr_Destination args)),
        opt_err (in_bounds ErrGreTunnelTosRange 0 255) (gr_Tos args),
        opt_err (in_bounds ErrGreTunnelKeyRange 0 4294967295) (gr_Key args),
        opt_err (\<lambda>v. if v \<le> 0 then Some (Got ErrGreTunnelMssRange [DInt v]) else None) (gr_MssCeiling args),
        opt_err (in_bounds ErrGreTunnelMtuRange 68 9214) (gr_Mtu args),
        opt_err (\<lambda>s. if ipv4_cidr s then None else Some (Got ErrGreTunnelIPCidrInvalid [DStr s])) (nonempty (gr_IpAddress args))]"

definition greTunnelID :: "int \<Rightarrow> string" where
  "greTunnelID n = ''gre-tunnel/'' @ Itoa n"

definition gre_header :: "int \<Rightarrow> string" where
  "gre_header n = ''interface Tunnel'' @ Itoa n"

definition appendGreTunnelMeta :: "GreTunnelArgs \<Rightarrow> string list" where
  "appendGreTunnelMeta args =
     line_opt (\<lambda>v. ''description '' @ v) (nonempty (gr_Description args))
     @ line_opt (\<lambda>v. ''mtu '' @ Itoa v) (gr_Mtu args)
     @ line_opt (\<lambda>v. ''vrf forwarding '' @ v) (nonempty (gr_Vrf args))"

definition appendGreTunnelOverlay :: "GreTunnelArgs \<Rightarrow> string list" where
  "appendGreTunnelOverlay args = line_opt (\<lambda>v. ''ip address '' @ v) (nonempty (gr_IpAddress args))"

definition appendGreTunnelEncap :: "GreTunnelArgs \<Rightarrow> string list" where
  "appendGreTunnelEncap args =
     line_opt (\<lambda>v. ''tunnel mode '' @ v) (nonempty (gr_Mode args))
     @ line_opt (\<lambda>v. ''tunnel source '' @ v) (nonempty (gr_Source args))
     @ line_opt (\<lambda>v. ''tunnel destination '' @ v) (nonempty (gr_Destination args))
     @ line_opt (\<lambda>v. ''tunnel underlay vrf '' @ v) (nonempty (gr_UnderlayVrf args))
     @ line_opt (\<lambda>v. ''tunnel tos '' @ Itoa v) (gr_Tos args)
     @ line_opt (\<lambda>v. ''tunnel key '' @ Itoa v) (gr_Key args)
     @ line_opt (\<lambda>v. ''tunnel mss ceiling '' @ Itoa v) (gr_MssCeiling args)
     @ line_if ''tunnel path-mtu-discovery'' (gr_PathMtuDiscovery args = Some True)
     @ line_if ''tunnel dont-fragment'' (gr_DontFragment args = Some True)"

definition appendGreTunnelAdmin :: "GreTunnelArgs \<Rightarrow> string list" where
  "appendGreTunnelAdmin args = shutdown_cmds (gr_Shutdown args)"

definition buildGreTunnelCmds :: "GreTunnelArgs \<Rightarrow> bool \<Rightarrow> string list" where
  "buildGreTunnelCmds args remove =
     (if remove then [''no '' @ gre_header (gr_Id args)]
      else [gre_header (gr_Id args)] @ appendGreTunnelMeta args @ appendGreTunnelOverlay args
           @ appendGreTunnelEncap args @ appendGreTunnelAdmin args)"

definition applyGreTunnel :: "('n, 'w) ctx \<Rightarrow> GreTunnelArgs \<Rightarrow> bool \<Rightarrow> 'w \<Rightarrow> unit res \<times> 'w" where
  "applyGreTunnel C args remove w =
     apply_session C args (''tunnel-'' @ Itoa (gr_Id args)) (buildGreTunnelCmds args remove) w"

record greTunnelRow =
  grr_Description :: string
  grr_Mode :: string
  grr_Source :: string
  grr_Destination :: string
  grr_UnderlayVrf :: string
  grr_Tos :: "int option"
  grr_Key :: "int option"
  grr_MssCeiling :: "int option"
  grr_PathMtuDisc :: bool
  grr_DontFrag :: bool
  grr_IpAddress :: string
  grr_Mtu :: int
  grr_Vrf :: string
  grr_Shutdown :: "bool option"

definition zero_greTunnelRow :: greTunnelRow where
  "zero_greTunnelRow =
     \<lparr>grr_Description = [], grr_Mode = [], grr_Source = [], grr_Destination = [], grr_UnderlayVrf = [],
      grr_Tos = None, grr_Key = None, grr_MssCeiling = None, grr_PathMtuDisc = False, grr_DontFrag = False,
      grr_IpAddress = [], grr_Mtu = 0, grr_Vrf = [], grr_Shutdown = None\<rparr>"

definition applyGreTunnelLine :: "string \<Rightarrow> greTunnelRow \<Rightarrow> greTunnelRow" where
  "applyGreTunnelLine line row =
     (if HasPrefix line ''description '' then row\<lparr>grr_Description := TrimPrefix line ''description ''\<rparr>
      else if HasPrefix line ''mtu '' then row\<lparr>grr_Mtu := atoi_or (grr_Mtu row) (TrimPrefix line ''mtu '')\<rparr>
      else if HasPrefix line ''vrf forwarding '' then row\<lparr>grr_Vrf := TrimPrefix line ''vrf forwarding ''\<rparr>
      else if HasPrefix line ''ip address '' then row\<lparr>grr_IpAddress := TrimPrefix line ''ip address ''\<rparr>
      else if HasPrefix line ''tunnel mode '' then row\<lparr>grr_Mode := TrimPrefix line ''tunnel mode ''\<rparr>
      else if HasPrefix line ''tunnel source '' then row\<lparr>grr_Source := TrimPrefix line ''tunnel source ''\<rparr>
      else if HasPrefix line ''tunnel destination '' then
        row\<lparr>grr_Destination := TrimPrefix line ''tunnel destination ''\<rparr>
      else if HasPrefix line ''tunnel underlay vrf '' then
        row\<lparr>grr_UnderlayVrf := TrimPrefix line ''tunnel underlay vrf ''\<rparr>
      else if HasPrefix line ''tunnel tos '' then row\<lparr>grr_Tos := atoi_ptr (grr_Tos row) (TrimPrefix line ''tunnel tos '')\<rparr>
      else if HasPrefix line ''tunnel key '' then row\<lparr>grr_Key := atoi_ptr (grr_Key row) (TrimPrefix line ''tunnel key '')\<rparr>
      else if HasPrefix line ''tunnel mss ceiling '' then
        row\<lparr>grr_MssCeiling := atoi_ptr (grr_MssCeiling row) (TrimPrefix line ''tunnel mss ceiling '')\<rparr>
      else if line = ''tunnel path-mtu-discovery'' then row\<lparr>grr_PathMtuDisc := True\<rparr>
      else if line = ''tunnel dont-fragment'' then row\<lparr>grr_DontFrag := True\<rparr>
      else if line = ''shutdown'' then row\<lparr>grr_Shutdown := Some True\<rparr>
      else if line = ''no shutdown'' then row\<lparr>grr_Shutdown := Some False\<rparr>
      else row)"

definition parseGreTunnelConfig :: "string \<Rightarrow> int \<Rightarrow> greTunnelRow option" where
  "parseGreTunnelConfig out n =
     (if \<not> Contains out (gre_header n) then None else Some (scan applyGreTunnelLine out zero_greTunnelRow))"

definition readGreTunnel :: "('n, 'w) ctx \<Rightarrow> 'n client \<Rightarrow> int \<Rightarrow> 'w \<Rightarrow> greTunnelRow option res \<times> 'w" where
  "readGreTunnel C cli n =
     read_text C cli (''show running-config interfaces Tunnel'' @ Itoa n) (\<lambda>out. Ok (parseGreTunnelConfig out n))"

definition fillGreTunnel :: "greTunnelRow \<Rightarrow> GreTunnelState \<Rightarrow> GreTunnelState" where
  "fillGreTunnel r s =
     s\<lparr>gr_Description := set_str (grr_Description r) (gr_Description s),
       gr_Mode := set_str (grr_Mode r) (gr_Mode s),
       gr_Source := set_str (grr_Source r) (gr_Source s),
       gr_Destination := set_str (grr_Destination r) (gr_Destination s),
       gr_UnderlayVrf := set_str (grr_UnderlayVrf r) (gr_UnderlayVrf s),
       gr_Tos := set_some (grr_Tos r) (gr_Tos s),
       gr_Key := set_some (grr_Key r) (gr_Key s),
       gr_MssCeiling := set_some (grr_MssCeiling r) (gr_MssCeiling s),
       gr_PathMtuDiscovery := set_true (grr_PathMtuDisc r) (gr_PathMtuDiscovery s),
       gr_DontFragment := set_true (grr_DontFrag r) (gr_DontFragment s),
       gr_IpAddress := set_str (grr_IpAddress r) (gr_IpAddress s),
       gr_Mtu := set_pos (grr_Mtu r) (gr_Mtu s),
       gr_Vrf := set_str (grr_Vrf r) (gr_Vrf s),
       gr_Shutdown := set_some (grr_Shutdown r) (gr_Shutdown s)\<rparr>"

definition GreTunnel_Create ::
  "('n, 'w) ctx \<Rightarrow> GreTunnelArgs request \<Rightarrow> 'w \<Rightarrow> GreTunnelState created res \<times> 'w" where
  "GreTunnel_Create C =
     crud_create validateGreTunnel (\<lambda>a. greTunnelID (gr_Id a)) (applyGreTunnel C)
       (\<lambda>a. ''create greTunnel '' @ Itoa (gr_Id a))"

definition GreTunnel_Read ::
  "('n, 'w) ctx \<Rightarrow> GreTunnelArgs \<Rightarrow> 'w \<Rightarrow> (GreTunnelArgs, GreTunnelState) read_response option res \<times> 'w" where
  "GreTunnel_Read C =
     crud_read (newClient C) (\<lambda>cli a. readGreTunnel C cli (gr_Id a)) (\<lambda>a. greTunnelID (gr_Id a)) fillGreTunnel"

definition GreTunnel_Update :: "('n, 'w) ctx \<Rightarrow> GreTunnelArgs request \<Rightarrow> 'w \<Rightarrow> GreTunnelState res \<times> 'w" where
  "GreTunnel_Update C =
     crud_update validateGreTunnel (applyGreTunnel C)
       (\<lambda>a. ''update greTunnel '' @ Itoa (gr_Id a))"

definition GreTunnel_Delete :: "('n, 'w) ctx \<Rightarrow> GreTunnelState \<Rightarrow> 'w \<Rightarrow> unit res \<times> 'w" where
  "GreTunnel_Delete C =
     crud_delete (applyGreTunnel C)
       (\<lambda>a. ''delete greTunnel '' @ Itoa (gr_Id a))"

interpretation gre_mgr: session_managed C validateGreTunnel "\<lambda>a. greTunnelID (gr_Id a)"
  "applyGreTunnel C" "\<lambda>a. ''tunnel-'' @ Itoa (gr_Id a)" buildGreTunnelCmds
  by unfold_locales (simp add: applyGreTunnel_def)

section \<open>Reading back\<close>

definition gre_idle :: "string \<Rightarrow> bool" where
  "gre_idle l \<longleftrightarrow> l \<in> {[], ''!''}"

interpretation gr_scan: line_scanner applyGreTunnelLine gre_idle
proof (unfold_locales, goal_cases)
  case (1 l r)
  then show ?case unfolding gre_idle_def by (elim insertE emptyE) (simp_all add: applyGreTunnelLine_def)
next
  case (2 l)
  then show ?case by (auto simp: gre_idle_def noise_def)
qed
interpretation gr_description: attribute applyGreTunnelLine "\<lambda>d. ''description '' @ d" "\<lambda>_. True"
  grr_Description "\<lambda>v r. r\<lparr>grr_Description := v\<rparr>"
  by unfold_locales (simp_all add: applyGreTunnelLine_def)
interpretation gr_mtu: attribute applyGreTunnelLine "\<lambda>d. ''mtu '' @ Itoa d" int64
  grr_Mtu "\<lambda>v r. r\<lparr>grr_Mtu := v\<rparr>"
  by unfold_locales (simp_all add: applyGreTunnelLine_def)
interpretation gr_vrf: attribute applyGreTunnelLine "\<lambda>d. ''vrf forwarding '' @ d" "\<lambda>_. True"
  grr_Vrf "\<lambda>v r. r\<lparr>grr_Vrf := v\<rparr>"
  by unfold_locales (simp_all add: applyGreTunnelLine_def)
interpretation gr_ip: attribute applyGreTunnelLine "\<lambda>d. ''ip address '' @ d" "\<lambda>_. True"
  grr_IpAddress "\<lambda>v r. r\<lparr>grr_IpAddress := v\<rparr>"
  by unfold_locales (simp_all add: applyGreTunnelLine_def)
interpretation gr_mode: attribute applyGreTunnelLine "\<lambda>d. ''tunnel mode '' @ d" "\<lambda>_. True"
  grr_Mode "\<lambda>v r. r\<lparr>grr_Mode := v\<rparr>"
  by unfold_locales (simp_all add: applyGreTunnelLine_def)
interpretation gr_source: attribute applyGreTunnelLine "\<lambda>d. ''tunnel source '' @ d" "\<lambda>_. True"
  grr_Source "\<lambda>v r. r\<lparr>grr_Source := v\<rparr>"
  by unfold_locales (simp_all add: applyGreTunnelLine_def)
interpretation gr_destination: attribute applyGreTunnelLine "\<lambda>d. ''tunnel destination '' @ d" "\<lambda>_. True"
  grr_Destination "\<lambda>v r. r\<lparr>grr_Destination := v\<rparr>"
  by unfold_locales (simp_all add: applyGreTunnelLine_def)
interpretation gr_underlay: attribute applyGreTunnelLine "\<lambda>d. ''tunnel underlay vrf '' @ d" "\<lambda>_. True"
  grr_UnderlayVrf "\<lambda>v r. r\<lparr>grr_UnderlayVrf := v\<rparr>"
  by unfold_locales (simp_all add: applyGreTunnelLine_def)
interpretation gr_tos: pointer applyGreTunnelLine "\<lambda>d. ''tunnel tos '' @ Itoa d" int64
  grr_Tos "\<lambda>v r. r\<lparr>grr_Tos := v\<rparr>"
  by unfold_locales (simp_all add: applyGreTunnelLine_def)
interpretation gr_key: pointer applyGreTunnelLine "\<lambda>d. ''tunnel key '' @ Itoa d" int64
  grr_Key "\<lambda>v r. r\<lparr>grr_Key := v\<rparr>"
  by unfold_locales (simp_all add: applyGreTunnelLine_def)
interpretation gr_mss: pointer applyGreTunnelLine "\<lambda>d. ''tunnel mss ceiling '' @ Itoa d" int64
  grr_MssCeiling "\<lambda>v r. r\<lparr>grr_MssCeiling := v\<rparr>"
  by unfold_locales (simp_all add: applyGreTunnelLine_def)
interpretation gr_pmtud: flag applyGreTunnelLine "''tunnel path-mtu-discovery''" grr_PathMtuDisc "\<lambda>b r. r\<lparr>grr_PathMtuDisc := b\<rparr>"
  by unfold_locales (simp_all add: applyGreTunnelLine_def)
interpretation gr_df: flag applyGreTunnelLine "''tunnel dont-fragment''" grr_DontFrag "\<lambda>b r. r\<lparr>grr_DontFrag := b\<rparr>"
  by unfold_locales (simp_all add: applyGreTunnelLine_def)
interpretation gr_shutdown: pointer applyGreTunnelLine "\<lambda>b. if b then ''shutdown'' else ''no shutdown''" "\<lambda>_. True"
  grr_Shutdown "\<lambda>v r. r\<lparr>grr_Shutdown := v\<rparr>"
  by unfold_locales (simp_all add: applyGreTunnelLine_def)

definition canonical_gre :: "GreTunnelArgs \<Rightarrow> bool" where
  "canonical_gre a \<longleftrightarrow> pred_option int64 (gr_MssCeiling a)"

lemma gre_quiet: "applyGreTunnelLine (gre_header n) r = r"
  by (simp add: applyGreTunnelLine_def gre_header_def)

lemma in_bounds_None: "in_bounds e lo hi v = None \<longleftrightarrow> lo \<le> v \<and> v \<le> hi"
  by (auto simp: in_bounds_def)

lemma opt_bounds:
  "opt_err (in_bounds e lo hi) p = None \<Longrightarrow> - 9223372036854775808 \<le> lo \<Longrightarrow> hi \<le> 9223372036854775807 \<Longrightarrow> pred_option int64 p"
  by (cases p) (auto simp: opt_err_def in_bounds_None int64_def)

lemma gre_header_shown:
  "prints gre_idle out (buildGreTunnelCmds a False) \<Longrightarrow> Contains out (gre_header (gr_Id a))"
  by (erule prints_Contains) (simp_all add: buildGreTunnelCmds_def gre_idle_def gre_header_def)

lemma gre_roundtrip:
  assumes v: "validateGreTunnel a = None" and c: "canonical_gre a"
    and p: "prints gre_idle out (buildGreTunnelCmds a False)"
  shows "\<exists>row. parseGreTunnelConfig out (gr_Id a) = Some row \<and> fillGreTunnel row a = a"
proof -
  note v' = v [unfolded validateGreTunnel_def first_error_None]
  have n: "pred_option int64 (gr_Tos a)" "pred_option int64 (gr_Key a)" "pred_option int64 (gr_Mtu a)"
    using v' by (auto intro: opt_bounds)
  have m: "pred_option int64 (gr_MssCeiling a)" using c by (simp add: canonical_gre_def)
  let ?row = "\<lparr>grr_Description = or_empty (nonempty (gr_Description a)), grr_Mode = or_empty (nonempty (gr_Mode a)),
      grr_Source = or_empty (nonempty (gr_Source a)), grr_Destination = or_empty (nonempty (gr_Destination a)),
      grr_UnderlayVrf = or_empty (nonempty (gr_UnderlayVrf a)), grr_Tos = gr_Tos a, grr_Key = gr_Key a,
      grr_MssCeiling = gr_MssCeiling a, grr_PathMtuDisc = (gr_PathMtuDiscovery a = Some True),
      grr_DontFrag = (gr_DontFragment a = Some True), grr_IpAddress = or_empty (nonempty (gr_IpAddress a)),
      grr_Mtu = or_zero (gr_Mtu a), grr_Vrf = or_empty (nonempty (gr_Vrf a)), grr_Shutdown = gr_Shutdown a\<rparr>"
  have "scan applyGreTunnelLine out zero_greTunnelRow = ?row"
    unfolding gr_scan.scan_prints [OF p] buildGreTunnelCmds_def appendGreTunnelMeta_def appendGreTunnelOverlay_def
      appendGreTunnelEncap_def appendGreTunnelAdmin_def shutdown_cmds_def line_bool_def if_False fold_append comp_def
      fold_simps gre_quiet
      gr_description.fold_attr [OF any_readable] gr_mtu.fold_attr [OF n(3)] gr_vrf.fold_attr [OF any_readable]
      gr_ip.fold_attr [OF any_readable] gr_mode.fold_attr [OF any_readable] gr_source.fold_attr [OF any_readable]
      gr_destination.fold_attr [OF any_readable] gr_underlay.fold_attr [OF any_readable]
      gr_tos.fold_pointer [OF n(1)] gr_key.fold_pointer [OF n(2)] gr_mss.fold_pointer [OF m]
      gr_pmtud.fold_flag gr_df.fold_flag gr_shutdown.fold_pointer [OF any_readable]
    by (simp add: zero_greTunnelRow_def)
  with gre_header_shown [OF p] have "parseGreTunnelConfig out (gr_Id a) = Some ?row"
    by (simp add: parseGreTunnelConfig_def)
  moreover have "fillGreTunnel ?row a = a" by (simp add: fillGreTunnel_def)
  ultimately show ?thesis by blast
qed

interpretation gre_rb: readback validateGreTunnel canonical_gre gre_idle
  "\<lambda>a. buildGreTunnelCmds a False" "\<lambda>a out. Ok (parseGreTunnelConfig out (gr_Id a))" fillGreTunnel
proof (unfold_locales, goal_cases)
  case (1 a out)
  then show ?case using gre_roundtrip by blast
next
  case (2 a out)
  moreover have "gre_header (gr_Id a) \<noteq> []" by (simp add: gre_header_def)
  ultimately show ?case using gre_header_shown Contains_nonempty by blast
qed

end
