(* ===== verification/Rpki.thy ===== *)
theory Rpki
  imports L3_Common
begin

text \<open>
  \<open>internal/resources/l3/rpki.go\<close>: an RPKI cache, a block inside the block of a BGP router.  The
  reader follows the nesting with two flags.
\<close>

definition ErrRpkiNameRequired :: error where
  [errs]: "ErrRpkiNameRequired = Sentinel ''rpki cache name is required''"
definition ErrRpkiBadName :: error where
  [errs]: "ErrRpkiBadName =
     Sentinel ''rpki cache name must match [A-Za-z][A-Za-z0-9_-]*''"
definition ErrRpkiAsnInvalid :: error where
  [errs]: "ErrRpkiAsnInvalid = Sentinel ''rpki bgpAsn must be in 1..4294967295''"
definition ErrRpkiCacheHostBadIPv4 :: error where
  [errs]: "ErrRpkiCacheHostBadIPv4 =
     Sentinel ''rpki cacheHost must be a valid IPv4 address''"
definition ErrRpkiPortOutOfRange :: error where
  [errs]: "ErrRpkiPortOutOfRange = Sentinel ''rpki port must be in 1..65535''"
definition ErrRpkiPreferenceRange :: error where
  [errs]: "ErrRpkiPreferenceRange = Sentinel ''rpki preference must be in 1..10''"
definition ErrRpkiIntervalNonPositive :: error where
  [errs]: "ErrRpkiIntervalNonPositive =
     Sentinel ''rpki refreshInterval / retryInterval / expireInterval must be > 0 seconds''"
definition ErrRpkiTransportInvalid :: error where
  [errs]: "ErrRpkiTransportInvalid =
     Sentinel (''rpki transport must be '' @ [CHR 0x27] @ ''tcp'' @ [CHR 0x27] @ '' or '' @ [CHR 0x27]
       @ ''tls'' @ [CHR 0x27] @ '' (RFC 8210 '' @ [CHR 0xC2, CHR 0xA7] @ ''4 + EOS TOI 14470 ''
       @ [CHR 0xE2, CHR 0x80, CHR 0x94]
       @ '' `ssh` was never an EOS keyword; the TOI explicitly limits to TCP and TLS)'')"

definition validRpkiTransport :: "string set" where
  "validRpkiTransport = {''tcp'', ''tls''}"

record RpkiArgs = overrides +
  rp_Name :: string
  rp_BgpAsn :: int
  rp_CacheHost :: string
  rp_Vrf :: "string option"
  rp_Port :: "int option"
  rp_Preference :: "int option"
  rp_RefreshInterval :: "int option"
  rp_RetryInterval :: "int option"
  rp_ExpireInterval :: "int option"
  rp_LocalInterface :: "string option"
  rp_Transport :: "string option"

type_synonym RpkiState = RpkiArgs

definition rpki_positive :: "int \<Rightarrow> error option" where
  "rpki_positive v = (if v \<le> 0 then Some (Got ErrRpkiIntervalNonPositive [DInt v]) else None)"

definition validateRpki :: "RpkiArgs \<Rightarrow> error option" where
  "validateRpki args =
     (if TrimSpace (rp_Name args) = [] then Some ErrRpkiNameRequired
      else if \<not> unit_name (rp_Name args) then Some (Got ErrRpkiBadName [DStr (rp_Name args)])
      else if rp_BgpAsn args < 1 \<or> rp_BgpAsn args > 4294967295 then Some (Got ErrRpkiAsnInvalid [DInt (rp_BgpAsn args)])
      else if \<not> ipv4_addr (rp_CacheHost args) then Some (Got ErrRpkiCacheHostBadIPv4 [DStr (rp_CacheHost args)])
      else first_error
        [opt_err (\<lambda>v. if v < 1 \<or> v > 65535 then Some (Got ErrRpkiPortOutOfRange [DInt v]) else None) (rp_Port args),
         opt_err (\<lambda>v. if v < 1 \<or> v > 10 then Some (Got ErrRpkiPreferenceRange [DInt v]) else None) (rp_Preference args),
         opt_err rpki_positive (rp_RefreshInterval args),
         opt_err rpki_positive (rp_RetryInterval args),
         opt_err rpki_positive (rp_ExpireInterval args),
         opt_err (\<lambda>t. if t \<in> validRpkiTransport then None else Some (Got ErrRpkiTransportInvalid [DStr t]))
           (nonempty (rp_Transport args))])"

definition rpkiID :: "int \<Rightarrow> string \<Rightarrow> string" where
  "rpkiID asn name = ''rpki/'' @ Itoa asn @ ''/'' @ name"

definition rpki_router :: "int \<Rightarrow> string" where
  "rpki_router asn = ''router bgp '' @ Itoa asn"

definition rpki_cache :: "string \<Rightarrow> string" where
  "rpki_cache name = ''rpki cache '' @ name"

definition rpki_host_cmd :: "RpkiArgs \<Rightarrow> string" where
  "rpki_host_cmd args =
     ''host '' @ rp_CacheHost args
     @ (case nonempty (rp_Vrf args) of Some v \<Rightarrow> '' vrf '' @ v | None \<Rightarrow> [])
     @ (case rp_Port args of Some p \<Rightarrow> '' port '' @ Itoa p | None \<Rightarrow> [])"

text \<open>The lines inside the block of the cache; the transport is always written out.\<close>

definition rpki_block :: "RpkiArgs \<Rightarrow> string list" where
  "rpki_block args =
     [rpki_host_cmd args]
     @ line_opt (\<lambda>v. ''preference '' @ Itoa v) (rp_Preference args)
     @ line_opt (\<lambda>v. ''refresh-interval '' @ Itoa v) (rp_RefreshInterval args)
     @ line_opt (\<lambda>v. ''retry-interval '' @ Itoa v) (rp_RetryInterval args)
     @ line_opt (\<lambda>v. ''expire-interval '' @ Itoa v) (rp_ExpireInterval args)
     @ line_opt (\<lambda>v. ''local-interface '' @ v) (nonempty (rp_LocalInterface args))
     @ [''transport '' @ opt_or ''tcp'' (nonempty (rp_Transport args))]"

definition buildRpkiCmds :: "RpkiArgs \<Rightarrow> bool \<Rightarrow> string list" where
  "buildRpkiCmds args remove =
     rpki_router (rp_BgpAsn args)
     # (if remove then [''no rpki cache '' @ rp_Name args, ''exit'']
        else [rpki_cache (rp_Name args)] @ rpki_block args @ [''exit'', ''exit''])"

definition applyRpki :: "('n, 'w) ctx \<Rightarrow> RpkiArgs \<Rightarrow> bool \<Rightarrow> 'w \<Rightarrow> unit res \<times> 'w" where
  "applyRpki C args remove w =
     apply_session C args (''rpki-'' @ Itoa (rp_BgpAsn args) @ ''-'' @ sanitizePrefixListName (rp_Name args))
       (buildRpkiCmds args remove) w"

record rpkiRow =
  rpr_CacheHost :: string
  rpr_Vrf :: string
  rpr_Port :: int
  rpr_Preference :: int
  rpr_RefreshInterval :: int
  rpr_RetryInterval :: int
  rpr_ExpireInterval :: int
  rpr_LocalInterface :: string
  rpr_Transport :: string

definition zero_rpkiRow :: rpkiRow where
  "zero_rpkiRow =
     \<lparr>rpr_CacheHost = [], rpr_Vrf = [], rpr_Port = 0, rpr_Preference = 0, rpr_RefreshInterval = 0,
      rpr_RetryInterval = 0, rpr_ExpireInterval = 0, rpr_LocalInterface = [], rpr_Transport = []\<rparr>"

definition rpki_host_token :: "string \<times> string \<Rightarrow> rpkiRow \<Rightarrow> rpkiRow" where
  "rpki_host_token kv row =
     (case kv of (k, v) \<Rightarrow>
        if k = ''vrf'' then row\<lparr>rpr_Vrf := v\<rparr>
        else if k = ''port'' then row\<lparr>rpr_Port := atoi_or (rpr_Port row) v\<rparr>
        else row)"

definition parseRpkiHostLine :: "string \<Rightarrow> rpkiRow \<Rightarrow> rpkiRow" where
  "parseRpkiHostLine rest row =
     (case Fields rest of
        [] \<Rightarrow> row
      | h # ts \<Rightarrow> fold rpki_host_token (zip ts (tl ts)) (row\<lparr>rpr_CacheHost := h\<rparr>))"

definition applyRpkiLine :: "string \<Rightarrow> rpkiRow \<Rightarrow> rpkiRow" where
  "applyRpkiLine line row =
     (if HasPrefix line ''host '' then parseRpkiHostLine (TrimPrefix line ''host '') row
      else if HasPrefix line ''preference '' then
        row\<lparr>rpr_Preference := atoi_or (rpr_Preference row) (TrimPrefix line ''preference '')\<rparr>
      else if HasPrefix line ''refresh-interval '' then
        row\<lparr>rpr_RefreshInterval := atoi_or (rpr_RefreshInterval row) (TrimPrefix line ''refresh-interval '')\<rparr>
      else if HasPrefix line ''retry-interval '' then
        row\<lparr>rpr_RetryInterval := atoi_or (rpr_RetryInterval row) (TrimPrefix line ''retry-interval '')\<rparr>
      else if HasPrefix line ''expire-interval '' then
        row\<lparr>rpr_ExpireInterval := atoi_or (rpr_ExpireInterval row) (TrimPrefix line ''expire-interval '')\<rparr>
      else if HasPrefix line ''local-interface '' then
        row\<lparr>rpr_LocalInterface := TrimPrefix line ''local-interface ''\<rparr>
      else if HasPrefix line ''transport '' then row\<lparr>rpr_Transport := TrimPrefix line ''transport ''\<rparr>
      else row)"

text \<open>The loop body: the row, and whether the line is in our router and in our cache.\<close>

definition rpki_step :: "int \<Rightarrow> string \<Rightarrow> string \<Rightarrow> rpkiRow \<times> bool \<times> bool \<Rightarrow> rpkiRow \<times> bool \<times> bool" where
  "rpki_step asn name line st =
     (case st of (row, inOurAsn, inOurCache) \<Rightarrow>
        if HasPrefix line ''router bgp '' then (row, line = rpki_router asn, False)
        else if inOurAsn \<and> HasPrefix line ''rpki cache '' then (row, inOurAsn, line = rpki_cache name)
        else if inOurAsn \<and> HasPrefix line ''vrf '' \<and> \<not> inOurCache then (row, inOurAsn, False)
        else if inOurCache then (applyRpkiLine line row, inOurAsn, inOurCache)
        else st)"

definition parseRpkiSection :: "string \<Rightarrow> int \<Rightarrow> string \<Rightarrow> rpkiRow option" where
  "parseRpkiSection out asn name =
     (case scan (rpki_step asn name) out (zero_rpkiRow, False, False) of
        (row, _, _) \<Rightarrow> if rpr_CacheHost row = [] then None else Some row)"

definition readRpki :: "('n, 'w) ctx \<Rightarrow> 'n client \<Rightarrow> int \<Rightarrow> string \<Rightarrow> 'w \<Rightarrow> rpkiRow option res \<times> 'w" where
  "readRpki C cli asn name w =
     (case show_text C cli ''show running-config | section router bgp'' w of
        (r, w') \<Rightarrow> (map_res (\<lambda>out. parseRpkiSection out asn name) r, w'))"

definition fillRpki :: "rpkiRow \<Rightarrow> RpkiState \<Rightarrow> RpkiState" where
  "fillRpki r s =
     s\<lparr>rp_CacheHost := (if rpr_CacheHost r \<noteq> [] then rpr_CacheHost r else rp_CacheHost s),
       rp_Vrf := set_str (rpr_Vrf r) (rp_Vrf s),
       rp_Port := set_pos (rpr_Port r) (rp_Port s),
       rp_Preference := set_pos (rpr_Preference r) (rp_Preference s),
       rp_RefreshInterval := set_pos (rpr_RefreshInterval r) (rp_RefreshInterval s),
       rp_RetryInterval := set_pos (rpr_RetryInterval r) (rp_RetryInterval s),
       rp_ExpireInterval := set_pos (rpr_ExpireInterval r) (rp_ExpireInterval s),
       rp_LocalInterface := set_str (rpr_LocalInterface r) (rp_LocalInterface s),
       rp_Transport := set_str (rpr_Transport r) (rp_Transport s)\<rparr>"

definition Rpki_Create ::
  "('n, 'w) ctx \<Rightarrow> RpkiArgs request \<Rightarrow> 'w \<Rightarrow> RpkiState created res \<times> 'w" where
  "Rpki_Create C =
     crud_create validateRpki (\<lambda>a. rpkiID (rp_BgpAsn a) (rp_Name a)) (applyRpki C)
       (\<lambda>a. ''create rpki cache '' @ rp_Name a)"

definition Rpki_Read ::
  "('n, 'w) ctx \<Rightarrow> RpkiArgs \<Rightarrow> 'w \<Rightarrow> (RpkiArgs, RpkiState) read_response option res \<times> 'w" where
  "Rpki_Read C =
     crud_read (newClient C) (\<lambda>cli a. readRpki C cli (rp_BgpAsn a) (rp_Name a)) (\<lambda>a. rpkiID (rp_BgpAsn a) (rp_Name a)) fillRpki"

definition Rpki_Update :: "('n, 'w) ctx \<Rightarrow> RpkiArgs request \<Rightarrow> 'w \<Rightarrow> RpkiState res \<times> 'w" where
  "Rpki_Update C =
     crud_update validateRpki (applyRpki C)
       (\<lambda>a. ''update rpki cache '' @ rp_Name a)"

definition Rpki_Delete :: "('n, 'w) ctx \<Rightarrow> RpkiState \<Rightarrow> 'w \<Rightarrow> unit res \<times> 'w" where
  "Rpki_Delete C =
     crud_delete (applyRpki C)
       (\<lambda>a. ''delete rpki cache '' @ rp_Name a)"

interpretation rpki_mgr: session_managed C validateRpki "\<lambda>a. rpkiID (rp_BgpAsn a) (rp_Name a)"
  "applyRpki C" "\<lambda>a. ''rpki-'' @ Itoa (rp_BgpAsn a) @ ''-'' @ sanitizePrefixListName (rp_Name a)" buildRpkiCmds
  by unfold_locales (simp add: applyRpki_def)

section \<open>The nesting\<close>

definition outer_line :: "string \<Rightarrow> bool" where
  "outer_line l \<longleftrightarrow> HasPrefix l ''router bgp '' \<or> HasPrefix l ''rpki cache ''"

text \<open>Inside the cache every line that opens no block goes to the row.\<close>

lemma rpki_inside:
  "\<forall>l\<in>set ls. \<not> outer_line l \<Longrightarrow>
   fold (rpki_step asn name) ls (row, True, True) = (fold applyRpkiLine ls row, True, True)"
  by (induction ls arbitrary: row) (auto simp: rpki_step_def outer_line_def)

text \<open>Outside it, in the router, none does.\<close>

lemma rpki_outside:
  "\<forall>l\<in>set ls. \<not> HasPrefix l ''router bgp '' \<and> l \<noteq> rpki_cache name \<Longrightarrow>
   fold (rpki_step asn name) ls (row, True, False) = (row, True, False)"
  by (induction ls) (auto simp: rpki_step_def)

lemma rpki_other_cache:
  assumes "zs \<noteq> [] \<Longrightarrow> HasPrefix (hd zs) ''rpki cache ''"
    and z: "\<forall>l\<in>set zs. \<not> HasPrefix l ''router bgp '' \<and> l \<noteq> rpki_cache name"
  shows "fst (fold (rpki_step asn name) zs (row, True, True)) = row"
proof (cases zs)
  case (Cons z zs')
  then have "rpki_step asn name z (row, True, True) = (row, True, False)"
    using assms by (auto simp: rpki_step_def)
  with Cons rpki_outside [of zs' name asn row] z show ?thesis by simp
qed simp

section \<open>Reading back\<close>

interpretation rp_preference: attribute applyRpkiLine "\<lambda>v. ''preference '' @ Itoa v" int64
  rpr_Preference "\<lambda>v r. r\<lparr>rpr_Preference := v\<rparr>"
  by unfold_locales (simp_all add: applyRpkiLine_def)

interpretation rp_refresh: attribute applyRpkiLine "\<lambda>v. ''refresh-interval '' @ Itoa v" int64
  rpr_RefreshInterval "\<lambda>v r. r\<lparr>rpr_RefreshInterval := v\<rparr>"
  by unfold_locales (simp_all add: applyRpkiLine_def)

interpretation rp_retry: attribute applyRpkiLine "\<lambda>v. ''retry-interval '' @ Itoa v" int64
  rpr_RetryInterval "\<lambda>v r. r\<lparr>rpr_RetryInterval := v\<rparr>"
  by unfold_locales (simp_all add: applyRpkiLine_def)

interpretation rp_expire: attribute applyRpkiLine "\<lambda>v. ''expire-interval '' @ Itoa v" int64
  rpr_ExpireInterval "\<lambda>v r. r\<lparr>rpr_ExpireInterval := v\<rparr>"
  by unfold_locales (simp_all add: applyRpkiLine_def)

interpretation rp_local: attribute applyRpkiLine "\<lambda>v. ''local-interface '' @ v" "\<lambda>_. True"
  rpr_LocalInterface "\<lambda>v r. r\<lparr>rpr_LocalInterface := v\<rparr>"
  by unfold_locales (simp_all add: applyRpkiLine_def)

interpretation rp_transport: attribute applyRpkiLine "\<lambda>v. ''transport '' @ v" "\<lambda>_. True"
  rpr_Transport "\<lambda>v r. r\<lparr>rpr_Transport := v\<rparr>"
  by unfold_locales (simp_all add: applyRpkiLine_def)

definition canonical_rpki :: "RpkiArgs \<Rightarrow> bool" where
  "canonical_rpki a \<longleftrightarrow>
     pred_option (\<lambda>v. word_string v \<and> v \<noteq> ''vrf'') (nonempty (rp_Vrf a))
     \<and> pred_option int64 (rp_RefreshInterval a) \<and> pred_option int64 (rp_RetryInterval a)
     \<and> pred_option int64 (rp_ExpireInterval a)"

lemma validateRpki_None:
  assumes "validateRpki a = None"
  shows "word_string (rp_CacheHost a)" and "pred_option (\<lambda>v. 1 \<le> v \<and> v \<le> 65535) (rp_Port a)"
    and "pred_option (\<lambda>v. 1 \<le> v \<and> v \<le> 10) (rp_Preference a)"
proof -
  note v = assms [unfolded validateRpki_def check_chain first_error_None]
  from v show "word_string (rp_CacheHost a)" by (simp add: addr_word)
  from v show "pred_option (\<lambda>v. 1 \<le> v \<and> v \<le> 65535) (rp_Port a)"
    by (cases "rp_Port a") (auto simp: opt_err_def split: if_splits)
  from v show "pred_option (\<lambda>v. 1 \<le> v \<and> v \<le> 10) (rp_Preference a)"
    by (cases "rp_Preference a") (auto simp: opt_err_def split: if_splits)
qed

lemma rpki_host_back:
  assumes h: "word_string (rp_CacheHost a)" and p: "pred_option int64 (rp_Port a)"
    and v: "pred_option (\<lambda>v. word_string v \<and> v \<noteq> ''vrf'') (nonempty (rp_Vrf a))"
  shows "applyRpkiLine (rpki_host_cmd a) zero_rpkiRow
    = zero_rpkiRow\<lparr>rpr_CacheHost := rp_CacheHost a, rpr_Vrf := or_empty (nonempty (rp_Vrf a)),
        rpr_Port := or_zero (rp_Port a)\<rparr>"
proof -
  let ?ws = "rp_CacheHost a # (case nonempty (rp_Vrf a) of Some v \<Rightarrow> [''vrf'', v] | None \<Rightarrow> [])
      @ (case rp_Port a of Some p \<Rightarrow> [''port'', Itoa p] | None \<Rightarrow> [])"
  have cmd: "rpki_host_cmd a = ''host '' @ Join ?ws '' ''"
    by (cases "nonempty (rp_Vrf a)"; cases "rp_Port a") (simp_all add: rpki_host_cmd_def del: nonempty_eq_Some nonempty_eq_None)
  have k: "word_string ''vrf''" "word_string ''port''" by (simp_all add: word_string_def space_byte_def ascii_space_def)
  have "list_all word_string ?ws"
    using h v k by (cases "nonempty (rp_Vrf a)"; cases "rp_Port a") (simp_all del: nonempty_eq_Some nonempty_eq_None)
  then have words: "Fields (Join ?ws '' '') = ?ws" by (intro Fields_Join) (auto simp: list_all_iff)
  have "Atoi ''vrf'' = None" "Atoi ''port'' = None" by code_simp+
  then have "Itoa n \<noteq> ''vrf''" "Itoa n \<noteq> ''port''" if "int64 n" for n using that by (simp_all add: Itoa_no_word)
  then have "parseRpkiHostLine (Join ?ws '' '') zero_rpkiRow
    = zero_rpkiRow\<lparr>rpr_CacheHost := rp_CacheHost a, rpr_Vrf := or_empty (nonempty (rp_Vrf a)), rpr_Port := or_zero (rp_Port a)\<rparr>"
    using v p unfolding parseRpkiHostLine_def words
    by (cases "nonempty (rp_Vrf a)"; cases "rp_Port a")
      (auto simp: rpki_host_token_def zero_rpkiRow_def atoi_or_def \<open>Atoi ''port'' = None\<close> simp del: nonempty_eq_Some nonempty_eq_None
        split: option.split)
  then show ?thesis unfolding cmd applyRpkiLine_def by simp
qed

text \<open>
  The row of a section in which our router holds our cache, before and behind other lines and
  other caches.
\<close>

definition shows_rpki :: "RpkiArgs \<Rightarrow> string \<Rightarrow> string list \<Rightarrow> string list \<Rightarrow> bool" where
  "shows_rpki a out ys zs \<longleftrightarrow>
     significant noise (trimmed_lines out)
       = [rpki_router (rp_BgpAsn a)] @ ys @ [rpki_cache (rp_Name a)] @ rpki_block a @ zs
     \<and> (\<forall>l\<in>set ys \<union> set zs. \<not> HasPrefix l ''router bgp '' \<and> l \<noteq> rpki_cache (rp_Name a))
     \<and> (zs \<noteq> [] \<longrightarrow> HasPrefix (hd zs) ''rpki cache '')"

interpretation rpki_scan: line_scanner "rpki_step asn name" noise
proof (unfold_locales, goal_cases)
  case (1 l r)
  then have "l = [] \<or> l = ''!''" by (simp only: noise_def)
  then show ?case by (elim disjE; cases r; simp add: rpki_step_def applyRpkiLine_def)
qed simp

lemma list_all_line_opt: "(\<And>v. P (f v)) \<Longrightarrow> list_all P (line_opt f p)"
  by (cases p) simp_all

lemma rpki_block_inside: "list_all (\<lambda>l. \<not> outer_line l) (rpki_block a)"
  unfolding rpki_block_def list_all_append
  by (intro conjI list_all_line_opt) (simp_all add: outer_line_def rpki_host_cmd_def)

definition shown_rpki :: "RpkiArgs \<Rightarrow> rpkiRow" where
  "shown_rpki a =
     \<lparr>rpr_CacheHost = rp_CacheHost a, rpr_Vrf = or_empty (nonempty (rp_Vrf a)), rpr_Port = or_zero (rp_Port a),
      rpr_Preference = or_zero (rp_Preference a), rpr_RefreshInterval = or_zero (rp_RefreshInterval a),
      rpr_RetryInterval = or_zero (rp_RetryInterval a), rpr_ExpireInterval = or_zero (rp_ExpireInterval a),
      rpr_LocalInterface = or_empty (nonempty (rp_LocalInterface a)),
      rpr_Transport = opt_or ''tcp'' (nonempty (rp_Transport a))\<rparr>"

lemma rpki_block_back:
  assumes v: "validateRpki a = None" and c: "canonical_rpki a"
  shows "fold applyRpkiLine (rpki_block a) zero_rpkiRow = shown_rpki a"
proof -
  note v' = validateRpki_None [OF v]
  have port: "pred_option int64 (rp_Port a)" and pref: "pred_option int64 (rp_Preference a)"
    using v'(2,3) by (auto simp: option.pred_set int64_def)
  have i: "pred_option int64 (rp_RefreshInterval a)" "pred_option int64 (rp_RetryInterval a)" "pred_option int64 (rp_ExpireInterval a)"
    and vrf: "pred_option (\<lambda>v. word_string v \<and> v \<noteq> ''vrf'') (nonempty (rp_Vrf a))"
    using c by (simp_all add: canonical_rpki_def)
  show ?thesis
    unfolding rpki_block_def fold_append comp_def fold_simps rpki_host_back [OF v'(1) port vrf]
      rp_preference.fold_attr [OF pref] rp_refresh.fold_attr [OF i(1)] rp_retry.fold_attr [OF i(2)]
      rp_expire.fold_attr [OF i(3)] rp_local.fold_attr [OF any_readable] rp_transport.line [OF TrueI]
    by (simp add: zero_rpkiRow_def shown_rpki_def)
qed

lemma rpki_section_back:
  assumes v: "validateRpki a = None" and c: "canonical_rpki a" and s: "shows_rpki a out ys zs"
  shows "parseRpkiSection out (rp_BgpAsn a) (rp_Name a) = Some (shown_rpki a)"
proof -
  let ?step = "rpki_step (rp_BgpAsn a) (rp_Name a)"
  from s have y: "\<forall>l\<in>set ys. \<not> HasPrefix l ''router bgp '' \<and> l \<noteq> rpki_cache (rp_Name a)"
    and z: "\<forall>l\<in>set zs. \<not> HasPrefix l ''router bgp '' \<and> l \<noteq> rpki_cache (rp_Name a)"
    and zh: "zs \<noteq> [] \<Longrightarrow> HasPrefix (hd zs) ''rpki cache ''" by (auto simp: shows_rpki_def)
  have b: "\<forall>l\<in>set (rpki_block a). \<not> outer_line l" using rpki_block_inside [of a] by (simp add: list_all_iff)
  have r: "?step (rpki_router (rp_BgpAsn a)) st = (fst st, True, False)" for st
    by (simp add: rpki_step_def rpki_router_def split: prod.split)
  have o: "?step (rpki_cache (rp_Name a)) (row, True, x) = (row, True, True)" for row x
    by (simp add: rpki_step_def rpki_cache_def)
  have "scan ?step out (zero_rpkiRow, False, False)
      = fold ?step (significant noise (trimmed_lines out)) (zero_rpkiRow, False, False)"
    by (simp add: scan_def rpki_scan.fold_quiet)
  also have "\<dots> = fold ?step zs (shown_rpki a, True, True)"
    using s unfolding shows_rpki_def
    by (simp only: fold_append comp_def fold_simps r o fst_conv rpki_outside [OF y] rpki_inside [OF b] rpki_block_back [OF v c])
  finally have "fst (scan ?step out (zero_rpkiRow, False, False)) = shown_rpki a"
    using rpki_other_cache [OF zh z] by simp
  moreover have "rpr_CacheHost (shown_rpki a) \<noteq> []"
    using validateRpki_None(1) [OF v] by (auto simp: shown_rpki_def word_string_def)
  ultimately show ?thesis
    by (cases "scan ?step out (zero_rpkiRow, False, False)") (simp add: parseRpkiSection_def)
qed

lemma fill_shown_rpki:
  assumes v: "validateRpki a = None" and t: "nonempty (rp_Transport a) \<noteq> None"
  shows "fillRpki (shown_rpki a) a = a"
proof -
  from t have "set_str (opt_or ''tcp'' (nonempty (rp_Transport a))) (rp_Transport a) = rp_Transport a"
    by (cases "rp_Transport a") (auto simp: set_str_def nonempty_def)
  then show ?thesis by (simp add: fillRpki_def shown_rpki_def)
qed

end
