(* ===== verification/Rcf.thy ===== *)
theory Rcf
  imports L3_Common
begin

text \<open>
  \<open>internal/resources/l3/rcf.go\<close>: a unit of routing control functions, given inline, as a file of
  the device, or as a URL the device pulls from.  Inline code is staged with the eAPI's rich
  commands, whose input is the code followed by an \<open>EOF\<close> line.
\<close>

definition ErrRcfNameRequired :: error where
  [errs]: "ErrRcfNameRequired =
     Sentinel (''rcf name is required ('' @ [CHR 0x27] @ ''default'' @ [CHR 0x27]
       @ '' for the unnamed unit, otherwise a unique unit name)'')"
definition ErrRcfBadName :: error where
  [errs]: "ErrRcfBadName =
     Sentinel (''rcf name must match [A-Za-z][A-Za-z0-9_-]* (or be '' @ [CHR 0x27] @ ''default'' @ [CHR 0x27]
       @ '' for the unnamed unit)'')"
definition ErrRcfDeliveryRequired :: error where
  [errs]: "ErrRcfDeliveryRequired =
     Sentinel ''rcf requires exactly one of code | sourceFile | sourceUrl''"
definition ErrRcfDeliveryConflict :: error where
  [errs]: "ErrRcfDeliveryConflict =
     Sentinel (''rcf code | sourceFile | sourceUrl are mutually exclusive '' @ [CHR 0xE2, CHR 0x80, CHR 0x94]
       @ '' set only one'')"
definition ErrRcfBadSourcePath :: error where
  [errs]: "ErrRcfBadSourcePath =
     Sentinel ''rcf sourceFile must be of the form <storage>:<path> (e.g. flash:rcf-evpn.txt)''"
definition ErrRcfBadSourceURL :: error where
  [errs]: "ErrRcfBadSourceURL =
     Sentinel ''rcf sourceUrl must be a valid http(s)://... or ftp://... URL EOS can pull from''"
definition ErrRcfCodeMissingTrailN :: error where
  [errs]: "ErrRcfCodeMissingTrailN =
     Sentinel ''rcf code body must end with a newline (EOS expects a complete line before the EOF terminator)''"

definition rcfDefaultName :: string where
  "rcfDefaultName = ''default''"

definition rcfPullSchemes :: "string set" where
  "rcfPullSchemes = {''http'', ''https'', ''ftp'', ''tftp'', ''scp''}"

text \<open>\<open>^[A-Za-z][A-Za-z0-9_-]*:[^\s]+$\<close>, where \<open>\s\<close> is one of tab, newline, form feed, return and blank.\<close>

definition rcfSourceFileRe :: "string \<Rightarrow> bool" where
  "rcfSourceFileRe s \<longleftrightarrow>
     (case dropWhile (\<lambda>c. c \<noteq> CHR '':'') s of
        [] \<Rightarrow> False
      | _ # path \<Rightarrow>
          unit_name (takeWhile (\<lambda>c. c \<noteq> CHR '':'') s) \<and> path \<noteq> []
          \<and> set path \<inter> {CHR 0x09, CHR 0x0A, CHR 0x0C, CHR 0x0D, CHR '' ''} = {})"

record RcfArgs = overrides +
  rcf_Name :: string
  rcf_Code :: "string option"
  rcf_SourceFile :: "string option"
  rcf_SourceUrl :: "string option"

type_synonym RcfState = RcfArgs

definition rcfDeliveryCount :: "RcfArgs \<Rightarrow> nat" where
  "rcfDeliveryCount args =
     (if nonempty (rcf_Code args) \<noteq> None then 1 else 0)
     + (if nonempty (rcf_SourceFile args) \<noteq> None then 1 else 0)
     + (if nonempty (rcf_SourceUrl args) \<noteq> None then 1 else 0)"

definition validateRcfSourceURL :: "golib \<Rightarrow> string \<Rightarrow> error option" where
  "validateRcfSourceURL G s =
     (case url_Parse G s of
        Inl _ \<Rightarrow> Some (Got ErrRcfBadSourceURL [DStr s])
      | Inr u \<Rightarrow>
          if u_Host u = [] then Some (Got ErrRcfBadSourceURL [DStr s])
          else if ToLower (u_Scheme u) \<notin> rcfPullSchemes then Some (Got ErrRcfBadSourceURL [DStr (u_Scheme u)])
          else None)"

definition validateRcf :: "golib \<Rightarrow> RcfArgs \<Rightarrow> error option" where
  "validateRcf G args =
     (if TrimSpace (rcf_Name args) = [] then Some ErrRcfNameRequired
      else if rcf_Name args \<noteq> rcfDefaultName \<and> \<not> unit_name (rcf_Name args)
        then Some (Got ErrRcfBadName [DStr (rcf_Name args)])
      else if rcfDeliveryCount args = 0 then Some ErrRcfDeliveryRequired
      else if rcfDeliveryCount args \<noteq> 1 then Some ErrRcfDeliveryConflict
      else first_error
        [opt_err (\<lambda>s. if rcfSourceFileRe s then None else Some (Got ErrRcfBadSourcePath [DStr s]))
           (nonempty (rcf_SourceFile args)),
         opt_err (validateRcfSourceURL G) (nonempty (rcf_SourceUrl args)),
         opt_err (\<lambda>c. if CutSuffix c [newline] = None then Some ErrRcfCodeMissingTrailN else None)
           (nonempty (rcf_Code args))])"

definition rcfID :: "string \<Rightarrow> string" where
  "rcfID name = ''rcf/'' @ name"

definition rcfTargetClause :: "string \<Rightarrow> string" where
  "rcfTargetClause name = (if name = rcfDefaultName then ''code'' else ''code unit '' @ name)"

definition rcfPullClause :: "string \<Rightarrow> string" where
  "rcfPullClause name = (if name = rcfDefaultName then ''pull'' else ''pull unit '' @ name)"

definition buildRcfPlainCmds :: "RcfArgs \<Rightarrow> bool \<Rightarrow> string list" where
  "buildRcfPlainCmds args remove =
     [''router general'', ''control-functions'']
     @ (if remove then
          [''no '' @ rcfTargetClause (rcf_Name args) @ '' source pulled-from'', ''no '' @ rcfTargetClause (rcf_Name args)]
        else case nonempty (rcf_SourceFile args) of
          Some f \<Rightarrow> [rcfTargetClause (rcf_Name args) @ '' source pulled-from '' @ f]
        | None \<Rightarrow>
            (case nonempty (rcf_SourceUrl args) of
               Some u \<Rightarrow> [rcfPullClause (rcf_Name args) @ '' replace '' @ u]
             | None \<Rightarrow> []))
     @ [''exit'', ''exit'']"

definition rcf_body :: "string \<Rightarrow> string" where
  "rcf_body code = (if CutSuffix code [newline] = None then code @ [newline] else code) @ ''EOF'' @ [newline]"

definition buildRcfRichCmds :: "RcfArgs \<Rightarrow> command list" where
  "buildRcfRichCmds args =
     [plain ''router general'', plain ''control-functions'',
      \<lparr>Cmd = rcfTargetClause (rcf_Name args), Input = rcf_body (or_empty (rcf_Code args))\<rparr>,
      plain ''exit'', plain ''exit'']"

text \<open>The session pattern with rich commands.\<close>

definition apply_rich_session ::
  "('n, 'w) ctx \<Rightarrow> 'x overrides_scheme \<Rightarrow> string \<Rightarrow> command list \<Rightarrow> 'w \<Rightarrow> unit res \<times> 'w" where
  "apply_rich_session C ov suffix cmds w =
     (case newClient C ov of
        Ok cli \<Rightarrow>
          (case with_session (OpenSession (cx_env C)) (StageRich (cx_env C)) (Abort (cx_env C)) (Commit (cx_env C))
                  s_parent cli (session_name C suffix) cmds w of
             (r, _, w') \<Rightarrow> (r, w'))
      | r \<Rightarrow> (map_res (\<lambda>_. ()) r, w))"

lemma apply_rich_session_returns: "returns (fst (apply_rich_session C ov suffix cmds w))"
proof (cases "newClient C ov")
  case (Ok cli)
  obtain r c' w' where r: "with_session (OpenSession (cx_env C)) (StageRich (cx_env C)) (Abort (cx_env C))
      (Commit (cx_env C)) s_parent cli (session_name C suffix) cmds w = (r, c', w')"
    by (metis prod.exhaust)
  with eapi_rich.with_session_total [OF _ r] Ok newClient_Ok show ?thesis by (fastforce simp: apply_rich_session_def)
next
  case Panic
  with newClient_returns [of C ov] show ?thesis by simp
next
  case Blocked
  with newClient_returns [of C ov] show ?thesis by simp
qed (simp add: apply_rich_session_def)

definition applyRcf :: "('n, 'w) ctx \<Rightarrow> RcfArgs \<Rightarrow> bool \<Rightarrow> 'w \<Rightarrow> unit res \<times> 'w" where
  "applyRcf C args remove w =
     (if remove \<or> nonempty (rcf_Code args) = None
      then apply_session C args (''rcf-'' @ sanitizePrefixListName (rcf_Name args)) (buildRcfPlainCmds args remove) w
      else apply_rich_session C args (''rcf-'' @ sanitizePrefixListName (rcf_Name args)) (buildRcfRichCmds args) w)"

record rcfRow =
  rcr_Name :: string
  rcr_Code :: string
  rcr_SourceFile :: string

text \<open>The first header that is a file reference or the beginning of inline code; the lines are not trimmed.\<close>

definition leadingWhitespace :: "string \<Rightarrow> string" where
  "leadingWhitespace s = takeWhile (\<lambda>c. c = CHR '' '' \<or> c = CHR 0x09) s"

definition collectInlineBody :: "string list \<Rightarrow> string" where
  "collectInlineBody rest =
     (let body = takeWhile (\<lambda>raw. TrimSpace raw \<noteq> ''EOF'') rest;
          indent = (case body of [] \<Rightarrow> [] | raw # _ \<Rightarrow> leadingWhitespace raw)
      in concat (map (\<lambda>raw. TrimPrefix raw indent @ [newline]) body))"

definition rcf_header :: "string \<Rightarrow> string" where
  "rcf_header name = (if name \<noteq> rcfDefaultName then ''code unit '' @ name else ''code'')"

definition rcf_pulled :: "string \<Rightarrow> string" where
  "rcf_pulled name = rcf_header name @ '' source pulled-from ''"

definition rcfHeaderMatch :: "string \<Rightarrow> string \<Rightarrow> bool" where
  "rcfHeaderMatch line header \<longleftrightarrow> line = header \<or> HasPrefix line (header @ '' '')"

fun rcf_lines :: "string \<Rightarrow> string list \<Rightarrow> rcfRow option" where
  "rcf_lines name [] = None"
| "rcf_lines name (raw # rest) =
     (let line = TrimSpace raw
      in if \<not> rcfHeaderMatch line (rcf_header name) then rcf_lines name rest
         else case CutPrefix line (rcf_pulled name) of
           Some f \<Rightarrow>
             Some \<lparr>rcr_Name = name, rcr_Code = [],
                   rcr_SourceFile = (case CutSuffix f '' edited'' of Some trimmed \<Rightarrow> trimmed | None \<Rightarrow> f)\<rparr>
         | None \<Rightarrow>
             if line = rcf_header name
             then Some \<lparr>rcr_Name = name, rcr_Code = collectInlineBody rest, rcr_SourceFile = []\<rparr>
             else rcf_lines name rest)"

definition parseRcfSection :: "string \<Rightarrow> string \<Rightarrow> rcfRow option" where
  "parseRcfSection out name = rcf_lines name (lines out)"

definition readRcf :: "('n, 'w) ctx \<Rightarrow> 'n client \<Rightarrow> string \<Rightarrow> 'w \<Rightarrow> rcfRow option res \<times> 'w" where
  "readRcf C cli name w =
     (case show_text C cli ''show running-config | section router general'' w of
        (r, w') \<Rightarrow> (map_res (\<lambda>out. parseRcfSection out name) r, w'))"

definition fillRcf :: "rcfRow \<Rightarrow> RcfState \<Rightarrow> RcfState" where
  "fillRcf r s =
     s\<lparr>rcf_Code := set_str (rcr_Code r) (rcf_Code s),
       rcf_SourceFile := set_str (rcr_SourceFile r) (rcf_SourceFile s)\<rparr>"

definition Rcf_Create ::
  "('n, 'w) ctx \<Rightarrow> RcfArgs request \<Rightarrow> 'w \<Rightarrow> RcfState created res \<times> 'w" where
  "Rcf_Create C =
     crud_create (validateRcf (cx_lib C)) (\<lambda>a. rcfID (rcf_Name a)) (applyRcf C)
       (\<lambda>a. ''create rcf '' @ rcf_Name a)"

definition Rcf_Read ::
  "('n, 'w) ctx \<Rightarrow> RcfArgs \<Rightarrow> 'w \<Rightarrow> (RcfArgs, RcfState) read_response option res \<times> 'w" where
  "Rcf_Read C =
     crud_read (newClient C) (\<lambda>cli a. readRcf C cli (rcf_Name a)) (\<lambda>a. rcfID (rcf_Name a)) fillRcf"

definition Rcf_Update :: "('n, 'w) ctx \<Rightarrow> RcfArgs request \<Rightarrow> 'w \<Rightarrow> RcfState res \<times> 'w" where
  "Rcf_Update C =
     crud_update (validateRcf (cx_lib C)) (applyRcf C)
       (\<lambda>a. ''update rcf '' @ rcf_Name a)"

definition Rcf_Delete :: "('n, 'w) ctx \<Rightarrow> RcfState \<Rightarrow> 'w \<Rightarrow> unit res \<times> 'w" where
  "Rcf_Delete C =
     crud_delete (applyRcf C)
       (\<lambda>a. ''delete rcf '' @ rcf_Name a)"

interpretation rcf_mgr: managed "validateRcf (cx_lib C)" "\<lambda>a. rcfID (rcf_Name a)" "applyRcf C"
  by unfold_locales (simp add: applyRcf_def apply_session_returns apply_rich_session_returns)

section \<open>Inline code\<close>

text \<open>
  The code as its lines, and the texts that show it: every line behind the device's indentation,
  except that a blank line may have lost it.
\<close>

definition code_lines :: "string \<Rightarrow> string list" where
  "code_lines code = butlast (lines code)"

lemma code_lines_concat:
  assumes "CutSuffix code [newline] \<noteq> None"
  shows "concat (map (\<lambda>l. l @ [newline]) (code_lines code)) = code" and "code_lines code \<noteq> []"
proof -
  from assms obtain b where code: "code = b @ [newline]" by (auto simp: CutSuffix_iff)
  have l: "lines (b @ [newline]) = lines b @ [[]]"
  proof (induction b)
    case (Cons c b)
    obtain x xs where "split_at newline b = x # xs" by (cases "split_at newline b") auto
    with Cons show ?case by (simp add: lines_def)
  qed (simp add: lines_def)
  have join: "concat (map (\<lambda>l. l @ [newline]) ls) = Join ls [newline] @ [newline]" if "ls \<noteq> []" for ls
    using that by (induction ls "[newline]" rule: Join.induct) simp_all
  have "lines b \<noteq> []" by (simp add: lines_def)
  with l show "code_lines code \<noteq> []" by (simp add: code_lines_def code)
  with join [of "lines b"] \<open>lines b \<noteq> []\<close> l show "concat (map (\<lambda>l. l @ [newline]) (code_lines code)) = code"
    using Join_split_at [of newline b] by (simp add: code_lines_def code lines_def)
qed

definition rcf_indented :: "string \<Rightarrow> string \<Rightarrow> string \<Rightarrow> bool" where
  "rcf_indented pad l raw \<longleftrightarrow> raw = pad @ l \<or> l = [] \<and> raw = []"

definition rcf_readable :: "string \<Rightarrow> bool" where
  "rcf_readable code \<longleftrightarrow>
     (case code_lines code of [] \<Rightarrow> False | l # _ \<Rightarrow> l \<noteq> [] \<and> hd l \<noteq> CHR '' '' \<and> hd l \<noteq> CHR 0x09)
     \<and> (\<forall>l\<in>set (code_lines code). TrimSpace l \<noteq> ''EOF'')"

lemma rcf_indented_trim:
  assumes "blanks pad" and "rcf_indented pad l raw"
  shows "TrimSpace raw = TrimSpace l" and "l \<noteq> [] \<Longrightarrow> raw = pad @ l" and "TrimPrefix raw pad = l"
proof -
  have "TrimSpace (pad @ l) = TrimSpace l"
    by (rule TrimSpace_pad) (use assms(1) in \<open>auto simp: blanks_def ascii_space_def\<close>)
  with assms(2) show "TrimSpace raw = TrimSpace l" by (auto simp: rcf_indented_def)
  from assms(2) show "l \<noteq> [] \<Longrightarrow> raw = pad @ l" by (simp add: rcf_indented_def)
  from assms(2) show "TrimPrefix raw pad = l"
    by (auto simp: rcf_indented_def TrimPrefix_def split: option.splits if_splits)
qed

lemma collect_indented:
  assumes b: "blanks pad" and ls: "list_all2 (rcf_indented pad) (code_lines code) raws" and r: "rcf_readable code"
    and e: "TrimSpace e = ''EOF''" and nl: "CutSuffix code [newline] \<noteq> None"
  shows "collectInlineBody (raws @ e # post) = code"
proof -
  obtain l0 ls0 where c: "code_lines code = l0 # ls0" and l0: "l0 \<noteq> []" "hd l0 \<noteq> CHR '' ''" "hd l0 \<noteq> CHR 0x09"
    using r by (cases "code_lines code") (simp_all add: rcf_readable_def)
  from ls c obtain r0 rs where rs: "raws = r0 # rs" and "rcf_indented pad l0 r0" by (auto simp: list_all2_Cons1)
  with rcf_indented_trim(2) [OF b] l0(1) have r0: "r0 = pad @ l0" by blast
  have "\<forall>raw\<in>set raws. TrimSpace raw \<noteq> ''EOF''"
  proof
    fix raw assume "raw \<in> set raws"
    then obtain i where i: "i < length raws" "raw = raws ! i" by (auto simp: in_set_conv_nth)
    with ls have l: "code_lines code ! i \<in> set (code_lines code)" "rcf_indented pad (code_lines code ! i) raw"
      by (simp_all add: list_all2_conv_all_nth)
    from l(1) r have "TrimSpace (code_lines code ! i) \<noteq> ''EOF''" by (simp add: rcf_readable_def)
    with rcf_indented_trim(1) [OF b l(2)] show "TrimSpace raw \<noteq> ''EOF''" by simp
  qed
  with e have body: "takeWhile (\<lambda>raw. TrimSpace raw \<noteq> ''EOF'') (raws @ e # post) = raws"
    by (simp add: takeWhile_append2)
  have "takeWhile (\<lambda>c. c = CHR '' '' \<or> c = CHR 0x09) l0 = []" using l0 by (cases l0) auto
  moreover have "\<forall>c\<in>set pad. c = CHR '' '' \<or> c = CHR 0x09" using b by (auto simp: blanks_def)
  ultimately have "leadingWhitespace r0 = pad" by (simp add: leadingWhitespace_def r0 takeWhile_append2)
  moreover have "map (\<lambda>raw. TrimPrefix raw pad @ [newline]) raws = map (\<lambda>l. l @ [newline]) (code_lines code)"
    using ls rcf_indented_trim(3) [OF b] by (induction rule: list_all2_induct) simp_all
  ultimately show ?thesis
    using code_lines_concat(1) [OF nl] unfolding collectInlineBody_def body by (simp add: rs Let_def)
qed

definition rcf_foreign :: "string \<Rightarrow> string \<Rightarrow> bool" where
  "rcf_foreign name raw \<longleftrightarrow> TrimSpace raw \<noteq> rcf_header name \<and> CutPrefix (TrimSpace raw) (rcf_pulled name) = None"

lemma rcf_lines_skip: "\<forall>raw\<in>set pre. rcf_foreign name raw \<Longrightarrow> rcf_lines name (pre @ rest) = rcf_lines name rest"
  by (induction pre) (auto simp: rcf_foreign_def Let_def)

lemma rcf_pulled_header: "CutPrefix (rcf_header name) (rcf_pulled name) = None"
proof (rule ccontr)
  assume "CutPrefix (rcf_header name) (rcf_pulled name) \<noteq> None"
  then obtain u where "rcf_header name = rcf_pulled name @ u" by (auto simp: CutPrefix_iff)
  then have "length (rcf_header name) = length (rcf_pulled name @ u)" by (rule arg_cong)
  then show False by (simp add: rcf_pulled_def)
qed

text \<open>What the device stores comes back as the code that was staged.\<close>

lemma rcf_inline_back:
  assumes "lines out = pre @ [h] @ raws @ [e] @ post" and "\<forall>raw\<in>set pre. rcf_foreign name raw"
    and "TrimSpace h = rcf_header name" and "TrimSpace e = ''EOF''" and "blanks pad"
    and "list_all2 (rcf_indented pad) (code_lines code) raws" and "rcf_readable code" and "CutSuffix code [newline] \<noteq> None"
  shows "parseRcfSection out name = Some \<lparr>rcr_Name = name, rcr_Code = code, rcr_SourceFile = []\<rparr>"
  unfolding parseRcfSection_def assms(1)
  using rcf_lines_skip [OF assms(2)] collect_indented [OF assms(5-7) assms(4,8)]
  by (simp add: assms(3) rcf_pulled_header rcfHeaderMatch_def)

text \<open>The code that is staged: nothing is added to a validated body but the terminator.\<close>

lemma rcf_body_validated:
  assumes v: "validateRcf G a = None" and c: "nonempty (rcf_Code a) = Some code"
  shows "CutSuffix code [newline] \<noteq> None" and "rcf_body (or_empty (rcf_Code a)) = code @ ''EOF'' @ [newline]"
proof -
  have "opt_err (\<lambda>c. if CutSuffix c [newline] = None then Some ErrRcfCodeMissingTrailN else None) (nonempty (rcf_Code a)) = None"
    using v unfolding validateRcf_def check_chain first_error_None by simp
  then show n: "CutSuffix code [newline] \<noteq> None" unfolding c by (auto simp: opt_err_def split: if_splits)
  from c have "rcf_Code a = Some code" by simp
  with n show "rcf_body (or_empty (rcf_Code a)) = code @ ''EOF'' @ [newline]" by (simp add: rcf_body_def)
qed

end
