(* ===== verification/Vrrp.thy ===== *)
theory Vrrp
  imports L3_Common
begin

text \<open>
  \<open>internal/resources/l3/vrrp.go\<close>: a VRRP group of an interface.  Its lines all begin with
  \<open>vrrp VRID\<close>, among those of the interface and of its other groups.
\<close>

definition ErrVrrpInterfaceRequired :: error where
  [errs]: "ErrVrrpInterfaceRequired = Sentinel ''vrrp interface is required''"
definition ErrVrrpInterfaceBadName :: error where
  [errs]: "ErrVrrpInterfaceBadName =
     Sentinel ''vrrp interface must match an EOS interface name (e.g. Ethernet1, Vlan100, Port-Channel10)''"
definition ErrVrrpVridRange :: error where
  [errs]: "ErrVrrpVridRange = Sentinel ''vrrp vrid must be in 1..255''"
definition ErrVrrpPriorityRange :: error where
  [errs]: "ErrVrrpPriorityRange = Sentinel ''vrrp priority must be in 1..254''"
definition ErrVrrpAdvertiseRange :: error where
  [errs]: "ErrVrrpAdvertiseRange =
     Sentinel ''vrrp timersAdvertise must be > 0 seconds''"
definition ErrVrrpPreemptDelayRange :: error where
  [errs]: "ErrVrrpPreemptDelayRange =
     Sentinel ''vrrp preemptDelayMinimum must be >= 0 seconds''"
definition ErrVrrpVirtualAddrInvalid :: error where
  [errs]: "ErrVrrpVirtualAddrInvalid =
     Sentinel ''vrrp virtualAddress must be a valid IPv4 or IPv6 literal''"
definition ErrVrrpTrackInterfaceEmpty :: error where
  [errs]: "ErrVrrpTrackInterfaceEmpty =
     Sentinel ''vrrp track entry interface name is required''"
definition ErrVrrpTrackActionInvalid :: error where
  [errs]: "ErrVrrpTrackActionInvalid =
     Sentinel (''vrrp track entry action must be '' @ [CHR 0x27] @ ''decrement'' @ [CHR 0x27] @ '' or ''
       @ [CHR 0x27] @ ''shutdown'' @ [CHR 0x27])"
definition ErrVrrpTrackDecrementRange :: error where
  [errs]: "ErrVrrpTrackDecrementRange =
     Sentinel ''vrrp track entry decrement must be in 1..254''"
definition ErrVrrpBfdPeerBadIPv4 :: error where
  [errs]: "ErrVrrpBfdPeerBadIPv4 =
     Sentinel ''vrrp bfdPeer must be a valid IPv4 address''"

text \<open>\<open>^(Ethernet|Port-Channel|Vlan|Loopback)\d[\d/]*$\<close>, which policy-based routing uses, too.\<close>

definition vrrpInterfaceRe :: "string \<Rightarrow> bool" where
  "vrrpInterfaceRe s \<longleftrightarrow>
     (\<exists>p\<in>set [''Ethernet'', ''Port-Channel'', ''Vlan'', ''Loopback''].
        case CutPrefix s p of
          Some (d # r) \<Rightarrow> d \<in> set digits \<and> set r \<subseteq> insert (CHR ''/'') (set digits)
        | _ \<Rightarrow> False)"

definition validVrrpTrackActions :: "string set" where
  "validVrrpTrackActions = {''decrement'', ''shutdown''}"

record VrrpTrackEntry =
  vt_Interface :: string
  vt_Action :: string
  vt_Decrement :: "int option"

record VrrpArgs = overrides +
  vp_Interface :: string
  vp_Vrid :: int
  vp_Description :: "string option"
  vp_Priority :: "int option"
  vp_Preempt :: "bool option"
  vp_PreemptDelayMinimum :: "int option"
  vp_TimersAdvertise :: "int option"
  vp_VirtualAddresses :: "string list"
  vp_Tracks :: "VrrpTrackEntry list"
  vp_BfdPeer :: "string option"
  vp_Shutdown :: "bool option"

type_synonym VrrpState = VrrpArgs

definition vrrp_track :: "VrrpTrackEntry \<Rightarrow> error option" where
  "vrrp_track e =
     (if TrimSpace (vt_Interface e) = [] then Some ErrVrrpTrackInterfaceEmpty
      else if vt_Action e \<notin> validVrrpTrackActions then Some (Got ErrVrrpTrackActionInvalid [DStr (vt_Action e)])
      else if vt_Action e = ''decrement'' then
        (case vt_Decrement e of
           None \<Rightarrow> Some (Got ErrVrrpTrackDecrementRange [])
         | Some d \<Rightarrow> if d < 1 \<or> d > 254 then Some (Got ErrVrrpTrackDecrementRange [DInt d]) else None)
      else None)"

definition validateVrrp :: "VrrpArgs \<Rightarrow> error option" where
  "validateVrrp args =
     (if TrimSpace (vp_Interface args) = [] then Some ErrVrrpInterfaceRequired
      else if \<not> vrrpInterfaceRe (vp_Interface args) then Some (Got ErrVrrpInterfaceBadName [DStr (vp_Interface args)])
      else if vp_Vrid args < 1 \<or> vp_Vrid args > 255 then Some (Got ErrVrrpVridRange [DInt (vp_Vrid args)])
      else first_error
        ([opt_err (\<lambda>p. if p < 1 \<or> p > 254 then Some (Got ErrVrrpPriorityRange [DInt p]) else None) (vp_Priority args),
          opt_err (\<lambda>t. if t \<le> 0 then Some (Got ErrVrrpAdvertiseRange [DInt t]) else None) (vp_TimersAdvertise args),
          opt_err (\<lambda>d. if d < 0 then Some (Got ErrVrrpPreemptDelayRange [DInt d]) else None) (vp_PreemptDelayMinimum args)]
         @ map (\<lambda>v. if ParseAddr v = None then Some (Got ErrVrrpVirtualAddrInvalid [DStr v]) else None) (vp_VirtualAddresses args)
         @ map vrrp_track (vp_Tracks args)
         @ [opt_err (\<lambda>s. if ipv4_addr s then None else Some (Got ErrVrrpBfdPeerBadIPv4 [DStr s])) (nonempty (vp_BfdPeer args))]))"

definition vrrpID :: "string \<Rightarrow> int \<Rightarrow> string" where
  "vrrpID intf vrid = ''vrrp/'' @ intf @ ''/'' @ Itoa vrid"

text \<open>The beginning of the lines of a group, and a line of it.\<close>

definition vrrp_prefix :: "string \<Rightarrow> string" where
  "vrrp_prefix vrid = ''vrrp '' @ vrid @ '' ''"

abbreviation vrrp_cmd :: "string \<Rightarrow> string \<Rightarrow> string" where
  "vrrp_cmd vrid rest \<equiv> vrrp_prefix vrid @ rest"

text \<open>The first IPv4 address is the primary one; a text that is no address is left out.\<close>

fun vrrp_addresses :: "string \<Rightarrow> bool \<Rightarrow> string list \<Rightarrow> string list" where
  "vrrp_addresses vrid v4Primary [] = []"
| "vrrp_addresses vrid v4Primary (a # as) =
     (case ParseAddr a of
        None \<Rightarrow> vrrp_addresses vrid v4Primary as
      | Some ipa \<Rightarrow>
          if Is6 ipa then vrrp_cmd vrid (''ipv6 '' @ a) # vrrp_addresses vrid v4Primary as
          else if \<not> v4Primary then vrrp_cmd vrid (''ipv4 '' @ a) # vrrp_addresses vrid True as
          else vrrp_cmd vrid (''ipv4 '' @ a @ '' secondary'') # vrrp_addresses vrid v4Primary as)"

definition appendVrrpAddresses :: "string list \<Rightarrow> string \<Rightarrow> string list" where
  "appendVrrpAddresses addrs vrid = vrrp_addresses vrid False addrs"

definition appendVrrpScalars :: "VrrpArgs \<Rightarrow> string \<Rightarrow> string list" where
  "appendVrrpScalars args vrid =
     line_opt (\<lambda>v. vrrp_cmd vrid (''priority-level '' @ Itoa v)) (vp_Priority args)
     @ line_if (vrrp_cmd vrid ''preempt'') (vp_Preempt args = Some True)
     @ line_opt (\<lambda>v. vrrp_cmd vrid (''preempt delay minimum '' @ Itoa v)) (vp_PreemptDelayMinimum args)
     @ line_opt (\<lambda>v. vrrp_cmd vrid (''advertisement interval '' @ Itoa v)) (vp_TimersAdvertise args)
     @ line_opt (\<lambda>v. vrrp_cmd vrid (''session description '' @ v)) (nonempty (vp_Description args))"

definition vrrp_track_cmd :: "string \<Rightarrow> VrrpTrackEntry \<Rightarrow> string" where
  "vrrp_track_cmd vrid e =
     (if vt_Action e = ''decrement''
      then vrrp_cmd vrid (''tracked-object '' @ vt_Interface e @ '' decrement '' @ Itoa (or_zero (vt_Decrement e)))
      else vrrp_cmd vrid (''tracked-object '' @ vt_Interface e @ '' shutdown''))"

definition appendVrrpTracks :: "VrrpTrackEntry list \<Rightarrow> string \<Rightarrow> string list" where
  "appendVrrpTracks tracks vrid =
     map (vrrp_track_cmd vrid) (filter (\<lambda>e. vt_Action e \<in> validVrrpTrackActions) tracks)"

definition buildVrrpCmds :: "VrrpArgs \<Rightarrow> bool \<Rightarrow> string list" where
  "buildVrrpCmds args remove =
     (let vrid = Itoa (vp_Vrid args)
      in [''interface '' @ vp_Interface args]
         @ (if remove then [''no vrrp '' @ vrid]
            else appendVrrpAddresses (vp_VirtualAddresses args) vrid
                 @ appendVrrpScalars args vrid
                 @ appendVrrpTracks (vp_Tracks args) vrid
                 @ line_opt (\<lambda>v. vrrp_cmd vrid (''bfd ip '' @ v)) (nonempty (vp_BfdPeer args))
                 @ line_bool (vrrp_cmd vrid ''disabled'') (''no '' @ vrrp_cmd vrid ''disabled'') (vp_Shutdown args)))"

definition applyVrrp :: "('n, 'w) ctx \<Rightarrow> VrrpArgs \<Rightarrow> bool \<Rightarrow> 'w \<Rightarrow> unit res \<times> 'w" where
  "applyVrrp C args remove w =
     apply_session C args (''vrrp-'' @ sanitizePrefixListName (vp_Interface args) @ ''-'' @ Itoa (vp_Vrid args))
       (buildVrrpCmds args remove) w"

record vrrpRow =
  vpr_Description :: string
  vpr_Priority :: int
  vpr_Preempt :: bool
  vpr_PreemptDly :: int
  vpr_Advertise :: int
  vpr_Addresses :: "string list"
  vpr_Tracks :: "VrrpTrackEntry list"
  vpr_BfdPeer :: string
  vpr_Shutdown :: "bool option"

definition zero_vrrpRow :: vrrpRow where
  "zero_vrrpRow =
     \<lparr>vpr_Description = [], vpr_Priority = 0, vpr_Preempt = False, vpr_PreemptDly = 0, vpr_Advertise = 0,
      vpr_Addresses = [], vpr_Tracks = [], vpr_BfdPeer = [], vpr_Shutdown = None\<rparr>"

definition applyVrrpIPv4 :: "string \<Rightarrow> vrrpRow \<Rightarrow> vrrpRow" where
  "applyVrrpIPv4 rest row =
     row\<lparr>vpr_Addresses := vpr_Addresses row
       @ [case CutSuffix rest '' secondary'' of Some addr \<Rightarrow> addr | None \<Rightarrow> rest]\<rparr>"

definition applyVrrpTrack :: "string \<Rightarrow> vrrpRow \<Rightarrow> vrrpRow" where
  "applyVrrpTrack rest row =
     (case Fields rest of
        p0 # p1 # ps \<Rightarrow>
          if p1 = ''decrement'' then
            (case ps of
               p2 # _ \<Rightarrow>
                 (case Atoi p2 of
                    None \<Rightarrow> row
                  | Some v \<Rightarrow> row\<lparr>vpr_Tracks := vpr_Tracks row
                      @ [\<lparr>vt_Interface = p0, vt_Action = ''decrement'', vt_Decrement = Some v\<rparr>]\<rparr>)
             | [] \<Rightarrow> row)
          else if p1 = ''shutdown'' then
            row\<lparr>vpr_Tracks := vpr_Tracks row @ [\<lparr>vt_Interface = p0, vt_Action = ''shutdown'', vt_Decrement = None\<rparr>]\<rparr>
          else row
      | _ \<Rightarrow> row)"

text \<open>A line that one of the three groups of cases recognises.\<close>

definition applyVrrpAddrLine :: "string \<Rightarrow> vrrpRow \<Rightarrow> vrrpRow option" where
  "applyVrrpAddrLine rest row =
     (if HasPrefix rest ''ipv4 '' then Some (applyVrrpIPv4 (TrimPrefix rest ''ipv4 '') row)
      else if HasPrefix rest ''ip '' then Some (applyVrrpIPv4 (TrimPrefix rest ''ip '') row)
      else if HasPrefix rest ''ipv6 '' then
        Some (row\<lparr>vpr_Addresses := vpr_Addresses row @ [TrimPrefix rest ''ipv6 '']\<rparr>)
      else None)"

definition applyVrrpScalarLine :: "string \<Rightarrow> vrrpRow \<Rightarrow> vrrpRow option" where
  "applyVrrpScalarLine rest row =
     (if HasPrefix rest ''priority-level '' then
        Some (row\<lparr>vpr_Priority := atoi_or (vpr_Priority row) (TrimPrefix rest ''priority-level '')\<rparr>)
      else if HasPrefix rest ''priority '' then
        Some (row\<lparr>vpr_Priority := atoi_or (vpr_Priority row) (TrimPrefix rest ''priority '')\<rparr>)
      else if rest = ''preempt'' then Some (row\<lparr>vpr_Preempt := True\<rparr>)
      else if HasPrefix rest ''preempt delay minimum '' then
        Some (row\<lparr>vpr_PreemptDly := atoi_or (vpr_PreemptDly row) (TrimPrefix rest ''preempt delay minimum '')\<rparr>)
      else if HasPrefix rest ''advertisement interval '' then
        Some (row\<lparr>vpr_Advertise := atoi_or (vpr_Advertise row) (TrimPrefix rest ''advertisement interval '')\<rparr>)
      else if HasPrefix rest ''timers advertise '' then
        Some (row\<lparr>vpr_Advertise := atoi_or (vpr_Advertise row) (TrimPrefix rest ''timers advertise '')\<rparr>)
      else None)"

definition applyVrrpExtrasLine :: "string \<Rightarrow> vrrpRow \<Rightarrow> vrrpRow" where
  "applyVrrpExtrasLine rest row =
     (if HasPrefix rest ''session description '' then
        row\<lparr>vpr_Description := TrimPrefix rest ''session description ''\<rparr>
      else if HasPrefix rest ''description '' then row\<lparr>vpr_Description := TrimPrefix rest ''description ''\<rparr>
      else if HasPrefix rest ''tracked-object '' then applyVrrpTrack (TrimPrefix rest ''tracked-object '') row
      else if HasPrefix rest ''track '' then applyVrrpTrack (TrimPrefix rest ''track '') row
      else if HasPrefix rest ''bfd ip '' then row\<lparr>vpr_BfdPeer := TrimPrefix rest ''bfd ip ''\<rparr>
      else if HasPrefix rest ''bfd peer '' then row\<lparr>vpr_BfdPeer := TrimPrefix rest ''bfd peer ''\<rparr>
      else if rest = ''disabled'' \<or> rest = ''shutdown'' then row\<lparr>vpr_Shutdown := Some True\<rparr>
      else if rest = ''no disabled'' \<or> rest = ''no shutdown'' then row\<lparr>vpr_Shutdown := Some False\<rparr>
      else row)"

definition applyVrrpLine :: "string \<Rightarrow> vrrpRow \<Rightarrow> vrrpRow" where
  "applyVrrpLine rest row =
     (case applyVrrpAddrLine rest row of
        Some r \<Rightarrow> r
      | None \<Rightarrow> (case applyVrrpScalarLine rest row of Some r \<Rightarrow> r | None \<Rightarrow> applyVrrpExtrasLine rest row))"

definition vrrp_line :: "string \<Rightarrow> string \<Rightarrow> vrrpRow \<Rightarrow> vrrpRow" where
  "vrrp_line vrid line row =
     (case CutPrefix line (vrrp_prefix vrid) of None \<Rightarrow> row | Some rest \<Rightarrow> applyVrrpLine rest row)"

definition parseVrrpSection :: "string \<Rightarrow> string \<Rightarrow> int \<Rightarrow> vrrpRow option" where
  "parseVrrpSection out intf vrid =
     (if \<not> Contains out (''interface '' @ intf) then None
      else if \<forall>l\<in>set (trimmed_lines out). \<not> HasPrefix l (vrrp_prefix (Itoa vrid)) then None
      else Some (scan (vrrp_line (Itoa vrid)) out zero_vrrpRow))"

definition readVrrp :: "('n, 'w) ctx \<Rightarrow> 'n client \<Rightarrow> string \<Rightarrow> int \<Rightarrow> 'w \<Rightarrow> vrrpRow option res \<times> 'w" where
  "readVrrp C cli intf vrid =
     read_text C cli (''show running-config interfaces '' @ intf) (\<lambda>out. Ok (parseVrrpSection out intf vrid))"

definition fillVrrp :: "vrrpRow \<Rightarrow> VrrpState \<Rightarrow> VrrpState" where
  "fillVrrp r s =
     s\<lparr>vp_Description := set_str (vpr_Description r) (vp_Description s),
       vp_Priority := set_pos (vpr_Priority r) (vp_Priority s),
       vp_Preempt := set_true (vpr_Preempt r) (vp_Preempt s),
       vp_PreemptDelayMinimum := set_pos (vpr_PreemptDly r) (vp_PreemptDelayMinimum s),
       vp_TimersAdvertise := set_pos (vpr_Advertise r) (vp_TimersAdvertise s),
       vp_VirtualAddresses := (if vpr_Addresses r \<noteq> [] then vpr_Addresses r else vp_VirtualAddresses s),
       vp_Tracks := (if vpr_Tracks r \<noteq> [] then vpr_Tracks r else vp_Tracks s),
       vp_BfdPeer := set_str (vpr_BfdPeer r) (vp_BfdPeer s),
       vp_Shutdown := set_some (vpr_Shutdown r) (vp_Shutdown s)\<rparr>"

definition Vrrp_Create ::
  "('n, 'w) ctx \<Rightarrow> VrrpArgs request \<Rightarrow> 'w \<Rightarrow> VrrpState created res \<times> 'w" where
  "Vrrp_Create C =
     crud_create validateVrrp (\<lambda>a. vrrpID (vp_Interface a) (vp_Vrid a)) (applyVrrp C)
       (\<lambda>a. ''create vrrp '' @ vp_Interface a @ ''/'' @ Itoa (vp_Vrid a))"

definition Vrrp_Read ::
  "('n, 'w) ctx \<Rightarrow> VrrpArgs \<Rightarrow> 'w \<Rightarrow> (VrrpArgs, VrrpState) read_response option res \<times> 'w" where
  "Vrrp_Read C =
     crud_read (newClient C) (\<lambda>cli a. readVrrp C cli (vp_Interface a) (vp_Vrid a)) (\<lambda>a. vrrpID (vp_Interface a) (vp_Vrid a)) fillVrrp"

definition Vrrp_Update :: "('n, 'w) ctx \<Rightarrow> VrrpArgs request \<Rightarrow> 'w \<Rightarrow> VrrpState res \<times> 'w" where
  "Vrrp_Update C =
     crud_update validateVrrp (applyVrrp C)
       (\<lambda>a. ''update vrrp '' @ vp_Interface a @ ''/'' @ Itoa (vp_Vrid a))"

definition Vrrp_Delete :: "('n, 'w) ctx \<Rightarrow> VrrpState \<Rightarrow> 'w \<Rightarrow> unit res \<times> 'w" where
  "Vrrp_Delete C =
     crud_delete (applyVrrp C)
       (\<lambda>a. ''delete vrrp '' @ vp_Interface a @ ''/'' @ Itoa (vp_Vrid a))"

interpretation vrrp_mgr: session_managed C validateVrrp "\<lambda>a. vrrpID (vp_Interface a) (vp_Vrid a)"
  "applyVrrp C" "\<lambda>a. ''vrrp-'' @ sanitizePrefixListName (vp_Interface a) @ ''-'' @ Itoa (vp_Vrid a)" buildVrrpCmds
  by unfold_locales (simp add: applyVrrp_def)

section \<open>Reading back\<close>

lemma vrrp_line_cmd: "vrrp_line vrid (vrrp_cmd vrid rest) = applyVrrpLine rest"
  by (simp add: vrrp_line_def fun_eq_iff)

lemmas vrrp_cases = vrrp_line_cmd applyVrrpLine_def applyVrrpAddrLine_def applyVrrpScalarLine_def applyVrrpExtrasLine_def

text \<open>A line of no group, or of another one, is skipped.\<close>

lemma vrrp_other: "\<not> HasPrefix l (vrrp_prefix vrid) \<Longrightarrow> vrrp_line vrid l r = r"
  by (auto simp: vrrp_line_def HasPrefix_def split: option.split)

definition vrrp_foreign :: "string \<Rightarrow> string \<Rightarrow> bool" where
  "vrrp_foreign vrid l \<longleftrightarrow> \<not> HasPrefix l (vrrp_prefix vrid)"

interpretation vp_scan: line_scanner "vrrp_line vrid" "vrrp_foreign vrid"
  by unfold_locales (auto simp: vrrp_foreign_def vrrp_other noise_def vrrp_prefix_def)

interpretation vp_priority: attribute "vrrp_line vrid" "\<lambda>v. vrrp_cmd vrid (''priority-level '' @ Itoa v)" int64
  vpr_Priority "\<lambda>v r. r\<lparr>vpr_Priority := v\<rparr>"
  by unfold_locales (simp_all add: vrrp_cases)

interpretation vp_preempt: flag "vrrp_line vrid" "vrrp_cmd vrid ''preempt''" vpr_Preempt "\<lambda>b r. r\<lparr>vpr_Preempt := b\<rparr>"
  by unfold_locales (simp_all add: vrrp_cases)

interpretation vp_delay: attribute "vrrp_line vrid" "\<lambda>v. vrrp_cmd vrid (''preempt delay minimum '' @ Itoa v)" int64
  vpr_PreemptDly "\<lambda>v r. r\<lparr>vpr_PreemptDly := v\<rparr>"
  by unfold_locales (simp_all add: vrrp_cases)

interpretation vp_advertise: attribute "vrrp_line vrid" "\<lambda>v. vrrp_cmd vrid (''advertisement interval '' @ Itoa v)" int64
  vpr_Advertise "\<lambda>v r. r\<lparr>vpr_Advertise := v\<rparr>"
  by unfold_locales (simp_all add: vrrp_cases)

interpretation vp_description: attribute "vrrp_line vrid" "\<lambda>v. vrrp_cmd vrid (''session description '' @ v)" "\<lambda>_. True"
  vpr_Description "\<lambda>v r. r\<lparr>vpr_Description := v\<rparr>"
  by unfold_locales (simp_all add: vrrp_cases)

interpretation vp_bfd: attribute "vrrp_line vrid" "\<lambda>v. vrrp_cmd vrid (''bfd ip '' @ v)" "\<lambda>_. True"
  vpr_BfdPeer "\<lambda>v r. r\<lparr>vpr_BfdPeer := v\<rparr>"
  by unfold_locales (simp_all add: vrrp_cases)

definition vrrp_track_readable :: "VrrpTrackEntry \<Rightarrow> bool" where
  "vrrp_track_readable e \<longleftrightarrow>
     vrrp_track e = None \<and> word_string (vt_Interface e) \<and> (vt_Action e = ''shutdown'' \<longrightarrow> vt_Decrement e = None)"

lemma vrrp_track_back:
  assumes "vrrp_track_readable e"
  shows "vrrp_line vrid (vrrp_track_cmd vrid e) r = r\<lparr>vpr_Tracks := vpr_Tracks r @ [e]\<rparr>"
proof -
  have w: "word_string (vt_Interface e)" using assms by (simp add: vrrp_track_readable_def)
  have k: "word_string ''decrement''" "word_string ''shutdown''"
    by (simp_all add: word_string_def space_byte_def ascii_space_def)
  have word: "applyVrrpLine (''tracked-object '' @ t) r = applyVrrpTrack t r" for t by (simp add: vrrp_cases)
  show ?thesis
  proof (cases "vt_Action e = ''decrement''")
    case True
    with assms obtain d where d: "vt_Decrement e = Some d" "1 \<le> d" "d \<le> 254"
      by (auto simp: vrrp_track_readable_def vrrp_track_def split: option.splits if_splits)
    have "Fields (Join [vt_Interface e, ''decrement'', Itoa d] '' '') = [vt_Interface e, ''decrement'', Itoa d]"
      by (rule Fields_Join) (use w k in auto)
    then have f: "Fields (vt_Interface e @ '' decrement '' @ Itoa d) = [vt_Interface e, ''decrement'', Itoa d]" by simp
    have "e = \<lparr>vt_Interface = vt_Interface e, vt_Action = ''decrement'', vt_Decrement = Some d\<rparr>"
      using True d(1) by simp
    moreover have "vrrp_track_cmd vrid e = vrrp_cmd vrid (''tracked-object '' @ vt_Interface e @ '' decrement '' @ Itoa d)"
      using True d(1) by (simp add: vrrp_track_cmd_def)
    ultimately show ?thesis
      using d by (simp only: vrrp_line_cmd word applyVrrpTrack_def f) (simp add: int64_def)
  next
    case False
    with assms have s: "vt_Action e = ''shutdown''" "vt_Decrement e = None"
      by (auto simp: vrrp_track_readable_def vrrp_track_def validVrrpTrackActions_def split: if_splits)
    have "Fields (Join [vt_Interface e, ''shutdown''] '' '') = [vt_Interface e, ''shutdown'']"
      by (rule Fields_Join) (use w k in auto)
    then have f: "Fields (vt_Interface e @ '' shutdown'') = [vt_Interface e, ''shutdown'']" by simp
    have "e = \<lparr>vt_Interface = vt_Interface e, vt_Action = ''shutdown'', vt_Decrement = None\<rparr>" using s by simp
    moreover have "vrrp_track_cmd vrid e = vrrp_cmd vrid (''tracked-object '' @ vt_Interface e @ '' shutdown'')"
      using False by (simp add: vrrp_track_cmd_def)
    ultimately show ?thesis by (simp only: vrrp_line_cmd word applyVrrpTrack_def f) simp
  qed
qed

interpretation vp_tracks: listing "vrrp_line vrid" "vrrp_track_cmd vrid" vrrp_track_readable
  vpr_Tracks "\<lambda>v r. r\<lparr>vpr_Tracks := v\<rparr>"
  by unfold_locales (simp_all add: vrrp_track_back)

text \<open>Every address is read back, the secondary ones without their mark.\<close>

lemma no_blank_no_suffix: "CHR '' '' \<notin> set s \<Longrightarrow> CutSuffix s '' secondary'' = None"
proof (rule ccontr)
  assume "CHR '' '' \<notin> set s" "CutSuffix s '' secondary'' \<noteq> None"
  then obtain r where "s = r @ '' secondary''" by (auto simp: CutSuffix_iff)
  with \<open>CHR '' '' \<notin> set s\<close> show False by simp
qed

lemma ipv4_no_blank: "ParseAddr a = Some ip \<Longrightarrow> \<not> Is6 ip \<Longrightarrow> CHR '' '' \<notin> set a"
proof -
  assume p: "ParseAddr a = Some ip" "\<not> Is6 ip"
  then have "zone ip = []" by (cases ip) (simp_all add: Is6_def)
  from ParseAddr_chars [OF p(1) this] plain_char_sets(2) have "set a \<subseteq> plain_chars" by blast
  then show ?thesis by (auto simp: plain_chars_def space_byte_def ascii_space_def)
qed

lemma fold_vrrp_addresses:
  "\<forall>a\<in>set as. ParseAddr a \<noteq> None \<Longrightarrow>
   fold (vrrp_line vrid) (vrrp_addresses vrid p as) r = r\<lparr>vpr_Addresses := vpr_Addresses r @ as\<rparr>"
proof (induction as arbitrary: p r)
  case (Cons a as)
  then obtain ip where ip: "ParseAddr a = Some ip" by auto
  have v6: "vrrp_line vrid (vrrp_cmd vrid (''ipv6 '' @ a)) r = r\<lparr>vpr_Addresses := vpr_Addresses r @ [a]\<rparr>"
    by (simp add: vrrp_cases)
  have v4: "vrrp_line vrid (vrrp_cmd vrid (''ipv4 '' @ t)) r = applyVrrpIPv4 t r" for t
    by (simp add: vrrp_cases)
  show ?case
  proof (cases "Is6 ip")
    case True
    with Cons ip v6 show ?thesis by (simp only: vrrp_addresses.simps) simp
  next
    case False
    with no_blank_no_suffix ipv4_no_blank [OF ip] have plain: "applyVrrpIPv4 a r = r\<lparr>vpr_Addresses := vpr_Addresses r @ [a]\<rparr>"
      by (simp add: applyVrrpIPv4_def)
    have second: "applyVrrpIPv4 (a @ '' secondary'') r = r\<lparr>vpr_Addresses := vpr_Addresses r @ [a]\<rparr>"
      unfolding applyVrrpIPv4_def CutSuffix_append by simp
    show ?thesis
      using Cons ip False by (simp add: v4 plain second del: append.simps)
  qed
qed simp

definition canonical_vrrp :: "VrrpArgs \<Rightarrow> bool" where
  "canonical_vrrp a \<longleftrightarrow>
     pred_option int64 (vp_PreemptDelayMinimum a) \<and> pred_option int64 (vp_TimersAdvertise a)
     \<and> (\<forall>e\<in>set (vp_Tracks a). word_string (vt_Interface e) \<and> (vt_Action e = ''shutdown'' \<longrightarrow> vt_Decrement e = None))"

text \<open>The lines of the group, whatever else the interface shows.\<close>

definition shows_vrrp :: "VrrpArgs \<Rightarrow> string \<Rightarrow> bool" where
  "shows_vrrp a out \<longleftrightarrow>
     Contains out (''interface '' @ vp_Interface a)
     \<and> prints (vrrp_foreign (Itoa (vp_Vrid a))) out (buildVrrpCmds a False)
     \<and> (\<exists>l\<in>set (buildVrrpCmds a False). HasPrefix l (vrrp_prefix (Itoa (vp_Vrid a))))"

lemma vrrp_quiet: "vrrp_line vrid (''interface '' @ i) r = r" "vrrp_line vrid (''no '' @ vrrp_cmd vrid ''disabled'') r = r"
  by (simp_all add: vrrp_line_def vrrp_prefix_def)

lemma fold_vrrp_shutdown:
  "fold (vrrp_line vrid) (line_bool (vrrp_cmd vrid ''disabled'') (''no '' @ vrrp_cmd vrid ''disabled'') p) r
     = r\<lparr>vpr_Shutdown := (if p = Some True then Some True else vpr_Shutdown r)\<rparr>"
proof -
  have "vrrp_line vrid (vrrp_cmd vrid ''disabled'') r = r\<lparr>vpr_Shutdown := Some True\<rparr>" by (simp add: vrrp_cases)
  moreover have "p = None \<or> p = Some True \<or> p = Some False" by (cases p) auto
  ultimately show ?thesis using vrrp_quiet(2) [of vrid r] by (auto simp del: append.simps)
qed

lemma validateVrrp_None:
  assumes "validateVrrp a = None"
  shows "pred_option int64 (vp_Priority a)" and "\<forall>v\<in>set (vp_VirtualAddresses a). ParseAddr v \<noteq> None"
    and "\<forall>e\<in>set (vp_Tracks a). vrrp_track e = None"
proof -
  note v = assms [unfolded validateVrrp_def check_chain first_error_split]
  from v show "pred_option int64 (vp_Priority a)"
    by (cases "vp_Priority a") (auto simp: opt_err_def int64_def split: if_splits option.splits)
  from v show "\<forall>v\<in>set (vp_VirtualAddresses a). ParseAddr v \<noteq> None" "\<forall>e\<in>set (vp_Tracks a). vrrp_track e = None"
    by (auto split: if_splits)
qed

lemma vrrp_roundtrip:
  assumes v: "validateVrrp a = None" and c: "canonical_vrrp a" and s: "shows_vrrp a out"
  shows "\<exists>row. parseVrrpSection out (vp_Interface a) (vp_Vrid a) = Some row \<and> fillVrrp row a = a"
proof -
  let ?v = "Itoa (vp_Vrid a)"
  note v' = validateVrrp_None [OF v]
  have p: "prints (vrrp_foreign ?v) out (buildVrrpCmds a False)" using s by (simp add: shows_vrrp_def)
  have i: "pred_option int64 (vp_PreemptDelayMinimum a)" "pred_option int64 (vp_TimersAdvertise a)"
    using c by (simp_all add: canonical_vrrp_def)
  have t: "\<forall>e\<in>set (vp_Tracks a). vrrp_track_readable e"
    using c v'(3) by (auto simp: canonical_vrrp_def vrrp_track_readable_def)
  have "vt_Action e \<in> validVrrpTrackActions" if "e \<in> set (vp_Tracks a)" for e
    using that v'(3) by (fastforce simp: vrrp_track_def split: if_splits)
  then have f: "filter (\<lambda>e. vt_Action e \<in> validVrrpTrackActions) (vp_Tracks a) = vp_Tracks a" by simp
  let ?row = "\<lparr>vpr_Description = or_empty (nonempty (vp_Description a)), vpr_Priority = or_zero (vp_Priority a),
      vpr_Preempt = (vp_Preempt a = Some True), vpr_PreemptDly = or_zero (vp_PreemptDelayMinimum a),
      vpr_Advertise = or_zero (vp_TimersAdvertise a), vpr_Addresses = vp_VirtualAddresses a, vpr_Tracks = vp_Tracks a,
      vpr_BfdPeer = or_empty (nonempty (vp_BfdPeer a)),
      vpr_Shutdown = (if vp_Shutdown a = Some True then Some True else None)\<rparr>"
  have "scan (vrrp_line ?v) out zero_vrrpRow = ?row"
    unfolding vp_scan.scan_prints [OF p] buildVrrpCmds_def Let_def if_False appendVrrpAddresses_def appendVrrpScalars_def
      appendVrrpTracks_def f fold_append comp_def fold_simps vrrp_quiet(1) fold_vrrp_addresses [OF v'(2)]
      vp_priority.fold_attr [OF v'(1)] vp_preempt.fold_flag vp_delay.fold_attr [OF i(1)] vp_advertise.fold_attr [OF i(2)]
      vp_description.fold_attr [OF any_readable] vp_tracks.fold_listing [OF t] vp_bfd.fold_attr [OF any_readable]
      fold_vrrp_shutdown
    by (simp add: zero_vrrpRow_def)
  moreover have "\<exists>l\<in>set (trimmed_lines out). HasPrefix l (vrrp_prefix ?v)"
  proof -
    from s obtain l where l: "l \<in> set (buildVrrpCmds a False)" "HasPrefix l (vrrp_prefix ?v)"
      by (auto simp: shows_vrrp_def)
    then have "l \<in> set (significant (vrrp_foreign ?v) (buildVrrpCmds a False))" by (simp add: significant_def vrrp_foreign_def)
    with p have "l \<in> set (significant (vrrp_foreign ?v) (trimmed_lines out))" by (simp only: prints_def)
    with l(2) show ?thesis by (auto simp: significant_def)
  qed
  moreover have "Contains out (''interface '' @ vp_Interface a)" using s by (simp add: shows_vrrp_def)
  ultimately have "parseVrrpSection out (vp_Interface a) (vp_Vrid a) = Some ?row" by (auto simp: parseVrrpSection_def)
  moreover have "fillVrrp ?row a = a" by (simp add: fillVrrp_def)
  ultimately show ?thesis by blast
qed

text \<open>A group without any attribute renders no line, and is reported missing.\<close>

lemma vrrp_bare_missing:
  assumes "trimmed_lines out = buildVrrpCmds a False" and "vp_VirtualAddresses a = []" and "vp_Tracks a = []"
    and "vp_Priority a = None" "vp_Preempt a \<noteq> Some True" "vp_PreemptDelayMinimum a = None" "vp_TimersAdvertise a = None"
    and "nonempty (vp_Description a) = None" "nonempty (vp_BfdPeer a) = None" "vp_Shutdown a \<noteq> Some True"
  shows "parseVrrpSection out (vp_Interface a) (vp_Vrid a) = None"
proof -
  have "vp_Shutdown a = None \<or> vp_Shutdown a = Some False" using assms(10) by (cases "vp_Shutdown a") auto
  then have "\<forall>l\<in>set (trimmed_lines out). \<not> HasPrefix l (vrrp_prefix (Itoa (vp_Vrid a)))"
    using assms(2-9) by (auto simp: assms(1) buildVrrpCmds_def appendVrrpAddresses_def appendVrrpScalars_def
        appendVrrpTracks_def vrrp_prefix_def)
  then show ?thesis by (simp add: parseVrrpSection_def)
qed

end
