(* ===== verification/Policy_Based_Routing.thy ===== *)
theory Policy_Based_Routing
  imports Vrrp
begin

text \<open>
  \<open>internal/resources/l3/policy_based_routing.go\<close>: a policy map, whose sequences send the packets of a
  class to a next hop or drop them, and the interfaces it is attached to.
\<close>

definition ErrPbrNameRequired :: error where
  [errs]: "ErrPbrNameRequired = Sentinel ''policyBasedRouting name is required''"
definition ErrPbrEmptySequences :: error where
  [errs]: "ErrPbrEmptySequences =
     Sentinel ''policyBasedRouting must have at least one sequence''"
definition ErrPbrSeqRange :: error where
  [errs]: "ErrPbrSeqRange =
     Sentinel ''policyBasedRouting sequence number must be in 1..65535''"
definition ErrPbrSeqClassMissing :: error where
  [errs]: "ErrPbrSeqClassMissing =
     Sentinel (''policyBasedRouting sequence must reference a classMap (set '' @ [CHR 0x27] @ ''class''
       @ [CHR 0x27] @ '')'')"
definition ErrPbrActionEmpty :: error where
  [errs]: "ErrPbrActionEmpty =
     Sentinel ''policyBasedRouting sequence must have an action: setNexthop, setNexthopGroup, or drop=true''"
definition ErrPbrActionMutex :: error where
  [errs]: "ErrPbrActionMutex =
     Sentinel ''policyBasedRouting sequence actions are mutually exclusive: pick exactly one of setNexthop, setNexthopGroup, drop''"
definition ErrPbrNexthopBadIP :: error where
  [errs]: "ErrPbrNexthopBadIP =
     Sentinel ''policyBasedRouting setNexthop must be a valid IPv4 or IPv6 literal''"
definition ErrPbrNexthopGroupEmpty :: error where
  [errs]: "ErrPbrNexthopGroupEmpty =
     Sentinel ''policyBasedRouting setNexthopGroup name is required''"
definition ErrPbrClassNameRequired :: error where
  [errs]: "ErrPbrClassNameRequired =
     Sentinel ''policyBasedRouting class entry name is required''"
definition ErrPbrInterfaceBadName :: error where
  [errs]: "ErrPbrInterfaceBadName =
     Sentinel ''policyBasedRouting interface attachment must match an EOS interface name (e.g. Ethernet1, Port-Channel10, Vlan100)''"
definition ErrPbrInterfaceDirection :: error where
  [errs]: "ErrPbrInterfaceDirection =
     Sentinel (''policyBasedRouting interface direction must be '' @ [CHR 0x27] @ ''input'' @ [CHR 0x27]
       @ '' (only input service-policy is accepted by EOS)'')"

record PbrAction =
  pa_SetNexthop :: "string option"
  pa_SetNexthopVrf :: "string option"
  pa_SetNexthopGroup :: "string option"
  pa_Drop :: "bool option"

definition no_action :: PbrAction where
  "no_action = \<lparr>pa_SetNexthop = None, pa_SetNexthopVrf = None, pa_SetNexthopGroup = None, pa_Drop = None\<rparr>"

record PbrSequence =
  ps_Seq :: int
  ps_Class :: string
  ps_Action :: PbrAction

record PbrInterfaceAttachment =
  pi_Interface :: string
  pi_Direction :: "string option"

record PolicyBasedRoutingArgs = overrides +
  pb_Name :: string
  pb_Sequences :: "PbrSequence list"
  pb_AttachInterfaces :: "PbrInterfaceAttachment list"

type_synonym PolicyBasedRoutingState = PolicyBasedRoutingArgs

definition validatePbrAction :: "PbrAction \<Rightarrow> error option" where
  "validatePbrAction a =
     (case nonempty (pa_SetNexthop a) of
        Some h \<Rightarrow>
          if ParseAddr h = None then Some (Got ErrPbrNexthopBadIP [DStr h])
          else if nonempty (pa_SetNexthopGroup a) \<noteq> None \<or> pa_Drop a = Some True then Some ErrPbrActionMutex
          else None
      | None \<Rightarrow>
          if nonempty (pa_SetNexthopGroup a) = None \<and> pa_Drop a \<noteq> Some True then Some ErrPbrActionEmpty
          else if nonempty (pa_SetNexthopGroup a) \<noteq> None \<and> pa_Drop a = Some True then Some ErrPbrActionMutex
          else None)"

definition validatePbrSequence :: "PbrSequence \<Rightarrow> error option" where
  "validatePbrSequence s =
     (if ps_Seq s < 1 \<or> ps_Seq s > 65535 then Some (Got ErrPbrSeqRange [DInt (ps_Seq s)])
      else if TrimSpace (ps_Class s) = [] then Some ErrPbrSeqClassMissing
      else validatePbrAction (ps_Action s))"

definition validatePbrAttachment :: "PbrInterfaceAttachment \<Rightarrow> error option" where
  "validatePbrAttachment a =
     (if \<not> vrrpInterfaceRe (pi_Interface a) then Some (Got ErrPbrInterfaceBadName [DStr (pi_Interface a)])
      else opt_err (\<lambda>d. if d \<noteq> ''input'' then Some (Got ErrPbrInterfaceDirection [DStr d]) else None)
        (nonempty (pi_Direction a)))"

definition validatePbr :: "PolicyBasedRoutingArgs \<Rightarrow> error option" where
  "validatePbr args =
     (if TrimSpace (pb_Name args) = [] then Some ErrPbrNameRequired
      else if pb_Sequences args = [] then Some ErrPbrEmptySequences
      else first_error (map validatePbrSequence (pb_Sequences args) @ map validatePbrAttachment (pb_AttachInterfaces args)))"

definition pbrID :: "string \<Rightarrow> string" where
  "pbrID name = ''policy-based-routing/'' @ name"

definition appendPbrDetach :: "PolicyBasedRoutingArgs \<Rightarrow> string list" where
  "appendPbrDetach args =
     concat (map (\<lambda>ai. [''interface '' @ pi_Interface ai, ''no service-policy type pbr input '' @ pb_Name args, ''exit''])
       (pb_AttachInterfaces args))"

definition pbr_action_cmds :: "PbrAction \<Rightarrow> string list" where
  "pbr_action_cmds a =
     (case nonempty (pa_SetNexthop a) of
        Some h \<Rightarrow> [''set nexthop '' @ h @ (case nonempty (pa_SetNexthopVrf a) of Some v \<Rightarrow> '' vrf '' @ v | None \<Rightarrow> [])]
      | None \<Rightarrow>
          (case nonempty (pa_SetNexthopGroup a) of
             Some g \<Rightarrow> [''set nexthop-group '' @ g]
           | None \<Rightarrow> line_if ''drop'' (pa_Drop a = Some True)))"

definition appendPbrSequence :: "PbrSequence \<Rightarrow> string list" where
  "appendPbrSequence s =
     [Itoa (ps_Seq s) @ '' class '' @ ps_Class s] @ pbr_action_cmds (ps_Action s) @ [''exit'']"

definition appendPbrAttach :: "PolicyBasedRoutingArgs \<Rightarrow> string list" where
  "appendPbrAttach args =
     concat (map (\<lambda>ai. [''interface '' @ pi_Interface ai, ''service-policy type pbr input '' @ pb_Name args, ''exit''])
       (pb_AttachInterfaces args))"

definition pbr_header :: "string \<Rightarrow> string" where
  "pbr_header name = ''policy-map type pbr '' @ name"

definition buildPbrCmds :: "PolicyBasedRoutingArgs \<Rightarrow> bool \<Rightarrow> string list" where
  "buildPbrCmds args remove =
     appendPbrDetach args @ [''no '' @ pbr_header (pb_Name args)]
     @ (if remove then []
        else [pbr_header (pb_Name args)] @ concat (map appendPbrSequence (pb_Sequences args)) @ [''exit'']
             @ appendPbrAttach args)"

definition applyPbr :: "('n, 'w) ctx \<Rightarrow> PolicyBasedRoutingArgs \<Rightarrow> bool \<Rightarrow> 'w \<Rightarrow> unit res \<times> 'w" where
  "applyPbr C args remove w =
     apply_session C args (''pbr-'' @ sanitizePrefixListName (pb_Name args)) (buildPbrCmds args remove) w"

text \<open>The row; the pointer \<open>current\<close> is nil as long as it has no sequence, and then its last one.\<close>

record pbrRow =
  pbr_Description :: string
  pbr_Sequences :: "PbrSequence list"

definition on_last :: "('a \<Rightarrow> 'a) \<Rightarrow> 'a list \<Rightarrow> 'a list" where
  "on_last f xs = (if xs = [] then [] else butlast xs @ [f (last xs)])"

definition parsePbrSeqHeader :: "string \<Rightarrow> (int \<times> string) option" where
  "parsePbrSeqHeader line =
     (case Fields line of
        [p0, p1, p2] \<Rightarrow> if p1 \<noteq> ''class'' then None else map_option (\<lambda>seq. (seq, p2)) (Atoi p0)
      | _ \<Rightarrow> None)"

definition applyPbrNexthop :: "string \<Rightarrow> PbrSequence \<Rightarrow> PbrSequence" where
  "applyPbrNexthop rest s =
     (case Fields rest of
        [] \<Rightarrow> s
      | addr # ts \<Rightarrow>
          fold (\<lambda>(k, v) s. if k = ''vrf'' then s\<lparr>ps_Action := (ps_Action s)\<lparr>pa_SetNexthopVrf := Some v\<rparr>\<rparr> else s)
            (zip ts (tl ts)) (s\<lparr>ps_Action := (ps_Action s)\<lparr>pa_SetNexthop := Some addr\<rparr>\<rparr>))"

definition pbr_action_line :: "string \<Rightarrow> PbrSequence \<Rightarrow> PbrSequence" where
  "pbr_action_line line s =
     (if HasPrefix line ''set nexthop-group '' then
        s\<lparr>ps_Action := (ps_Action s)\<lparr>pa_SetNexthopGroup := Some (TrimPrefix line ''set nexthop-group '')\<rparr>\<rparr>
      else if HasPrefix line ''set nexthop '' then applyPbrNexthop (TrimPrefix line ''set nexthop '') s
      else if line = ''drop'' then s\<lparr>ps_Action := (ps_Action s)\<lparr>pa_Drop := Some True\<rparr>\<rparr>
      else s)"

definition applyPbrSectionLine :: "string \<Rightarrow> pbrRow \<Rightarrow> pbrRow" where
  "applyPbrSectionLine line row =
     (case CutPrefix line ''description '' of
        Some rest \<Rightarrow> row\<lparr>pbr_Description := rest\<rparr>
      | None \<Rightarrow>
          (case parsePbrSeqHeader line of
             Some (seq, cls) \<Rightarrow>
               row\<lparr>pbr_Sequences := pbr_Sequences row @ [\<lparr>ps_Seq = seq, ps_Class = cls, ps_Action = no_action\<rparr>]\<rparr>
           | None \<Rightarrow> row\<lparr>pbr_Sequences := on_last (pbr_action_line line) (pbr_Sequences row)\<rparr>))"

text \<open>The loop body: the row, whether the line is in our policy map, and whether it was found.\<close>

definition pbr_step :: "string \<Rightarrow> string \<Rightarrow> pbrRow \<times> bool \<times> bool \<Rightarrow> pbrRow \<times> bool \<times> bool" where
  "pbr_step name line st =
     (case st of (row, inOurs, found) \<Rightarrow>
        if line = pbr_header name then (row, True, True)
        else if HasPrefix line ''policy-map '' then (row, False, found)
        else if \<not> inOurs then st
        else (applyPbrSectionLine line row, inOurs, found))"

definition zero_pbrRow :: pbrRow where
  "zero_pbrRow = \<lparr>pbr_Description = [], pbr_Sequences = []\<rparr>"

definition parsePbrSection :: "string \<Rightarrow> string \<Rightarrow> pbrRow option" where
  "parsePbrSection out name =
     (case scan (pbr_step name) out (zero_pbrRow, False, False) of
        (row, _, found) \<Rightarrow> if found then Some row else None)"

definition readPbr :: "('n, 'w) ctx \<Rightarrow> 'n client \<Rightarrow> string \<Rightarrow> 'w \<Rightarrow> pbrRow option res \<times> 'w" where
  "readPbr C cli name w =
     (case show_text C cli ''show running-config section policy-map'' w of
        (r, w') \<Rightarrow> (map_res (\<lambda>out. parsePbrSection out name) r, w'))"

definition fillPbr :: "pbrRow \<Rightarrow> PolicyBasedRoutingState \<Rightarrow> PolicyBasedRoutingState" where
  "fillPbr r s =
     s\<lparr>pb_Sequences := (if pbr_Sequences r \<noteq> [] then pbr_Sequences r else pb_Sequences s)\<rparr>"

definition PolicyBasedRouting_Create ::
  "('n, 'w) ctx \<Rightarrow> PolicyBasedRoutingArgs request \<Rightarrow> 'w \<Rightarrow> PolicyBasedRoutingState created res \<times> 'w" where
  "PolicyBasedRouting_Create C =
     crud_create validatePbr (\<lambda>a. pbrID (pb_Name a)) (applyPbr C)
       (\<lambda>a. ''create pbr '' @ pb_Name a)"

definition PolicyBasedRouting_Read ::
  "('n, 'w) ctx \<Rightarrow> PolicyBasedRoutingArgs \<Rightarrow> 'w \<Rightarrow> (PolicyBasedRoutingArgs, PolicyBasedRoutingState) read_response option res \<times> 'w" where
  "PolicyBasedRouting_Read C =
     crud_read (newClient C) (\<lambda>cli a. readPbr C cli (pb_Name a)) (\<lambda>a. pbrID (pb_Name a)) fillPbr"

definition PolicyBasedRouting_Update :: "('n, 'w) ctx \<Rightarrow> PolicyBasedRoutingArgs request \<Rightarrow> 'w \<Rightarrow> PolicyBasedRoutingState res \<times> 'w" where
  "PolicyBasedRouting_Update C =
     crud_update validatePbr (applyPbr C)
       (\<lambda>a. ''update pbr '' @ pb_Name a)"

definition PolicyBasedRouting_Delete :: "('n, 'w) ctx \<Rightarrow> PolicyBasedRoutingState \<Rightarrow> 'w \<Rightarrow> unit res \<times> 'w" where
  "PolicyBasedRouting_Delete C =
     crud_delete (applyPbr C)
       (\<lambda>a. ''delete pbr '' @ pb_Name a)"

interpretation pbr_mgr: session_managed C validatePbr "\<lambda>a. pbrID (pb_Name a)"
  "applyPbr C" "\<lambda>a. ''pbr-'' @ sanitizePrefixListName (pb_Name a)" buildPbrCmds
  by unfold_locales (simp add: applyPbr_def)

section \<open>Reading back\<close>

lemma on_last_snoc [simp]: "on_last f (xs @ [x]) = xs @ [f x]"
  by (simp add: on_last_def)

text \<open>An action that spells out nothing but what it does, and names that are single words.\<close>

definition pbr_readable :: "PbrSequence \<Rightarrow> bool" where
  "pbr_readable s \<longleftrightarrow>
     validatePbrSequence s = None \<and> word_string (ps_Class s)
     \<and> (let a = ps_Action s
        in (nonempty (pa_SetNexthop a) = None \<longrightarrow> pa_SetNexthop a = None \<and> pa_SetNexthopVrf a = None)
           \<and> pred_option word_string (pa_SetNexthop a) \<and> pred_option word_string (pa_SetNexthopVrf a)
           \<and> (nonempty (pa_SetNexthopGroup a) = None \<longrightarrow> pa_SetNexthopGroup a = None)
           \<and> (pa_Drop a = Some True \<or> pa_Drop a = None))"

lemma pbr_header_back:
  assumes "int64 n" and "word_string c"
  shows "applyPbrSectionLine (Itoa n @ '' class '' @ c) row
    = row\<lparr>pbr_Sequences := pbr_Sequences row @ [\<lparr>ps_Seq = n, ps_Class = c, ps_Action = no_action\<rparr>]\<rparr>"
proof -
  have "word_string ''class''" by (simp add: word_string_def space_byte_def ascii_space_def)
  with assms(2) have "Fields (Join [Itoa n, ''class'', c] '' '') = [Itoa n, ''class'', c]" by (intro Fields_Join) auto
  then have f: "Fields (Itoa n @ '' class '' @ c) = [Itoa n, ''class'', c]" by simp
  have "CutPrefix (Itoa n @ t) ''description '' = None" for t
  proof (rule ccontr)
    assume "CutPrefix (Itoa n @ t) ''description '' \<noteq> None"
    then obtain u where "Itoa n @ t = ''description '' @ u" by (auto simp: CutPrefix_iff)
    then have "hd (Itoa n) = CHR ''d''" by (metis Itoa_nonempty hd_append2 list.sel(1) append_Cons)
    with Itoa_chars [of n] hd_in_set [OF Itoa_nonempty, of n] show False by (auto simp: digits_def)
  qed
  with f assms(1) show ?thesis by (simp add: applyPbrSectionLine_def parsePbrSeqHeader_def)
qed

lemma pbr_set_line: "parsePbrSeqHeader (''set '' @ t) = None" "CutPrefix (''set '' @ t) ''description '' = None"
proof -
  have "word_string ''set''" by (simp add: word_string_def space_byte_def ascii_space_def)
  from Fields_word [OF this, of t] have "Fields (''set '' @ t) = ''set'' # Fields t" by simp
  moreover have "Atoi ''set'' = None" by code_simp
  ultimately show "parsePbrSeqHeader (''set '' @ t) = None"
    by (simp add: parsePbrSeqHeader_def split: list.split)
qed simp

lemma pbr_single_line:
  "parsePbrSeqHeader ''drop'' = None" "parsePbrSeqHeader ''exit'' = None"
  by code_simp+

lemma pbr_exit_quiet: "applyPbrSectionLine ''exit'' r = r" "applyPbrSectionLine [] r = r" "applyPbrSectionLine ''!'' r = r"
proof -
  have q: "on_last (pbr_action_line l) xs = xs" if "l \<in> {''exit'', [], ''!''}" for l xs
  proof -
    have "pbr_action_line l = id" using that by (auto simp: pbr_action_line_def fun_eq_iff)
    then show ?thesis by (simp add: on_last_def)
  qed
  have "parsePbrSeqHeader [] = None" "parsePbrSeqHeader ''!'' = None" by code_simp+
  then show "applyPbrSectionLine ''exit'' r = r" "applyPbrSectionLine [] r = r" "applyPbrSectionLine ''!'' r = r"
    by (simp_all add: applyPbrSectionLine_def pbr_single_line q)
qed

lemma pbr_sequence_back:
  assumes "pbr_readable s"
  shows "fold applyPbrSectionLine (appendPbrSequence s) row = row\<lparr>pbr_Sequences := pbr_Sequences row @ [s]\<rparr>"
proof -
  let ?a = "ps_Action s" and ?s0 = "\<lparr>ps_Seq = ps_Seq s, ps_Class = ps_Class s, ps_Action = no_action\<rparr>"
  let ?r0 = "row\<lparr>pbr_Sequences := pbr_Sequences row @ [?s0]\<rparr>"
  have v: "int64 (ps_Seq s)" "validatePbrAction ?a = None" "word_string (ps_Class s)"
    using assms by (auto simp: pbr_readable_def validatePbrSequence_def int64_def split: if_splits)
  have act: "fold applyPbrSectionLine (pbr_action_cmds ?a) ?r0 = row\<lparr>pbr_Sequences := pbr_Sequences row @ [s]\<rparr>"
  proof (cases "nonempty (pa_SetNexthop ?a)")
    case (Some h)
    then have nh: "pa_SetNexthop ?a = Some h" "h \<noteq> []" by simp_all
    note act = v(2) [unfolded validatePbrAction_def Some option.case check_chain]
    from assms act have rest: "pa_SetNexthopGroup ?a = None" "pa_Drop ?a = None" "word_string h"
      "pred_option word_string (pa_SetNexthopVrf ?a)"
      by (auto simp: pbr_readable_def Let_def nh)
    let ?ws = "h # (case pa_SetNexthopVrf ?a of Some v \<Rightarrow> [''vrf'', v] | None \<Rightarrow> [])"
    have "pa_SetNexthopVrf ?a \<noteq> Some []" using rest(4) by (auto simp: word_string_def)
    then have ne: "nonempty (pa_SetNexthopVrf ?a) = pa_SetNexthopVrf ?a" by (cases "pa_SetNexthopVrf ?a") (auto simp: nonempty_def)
    have cmd: "pbr_action_cmds ?a = [''set '' @ ''nexthop '' @ Join ?ws '' '']"
      using Some by (simp add: pbr_action_cmds_def ne del: nonempty_eq_Some split: option.split)
    have "word_string ''vrf''" by (simp add: word_string_def space_byte_def ascii_space_def)
    then have "Fields (Join ?ws '' '') = ?ws"
      using rest(3,4) by (intro Fields_Join) (cases "pa_SetNexthopVrf ?a"; auto)
    then have "applyPbrNexthop (Join ?ws '' '') ?s0 = s"
      using nh rest by (cases s; cases ?a) (auto simp: applyPbrNexthop_def no_action_def split: option.split)
    moreover have "pbr_action_line (''set '' @ ''nexthop '' @ t) = applyPbrNexthop t" for t
      by (simp add: pbr_action_line_def fun_eq_iff)
    ultimately show ?thesis
      unfolding cmd fold_simps applyPbrSectionLine_def pbr_set_line by simp
  next
    case None
    with assms have n: "pa_SetNexthop ?a = None" "pa_SetNexthopVrf ?a = None"
      by (simp_all add: pbr_readable_def Let_def del: nonempty_eq_None)
    show ?thesis
    proof (cases "nonempty (pa_SetNexthopGroup ?a)")
      case (Some g)
      note act = v(2) [unfolded validatePbrAction_def None Some option.case check_chain]
      from act assms Some have g: "pa_SetNexthopGroup ?a = Some g" "pa_Drop ?a = None"
        by (auto simp: pbr_readable_def Let_def)
      have cmd: "pbr_action_cmds ?a = [''set '' @ ''nexthop-group '' @ g]"
        using None Some by (simp add: pbr_action_cmds_def del: nonempty_eq_Some nonempty_eq_None)
      have "s = ?s0\<lparr>ps_Action := no_action\<lparr>pa_SetNexthopGroup := Some g\<rparr>\<rparr>"
        using n g by (cases s; cases ?a) (simp add: no_action_def)
      moreover have "pbr_action_line (''set '' @ ''nexthop-group '' @ g) ?s0 = ?s0\<lparr>ps_Action := no_action\<lparr>pa_SetNexthopGroup := Some g\<rparr>\<rparr>"
        by (simp add: pbr_action_line_def)
      ultimately show ?thesis unfolding cmd fold_simps applyPbrSectionLine_def pbr_set_line by simp
    next
      case no: None
      note act = v(2) [unfolded validatePbrAction_def None no option.case check_chain]
      from act assms no have d: "pa_SetNexthopGroup ?a = None" "pa_Drop ?a = Some True"
        by (auto simp: pbr_readable_def Let_def)
      have cmd: "pbr_action_cmds ?a = [''drop'']"
        using None no d(2) by (simp add: pbr_action_cmds_def del: nonempty_eq_None)
      have "s = ?s0\<lparr>ps_Action := no_action\<lparr>pa_Drop := Some True\<rparr>\<rparr>"
        using n d by (cases s; cases ?a) (simp add: no_action_def)
      moreover have "pbr_action_line ''drop'' ?s0 = ?s0\<lparr>ps_Action := no_action\<lparr>pa_Drop := Some True\<rparr>\<rparr>"
        by (simp add: pbr_action_line_def)
      ultimately show ?thesis unfolding cmd fold_simps applyPbrSectionLine_def pbr_single_line by simp
    qed
  qed
  show ?thesis
    unfolding appendPbrSequence_def fold_append comp_def fold_simps pbr_header_back [OF v(1,3)] act pbr_exit_quiet(1) ..
qed

lemma pbr_sequences_back:
  "\<forall>s\<in>set ss. pbr_readable s \<Longrightarrow>
   fold applyPbrSectionLine (concat (map appendPbrSequence ss)) row = row\<lparr>pbr_Sequences := pbr_Sequences row @ ss\<rparr>"
  by (induction ss arbitrary: row) (simp_all add: pbr_sequence_back)

text \<open>
  A text whose significant lines are those of other policy maps, our policy map with its
  sequences, and other policy maps again.
\<close>

definition pbr_idle :: "string \<Rightarrow> bool" where
  "pbr_idle l \<longleftrightarrow> l \<in> {[], ''!'', ''exit''}"

definition shows_pbr :: "PolicyBasedRoutingArgs \<Rightarrow> string \<Rightarrow> string list \<Rightarrow> string list \<Rightarrow> bool" where
  "shows_pbr a out pre post \<longleftrightarrow>
     prints pbr_idle out (pre @ [pbr_header (pb_Name a)] @ concat (map appendPbrSequence (pb_Sequences a)) @ post)
     \<and> pbr_header (pb_Name a) \<notin> set (pre @ post) \<and> (post \<noteq> [] \<longrightarrow> HasPrefix (hd post) ''policy-map '')"

interpretation pbr_scan: line_scanner "pbr_step name" pbr_idle
proof (unfold_locales, goal_cases)
  case (1 l r)
  then have "l = [] \<or> l = ''!'' \<or> l = ''exit''" by (auto simp: pbr_idle_def)
  then show ?case by (elim disjE; cases r; simp add: pbr_step_def pbr_header_def pbr_exit_quiet)
qed (auto simp: noise_def pbr_idle_def)

lemma pbr_outside:
  "pbr_header name \<notin> set ls \<Longrightarrow> fold (pbr_step name) ls (row, False, f) = (row, False, f)"
  by (induction ls) (auto simp: pbr_step_def)

definition pbr_inner :: "string \<Rightarrow> bool" where
  "pbr_inner l \<longleftrightarrow> \<not> HasPrefix l ''policy-map ''"

lemma pbr_inside:
  "list_all pbr_inner ls \<Longrightarrow>
   fold (pbr_step name) ls (row, True, True) = (fold applyPbrSectionLine ls row, True, True)"
proof (induction ls arbitrary: row)
  case (Cons l ls)
  then have "l \<noteq> pbr_header name" by (auto simp: pbr_inner_def pbr_header_def)
  with Cons show ?case by (simp add: pbr_step_def pbr_inner_def)
qed simp

lemma pbr_sequence_inner: "list_all pbr_inner (appendPbrSequence s)"
proof -
  have "\<not> HasPrefix (Itoa n @ t) ''policy-map ''" for n t
  proof
    assume "HasPrefix (Itoa n @ t) ''policy-map ''"
    then obtain u where "Itoa n @ t = ''policy-map '' @ u" by (auto simp: HasPrefix_iff simp del: HasPrefix_eval)
    then have "hd (Itoa n) = CHR ''p''" by (metis Itoa_nonempty hd_append2 list.sel(1) append_Cons)
    with Itoa_chars [of n] hd_in_set [OF Itoa_nonempty, of n] show False by (auto simp: digits_def)
  qed
  then show ?thesis
    by (auto simp: appendPbrSequence_def pbr_action_cmds_def line_if_def pbr_inner_def
        simp del: nonempty_eq_Some nonempty_eq_None split: option.split)
qed

lemma pbr_sequences_inner: "list_all pbr_inner (concat (map appendPbrSequence ss))"
  using pbr_sequence_inner by (induction ss) simp_all

lemma pbr_roundtrip:
  assumes v: "validatePbr a = None" and c: "\<forall>s\<in>set (pb_Sequences a). pbr_readable s" and s: "shows_pbr a out pre post"
  shows "\<exists>row. parsePbrSection out (pb_Name a) = Some row \<and> fillPbr row a = a"
proof -
  let ?n = "pb_Name a" and ?seqs = "concat (map appendPbrSequence (pb_Sequences a))"
  let ?row = "zero_pbrRow\<lparr>pbr_Sequences := pb_Sequences a\<rparr>"
  from s have pre: "pbr_header ?n \<notin> set pre" and post: "pbr_header ?n \<notin> set post"
    and hd: "post \<noteq> [] \<Longrightarrow> HasPrefix (hd post) ''policy-map ''"
    and p: "prints pbr_idle out (pre @ [pbr_header ?n] @ ?seqs @ post)"
    by (simp_all add: shows_pbr_def)
  have h: "pbr_step ?n (pbr_header ?n) st = (fst st, True, True)" for st by (simp add: pbr_step_def split: prod.split)
  have "scan (pbr_step ?n) out (zero_pbrRow, False, False) = fold (pbr_step ?n) post (?row, True, True)"
    unfolding pbr_scan.scan_prints [OF p] fold_append comp_def fold_simps pbr_outside [OF pre] h fst_conv
      pbr_inside [OF pbr_sequences_inner] pbr_sequences_back [OF c]
    by (simp add: zero_pbrRow_def)
  also have "\<exists>b. \<dots> = (?row, b, True)"
  proof (cases post)
    case (Cons l ls)
    with hd post have "pbr_step ?n l (?row, True, True) = (?row, False, True)" by (auto simp: pbr_step_def)
    with Cons pbr_outside [of ?n ls] post show ?thesis by auto
  qed auto
  finally obtain b where "scan (pbr_step ?n) out (zero_pbrRow, False, False) = (?row, b, True)" by blast
  then have "parsePbrSection out ?n = Some ?row" by (simp add: parsePbrSection_def)
  moreover have "pb_Sequences a \<noteq> []" using v by (auto simp: validatePbr_def split: if_splits)
  then have "fillPbr ?row a = a" by (simp add: fillPbr_def)
  ultimately show ?thesis by blast
qed

text \<open>The attachments are not read: they are always what the arguments say.\<close>

lemma pbr_attachments_unread: "pb_AttachInterfaces (fillPbr row a) = pb_AttachInterfaces a"
  by (simp add: fillPbr_def)

end
