(* ===== verification/Route_Map.thy ===== *)
theory Route_Map
  imports Prefix_List
begin

text \<open>
  \<open>internal/resources/l3/route_map.go\<close>: a route map, whose numbered entries match routes and set
  their attributes.
\<close>

definition ErrRouteMapNameRequired :: error where
  [errs]: "ErrRouteMapNameRequired = Sentinel ''routeMap name is required''"
definition ErrRouteMapEntriesEmpty :: error where
  [errs]: "ErrRouteMapEntriesEmpty =
     Sentinel ''routeMap must have at least one sequence''"
definition ErrRouteMapSeqOutOfRange :: error where
  [errs]: "ErrRouteMapSeqOutOfRange = Sentinel ''routeMap seq must be in 0..65535''"
definition ErrRouteMapSeqDuplicate :: error where
  [errs]: "ErrRouteMapSeqDuplicate =
     Sentinel ''routeMap seq numbers must be unique within the map''"
definition ErrRouteMapActionInvalid :: error where
  [errs]: "ErrRouteMapActionInvalid =
     Sentinel (''routeMap action must be '' @ [CHR 0x27] @ ''permit'' @ [CHR 0x27] @ '' or '' @ [CHR 0x27]
       @ ''deny'' @ [CHR 0x27])"
definition ErrRouteMapOriginInvalid :: error where
  [errs]: "ErrRouteMapOriginInvalid =
     Sentinel ''routeMap set origin must be one of: igp, egp, incomplete''"
definition ErrRouteMapSourceProtocol :: error where
  [errs]: "ErrRouteMapSourceProtocol =
     Sentinel ''routeMap match sourceProtocol must be one of: connected, static, isis, ospf, bgp, rip''"
definition ErrRouteMapMetricFormat :: error where
  [errs]: "ErrRouteMapMetricFormat =
     Sentinel ''routeMap set metric must be a positive integer or +N / -N delta''"
definition ErrRouteMapNextHopInvalid :: error where
  [errs]: "ErrRouteMapNextHopInvalid =
     Sentinel (''routeMap set ipNextHop must be a valid IPv4 address or '' @ [CHR 0x27] @ ''unchanged''
       @ [CHR 0x27] @ '' / '' @ [CHR 0x27] @ ''self'' @ [CHR 0x27])"
definition ErrRouteMapCommunityCombo :: error where
  [errs]: "ErrRouteMapCommunityCombo =
     Sentinel (''routeMap set community: '' @ [CHR 0x27] @ ''additive'' @ [CHR 0x27] @ '' and '' @ [CHR 0x27]
       @ ''none'' @ [CHR 0x27] @ '' are mutually exclusive'')"
definition ErrRouteMapTagOutOfRange :: error where
  [errs]: "ErrRouteMapTagOutOfRange =
     Sentinel ''routeMap match/set tag must be in 0..4294967295''"
definition ErrRouteMapLocalPrefRange :: error where
  [errs]: "ErrRouteMapLocalPrefRange =
     Sentinel ''routeMap match/set localPreference must be >= 0''"
definition ErrRouteMapAsnInvalid :: error where
  [errs]: "ErrRouteMapAsnInvalid =
     Sentinel ''routeMap set asPathPrepend ASNs must be in 1..4294967295''"
definition ErrRouteMapContinueOutRange :: error where
  [errs]: "ErrRouteMapContinueOutRange =
     Sentinel ''routeMap continue must be in 0..65535''"
definition ErrRouteMapMetricMatchRange :: error where
  [errs]: "ErrRouteMapMetricMatchRange =
     Sentinel ''routeMap match metric must be >= 0''"

definition validRouteMapOrigin :: "string set" where
  "validRouteMapOrigin = {''igp'', ''egp'', ''incomplete''}"

definition validRouteMapSourceProtocol :: "string set" where
  "validRouteMapSourceProtocol = {''connected'', ''static'', ''isis'', ''ospf'', ''bgp'', ''rip''}"

record RouteMapMatch =
  mm_IpAddressPrefixList :: "string list"
  mm_Community :: "string list"
  mm_Extcommunity :: "string list"
  mm_AsPath :: "string list"
  mm_Interface :: "string option"
  mm_Tag :: "int option"
  mm_Metric :: "int option"
  mm_LocalPreference :: "int option"
  mm_SourceProtocol :: "string option"

record RouteMapSet =
  ms_Community :: "string list"
  ms_CommunityAdditive :: "bool option"
  ms_CommunityNone :: "bool option"
  ms_ExtcommunityRt :: "string list"
  ms_ExtcommunityRtAdditive :: "bool option"
  ms_LocalPreference :: "int option"
  ms_Metric :: "string option"
  ms_AsPathPrepend :: "int list"
  ms_IpNextHop :: "string option"
  ms_Origin :: "string option"
  ms_Tag :: "int option"

record RouteMapEntry =
  me_Seq :: int
  me_Action :: string
  me_Match :: "RouteMapMatch option"
  me_Set :: "RouteMapSet option"
  me_Continue :: "int option"

record RouteMapArgs = overrides +
  rm_Name :: string
  rm_Entries :: "RouteMapEntry list"

type_synonym RouteMapState = RouteMapArgs

definition zero_match :: RouteMapMatch where
  "zero_match =
     \<lparr>mm_IpAddressPrefixList = [], mm_Community = [], mm_Extcommunity = [], mm_AsPath = [], mm_Interface = None,
      mm_Tag = None, mm_Metric = None, mm_LocalPreference = None, mm_SourceProtocol = None\<rparr>"

definition zero_set :: RouteMapSet where
  "zero_set =
     \<lparr>ms_Community = [], ms_CommunityAdditive = None, ms_CommunityNone = None, ms_ExtcommunityRt = [],
      ms_ExtcommunityRtAdditive = None, ms_LocalPreference = None, ms_Metric = None, ms_AsPathPrepend = [],
      ms_IpNextHop = None, ms_Origin = None, ms_Tag = None\<rparr>"

section \<open>Validation\<close>

definition map_tag :: "int \<Rightarrow> error option" where
  "map_tag t = (if t < 0 \<or> t > 4294967295 then Some (Got ErrRouteMapTagOutOfRange [DInt t]) else None)"

definition map_pref :: "int \<Rightarrow> error option" where
  "map_pref v = (if v < 0 then Some (Got ErrRouteMapLocalPrefRange [DInt v]) else None)"

definition validateRouteMapMatch :: "RouteMapMatch \<Rightarrow> error option" where
  "validateRouteMapMatch m =
     first_error
       [opt_err map_tag (mm_Tag m),
        opt_err (\<lambda>v. if v < 0 then Some (Got ErrRouteMapMetricMatchRange [DInt v]) else None) (mm_Metric m),
        opt_err map_pref (mm_LocalPreference m),
        opt_err (\<lambda>p. if p \<in> validRouteMapSourceProtocol then None else Some (Got ErrRouteMapSourceProtocol [DStr p]))
          (nonempty (mm_SourceProtocol m))]"

definition validRouteMapNextHop :: "string \<Rightarrow> bool" where
  "validRouteMapNextHop s \<longleftrightarrow> s = ''unchanged'' \<or> s = ''self'' \<or> ipv4_addr s"

definition validRouteMapSetMetric :: "string \<Rightarrow> bool" where
  "validRouteMapSetMetric s \<longleftrightarrow>
     s \<noteq> []
     \<and> (case Atoi (case CutPrefix s ''+'' of
                     Some body \<Rightarrow> body
                   | None \<Rightarrow> (case CutPrefix s ''-'' of Some body \<Rightarrow> body | None \<Rightarrow> s)) of
          Some v \<Rightarrow> v \<ge> 0
        | None \<Rightarrow> False)"

definition validateRouteMapSet :: "RouteMapSet \<Rightarrow> error option" where
  "validateRouteMapSet s =
     (if ms_CommunityAdditive s = Some True \<and> ms_CommunityNone s = Some True then Some ErrRouteMapCommunityCombo
      else first_error
        ([opt_err map_pref (ms_LocalPreference s), opt_err map_tag (ms_Tag s)]
         @ map (\<lambda>asn. if asn < 1 \<or> asn > 4294967295 then Some (Got ErrRouteMapAsnInvalid [DInt asn]) else None)
             (ms_AsPathPrepend s)
         @ [opt_err (\<lambda>h. if validRouteMapNextHop h then None else Some (Got ErrRouteMapNextHopInvalid [DStr h]))
              (nonempty (ms_IpNextHop s)),
            opt_err (\<lambda>v. if validRouteMapSetMetric v then None else Some (Got ErrRouteMapMetricFormat [DStr v]))
              (nonempty (ms_Metric s)),
            opt_err (\<lambda>v. if v \<in> validRouteMapOrigin then None else Some (Got ErrRouteMapOriginInvalid [DStr v]))
              (nonempty (ms_Origin s))]))"

definition validateRouteMapEntry :: "RouteMapEntry \<Rightarrow> error option" where
  "validateRouteMapEntry e =
     (if me_Seq e < 0 \<or> me_Seq e > 65535 then Some (Got ErrRouteMapSeqOutOfRange [DInt (me_Seq e)])
      else if \<not> permit_deny (me_Action e) then Some (Got ErrRouteMapActionInvalid [DStr (me_Action e)])
      else first_error
        [opt_err (\<lambda>c. if c < 0 \<or> c > 65535 then Some (Got ErrRouteMapContinueOutRange [DInt c]) else None) (me_Continue e),
         opt_err validateRouteMapMatch (me_Match e),
         opt_err validateRouteMapSet (me_Set e)])"

fun map_entries :: "int set \<Rightarrow> RouteMapEntry list \<Rightarrow> error option" where
  "map_entries seen [] = None"
| "map_entries seen (e # es) =
     (case validateRouteMapEntry e of
        Some err \<Rightarrow> Some (Wrap (''seq '' @ Itoa (me_Seq e)) err)
      | None \<Rightarrow>
          if me_Seq e \<in> seen then Some (Got ErrRouteMapSeqDuplicate [DInt (me_Seq e)])
          else map_entries (insert (me_Seq e) seen) es)"

definition validateRouteMap :: "RouteMapArgs \<Rightarrow> error option" where
  "validateRouteMap args =
     (if TrimSpace (rm_Name args) = [] then Some ErrRouteMapNameRequired
      else if rm_Entries args = [] then Some ErrRouteMapEntriesEmpty
      else map_entries {} (rm_Entries args))"

section \<open>Rendering\<close>

definition routeMapID :: "string \<Rightarrow> string" where
  "routeMapID name = ''route-map/'' @ name"

text \<open>\<open>if len(xs) > 0\<close>.\<close>

definition nonnil :: "'a list \<Rightarrow> 'a list option" where
  "nonnil xs = (if xs = [] then None else Some xs)"

text \<open>The clauses without the word \<open>match\<close> or \<open>set\<close> that they begin with.\<close>

definition match_payloads :: "RouteMapMatch \<Rightarrow> string list" where
  "match_payloads m =
     line_opt (\<lambda>ws. ''ip address prefix-list '' @ Join ws '' '') (nonnil (mm_IpAddressPrefixList m))
     @ line_opt (\<lambda>ws. ''as-path '' @ Join ws '' '') (nonnil (mm_AsPath m))
     @ line_opt (\<lambda>ws. ''community '' @ Join ws '' '') (nonnil (mm_Community m))
     @ line_opt (\<lambda>ws. ''extcommunity '' @ Join ws '' '') (nonnil (mm_Extcommunity m))
     @ line_opt (\<lambda>v. ''interface '' @ v) (nonempty (mm_Interface m))
     @ line_opt (\<lambda>v. ''local-preference '' @ Itoa v) (mm_LocalPreference m)
     @ line_opt (\<lambda>v. ''metric '' @ Itoa v) (mm_Metric m)
     @ line_opt (\<lambda>v. ''source-protocol '' @ v) (nonempty (mm_SourceProtocol m))
     @ line_opt (\<lambda>v. ''tag '' @ Itoa v) (mm_Tag m)"

definition routeMapMatchCmds :: "RouteMapMatch option \<Rightarrow> string list" where
  "routeMapMatchCmds m = (case m of None \<Rightarrow> [] | Some m \<Rightarrow> map (\<lambda>p. ''match '' @ p) (match_payloads m))"

definition additive :: "bool option \<Rightarrow> string" where
  "additive b = (if b = Some True then '' additive'' else [])"

definition set_payloads :: "RouteMapSet \<Rightarrow> string list" where
  "set_payloads s =
     line_opt (\<lambda>ns. ''as-path prepend '' @ Join (map Itoa ns) '' '') (nonnil (ms_AsPathPrepend s))
     @ (if ms_CommunityNone s = Some True then [''community none'']
        else line_opt (\<lambda>ws. ''community '' @ Join ws '' '' @ additive (ms_CommunityAdditive s)) (nonnil (ms_Community s)))
     @ map (\<lambda>rt. ''extcommunity rt '' @ rt @ additive (ms_ExtcommunityRtAdditive s)) (ms_ExtcommunityRt s)
     @ line_opt (\<lambda>v. ''ip next-hop '' @ v) (nonempty (ms_IpNextHop s))
     @ line_opt (\<lambda>v. ''local-preference '' @ Itoa v) (ms_LocalPreference s)
     @ line_opt (\<lambda>v. ''metric '' @ v) (nonempty (ms_Metric s))
     @ line_opt (\<lambda>v. ''origin '' @ v) (nonempty (ms_Origin s))
     @ line_opt (\<lambda>v. ''tag '' @ Itoa v) (ms_Tag s)"

definition routeMapSetCmds :: "RouteMapSet option \<Rightarrow> string list" where
  "routeMapSetCmds s = (case s of None \<Rightarrow> [] | Some s \<Rightarrow> map (\<lambda>p. ''set '' @ p) (set_payloads s))"

definition map_header :: "string \<Rightarrow> string" where
  "map_header name = ''route-map '' @ name @ '' ''"

definition map_clauses :: "RouteMapEntry \<Rightarrow> string list" where
  "map_clauses e =
     routeMapMatchCmds (me_Match e) @ routeMapSetCmds (me_Set e)
     @ line_opt (\<lambda>c. ''continue '' @ Itoa c) (me_Continue e) @ [''exit'']"

definition map_block :: "string \<Rightarrow> RouteMapEntry \<Rightarrow> string list" where
  "map_block name e = (map_header name @ me_Action e @ '' '' @ Itoa (me_Seq e)) # map_clauses e"

definition buildRouteMapCmds :: "RouteMapArgs \<Rightarrow> bool \<Rightarrow> string list" where
  "buildRouteMapCmds args remove =
     (if remove then [''no route-map '' @ rm_Name args]
      else [''no route-map '' @ rm_Name args]
           @ concat (map (map_block (rm_Name args)) (sort_key me_Seq (rm_Entries args))))"

definition applyRouteMap :: "('n, 'w) ctx \<Rightarrow> RouteMapArgs \<Rightarrow> bool \<Rightarrow> 'w \<Rightarrow> unit res \<times> 'w" where
  "applyRouteMap C args remove w =
     apply_session C args (''rmap-'' @ sanitizePrefixListName (rm_Name args)) (buildRouteMapCmds args remove) w"

section \<open>Parsing\<close>

definition parseRouteMapHeader :: "string \<Rightarrow> RouteMapEntry option" where
  "parseRouteMapHeader rest =
     (case Fields rest of
        t0 # t1 # _ \<Rightarrow>
          (case Atoi t1 of
             None \<Rightarrow> None
           | Some seq \<Rightarrow>
               if \<not> permit_deny t0 then None
               else Some \<lparr>me_Seq = seq, me_Action = t0, me_Match = None, me_Set = None, me_Continue = None\<rparr>)
      | _ \<Rightarrow> None)"

definition applyRouteMapMatchLine :: "string \<Rightarrow> RouteMapMatch \<Rightarrow> RouteMapMatch" where
  "applyRouteMapMatchLine payload m =
     (if HasPrefix payload ''ip address prefix-list '' then
        m\<lparr>mm_IpAddressPrefixList := Fields (TrimPrefix payload ''ip address prefix-list '')\<rparr>
      else if HasPrefix payload ''as-path '' then m\<lparr>mm_AsPath := Fields (TrimPrefix payload ''as-path '')\<rparr>
      else if HasPrefix payload ''community '' then m\<lparr>mm_Community := Fields (TrimPrefix payload ''community '')\<rparr>
      else if HasPrefix payload ''extcommunity '' then m\<lparr>mm_Extcommunity := Fields (TrimPrefix payload ''extcommunity '')\<rparr>
      else if HasPrefix payload ''interface '' then m\<lparr>mm_Interface := Some (TrimPrefix payload ''interface '')\<rparr>
      else if HasPrefix payload ''tag '' then m\<lparr>mm_Tag := atoi_ptr (mm_Tag m) (TrimPrefix payload ''tag '')\<rparr>
      else if HasPrefix payload ''metric '' then m\<lparr>mm_Metric := atoi_ptr (mm_Metric m) (TrimPrefix payload ''metric '')\<rparr>
      else if HasPrefix payload ''local-preference '' then
        m\<lparr>mm_LocalPreference := atoi_ptr (mm_LocalPreference m) (TrimPrefix payload ''local-preference '')\<rparr>
      else if HasPrefix payload ''source-protocol '' then
        m\<lparr>mm_SourceProtocol := Some (TrimPrefix payload ''source-protocol '')\<rparr>
      else m)"

definition applyRouteMapSetLine :: "string \<Rightarrow> RouteMapSet \<Rightarrow> RouteMapSet" where
  "applyRouteMapSetLine payload s =
     (if HasPrefix payload ''as-path prepend '' then
        s\<lparr>ms_AsPathPrepend := List.map_filter Atoi (Fields (TrimPrefix payload ''as-path prepend ''))\<rparr>
      else if payload = ''community none'' then s\<lparr>ms_CommunityNone := Some True\<rparr>
      else if HasPrefix payload ''community '' then
        (case CutSuffix (TrimPrefix payload ''community '') '' additive'' of
           Some rest \<Rightarrow> s\<lparr>ms_Community := Fields rest, ms_CommunityAdditive := Some True\<rparr>
         | None \<Rightarrow> s\<lparr>ms_Community := Fields (TrimPrefix payload ''community '')\<rparr>)
      else if HasPrefix payload ''extcommunity rt '' then
        (case CutSuffix (TrimPrefix payload ''extcommunity rt '') '' additive'' of
           Some rt \<Rightarrow> s\<lparr>ms_ExtcommunityRt := ms_ExtcommunityRt s @ [rt], ms_ExtcommunityRtAdditive := Some True\<rparr>
         | None \<Rightarrow> s\<lparr>ms_ExtcommunityRt := ms_ExtcommunityRt s @ [TrimPrefix payload ''extcommunity rt '']\<rparr>)
      else if HasPrefix payload ''ip next-hop '' then s\<lparr>ms_IpNextHop := Some (TrimPrefix payload ''ip next-hop '')\<rparr>
      else if HasPrefix payload ''local-preference '' then
        s\<lparr>ms_LocalPreference := atoi_ptr (ms_LocalPreference s) (TrimPrefix payload ''local-preference '')\<rparr>
      else if HasPrefix payload ''metric '' then s\<lparr>ms_Metric := Some (TrimPrefix payload ''metric '')\<rparr>
      else if HasPrefix payload ''origin '' then s\<lparr>ms_Origin := Some (TrimPrefix payload ''origin '')\<rparr>
      else if HasPrefix payload ''tag '' then s\<lparr>ms_Tag := atoi_ptr (ms_Tag s) (TrimPrefix payload ''tag '')\<rparr>
      else s)"

definition applyRouteMapClauseLine :: "string \<Rightarrow> RouteMapEntry \<Rightarrow> RouteMapEntry" where
  "applyRouteMapClauseLine line e =
     (if HasPrefix line ''match '' then
        e\<lparr>me_Match := Some (applyRouteMapMatchLine (TrimPrefix line ''match '') (opt_or zero_match (me_Match e)))\<rparr>
      else if HasPrefix line ''set '' then
        e\<lparr>me_Set := Some (applyRouteMapSetLine (TrimPrefix line ''set '') (opt_or zero_set (me_Set e)))\<rparr>
      else if HasPrefix line ''continue '' then
        e\<lparr>me_Continue := atoi_ptr (me_Continue e) (TrimPrefix line ''continue '')\<rparr>
      else e)"

text \<open>The loop body: the finished entries, and the current one.\<close>

definition map_step ::
  "string \<Rightarrow> string \<Rightarrow> RouteMapEntry list \<times> RouteMapEntry option \<Rightarrow> RouteMapEntry list \<times> RouteMapEntry option" where
  "map_step name line st =
     (case st of (entries, cur) \<Rightarrow>
        (case CutPrefix line (map_header name) of
           Some rest \<Rightarrow> (entries @ (case cur of Some e \<Rightarrow> [e] | None \<Rightarrow> []), parseRouteMapHeader rest)
         | None \<Rightarrow> (entries, map_option (applyRouteMapClauseLine line) cur)))"

definition parseRouteMapSection :: "string \<Rightarrow> string \<Rightarrow> RouteMapEntry list" where
  "parseRouteMapSection out name =
     (case scan (map_step name) out ([], None) of
        (entries, cur) \<Rightarrow> sort_key me_Seq (entries @ (case cur of Some e \<Rightarrow> [e] | None \<Rightarrow> [])))"

definition readRouteMap :: "('n, 'w) ctx \<Rightarrow> 'n client \<Rightarrow> string \<Rightarrow> 'w \<Rightarrow> RouteMapEntry list option res \<times> 'w" where
  "readRouteMap C cli name =
     read_text C cli (''show running-config | section route-map '' @ name)
       (\<lambda>out. Ok (if \<not> Contains out (map_header name) then None else Some (parseRouteMapSection out name)))"

text \<open>The entries are always taken over, also when there is none.\<close>

definition fillRouteMap :: "RouteMapEntry list \<Rightarrow> RouteMapState \<Rightarrow> RouteMapState" where
  "fillRouteMap entries s = s\<lparr>rm_Entries := entries\<rparr>"

definition RouteMap_Create ::
  "('n, 'w) ctx \<Rightarrow> RouteMapArgs request \<Rightarrow> 'w \<Rightarrow> RouteMapState created res \<times> 'w" where
  "RouteMap_Create C =
     crud_create validateRouteMap (\<lambda>a. routeMapID (rm_Name a)) (applyRouteMap C)
       (\<lambda>a. ''create route-map '' @ rm_Name a)"

definition RouteMap_Read ::
  "('n, 'w) ctx \<Rightarrow> RouteMapArgs \<Rightarrow> 'w \<Rightarrow> (RouteMapArgs, RouteMapState) read_response option res \<times> 'w" where
  "RouteMap_Read C =
     crud_read (newClient C) (\<lambda>cli a. readRouteMap C cli (rm_Name a)) (\<lambda>a. routeMapID (rm_Name a)) fillRouteMap"

definition RouteMap_Update :: "('n, 'w) ctx \<Rightarrow> RouteMapArgs request \<Rightarrow> 'w \<Rightarrow> RouteMapState res \<times> 'w" where
  "RouteMap_Update C =
     crud_update validateRouteMap (applyRouteMap C)
       (\<lambda>a. ''update route-map '' @ rm_Name a)"

definition RouteMap_Delete :: "('n, 'w) ctx \<Rightarrow> RouteMapState \<Rightarrow> 'w \<Rightarrow> unit res \<times> 'w" where
  "RouteMap_Delete C =
     crud_delete (applyRouteMap C)
       (\<lambda>a. ''delete route-map '' @ rm_Name a)"

interpretation route_map_mgr: session_managed C validateRouteMap "\<lambda>a. routeMapID (rm_Name a)"
  "applyRouteMap C" "\<lambda>a. ''rmap-'' @ sanitizePrefixListName (rm_Name a)" buildRouteMapCmds
  by unfold_locales (simp add: applyRouteMap_def)

section \<open>The order of the entries\<close>

lemma map_entries_None:
  "map_entries seen es = None \<longleftrightarrow>
     (\<forall>e\<in>set es. validateRouteMapEntry e = None) \<and> distinct (map me_Seq es) \<and> me_Seq ` set es \<inter> seen = {}"
  by (induction es arbitrary: seen) (auto split: option.split)

lemma validateRouteMap_None:
  assumes "validateRouteMap a = None"
  shows "\<forall>e\<in>set (rm_Entries a). validateRouteMapEntry e = None" and "distinct (map me_Seq (rm_Entries a))"
    and "rm_Entries a \<noteq> []"
  using assms by (auto simp: validateRouteMap_def map_entries_None split: if_splits)

lemma route_map_order_irrelevant:
  assumes "validateRouteMap a = None" and "mset es = mset (rm_Entries a)"
  shows "buildRouteMapCmds (a\<lparr>rm_Entries := es\<rparr>) rm = buildRouteMapCmds a rm"
  using sort_key_order [OF assms(2) validateRouteMap_None(2) [OF assms(1)]]
  by (simp add: buildRouteMapCmds_def)

section \<open>Reading back a match and a set\<close>

definition words :: "string list \<Rightarrow> bool" where
  "words ws \<longleftrightarrow> list_all word_string ws"

lemma Fields_words: "words ws \<Longrightarrow> Fields (Join ws '' '') = ws"
  by (intro Fields_Join) (auto simp: words_def list_all_iff)

lemma nonnil_readable: "P xs \<Longrightarrow> pred_option P (nonnil xs)"
  by (simp add: nonnil_def)

lemma opt_or_nonnil [simp]: "opt_or [] (nonnil xs) = xs"
  by (simp add: nonnil_def)

interpretation mm_prefix: attribute applyRouteMapMatchLine "\<lambda>ws. ''ip address prefix-list '' @ Join ws '' ''" words
  mm_IpAddressPrefixList "\<lambda>v r. r\<lparr>mm_IpAddressPrefixList := v\<rparr>"
  by unfold_locales (simp_all add: applyRouteMapMatchLine_def Fields_words)

interpretation mm_aspath: attribute applyRouteMapMatchLine "\<lambda>ws. ''as-path '' @ Join ws '' ''" words
  mm_AsPath "\<lambda>v r. r\<lparr>mm_AsPath := v\<rparr>"
  by unfold_locales (simp_all add: applyRouteMapMatchLine_def Fields_words)

interpretation mm_community: attribute applyRouteMapMatchLine "\<lambda>ws. ''community '' @ Join ws '' ''" words
  mm_Community "\<lambda>v r. r\<lparr>mm_Community := v\<rparr>"
  by unfold_locales (simp_all add: applyRouteMapMatchLine_def Fields_words)

interpretation mm_extcommunity: attribute applyRouteMapMatchLine "\<lambda>ws. ''extcommunity '' @ Join ws '' ''" words
  mm_Extcommunity "\<lambda>v r. r\<lparr>mm_Extcommunity := v\<rparr>"
  by unfold_locales (simp_all add: applyRouteMapMatchLine_def Fields_words)

interpretation mm_interface: pointer applyRouteMapMatchLine "\<lambda>v. ''interface '' @ v" "\<lambda>_. True"
  mm_Interface "\<lambda>v r. r\<lparr>mm_Interface := v\<rparr>"
  by unfold_locales (simp_all add: applyRouteMapMatchLine_def)
interpretation mm_pref: pointer applyRouteMapMatchLine "\<lambda>v. ''local-preference '' @ Itoa v" int64
  mm_LocalPreference "\<lambda>v r. r\<lparr>mm_LocalPreference := v\<rparr>"
  by unfold_locales (simp_all add: applyRouteMapMatchLine_def)
interpretation mm_metric: pointer applyRouteMapMatchLine "\<lambda>v. ''metric '' @ Itoa v" int64
  mm_Metric "\<lambda>v r. r\<lparr>mm_Metric := v\<rparr>"
  by unfold_locales (simp_all add: applyRouteMapMatchLine_def)
interpretation mm_source: pointer applyRouteMapMatchLine "\<lambda>v. ''source-protocol '' @ v" "\<lambda>_. True"
  mm_SourceProtocol "\<lambda>v r. r\<lparr>mm_SourceProtocol := v\<rparr>"
  by unfold_locales (simp_all add: applyRouteMapMatchLine_def)
interpretation mm_tag: pointer applyRouteMapMatchLine "\<lambda>v. ''tag '' @ Itoa v" int64
  mm_Tag "\<lambda>v r. r\<lparr>mm_Tag := v\<rparr>"
  by unfold_locales (simp_all add: applyRouteMapMatchLine_def)

text \<open>Lists of single words, and no pointer to an empty text.\<close>

definition match_readable :: "RouteMapMatch \<Rightarrow> bool" where
  "match_readable m \<longleftrightarrow>
     words (mm_IpAddressPrefixList m) \<and> words (mm_AsPath m) \<and> words (mm_Community m) \<and> words (mm_Extcommunity m)
     \<and> mm_Interface m \<noteq> Some [] \<and> mm_SourceProtocol m \<noteq> Some []
     \<and> pred_option int64 (mm_LocalPreference m) \<and> pred_option int64 (mm_Metric m) \<and> pred_option int64 (mm_Tag m)"

lemma nonempty_id: "p \<noteq> Some [] \<Longrightarrow> nonempty p = p"
  by (cases p) (auto simp: nonempty_def)

lemma match_back:
  assumes "match_readable m"
  shows "fold applyRouteMapMatchLine (match_payloads m) zero_match = m"
proof -
  have p: "nonempty (mm_Interface m) = mm_Interface m" "nonempty (mm_SourceProtocol m) = mm_SourceProtocol m"
    using assms by (simp_all add: match_readable_def nonempty_id)
  have i: "pred_option int64 (mm_LocalPreference m)" "pred_option int64 (mm_Metric m)" "pred_option int64 (mm_Tag m)"
    and w: "words (mm_IpAddressPrefixList m)" "words (mm_AsPath m)" "words (mm_Community m)" "words (mm_Extcommunity m)"
    using assms by (simp_all add: match_readable_def)
  show ?thesis
    unfolding match_payloads_def p fold_append comp_def
      mm_prefix.fold_attr [OF nonnil_readable, OF w(1)] mm_aspath.fold_attr [OF nonnil_readable, OF w(2)]
      mm_community.fold_attr [OF nonnil_readable, OF w(3)] mm_extcommunity.fold_attr [OF nonnil_readable, OF w(4)]
      mm_interface.fold_pointer [OF any_readable] mm_pref.fold_pointer [OF i(1)] mm_metric.fold_pointer [OF i(2)]
      mm_source.fold_pointer [OF any_readable] mm_tag.fold_pointer [OF i(3)]
    by (simp add: zero_match_def)
qed

interpretation ms_nexthop: pointer applyRouteMapSetLine "\<lambda>v. ''ip next-hop '' @ v" "\<lambda>_. True"
  ms_IpNextHop "\<lambda>v r. r\<lparr>ms_IpNextHop := v\<rparr>"
  by unfold_locales (simp_all add: applyRouteMapSetLine_def)
interpretation ms_pref: pointer applyRouteMapSetLine "\<lambda>v. ''local-preference '' @ Itoa v" int64
  ms_LocalPreference "\<lambda>v r. r\<lparr>ms_LocalPreference := v\<rparr>"
  by unfold_locales (simp_all add: applyRouteMapSetLine_def)
interpretation ms_metric: pointer applyRouteMapSetLine "\<lambda>v. ''metric '' @ v" "\<lambda>_. True"
  ms_Metric "\<lambda>v r. r\<lparr>ms_Metric := v\<rparr>"
  by unfold_locales (simp_all add: applyRouteMapSetLine_def)
interpretation ms_origin: pointer applyRouteMapSetLine "\<lambda>v. ''origin '' @ v" "\<lambda>_. True"
  ms_Origin "\<lambda>v r. r\<lparr>ms_Origin := v\<rparr>"
  by unfold_locales (simp_all add: applyRouteMapSetLine_def)
interpretation ms_tag: pointer applyRouteMapSetLine "\<lambda>v. ''tag '' @ Itoa v" int64
  ms_Tag "\<lambda>v r. r\<lparr>ms_Tag := v\<rparr>"
  by unfold_locales (simp_all add: applyRouteMapSetLine_def)

lemma Atoi_Itoas: "list_all int64 ns \<Longrightarrow> List.map_filter Atoi (map Itoa ns) = ns"
  by (induction ns) (simp_all add: map_filter_simps)

interpretation ms_prepend: attribute applyRouteMapSetLine "\<lambda>ns. ''as-path prepend '' @ Join (map Itoa ns) '' ''" "list_all int64"
  ms_AsPathPrepend "\<lambda>v r. r\<lparr>ms_AsPathPrepend := v\<rparr>"
proof (unfold_locales, goal_cases)
  case (1 ns r)
  have "Fields (Join (map Itoa ns) '' '') = map Itoa ns" by (rule Fields_Join) auto
  with 1 show ?case by (simp add: applyRouteMapSetLine_def Atoi_Itoas)
qed simp

text \<open>The words of a set community: none that would be taken for a keyword.\<close>

definition community_words :: "string list \<Rightarrow> bool" where
  "community_words ws \<longleftrightarrow> words ws \<and> ''additive'' \<notin> set ws \<and> ''none'' \<notin> set ws"

lemma Join_last: "ws \<noteq> [] \<Longrightarrow> \<exists>p. Join ws '' '' = p @ last ws \<and> (p = [] \<or> last p = CHR '' '')"
proof (induction ws "'' ''" rule: Join.induct)
  case (3 x y ys)
  then obtain p where "Join (y # ys) '' '' = p @ last (y # ys)" "p = [] \<or> last p = CHR '' ''" by blast
  then have "Join (x # y # ys) '' '' = (x @ '' '' @ p) @ last (x # y # ys)" by simp
  moreover have "last (x @ '' '' @ p) = CHR '' ''" using \<open>p = [] \<or> last p = CHR '' ''\<close> by (cases "p = []") simp_all
  ultimately show ?case by blast
next
  case (2 x)
  show ?case by (rule exI [of _ "[]"]) simp
qed simp

lemma last_word:
  assumes e: "p @ w = (r @ [CHR '' '']) @ k" and w: "CHR '' '' \<notin> set w" and k: "CHR '' '' \<notin> set k"
    and p: "p = [] \<or> last p = CHR '' ''"
  shows "w = k"
proof -
  have "rev (p @ w) = rev ((r @ [CHR '' '']) @ k)" using e by (rule arg_cong)
  then have e': "rev w @ rev p = rev k @ CHR '' '' # rev r" by simp
  show ?thesis
  proof (cases "p = []")
    case True
    with e have "CHR '' '' \<in> set w" by simp
    with w show ?thesis by simp
  next
    case False
    with p have "p = butlast p @ [CHR '' '']" by (metis append_butlast_last_id)
    then have "rev p = CHR '' '' # rev (butlast p)" by (metis rev_eq_Cons_iff rev_rev_ident)
    with e' have "rev w @ CHR '' '' # rev (butlast p) = rev k @ CHR '' '' # rev r" by simp
    then have "split_at (CHR '' '') (rev w @ CHR '' '' # rev (butlast p)) = split_at (CHR '' '') (rev k @ CHR '' '' # rev r)"
      by (rule arg_cong)
    with w k have "rev w = rev k" by (simp add: split_at_append_delim)
    then show ?thesis by simp
  qed
qed

lemma no_additive_suffix:
  assumes "words ws" and "ws \<noteq> []" and "''additive'' \<notin> set ws"
  shows "CutSuffix (Join ws '' '') '' additive'' = None"
proof (rule ccontr)
  assume "CutSuffix (Join ws '' '') '' additive'' \<noteq> None"
  then obtain r where r: "Join ws '' '' = (r @ [CHR '' '']) @ ''additive''" by (auto simp: CutSuffix_iff)
  obtain p where p: "Join ws '' '' = p @ last ws" "p = [] \<or> last p = CHR '' ''" using Join_last [OF assms(2)] by blast
  have l: "last ws \<in> set ws" using assms(2) by simp
  with assms(1) have "word_string (last ws)" by (simp add: words_def list_all_iff)
  then have "CHR '' '' \<notin> set (last ws)" by (auto simp: word_string_def space_byte_def ascii_space_def)
  from last_word [OF _ this _ p(2), of r "''additive''"] r p(1) have "last ws = ''additive''" by simp
  with l assms(3) show False by simp
qed

lemma community_not_none:
  assumes "words ws" and "''none'' \<notin> set ws"
  shows "Join ws '' '' \<noteq> ''none''"
proof
  assume j: "Join ws '' '' = ''none''"
  have "Fields ''none'' = [''none'']" by code_simp
  with Fields_words [OF assms(1)] j have "ws = [''none'']" by simp
  with assms(2) show False by simp
qed

definition set_readable :: "RouteMapSet \<Rightarrow> bool" where
  "set_readable s \<longleftrightarrow>
     list_all int64 (ms_AsPathPrepend s) \<and> community_words (ms_Community s)
     \<and> ms_CommunityAdditive s \<in> {None, Some True} \<and> (ms_CommunityAdditive s = Some True \<longrightarrow> ms_Community s \<noteq> [])
     \<and> ms_CommunityNone s \<in> {None, Some True}
     \<and> (ms_CommunityNone s = Some True \<longrightarrow> ms_Community s = [])
     \<and> words (ms_ExtcommunityRt s)
     \<and> ms_ExtcommunityRtAdditive s \<in> {None, Some True} \<and> (ms_ExtcommunityRtAdditive s = Some True \<longrightarrow> ms_ExtcommunityRt s \<noteq> [])
     \<and> ms_IpNextHop s \<noteq> Some [] \<and> ms_Metric s \<noteq> Some [] \<and> ms_Origin s \<noteq> Some []
     \<and> pred_option int64 (ms_LocalPreference s) \<and> pred_option int64 (ms_Tag s)"

lemma set_community_back:
  assumes s: "set_readable s" and z: "ms_Community r = []" "ms_CommunityAdditive r = None" "ms_CommunityNone r = None"
  shows "fold applyRouteMapSetLine
      (if ms_CommunityNone s = Some True then [''community none'']
       else line_opt (\<lambda>ws. ''community '' @ Join ws '' '' @ additive (ms_CommunityAdditive s)) (nonnil (ms_Community s))) r
    = r\<lparr>ms_Community := ms_Community s, ms_CommunityAdditive := ms_CommunityAdditive s, ms_CommunityNone := ms_CommunityNone s\<rparr>"
proof (cases "ms_CommunityNone s = Some True")
  case True
  with s z show ?thesis by (cases r) (auto simp: set_readable_def applyRouteMapSetLine_def)
next
  case False
  with s have n: "ms_CommunityNone s = None" by (auto simp: set_readable_def)
  have cw: "words (ms_Community s)" "''additive'' \<notin> set (ms_Community s)" "''none'' \<notin> set (ms_Community s)"
    using s by (simp_all add: set_readable_def community_words_def)
  show ?thesis
  proof (cases "ms_Community s = []")
    case True
    with s z n show ?thesis by (cases r) (auto simp: set_readable_def nonnil_def)
  next
    case ne: False
    let ?j = "Join (ms_Community s) '' ''"
    have f: "Fields ?j = ms_Community s" by (rule Fields_words [OF cw(1)])
    have body: "applyRouteMapSetLine (''community '' @ t) r
        = (case CutSuffix t '' additive'' of
             Some rest \<Rightarrow> r\<lparr>ms_Community := Fields rest, ms_CommunityAdditive := Some True\<rparr>
           | None \<Rightarrow> r\<lparr>ms_Community := Fields t\<rparr>)" if "t \<noteq> ''none''" for t
      using that by (simp add: applyRouteMapSetLine_def split: option.split)
    show ?thesis
    proof (cases "ms_CommunityAdditive s = Some True")
      case True
      have "?j @ '' additive'' \<noteq> ''none''" by (cases ?j rule: rev_cases) auto
      from body [OF this] CutSuffix_append [of ?j "'' additive''"] f True n z ne show ?thesis
        by (cases r) (simp add: nonnil_def additive_def)
    next
      case False
      with s have "ms_CommunityAdditive s = None" by (auto simp: set_readable_def)
      with body [OF community_not_none [OF cw(1,3)]] no_additive_suffix [OF cw(1) ne cw(2)] f n z ne show ?thesis
        by (cases r) (simp add: nonnil_def additive_def)
    qed
  qed
qed

lemma no_additive_word: "word_string w \<Longrightarrow> CutSuffix w '' additive'' = None"
proof (rule ccontr)
  assume "word_string w" "CutSuffix w '' additive'' \<noteq> None"
  then obtain r where "w = r @ '' additive''" by (auto simp: CutSuffix_iff)
  with \<open>word_string w\<close> show False by (auto simp: word_string_def space_byte_def ascii_space_def)
qed

lemma set_rt_back:
  assumes "words rts"
  shows "fold applyRouteMapSetLine (map (\<lambda>rt. ''extcommunity rt '' @ rt @ additive b) rts) r
    = r\<lparr>ms_ExtcommunityRt := ms_ExtcommunityRt r @ rts,
        ms_ExtcommunityRtAdditive := set_some (if b = Some True \<and> rts \<noteq> [] then Some True else None) (ms_ExtcommunityRtAdditive r)\<rparr>"
  using assms
proof (induction rts arbitrary: r)
  case (Cons rt rts)
  then have "word_string rt" and ws: "words rts" by (simp_all add: words_def)
  then have "CutSuffix rt '' additive'' = None" by (simp add: no_additive_word)
  moreover have "applyRouteMapSetLine (''extcommunity rt '' @ t) r
      = (case CutSuffix t '' additive'' of
           Some rt \<Rightarrow> r\<lparr>ms_ExtcommunityRt := ms_ExtcommunityRt r @ [rt], ms_ExtcommunityRtAdditive := Some True\<rparr>
         | None \<Rightarrow> r\<lparr>ms_ExtcommunityRt := ms_ExtcommunityRt r @ [t]\<rparr>)" for t
    by (simp add: applyRouteMapSetLine_def split: option.split)
  ultimately have "applyRouteMapSetLine (''extcommunity rt '' @ rt @ additive b) r
      = r\<lparr>ms_ExtcommunityRt := ms_ExtcommunityRt r @ [rt],
          ms_ExtcommunityRtAdditive := (if b = Some True then Some True else ms_ExtcommunityRtAdditive r)\<rparr>"
    using CutSuffix_append [of rt "'' additive''"] by (simp add: additive_def)
  with Cons.IH [OF ws] show ?case by simp
qed simp

lemma set_back:
  assumes s: "set_readable s"
  shows "fold applyRouteMapSetLine (set_payloads s) zero_set = s"
proof -
  have p: "nonempty (ms_IpNextHop s) = ms_IpNextHop s" "nonempty (ms_Metric s) = ms_Metric s" "nonempty (ms_Origin s) = ms_Origin s"
    and i: "pred_option int64 (ms_LocalPreference s)" "pred_option int64 (ms_Tag s)"
    and n: "list_all int64 (ms_AsPathPrepend s)" and rt: "words (ms_ExtcommunityRt s)"
    using s by (simp_all add: set_readable_def nonempty_id)
  have a: "(if ms_ExtcommunityRtAdditive s = Some True \<and> ms_ExtcommunityRt s \<noteq> [] then Some True else None) = ms_ExtcommunityRtAdditive s"
    using s by (auto simp: set_readable_def)
  let ?r1 = "zero_set\<lparr>ms_AsPathPrepend := ms_AsPathPrepend s\<rparr>"
  have c: "ms_Community ?r1 = []" "ms_CommunityAdditive ?r1 = None" "ms_CommunityNone ?r1 = None" by (simp_all add: zero_set_def)
  have "opt_or (ms_AsPathPrepend zero_set) (nonnil (ms_AsPathPrepend s)) = ms_AsPathPrepend s" by (simp add: zero_set_def)
  note prepend = ms_prepend.fold_attr [OF nonnil_readable, OF n, of zero_set, unfolded this]
  show ?thesis
    unfolding set_payloads_def p fold_append comp_def prepend set_community_back [OF s c] set_rt_back [OF rt] a
      ms_nexthop.fold_pointer [OF any_readable] ms_pref.fold_pointer [OF i(1)] ms_metric.fold_pointer [OF any_readable]
      ms_origin.fold_pointer [OF any_readable] ms_tag.fold_pointer [OF i(2)]
    by (simp add: zero_set_def)
qed

section \<open>Reading back the entries\<close>

definition entry_readable :: "RouteMapEntry \<Rightarrow> bool" where
  "entry_readable e \<longleftrightarrow>
     pred_option (\<lambda>m. match_readable m \<and> match_payloads m \<noteq> []) (me_Match e)
     \<and> pred_option (\<lambda>s. set_readable s \<and> set_payloads s \<noteq> []) (me_Set e)"

lemma fold_match_clauses:
  "ps \<noteq> [] \<Longrightarrow> fold applyRouteMapClauseLine (map (\<lambda>p. ''match '' @ p) ps) e
     = e\<lparr>me_Match := Some (fold applyRouteMapMatchLine ps (opt_or zero_match (me_Match e)))\<rparr>"
proof -
  have step: "applyRouteMapClauseLine (''match '' @ p) e
      = e\<lparr>me_Match := Some (applyRouteMapMatchLine p (opt_or zero_match (me_Match e)))\<rparr>" for p e
    by (simp add: applyRouteMapClauseLine_def)
  have "fold applyRouteMapClauseLine (map (\<lambda>p. ''match '' @ p) ps) (e\<lparr>me_Match := Some m\<rparr>)
      = e\<lparr>me_Match := Some (fold applyRouteMapMatchLine ps m)\<rparr>" for m ps
    by (induction ps arbitrary: m) (simp_all add: step del: append.simps)
  moreover assume "ps \<noteq> []"
  ultimately show ?thesis by (cases ps) (simp_all add: step del: append.simps)
qed

lemma fold_set_clauses:
  "ps \<noteq> [] \<Longrightarrow> fold applyRouteMapClauseLine (map (\<lambda>p. ''set '' @ p) ps) e
     = e\<lparr>me_Set := Some (fold applyRouteMapSetLine ps (opt_or zero_set (me_Set e)))\<rparr>"
proof -
  have step: "applyRouteMapClauseLine (''set '' @ p) e
      = e\<lparr>me_Set := Some (applyRouteMapSetLine p (opt_or zero_set (me_Set e)))\<rparr>" for p e
    by (simp add: applyRouteMapClauseLine_def)
  have "fold applyRouteMapClauseLine (map (\<lambda>p. ''set '' @ p) ps) (e\<lparr>me_Set := Some m\<rparr>)
      = e\<lparr>me_Set := Some (fold applyRouteMapSetLine ps m)\<rparr>" for m ps
    by (induction ps arbitrary: m) (simp_all add: step del: append.simps)
  moreover assume "ps \<noteq> []"
  ultimately show ?thesis by (cases ps) (simp_all add: step del: append.simps)
qed

interpretation me_continue: pointer applyRouteMapClauseLine "\<lambda>c. ''continue '' @ Itoa c" int64
  me_Continue "\<lambda>v r. r\<lparr>me_Continue := v\<rparr>"
  by unfold_locales (simp_all add: applyRouteMapClauseLine_def)

lemma clause_quiet: "applyRouteMapClauseLine ''exit'' e = e" "applyRouteMapClauseLine [] e = e"
  "applyRouteMapClauseLine ''!'' e = e"
  by (simp_all add: applyRouteMapClauseLine_def)

definition blank_entry :: "RouteMapEntry \<Rightarrow> RouteMapEntry" where
  "blank_entry e = \<lparr>me_Seq = me_Seq e, me_Action = me_Action e, me_Match = None, me_Set = None, me_Continue = None\<rparr>"

lemma validateRouteMapEntry_None:
  assumes "validateRouteMapEntry e = None"
  shows "int64 (me_Seq e)" and "permit_deny (me_Action e)" and "pred_option int64 (me_Continue e)"
proof -
  note v = assms [unfolded validateRouteMapEntry_def check_chain first_error_None]
  from v show "int64 (me_Seq e)" "permit_deny (me_Action e)" by (auto simp: int64_def)
  from v show "pred_option int64 (me_Continue e)"
    by (cases "me_Continue e") (auto simp: opt_err_def int64_def split: if_splits)
qed

lemma clauses_back:
  assumes v: "validateRouteMapEntry e = None" and r: "entry_readable e"
  shows "fold applyRouteMapClauseLine (map_clauses e) (blank_entry e) = e"
proof -
  note c = validateRouteMapEntry_None(3) [OF v]
  have m: "fold applyRouteMapClauseLine (routeMapMatchCmds (me_Match e)) (blank_entry e) = (blank_entry e)\<lparr>me_Match := me_Match e\<rparr>"
    using r by (cases "me_Match e") (simp_all add: routeMapMatchCmds_def entry_readable_def fold_match_clauses match_back blank_entry_def)
  have s: "fold applyRouteMapClauseLine (routeMapSetCmds (me_Set e)) ((blank_entry e)\<lparr>me_Match := me_Match e\<rparr>)
      = (blank_entry e)\<lparr>me_Match := me_Match e, me_Set := me_Set e\<rparr>"
    using r by (cases "me_Set e") (simp_all add: routeMapSetCmds_def entry_readable_def fold_set_clauses set_back blank_entry_def)
  show ?thesis
    unfolding map_clauses_def fold_append comp_def m s me_continue.fold_pointer [OF c] fold_simps clause_quiet
    by (simp add: blank_entry_def)
qed

lemma header_back:
  assumes "int64 n" and "permit_deny act"
  shows "parseRouteMapHeader (act @ '' '' @ Itoa n)
    = Some \<lparr>me_Seq = n, me_Action = act, me_Match = None, me_Set = None, me_Continue = None\<rparr>"
proof -
  have "Fields (Join [act, Itoa n] '' '') = [act, Itoa n]"
    by (rule Fields_Join) (use permit_deny_word [OF assms(2)] in auto)
  then have "Fields (act @ '' '' @ Itoa n) = [act, Itoa n]" by simp
  with assms show ?thesis by (simp add: parseRouteMapHeader_def)
qed

text \<open>A line that begins no entry of ours is a clause of the current entry, whatever it says.\<close>

definition map_inner :: "string \<Rightarrow> string \<Rightarrow> bool" where
  "map_inner name l \<longleftrightarrow> \<not> HasPrefix l (map_header name)"

lemma map_inside:
  "list_all (map_inner name) ls \<Longrightarrow>
   fold (map_step name) ls (es, Some e) = (es, Some (fold applyRouteMapClauseLine ls e))"
  by (induction ls arbitrary: e) (auto simp: map_step_def map_inner_def HasPrefix_def split: option.splits)

lemma map_clauses_inner: "list_all (map_inner name) (map_clauses e)"
  by (auto simp: map_clauses_def routeMapMatchCmds_def routeMapSetCmds_def map_inner_def map_header_def list_all_iff
      line_opt_def split: option.splits)

lemma map_block_back:
  assumes v: "validateRouteMapEntry e = None" and r: "entry_readable e"
  shows "fold (map_step name) (map_block name e) (es, cur) = (es @ (case cur of Some c \<Rightarrow> [c] | None \<Rightarrow> []), Some e)"
proof -
  note v' = validateRouteMapEntry_None [OF v]
  have "map_step name (map_header name @ me_Action e @ '' '' @ Itoa (me_Seq e)) (es, cur)
      = (es @ (case cur of Some c \<Rightarrow> [c] | None \<Rightarrow> []), Some (blank_entry e))"
    unfolding map_step_def prod.case CutPrefix_append option.case header_back [OF v'(1,2)] blank_entry_def ..
  then show ?thesis
    unfolding map_block_def fold_simps by (simp only: map_inside [OF map_clauses_inner] clauses_back [OF v r])
qed

definition open_entries :: "RouteMapEntry list \<times> RouteMapEntry option \<Rightarrow> RouteMapEntry list" where
  "open_entries st = fst st @ (case snd st of Some c \<Rightarrow> [c] | None \<Rightarrow> [])"

lemma map_blocks_back:
  "\<forall>e\<in>set es. validateRouteMapEntry e = None \<and> entry_readable e \<Longrightarrow>
   open_entries (fold (map_step name) (concat (map (map_block name) es)) st) = open_entries st @ es"
proof (induction es arbitrary: st)
  case (Cons e es)
  obtain xs cur where st: "st = (xs, cur)" by (cases st)
  from Cons.prems have "fold (map_step name) (map_block name e) st = (open_entries st, Some e)"
    by (simp add: st map_block_back open_entries_def)
  with Cons show ?case by (simp add: open_entries_def)
qed simp

definition map_idle :: "string \<Rightarrow> bool" where
  "map_idle l \<longleftrightarrow> l \<in> {[], ''!'', ''exit''}"

interpretation map_scan: line_scanner "map_step name" map_idle
proof (unfold_locales, goal_cases)
  case (1 l st)
  then have "l = [] \<or> l = ''!'' \<or> l = ''exit''" by (auto simp: map_idle_def)
  then have "CutPrefix l (map_header name) = None" and "applyRouteMapClauseLine l = (\<lambda>e. e)"
    by (auto simp: map_header_def clause_quiet fun_eq_iff)
  then show ?case by (cases st) (simp add: map_step_def option.map_ident)
qed (auto simp: noise_def map_idle_def)

lemma parseRouteMapSection_open:
  "parseRouteMapSection out name = sort_key me_Seq (open_entries (scan (map_step name) out ([], None)))"
  by (simp add: parseRouteMapSection_def open_entries_def split: prod.split)

text \<open>The section of our map alone gives its entries back, in the order of their numbers.\<close>

lemma route_map_back:
  assumes v: "validateRouteMap a = None" and r: "\<forall>e\<in>set (rm_Entries a). entry_readable e"
    and p: "prints map_idle out (tl (buildRouteMapCmds a False))"
  shows "parseRouteMapSection out (rm_Name a) = sort_key me_Seq (rm_Entries a)"
proof -
  have e: "\<forall>e\<in>set (sort_key me_Seq (rm_Entries a)). validateRouteMapEntry e = None \<and> entry_readable e"
    using validateRouteMap_None(1) [OF v] r by simp
  have t: "tl (buildRouteMapCmds a False) = concat (map (map_block (rm_Name a)) (sort_key me_Seq (rm_Entries a)))"
    by (simp add: buildRouteMapCmds_def)
  have "sort_key me_Seq (sort_key me_Seq (rm_Entries a)) = sort_key me_Seq (rm_Entries a)"
    by (rule sort_key_order [OF _ validateRouteMap_None(2) [OF v]]) simp
  then show ?thesis
    unfolding parseRouteMapSection_open map_scan.scan_prints [OF p] t map_blocks_back [OF e]
    by (simp add: open_entries_def)
qed

text \<open>
  The device's section for a name holds every map whose header contains the name.  The clauses
  of a map behind ours whose name only begins like ours end up in our last entry.
\<close>

lemma route_map_neighbour:
  assumes p: "prints map_idle out (map_block name e @ ls)" and v: "validateRouteMapEntry e = None" and r: "entry_readable e"
    and l: "list_all (map_inner name) ls"
  shows "parseRouteMapSection out name = [fold applyRouteMapClauseLine ls e]"
  unfolding parseRouteMapSection_open map_scan.scan_prints [OF p] fold_append comp_def map_block_back [OF v r]
    map_inside [OF l]
  by (simp add: open_entries_def)

text \<open>The reader finds the map when its text begins with a header of it.\<close>

lemma route_map_contained:
  assumes "prints map_idle out (map_block name e @ ls)"
  shows "Contains out (map_header name)"
proof -
  have "Contains out (map_header name @ me_Action e @ '' '' @ Itoa (me_Seq e))"
    by (rule prints_Contains [OF assms]) (auto simp: map_block_def map_idle_def map_header_def)
  moreover have "Contains (map_header name @ t) (map_header name)" for t
    using Contains_infix [of "[]" "map_header name" t] by simp
  ultimately show ?thesis by (rule Contains_trans)
qed

lemma built_blocks:
  assumes "validateRouteMap a = None"
  shows "\<exists>e es. sort_key me_Seq (rm_Entries a) = e # es
    \<and> tl (buildRouteMapCmds a False) = map_block (rm_Name a) e @ concat (map (map_block (rm_Name a)) es)"
proof -
  have "rm_Entries a \<noteq> []" using assms by (auto simp: validateRouteMap_def split: if_splits)
  then have "sort_key me_Seq (rm_Entries a) \<noteq> []" by (metis length_0_conv length_sort)
  then obtain e es where "sort_key me_Seq (rm_Entries a) = e # es" by (meson neq_Nil_conv)
  then show ?thesis by (auto simp: buildRouteMapCmds_def)
qed

text \<open>The lines of a map whose name continues ours are no headers of ours.\<close>

lemma neighbour_inner:
  assumes "x \<noteq> []" and "hd x \<noteq> CHR '' ''" and "rm_Name b = name @ x"
  shows "list_all (map_inner name) (tl (buildRouteMapCmds b False))"
proof -
  obtain c cs where x: "x = c # cs" "c \<noteq> CHR '' ''" using assms(1,2) by (cases x) auto
  have "\<not> HasPrefix (map_header (rm_Name b) @ t) (map_header name)" for t
    using x by (auto simp: map_header_def assms(3) HasPrefix_iff simp del: HasPrefix_eval)
  then have "list_all (map_inner name) (map_block (rm_Name b) e)" for e
    using map_clauses_inner by (simp add: map_block_def map_inner_def)
  then have "list_all (map_inner name) (concat (map (map_block (rm_Name b)) es))" for es
    by (induction es) simp_all
  then show ?thesis by (simp add: buildRouteMapCmds_def)
qed

end
