(* ===== verification/Router_Bgp.thy ===== *)
theory Router_Bgp
  imports Prefix_List "HOL-Library.List_Lexorder" "HOL-Library.Char_ord"
begin

text \<open>
  \<open>internal/resources/l3/router_bgp.go\<close>: the BGP process of the device, with its peer groups,
  neighbours, address families and VRFs.  \<open>sort.Slice\<close> is the stable \<open>sort_key\<close>, which for
  distinct names, and for up to twelve elements, is what the library's sort gives.
\<close>

definition ErrBgpAsnInvalid :: error where
  [errs]: "ErrBgpAsnInvalid =
     Sentinel ''routerBgp asn must be in 1..4294967295 (4-byte ASN)''"
definition ErrBgpRouterIdBadIPv4 :: error where
  [errs]: "ErrBgpRouterIdBadIPv4 =
     Sentinel ''routerBgp routerId must be an IPv4 address''"
definition ErrBgpMaximumPathsInvalid :: error where
  [errs]: "ErrBgpMaximumPathsInvalid =
     Sentinel ''routerBgp maximumPaths.paths must be > 0; ecmp (when set) must be >= paths''"
definition ErrBgpPeerGroupNameRequired :: error where
  [errs]: "ErrBgpPeerGroupNameRequired =
     Sentinel ''routerBgp peerGroup.name is required''"
definition ErrBgpPeerGroupSendCommunity :: error where
  [errs]: "ErrBgpPeerGroupSendCommunity =
     Sentinel ''routerBgp peerGroup.sendCommunity must be one of: standard, extended, large, all''"
definition ErrBgpPeerGroupMaximumRoutes :: error where
  [errs]: "ErrBgpPeerGroupMaximumRoutes =
     Sentinel ''routerBgp peerGroup.maximumRoutes must be >= 0''"
definition ErrBgpNeighborAddressBadIPv4 :: error where
  [errs]: "ErrBgpNeighborAddressBadIPv4 =
     Sentinel ''routerBgp neighbor.address must be a valid IPv4 address''"
definition ErrBgpNeighborPeerGroupRemoteAS :: error where
  [errs]: "ErrBgpNeighborPeerGroupRemoteAS =
     Sentinel ''routerBgp neighbor must specify peerGroup OR remoteAs (not both)''"
definition ErrBgpAddressFamilyNameInvalid :: error where
  [errs]: "ErrBgpAddressFamilyNameInvalid =
     Sentinel ''routerBgp addressFamily.name must be one of: ipv4, ipv6, evpn''"
definition ErrBgpVrfNameRequired :: error where
  [errs]: "ErrBgpVrfNameRequired = Sentinel ''routerBgp vrf.name is required''"
definition ErrBgpVrfNameReserved :: error where
  [errs]: "ErrBgpVrfNameReserved =
     Sentinel (''routerBgp vrf.name '' @ [CHR 0x27] @ ''default'' @ [CHR 0x27]
       @ '' is reserved (use the top-level block)'')"
definition ErrBgpVrfRedistributeUnsupported :: error where
  [errs]: "ErrBgpVrfRedistributeUnsupported =
     Sentinel ''routerBgp vrf.redistribute entries must be one of: connected, static, attached-host''"

definition validBgpSendCommunity :: "string set" where
  "validBgpSendCommunity = {''standard'', ''extended'', ''large'', ''all''}"

definition validBgpRedistribute :: "string set" where
  "validBgpRedistribute = {''connected'', ''static'', ''attached-host''}"

definition validBgpAddressFamily :: "string set" where
  "validBgpAddressFamily = {''ipv4'', ''ipv6'', ''evpn''}"

record BgpMaximumPaths =
  mp_Paths :: int
  mp_Ecmp :: "int option"

record BgpPeerGroup =
  bp_Name :: string
  bp_RemoteAs :: "int option"
  bp_UpdateSource :: "string option"
  bp_EbgpMultihop :: "int option"
  bp_SendCommunity :: "string option"
  bp_MaximumRoutes :: "int option"
  bp_Bfd :: "bool option"
  bp_Description :: "string option"

record BgpNeighbor =
  bn_Address :: string
  bn_PeerGroup :: "string option"
  bn_RemoteAs :: "int option"
  bn_Description :: "string option"

record BgpAddressFamily =
  ba_Name :: string
  ba_Activate :: "string list"
  ba_Deactivate :: "string list"

record BgpVrf =
  bv_Name :: string
  bv_Rd :: "string option"
  bv_RouteTargetImportEvpn :: "string option"
  bv_RouteTargetExportEvpn :: "string option"
  bv_RouterId :: "string option"
  bv_Redistribute :: "string list"

record RouterBgpArgs = overrides +
  rb_Asn :: int
  rb_RouterId :: "string option"
  rb_NoDefaultIpv4Unicast :: "bool option"
  rb_MaximumPaths :: "BgpMaximumPaths option"
  rb_Bfd :: "bool option"
  rb_PeerGroups :: "BgpPeerGroup list"
  rb_Neighbors :: "BgpNeighbor list"
  rb_AddressFamilies :: "BgpAddressFamily list"
  rb_Vrfs :: "BgpVrf list"

type_synonym RouterBgpState = RouterBgpArgs

section \<open>Validation\<close>

definition bgp_router_id :: "string option \<Rightarrow> error option" where
  "bgp_router_id p =
     opt_err (\<lambda>s. if ipv4_addr s then None else Some (Got ErrBgpRouterIdBadIPv4 [DStr s])) (nonempty p)"

definition bgp_maximum_paths :: "BgpMaximumPaths \<Rightarrow> error option" where
  "bgp_maximum_paths m =
     (if mp_Paths m \<le> 0 then Some (Got ErrBgpMaximumPathsInvalid [DInt (mp_Paths m)])
      else opt_err (\<lambda>e. if e < mp_Paths m then Some (Got ErrBgpMaximumPathsInvalid [DInt e, DInt (mp_Paths m)]) else None)
        (mp_Ecmp m))"

definition validateBgpPeerGroup :: "BgpPeerGroup \<Rightarrow> error option" where
  "validateBgpPeerGroup p =
     (if TrimSpace (bp_Name p) = [] then Some ErrBgpPeerGroupNameRequired
      else first_error
        [opt_err (\<lambda>s. if s \<notin> validBgpSendCommunity then Some (Got ErrBgpPeerGroupSendCommunity [DStr s]) else None)
           (nonempty (bp_SendCommunity p)),
         opt_err (\<lambda>m. if m < 0 then Some (Got ErrBgpPeerGroupMaximumRoutes [DInt m]) else None) (bp_MaximumRoutes p)])"

definition validateBgpNeighbor :: "BgpNeighbor \<Rightarrow> error option" where
  "validateBgpNeighbor n =
     (if \<not> ipv4_addr (bn_Address n) then Some (Got ErrBgpNeighborAddressBadIPv4 [DStr (bn_Address n)])
      else if (nonempty (bn_PeerGroup n) \<noteq> None) = (bn_RemoteAs n \<noteq> None)
      then Some (Got ErrBgpNeighborPeerGroupRemoteAS [DStr (bn_Address n)])
      else None)"

text \<open>As in \<open>vrf.go\<close>, but the name is compared with \<open>default\<close> as it is, blanks included.\<close>

definition validateBgpVrf :: "BgpVrf \<Rightarrow> error option" where
  "validateBgpVrf v =
     (if TrimSpace (bv_Name v) = [] then Some ErrBgpVrfNameRequired
      else if ToLower (bv_Name v) = ''default'' then Some ErrBgpVrfNameReserved
      else first_error
        (map (\<lambda>r. if r \<notin> validBgpRedistribute then Some (Got ErrBgpVrfRedistributeUnsupported [DStr r]) else None)
           (bv_Redistribute v)
         @ [opt_err (\<lambda>s. if ipv4_addr s then None else Some (Got ErrBgpRouterIdBadIPv4 [DStr (bv_Name v), DStr s]))
              (nonempty (bv_RouterId v))]))"

definition validateRouterBgp :: "RouterBgpArgs \<Rightarrow> error option" where
  "validateRouterBgp args =
     (if rb_Asn args < 1 \<or> rb_Asn args > 4294967295 then Some (Got ErrBgpAsnInvalid [DInt (rb_Asn args)])
      else first_error
        ([bgp_router_id (rb_RouterId args), opt_err bgp_maximum_paths (rb_MaximumPaths args)]
         @ map validateBgpPeerGroup (rb_PeerGroups args)
         @ map validateBgpNeighbor (rb_Neighbors args)
         @ map (\<lambda>af. if ba_Name af \<notin> validBgpAddressFamily
                     then Some (Got ErrBgpAddressFamilyNameInvalid [DStr (ba_Name af)]) else None)
             (rb_AddressFamilies args)
         @ map validateBgpVrf (rb_Vrfs args)))"

definition routerBgpID :: "int \<Rightarrow> string" where
  "routerBgpID asn = ''router-bgp/'' @ Itoa asn"

section \<open>Commands\<close>

definition peerGroupCmds :: "BgpPeerGroup \<Rightarrow> string list" where
  "peerGroupCmds p =
     [''neighbor '' @ bp_Name p @ '' peer group'']
     @ line_opt (\<lambda>v. ''neighbor '' @ bp_Name p @ '' remote-as '' @ Itoa v) (bp_RemoteAs p)
     @ line_opt (\<lambda>v. ''neighbor '' @ bp_Name p @ '' update-source '' @ v) (nonempty (bp_UpdateSource p))
     @ line_opt (\<lambda>v. ''neighbor '' @ bp_Name p @ '' ebgp-multihop '' @ Itoa v) (bp_EbgpMultihop p)
     @ line_opt (\<lambda>v. ''neighbor '' @ bp_Name p @ '' send-community '' @ v) (nonempty (bp_SendCommunity p))
     @ line_opt (\<lambda>v. ''neighbor '' @ bp_Name p @ '' maximum-routes '' @ Itoa v) (bp_MaximumRoutes p)
     @ line_if (''neighbor '' @ bp_Name p @ '' bfd'') (bp_Bfd p = Some True)
     @ line_opt (\<lambda>v. ''neighbor '' @ bp_Name p @ '' description '' @ v) (nonempty (bp_Description p))"

definition neighborCmds :: "BgpNeighbor \<Rightarrow> string list" where
  "neighborCmds n =
     line_opt (\<lambda>v. ''neighbor '' @ bn_Address n @ '' peer group '' @ v) (nonempty (bn_PeerGroup n))
     @ line_opt (\<lambda>v. ''neighbor '' @ bn_Address n @ '' remote-as '' @ Itoa v) (bn_RemoteAs n)
     @ line_opt (\<lambda>v. ''neighbor '' @ bn_Address n @ '' description '' @ v) (nonempty (bn_Description n))"

definition addressFamilyCmds :: "BgpAddressFamily \<Rightarrow> string list" where
  "addressFamilyCmds af =
     [''address-family '' @ ba_Name af]
     @ map (\<lambda>pg. ''neighbor '' @ pg @ '' activate'') (ba_Activate af)
     @ map (\<lambda>pg. ''no neighbor '' @ pg @ '' activate'') (ba_Deactivate af)
     @ [''exit'']"

definition bgpVrfCmds :: "BgpVrf \<Rightarrow> string list" where
  "bgpVrfCmds v =
     [''vrf '' @ bv_Name v]
     @ line_opt (\<lambda>x. ''rd '' @ x) (nonempty (bv_Rd v))
     @ line_opt (\<lambda>x. ''route-target import evpn '' @ x) (nonempty (bv_RouteTargetImportEvpn v))
     @ line_opt (\<lambda>x. ''route-target export evpn '' @ x) (nonempty (bv_RouteTargetExportEvpn v))
     @ line_opt (\<lambda>x. ''router-id '' @ x) (nonempty (bv_RouterId v))
     @ map (\<lambda>r. ''redistribute '' @ r) (bv_Redistribute v)
     @ [''exit'']"

definition maximum_paths_cmd :: "BgpMaximumPaths \<Rightarrow> string" where
  "maximum_paths_cmd m =
     ''maximum-paths '' @ Itoa (mp_Paths m) @ (case mp_Ecmp m of Some e \<Rightarrow> '' ecmp '' @ Itoa e | None \<Rightarrow> [])"

definition buildRouterBgpCmds :: "RouterBgpArgs \<Rightarrow> bool \<Rightarrow> string list" where
  "buildRouterBgpCmds args remove =
     (if remove then [''no router bgp '' @ Itoa (rb_Asn args)]
      else
        [''router bgp '' @ Itoa (rb_Asn args)]
        @ line_opt (\<lambda>v. ''router-id '' @ v) (nonempty (rb_RouterId args))
        @ line_if ''no bgp default ipv4-unicast'' (rb_NoDefaultIpv4Unicast args = Some True)
        @ line_opt maximum_paths_cmd (rb_MaximumPaths args)
        @ line_if ''bfd'' (rb_Bfd args = Some True)
        @ concat (map peerGroupCmds (sort_key bp_Name (rb_PeerGroups args)))
        @ concat (map neighborCmds (sort_key bn_Address (rb_Neighbors args)))
        @ concat (map addressFamilyCmds (sort_key ba_Name (rb_AddressFamilies args)))
        @ concat (map bgpVrfCmds (sort_key bv_Name (rb_Vrfs args)))
        @ [''exit''])"

definition applyRouterBgp :: "('n, 'w) ctx \<Rightarrow> RouterBgpArgs \<Rightarrow> bool \<Rightarrow> 'w \<Rightarrow> unit res \<times> 'w" where
  "applyRouterBgp C args remove w =
     apply_session C args (''rbgp-'' @ Itoa (rb_Asn args)) (buildRouterBgpCmds args remove) w"

section \<open>Reading\<close>

record routerBgpRow =
  rbr_Asn :: int
  rbr_RouterId :: string
  rbr_NoDefaultIpv4Unicast :: bool
  rbr_MaximumPaths :: "BgpMaximumPaths option"
  rbr_Bfd :: bool

definition zero_routerBgpRow :: routerBgpRow where
  "zero_routerBgpRow =
     \<lparr>rbr_Asn = 0, rbr_RouterId = [], rbr_NoDefaultIpv4Unicast = False, rbr_MaximumPaths = None, rbr_Bfd = False\<rparr>"

definition parseBgpMaximumPaths :: "string \<Rightarrow> BgpMaximumPaths option" where
  "parseBgpMaximumPaths s =
     (case Fields s of
        [] \<Rightarrow> None
      | t # ts \<Rightarrow>
          map_option (\<lambda>paths.
              fold (\<lambda>(k, v) m. if k = ''ecmp'' then m\<lparr>mp_Ecmp := atoi_ptr (mp_Ecmp m) v\<rparr> else m)
                (zip (t # ts) ts) \<lparr>mp_Paths = paths, mp_Ecmp = None\<rparr>)
            (Atoi t))"

text \<open>The loop body does not follow the nesting of the blocks.\<close>

definition rbgp_line :: "string \<Rightarrow> routerBgpRow \<Rightarrow> routerBgpRow" where
  "rbgp_line line row =
     (case CutPrefix line ''router bgp '' of
        Some v \<Rightarrow> row\<lparr>rbr_Asn := atoi_or (rbr_Asn row) v\<rparr>
      | None \<Rightarrow>
     (case CutPrefix line ''router-id '' of
        Some v \<Rightarrow> row\<lparr>rbr_RouterId := v\<rparr>
      | None \<Rightarrow>
          if line = ''no bgp default ipv4-unicast'' then row\<lparr>rbr_NoDefaultIpv4Unicast := True\<rparr>
          else (case CutPrefix line ''maximum-paths '' of
                  Some v \<Rightarrow> row\<lparr>rbr_MaximumPaths := parseBgpMaximumPaths v\<rparr>
                | None \<Rightarrow> if line = ''bfd'' then row\<lparr>rbr_Bfd := True\<rparr> else row)))"

definition parseRouterBgpSection :: "string \<Rightarrow> routerBgpRow" where
  "parseRouterBgpSection out = scan rbgp_line out zero_routerBgpRow"

definition found_router_bgp :: "string \<Rightarrow> routerBgpRow option" where
  "found_router_bgp out =
     (if Contains out ''router bgp '' then Some (parseRouterBgpSection out) else None)"

definition readRouterBgp :: "('n, 'w) ctx \<Rightarrow> 'n client \<Rightarrow> 'w \<Rightarrow> routerBgpRow option res \<times> 'w" where
  "readRouterBgp C cli w =
     (case show_text C cli ''show running-config | section router bgp'' w of
        (r, w') \<Rightarrow> (map_res found_router_bgp r, w'))"

text \<open>The check of the Read handler: a process with another number is not ours.\<close>

definition own_router_bgp :: "int \<Rightarrow> routerBgpRow option \<Rightarrow> routerBgpRow option" where
  "own_router_bgp asn p = (case p of Some row \<Rightarrow> if rbr_Asn row \<noteq> asn then None else Some row | None \<Rightarrow> None)"

definition read_own_bgp :: "('n, 'w) ctx \<Rightarrow> 'n client \<Rightarrow> int \<Rightarrow> 'w \<Rightarrow> routerBgpRow option res \<times> 'w" where
  "read_own_bgp C cli asn w = (case readRouterBgp C cli w of (r, w') \<Rightarrow> (map_res (own_router_bgp asn) r, w'))"

definition fillRouterBgp :: "routerBgpRow \<Rightarrow> RouterBgpState \<Rightarrow> RouterBgpState" where
  "fillRouterBgp r s =
     s\<lparr>rb_Asn := (if rbr_Asn r > 0 then rbr_Asn r else rb_Asn s),
       rb_RouterId := set_str (rbr_RouterId r) (rb_RouterId s),
       rb_NoDefaultIpv4Unicast := (if rbr_NoDefaultIpv4Unicast r then Some True else rb_NoDefaultIpv4Unicast s),
       rb_MaximumPaths := set_some (rbr_MaximumPaths r) (rb_MaximumPaths s),
       rb_Bfd := (if rbr_Bfd r then Some True else rb_Bfd s)\<rparr>"

definition RouterBgp_Create ::
  "('n, 'w) ctx \<Rightarrow> RouterBgpArgs request \<Rightarrow> 'w \<Rightarrow> RouterBgpState created res \<times> 'w" where
  "RouterBgp_Create C =
     crud_create validateRouterBgp (\<lambda>a. routerBgpID (rb_Asn a)) (applyRouterBgp C)
       (\<lambda>a. ''create router bgp '' @ Itoa (rb_Asn a))"

definition RouterBgp_Read ::
  "('n, 'w) ctx \<Rightarrow> RouterBgpArgs \<Rightarrow> 'w \<Rightarrow> (RouterBgpArgs, RouterBgpState) read_response option res \<times> 'w" where
  "RouterBgp_Read C =
     crud_read (newClient C) (\<lambda>cli a. read_own_bgp C cli (rb_Asn a)) (\<lambda>a. routerBgpID (rb_Asn a)) fillRouterBgp"

definition RouterBgp_Update :: "('n, 'w) ctx \<Rightarrow> RouterBgpArgs request \<Rightarrow> 'w \<Rightarrow> RouterBgpState res \<times> 'w" where
  "RouterBgp_Update C =
     crud_update validateRouterBgp (applyRouterBgp C)
       (\<lambda>a. ''update router bgp '' @ Itoa (rb_Asn a))"

definition RouterBgp_Delete :: "('n, 'w) ctx \<Rightarrow> RouterBgpState \<Rightarrow> 'w \<Rightarrow> unit res \<times> 'w" where
  "RouterBgp_Delete C =
     crud_delete (applyRouterBgp C)
       (\<lambda>a. ''delete router bgp '' @ Itoa (rb_Asn a))"

interpretation router_bgp_mgr: session_managed C validateRouterBgp "\<lambda>a. routerBgpID (rb_Asn a)"
  "applyRouterBgp C" "\<lambda>a. ''rbgp-'' @ Itoa (rb_Asn a)" buildRouterBgpCmds
  by unfold_locales (simp add: applyRouterBgp_def)

section \<open>The order of the declarations\<close>

lemma router_bgp_order_irrelevant:
  assumes "distinct (map bp_Name pgs)" "distinct (map bn_Address nbs)" "distinct (map ba_Name afs)" "distinct (map bv_Name vrfs)"
    and "mset pgs = mset (rb_PeerGroups a)" "mset nbs = mset (rb_Neighbors a)"
      "mset afs = mset (rb_AddressFamilies a)" "mset vrfs = mset (rb_Vrfs a)"
  shows "buildRouterBgpCmds (a\<lparr>rb_PeerGroups := pgs, rb_Neighbors := nbs, rb_AddressFamilies := afs, rb_Vrfs := vrfs\<rparr>) rm
    = buildRouterBgpCmds a rm"
  unfolding buildRouterBgpCmds_def
  using sort_key_order [OF assms(5) [symmetric] assms(1)] sort_key_order [OF assms(6) [symmetric] assms(2)]
    sort_key_order [OF assms(7) [symmetric] assms(3)] sort_key_order [OF assms(8) [symmetric] assms(4)]
  by simp

section \<open>Reading back\<close>

lemma bgp_max_paths_back:
  assumes "int64 (mp_Paths m)" and "pred_option int64 (mp_Ecmp m)"
  shows "rbgp_line (maximum_paths_cmd m) r = r\<lparr>rbr_MaximumPaths := Some m\<rparr>"
proof -
  let ?ws = "Itoa (mp_Paths m) # (case mp_Ecmp m of Some e \<Rightarrow> [''ecmp'', Itoa e] | None \<Rightarrow> [])"
  have w: "word_string ''ecmp''" by (simp add: word_string_def space_byte_def ascii_space_def)
  have "Atoi ''ecmp'' = None" by code_simp
  then have no: "Itoa (mp_Paths m) \<noteq> ''ecmp''" using assms(1) by (rule Itoa_no_word)
  have "Fields (Join ?ws '' '') = ?ws" by (rule Fields_Join) (use w in \<open>auto split: option.splits\<close>)
  then have "parseBgpMaximumPaths (Join ?ws '' '') = Some m"
    using assms no by (cases m; cases "mp_Ecmp m") (simp_all add: parseBgpMaximumPaths_def)
  moreover have "maximum_paths_cmd m = ''maximum-paths '' @ Join ?ws '' ''"
    by (simp add: maximum_paths_cmd_def split: option.split)
  moreover have "rbgp_line (''maximum-paths '' @ t) r = r\<lparr>rbr_MaximumPaths := parseBgpMaximumPaths t\<rparr>" for t
    by (simp add: rbgp_line_def)
  ultimately show ?thesis by simp
qed

interpretation rb_header: attribute rbgp_line "\<lambda>n. ''router bgp '' @ Itoa n" int64
  rbr_Asn "\<lambda>v r. r\<lparr>rbr_Asn := v\<rparr>"
  by unfold_locales (simp_all add: rbgp_line_def)

interpretation rb_id: attribute rbgp_line "\<lambda>v. ''router-id '' @ v" "\<lambda>_. True"
  rbr_RouterId "\<lambda>v r. r\<lparr>rbr_RouterId := v\<rparr>"
  by unfold_locales (simp_all add: rbgp_line_def)

interpretation rb_nodef: flag rbgp_line "''no bgp default ipv4-unicast''" rbr_NoDefaultIpv4Unicast "\<lambda>b r. r\<lparr>rbr_NoDefaultIpv4Unicast := b\<rparr>"
  by unfold_locales (simp_all add: rbgp_line_def)

interpretation rb_bfd: flag rbgp_line "''bfd''" rbr_Bfd "\<lambda>b r. r\<lparr>rbr_Bfd := b\<rparr>"
  by unfold_locales (simp_all add: rbgp_line_def)

definition paths_readable :: "BgpMaximumPaths \<Rightarrow> bool" where
  "paths_readable m \<longleftrightarrow> int64 (mp_Paths m) \<and> pred_option int64 (mp_Ecmp m)"

interpretation rb_paths: pointer rbgp_line maximum_paths_cmd paths_readable
  rbr_MaximumPaths "\<lambda>v r. r\<lparr>rbr_MaximumPaths := v\<rparr>"
  by unfold_locales (simp_all add: paths_readable_def bgp_max_paths_back)

definition rbgp_idle :: "string \<Rightarrow> bool" where
  "rbgp_idle l \<longleftrightarrow> l \<in> {[], ''!'', ''exit''}"

interpretation rbgp_scan: line_scanner rbgp_line rbgp_idle
proof (unfold_locales, goal_cases)
  case (1 l r)
  then show ?case unfolding rbgp_idle_def by (elim insertE emptyE) (simp_all add: rbgp_line_def)
next
  case (2 l)
  then show ?case by (auto simp: rbgp_idle_def noise_def)
qed

text \<open>The blocks below the process, except for the router-id of a VRF, are passed over.\<close>

lemma rbgp_quiet:
  "rbgp_line (''neighbor '' @ t) = id" "rbgp_line (''no neighbor '' @ t) = id" "rbgp_line (''address-family '' @ t) = id"
  "rbgp_line (''vrf '' @ t) = id" "rbgp_line (''rd '' @ t) = id" "rbgp_line (''route-target '' @ t) = id"
  "rbgp_line (''redistribute '' @ t) = id" "rbgp_line ''exit'' = id"
  by (simp_all add: rbgp_line_def fun_eq_iff)

lemma fold_passed: "(\<And>x. x \<in> set xs \<Longrightarrow> f x = id) \<Longrightarrow> fold f xs r = r"
  by (induction xs arbitrary: r) auto

lemma peer_group_passed: "fold rbgp_line (concat (map peerGroupCmds ps)) r = r"
  using rbgp_quiet(1) by (intro fold_passed) (auto simp: peerGroupCmds_def line_opt_def line_if_def split: option.splits)

lemma neighbor_passed: "fold rbgp_line (concat (map neighborCmds ns)) r = r"
  using rbgp_quiet(1) by (intro fold_passed) (auto simp: neighborCmds_def line_opt_def split: option.splits)

lemma address_family_passed: "fold rbgp_line (concat (map addressFamilyCmds as)) r = r"
  using rbgp_quiet by (intro fold_passed) (auto simp: addressFamilyCmds_def)

definition bgp_vrf_ids :: "BgpVrf list \<Rightarrow> string list" where
  "bgp_vrf_ids vs = List.map_filter (\<lambda>v. nonempty (bv_RouterId v)) vs"

definition last_or :: "'a \<Rightarrow> 'a list \<Rightarrow> 'a" where
  "last_or d xs = (if xs = [] then d else last xs)"

lemma last_or_simps [simp]: "last_or d [] = d" "last_or d (x # xs) = last_or x xs"
  by (simp_all add: last_or_def)

lemma bgp_vrf_back:
  "fold rbgp_line (bgpVrfCmds v) r = r\<lparr>rbr_RouterId := opt_or (rbr_RouterId r) (nonempty (bv_RouterId v))\<rparr>"
proof -
  have opt: "fold rbgp_line (line_opt (\<lambda>x. ''route-target import evpn '' @ x) p) r = r"
    "fold rbgp_line (line_opt (\<lambda>x. ''route-target export evpn '' @ x) p) r = r"
    "fold rbgp_line (line_opt (\<lambda>x. ''rd '' @ x) p) r = r" for p r
    by (cases p; simp add: rbgp_line_def)+
  have "fold rbgp_line (map (\<lambda>x. ''redistribute '' @ x) xs) r = r" for xs r
    using rbgp_quiet(7) by (intro fold_passed) auto
  note passed = this opt
  show ?thesis
    unfolding bgpVrfCmds_def fold_append comp_def fold_simps rbgp_quiet id_apply passed rb_id.fold_attr [OF any_readable] ..
qed

lemma bgp_vrfs_back:
  "fold rbgp_line (concat (map bgpVrfCmds vs)) r = r\<lparr>rbr_RouterId := last_or (rbr_RouterId r) (bgp_vrf_ids vs)\<rparr>"
proof (induction vs arbitrary: r)
  case (Cons v vs)
  then show ?case
    by (cases "nonempty (bv_RouterId v)")
       (simp_all add: bgp_vrf_back bgp_vrf_ids_def map_filter_simps del: nonempty_eq_Some nonempty_eq_None)
qed (simp add: bgp_vrf_ids_def map_filter_simps)

text \<open>What the reader makes of the block that the commands describe.\<close>

lemma parse_router_bgp:
  assumes p: "prints rbgp_idle out (buildRouterBgpCmds a False)" and v: "validateRouterBgp a = None"
    and m: "pred_option paths_readable (rb_MaximumPaths a)"
  shows "found_router_bgp out = Some
    \<lparr>rbr_Asn = rb_Asn a,
     rbr_RouterId = last_or (or_empty (nonempty (rb_RouterId a))) (bgp_vrf_ids (sort_key bv_Name (rb_Vrfs a))),
     rbr_NoDefaultIpv4Unicast = (rb_NoDefaultIpv4Unicast a = Some True),
     rbr_MaximumPaths = rb_MaximumPaths a, rbr_Bfd = (rb_Bfd a = Some True)\<rparr>"
proof -
  have n: "int64 (rb_Asn a)" using v by (auto simp: validateRouterBgp_def int64_def split: if_splits)
  note h = rb_header.line [OF n]
  have "Contains out (''router bgp '' @ Itoa (rb_Asn a))"
    by (rule prints_Contains [OF p]) (auto simp: buildRouterBgpCmds_def rbgp_idle_def)
  moreover have "Contains (''router bgp '' @ Itoa (rb_Asn a)) ''router bgp ''"
    using Contains_infix [of "[]" "''router bgp ''" "Itoa (rb_Asn a)"] by simp
  ultimately have "Contains out ''router bgp ''" by (rule Contains_trans)
  moreover have "parseRouterBgpSection out =
    \<lparr>rbr_Asn = rb_Asn a,
     rbr_RouterId = last_or (or_empty (nonempty (rb_RouterId a))) (bgp_vrf_ids (sort_key bv_Name (rb_Vrfs a))),
     rbr_NoDefaultIpv4Unicast = (rb_NoDefaultIpv4Unicast a = Some True),
     rbr_MaximumPaths = rb_MaximumPaths a, rbr_Bfd = (rb_Bfd a = Some True)\<rparr>"
    unfolding parseRouterBgpSection_def rbgp_scan.scan_prints [OF p] buildRouterBgpCmds_def if_False fold_append comp_def fold_simps h
      rb_id.fold_attr [OF any_readable] rb_nodef.fold_flag rb_paths.fold_pointer [OF m] rb_bfd.fold_flag
      peer_group_passed neighbor_passed address_family_passed bgp_vrfs_back rbgp_quiet id_apply
    by (simp add: zero_routerBgpRow_def)
  ultimately show ?thesis by (simp add: found_router_bgp_def)
qed

text \<open>Attributes as the reader gives them: a flag that is set or absent, no empty text.\<close>

definition canonical_bgp :: "RouterBgpArgs \<Rightarrow> bool" where
  "canonical_bgp a \<longleftrightarrow>
     rb_RouterId a \<noteq> Some [] \<and> pred_option paths_readable (rb_MaximumPaths a)"

lemma router_bgp_roundtrip:
  assumes "prints rbgp_idle out (buildRouterBgpCmds a False)" and v: "validateRouterBgp a = None" and c: "canonical_bgp a"
    and "bgp_vrf_ids (sort_key bv_Name (rb_Vrfs a)) = []"
  shows "\<exists>row. own_router_bgp (rb_Asn a) (found_router_bgp out) = Some row \<and> fillRouterBgp row a = a"
proof -
  have "rb_Asn a > 0" using v by (auto simp: validateRouterBgp_def split: if_splits)
  moreover have "set_str (or_empty (nonempty (rb_RouterId a))) (rb_RouterId a) = rb_RouterId a"
    using c by (cases "rb_RouterId a") (auto simp: canonical_bgp_def set_str_def nonempty_def)
  ultimately show ?thesis
    using assms parse_router_bgp [of out a] by (auto simp: own_router_bgp_def fillRouterBgp_def canonical_bgp_def)
qed

text \<open>The router-id of the last VRF that has one takes the place of the process's own.\<close>

lemma router_bgp_vrf_id:
  assumes "prints rbgp_idle out (buildRouterBgpCmds a False)" and "validateRouterBgp a = None" and "canonical_bgp a"
    and ids: "bgp_vrf_ids (sort_key bv_Name (rb_Vrfs a)) = ids @ [x]"
  shows "\<exists>row. own_router_bgp (rb_Asn a) (found_router_bgp out) = Some row \<and> fillRouterBgp row a = a\<lparr>rb_RouterId := Some x\<rparr>"
proof -
  have "x \<in> set (bgp_vrf_ids (sort_key bv_Name (rb_Vrfs a)))" by (simp add: ids)
  then have "x \<noteq> []" by (auto simp: bgp_vrf_ids_def map_filter_def nonempty_def split: option.splits if_splits)
  moreover have "rb_Asn a > 0" using assms(2) by (auto simp: validateRouterBgp_def split: if_splits)
  moreover have "last_or d (ids @ [x]) = x" for d by (simp add: last_or_def)
  ultimately show ?thesis
    using assms parse_router_bgp [of out a] by (auto simp: own_router_bgp_def fillRouterBgp_def canonical_bgp_def set_str_def)
qed

text \<open>
  The commands of an update negate only the default address family and the activation of peer groups:
  nothing that the device has and the arguments no longer say is removed.
\<close>

lemma router_bgp_update_adds:
  assumes "c \<in> set (buildRouterBgpCmds a False)" and "HasPrefix c ''no ''"
  shows "c = ''no bgp default ipv4-unicast'' \<or> HasPrefix c ''no neighbor ''"
proof -
  have "\<not> HasPrefix c ''no ''" if "c \<in> set (concat (map f xs))" "\<And>x c. c \<in> set (f x) \<Longrightarrow> \<not> HasPrefix c ''no ''"
    for f :: "'x \<Rightarrow> string list" and xs
    using that by auto
  moreover have "\<not> HasPrefix c ''no ''" if "c \<in> set (peerGroupCmds p)" for c p
    using that by (auto simp: peerGroupCmds_def line_opt_def line_if_def split: option.splits)
  moreover have "\<not> HasPrefix c ''no ''" if "c \<in> set (neighborCmds p)" for c p
    using that by (auto simp: neighborCmds_def line_opt_def split: option.splits)
  moreover have "\<not> HasPrefix c ''no ''" if "c \<in> set (bgpVrfCmds p)" for c p
    using that by (auto simp: bgpVrfCmds_def line_opt_def split: option.splits)
  moreover have "HasPrefix c ''no neighbor ''" if "c \<in> set (addressFamilyCmds p)" "HasPrefix c ''no ''" for c p
    using that by (auto simp: addressFamilyCmds_def)
  ultimately show ?thesis
    using assms unfolding buildRouterBgpCmds_def
    by (auto simp: line_opt_def line_if_def maximum_paths_cmd_def split: option.splits if_splits)
qed

end
