(* ===== verification/Router_Ospf.thy ===== *)
theory Router_Ospf
  imports L3_Common
begin

text \<open>
  \<open>internal/resources/l3/router_ospf.go\<close>: an OSPFv2 process of the device, identified by its
  instance number and its VRF.
\<close>

definition ErrRouterOspfInstanceRange :: error where
  [errs]: "ErrRouterOspfInstanceRange =
     Sentinel ''routerOspf instance must be in 1..65535''"
definition ErrRouterOspfRouterIDInvalid :: error where
  [errs]: "ErrRouterOspfRouterIDInvalid =
     Sentinel ''routerOspf routerId must be a valid IPv4 address''"
definition ErrRouterOspfPrefixInvalid :: error where
  [errs]: "ErrRouterOspfPrefixInvalid =
     Sentinel ''routerOspf network prefix must be a valid IPv4 CIDR''"
definition ErrRouterOspfAreaInvalid :: error where
  [errs]: "ErrRouterOspfAreaInvalid =
     Sentinel ''routerOspf area must be a non-negative integer or dotted-quad''"
definition ErrRouterOspfAreaTypeInvalid :: error where
  [errs]: "ErrRouterOspfAreaTypeInvalid =
     Sentinel ''routerOspf area type must be normal | stub | stub-no-summary | nssa | nssa-default-information-originate''"
definition ErrRouterOspfRedistSrcInvalid :: error where
  [errs]: "ErrRouterOspfRedistSrcInvalid =
     Sentinel ''routerOspf redistribute source must be connected | static | bgp | isis''"
definition ErrRouterOspfMaximumPathsRange :: error where
  [errs]: "ErrRouterOspfMaximumPathsRange =
     Sentinel ''routerOspf maximumPaths must be in 1..128''"
definition ErrRouterOspfMetricTypeInvalid :: error where
  [errs]: "ErrRouterOspfMetricTypeInvalid =
     Sentinel ''routerOspf metric-type must be 1 or 2''"
definition ErrRouterOspfDistanceRange :: error where
  [errs]: "ErrRouterOspfDistanceRange =
     Sentinel ''routerOspf distance values must be in 1..255''"
definition ErrRouterOspfLogChangesInvalid :: error where
  [errs]: "ErrRouterOspfLogChangesInvalid =
     Sentinel ''routerOspf logAdjacencyChanges must be empty | off | on | detail''"
definition ErrRouterOspfTimerNonPositive :: error where
  [errs]: "ErrRouterOspfTimerNonPositive =
     Sentinel ''routerOspf timer values must be > 0''"
definition ErrRouterOspfMaxLsaNonPositive :: error where
  [errs]: "ErrRouterOspfMaxLsaNonPositive =
     Sentinel ''routerOspf maxLsa must be > 0''"
definition ErrRouterOspfRefBwNonPositive :: error where
  [errs]: "ErrRouterOspfRefBwNonPositive =
     Sentinel ''routerOspf autoCostReferenceBandwidth must be > 0 Mbps''"
definition ErrRouterOspfDefaultCostRange :: error where
  [errs]: "ErrRouterOspfDefaultCostRange =
     Sentinel ''routerOspf area defaultCost must be in 1..65535''"
definition ErrRouterOspfSummaryPrefixInvld :: error where
  [errs]: "ErrRouterOspfSummaryPrefixInvld =
     Sentinel ''routerOspf summaryAddress / area range entries must be valid IPv4 CIDRs''"

definition validRouterOspfAreaTypes :: "string set" where
  "validRouterOspfAreaTypes =
     {''normal'', ''stub'', ''stub-no-summary'', ''nssa'', ''nssa-default-information-originate''}"

definition validRouterOspfRedistSrc :: "string set" where
  "validRouterOspfRedistSrc = {''connected'', ''static'', ''bgp'', ''isis''}"

definition validRouterOspfLogChanges :: "string set" where
  "validRouterOspfLogChanges = {[], ''off'', ''on'', ''detail''}"

record RouterOspfNetwork =
  on_Prefix :: string
  on_Area :: string

record RouterOspfArea =
  oa_Id :: string
  oa_Type :: "string option"
  oa_DefaultCost :: "int option"
  oa_Ranges :: "string list"
  oa_NssaMetric :: "int option"
  oa_NssaMetricType :: "int option"
  oa_NssaOnly :: "bool option"

record RouterOspfRedistribute =
  or_Source :: string
  or_RouteMap :: "string option"

record RouterOspfDefaultInfoOrigin =
  od_Metric :: "int option"
  od_MetricType :: "int option"
  od_RouteMap :: "string option"

record RouterOspfDistance =
  ods_IntraArea :: "int option"
  ods_InterArea :: "int option"
  ods_External :: "int option"

record RouterOspfTimers =
  ot_SpfDelayInitial :: "int option"
  ot_SpfHold :: "int option"
  ot_SpfMax :: "int option"
  ot_OutDelay :: "int option"
  ot_PacingFlood :: "int option"

record RouterOspfArgs = overrides +
  ro_Instance :: int
  ro_Vrf :: "string option"
  ro_RouterId :: "string option"
  ro_Shutdown :: "bool option"
  ro_MaxLsa :: "int option"
  ro_MaximumPaths :: "int option"
  ro_AutoCostReferenceBandwidth :: "int option"
  ro_PassiveInterfaceDefault :: "bool option"
  ro_PassiveInterfaces :: "string list"
  ro_NoPassiveInterfaces :: "string list"
  ro_Networks :: "RouterOspfNetwork list"
  ro_Areas :: "RouterOspfArea list"
  ro_Redistribute :: "RouterOspfRedistribute list"
  ro_DefaultInformationOriginate :: "RouterOspfDefaultInfoOrigin option"
  ro_SummaryAddresses :: "string list"
  ro_Distance :: "RouterOspfDistance option"
  ro_LogAdjacencyChanges :: "string option"
  ro_GracefulRestartHelper :: "bool option"
  ro_Timers :: "RouterOspfTimers option"

type_synonym RouterOspfState = RouterOspfArgs

section \<open>Areas\<close>

text \<open>
  \<open>dottedQuadRe\<close> is \<open>^(\d{1,3})\.(\d{1,3})\.(\d{1,3})\.(\d{1,3})$\<close>.  A number of 32 bits, as
  \<open>strconv.ParseUint\<close> accepts it, is written as its four bytes.
\<close>

definition dot :: char where "dot = CHR ''.''"

definition dottedQuadRe :: "string \<Rightarrow> bool" where
  "dottedQuadRe s \<longleftrightarrow>
     length (split_at dot s) = 4
     \<and> list_all (\<lambda>p. length p \<in> {1, 2, 3} \<and> set p \<subseteq> set digits) (split_at dot s)"

definition area_octet :: "string \<Rightarrow> bool" where
  "area_octet p \<longleftrightarrow> (case Atoi p of Some v \<Rightarrow> 0 \<le> v \<and> v \<le> 255 | None \<Rightarrow> False)"

definition area_octets :: "nat \<Rightarrow> nat list" where
  "area_octets v = [take_bit 8 (drop_bit 24 v), take_bit 8 (drop_bit 16 v), take_bit 8 (drop_bit 8 v), take_bit 8 v]"

definition dotted_area :: "nat \<Rightarrow> string" where
  "dotted_area v = Join (map (\<lambda>o'. Itoa (int o')) (area_octets v)) [dot]"

definition ParseUint32 :: "string \<Rightarrow> nat option" where
  "ParseUint32 s = Option.bind (parse_nat s) (\<lambda>v. if v < 2 ^ 32 then Some v else None)"

definition canonicaliseOspfArea :: "string \<Rightarrow> string option" where
  "canonicaliseOspfArea s0 =
     (let s = TrimSpace s0
      in if s = [] then None
         else if dottedQuadRe s then (if list_all area_octet (split_at dot s) then Some s else None)
         else map_option dotted_area (ParseUint32 s))"

section \<open>Validation\<close>

definition out_of :: "int \<Rightarrow> int \<Rightarrow> error \<Rightarrow> int option \<Rightarrow> error option" where
  "out_of lo hi e p = opt_err (\<lambda>v. if v < lo \<or> v > hi then Some (Got e [DInt v]) else None) p"

definition not_positive :: "error \<Rightarrow> int option \<Rightarrow> error option" where
  "not_positive e p = opt_err (\<lambda>v. if v \<le> 0 then Some (Got e [DInt v]) else None) p"

definition ospf_metric_type :: "int option \<Rightarrow> error option" where
  "ospf_metric_type p =
     opt_err (\<lambda>t. if t \<noteq> 1 \<and> t \<noteq> 2 then Some (Got ErrRouterOspfMetricTypeInvalid [DInt t]) else None) p"

text \<open>A prefix of either family passes: \<open>netip.ParsePrefix\<close> is the only check.\<close>

definition ospf_prefix :: "error \<Rightarrow> string \<Rightarrow> error option" where
  "ospf_prefix e s = (if ParsePrefix s = None then Some (Got e [DStr s]) else None)"

definition ospf_area :: "string \<Rightarrow> error option" where
  "ospf_area s = (if canonicaliseOspfArea s = None then Some (Got ErrRouterOspfAreaInvalid [DStr s]) else None)"

definition validateRouterOspfScalars :: "RouterOspfArgs \<Rightarrow> error option" where
  "validateRouterOspfScalars args =
     first_error
       [out_of 1 65535 ErrRouterOspfInstanceRange (Some (ro_Instance args)),
        opt_err (\<lambda>s. if ipv4_addr s then None else Some (Got ErrRouterOspfRouterIDInvalid [DStr s]))
          (nonempty (ro_RouterId args)),
        not_positive ErrRouterOspfMaxLsaNonPositive (ro_MaxLsa args),
        out_of 1 128 ErrRouterOspfMaximumPathsRange (ro_MaximumPaths args),
        not_positive ErrRouterOspfRefBwNonPositive (ro_AutoCostReferenceBandwidth args)]"

definition validateRouterOspfNetworks :: "RouterOspfNetwork list \<Rightarrow> error option" where
  "validateRouterOspfNetworks ns =
     first_error (concat (map (\<lambda>n. [ospf_prefix ErrRouterOspfPrefixInvalid (on_Prefix n), ospf_area (on_Area n)]) ns))"

definition ospf_area_checks :: "RouterOspfArea \<Rightarrow> error option list" where
  "ospf_area_checks a =
     [ospf_area (oa_Id a),
      opt_err (\<lambda>t. if t \<notin> validRouterOspfAreaTypes then Some (Got ErrRouterOspfAreaTypeInvalid [DStr t]) else None)
        (nonempty (oa_Type a)),
      out_of 1 65535 ErrRouterOspfDefaultCostRange (oa_DefaultCost a)]
     @ map (ospf_prefix ErrRouterOspfSummaryPrefixInvld) (oa_Ranges a)
     @ [ospf_metric_type (oa_NssaMetricType a)]"

definition validateRouterOspfAreas :: "RouterOspfArea list \<Rightarrow> error option" where
  "validateRouterOspfAreas as = first_error (concat (map ospf_area_checks as))"

definition validateRouterOspfRedistribute :: "RouterOspfRedistribute list \<Rightarrow> error option" where
  "validateRouterOspfRedistribute rows =
     first_error (map (\<lambda>r. if or_Source r \<notin> validRouterOspfRedistSrc
                          then Some (Got ErrRouterOspfRedistSrcInvalid [DStr (or_Source r)]) else None) rows)"

definition validateRouterOspfTail :: "RouterOspfArgs \<Rightarrow> error option" where
  "validateRouterOspfTail args =
     first_error
       ([opt_err (\<lambda>d. ospf_metric_type (od_MetricType d)) (ro_DefaultInformationOriginate args)]
        @ map (ospf_prefix ErrRouterOspfSummaryPrefixInvld) (ro_SummaryAddresses args)
        @ [opt_err (\<lambda>d. first_error (map (out_of 1 255 ErrRouterOspfDistanceRange)
              [ods_IntraArea d, ods_InterArea d, ods_External d])) (ro_Distance args),
           opt_err (\<lambda>l. if l \<notin> validRouterOspfLogChanges then Some (Got ErrRouterOspfLogChangesInvalid [DStr l]) else None)
             (ro_LogAdjacencyChanges args),
           opt_err (\<lambda>t. first_error (map (not_positive ErrRouterOspfTimerNonPositive)
              [ot_SpfDelayInitial t, ot_SpfHold t, ot_SpfMax t, ot_OutDelay t, ot_PacingFlood t])) (ro_Timers args)])"

definition validateRouterOspf :: "RouterOspfArgs \<Rightarrow> error option" where
  "validateRouterOspf args =
     first_error
       [validateRouterOspfScalars args, validateRouterOspfNetworks (ro_Networks args),
        validateRouterOspfAreas (ro_Areas args), validateRouterOspfRedistribute (ro_Redistribute args),
        validateRouterOspfTail args]"

definition routerOspfID :: "int \<Rightarrow> string option \<Rightarrow> string" where
  "routerOspfID inst vrf =
     (case nonempty vrf of
        Some v \<Rightarrow> ''router-ospf/'' @ Itoa inst @ ''/'' @ v
      | None \<Rightarrow> ''router-ospf/'' @ Itoa inst)"

section \<open>Commands\<close>

definition ospf_header :: "int \<Rightarrow> string \<Rightarrow> string" where
  "ospf_header inst vrf = ''router ospf '' @ Itoa inst @ (if vrf \<noteq> [] then '' vrf '' @ vrf else [])"

definition appendOspfScalars :: "RouterOspfArgs \<Rightarrow> string list" where
  "appendOspfScalars args =
     line_opt (\<lambda>v. ''router-id '' @ v) (nonempty (ro_RouterId args))
     @ line_bool keywordShutdown keywordNoShutdown (ro_Shutdown args)
     @ line_opt (\<lambda>v. ''auto-cost reference-bandwidth '' @ Itoa v) (ro_AutoCostReferenceBandwidth args)"

definition appendOspfDistance :: "RouterOspfDistance option \<Rightarrow> string list" where
  "appendOspfDistance p =
     (case p of
        None \<Rightarrow> []
      | Some d \<Rightarrow>
          line_opt (\<lambda>v. ''distance ospf intra-area '' @ Itoa v) (ods_IntraArea d)
          @ line_opt (\<lambda>v. ''distance ospf inter-area '' @ Itoa v) (ods_InterArea d)
          @ line_opt (\<lambda>v. ''distance ospf external '' @ Itoa v) (ods_External d))"

definition appendOspfPassive :: "RouterOspfArgs \<Rightarrow> string list" where
  "appendOspfPassive args =
     line_if ''passive-interface default'' (ro_PassiveInterfaceDefault args = Some True)
     @ map (\<lambda>i. ''no passive-interface '' @ i) (ro_NoPassiveInterfaces args)
     @ map (\<lambda>i. ''passive-interface '' @ i) (ro_PassiveInterfaces args)"

definition ospf_route_map :: "string option \<Rightarrow> string" where
  "ospf_route_map p = (case nonempty p of Some m \<Rightarrow> '' route-map '' @ m | None \<Rightarrow> [])"

definition ospf_word :: "string \<Rightarrow> int option \<Rightarrow> string" where
  "ospf_word w p = (case p of Some v \<Rightarrow> w @ Itoa v | None \<Rightarrow> [])"

definition appendOspfRedistribute :: "RouterOspfRedistribute list \<Rightarrow> string list" where
  "appendOspfRedistribute rows = map (\<lambda>r. ''redistribute '' @ or_Source r @ ospf_route_map (or_RouteMap r)) rows"

definition appendOspfLogChanges :: "string option \<Rightarrow> string list" where
  "appendOspfLogChanges p =
     line_opt (\<lambda>v. if v = ''off'' then ''no log-adjacency-changes''
                  else if v = ''detail'' then ''log-adjacency-changes detail''
                  else ''log-adjacency-changes'') (nonempty p)"

definition appendOspfTimers :: "RouterOspfTimers option \<Rightarrow> string list" where
  "appendOspfTimers p =
     (case p of
        None \<Rightarrow> []
      | Some t \<Rightarrow>
          (case (ot_SpfDelayInitial t, ot_SpfHold t, ot_SpfMax t) of
             (Some a, Some b, Some c) \<Rightarrow> [''timers spf delay initial '' @ Itoa a @ '' '' @ Itoa b @ '' '' @ Itoa c]
           | _ \<Rightarrow> [])
          @ line_opt (\<lambda>v. ''timers out-delay '' @ Itoa v) (ot_OutDelay t)
          @ line_opt (\<lambda>v. ''timers pacing flood '' @ Itoa v) (ot_PacingFlood t))"

definition appendOspfDefaultInfo :: "RouterOspfDefaultInfoOrigin option \<Rightarrow> string list" where
  "appendOspfDefaultInfo p =
     line_opt (\<lambda>d. ''default-information originate'' @ ospf_word '' metric '' (od_Metric d)
                  @ ospf_word '' metric-type '' (od_MetricType d) @ ospf_route_map (od_RouteMap d)) p"

definition renderArea :: "RouterOspfArea \<Rightarrow> string list" where
  "renderArea a =
     (let area = ''area '' @ or_empty (canonicaliseOspfArea (oa_Id a))
      in (case nonempty (oa_Type a) of
            None \<Rightarrow> []
          | Some t \<Rightarrow>
              if t = ''stub'' then [area @ '' stub'']
              else if t = ''stub-no-summary'' then [area @ '' stub no-summary'']
              else if t = ''nssa'' then [area @ '' nssa'']
              else if t = ''nssa-default-information-originate'' then
                [area @ '' nssa default-information-originate'' @ ospf_word '' metric '' (oa_NssaMetric a)
                 @ ospf_word '' metric-type '' (oa_NssaMetricType a)
                 @ (if oa_NssaOnly a = Some True then '' nssa-only'' else [])]
              else [])
         @ line_opt (\<lambda>v. area @ '' default-cost '' @ Itoa v) (oa_DefaultCost a)
         @ map (\<lambda>r. area @ '' range '' @ r) (oa_Ranges a))"

definition ospf_network_cmd :: "RouterOspfNetwork \<Rightarrow> string" where
  "ospf_network_cmd n = ''network '' @ on_Prefix n @ '' area '' @ or_empty (canonicaliseOspfArea (on_Area n))"

definition appendRouterOspfBody :: "RouterOspfArgs \<Rightarrow> string list" where
  "appendRouterOspfBody args =
     appendOspfScalars args
     @ appendOspfDistance (ro_Distance args)
     @ appendOspfPassive args
     @ appendOspfRedistribute (ro_Redistribute args)
     @ concat (map renderArea (ro_Areas args))
     @ map ospf_network_cmd (ro_Networks args)
     @ line_opt (\<lambda>v. ''max-lsa '' @ Itoa v) (ro_MaxLsa args)
     @ appendOspfLogChanges (ro_LogAdjacencyChanges args)
     @ appendOspfTimers (ro_Timers args)
     @ line_opt (\<lambda>v. ''maximum-paths '' @ Itoa v) (ro_MaximumPaths args)
     @ appendOspfDefaultInfo (ro_DefaultInformationOriginate args)
     @ map (\<lambda>p. ''summary-address '' @ p) (ro_SummaryAddresses args)
     @ line_if ''graceful-restart-helper'' (ro_GracefulRestartHelper args = Some True)"

definition buildRouterOspfCmds :: "RouterOspfArgs \<Rightarrow> bool \<Rightarrow> string list" where
  "buildRouterOspfCmds args remove =
     (let header = ospf_header (ro_Instance args) (or_empty (ro_Vrf args))
      in if remove then [''no '' @ header]
         else [''no '' @ header, header] @ appendRouterOspfBody args @ [''exit''])"

definition ospf_suffix :: "RouterOspfArgs \<Rightarrow> string" where
  "ospf_suffix args =
     ''ospf-'' @ Itoa (ro_Instance args)
     @ (case nonempty (ro_Vrf args) of Some v \<Rightarrow> ''-'' @ sanitizePrefixListName v | None \<Rightarrow> [])"

definition applyRouterOspf :: "('n, 'w) ctx \<Rightarrow> RouterOspfArgs \<Rightarrow> bool \<Rightarrow> 'w \<Rightarrow> unit res \<times> 'w" where
  "applyRouterOspf C args remove w = apply_session C args (ospf_suffix args) (buildRouterOspfCmds args remove) w"

section \<open>Reading\<close>

record routerOspfRow =
  ror_Instance :: int
  ror_Vrf :: string
  ror_RouterID :: string
  ror_Shutdown :: "bool option"
  ror_MaxLsa :: int
  ror_MaximumPaths :: int
  ror_PassiveDflt :: "bool option"

definition new_routerOspfRow :: "int \<Rightarrow> string \<Rightarrow> routerOspfRow" where
  "new_routerOspfRow inst vrf =
     \<lparr>ror_Instance = inst, ror_Vrf = vrf, ror_RouterID = [], ror_Shutdown = None, ror_MaxLsa = 0,
      ror_MaximumPaths = 0, ror_PassiveDflt = None\<rparr>"

definition applyRouterOspfLine :: "string \<Rightarrow> routerOspfRow \<Rightarrow> routerOspfRow" where
  "applyRouterOspfLine line row =
     (case CutPrefix line ''router-id '' of
        Some v \<Rightarrow> row\<lparr>ror_RouterID := v\<rparr>
      | None \<Rightarrow>
          if line = keywordShutdown then row\<lparr>ror_Shutdown := Some True\<rparr>
          else if line = keywordNoShutdown then row\<lparr>ror_Shutdown := Some False\<rparr>
          else
     (case CutPrefix line ''max-lsa '' of
        Some v \<Rightarrow> (case Fields v of [] \<Rightarrow> row | t # _ \<Rightarrow> row\<lparr>ror_MaxLsa := atoi_or (ror_MaxLsa row) t\<rparr>)
      | None \<Rightarrow>
     (case CutPrefix line ''maximum-paths '' of
        Some v \<Rightarrow> row\<lparr>ror_MaximumPaths := atoi_or (ror_MaximumPaths row) v\<rparr>
      | None \<Rightarrow> if line = ''passive-interface default'' then row\<lparr>ror_PassiveDflt := Some True\<rparr> else row)))"

text \<open>The loop body: the row, whether the line is in our process, and whether it was found.\<close>

definition ospf_step :: "string \<Rightarrow> string \<Rightarrow> routerOspfRow \<times> bool \<times> bool \<Rightarrow> routerOspfRow \<times> bool \<times> bool" where
  "ospf_step header line st =
     (case st of (row, inOurs, found) \<Rightarrow>
        if HasPrefix line ''router ospf'' then (row, line = header, found \<or> line = header)
        else if inOurs then (applyRouterOspfLine line row, inOurs, found)
        else st)"

definition parseRouterOspfSection :: "string \<Rightarrow> int \<Rightarrow> string \<Rightarrow> routerOspfRow option" where
  "parseRouterOspfSection out inst vrf =
     (case scan (ospf_step (ospf_header inst vrf)) out (new_routerOspfRow inst vrf, False, False) of
        (row, _, found) \<Rightarrow> if found then Some row else None)"

definition readRouterOspf :: "('n, 'w) ctx \<Rightarrow> 'n client \<Rightarrow> int \<Rightarrow> string \<Rightarrow> 'w \<Rightarrow> routerOspfRow option res \<times> 'w" where
  "readRouterOspf C cli inst vrf w =
     (case show_text C cli ''show running-config section ospf'' w of
        (r, w') \<Rightarrow> (map_res (\<lambda>out. parseRouterOspfSection out inst vrf) r, w'))"

definition fillRouterOspf :: "routerOspfRow \<Rightarrow> RouterOspfState \<Rightarrow> RouterOspfState" where
  "fillRouterOspf r s =
     s\<lparr>ro_RouterId := set_str (ror_RouterID r) (ro_RouterId s),
       ro_Shutdown := set_some (ror_Shutdown r) (ro_Shutdown s),
       ro_MaxLsa := set_pos (ror_MaxLsa r) (ro_MaxLsa s),
       ro_MaximumPaths := set_pos (ror_MaximumPaths r) (ro_MaximumPaths s),
       ro_PassiveInterfaceDefault := set_some (ror_PassiveDflt r) (ro_PassiveInterfaceDefault s)\<rparr>"

definition RouterOspf_Create ::
  "('n, 'w) ctx \<Rightarrow> RouterOspfArgs request \<Rightarrow> 'w \<Rightarrow> RouterOspfState created res \<times> 'w" where
  "RouterOspf_Create C =
     crud_create validateRouterOspf (\<lambda>a. routerOspfID (ro_Instance a) (ro_Vrf a)) (applyRouterOspf C)
       (\<lambda>a. ''create router ospf '' @ Itoa (ro_Instance a))"

definition RouterOspf_Read ::
  "('n, 'w) ctx \<Rightarrow> RouterOspfArgs \<Rightarrow> 'w \<Rightarrow> (RouterOspfArgs, RouterOspfState) read_response option res \<times> 'w" where
  "RouterOspf_Read C =
     crud_read (newClient C) (\<lambda>cli a. readRouterOspf C cli (ro_Instance a) (or_empty (ro_Vrf a))) (\<lambda>a. routerOspfID (ro_Instance a) (ro_Vrf a)) fillRouterOspf"

definition RouterOspf_Update :: "('n, 'w) ctx \<Rightarrow> RouterOspfArgs request \<Rightarrow> 'w \<Rightarrow> RouterOspfState res \<times> 'w" where
  "RouterOspf_Update C =
     crud_update validateRouterOspf (applyRouterOspf C)
       (\<lambda>a. ''update router ospf '' @ Itoa (ro_Instance a))"

definition RouterOspf_Delete :: "('n, 'w) ctx \<Rightarrow> RouterOspfState \<Rightarrow> 'w \<Rightarrow> unit res \<times> 'w" where
  "RouterOspf_Delete C =
     crud_delete (applyRouterOspf C)
       (\<lambda>a. ''delete router ospf '' @ Itoa (ro_Instance a))"

interpretation router_ospf_mgr: session_managed C validateRouterOspf "\<lambda>a. routerOspfID (ro_Instance a) (ro_Vrf a)"
  "applyRouterOspf C" "\<lambda>a. ospf_suffix a" buildRouterOspfCmds
  by unfold_locales (simp add: applyRouterOspf_def)

section \<open>The canonical form of an area\<close>

lemma TrimSpace_word: "word_string w \<Longrightarrow> TrimSpace w = w"
proof (rule TrimSpace_keep)
  assume w: "word_string w"
  then obtain c cs where "w = c # cs" "\<not> space_byte c" by (cases w) (auto simp: word_string_def)
  then show "space_len w = 0" by (simp add: space_len_not_space_byte)
  have "\<forall>c\<in>set (rev w). \<not> space_byte c" using w by (simp add: word_string_def)
  then show "space_len_rev (rev w) = 0"
    by (cases "rev w" rule: space_len_rev.cases) (auto simp: space_byte_def space2_def space3_def)
qed

lemma dot_not_digit: "dot \<notin> set digits"
  by (simp add: dot_def digits_def)

lemma dotted_word: "dottedQuadRe s \<Longrightarrow> word_string s"
proof -
  assume "dottedQuadRe s"
  then have l: "length (split_at dot s) = 4" and d: "\<forall>p\<in>set (split_at dot s). set p \<subseteq> set digits"
    by (simp_all add: dottedQuadRe_def list_all_iff)
  from l have "s \<noteq> []" by auto
  moreover have "set s \<subseteq> plain_chars"
    using split_at_set [of s dot] d plain_char_sets(1,4) by (auto simp: dot_def)
  ultimately show ?thesis by (rule plain_word)
qed

lemma octet_text:
  assumes "n < 256"
  shows "length (Itoa (int n)) \<in> {1, 2, 3}" and "set (Itoa (int n)) \<subseteq> set digits" and "area_octet (Itoa (int n))"
proof -
  have i: "Itoa (int n) = nat_digits n" by (simp add: Itoa_def)
  have "length (nat_digits n) \<in> {1, 2, 3}"
    using assms by (simp add: nat_digits.simps [of n] nat_digits.simps [of "n div 10"] nat_digits.simps [of "n div 10 div 10"])
  with i show "length (Itoa (int n)) \<in> {1, 2, 3}" by simp
  show "set (Itoa (int n)) \<subseteq> set digits" using nat_digits_set i by simp
  have "int64 (int n)" using assms by (simp add: int64_def)
  then show "area_octet (Itoa (int n))" using assms by (simp add: area_octet_def)
qed

lemma area_octets_bound: "o' \<in> set (area_octets v) \<Longrightarrow> o' < 256"
  using take_bit_nat_less_exp [of 8] by (auto simp: area_octets_def)

lemma split_dotted: "split_at dot (dotted_area v) = map (\<lambda>o'. Itoa (int o')) (area_octets v)"
  unfolding dotted_area_def
proof (rule split_at_Join)
  show "dot \<notin> set l" if "l \<in> set (map (\<lambda>o'. Itoa (int o')) (area_octets v))" for l
    using that octet_text(2) [OF area_octets_bound] dot_not_digit by fastforce
qed (simp add: area_octets_def)

lemma dotted_area_ok: "dottedQuadRe (dotted_area v)" "list_all area_octet (split_at dot (dotted_area v))"
proof -
  have "length (area_octets v) = 4" by (simp add: area_octets_def)
  with octet_text(1,2) [OF area_octets_bound [of _ v]] show "dottedQuadRe (dotted_area v)"
    unfolding dottedQuadRe_def split_dotted list_all_iff by simp
  from octet_text(3) [OF area_octets_bound [of _ v]] show "list_all area_octet (split_at dot (dotted_area v))"
    unfolding split_dotted list_all_iff by simp
qed

text \<open>The canonical form of a canonical form is itself.\<close>

lemma canonical_area_again:
  assumes "canonicaliseOspfArea s = Some c"
  shows "canonicaliseOspfArea c = Some c" and "dottedQuadRe c \<and> list_all area_octet (split_at dot c)"
proof -
  from assms consider "dottedQuadRe c" "list_all area_octet (split_at dot c)" | v where "c = dotted_area v"
    by (auto simp: canonicaliseOspfArea_def Let_def split: if_splits)
  then show q: "dottedQuadRe c \<and> list_all area_octet (split_at dot c)" using dotted_area_ok by cases auto
  then have "word_string c" by (simp add: dotted_word)
  with q show "canonicaliseOspfArea c = Some c"
    by (auto simp: canonicaliseOspfArea_def TrimSpace_word word_string_def)
qed

text \<open>The number that four octets stand for.\<close>

definition octets_value :: "nat list \<Rightarrow> nat" where
  "octets_value os = foldl (\<lambda>acc o'. 256 * acc + o') 0 os"

lemma area_octets_value: "v < 2 ^ 32 \<Longrightarrow> octets_value (area_octets v) = v"
proof -
  assume "v < 2 ^ 32"
  then have b: "v div 16777216 < 256" by simp
  have "256 * (v div 16777216) + v div 65536 mod 256 = v div 65536"
    using mult_div_mod_eq [of 256 "v div 65536"] by (simp add: div_mult2_eq [of v 65536 256, symmetric, simplified])
  moreover have "256 * (v div 65536) + v div 256 mod 256 = v div 256"
    using mult_div_mod_eq [of 256 "v div 256"] by (simp add: div_mult2_eq [of v 256 256, symmetric, simplified])
  ultimately show ?thesis
    using b by (simp add: octets_value_def area_octets_def take_bit_eq_mod drop_bit_eq_div)
qed

text \<open>A number and the four octets of its value are the same area.\<close>

lemma area_number:
  assumes "v < 2 ^ 32"
  shows "canonicaliseOspfArea (Itoa (int v)) = Some (dotted_area v)"
    and "map Atoi (split_at dot (dotted_area v)) = map (\<lambda>o'. Some (int o')) (area_octets v)"
    and "octets_value (area_octets v) = v"
proof -
  have i: "Itoa (int v) = nat_digits v" by (simp add: Itoa_def)
  have "dot \<notin> set (nat_digits v)" using nat_digits_set [of v] dot_not_digit by blast
  then have "\<not> dottedQuadRe (nat_digits v)" by (simp add: dottedQuadRe_def split_at_single)
  moreover have "ParseUint32 (nat_digits v) = Some v"
    using assms by (simp add: ParseUint32_def parse_nat_def parse_digits_nat_digits)
  ultimately show "canonicaliseOspfArea (Itoa (int v)) = Some (dotted_area v)"
    by (simp add: canonicaliseOspfArea_def i TrimSpace_word)
  show "map Atoi (split_at dot (dotted_area v)) = map (\<lambda>o'. Some (int o')) (area_octets v)"
  proof -
    have "int64 (int o')" if "o' \<in> set (area_octets v)" for o'
      using area_octets_bound [OF that] by (simp add: int64_def)
    then show ?thesis by (simp add: split_dotted)
  qed
  show "octets_value (area_octets v) = v" by (rule area_octets_value [OF assms])
qed

text \<open>Four octets keep the zeros in front of them: one area may have two canonical forms.\<close>

lemma area_leading_zeros:
  "canonicaliseOspfArea ''0.0.0.1'' = Some ''0.0.0.1''" "canonicaliseOspfArea ''0.0.0.01'' = Some ''0.0.0.01''"
  by code_simp+

section \<open>Reading back\<close>

interpretation ro_id: attribute applyRouterOspfLine "\<lambda>v. ''router-id '' @ v" "\<lambda>_. True"
  ror_RouterID "\<lambda>v r. r\<lparr>ror_RouterID := v\<rparr>"
  by unfold_locales (simp_all add: applyRouterOspfLine_def)

interpretation ro_shutdown: pointer applyRouterOspfLine "\<lambda>b. if b then keywordShutdown else keywordNoShutdown"
  "\<lambda>_. True" ror_Shutdown "\<lambda>v r. r\<lparr>ror_Shutdown := v\<rparr>"
  by unfold_locales (simp_all add: applyRouterOspfLine_def l3_words)

interpretation ro_lsa: attribute applyRouterOspfLine "\<lambda>n. ''max-lsa '' @ Itoa n" int64
  ror_MaxLsa "\<lambda>v r. r\<lparr>ror_MaxLsa := v\<rparr>"
  by unfold_locales (simp_all add: applyRouterOspfLine_def l3_words Fields_word_end)

interpretation ro_paths: attribute applyRouterOspfLine "\<lambda>n. ''maximum-paths '' @ Itoa n" int64
  ror_MaximumPaths "\<lambda>v r. r\<lparr>ror_MaximumPaths := v\<rparr>"
  by unfold_locales (simp_all add: applyRouterOspfLine_def l3_words)

definition passive_default :: string where
  "passive_default = ''passive-interface default''"

lemma passive_line: "applyRouterOspfLine passive_default r = r\<lparr>ror_PassiveDflt := Some True\<rparr>"
  by (simp add: applyRouterOspfLine_def l3_words passive_default_def)

text \<open>The lines of the other attributes are passed over, and begin no process.\<close>

definition ospf_inner :: "string \<Rightarrow> bool" where
  "ospf_inner l \<longleftrightarrow> \<not> HasPrefix l ''router ospf''"

definition aside :: "string \<Rightarrow> bool" where
  "aside l \<longleftrightarrow> applyRouterOspfLine l = id \<and> ospf_inner l"

definition ospf_passed :: "string list \<Rightarrow> bool" where
  "ospf_passed ls \<longleftrightarrow> (\<forall>l\<in>set ls. aside l)"

lemma fold_ospf_passed: "ospf_passed ls \<Longrightarrow> fold applyRouterOspfLine ls r = r"
  unfolding ospf_passed_def aside_def by (induction ls arbitrary: r) auto

lemma ospf_passed_inner: "ospf_passed ls \<Longrightarrow> list_all ospf_inner ls"
  by (simp add: ospf_passed_def aside_def list_all_iff)

lemma aside_line:
  "aside (''auto-cost '' @ t)" "aside (''distance '' @ t)"
  "aside (''no passive-interface '' @ t)" "aside (''redistribute '' @ t)"
  "aside (''area '' @ t)" "aside (''network '' @ t)"
  "aside (''log-adjacency-changes'' @ t)" "aside (''no log-'' @ t)"
  "aside (''timers '' @ t)" "aside (''default-information '' @ t)"
  "aside (''summary-address '' @ t)" "aside (''graceful-'' @ t)"
  by (simp_all add: aside_def ospf_inner_def applyRouterOspfLine_def l3_words fun_eq_iff)

lemmas aside_lines = aside_line [simplified]

lemma passive_quiet: "i \<noteq> ''default'' \<Longrightarrow> aside (''passive-interface '' @ i)"
  by (simp add: aside_def ospf_inner_def applyRouterOspfLine_def l3_words fun_eq_iff)

lemma ospf_passed_simps [simp]:
  "ospf_passed []" "ospf_passed (l # ls) \<longleftrightarrow> aside l \<and> ospf_passed ls"
  "ospf_passed (ls @ ms) \<longleftrightarrow> ospf_passed ls \<and> ospf_passed ms"
  by (auto simp: ospf_passed_def)

lemma ospf_passed_line:
  "(\<And>v. aside (f v)) \<Longrightarrow> ospf_passed (line_opt f p)"
  "(\<And>v. aside (f v)) \<Longrightarrow> ospf_passed (map f vs)"
  "aside l \<Longrightarrow> ospf_passed (line_if l b)"
  "(\<And>x. ospf_passed (g x)) \<Longrightarrow> ospf_passed (concat (map g xs))"
  by (cases p; simp) (auto simp: ospf_passed_def line_if_def)

lemma ospf_passed_parts:
  "ospf_passed (line_opt (\<lambda>v. ''auto-cost reference-bandwidth '' @ Itoa v) p)"
  "ospf_passed (map (\<lambda>i. ''no passive-interface '' @ i) is)"
  "ospf_passed (appendOspfRedistribute rs)" "ospf_passed (map ospf_network_cmd ns)"
  "ospf_passed (appendOspfDefaultInfo i)"
  "ospf_passed (map (\<lambda>p. ''summary-address '' @ p) ss)" "ospf_passed (line_if ''graceful-restart-helper'' g)"
  unfolding appendOspfRedistribute_def ospf_network_cmd_def appendOspfDefaultInfo_def
  by (rule ospf_passed_line; simp add: aside_lines)+

lemma ospf_passed_distance: "ospf_passed (appendOspfDistance d)"
  unfolding appendOspfDistance_def
  by (cases d; simp; intro conjI ospf_passed_line; simp add: aside_lines)

lemma ospf_passed_timers: "ospf_passed (appendOspfTimers t)"
proof -
  have "ospf_passed (line_opt (\<lambda>v. ''timers out-delay '' @ Itoa v) p)" "ospf_passed (line_opt (\<lambda>v. ''timers pacing flood '' @ Itoa v) p)" for p
    by (rule ospf_passed_line, simp add: aside_lines)+
  then show ?thesis by (simp add: appendOspfTimers_def aside_lines split: option.split)
qed

lemma ospf_passed_log: "ospf_passed (appendOspfLogChanges l)"
  unfolding appendOspfLogChanges_def
  by (rule ospf_passed_line) (use aside_line(7) [of "[]"] in \<open>simp add: aside_lines\<close>)

lemma ospf_passed_areas: "ospf_passed (concat (map renderArea as))"
proof (rule ospf_passed_line)
  fix a :: RouterOspfArea
  let ?area = "''area '' @ or_empty (canonicaliseOspfArea (oa_Id a))"
  have a: "aside (?area @ t)" for t using aside_line(5) by simp
  have "ospf_passed (line_opt (\<lambda>v. ?area @ '' default-cost '' @ Itoa v) p)" "ospf_passed (map (\<lambda>r. ?area @ '' range '' @ r) rs)" for p rs
    by (rule ospf_passed_line, rule a)+
  then show "ospf_passed (renderArea a)"
    unfolding renderArea_def Let_def by (simp add: a [simplified] del: nonempty_eq_Some nonempty_eq_None split: option.split)
qed

lemma ospf_passed_passive:
  assumes "''default'' \<notin> set (ro_PassiveInterfaces a)"
  shows "ospf_passed (map (\<lambda>i. ''passive-interface '' @ i) (ro_PassiveInterfaces a))"
proof -
  have "aside (''passive-interface '' @ i)" if "i \<in> set (ro_PassiveInterfaces a)" for i
    by (rule passive_quiet) (use assms that in metis)
  then show ?thesis unfolding ospf_passed_def set_map by blast
qed

lemma ospf_passive_back:
  assumes "''default'' \<notin> set (ro_PassiveInterfaces a)"
  shows "fold applyRouterOspfLine (appendOspfPassive a) r
    = r\<lparr>ror_PassiveDflt := (if ro_PassiveInterfaceDefault a = Some True then Some True else ror_PassiveDflt r)\<rparr>"
proof -
  note p = ospf_passed_passive [OF assms]
  have "fold applyRouterOspfLine (line_if passive_default b) r
      = r\<lparr>ror_PassiveDflt := (if b then Some True else ror_PassiveDflt r)\<rparr>" for b r
    by (cases b) (simp_all add: passive_line)
  then show ?thesis
    unfolding appendOspfPassive_def passive_default_def [symmetric] fold_append comp_def
    by (simp only: fold_ospf_passed [OF p] fold_ospf_passed [OF ospf_passed_parts(2)])
qed

text \<open>Numbers that Go's integers hold, no empty text, and no interface named \<open>default\<close>.\<close>

definition canonical_ospf :: "RouterOspfArgs \<Rightarrow> bool" where
  "canonical_ospf a \<longleftrightarrow>
     ro_RouterId a \<noteq> Some [] \<and> pred_option int64 (ro_MaxLsa a) \<and> ''default'' \<notin> set (ro_PassiveInterfaces a)"

definition ospf_row :: "RouterOspfArgs \<Rightarrow> routerOspfRow" where
  "ospf_row a =
     \<lparr>ror_Instance = ro_Instance a, ror_Vrf = or_empty (ro_Vrf a), ror_RouterID = or_empty (nonempty (ro_RouterId a)),
      ror_Shutdown = ro_Shutdown a, ror_MaxLsa = or_zero (ro_MaxLsa a), ror_MaximumPaths = or_zero (ro_MaximumPaths a),
      ror_PassiveDflt = (if ro_PassiveInterfaceDefault a = Some True then Some True else None)\<rparr>"

lemma validateRouterOspf_numbers:
  assumes "validateRouterOspf a = None"
  shows "pred_option (\<lambda>n. 1 \<le> n \<and> n \<le> 128) (ro_MaximumPaths a)" and "pred_option (\<lambda>n. n > 0) (ro_MaxLsa a)"
proof -
  have s: "validateRouterOspfScalars a = None" using assms unfolding validateRouterOspf_def first_error_None by simp
  have r: "out_of 1 128 ErrRouterOspfMaximumPathsRange (ro_MaximumPaths a) = None"
    "not_positive ErrRouterOspfMaxLsaNonPositive (ro_MaxLsa a) = None"
    using s unfolding validateRouterOspfScalars_def first_error_None by simp_all
  from r(1) show "pred_option (\<lambda>n. 1 \<le> n \<and> n \<le> 128) (ro_MaximumPaths a)"
    by (cases "ro_MaximumPaths a") (simp_all add: out_of_def opt_err_def split: if_splits)
  from r(2) show "pred_option (\<lambda>n. n > 0) (ro_MaxLsa a)"
    by (cases "ro_MaxLsa a") (simp_all add: not_positive_def opt_err_def split: if_splits)
qed

lemma ospf_body_back:
  assumes v: "validateRouterOspf a = None" and c: "canonical_ospf a"
  shows "fold applyRouterOspfLine (appendRouterOspfBody a) (new_routerOspfRow (ro_Instance a) (or_empty (ro_Vrf a))) = ospf_row a"
proof -
  from validateRouterOspf_numbers(1) [OF v] have p: "pred_option int64 (ro_MaximumPaths a)"
    by (cases "ro_MaximumPaths a") (simp_all add: int64_def)
  from c have l: "pred_option int64 (ro_MaxLsa a)" and d: "''default'' \<notin> set (ro_PassiveInterfaces a)"
    by (simp_all add: canonical_ospf_def)
  show ?thesis
    unfolding appendRouterOspfBody_def appendOspfScalars_def fold_append comp_def line_bool_def
      ro_id.fold_attr [OF any_readable] ro_shutdown.fold_pointer [OF any_readable]
      ospf_passed_parts [THEN fold_ospf_passed] ospf_passed_distance [THEN fold_ospf_passed]
      ospf_passed_timers [THEN fold_ospf_passed] ospf_passed_log [THEN fold_ospf_passed] ospf_passed_areas [THEN fold_ospf_passed]
      ospf_passive_back [OF d] ro_lsa.fold_attr [OF l] ro_paths.fold_attr [OF p]
    by (simp add: new_routerOspfRow_def ospf_row_def)
qed

definition ospf_idle :: "string \<Rightarrow> bool" where
  "ospf_idle l \<longleftrightarrow> l \<in> {[], ''!'', ''exit''}"

interpretation ospf_scan: line_scanner "ospf_step header" ospf_idle
proof (unfold_locales, goal_cases)
  case (1 l r)
  then have "l = [] \<or> l = ''!'' \<or> l = ''exit''" by (auto simp: ospf_idle_def)
  then show ?case by (elim disjE; cases r; simp add: ospf_step_def applyRouterOspfLine_def l3_words)
qed (auto simp: noise_def ospf_idle_def)

lemma ospf_outside:
  "header \<notin> set ls \<Longrightarrow> fold (ospf_step header) ls (row, False, f) = (row, False, f)"
  by (induction ls) (auto simp: ospf_step_def)

lemma ospf_inside:
  "list_all ospf_inner ls \<Longrightarrow>
   fold (ospf_step header) ls (row, True, True) = (fold applyRouterOspfLine ls row, True, True)"
  by (induction ls arbitrary: row) (simp_all add: ospf_step_def ospf_inner_def)

text \<open>
  A text whose significant lines are those of anything but our process, our process, and
  other processes.
\<close>

definition shows_ospf :: "RouterOspfArgs \<Rightarrow> string \<Rightarrow> string list \<Rightarrow> string list \<Rightarrow> bool" where
  "shows_ospf a out pre post \<longleftrightarrow>
     (let header = ospf_header (ro_Instance a) (or_empty (ro_Vrf a))
      in prints ospf_idle out (pre @ [header] @ appendRouterOspfBody a @ post)
         \<and> header \<notin> set (pre @ post) \<and> (post \<noteq> [] \<longrightarrow> HasPrefix (hd post) ''router ospf''))"

lemma ospf_inner_line: "(\<And>v. ospf_inner (f v)) \<Longrightarrow> list_all ospf_inner (line_opt f p)"
  by (cases p) simp_all

lemma ospf_body_inner:
  assumes "canonical_ospf a"
  shows "list_all ospf_inner (appendRouterOspfBody a)"
proof -
  have "list_all ospf_inner (line_opt (\<lambda>v. ''router-id '' @ v) p)"
    "list_all ospf_inner (line_opt (\<lambda>v. if v then keywordShutdown else keywordNoShutdown) q)"
    "list_all ospf_inner (line_opt (\<lambda>v. ''max-lsa '' @ Itoa v) n)"
    "list_all ospf_inner (line_opt (\<lambda>v. ''maximum-paths '' @ Itoa v) n)" for p q n
    by (rule ospf_inner_line; simp add: ospf_inner_def l3_words)+
  moreover have "list_all ospf_inner (line_if ''passive-interface default'' b)" for b
    by (cases b) (simp_all add: ospf_inner_def)
  moreover have "''default'' \<notin> set (ro_PassiveInterfaces a)" using assms by (simp add: canonical_ospf_def)
  ultimately show ?thesis
    unfolding appendRouterOspfBody_def appendOspfScalars_def appendOspfPassive_def line_bool_def list_all_append
    by (intro conjI ospf_passed_inner [OF ospf_passed_parts(1)] ospf_passed_inner [OF ospf_passed_parts(2)]
        ospf_passed_inner [OF ospf_passed_parts(3)] ospf_passed_inner [OF ospf_passed_parts(4)]
        ospf_passed_inner [OF ospf_passed_parts(5)] ospf_passed_inner [OF ospf_passed_parts(6)]
        ospf_passed_inner [OF ospf_passed_parts(7)] ospf_passed_inner [OF ospf_passed_distance]
        ospf_passed_inner [OF ospf_passed_timers] ospf_passed_inner [OF ospf_passed_log]
        ospf_passed_inner [OF ospf_passed_areas] ospf_passed_inner [OF ospf_passed_passive])
qed

lemma router_ospf_roundtrip:
  assumes v: "validateRouterOspf a = None" and c: "canonical_ospf a" and s: "shows_ospf a out pre post"
  shows "parseRouterOspfSection out (ro_Instance a) (or_empty (ro_Vrf a)) = Some (ospf_row a)"
    and "fillRouterOspf (ospf_row a) a = a"
proof -
  let ?vrf = "or_empty (ro_Vrf a)"
  let ?h = "ospf_header (ro_Instance a) ?vrf" and ?r0 = "new_routerOspfRow (ro_Instance a) ?vrf"
  from s have pre: "?h \<notin> set pre" and post: "?h \<notin> set post" and hd: "post \<noteq> [] \<Longrightarrow> HasPrefix (hd post) ''router ospf''"
    and p: "prints ospf_idle out (pre @ [?h] @ appendRouterOspfBody a @ post)"
    by (simp_all add: shows_ospf_def Let_def)
  have h: "ospf_step ?h ?h st = (fst st, True, True)" for st
    by (simp add: ospf_step_def ospf_header_def split: prod.split)
  have "scan (ospf_step ?h) out (?r0, False, False) = fold (ospf_step ?h) post (ospf_row a, True, True)"
    unfolding ospf_scan.scan_prints [OF p] fold_append comp_def fold_simps ospf_outside [OF pre] h fst_conv
      ospf_inside [OF ospf_body_inner [OF c]] ospf_body_back [OF v c] ..
  also have "\<exists>b. \<dots> = (ospf_row a, b, True)"
  proof (cases post)
    case (Cons l ls)
    with hd post have "ospf_step ?h l (ospf_row a, True, True) = (ospf_row a, False, True)" by (auto simp: ospf_step_def)
    with Cons ospf_outside [of ?h ls] post show ?thesis by auto
  qed auto
  finally obtain b where "scan (ospf_step ?h) out (?r0, False, False) = (ospf_row a, b, True)" by blast
  then show "parseRouterOspfSection out (ro_Instance a) ?vrf = Some (ospf_row a)"
    by (simp add: parseRouterOspfSection_def)
  have "set_pos (or_zero (ro_MaxLsa a)) (ro_MaxLsa a) = ro_MaxLsa a"
    using validateRouterOspf_numbers(2) [OF v] by (cases "ro_MaxLsa a") (simp_all add: set_pos_def)
  moreover have "set_pos (or_zero (ro_MaximumPaths a)) (ro_MaximumPaths a) = ro_MaximumPaths a"
    using validateRouterOspf_numbers(1) [OF v] by (cases "ro_MaximumPaths a") (simp_all add: set_pos_def)
  moreover have "set_str (or_empty (nonempty (ro_RouterId a))) (ro_RouterId a) = ro_RouterId a"
    using c by (cases "ro_RouterId a") (auto simp: canonical_ospf_def set_str_def nonempty_def)
  ultimately show "fillRouterOspf (ospf_row a) a = a" by (simp add: fillRouterOspf_def ospf_row_def)
qed

text \<open>
  An IPv6 prefix passes the validation although its message asks for IPv4, and of the three
  parts of the SPF timer none is sent unless all are given.
\<close>

lemma ospf_ipv6_network:
  "validateRouterOspfNetworks [\<lparr>on_Prefix = ''2001:db8::/32'', on_Area = ''0''\<rparr>] = None"
proof -
  have "canonicaliseOspfArea ''0'' \<noteq> None" using area_number(1) [of 0] by (simp add: Itoa_def nat_digits.simps digit_char_def digits_def)
  moreover have "ParsePrefix ''2001:db8::/32'' \<noteq> None" by code_simp
  ultimately show ?thesis by (simp add: validateRouterOspfNetworks_def ospf_prefix_def ospf_area_def)
qed

lemma ospf_partial_timer:
  "ot_SpfHold t = None \<Longrightarrow> ot_OutDelay t = None \<Longrightarrow> ot_PacingFlood t = None \<Longrightarrow> appendOspfTimers (Some t) = []"
  by (simp add: appendOspfTimers_def split: option.split)

end
