(* ===== verification/L3_Handlers.thy ===== *)
theory L3_Handlers
  imports Loopback Static_Route Vrf As_Path_Access_List Community_List Prefix_List Ext_Community_List Bfd Resilient_Ecmp
    Subinterface Gre_Tunnel Rpki Rcf Vrrp Policy_Based_Routing Route_Map Router_Bgp Router_Ospf Fixtures
begin

text \<open>
  What holds of the handlers of every routing resource of \<open>internal/resources/l3\<close>.
\<close>

section \<open>Two apply functions that are not one plain session\<close>

text \<open>A prefix without a family is refused before a client is made.\<close>

definition ecmp_cmds :: "ResilientEcmpArgs \<Rightarrow> bool \<Rightarrow> string list" where
  "ecmp_cmds a rm = (case canonicaliseFamily a of Ok f \<Rightarrow> buildResilientEcmpCmds a f rm | _ \<Rightarrow> [])"

lemma applyResilientEcmp_device:
  assumes "\<forall>n. honours_sessions (cx_env C) n (session_name C (''recmp-'' @ sanitizePrefixListName (re_Prefix a))) running pending merge"
  shows "changed_by running pending merge (ecmp_cmds a rm) (is_Ok (fst (applyResilientEcmp C a rm w))) w (snd (applyResilientEcmp C a rm w))"
  using apply_session_device [OF assms]
  by (cases "canonicaliseFamily a") (simp_all add: applyResilientEcmp_def ecmp_cmds_def)

lemmas ecmp_handlers_device = crud_changed [where app = "applyResilientEcmp C" for C, OF applyResilientEcmp_device]

text \<open>An RCF unit without inline code sends plain commands, and so does every removal.\<close>

lemma applyRcf_device:
  assumes "\<forall>n. honours_sessions (cx_env C) n (session_name C (''rcf-'' @ sanitizePrefixListName (rcf_Name a))) running pending merge"
    and "rm \<or> nonempty (rcf_Code a) = None"
  shows "changed_by running pending merge (buildRcfPlainCmds a rm) (is_Ok (fst (applyRcf C a rm w))) w (snd (applyRcf C a rm w))"
  using apply_session_device [OF assms(1)] assms(2) by (simp add: applyRcf_def)

text \<open>
  A unit of a file that is on the device already.  A pull from a URL is left out: the device
  carries it out and commits it by itself, which is not how a session stages commands.
\<close>

definition rcf_from_file :: "RcfArgs \<Rightarrow> bool" where
  "rcf_from_file a \<longleftrightarrow> nonempty (rcf_Code a) = None \<and> nonempty (rcf_SourceUrl a) = None"

lemma rcf_handlers_device:
  assumes h: "\<forall>n. honours_sessions (cx_env C) n (session_name C (''rcf-'' @ sanitizePrefixListName (rcf_Name a))) running pending merge"
  shows "rcf_from_file a \<Longrightarrow> changed_by running pending merge (buildRcfPlainCmds a False)
       (is_Ok (fst (Rcf_Create C \<lparr>Inputs = a, DryRun = False\<rparr> w))) w (snd (Rcf_Create C \<lparr>Inputs = a, DryRun = False\<rparr> w))"
    and "rcf_from_file a \<Longrightarrow> changed_by running pending merge (buildRcfPlainCmds a False)
       (is_Ok (fst (Rcf_Update C \<lparr>Inputs = a, DryRun = False\<rparr> w))) w (snd (Rcf_Update C \<lparr>Inputs = a, DryRun = False\<rparr> w))"
    and "changed_by running pending merge (buildRcfPlainCmds a True) (is_Ok (fst (Rcf_Delete C a w))) w (snd (Rcf_Delete C a w))"
proof -
  show "changed_by running pending merge (buildRcfPlainCmds a True) (is_Ok (fst (Rcf_Delete C a w))) w (snd (Rcf_Delete C a w))"
    using applyRcf_device [OF h, of True w] unfolding Rcf_Delete_def crud_delete_def by (auto split: prod.split)
  note all = crud_changed [where app = "applyRcf C" and cmds = "buildRcfPlainCmds a", OF applyRcf_device [OF h]]
  show "changed_by running pending merge (buildRcfPlainCmds a False)
       (is_Ok (fst (Rcf_Create C \<lparr>Inputs = a, DryRun = False\<rparr> w))) w (snd (Rcf_Create C \<lparr>Inputs = a, DryRun = False\<rparr> w))"
    "changed_by running pending merge (buildRcfPlainCmds a False)
       (is_Ok (fst (Rcf_Update C \<lparr>Inputs = a, DryRun = False\<rparr> w))) w (snd (Rcf_Update C \<lparr>Inputs = a, DryRun = False\<rparr> w))"
    if "rcf_from_file a"
    unfolding Rcf_Create_def Rcf_Update_def by (rule all(1,2); use that in \<open>simp add: rcf_from_file_def\<close>)+
qed

section \<open>Every routing resource\<close>

text \<open>
  C21. What Create, Update and Delete of a routing resource do to a device that implements
  configuration sessions as documented: the call succeeds and has merged exactly what was
  pending under the resource's session name and the commands it renders, or it fails and has
  changed nothing.  For RCF units this is said of removals and of units that are read from a
  file on the device; inline code travels as a rich command, and a URL is pulled and committed
  by the device itself.
\<close>

theorem l3_handlers_atomic:
  assumes "\<forall>n name. honours_sessions (cx_env C) n name running (pending name) merge"
  shows "session_changed C running pending merge (''loopback-'' @ Itoa (lo_Number lo)) (buildLoopbackCmds lo False) w
       (Loopback_Create C \<lparr>Inputs = lo, DryRun = False\<rparr> w)
     \<and> session_changed C running pending merge (''loopback-'' @ Itoa (lo_Number lo)) (buildLoopbackCmds lo False) w
       (Loopback_Update C \<lparr>Inputs = lo, DryRun = False\<rparr> w)
     \<and> session_changed C running pending merge (''loopback-'' @ Itoa (lo_Number lo)) (buildLoopbackCmds lo True) w (Loopback_Delete C lo w)
     \<and> session_changed C running pending merge (''subif-'' @ sanitizeSessionName (su_Name su)) (buildSubinterfaceCmds su False) w
       (Subinterface_Create C \<lparr>Inputs = su, DryRun = False\<rparr> w)
     \<and> session_changed C running pending merge (''subif-'' @ sanitizeSessionName (su_Name su)) (buildSubinterfaceCmds su False) w
       (Subinterface_Update C \<lparr>Inputs = su, DryRun = False\<rparr> w)
     \<and> session_changed C running pending merge (''subif-'' @ sanitizeSessionName (su_Name su)) (buildSubinterfaceCmds su True) w (Subinterface_Delete C su w)
     \<and> session_changed C running pending merge (''tunnel-'' @ Itoa (gr_Id gr)) (buildGreTunnelCmds gr False) w
       (GreTunnel_Create C \<lparr>Inputs = gr, DryRun = False\<rparr> w)
     \<and> session_changed C running pending merge (''tunnel-'' @ Itoa (gr_Id gr)) (buildGreTunnelCmds gr False) w
       (GreTunnel_Update C \<lparr>Inputs = gr, DryRun = False\<rparr> w)
     \<and> session_changed C running pending merge (''tunnel-'' @ Itoa (gr_Id gr)) (buildGreTunnelCmds gr True) w (GreTunnel_Delete C gr w)
     \<and> session_changed C running pending merge (''vrrp-'' @ sanitizePrefixListName (vp_Interface vp) @ ''-'' @ Itoa (vp_Vrid vp)) (buildVrrpCmds vp False) w
       (Vrrp_Create C \<lparr>Inputs = vp, DryRun = False\<rparr> w)
     \<and> session_changed C running pending merge (''vrrp-'' @ sanitizePrefixListName (vp_Interface vp) @ ''-'' @ Itoa (vp_Vrid vp)) (buildVrrpCmds vp False) w
       (Vrrp_Update C \<lparr>Inputs = vp, DryRun = False\<rparr> w)
     \<and> session_changed C running pending merge (''vrrp-'' @ sanitizePrefixListName (vp_Interface vp) @ ''-'' @ Itoa (vp_Vrid vp)) (buildVrrpCmds vp True) w (Vrrp_Delete C vp w)
     \<and> session_changed C running pending merge (''vrf-'' @ vrf_Name vrf) (buildVrfCmds vrf False) w
       (Vrf_Create C \<lparr>Inputs = vrf, DryRun = False\<rparr> w)
     \<and> session_changed C running pending merge (''vrf-'' @ vrf_Name vrf) (buildVrfCmds vrf False) w
       (Vrf_Update C \<lparr>Inputs = vrf, DryRun = False\<rparr> w)
     \<and> session_changed C running pending merge (''vrf-'' @ vrf_Name vrf) (buildVrfCmds vrf True) w (Vrf_Delete C vrf w)
     \<and> session_changed C running pending merge (''route-'' @ staticRouteSessionToken sr) (buildStaticRouteCmds sr False) w
       (StaticRoute_Create C \<lparr>Inputs = sr, DryRun = False\<rparr> w)
     \<and> session_changed C running pending merge (''route-'' @ staticRouteSessionToken sr) (buildStaticRouteCmds sr False) w
       (StaticRoute_Update C \<lparr>Inputs = sr, DryRun = False\<rparr> w)
     \<and> session_changed C running pending merge (''route-'' @ staticRouteSessionToken sr) (buildStaticRouteCmds sr True) w (StaticRoute_Delete C sr w)
     \<and> session_changed C running pending merge ''bfd-global'' (buildBfdCmds bf False) w
       (Bfd_Create C \<lparr>Inputs = bf, DryRun = False\<rparr> w)
     \<and> session_changed C running pending merge ''bfd-global'' (buildBfdCmds bf False) w
       (Bfd_Update C \<lparr>Inputs = bf, DryRun = False\<rparr> w)
     \<and> session_changed C running pending merge ''bfd-global'' (buildBfdCmds bf True) w (Bfd_Delete C bf w)
     \<and> session_changed C running pending merge (''rbgp-'' @ Itoa (rb_Asn bg)) (buildRouterBgpCmds bg False) w
       (RouterBgp_Create C \<lparr>Inputs = bg, DryRun = False\<rparr> w)
     \<and> session_changed C running pending merge (''rbgp-'' @ Itoa (rb_Asn bg)) (buildRouterBgpCmds bg False) w
       (RouterBgp_Update C \<lparr>Inputs = bg, DryRun = False\<rparr> w)
     \<and> session_changed C running pending merge (''rbgp-'' @ Itoa (rb_Asn bg)) (buildRouterBgpCmds bg True) w (RouterBgp_Delete C bg w)
     \<and> session_changed C running pending merge (ospf_suffix os) (buildRouterOspfCmds os False) w
       (RouterOspf_Create C \<lparr>Inputs = os, DryRun = False\<rparr> w)
     \<and> session_changed C running pending merge (ospf_suffix os) (buildRouterOspfCmds os False) w
       (RouterOspf_Update C \<lparr>Inputs = os, DryRun = False\<rparr> w)
     \<and> session_changed C running pending merge (ospf_suffix os) (buildRouterOspfCmds os True) w (RouterOspf_Delete C os w)
     \<and> session_changed C running pending merge (''rpki-'' @ Itoa (rp_BgpAsn rp) @ ''-'' @ sanitizePrefixListName (rp_Name rp)) (buildRpkiCmds rp False) w
       (Rpki_Create C \<lparr>Inputs = rp, DryRun = False\<rparr> w)
     \<and> session_changed C running pending merge (''rpki-'' @ Itoa (rp_BgpAsn rp) @ ''-'' @ sanitizePrefixListName (rp_Name rp)) (buildRpkiCmds rp False) w
       (Rpki_Update C \<lparr>Inputs = rp, DryRun = False\<rparr> w)
     \<and> session_changed C running pending merge (''rpki-'' @ Itoa (rp_BgpAsn rp) @ ''-'' @ sanitizePrefixListName (rp_Name rp)) (buildRpkiCmds rp True) w (Rpki_Delete C rp w)
     \<and> session_changed C running pending merge (''pbr-'' @ sanitizePrefixListName (pb_Name pb)) (buildPbrCmds pb False) w
       (PolicyBasedRouting_Create C \<lparr>Inputs = pb, DryRun = False\<rparr> w)
     \<and> session_changed C running pending merge (''pbr-'' @ sanitizePrefixListName (pb_Name pb)) (buildPbrCmds pb False) w
       (PolicyBasedRouting_Update C \<lparr>Inputs = pb, DryRun = False\<rparr> w)
     \<and> session_changed C running pending merge (''pbr-'' @ sanitizePrefixListName (pb_Name pb)) (buildPbrCmds pb True) w (PolicyBasedRouting_Delete C pb w)
     \<and> session_changed C running pending merge (''rmap-'' @ sanitizePrefixListName (rm_Name rm)) (buildRouteMapCmds rm False) w
       (RouteMap_Create C \<lparr>Inputs = rm, DryRun = False\<rparr> w)
     \<and> session_changed C running pending merge (''rmap-'' @ sanitizePrefixListName (rm_Name rm)) (buildRouteMapCmds rm False) w
       (RouteMap_Update C \<lparr>Inputs = rm, DryRun = False\<rparr> w)
     \<and> session_changed C running pending merge (''rmap-'' @ sanitizePrefixListName (rm_Name rm)) (buildRouteMapCmds rm True) w (RouteMap_Delete C rm w)
     \<and> session_changed C running pending merge (''pfxlist-'' @ sanitizePrefixListName (pl_Name pl)) (buildPrefixListCmds pl False) w
       (PrefixList_Create C \<lparr>Inputs = pl, DryRun = False\<rparr> w)
     \<and> session_changed C running pending merge (''pfxlist-'' @ sanitizePrefixListName (pl_Name pl)) (buildPrefixListCmds pl False) w
       (PrefixList_Update C \<lparr>Inputs = pl, DryRun = False\<rparr> w)
     \<and> session_changed C running pending merge (''pfxlist-'' @ sanitizePrefixListName (pl_Name pl)) (buildPrefixListCmds pl True) w (PrefixList_Delete C pl w)
     \<and> session_changed C running pending merge (''aspath-'' @ sanitizePrefixListName (ap_Name ap)) (buildAsPathAccessListCmds ap False) w
       (AsPathAccessList_Create C \<lparr>Inputs = ap, DryRun = False\<rparr> w)
     \<and> session_changed C running pending merge (''aspath-'' @ sanitizePrefixListName (ap_Name ap)) (buildAsPathAccessListCmds ap False) w
       (AsPathAccessList_Update C \<lparr>Inputs = ap, DryRun = False\<rparr> w)
     \<and> session_changed C running pending merge (''aspath-'' @ sanitizePrefixListName (ap_Name ap)) (buildAsPathAccessListCmds ap True) w (AsPathAccessList_Delete C ap w)
     \<and> session_changed C running pending merge (''comm-'' @ sanitizePrefixListName (cl_Name cl)) (buildCommunityListCmds cl False) w
       (CommunityList_Create C \<lparr>Inputs = cl, DryRun = False\<rparr> w)
     \<and> session_changed C running pending merge (''comm-'' @ sanitizePrefixListName (cl_Name cl)) (buildCommunityListCmds cl False) w
       (CommunityList_Update C \<lparr>Inputs = cl, DryRun = False\<rparr> w)
     \<and> session_changed C running pending merge (''comm-'' @ sanitizePrefixListName (cl_Name cl)) (buildCommunityListCmds cl True) w (CommunityList_Delete C cl w)
     \<and> session_changed C running pending merge (''extcomm-'' @ sanitizePrefixListName (ec_Name ec)) (buildExtCommunityListCmds ec False) w
       (ExtCommunityList_Create C \<lparr>Inputs = ec, DryRun = False\<rparr> w)
     \<and> session_changed C running pending merge (''extcomm-'' @ sanitizePrefixListName (ec_Name ec)) (buildExtCommunityListCmds ec False) w
       (ExtCommunityList_Update C \<lparr>Inputs = ec, DryRun = False\<rparr> w)
     \<and> session_changed C running pending merge (''extcomm-'' @ sanitizePrefixListName (ec_Name ec)) (buildExtCommunityListCmds ec True) w (ExtCommunityList_Delete C ec w)
     \<and> session_changed C running pending merge (''recmp-'' @ sanitizePrefixListName (re_Prefix re)) (ecmp_cmds re False) w
       (ResilientEcmp_Create C \<lparr>Inputs = re, DryRun = False\<rparr> w)
     \<and> session_changed C running pending merge (''recmp-'' @ sanitizePrefixListName (re_Prefix re)) (ecmp_cmds re False) w
       (ResilientEcmp_Update C \<lparr>Inputs = re, DryRun = False\<rparr> w)
     \<and> session_changed C running pending merge (''recmp-'' @ sanitizePrefixListName (re_Prefix re)) (ecmp_cmds re True) w (ResilientEcmp_Delete C re w)
     \<and> (rcf_from_file rc \<longrightarrow> session_changed C running pending merge (''rcf-'' @ sanitizePrefixListName (rcf_Name rc)) (buildRcfPlainCmds rc False) w
       (Rcf_Create C \<lparr>Inputs = rc, DryRun = False\<rparr> w))
     \<and> (rcf_from_file rc \<longrightarrow> session_changed C running pending merge (''rcf-'' @ sanitizePrefixListName (rcf_Name rc)) (buildRcfPlainCmds rc False) w
       (Rcf_Update C \<lparr>Inputs = rc, DryRun = False\<rparr> w))
     \<and> session_changed C running pending merge (''rcf-'' @ sanitizePrefixListName (rcf_Name rc)) (buildRcfPlainCmds rc True) w (Rcf_Delete C rc w)"
  unfolding session_changed_def ResilientEcmp_Create_def ResilientEcmp_Update_def ResilientEcmp_Delete_def Loopback_Create_def Loopback_Update_def Loopback_Delete_def
    Subinterface_Create_def Subinterface_Update_def Subinterface_Delete_def
    GreTunnel_Create_def GreTunnel_Update_def GreTunnel_Delete_def
    Vrrp_Create_def Vrrp_Update_def Vrrp_Delete_def
    Vrf_Create_def Vrf_Update_def Vrf_Delete_def
    StaticRoute_Create_def StaticRoute_Update_def StaticRoute_Delete_def
    Bfd_Create_def Bfd_Update_def Bfd_Delete_def
    RouterBgp_Create_def RouterBgp_Update_def RouterBgp_Delete_def
    RouterOspf_Create_def RouterOspf_Update_def RouterOspf_Delete_def
    Rpki_Create_def Rpki_Update_def Rpki_Delete_def
    PolicyBasedRouting_Create_def PolicyBasedRouting_Update_def PolicyBasedRouting_Delete_def
    RouteMap_Create_def RouteMap_Update_def RouteMap_Delete_def
    PrefixList_Create_def PrefixList_Update_def PrefixList_Delete_def
    AsPathAccessList_Create_def AsPathAccessList_Update_def AsPathAccessList_Delete_def
    CommunityList_Create_def CommunityList_Update_def CommunityList_Delete_def
    ExtCommunityList_Create_def ExtCommunityList_Update_def ExtCommunityList_Delete_def
  using assms by (intro conjI impI ecmp_handlers_device rcf_handlers_device loopback_mgr.handlers_device
      subinterface_mgr.handlers_device
      gre_mgr.handlers_device
      vrrp_mgr.handlers_device
      vrf_mgr.handlers_device
      static_route_mgr.handlers_device
      bfd_mgr.handlers_device
      router_bgp_mgr.handlers_device
      router_ospf_mgr.handlers_device
      rpki_mgr.handlers_device
      pbr_mgr.handlers_device
      route_map_mgr.handlers_device
      prefix_list_mgr.handlers_device
      as_path_mgr.handlers_device
      community_mgr.handlers_device
      ext_community_mgr.handlers_device; simp)+

definition demo_vrf :: VrfArgs where
  "demo_vrf =
     \<lparr>Host = None, Username = None, Password = None, vrf_Name = ''blue'', vrf_Description = None, vrf_IPRouting = None,
      vrf_IPv6Routing = Some False\<rparr>"

definition quiet_switch :: multi where
  "quiet_switch = \<lparr>mu_running = [''hostname a''], mu_pending = (\<lambda>_. [])\<rparr>"

theorem l3_handlers_atomic_witness:
  "is_Ok (fst (Vrf_Create multi_ctx \<lparr>Inputs = demo_vrf, DryRun = False\<rparr> quiet_switch)) \<and>
   mu_running (snd (Vrf_Create multi_ctx \<lparr>Inputs = demo_vrf, DryRun = False\<rparr> quiet_switch))
     = [''hostname a'', ''vrf instance blue'', ''no description'', ''exit'', ''ip routing vrf blue'', ''no ipv6 unicast-routing vrf blue'']"
proof -
  have ok: "is_Ok (fst (Vrf_Create multi_ctx \<lparr>Inputs = demo_vrf, DryRun = False\<rparr> quiet_switch))" by code_simp
  have h: "\<forall>n name. honours_sessions (cx_env multi_ctx) n name mu_running (\<lambda>w. mu_pending w name) (@)"
    by (simp add: multi_honours)
  have cmds: "buildVrfCmds demo_vrf False
      = [''vrf instance blue'', ''no description'', ''exit'', ''ip routing vrf blue'', ''no ipv6 unicast-routing vrf blue'']" by code_simp
  from l3_handlers_atomic [OF h, of _ quiet_switch] have
    "session_changed multi_ctx mu_running (\<lambda>name w. mu_pending w name) (@) (''vrf-'' @ vrf_Name demo_vrf) (buildVrfCmds demo_vrf False) quiet_switch
       (Vrf_Create multi_ctx \<lparr>Inputs = demo_vrf, DryRun = False\<rparr> quiet_switch)" by blast
  then show ?thesis
    unfolding session_changed_def changed_by_def cmds using ok by (simp add: quiet_switch_def)
qed

text \<open>
  C22. When a handler of a routing resource reaches the device, and that it returns.  A dry run
  and an invalid input never do: Create and Update change the world only by the apply function,
  and only for a valid input that is not a dry run; then and only then, and if the apply
  function succeeds, they report success, with the input as the output under the resource's
  ID.  No call panics or waits for ever.
\<close>

theorem l3_handlers_guarded:
  shows "guarded dry (validateLoopback lo) (applyLoopback C lo False w) \<lparr>cr_ID = loopbackID (lo_Number lo), cr_Output = lo\<rparr> w
       (Loopback_Create C \<lparr>Inputs = lo, DryRun = dry\<rparr> w)
     \<and> guarded dry (validateLoopback lo) (applyLoopback C lo False w) lo w
       (Loopback_Update C \<lparr>Inputs = lo, DryRun = dry\<rparr> w)
     \<and> returns (fst (Loopback_Create C \<lparr>Inputs = lo, DryRun = dry\<rparr> w)) \<and> returns (fst (Loopback_Update C \<lparr>Inputs = lo, DryRun = dry\<rparr> w))
     \<and> returns (fst (Loopback_Delete C lo w))
     \<and> guarded dry (validateSubinterface su) (applySubinterface C su False w) \<lparr>cr_ID = subinterfaceID (su_Name su), cr_Output = su\<rparr> w
       (Subinterface_Create C \<lparr>Inputs = su, DryRun = dry\<rparr> w)
     \<and> guarded dry (validateSubinterface su) (applySubinterface C su False w) su w
       (Subinterface_Update C \<lparr>Inputs = su, DryRun = dry\<rparr> w)
     \<and> returns (fst (Subinterface_Create C \<lparr>Inputs = su, DryRun = dry\<rparr> w)) \<and> returns (fst (Subinterface_Update C \<lparr>Inputs = su, DryRun = dry\<rparr> w))
     \<and> returns (fst (Subinterface_Delete C su w))
     \<and> guarded dry (validateGreTunnel gr) (applyGreTunnel C gr False w) \<lparr>cr_ID = greTunnelID (gr_Id gr), cr_Output = gr\<rparr> w
       (GreTunnel_Create C \<lparr>Inputs = gr, DryRun = dry\<rparr> w)
     \<and> guarded dry (validateGreTunnel gr) (applyGreTunnel C gr False w) gr w
       (GreTunnel_Update C \<lparr>Inputs = gr, DryRun = dry\<rparr> w)
     \<and> returns (fst (GreTunnel_Create C \<lparr>Inputs = gr, DryRun = dry\<rparr> w)) \<and> returns (fst (GreTunnel_Update C \<lparr>Inputs = gr, DryRun = dry\<rparr> w))
     \<and> returns (fst (GreTunnel_Delete C gr w))
     \<and> guarded dry (validateVrrp vp) (applyVrrp C vp False w) \<lparr>cr_ID = vrrpID (vp_Interface vp) (vp_Vrid vp), cr_Output = vp\<rparr> w
       (Vrrp_Create C \<lparr>Inputs = vp, DryRun = dry\<rparr> w)
     \<and> guarded dry (validateVrrp vp) (applyVrrp C vp False w) vp w
       (Vrrp_Update C \<lparr>Inputs = vp, DryRun = dry\<rparr> w)
     \<and> returns (fst (Vrrp_Create C \<lparr>Inputs = vp, DryRun = dry\<rparr> w)) \<and> returns (fst (Vrrp_Update C \<lparr>Inputs = vp, DryRun = dry\<rparr> w))
     \<and> returns (fst (Vrrp_Delete C vp w))
     \<and> guarded dry (validateVrf vrf) (applyVrf C vrf False w) \<lparr>cr_ID = vrfID (vrf_Name vrf), cr_Output = vrf\<rparr> w
       (Vrf_Create C \<lparr>Inputs = vrf, DryRun = dry\<rparr> w)
     \<and> guarded dry (validateVrf vrf) (applyVrf C vrf False w) vrf w
       (Vrf_Update C \<lparr>Inputs = vrf, DryRun = dry\<rparr> w)
     \<and> returns (fst (Vrf_Create C \<lparr>Inputs = vrf, DryRun = dry\<rparr> w)) \<and> returns (fst (Vrf_Update C \<lparr>Inputs = vrf, DryRun = dry\<rparr> w))
     \<and> returns (fst (Vrf_Delete C vrf w))
     \<and> guarded dry (validateStaticRoute sr) (applyStaticRoute C sr False w) \<lparr>cr_ID = staticRouteID sr, cr_Output = sr\<rparr> w
       (StaticRoute_Create C \<lparr>Inputs = sr, DryRun = dry\<rparr> w)
     \<and> guarded dry (validateStaticRoute sr) (applyStaticRoute C sr False w) sr w
       (StaticRoute_Update C \<lparr>Inputs = sr, DryRun = dry\<rparr> w)
     \<and> returns (fst (StaticRoute_Create C \<lparr>Inputs = sr, DryRun = dry\<rparr> w)) \<and> returns (fst (StaticRoute_Update C \<lparr>Inputs = sr, DryRun = dry\<rparr> w))
     \<and> returns (fst (StaticRoute_Delete C sr w))
     \<and> guarded dry (validateBfd bf) (applyBfd C bf False w) \<lparr>cr_ID = bfdID, cr_Output = bf\<rparr> w
       (Bfd_Create C \<lparr>Inputs = bf, DryRun = dry\<rparr> w)
     \<and> guarded dry (validateBfd bf) (applyBfd C bf False w) bf w
       (Bfd_Update C \<lparr>Inputs = bf, DryRun = dry\<rparr> w)
     \<and> returns (fst (Bfd_Create C \<lparr>Inputs = bf, DryRun = dry\<rparr> w)) \<and> returns (fst (Bfd_Update C \<lparr>Inputs = bf, DryRun = dry\<rparr> w))
     \<and> returns (fst (Bfd_Delete C bf w))
     \<and> guarded dry (validateRouterBgp bg) (applyRouterBgp C bg False w) \<lparr>cr_ID = routerBgpID (rb_Asn bg), cr_Output = bg\<rparr> w
       (RouterBgp_Create C \<lparr>Inputs = bg, DryRun = dry\<rparr> w)
     \<and> guarded dry (validateRouterBgp bg) (applyRouterBgp C bg False w) bg w
       (RouterBgp_Update C \<lparr>Inputs = bg, DryRun = dry\<rparr> w)
     \<and> returns (fst (RouterBgp_Create C \<lparr>Inputs = bg, DryRun = dry\<rparr> w)) \<and> returns (fst (RouterBgp_Update C \<lparr>Inputs = bg, DryRun = dry\<rparr> w))
     \<and> returns (fst (RouterBgp_Delete C bg w))
     \<and> guarded dry (validateRouterOspf os) (applyRouterOspf C os False w) \<lparr>cr_ID = routerOspfID (ro_Instance os) (ro_Vrf os), cr_Output = os\<rparr> w
       (RouterOspf_Create C \<lparr>Inputs = os, DryRun = dry\<rparr> w)
     \<and> guarded dry (validateRouterOspf os) (applyRouterOspf C os False w) os w
       (RouterOspf_Update C \<lparr>Inputs = os, DryRun = dry\<rparr> w)
     \<and> returns (fst (RouterOspf_Create C \<lparr>Inputs = os, DryRun = dry\<rparr> w)) \<and> returns (fst (RouterOspf_Update C \<lparr>Inputs = os, DryRun = dry\<rparr> w))
     \<and> returns (fst (RouterOspf_Delete C os w))
     \<and> guarded dry (validateRpki rp) (applyRpki C rp False w) \<lparr>cr_ID = rpkiID (rp_BgpAsn rp) (rp_Name rp), cr_Output = rp\<rparr> w
       (Rpki_Create C \<lparr>Inputs = rp, DryRun = dry\<rparr> w)
     \<and> guarded dry (validateRpki rp) (applyRpki C rp False w) rp w
       (Rpki_Update C \<lparr>Inputs = rp, DryRun = dry\<rparr> w)
     \<and> returns (fst (Rpki_Create C \<lparr>Inputs = rp, DryRun = dry\<rparr> w)) \<and> returns (fst (Rpki_Update C \<lparr>Inputs = rp, DryRun = dry\<rparr> w))
     \<and> returns (fst (Rpki_Delete C rp w))
     \<and> guarded dry (validatePbr pb) (applyPbr C pb False w) \<lparr>cr_ID = pbrID (pb_Name pb), cr_Output = pb\<rparr> w
       (PolicyBasedRouting_Create C \<lparr>Inputs = pb, DryRun = dry\<rparr> w)
     \<and> guarded dry (validatePbr pb) (applyPbr C pb False w) pb w
       (PolicyBasedRouting_Update C \<lparr>Inputs = pb, DryRun = dry\<rparr> w)
     \<and> returns (fst (PolicyBasedRouting_Create C \<lparr>Inputs = pb, DryRun = dry\<rparr> w)) \<and> returns (fst (PolicyBasedRouting_Update C \<lparr>Inputs = pb, DryRun = dry\<rparr> w))
     \<and> returns (fst (PolicyBasedRouting_Delete C pb w))
     \<and> guarded dry (validateRouteMap rm) (applyRouteMap C rm False w) \<lparr>cr_ID = routeMapID (rm_Name rm), cr_Output = rm\<rparr> w
       (RouteMap_Create C \<lparr>Inputs = rm, DryRun = dry\<rparr> w)
     \<and> guarded dry (validateRouteMap rm) (applyRouteMap C rm False w) rm w
       (RouteMap_Update C \<lparr>Inputs = rm, DryRun = dry\<rparr> w)
     \<and> returns (fst (RouteMap_Create C \<lparr>Inputs = rm, DryRun = dry\<rparr> w)) \<and> returns (fst (RouteMap_Update C \<lparr>Inputs = rm, DryRun = dry\<rparr> w))
     \<and> returns (fst (RouteMap_Delete C rm w))
     \<and> guarded dry (validatePrefixList pl) (applyPrefixList C pl False w) \<lparr>cr_ID = prefixListID (pl_Name pl), cr_Output = pl\<rparr> w
       (PrefixList_Create C \<lparr>Inputs = pl, DryRun = dry\<rparr> w)
     \<and> guarded dry (validatePrefixList pl) (applyPrefixList C pl False w) pl w
       (PrefixList_Update C \<lparr>Inputs = pl, DryRun = dry\<rparr> w)
     \<and> returns (fst (PrefixList_Create C \<lparr>Inputs = pl, DryRun = dry\<rparr> w)) \<and> returns (fst (PrefixList_Update C \<lparr>Inputs = pl, DryRun = dry\<rparr> w))
     \<and> returns (fst (PrefixList_Delete C pl w))
     \<and> guarded dry (validateAsPathAccessList ap) (applyAsPathAccessList C ap False w) \<lparr>cr_ID = asPathAccessListID (ap_Name ap), cr_Output = ap\<rparr> w
       (AsPathAccessList_Create C \<lparr>Inputs = ap, DryRun = dry\<rparr> w)
     \<and> guarded dry (validateAsPathAccessList ap) (applyAsPathAccessList C ap False w) ap w
       (AsPathAccessList_Update C \<lparr>Inputs = ap, DryRun = dry\<rparr> w)
     \<and> returns (fst (AsPathAccessList_Create C \<lparr>Inputs = ap, DryRun = dry\<rparr> w)) \<and> returns (fst (AsPathAccessList_Update C \<lparr>Inputs = ap, DryRun = dry\<rparr> w))
     \<and> returns (fst (AsPathAccessList_Delete C ap w))
     \<and> guarded dry (validateCommunityList cl) (applyCommunityList C cl False w) \<lparr>cr_ID = communityListID (cl_Name cl), cr_Output = cl\<rparr> w
       (CommunityList_Create C \<lparr>Inputs = cl, DryRun = dry\<rparr> w)
     \<and> guarded dry (validateCommunityList cl) (applyCommunityList C cl False w) cl w
       (CommunityList_Update C \<lparr>Inputs = cl, DryRun = dry\<rparr> w)
     \<and> returns (fst (CommunityList_Create C \<lparr>Inputs = cl, DryRun = dry\<rparr> w)) \<and> returns (fst (CommunityList_Update C \<lparr>Inputs = cl, DryRun = dry\<rparr> w))
     \<and> returns (fst (CommunityList_Delete C cl w))
     \<and> guarded dry (validateExtCommunityList ec) (applyExtCommunityList C ec False w) \<lparr>cr_ID = extCommunityListID (ec_Name ec), cr_Output = ec\<rparr> w
       (ExtCommunityList_Create C \<lparr>Inputs = ec, DryRun = dry\<rparr> w)
     \<and> guarded dry (validateExtCommunityList ec) (applyExtCommunityList C ec False w) ec w
       (ExtCommunityList_Update C \<lparr>Inputs = ec, DryRun = dry\<rparr> w)
     \<and> returns (fst (ExtCommunityList_Create C \<lparr>Inputs = ec, DryRun = dry\<rparr> w)) \<and> returns (fst (ExtCommunityList_Update C \<lparr>Inputs = ec, DryRun = dry\<rparr> w))
     \<and> returns (fst (ExtCommunityList_Delete C ec w))
     \<and> guarded dry ((validateRcf (cx_lib C)) rc) (applyRcf C rc False w) \<lparr>cr_ID = rcfID (rcf_Name rc), cr_Output = rc\<rparr> w
       (Rcf_Create C \<lparr>Inputs = rc, DryRun = dry\<rparr> w)
     \<and> guarded dry ((validateRcf (cx_lib C)) rc) (applyRcf C rc False w) rc w
       (Rcf_Update C \<lparr>Inputs = rc, DryRun = dry\<rparr> w)
     \<and> returns (fst (Rcf_Create C \<lparr>Inputs = rc, DryRun = dry\<rparr> w)) \<and> returns (fst (Rcf_Update C \<lparr>Inputs = rc, DryRun = dry\<rparr> w))
     \<and> returns (fst (Rcf_Delete C rc w))
     \<and> guarded dry (validateResilientEcmp re) (applyResilientEcmp C re False w) \<lparr>cr_ID = resilientEcmpID (re_Prefix re) (or_empty (re_IpFamily re)), cr_Output = re\<rparr> w
       (ResilientEcmp_Create C \<lparr>Inputs = re, DryRun = dry\<rparr> w)
     \<and> guarded dry (validateResilientEcmp re) (applyResilientEcmp C re False w) re w
       (ResilientEcmp_Update C \<lparr>Inputs = re, DryRun = dry\<rparr> w)
     \<and> returns (fst (ResilientEcmp_Create C \<lparr>Inputs = re, DryRun = dry\<rparr> w)) \<and> returns (fst (ResilientEcmp_Update C \<lparr>Inputs = re, DryRun = dry\<rparr> w))
     \<and> returns (fst (ResilientEcmp_Delete C re w))"
  unfolding Loopback_Create_def Loopback_Update_def Loopback_Delete_def
    Subinterface_Create_def Subinterface_Update_def Subinterface_Delete_def
    GreTunnel_Create_def GreTunnel_Update_def GreTunnel_Delete_def
    Vrrp_Create_def Vrrp_Update_def Vrrp_Delete_def
    Vrf_Create_def Vrf_Update_def Vrf_Delete_def
    StaticRoute_Create_def StaticRoute_Update_def StaticRoute_Delete_def
    Bfd_Create_def Bfd_Update_def Bfd_Delete_def
    RouterBgp_Create_def RouterBgp_Update_def RouterBgp_Delete_def
    RouterOspf_Create_def RouterOspf_Update_def RouterOspf_Delete_def
    Rpki_Create_def Rpki_Update_def Rpki_Delete_def
    PolicyBasedRouting_Create_def PolicyBasedRouting_Update_def PolicyBasedRouting_Delete_def
    RouteMap_Create_def RouteMap_Update_def RouteMap_Delete_def
    PrefixList_Create_def PrefixList_Update_def PrefixList_Delete_def
    AsPathAccessList_Create_def AsPathAccessList_Update_def AsPathAccessList_Delete_def
    CommunityList_Create_def CommunityList_Update_def CommunityList_Delete_def
    ExtCommunityList_Create_def ExtCommunityList_Update_def ExtCommunityList_Delete_def
    Rcf_Create_def Rcf_Update_def Rcf_Delete_def
    ResilientEcmp_Create_def ResilientEcmp_Update_def ResilientEcmp_Delete_def
  by (intro conjI crud_guarded loopback_mgr.create_returns loopback_mgr.update_returns loopback_mgr.delete_returns
      subinterface_mgr.create_returns subinterface_mgr.update_returns subinterface_mgr.delete_returns
      gre_mgr.create_returns gre_mgr.update_returns gre_mgr.delete_returns
      vrrp_mgr.create_returns vrrp_mgr.update_returns vrrp_mgr.delete_returns
      vrf_mgr.create_returns vrf_mgr.update_returns vrf_mgr.delete_returns
      static_route_mgr.create_returns static_route_mgr.update_returns static_route_mgr.delete_returns
      bfd_mgr.create_returns bfd_mgr.update_returns bfd_mgr.delete_returns
      router_bgp_mgr.create_returns router_bgp_mgr.update_returns router_bgp_mgr.delete_returns
      router_ospf_mgr.create_returns router_ospf_mgr.update_returns router_ospf_mgr.delete_returns
      rpki_mgr.create_returns rpki_mgr.update_returns rpki_mgr.delete_returns
      pbr_mgr.create_returns pbr_mgr.update_returns pbr_mgr.delete_returns
      route_map_mgr.create_returns route_map_mgr.update_returns route_map_mgr.delete_returns
      prefix_list_mgr.create_returns prefix_list_mgr.update_returns prefix_list_mgr.delete_returns
      as_path_mgr.create_returns as_path_mgr.update_returns as_path_mgr.delete_returns
      community_mgr.create_returns community_mgr.update_returns community_mgr.delete_returns
      ext_community_mgr.create_returns ext_community_mgr.update_returns ext_community_mgr.delete_returns
      rcf_mgr.create_returns rcf_mgr.update_returns rcf_mgr.delete_returns
      ecmp_mgr.create_returns ecmp_mgr.update_returns ecmp_mgr.delete_returns)

end
