(* ===== verification/L3_Properties.thy ===== *)
theory L3_Properties
  imports L3_Handlers
begin

text \<open>
  The properties of single routing resources of \<open>internal/resources/l3\<close>, each with the concrete
  input at which it is instantiated.
\<close>

section \<open>Route maps and prefix lists\<close>


definition plain_entry :: "int \<Rightarrow> RouteMapSet \<Rightarrow> RouteMapEntry" where
  "plain_entry n s = \<lparr>me_Seq = n, me_Action = ''permit'', me_Match = None, me_Set = Some s, me_Continue = None\<rparr>"

definition demo_map :: "string \<Rightarrow> RouteMapEntry list \<Rightarrow> RouteMapArgs" where
  "demo_map name es = \<lparr>Host = None, Username = None, Password = None, rm_Name = name, rm_Entries = es\<rparr>"


definition shown_text :: "string list \<Rightarrow> string" where
  "shown_text ls = block_text ''   '' ls"

lemma shown_prints: "list_all clean_line ls \<Longrightarrow> ls \<noteq> [] \<Longrightarrow> prints idle (shown_text ls) ls"
  unfolding shown_text_def list_all_iff by (intro prints_block_text) (simp_all add: blanks_def)


text \<open>
  C24. A neighbouring route map spoils a refresh.  The device's section for a name holds every
  route map whose header contains it.  When a map whose name continues ours comes behind ours, all
  its clauses are read as clauses of our last entry, so a refresh of a map that nobody touched
  reports the neighbour's settings as drift.
\<close>

theorem route_map_neighbour_spoils:
  assumes v: "validateRouteMap a = None" and e: "rm_Entries a = [e]" and r: "entry_readable e"
    and n: "rm_Name b = rm_Name a @ x" "x \<noteq> []" "hd x \<noteq> CHR '' ''"
    and p: "prints map_idle out (tl (buildRouteMapCmds a False) @ tl (buildRouteMapCmds b False))"
    and cli: "newClient C a = Ok cli"
    and t: "show_text C cli (''show running-config | section route-map '' @ rm_Name a) w = (Ok out, w')"
  shows "RouteMap_Read C a w
       = (Ok (Some \<lparr>rd_ID = routeMapID (rm_Name a), rd_Inputs = a,
              rd_State = a\<lparr>rm_Entries := [fold applyRouteMapClauseLine (tl (buildRouteMapCmds b False)) e]\<rparr>\<rparr>), w')"
proof -
  have b: "tl (buildRouteMapCmds a False) = map_block (rm_Name a) e" using e by (simp add: buildRouteMapCmds_def)
  note p' = p [unfolded b]
  have ve: "validateRouteMapEntry e = None" using validateRouteMap_None(1) [OF v] e by simp
  have "Contains out (map_header (rm_Name a))" by (rule route_map_contained) (rule p')
  moreover from this have "out \<noteq> []" by (rule Contains_nonempty) (simp add: map_header_def)
  moreover have "parseRouteMapSection out (rm_Name a) = [fold applyRouteMapClauseLine (tl (buildRouteMapCmds b False)) e]"
    by (rule route_map_neighbour [OF p' ve r neighbour_inner [OF n(2,3,1)]])
  ultimately show ?thesis
    using cli t by (simp add: RouteMap_Read_def crud_read_def readRouteMap_def read_text_def fillRouteMap_def)
qed

definition lone_map :: RouteMapArgs where
  "lone_map = demo_map ''EXPORT'' [plain_entry 10 (zero_set\<lparr>ms_Tag := Some 7\<rparr>)]"

definition other_map :: RouteMapArgs where
  "other_map = demo_map ''EXPORT-V6'' [plain_entry 10 (zero_set\<lparr>ms_LocalPreference := Some 300\<rparr>)]"

theorem route_map_neighbour_spoils_witness:
  "fst (RouteMap_Read (text_ctx (shown_text (tl (buildRouteMapCmds lone_map False) @ tl (buildRouteMapCmds other_map False))))
       lone_map ())
     = Ok (Some \<lparr>rd_ID = ''route-map/EXPORT'', rd_Inputs = lone_map,
        rd_State = demo_map ''EXPORT'' [plain_entry 10 (zero_set\<lparr>ms_Tag := Some 7, ms_LocalPreference := Some 300\<rparr>)]\<rparr>)"
proof -
  let ?e = "plain_entry 10 (zero_set\<lparr>ms_Tag := Some 7\<rparr>)"
  let ?cmds = "tl (buildRouteMapCmds lone_map False) @ tl (buildRouteMapCmds other_map False)"
  have v: "validateRouteMap lone_map = None" by code_simp
  have r: "entry_readable ?e"
    by (simp add: plain_entry_def entry_readable_def set_readable_def community_words_def words_def zero_set_def
        set_payloads_def int64_def)
  have "list_all clean_line ?cmds" "?cmds \<noteq> []" by code_simp+
  then have p: "prints map_idle (shown_text ?cmds) ?cmds" by (rule shown_prints)
  have cli: "newClient (text_ctx (shown_text ?cmds)) lone_map = Ok demo_client"
    by (rule newClient_text) (simp_all add: lone_map_def demo_map_def)
  have n: "rm_Name other_map = rm_Name lone_map @ ''-V6''" and e: "rm_Entries lone_map = [?e]"
    by (simp_all add: lone_map_def other_map_def demo_map_def)
  have f: "[fold applyRouteMapClauseLine (tl (buildRouteMapCmds other_map False)) ?e]
      = [plain_entry 10 (zero_set\<lparr>ms_Tag := Some 7, ms_LocalPreference := Some 300\<rparr>)]" by code_simp
  from route_map_neighbour_spoils [OF v e r n _ _ p cli show_text_ctx]
  show ?thesis unfolding f by (simp add: lone_map_def demo_map_def routeMapID_def)
qed

text \<open>
  C25. Refresh of a prefix list.  When the lines of the device that belong to the list are the ones
  it renders, in any order and among the lines of any other list, a refresh returns the
  remark and the entries in the order of their numbers; and the commands do not depend on the
  order in which the entries are given.
\<close>

theorem prefix_list_refresh:
  assumes v: "validatePrefixList a = None" and n: "word_string (pl_Name a)" and s: "shows_prefix_list a out"
    and cli: "newClient C a = Ok cli"
    and t: "show_text C cli ''show running-config | grep prefix-list'' w = (Ok out, w')"
    and m: "mset es = mset (pl_Entries a)"
  shows "PrefixList_Read C a w
       = (Ok (Some \<lparr>rd_ID = prefixListID (pl_Name a), rd_Inputs = a,
              rd_State = a\<lparr>pl_Entries := sort_key ple_Seq (pl_Entries a)\<rparr>\<rparr>), w')
     \<and> buildPrefixListCmds (a\<lparr>pl_Entries := es\<rparr>) rm = buildPrefixListCmds a rm"
proof -
  have "pl_Entries a \<noteq> []" using v by (auto simp: validatePrefixList_def split: if_splits)
  then have "sort_key ple_Seq (pl_Entries a) \<noteq> []" by (metis length_0_conv length_sort)
  moreover have "set_str (or_empty (nonempty (pl_Remark a))) (pl_Remark a) = pl_Remark a"
    by (cases "pl_Remark a") (simp_all add: set_str_def nonempty_def)
  ultimately show ?thesis
    using cli t prefix_list_back [OF v n s] prefix_list_order_irrelevant [OF v m]
    by (simp add: PrefixList_Read_def crud_read_def readPrefixList_def fillPrefixList_def)
qed

definition demo_prefixes :: PrefixListArgs where
  "demo_prefixes =
     \<lparr>Host = None, Username = None, Password = None, pl_Name = ''LOOPBACKS'', pl_Remark = Some ''our loopbacks'',
      pl_Entries =
       [\<lparr>ple_Seq = 20, ple_Action = ''deny'', ple_Prefix = ''10.0.0.0/8'', ple_Eq = None, ple_Ge = None, ple_Le = Some 31\<rparr>,
        \<lparr>ple_Seq = 10, ple_Action = ''permit'', ple_Prefix = ''10.0.0.0/8'', ple_Eq = Some 32, ple_Ge = None, ple_Le = None\<rparr>]\<rparr>"

theorem prefix_list_refresh_witness:
  "fst (PrefixList_Read (text_ctx (shown_text (''ip prefix-list LOOPBACKS-V4 seq 10 permit 0.0.0.0/0'' # rev (tl (buildPrefixListCmds demo_prefixes False)))))
       demo_prefixes ())
     = Ok (Some \<lparr>rd_ID = ''prefix-list/LOOPBACKS'', rd_Inputs = demo_prefixes,
        rd_State = demo_prefixes\<lparr>pl_Entries := rev (pl_Entries demo_prefixes)\<rparr>\<rparr>)"
proof -
  let ?cmds = "''ip prefix-list LOOPBACKS-V4 seq 10 permit 0.0.0.0/0'' # rev (tl (buildPrefixListCmds demo_prefixes False))"
  have v: "validatePrefixList demo_prefixes = None" by code_simp
  have n: "word_string (pl_Name demo_prefixes)" by code_simp
  have l: "trimmed_lines (shown_text ?cmds) = ?cmds"
    unfolding shown_text_def by (rule trimmed_lines_block_text) (simp_all add: blanks_def, code_simp)
  have f: "filter (\<lambda>l. prefix_rest (pl_Name demo_prefixes) l \<noteq> None) ?cmds = rev (tl (buildPrefixListCmds demo_prefixes False))"
    by code_simp
  have s: "shows_prefix_list demo_prefixes (shown_text ?cmds)"
    unfolding shows_prefix_list_def l f by simp
  have cli: "newClient (text_ctx (shown_text ?cmds)) demo_prefixes = Ok demo_client"
    by (rule newClient_text) (simp_all add: demo_prefixes_def)
  have "sort_key ple_Seq (pl_Entries demo_prefixes) = rev (pl_Entries demo_prefixes)"
    "prefixListID (pl_Name demo_prefixes) = ''prefix-list/LOOPBACKS''" by code_simp+
  with prefix_list_refresh [OF v n s cli show_text_ctx refl] show ?thesis by simp
qed

section \<open>Routing processes\<close>

text \<open>
  C26. Refresh of the BGP process.  When the device shows the block that a valid process renders,
  a refresh returns its arguments, except that the reader does not follow the nesting of the
  blocks: the router-id of the last VRF that has one takes the place of the process's own.
\<close>

theorem router_bgp_refresh:
  assumes v: "validateRouterBgp a = None" and c: "canonical_bgp a"
    and p: "prints rbgp_idle out (buildRouterBgpCmds a False)" and cli: "newClient C a = Ok cli"
    and t: "show_text C cli ''show running-config | section router bgp'' w = (Ok out, w')"
  shows "RouterBgp_Read C a w
       = (Ok (Some \<lparr>rd_ID = routerBgpID (rb_Asn a), rd_Inputs = a,
              rd_State = a\<lparr>rb_RouterId := (case rev (bgp_vrf_ids (sort_key bv_Name (rb_Vrfs a))) of
                                          [] \<Rightarrow> rb_RouterId a | x # _ \<Rightarrow> Some x)\<rparr>\<rparr>), w')"
proof -
  let ?ids = "bgp_vrf_ids (sort_key bv_Name (rb_Vrfs a))"
  have r: "\<exists>row. own_router_bgp (rb_Asn a) (found_router_bgp out) = Some row
      \<and> fillRouterBgp row a = a\<lparr>rb_RouterId := (case rev ?ids of [] \<Rightarrow> rb_RouterId a | x # _ \<Rightarrow> Some x)\<rparr>"
  proof (cases "rev ?ids")
    case Nil
    then show ?thesis using router_bgp_roundtrip [OF p v c] by simp
  next
    case (Cons x xs)
    then have "?ids = rev xs @ [x]" by (metis rev.simps(2) rev_rev_ident)
    from router_bgp_vrf_id [OF p v c this] Cons show ?thesis by simp
  qed
  then show ?thesis
    using cli t by (auto simp: RouterBgp_Read_def crud_read_def read_own_bgp_def readRouterBgp_def)
qed

definition demo_bgp :: RouterBgpArgs where
  "demo_bgp =
     \<lparr>Host = None, Username = None, Password = None, rb_Asn = 65001, rb_RouterId = Some ''10.0.0.1'',
      rb_NoDefaultIpv4Unicast = Some True, rb_MaximumPaths = Some \<lparr>mp_Paths = 4, mp_Ecmp = Some 8\<rparr>, rb_Bfd = None,
      rb_PeerGroups = [],
      rb_Neighbors = [\<lparr>bn_Address = ''10.0.0.2'', bn_PeerGroup = None, bn_RemoteAs = Some 65002, bn_Description = None\<rparr>],
      rb_AddressFamilies = [],
      rb_Vrfs = [\<lparr>bv_Name = ''blue'', bv_Rd = Some ''10.0.0.1:1'', bv_RouteTargetImportEvpn = None,
                  bv_RouteTargetExportEvpn = None, bv_RouterId = Some ''10.9.9.9'', bv_Redistribute = [''connected'']\<rparr>]\<rparr>"

theorem router_bgp_refresh_witness:
  "fst (RouterBgp_Read (text_ctx (shown_text (buildRouterBgpCmds demo_bgp False))) demo_bgp ())
     = Ok (Some \<lparr>rd_ID = ''router-bgp/65001'', rd_Inputs = demo_bgp,
        rd_State = demo_bgp\<lparr>rb_RouterId := Some ''10.9.9.9''\<rparr>\<rparr>)"
proof -
  let ?cmds = "buildRouterBgpCmds demo_bgp False"
  have v: "validateRouterBgp demo_bgp = None" by code_simp
  have c: "canonical_bgp demo_bgp" by (simp add: canonical_bgp_def demo_bgp_def paths_readable_def int64_def)
  have "list_all clean_line ?cmds" "?cmds \<noteq> []" by code_simp+
  then have p: "prints rbgp_idle (shown_text ?cmds) ?cmds" by (rule shown_prints)
  have cli: "newClient (text_ctx (shown_text ?cmds)) demo_bgp = Ok demo_client"
    by (rule newClient_text) (simp_all add: demo_bgp_def)
  have "rev (bgp_vrf_ids (sort_key bv_Name (rb_Vrfs demo_bgp))) = [''10.9.9.9'']"
    "routerBgpID (rb_Asn demo_bgp) = ''router-bgp/65001''" by code_simp+
  with router_bgp_refresh [OF v c p cli show_text_ctx] show ?thesis by simp
qed

text \<open>
  C27. Refresh of an OSPF process.  When the device's text has the block that a valid process renders,
  behind anything but itself and in front of other processes only, a refresh returns its
  arguments unchanged under its ID, whatever the other processes say.
\<close>

theorem router_ospf_refresh:
  assumes v: "validateRouterOspf a = None" and c: "canonical_ospf a" and s: "shows_ospf a out pre post"
    and cli: "newClient C a = Ok cli"
    and t: "show_text C cli ''show running-config section ospf'' w = (Ok out, w')"
  shows "RouterOspf_Read C a w
       = (Ok (Some \<lparr>rd_ID = routerOspfID (ro_Instance a) (ro_Vrf a), rd_Inputs = a, rd_State = a\<rparr>), w')"
  using cli t router_ospf_roundtrip [OF v c s]
  by (simp add: RouterOspf_Read_def crud_read_def readRouterOspf_def)

definition demo_ospf :: RouterOspfArgs where
  "demo_ospf =
     \<lparr>Host = None, Username = None, Password = None, ro_Instance = 1, ro_Vrf = Some ''blue'', ro_RouterId = Some ''10.0.0.1'',
      ro_Shutdown = Some False, ro_MaxLsa = Some 12000, ro_MaximumPaths = None, ro_AutoCostReferenceBandwidth = Some 100000,
      ro_PassiveInterfaceDefault = Some True, ro_PassiveInterfaces = [], ro_NoPassiveInterfaces = [''Ethernet1''],
      ro_Networks = [\<lparr>on_Prefix = ''10.0.0.0/8'', on_Area = ''0.0.0.0''\<rparr>], ro_Areas = [], ro_Redistribute = [],
      ro_DefaultInformationOriginate = None, ro_SummaryAddresses = [], ro_Distance = None,
      ro_LogAdjacencyChanges = Some ''detail'', ro_GracefulRestartHelper = None, ro_Timers = None\<rparr>"

theorem router_ospf_refresh_witness:
  "fst (RouterOspf_Read (text_ctx (shown_text ([''router ospf 1'', ''router-id 10.0.0.9'', ''router ospf 1 vrf blue'']
       @ appendRouterOspfBody demo_ospf @ [''router ospf 2'', ''shutdown'']))) demo_ospf ())
     = Ok (Some \<lparr>rd_ID = ''router-ospf/1/blue'', rd_Inputs = demo_ospf, rd_State = demo_ospf\<rparr>)"
proof -
  let ?pre = "[''router ospf 1'', ''router-id 10.0.0.9'']" and ?post = "[''router ospf 2'', ''shutdown'']"
  let ?cmds = "[''router ospf 1'', ''router-id 10.0.0.9'', ''router ospf 1 vrf blue''] @ appendRouterOspfBody demo_ospf
     @ [''router ospf 2'', ''shutdown'']"
  have v: "validateRouterOspf demo_ospf = None" by code_simp
  have c: "canonical_ospf demo_ospf" by (simp add: canonical_ospf_def demo_ospf_def int64_def)
  have h: "ospf_header (ro_Instance demo_ospf) (or_empty (ro_Vrf demo_ospf)) = ''router ospf 1 vrf blue''" by code_simp
  have "list_all clean_line ?cmds" "?cmds \<noteq> []" by code_simp+
  then have "prints ospf_idle (shown_text ?cmds) ?cmds" by (rule shown_prints)
  then have s: "shows_ospf demo_ospf (shown_text ?cmds) ?pre ?post" by (simp add: shows_ospf_def h)
  have cli: "newClient (text_ctx (shown_text ?cmds)) demo_ospf = Ok demo_client"
    by (rule newClient_text) (simp_all add: demo_ospf_def)
  have "routerOspfID (ro_Instance demo_ospf) (ro_Vrf demo_ospf) = ''router-ospf/1/blue''" by code_simp
  with router_ospf_refresh [OF v c s cli show_text_ctx] show ?thesis by simp
qed

text \<open>
  C28. The canonical form of an OSPF area.  A number below 2 ^ 32 becomes four octets that read back,
  most significant first, as that number; and whatever form an area is given in, its
  canonical form is accepted again and is its own canonical form.
\<close>

theorem ospf_area_canonical:
  assumes "v < 2 ^ 32"
  shows "(\<exists>c os. canonicaliseOspfArea (Itoa (int v)) = Some c \<and> map Atoi (split_at dot c) = map (\<lambda>o'. Some (int o')) os
             \<and> length os = 4 \<and> octets_value os = v)
     \<and> (\<forall>s c. canonicaliseOspfArea s = Some c \<longrightarrow> canonicaliseOspfArea c = Some c)"
proof -
  have "length (area_octets v) = 4" by (simp add: area_octets_def)
  with area_number [OF assms] show ?thesis using canonical_area_again(1) by blast
qed

theorem ospf_area_canonical_witness:
  "\<exists>c os. canonicaliseOspfArea ''16909060'' = Some c \<and> map Atoi (split_at dot c) = map (\<lambda>o'. Some (int o')) os
     \<and> length os = 4 \<and> octets_value os = 16909060"
proof -
  have "Itoa 16909060 = ''16909060''" by code_simp
  then have "Itoa (int 16909060) = ''16909060''" by simp
  with ospf_area_canonical [of 16909060] show ?thesis by simp
qed

section \<open>Routes and lists\<close>

text \<open>
  C29. Refresh of a static route.  When the device's listing has one line for the route's VRF, prefix and next
  hop, a refresh takes that line for the route, whatever its distance: a route \<open>b\<close> that agrees with
  ours in everything else is reported in its place.  For \<open>d = sr_Distance b\<close> the route is
  the one that is shown, and the refresh returns its arguments unchanged; otherwise the distance
  of the other route shows as drift, and a route that is gone is not noticed.
\<close>

theorem static_route_refresh:
  assumes v: "validateStaticRoute b = None" and c: "canonical_route b"
    and l: "hd (buildStaticRouteCmds b False) \<in> set (trimmed_lines out)"
    and only: "\<forall>l\<in>set (trimmed_lines out). route_match b l \<noteq> None \<longrightarrow> l = hd (buildStaticRouteCmds b False)"
    and a: "a = b\<lparr>sr_Distance := d\<rparr>"
    and cli: "newClient C a = Ok cli" and t: "show_text C cli ''show running-config | grep ip'' w = (Ok out, w')"
  shows "StaticRoute_Read C a w
       = (Ok (Some \<lparr>rd_ID = staticRouteID a, rd_Inputs = a,
              rd_State = (if opt_or 1 (sr_Distance b) = 1 then a else b)\<rparr>), w')"
proof -
  have "route_match a = route_match b" by (simp add: route_match_def fun_eq_iff a split: option.split)
  then have p: "parseStaticRouteLines out a = Some (shown_route b)"
    using parse_only_route [OF v c l] only by (simp add: parseStaticRouteLines_def)
  have b: "fillStaticRoute (shown_route b) b = b" by (rule fill_shown_route [OF v])
  have "opt_or 1 (sr_Distance b) > 0" using validateStaticRoute_None(4) [OF v] by (cases "sr_Distance b") simp_all
  then have f: "fillStaticRoute (shown_route b) a = (if opt_or 1 (sr_Distance b) = 1 then a else b)"
    using b by (cases "sr_Distance b") (auto simp: a fillStaticRoute_def shown_route_def)
  show ?thesis
    using cli t p f by (simp add: StaticRoute_Read_def crud_read_def readStaticRoute_def)
qed

definition backup_route :: StaticRouteArgs where
  "backup_route =
     \<lparr>Host = None, Username = None, Password = None, sr_Prefix = ''10.0.0.0/8'', sr_NextHop = ''192.0.2.1'', sr_Vrf = None,
      sr_Distance = Some 200, sr_Tag = Some 7, sr_Name = None, sr_Metric = None, sr_Track = None\<rparr>"

theorem static_route_refresh_witness:
  "fst (StaticRoute_Read (text_ctx (shown_text [''ip routing'', hd (buildStaticRouteCmds backup_route False)]))
       (backup_route\<lparr>sr_Distance := Some 10\<rparr>) ())
     = Ok (Some \<lparr>rd_ID = ''route/default/10.0.0.0/8/192.0.2.1/10'', rd_Inputs = backup_route\<lparr>sr_Distance := Some 10\<rparr>,
        rd_State = backup_route\<rparr>)"
proof -
  let ?a = "backup_route\<lparr>sr_Distance := Some 10\<rparr>" and ?l = "hd (buildStaticRouteCmds backup_route False)"
  let ?out = "shown_text [''ip routing'', ?l]"
  have v: "validateStaticRoute backup_route = None" by code_simp
  have c: "canonical_route backup_route" by (simp add: canonical_route_def backup_route_def)
  have "\<forall>l\<in>set [''ip routing'', ?l]. clean_line l" by code_simp
  then have t: "trimmed_lines ?out = [''ip routing'', ?l]"
    unfolding shown_text_def by (intro trimmed_lines_block_text) (simp_all add: blanks_def)
  have l: "?l \<in> set (trimmed_lines ?out)" by (simp add: t)
  have "route_match backup_route ''ip routing'' = None" by code_simp
  then have o: "\<forall>l\<in>set (trimmed_lines ?out). route_match backup_route l \<noteq> None \<longrightarrow> l = ?l" by (auto simp: t)
  have cli: "newClient (text_ctx ?out) ?a = Ok demo_client" by (rule newClient_text) (simp_all add: backup_route_def)
  have "staticRouteID ?a = ''route/default/10.0.0.0/8/192.0.2.1/10''" "opt_or 1 (sr_Distance backup_route) \<noteq> 1" by code_simp+
  with static_route_refresh [OF v c l o refl cli show_text_ctx] show ?thesis by simp
qed

text \<open>
  Refresh of an extended community list.  When the lines that the reader takes show the entries of a
  valid list, in their order and among the lines of other lists, a refresh returns the entries
  unchanged and the type of the list, also where the arguments leave the type to its default.
\<close>

theorem ext_community_refresh:
  assumes v: "validateExtCommunityList a = None" and n: "ec_Name a \<noteq> ''regexp''" "CHR '' '' \<notin> set (ec_Name a)"
    and ty: "\<forall>e\<in>set (ec_Entries a). ece_Type e \<noteq> Some []"
    and p: "lists_entries (ext_community_line (ec_Name a)) (ext_community_shown a) out (ec_Entries a)"
    and k: "(\<exists>l\<in>set (trimmed_lines out). HasPrefix l (ext_community_prefix True (ec_Name a)))
      = (extCommunityListType (ec_ListType a) = listTypeRegexp)"
    and cli: "newClient C a = Ok cli" and t: "show_text C cli ''show running-config | grep extcommunity'' w = (Ok out, w')"
  shows "ExtCommunityList_Read C a w
       = (Ok (Some \<lparr>rd_ID = extCommunityListID (ec_Name a), rd_Inputs = a,
              rd_State = a\<lparr>ec_ListType := Some (extCommunityListType (ec_ListType a))\<rparr>\<rparr>), w')"
  using cli t ext_community_roundtrip [OF v n ty p k]
  by (simp add: ExtCommunityList_Read_def crud_read_def readExtCommunityList_def fillExtCommunityList_def)

definition demo_targets :: ExtCommunityListArgs where
  "demo_targets =
     \<lparr>Host = None, Username = None, Password = None, ec_Name = ''TENANTS'', ec_ListType = None,
      ec_Entries = [\<lparr>ece_Action = ''permit'', ece_Type = Some ''rt'', ece_Value = ''65001:100''\<rparr>,
                    \<lparr>ece_Action = ''deny'', ece_Type = Some ''soo'', ece_Value = ''65001:200''\<rparr>]\<rparr>"

theorem ext_community_refresh_witness:
  "fst (ExtCommunityList_Read (text_ctx (shown_text (''ip extcommunity-list TENANTS-OLD permit rt 1:1'' # tl (buildExtCommunityListCmds demo_targets False))))
       demo_targets ())
     = Ok (Some \<lparr>rd_ID = ''ext-community-list/TENANTS'', rd_Inputs = demo_targets,
        rd_State = demo_targets\<lparr>ec_ListType := Some ''standard''\<rparr>\<rparr>)"
proof -
  let ?cmds = "''ip extcommunity-list TENANTS-OLD permit rt 1:1'' # tl (buildExtCommunityListCmds demo_targets False)"
  let ?out = "shown_text ?cmds"
  have v: "validateExtCommunityList demo_targets = None" by code_simp
  have n: "ec_Name demo_targets \<noteq> ''regexp''" "CHR '' '' \<notin> set (ec_Name demo_targets)" by code_simp+
  have ty: "\<forall>e\<in>set (ec_Entries demo_targets). ece_Type e \<noteq> Some []" by code_simp
  have "\<forall>l\<in>set ?cmds. clean_line l" by code_simp
  then have t: "trimmed_lines ?out = ?cmds"
    unfolding shown_text_def by (intro trimmed_lines_block_text) (simp_all add: blanks_def)
  have "filter (\<lambda>l. ext_community_line (ec_Name demo_targets) l \<noteq> None) ?cmds = map (ext_community_cmd demo_targets) (ec_Entries demo_targets)"
    by code_simp
  then have p: "lists_entries (ext_community_line (ec_Name demo_targets)) (ext_community_shown demo_targets) ?out (ec_Entries demo_targets)"
    unfolding lists_entries_def t by (simp only: list_all2_map1 ext_community_shown_def) (simp add: list_all2_same)
  have k: "(\<exists>l\<in>set (trimmed_lines ?out). HasPrefix l (ext_community_prefix True (ec_Name demo_targets)))
      = (extCommunityListType (ec_ListType demo_targets) = listTypeRegexp)"
    unfolding t by code_simp
  have cli: "newClient (text_ctx ?out) demo_targets = Ok demo_client" by (rule newClient_text) (simp_all add: demo_targets_def)
  have "extCommunityListID (ec_Name demo_targets) = ''ext-community-list/TENANTS''"
    "extCommunityListType (ec_ListType demo_targets) = ''standard''" by code_simp+
  with ext_community_refresh [OF v n ty p k cli show_text_ctx] show ?thesis by simp
qed

end
