(* ===== verification/Gnmi_Path.thy ===== *)
theory Gnmi_Path
  imports Go_Strings "HOL-Library.AList"
begin

text \<open>
  The path notation of \<open>internal/client/gnmi/client.go\<close>: \<open>ParsePath\<close>, \<open>splitPath\<close> and
  \<open>splitElem\<close>, a printer of paths, and what the parser keeps of a text: printed paths come
  back, every text is the join of its pieces, and which malformed keys are dropped silently.
  The loop over runes is a loop over bytes, since the three delimiters are ASCII.
\<close>

section \<open>Paths\<close>

text \<open>A Go map of keys is an association list with distinct keys; no brackets give the nil map.\<close>

record path_elem =
  pe_Name :: string
  pe_Key :: "(string \<times> string) list option"

definition ErrEmptyPathString :: error where
  [errs]: "ErrEmptyPathString = Sentinel ''gnmi: path string is empty''"

text \<open>\<open>strings.IndexByte\<close> and \<open>strings.Cut\<close> at one byte: what is before it and what is after.\<close>

fun cut_byte :: "char \<Rightarrow> string \<Rightarrow> (string \<times> string) option" where
  "cut_byte d [] = None"
| "cut_byte d (c # cs) =
     (if c = d then Some ([], cs) else map_option (\<lambda>(a, b). (c # a, b)) (cut_byte d cs))"

lemma cut_byte_iff: "cut_byte d s = Some (a, b) \<longleftrightarrow> s = a @ d # b \<and> d \<notin> set a"
proof (induction s arbitrary: a)
  case Nil
  show ?case by simp
next
  case (Cons c cs)
  then show ?case by (cases a) auto
qed

lemma cut_byte_None: "cut_byte d s = None \<longleftrightarrow> d \<notin> set s"
  by (induction d s rule: cut_byte.induct) auto

lemma cut_byte_append [simp]: "d \<notin> set a \<Longrightarrow> cut_byte d (a @ d # b) = Some (a, b)"
  by (simp add: cut_byte_iff)

text \<open>\<open>splitPath\<close>: \<open>depth\<close> counts the open brackets, \<open>cur\<close> is the reversed text since \<open>start\<close>.\<close>

fun split_path_from :: "nat \<Rightarrow> string \<Rightarrow> string \<Rightarrow> string list" where
  "split_path_from depth cur [] = (if cur = [] then [] else [rev cur])"
| "split_path_from depth cur (c # cs) =
     (if c = CHR ''['' then split_path_from (Suc depth) (c # cur) cs
      else if c = CHR '']'' then split_path_from (depth - 1) (c # cur) cs
      else if c = CHR ''/'' \<and> depth = 0 then rev cur # split_path_from 0 [] cs
      else split_path_from depth (c # cur) cs)"

definition splitPath :: "string \<Rightarrow> string list" where
  "splitPath s = split_path_from 0 [] s"

text \<open>
  The loop over the brackets: it ends without an error at a text that does not open a bracket,
  at an unclosed bracket and at a key without an equality sign.
\<close>

function elem_keys :: "string \<Rightarrow> (string \<times> string) list \<Rightarrow> (string \<times> string) list" where
  "elem_keys rest keys =
     (case rest of
        [] \<Rightarrow> keys
      | c # cs \<Rightarrow>
          if c \<noteq> CHR ''['' then keys
          else (case cut_byte (CHR '']'') cs of
                  None \<Rightarrow> keys
                | Some (kv, rest') \<Rightarrow>
                    (case cut_byte (CHR ''='') kv of
                       None \<Rightarrow> keys
                     | Some (k, v) \<Rightarrow> elem_keys rest' (AList.update k v keys))))"
  by pat_completeness auto

termination
  by (relation "measure (\<lambda>(rest, keys). length rest)") (auto simp: cut_byte_iff)

declare elem_keys.simps [simp del]

definition splitElem :: "string \<Rightarrow> path_elem" where
  "splitElem elem =
     (case cut_byte (CHR ''['') elem of
        None \<Rightarrow> \<lparr>pe_Name = elem, pe_Key = None\<rparr>
      | Some (name, rest) \<Rightarrow> \<lparr>pe_Name = name, pe_Key = Some (elem_keys (CHR ''['' # rest) [])\<rparr>)"

definition ParsePath :: "string \<Rightarrow> error + path_elem list" where
  "ParsePath s =
     (if s = [] then Inl ErrEmptyPathString
      else if TrimPrefix s ''/'' = [] then Inr []
      else Inr (map splitElem (splitPath (TrimPrefix s ''/''))))"

section \<open>Printed paths\<close>

definition print_key :: "string \<times> string \<Rightarrow> string" where
  "print_key kv = ''['' @ fst kv @ ''='' @ snd kv @ '']''"

definition print_elem :: "path_elem \<Rightarrow> string" where
  "print_elem e = pe_Name e @ concat (map print_key (case pe_Key e of Some ks \<Rightarrow> ks | None \<Rightarrow> []))"

definition print_path :: "path_elem list \<Rightarrow> string" where
  "print_path es = ''/'' @ Join (map print_elem es) ''/''"

text \<open>
  The paths the notation can write: named elements, keys without brackets and equality signs,
  values without brackets; a value may hold slashes and equality signs.
\<close>

definition brackets :: "char set" where "brackets = {CHR ''['', CHR '']''}"

definition key_ok :: "string \<times> string \<Rightarrow> bool" where
  "key_ok kv \<longleftrightarrow> set (fst kv) \<inter> insert (CHR ''='') brackets = {} \<and> set (snd kv) \<inter> brackets = {}"

definition elem_ok :: "path_elem \<Rightarrow> bool" where
  "elem_ok e \<longleftrightarrow> pe_Name e \<noteq> [] \<and> set (pe_Name e) \<inter> insert (CHR ''/'') brackets = {}
     \<and> (case pe_Key e of None \<Rightarrow> True
        | Some ks \<Rightarrow> ks \<noteq> [] \<and> distinct (map fst ks) \<and> (\<forall>kv\<in>set ks. key_ok kv))"

lemma split_path_plain:
  "set w \<inter> brackets = {} \<Longrightarrow> depth \<noteq> 0 \<or> CHR ''/'' \<notin> set w \<Longrightarrow>
     split_path_from depth cur (w @ s) = split_path_from depth (rev w @ cur) s"
  by (induction w arbitrary: cur) (auto simp: brackets_def)

lemma split_path_key:
  assumes "key_ok kv"
  shows "split_path_from 0 cur (print_key kv @ s) = split_path_from 0 (rev (print_key kv) @ cur) s"
proof -
  have "set (fst kv @ ''='' @ snd kv) \<inter> brackets = {}"
    using assms by (auto simp: key_ok_def brackets_def)
  from split_path_plain [OF this, of 1 "CHR ''['' # cur" "'']'' @ s"]
  show ?thesis by (simp add: print_key_def)
qed

lemma split_path_keys:
  "(\<And>kv. kv \<in> set ks \<Longrightarrow> key_ok kv) \<Longrightarrow>
     split_path_from 0 cur (concat (map print_key ks) @ s) =
     split_path_from 0 (rev (concat (map print_key ks)) @ cur) s"
  by (induction ks arbitrary: cur) (simp_all add: split_path_key)

lemma split_path_elem:
  assumes "elem_ok e"
  shows "split_path_from 0 cur (print_elem e @ s) = split_path_from 0 (rev (print_elem e) @ cur) s"
proof -
  let ?ks = "case pe_Key e of Some ks \<Rightarrow> ks | None \<Rightarrow> []"
  have n: "set (pe_Name e) \<inter> brackets = {}" "CHR ''/'' \<notin> set (pe_Name e)"
    using assms by (auto simp: elem_ok_def)
  have k: "\<And>kv. kv \<in> set ?ks \<Longrightarrow> key_ok kv"
    using assms by (auto simp: elem_ok_def split: option.splits)
  have "split_path_from 0 cur' (concat (map print_key ?ks) @ s) =
      split_path_from 0 (rev (concat (map print_key ?ks)) @ cur') s" for cur'
    using k by (rule split_path_keys)
  with split_path_plain [OF n(1), of 0] n(2) show ?thesis by (simp add: print_elem_def)
qed

lemma split_path_Join:
  "(\<And>e. e \<in> set es \<Longrightarrow> elem_ok e) \<Longrightarrow>
     split_path_from 0 [] (Join (map print_elem es) ''/'') = map print_elem es"
proof (induction es rule: induct_list012)
  case 1
  show ?case by simp
next
  case (2 e)
  then have "elem_ok e" by simp
  then show ?case
    using split_path_elem [of e "[]" "[]"] by (auto simp: print_elem_def elem_ok_def)
next
  case (3 e f es)
  then show ?case
    using split_path_elem [of e "[]"] by simp
qed

lemma elem_keys_bracket:
  "key_ok (k, v) \<Longrightarrow>
     elem_keys (print_key (k, v) @ rest) keys = elem_keys rest (AList.update k v keys)"
proof -
  assume ok: "key_ok (k, v)"
  then have "CHR '']'' \<notin> set (k @ CHR ''='' # v)" "CHR ''='' \<notin> set k"
    by (auto simp: key_ok_def brackets_def)
  from cut_byte_append [OF this(1), of rest] cut_byte_append [OF this(2), of v]
  show ?thesis by (simp add: elem_keys.simps [of "CHR ''['' # _"] print_key_def)
qed

lemma update_fresh: "k \<notin> fst ` set keys \<Longrightarrow> AList.update k v keys = keys @ [(k, v)]"
  by (induction keys) auto

lemma elem_keys_printed:
  "(\<And>kv. kv \<in> set ks \<Longrightarrow> key_ok kv) \<Longrightarrow> distinct (map fst (acc @ ks)) \<Longrightarrow>
     elem_keys (concat (map print_key ks)) acc = acc @ ks"
proof (induction ks arbitrary: acc)
  case Nil
  show ?case by (simp add: elem_keys.simps)
next
  case (Cons kv ks)
  obtain k v where kv: "kv = (k, v)" by (cases kv)
  with Cons.prems have "key_ok (k, v)" "k \<notin> fst ` set acc" by auto
  then show ?case
    using Cons.IH [of "acc @ [(k, v)]"] Cons.prems kv by (simp add: elem_keys_bracket update_fresh)
qed

lemma splitElem_printed: "elem_ok e \<Longrightarrow> splitElem (print_elem e) = e"
proof (cases "pe_Key e")
  case None
  moreover assume "elem_ok e"
  ultimately have "cut_byte (CHR ''['') (print_elem e) = None" "print_elem e = pe_Name e"
    by (auto simp: elem_ok_def print_elem_def brackets_def cut_byte_None)
  with None show ?thesis by (simp add: splitElem_def)
next
  case (Some ks)
  moreover assume "elem_ok e"
  ultimately have ks: "\<And>kv. kv \<in> set ks \<Longrightarrow> key_ok kv" "distinct (map fst ks)"
    and n: "CHR ''['' \<notin> set (pe_Name e)" and "ks \<noteq> []"
    by (auto simp: elem_ok_def brackets_def)
  then obtain kv ks' where c: "ks = kv # ks'" by (cases ks) auto
  let ?t = "fst kv @ ''='' @ snd kv @ '']'' @ concat (map print_key ks')"
  have t: "concat (map print_key ks) = CHR ''['' # ?t" by (simp add: c print_key_def)
  then have "print_elem e = pe_Name e @ CHR ''['' # ?t" by (simp add: print_elem_def Some)
  then have "cut_byte (CHR ''['') (print_elem e) = Some (pe_Name e, ?t)" using n by simp
  moreover have "elem_keys (CHR ''['' # ?t) [] = ks" using elem_keys_printed [of ks "[]"] ks t by simp
  ultimately show ?thesis using Some by (simp add: splitElem_def)
qed

lemma Join_not_Nil: "xs \<noteq> [] \<Longrightarrow> hd xs \<noteq> [] \<Longrightarrow> Join xs sep \<noteq> []"
  by (induction xs sep rule: Join.induct) auto

lemma ParsePath_printed:
  assumes "\<forall>e\<in>set es. elem_ok e"
  shows "ParsePath (print_path es) = Inr es"
proof (cases "es = []")
  case True
  then show ?thesis by (simp add: ParsePath_def print_path_def TrimPrefix_def)
next
  case False
  then have "print_elem (hd es) \<noteq> []" using assms by (auto simp: print_elem_def elem_ok_def)
  with False have "Join (map print_elem es) ''/'' \<noteq> []"
    by (intro Join_not_Nil) (auto simp: hd_map)
  moreover have "map splitElem (map print_elem es) = es"
    using assms by (auto simp: splitElem_printed intro!: map_idI)
  moreover have "TrimPrefix (CHR ''/'' # s) ''/'' = s" for s using TrimPrefix_append [of "''/''" s] by simp
  ultimately show ?thesis
    using split_path_Join [of es] assms by (simp add: ParsePath_def print_path_def splitPath_def)
qed

text \<open>The leading slash may be left out.\<close>

lemma ParsePath_relative:
  assumes "\<forall>e\<in>set es. elem_ok e" and "es \<noteq> []"
  shows "ParsePath (Join (map print_elem es) ''/'') = ParsePath (print_path es)"
proof -
  obtain e es' where es: "es = e # es'" using assms(2) by (cases es) auto
  with assms(1) have "pe_Name e \<noteq> []" "CHR ''/'' \<notin> set (pe_Name e)" by (auto simp: elem_ok_def)
  then obtain c cs where n: "pe_Name e = c # cs" "c \<noteq> CHR ''/''" by (cases "pe_Name e") auto
  then obtain t where t: "Join (map print_elem es) ''/'' = c # t"
    by (cases es') (simp_all add: es print_elem_def)
  then have "TrimPrefix (Join (map print_elem es) ''/'') ''/'' = Join (map print_elem es) ''/''"
    using n(2) by (simp add: TrimPrefix_def)
  moreover have "TrimPrefix (print_path es) ''/'' = Join (map print_elem es) ''/''"
    using TrimPrefix_append [of "''/''"] by (simp add: print_path_def)
  ultimately show ?thesis using t by (simp add: ParsePath_def print_path_def)
qed

section \<open>The shape of what is parsed\<close>

text \<open>Names hold no bracket, keys no equality sign, values no closing bracket, and no key occurs twice.\<close>

definition typed_elem :: "path_elem \<Rightarrow> bool" where
  "typed_elem e \<longleftrightarrow> CHR ''['' \<notin> set (pe_Name e)
     \<and> (case pe_Key e of None \<Rightarrow> True
        | Some ks \<Rightarrow> distinct (map fst ks) \<and>
            (\<forall>(k, v)\<in>set ks. CHR ''='' \<notin> set k \<and> CHR '']'' \<notin> set k \<and> CHR '']'' \<notin> set v))"

definition typed_keys :: "(string \<times> string) list \<Rightarrow> bool" where
  "typed_keys ks \<longleftrightarrow> distinct (map fst ks) \<and>
     (\<forall>(k, v)\<in>set ks. CHR ''='' \<notin> set k \<and> CHR '']'' \<notin> set k \<and> CHR '']'' \<notin> set v)"

lemma update_subset: "set (AList.update k v al) \<subseteq> insert (k, v) (set al)"
  by (induction al) auto

lemma typed_keys_update:
  "typed_keys ks \<Longrightarrow> CHR ''='' \<notin> set k \<Longrightarrow> CHR '']'' \<notin> set k \<Longrightarrow> CHR '']'' \<notin> set v \<Longrightarrow>
     typed_keys (AList.update k v ks)"
  using update_subset [of k v ks] by (fastforce simp: typed_keys_def distinct_update)

lemma elem_keys_typed: "typed_keys keys \<Longrightarrow> typed_keys (elem_keys rest keys)"
proof (induction rest keys rule: elem_keys.induct)
  case (1 rest keys)
  show ?case
  proof (cases "\<exists>cs kv rest' k v. rest = CHR ''['' # cs \<and> cut_byte (CHR '']'') cs = Some (kv, rest')
      \<and> cut_byte (CHR ''='') kv = Some (k, v)")
    case True
    then obtain cs kv rest' k v where c: "rest = CHR ''['' # cs"
      "cut_byte (CHR '']'') cs = Some (kv, rest')" "cut_byte (CHR ''='') kv = Some (k, v)" by blast
    then have "typed_keys (AList.update k v keys)"
      using "1.prems" by (auto simp: cut_byte_iff intro: typed_keys_update)
    then have "typed_keys (elem_keys rest' (AList.update k v keys))"
      using "1.IH" [OF c(1) _ c(2) refl c(3) refl] by simp
    moreover have "elem_keys rest keys = elem_keys rest' (AList.update k v keys)"
      by (subst elem_keys.simps) (simp add: c)
    ultimately show ?thesis by simp
  next
    case False
    then have "elem_keys rest keys = keys"
      by (subst elem_keys.simps) (auto split: list.split option.split)
    with "1.prems" show ?thesis by simp
  qed
qed

lemma splitElem_typed: "typed_elem (splitElem raw)"
proof (cases "cut_byte (CHR ''['') raw")
  case None
  then have "CHR ''['' \<notin> set raw" by (simp add: cut_byte_None)
  with None show ?thesis by (simp add: splitElem_def typed_elem_def)
next
  case (Some p)
  then obtain n t where "cut_byte (CHR ''['') raw = Some (n, t)" by (cases p) simp
  moreover from this have "CHR ''['' \<notin> set n" by (simp add: cut_byte_iff)
  moreover have "typed_keys (elem_keys (CHR ''['' # t) [])" by (rule elem_keys_typed) (simp add: typed_keys_def)
  ultimately show ?thesis by (simp add: splitElem_def typed_elem_def typed_keys_def)
qed

section \<open>What the parser keeps of any text\<close>

lemma split_path_from_pieces:
  "\<exists>sl. (sl = '''' \<or> sl = ''/'') \<and> rev cur @ s = Join (split_path_from depth cur s) ''/'' @ sl
     \<and> (split_path_from depth cur s = [] \<longrightarrow> cur = [] \<and> s = [] \<and> sl = '''')"
proof (induction depth cur s rule: split_path_from.induct)
  case (1 depth cur)
  show ?case by simp
next
  case (2 depth cur c cs)
  show ?case
  proof (cases "c = CHR ''/'' \<and> depth = 0")
    case True
    with 2 obtain sl where sl: "sl = '''' \<or> sl = ''/''"
      "cs = Join (split_path_from 0 [] cs) ''/'' @ sl"
      "split_path_from 0 [] cs = [] \<longrightarrow> cs = [] \<and> sl = ''''" by auto
    show ?thesis
    proof (cases "split_path_from 0 [] cs")
      case Nil
      with sl True show ?thesis by auto
    next
      case (Cons p ps)
      with sl True show ?thesis by (intro exI [of _ sl]) auto
    qed
  next
    case False
    with 2 show ?thesis by (auto split: if_splits)
  qed
qed

text \<open>Nothing is lost in the pieces but one slash at the very end.\<close>

lemma splitPath_Join: "s = Join (splitPath s) ''/'' \<or> s = Join (splitPath s) ''/'' @ ''/''"
  using split_path_from_pieces [of "[]" s 0] by (auto simp: splitPath_def)

text \<open>After an unclosed bracket nothing is split any more.\<close>

lemma split_path_open:
  "CHR '']'' \<notin> set t \<Longrightarrow> 0 < depth \<Longrightarrow> cur \<noteq> [] \<Longrightarrow> split_path_from depth cur t = [rev cur @ t]"
  by (induction t arbitrary: depth cur) auto

lemma splitPath_unclosed:
  assumes "set n \<inter> insert (CHR ''/'') brackets = {}" and "CHR '']'' \<notin> set t"
  shows "splitPath (n @ ''['' @ t) = [n @ ''['' @ t]"
  using assms split_path_plain [of n 0 "[]" "''['' @ t"]
  by (simp add: splitPath_def split_path_open)

lemma splitPath_bracket:
  assumes "set n \<inter> insert (CHR ''/'') brackets = {}" and "set k \<inter> brackets = {}"
  shows "splitPath (n @ ''['' @ k @ '']'') = [n @ ''['' @ k @ '']'']"
  using assms split_path_plain [of n 0 "[]" "''['' @ k @ '']''"] split_path_plain [of k 1 _ "'']''"]
  by (simp add: splitPath_def)

lemma ParsePath_single:
  "s \<noteq> [] \<Longrightarrow> hd s \<noteq> CHR ''/'' \<Longrightarrow> splitPath s = [s] \<Longrightarrow> ParsePath s = Inr [splitElem s]"
  by (cases s) (simp_all add: ParsePath_def TrimPrefix_def)

lemma ParsePath_total: "(\<exists>e. ParsePath s = Inl e) \<longleftrightarrow> s = []"
  by (simp add: ParsePath_def)

lemma ParsePath_error: "ParsePath s = Inl e \<longleftrightarrow> s = [] \<and> e = ErrEmptyPathString"
  by (auto simp: ParsePath_def)

lemma splitElem_no_equality:
  assumes "set n \<inter> brackets = {}" and "set k \<inter> insert (CHR ''='') brackets = {}"
  shows "splitElem (n @ ''['' @ k @ '']'' @ rest) = \<lparr>pe_Name = n, pe_Key = Some []\<rparr>"
proof -
  have "CHR ''['' \<notin> set n" "CHR '']'' \<notin> set k" "CHR ''='' \<notin> set k"
    using assms by (auto simp: brackets_def)
  moreover from this(3) have "cut_byte (CHR ''='') k = None" by (simp add: cut_byte_None)
  ultimately show ?thesis
    using cut_byte_append [of "CHR ''[''" n "k @ CHR '']'' # rest"] cut_byte_append [of "CHR '']''" k rest]
    by (simp add: splitElem_def elem_keys.simps)
qed

lemma splitElem_unclosed:
  assumes "CHR ''['' \<notin> set n" and "CHR '']'' \<notin> set t"
  shows "splitElem (n @ ''['' @ t) = \<lparr>pe_Name = n, pe_Key = Some []\<rparr>"
proof -
  have "cut_byte (CHR '']'') t = None" using assms by (simp add: cut_byte_None)
  with cut_byte_append [of "CHR ''[''" n t] assms show ?thesis
    by (simp add: splitElem_def elem_keys.simps)
qed

end
