(* ===== verification/Go_Base64.thy ===== *)
theory Go_Base64
  imports Go_Strings
begin

text \<open>
  \<open>base64.StdEncoding.EncodeToString\<close> of the standard library, and a decoder that shows that
  the encoding loses nothing.
\<close>

definition base64_alphabet :: string where
  "base64_alphabet = ''ABCDEFGHIJKLMNOPQRSTUVWXYZabcdefghijklmnopqrstuvwxyz0123456789+/''"

definition sextet :: "nat \<Rightarrow> char" where
  "sextet n = base64_alphabet ! n"

abbreviation byte :: "char \<Rightarrow> nat" where "byte \<equiv> of_char"

text \<open>Three bytes make four characters; one or two bytes left over are padded.\<close>

fun EncodeToString :: "string \<Rightarrow> string" where
  "EncodeToString [] = []"
| "EncodeToString [a] = [sextet (byte a div 4), sextet (byte a mod 4 * 16), CHR ''='', CHR ''='']"
| "EncodeToString [a, b] =
     [sextet (byte a div 4), sextet (byte a mod 4 * 16 + byte b div 16),
      sextet (byte b mod 16 * 4), CHR ''='']"
| "EncodeToString (a # b # c # s) =
     sextet (byte a div 4) # sextet (byte a mod 4 * 16 + byte b div 16)
       # sextet (byte b mod 16 * 4 + byte c div 64) # sextet (byte c mod 64) # EncodeToString s"

definition sextet_val :: "char \<Rightarrow> nat" where
  "sextet_val c = length (takeWhile (\<lambda>x. x \<noteq> c) base64_alphabet)"

fun decode_base64 :: "string \<Rightarrow> string" where
  "decode_base64 (p # q # r # t # s) =
     char_of (sextet_val p * 4 + sextet_val q div 16)
       # (if r = CHR ''='' then []
          else char_of (sextet_val q mod 16 * 16 + sextet_val r div 4)
            # (if t = CHR ''='' then []
               else char_of (sextet_val r mod 4 * 64 + sextet_val t) # decode_base64 s))"
| "decode_base64 s = []"

lemma takeWhile_nth_distinct:
  "distinct xs \<Longrightarrow> n < length xs \<Longrightarrow> length (takeWhile (\<lambda>x. x \<noteq> xs ! n) xs) = n"
proof (induction xs arbitrary: n)
  case Nil
  then show ?case by simp
next
  case (Cons x xs)
  then show ?case by (cases n) auto
qed

lemma length_alphabet: "length base64_alphabet = 64"
  by (simp add: base64_alphabet_def)

lemma distinct_alphabet: "distinct base64_alphabet"
  by (simp add: base64_alphabet_def)

lemma sextet_val_sextet [simp]: "n < 64 \<Longrightarrow> sextet_val (sextet n) = n"
  unfolding sextet_val_def sextet_def
  by (rule takeWhile_nth_distinct) (simp_all add: distinct_alphabet length_alphabet)

lemma sextet_no_pad [simp]: "n < 64 \<Longrightarrow> sextet n \<noteq> CHR ''=''"
proof -
  assume "n < 64"
  then have "sextet n \<in> set base64_alphabet" by (simp add: sextet_def length_alphabet)
  then show ?thesis by (auto simp: base64_alphabet_def)
qed

lemma byte_less [simp]: "byte c < 256"
  using of_char_mod_256 [of c, where ?'a = nat] by (metis mod_less_divisor zero_less_numeral)

lemma byte_div [simp]: "byte c div 4 < 64" "byte c div 16 < 16" "byte c div 64 < 4"
  using byte_less [of c] by (simp_all add: less_mult_imp_div_less)

lemma sextet_bounds [simp]:
  "byte a mod 4 * 16 < 64" "byte b mod 16 * 4 < 64" "byte c mod 64 < 64"
  "byte a mod 4 * 16 + byte b div 16 < 64" "byte b mod 16 * 4 + byte c div 64 < 64"
proof -
  have "byte a mod 4 < 4" "byte b mod 16 < 16" by simp_all
  with byte_div(2) [of b] byte_div(3) [of c] show
    "byte a mod 4 * 16 < 64" "byte b mod 16 * 4 < 64" "byte c mod 64 < 64"
    "byte a mod 4 * 16 + byte b div 16 < 64" "byte b mod 16 * 4 + byte c div 64 < 64"
    by linarith+
qed

lemma byte_parts [simp]: "byte b div 16 mod 16 = byte b div 16" "byte c div 64 mod 4 = byte c div 64"
  by simp_all

lemma decode_EncodeToString: "decode_base64 (EncodeToString s) = s"
  by (induction s rule: EncodeToString.induct) simp_all

lemma EncodeToString_inject: "EncodeToString s = EncodeToString t \<longleftrightarrow> s = t"
  by (metis decode_EncodeToString)

lemma length_EncodeToString: "length (EncodeToString s) = (length s + 2) div 3 * 4"
proof (induction s rule: EncodeToString.induct)
  case (4 a b c s)
  have "(length (a # b # c # s) + 2) div 3 = Suc ((length s + 2) div 3)" by simp
  with 4 show ?case by simp
qed simp_all

end
