(* ===== verification/Grpc.thy ===== *)
theory Grpc
  imports Prelude
begin

text \<open>
  What the gNMI and CloudVision clients use of google.golang.org/grpc and crypto/tls.  The
  connection, the certificate parser and the effects of closing are parameters: fields of
  \<open>grpc_lib\<close>, over a world of any type.
\<close>

definition VersionTLS12 :: nat where "VersionTLS12 = 0x0303"
definition VersionTLS13 :: nat where "VersionTLS13 = 0x0304"

text \<open>\<open>tls_RootCAs\<close>: the bundle appended to an own pool; \<open>None\<close> is the nil pool, the host's roots.\<close>

record tls_config =
  tls_MinVersion :: nat
  tls_InsecureSkipVerify :: bool
  tls_RootCAs :: "string option"

datatype transport_creds = Insecure | NewTLS tls_config

text \<open>Metadata is a list of key and value pairs; a context is known by its outgoing metadata.\<close>

type_synonym metadata = "(string \<times> string) list"

text \<open>\<open>credentials.PerRPCCredentials\<close>: its two methods.\<close>

record per_rpc =
  GetRequestMetadata :: metadata
  RequireTransportSecurity :: bool

record ('c, 'w) grpc_lib =
  AppendCertsFromPEM :: "string \<Rightarrow> bool"
  grpc_NewClient :: "string \<Rightarrow> transport_creds \<Rightarrow> per_rpc option \<Rightarrow> error + 'c"
  conn_Close :: "'c \<Rightarrow> 'w \<Rightarrow> error option \<times> 'w"

text \<open>
  Both clients pin the certificates of a bundle when there is one, and refuse a bundle that
  holds no certificate.
\<close>

definition pin_bundle :: "('c, 'w, 'z) grpc_lib_scheme \<Rightarrow> error \<Rightarrow> string \<Rightarrow> tls_config \<Rightarrow> error + tls_config" where
  "pin_bundle L e pem t =
     (if pem = [] then Inr t
      else if \<not> AppendCertsFromPEM L pem then Inl e
      else Inr (t\<lparr>tls_RootCAs := Some pem\<rparr>))"

lemma pin_bundle_Inr:
  "pin_bundle L e pem t = Inr t' \<Longrightarrow>
     tls_MinVersion t' = tls_MinVersion t \<and> tls_InsecureSkipVerify t' = tls_InsecureSkipVerify t
     \<and> (pem \<noteq> [] \<longrightarrow> AppendCertsFromPEM L pem \<and> tls_RootCAs t' = Some pem)
     \<and> (pem = [] \<longrightarrow> tls_RootCAs t' = tls_RootCAs t)"
  by (auto simp: pin_bundle_def split: if_splits)

end
