(* ===== verification/Gnmi_Client.thy ===== *)
theory Gnmi_Client
  imports Provider_Config Gnmi_Path Go_Base64 Grpc
begin

text \<open>
  \<open>internal/client/gnmi/client.go\<close>, all but the path notation of \<open>Gnmi_Path\<close>, and the factory
  \<open>GNMIClient\<close> of \<open>internal/config/clients.go\<close>.  The generated stub is a parameter.  The life
  cycle of a client is a step relation on the client and a trace of what it sends.
\<close>

section \<open>Configuration and dialling\<close>

definition gnmi_DefaultPort :: int where "gnmi_DefaultPort = 6030"

definition gnmi_ErrHostRequired :: error where
  [errs]: "gnmi_ErrHostRequired = Sentinel ''gnmi: host is required''"
definition gnmi_ErrClientNotInit :: error where
  [errs]: "gnmi_ErrClientNotInit = Sentinel ''gnmi: client not initialised''"
definition ErrInvalidCABundle :: error where
  [errs]: "ErrInvalidCABundle = Sentinel ''gnmi: parse CA bundle: invalid PEM''"

record gnmi_config =
  gc_Host :: string
  gc_Port :: int
  gc_Username :: string
  gc_Password :: string
  gc_CACert :: string
  gc_InsecureSkipVerify :: bool
  gc_PlaintextNoTLS :: bool

definition gnmi_validate :: "gnmi_config \<Rightarrow> error option" where
  "gnmi_validate c = (if gc_Host c = [] then Some gnmi_ErrHostRequired else None)"

datatype gnmi_encoding = JSON_IETF

record get_request =
  gr_Path :: "path_elem list list"
  gr_Encoding :: gnmi_encoding

text \<open>The methods of the generated stub, besides the connection.\<close>

record ('c, 'w, 'cap, 'resp) gnmi_lib = "('c, 'w) grpc_lib" +
  stub_Capabilities :: "'c \<Rightarrow> metadata \<Rightarrow> 'w \<Rightarrow> (error + 'cap) \<times> 'w"
  stub_Get :: "'c \<Rightarrow> metadata \<Rightarrow> get_request \<Rightarrow> 'w \<Rightarrow> (error + 'resp) \<times> 'w"

record 'c gnmi_client =
  gcl_cfg :: gnmi_config
  gcl_conn :: "'c option"
  gcl_stub :: "'c option"

definition transportCreds :: "('c, 'w, 'z) grpc_lib_scheme \<Rightarrow> gnmi_config \<Rightarrow> error + transport_creds" where
  "transportCreds L cfg =
     (if gc_PlaintextNoTLS cfg then Inr Insecure
      else map_sum id NewTLS
        (pin_bundle L ErrInvalidCABundle (gc_CACert cfg)
           \<lparr>tls_MinVersion = VersionTLS12, tls_InsecureSkipVerify = gc_InsecureSkipVerify cfg,
            tls_RootCAs = None\<rparr>))"

definition dial_addr :: "gnmi_config \<Rightarrow> string" where
  "dial_addr cfg =
     gc_Host cfg @ '':'' @ Itoa (if gc_Port cfg = 0 then gnmi_DefaultPort else gc_Port cfg)"

definition gnmi_Dial :: "('c, 'w, 'z) grpc_lib_scheme \<Rightarrow> gnmi_config \<Rightarrow> error + 'c gnmi_client" where
  "gnmi_Dial L cfg =
     (case gnmi_validate cfg of
        Some e \<Rightarrow> Inl e
      | None \<Rightarrow>
          (case transportCreds L cfg of
             Inl e \<Rightarrow> Inl e
           | Inr creds \<Rightarrow>
               (case grpc_NewClient L (dial_addr cfg) creds None of
                  Inl e \<Rightarrow> Inl (Got (Wrap ''gnmi: client'' e) [DStr (dial_addr cfg)])
                | Inr conn \<Rightarrow> Inr \<lparr>gcl_cfg = cfg, gcl_conn = Some conn, gcl_stub = Some conn\<rparr>)))"

section \<open>Requests\<close>

text \<open>A nil client is \<open>None\<close>.\<close>

definition gnmi_Close ::
  "('c, 'w, 'z) grpc_lib_scheme \<Rightarrow> 'c gnmi_client option \<Rightarrow> 'w \<Rightarrow> error option \<times> 'c gnmi_client option \<times> 'w" where
  "gnmi_Close L p w =
     (case p of
        None \<Rightarrow> (None, None, w)
      | Some c \<Rightarrow>
          (case gcl_conn c of
             None \<Rightarrow> (None, Some c, w)
           | Some conn \<Rightarrow>
               (case conn_Close L conn w of
                  (err, w') \<Rightarrow> (err, Some (c\<lparr>gcl_conn := None, gcl_stub := None\<rparr>), w'))))"

definition auth_pairs :: "gnmi_config \<Rightarrow> metadata" where
  "auth_pairs cfg =
     (if gc_Username cfg = [] \<and> gc_Password cfg = [] then []
      else [(''username'', gc_Username cfg), (''password'', gc_Password cfg)]
        @ (if gc_Username cfg \<noteq> []
           then [(''authorization'', ''Basic '' @ EncodeToString (gc_Username cfg @ '':'' @ gc_Password cfg))]
           else []))"

definition withAuth :: "'c gnmi_client \<Rightarrow> metadata \<Rightarrow> metadata" where
  "withAuth c md = md @ auth_pairs (gcl_cfg c)"

definition gnmi_Capabilities ::
  "('c, 'w, 'cap, 'resp) gnmi_lib \<Rightarrow> 'c gnmi_client option \<Rightarrow> metadata \<Rightarrow> 'w \<Rightarrow> (error + 'cap) \<times> 'w" where
  "gnmi_Capabilities L p md w =
     (case p of
        None \<Rightarrow> (Inl gnmi_ErrClientNotInit, w)
      | Some c \<Rightarrow>
          (case gcl_stub c of
             None \<Rightarrow> (Inl gnmi_ErrClientNotInit, w)
           | Some stub \<Rightarrow> stub_Capabilities L stub (withAuth c md) w))"

text \<open>The loop over the paths, with its early return.\<close>

fun parse_paths :: "string list \<Rightarrow> error + path_elem list list" where
  "parse_paths [] = Inr []"
| "parse_paths (p # ps) =
     (case ParsePath p of
        Inl e \<Rightarrow> Inl e
      | Inr gp \<Rightarrow> map_sum id ((#) gp) (parse_paths ps))"

definition gnmi_Get ::
  "('c, 'w, 'cap, 'resp) gnmi_lib \<Rightarrow> 'c gnmi_client option \<Rightarrow> metadata \<Rightarrow> string list \<Rightarrow> 'w \<Rightarrow> (error + 'resp) \<times> 'w" where
  "gnmi_Get L p md paths w =
     (case p of
        None \<Rightarrow> (Inl gnmi_ErrClientNotInit, w)
      | Some c \<Rightarrow>
          (case gcl_stub c of
             None \<Rightarrow> (Inl gnmi_ErrClientNotInit, w)
           | Some stub \<Rightarrow>
               if paths = [] then (Inl ErrEmptyPathString, w)
               else (case parse_paths paths of
                       Inl e \<Rightarrow> (Inl e, w)
                     | Inr parsed \<Rightarrow>
                         stub_Get L stub (withAuth c md) \<lparr>gr_Path = parsed, gr_Encoding = JSON_IETF\<rparr> w)))"

section \<open>The factory\<close>

definition gnmi_config_of :: "Config \<Rightarrow> endpoint \<Rightarrow> string option \<Rightarrow> string option \<Rightarrow> gnmi_config" where
  "gnmi_config_of c ep userOverride passOverride =
     \<lparr>gc_Host = ep_Host ep, gc_Port = ep_Port ep,
      gc_Username = override userOverride (EOSUsername c),
      gc_Password = override passOverride (or_empty (EOSPassword c)),
      gc_CACert = or_empty (EOSTLSCACert c),
      gc_InsecureSkipVerify = (EOSInsecure c = Some True),
      gc_PlaintextNoTLS = False\<rparr>"

definition GNMIClient ::
  "('c, 'w, 'z) grpc_lib_scheme \<Rightarrow> golib \<Rightarrow> Config \<Rightarrow> string option \<Rightarrow> string option \<Rightarrow> string option
     \<Rightarrow> error + 'c gnmi_client" where
  "GNMIClient L G c hostOverride userOverride passOverride =
     (case splitEOSURL G (EOSURL c) hostOverride of
        Inl e \<Rightarrow> Inl e
      | Inr ep \<Rightarrow>
          if ep_Host ep = [] then Inl ErrEOSNotConfigured
          else gnmi_Dial L (gnmi_config_of c ep userOverride passOverride))"

section \<open>What a request needs and sends\<close>

lemma parse_paths_Inr: "[] \<notin> set ps \<Longrightarrow> parse_paths ps = Inr (map (\<lambda>p. projr (ParsePath p)) ps)"
proof (induction ps)
  case Nil
  show ?case by simp
next
  case (Cons p ps)
  then obtain g where "ParsePath p = Inr g" by (cases "ParsePath p") (auto simp: ParsePath_error)
  with Cons show ?case by simp
qed

lemma parse_paths_error: "[] \<in> set ps \<Longrightarrow> parse_paths ps = Inl ErrEmptyPathString"
proof (induction ps)
  case Nil
  then show ?case by simp
next
  case (Cons p ps)
  show ?case
  proof (cases "p = []")
    case True
    then show ?thesis by (simp add: ParsePath_def)
  next
    case False
    then obtain g where "ParsePath p = Inr g" by (cases "ParsePath p") (auto simp: ParsePath_error)
    with Cons False show ?thesis by simp
  qed
qed

text \<open>A request with any paths: sent exactly when no path is empty, and then as parsed, in order.\<close>

lemma gnmi_Get_cases:
  assumes "gcl_stub c = Some k"
  shows "gnmi_Get L (Some c) md paths w =
    (if paths = [] \<or> [] \<in> set paths then (Inl ErrEmptyPathString, w)
     else stub_Get L k (withAuth c md)
            \<lparr>gr_Path = map (\<lambda>p. projr (ParsePath p)) paths, gr_Encoding = JSON_IETF\<rparr> w)"
  using assms by (simp add: gnmi_Get_def parse_paths_error parse_paths_Inr)

lemma auth_pairs_inject:
  assumes "auth_pairs a = auth_pairs b"
  shows "gc_Username a = gc_Username b \<and> gc_Password a = gc_Password b"
  using assms by (auto simp: auth_pairs_def split: if_splits)

lemma gnmi_Dial_Inr:
  assumes "gnmi_Dial L cfg = Inr c"
  shows "gcl_cfg c = cfg \<and> gc_Host cfg \<noteq> []
    \<and> (\<exists>creds conn. transportCreds L cfg = Inr creds
         \<and> grpc_NewClient L (dial_addr cfg) creds None = Inr conn
         \<and> gcl_conn c = Some conn \<and> gcl_stub c = Some conn)"
  using assms by (auto simp: gnmi_Dial_def gnmi_validate_def split: sum.splits if_splits)

lemma transportCreds_TLS:
  assumes "transportCreds L cfg = Inr creds" and "\<not> gc_PlaintextNoTLS cfg"
  obtains t where "creds = NewTLS t" "tls_MinVersion t = VersionTLS12"
    "tls_InsecureSkipVerify t = gc_InsecureSkipVerify cfg"
    "tls_RootCAs t = (if gc_CACert cfg = [] then None else Some (gc_CACert cfg))"
proof -
  from assms obtain t where "creds = NewTLS t"
    and p: "pin_bundle L ErrInvalidCABundle (gc_CACert cfg)
           \<lparr>tls_MinVersion = VersionTLS12, tls_InsecureSkipVerify = gc_InsecureSkipVerify cfg,
            tls_RootCAs = None\<rparr> = Inr t"
    by (auto simp: transportCreds_def map_sum_def split: sum.splits)
  with pin_bundle_Inr [OF p] show thesis by (intro that [of t]) simp_all
qed

section \<open>Life cycle\<close>

text \<open>What leaves the process, in order: a request with its metadata and paths, or the close.\<close>

datatype gnmi_event = Sent metadata "path_elem list list" | Closed

definition gnmi_traced ::
  "('c, 'w, 'cap, 'resp) gnmi_lib \<Rightarrow> ('c, 'w \<times> gnmi_event list, 'cap, 'resp) gnmi_lib" where
  "gnmi_traced L =
     \<lparr>AppendCertsFromPEM = AppendCertsFromPEM L, grpc_NewClient = grpc_NewClient L,
      conn_Close = (\<lambda>k (w, l). case conn_Close L k w of (e, w') \<Rightarrow> (e, (w', l @ [Closed]))),
      stub_Capabilities = (\<lambda>k md (w, l). case stub_Capabilities L k md w of (r, w') \<Rightarrow> (r, (w', l @ [Sent md []]))),
      stub_Get = (\<lambda>k md req (w, l). case stub_Get L k md req w of (r, w') \<Rightarrow> (r, (w', l @ [Sent md (gr_Path req)])))\<rparr>"

text \<open>One call on a client, and the states that calls in any order reach.\<close>

inductive gnmi_step ::
  "('c, 'w, 'cap, 'resp) gnmi_lib \<Rightarrow> 'c gnmi_client \<times> 'w \<Rightarrow> 'c gnmi_client \<times> 'w \<Rightarrow> bool"
  for L where
  capabilities: "gnmi_Capabilities L (Some c) md w = (r, w') \<Longrightarrow> gnmi_step L (c, w) (c, w')"
| get: "gnmi_Get L (Some c) md paths w = (r, w') \<Longrightarrow> gnmi_step L (c, w) (c, w')"
| close: "gnmi_Close L (Some c) w = (e, Some c', w') \<Longrightarrow> gnmi_step L (c, w) (c', w')"

inductive_cases gnmi_stepE: "gnmi_step L (c, w) (c', w')"

inductive gnmi_reach ::
  "('c, 'w, 'cap, 'resp) gnmi_lib \<Rightarrow> 'c gnmi_client \<times> 'w \<Rightarrow> 'c gnmi_client \<times> 'w \<Rightarrow> bool"
  for L s where
  start: "gnmi_reach L s s"
| step: "gnmi_reach L s t \<Longrightarrow> gnmi_step L t u \<Longrightarrow> gnmi_reach L s u"

text \<open>
  Open: connection and stub are there and nothing was closed.  Closed: neither is there, and
  the close is the last thing that left.  Every request carries the client's credentials.
\<close>

definition carries :: "gnmi_config \<Rightarrow> gnmi_event \<Rightarrow> bool" where
  "carries cfg e \<longleftrightarrow> (case e of Sent md _ \<Rightarrow> \<exists>md0. md = md0 @ auth_pairs cfg | Closed \<Rightarrow> True)"

lemma carries_simps [simp]:
  "carries cfg Closed" "gcl_cfg c = cfg \<Longrightarrow> carries cfg (Sent (withAuth c md) ps)"
  by (auto simp: carries_def withAuth_def)

definition gnmi_inv :: "gnmi_config \<Rightarrow> 'c gnmi_client \<Rightarrow> gnmi_event list \<Rightarrow> bool" where
  "gnmi_inv cfg c l \<longleftrightarrow> gcl_cfg c = cfg \<and> gcl_stub c = gcl_conn c \<and> (\<forall>e\<in>set l. carries cfg e)
     \<and> (\<exists>rs. Closed \<notin> set rs \<and> l = rs @ (if gcl_conn c = None then [Closed] else []))"

lemma gnmi_inv_open:
  "gcl_stub c = Some k \<Longrightarrow>
     gnmi_inv cfg c l \<longleftrightarrow> gcl_cfg c = cfg \<and> gcl_conn c = Some k \<and> (\<forall>e\<in>set l. carries cfg e) \<and> Closed \<notin> set l"
  by (auto simp: gnmi_inv_def)

lemma gnmi_inv_sent:
  "gcl_stub c = Some k \<Longrightarrow> gnmi_inv cfg c l \<Longrightarrow> gnmi_inv cfg c (l @ [Sent (withAuth c md) ps])"
  by (simp add: gnmi_inv_open)

lemma gnmi_Capabilities_inv:
  assumes "gnmi_Capabilities (gnmi_traced L) (Some c) md (w, l) = (r, (w', l'))" and "gnmi_inv cfg c l"
  shows "gnmi_inv cfg c l'"
  using assms by (auto simp: gnmi_Capabilities_def gnmi_traced_def gnmi_inv_sent
      split: option.splits prod.splits)

lemma gnmi_Get_inv:
  assumes "gnmi_Get (gnmi_traced L) (Some c) md paths (w, l) = (r, (w', l'))" and "gnmi_inv cfg c l"
  shows "gnmi_inv cfg c l'"
  using assms by (auto simp: gnmi_Get_def gnmi_traced_def gnmi_inv_sent
      split: option.splits prod.splits sum.splits if_splits)

lemma gnmi_Close_inv:
  assumes "gnmi_Close (gnmi_traced L) (Some c) (w, l) = (e, Some c', (w', l'))" and "gnmi_inv cfg c l"
  shows "gnmi_inv cfg c' l'"
proof (cases "gcl_conn c")
  case None
  then show ?thesis using assms by (simp add: gnmi_Close_def)
next
  case (Some k)
  then have "gcl_cfg c' = cfg" "gcl_conn c' = None" "gcl_stub c' = None" "l' = l @ [Closed]"
    "Closed \<notin> set l" "\<forall>e\<in>set l. carries cfg e"
    using assms by (auto simp: gnmi_Close_def gnmi_traced_def gnmi_inv_def split: prod.splits)
  then show ?thesis by (simp add: gnmi_inv_def)
qed

lemma gnmi_step_inv:
  assumes "gnmi_step (gnmi_traced L) (c, (w, l)) (c', (w', l'))" and "gnmi_inv cfg c l"
  shows "gnmi_inv cfg c' l'"
  using assms by (elim gnmi_stepE) (simp_all add: gnmi_Capabilities_inv gnmi_Get_inv gnmi_Close_inv)

lemma gnmi_reach_inv:
  assumes "gnmi_reach (gnmi_traced L) s t" and "gnmi_inv cfg (fst s) (snd (snd s))"
  shows "gnmi_inv cfg (fst t) (snd (snd t))"
  using assms
proof (induction rule: gnmi_reach.induct)
  case start
  then show ?case .
next
  case (step t u)
  obtain c w l c' w' l' where "t = (c, (w, l))" "u = (c', (w', l'))" by (metis prod.exhaust)
  with step gnmi_step_inv [of L c w l c' w' l' cfg] show ?case by simp
qed

end
