(* ===== verification/Cvp_Client.thy ===== *)
theory Cvp_Client
  imports Provider_Config Grpc
begin

text \<open>
  \<open>internal/client/cvp/client.go\<close>: validation, the TLS configuration, the dial target and the
  life of a CloudVision connection.  \<open>url.Parse\<close>, gRPC and \<open>os.ReadFile\<close> are parameters.
\<close>

definition DefaultGRPCPort :: int where "DefaultGRPCPort = 443"

definition ErrURLRequired :: error where
  [errs]: "ErrURLRequired = Sentinel ''cvp: url is required''"
definition ErrTokenMissing :: error where
  [errs]: "ErrTokenMissing = Sentinel ''cvp: token is required''"
definition ErrInvalidPEM :: error where
  [errs]: "ErrInvalidPEM = Sentinel ''cvp: caCert is not a valid PEM bundle''"
definition ErrMissingHost :: error where
  [errs]: "ErrMissingHost = Sentinel ''cvp: url is missing a host component''"

record cvp_config =
  cv_URL :: string
  cv_Token :: string
  cv_CACertPEM :: string

definition cvp_validate :: "golib \<Rightarrow> cvp_config \<Rightarrow> error option" where
  "cvp_validate G c =
     (if cv_URL c = [] then Some ErrURLRequired
      else if cv_Token c = [] then Some ErrTokenMissing
      else parse_err ''cvp: url is not parseable'' (url_Parse G (cv_URL c)))"

record 'c cvp_client =
  cvc_cfg :: cvp_config
  cvc_conn :: "'c option"

definition buildTLS :: "('c, 'w, 'z) grpc_lib_scheme \<Rightarrow> cvp_config \<Rightarrow> error + tls_config" where
  "buildTLS L cfg =
     pin_bundle L ErrInvalidPEM (cv_CACertPEM cfg)
       \<lparr>tls_MinVersion = VersionTLS13, tls_InsecureSkipVerify = False, tls_RootCAs = None\<rparr>"

text \<open>
  The loop of \<open>splitPort\<close> runs from the end of the text: the unread part is reversed, and
  \<open>port\<close> is what it has passed.
\<close>

fun split_port_rev :: "string \<Rightarrow> string \<Rightarrow> (string \<times> string) option" where
  "split_port_rev [] port = None"
| "split_port_rev (c # cs) port =
     (if c = CHR '']'' then None
      else if c = CHR '':'' then Some (rev cs, port)
      else split_port_rev cs (c # port))"

definition splitPort :: "string \<Rightarrow> string \<times> string \<times> bool" where
  "splitPort host =
     (case split_port_rev (rev host) [] of
        Some (h, p) \<Rightarrow> (h, p, True)
      | None \<Rightarrow> (host, [], False))"

definition cvp_target :: "golib \<Rightarrow> string \<Rightarrow> error + string" where
  "cvp_target G raw =
     (case url_Parse G raw of
        Inl e \<Rightarrow> Inl (Wrap ''cvp: parse url'' e)
      | Inr u \<Rightarrow>
          (let host = (if u_Host u = [] then u_Path u else u_Host u)
           in if host = [] then Inl ErrMissingHost
              else if \<not> snd (snd (splitPort host)) then Inr (host @ '':'' @ Itoa DefaultGRPCPort)
              else Inr host))"

definition bearerCreds :: "string \<Rightarrow> per_rpc" where
  "bearerCreds token =
     \<lparr>GetRequestMetadata = [(''authorization'', ''Bearer '' @ token)], RequireTransportSecurity = True\<rparr>"

text \<open>\<open>ctxErr\<close> is \<open>ctx.Err()\<close> in a state of the world.\<close>

definition cvp_New ::
  "('c, 'w, 'z) grpc_lib_scheme \<Rightarrow> golib \<Rightarrow> ('w \<Rightarrow> error option) \<Rightarrow> cvp_config \<Rightarrow> 'w
     \<Rightarrow> (error + 'c cvp_client) \<times> 'w" where
  "cvp_New L G ctxErr cfg w =
     (case cvp_validate G cfg of Some e \<Rightarrow> (Inl e, w)
      | None \<Rightarrow>
     (case buildTLS L cfg of Inl e \<Rightarrow> (Inl e, w)
      | Inr tlsCfg \<Rightarrow>
     (case cvp_target G (cv_URL cfg) of Inl e \<Rightarrow> (Inl e, w)
      | Inr t \<Rightarrow>
     (case grpc_NewClient L t (NewTLS tlsCfg) (Some (bearerCreds (cv_Token cfg))) of
        Inl e \<Rightarrow> (Inl (Got (Wrap ''cvp: dial'' e) [DStr t]), w)
      | Inr conn \<Rightarrow>
     (case ctxErr w of
        None \<Rightarrow> (Inr \<lparr>cvc_cfg = cfg, cvc_conn = Some conn\<rparr>, w)
      | Some e \<Rightarrow>
          (case conn_Close L conn w of
             (Some cerr, w') \<Rightarrow> (Inl (Got (Wrap ''cvp: ctx'' e) [DErr cerr]), w')
           | (None, w') \<Rightarrow> (Inl e, w')))))))"

definition Conn :: "'c cvp_client \<Rightarrow> 'c option" where
  "Conn c = cvc_conn c"

definition cvp_Close ::
  "('c, 'w, 'z) grpc_lib_scheme \<Rightarrow> 'c cvp_client option \<Rightarrow> 'w \<Rightarrow> error option \<times> 'w" where
  "cvp_Close L p w =
     (case Option.bind p cvc_conn of
        None \<Rightarrow> (None, w)
      | Some conn \<Rightarrow> conn_Close L conn w)"

definition LoadCACertFile :: "(string \<Rightarrow> 'w \<Rightarrow> (error + string) \<times> 'w) \<Rightarrow> string \<Rightarrow> 'w \<Rightarrow> (error + string) \<times> 'w" where
  "LoadCACertFile ReadFile path w = (if path = [] then (Inr [], w) else ReadFile path w)"

section \<open>The target\<close>

lemma split_port_rev_Some:
  "split_port_rev s port = Some (h, p) \<longleftrightarrow>
     (\<exists>t. rev s = h @ '':'' @ t \<and> p = t @ port \<and> CHR '':'' \<notin> set t \<and> CHR '']'' \<notin> set t)"
proof (induction s port rule: split_port_rev.induct)
  case (1 port)
  show ?case by simp
next
  case (2 c cs port)
  show ?case
  proof (cases "c = CHR '']'' \<or> c = CHR '':''")
    case True
    have "t = []" if "rev cs @ [c] = h @ CHR '':'' # t" "c \<notin> set t" for t
      using that by (cases t rule: rev_cases) auto
    with True show ?thesis by (auto dest: arg_cong [of _ _ last])
  next
    case False
    have "rev cs @ [c] = h @ CHR '':'' # t \<longleftrightarrow> (\<exists>t'. t = t' @ [c] \<and> rev cs = h @ CHR '':'' # t')" for t
      using False by (cases t rule: rev_cases) auto
    with 2 False show ?thesis by auto
  qed
qed

lemma splitPort_iff:
  "splitPort host = (h, p, True) \<longleftrightarrow>
     host = h @ '':'' @ p \<and> CHR '':'' \<notin> set p \<and> CHR '']'' \<notin> set p"
proof -
  have "split_port_rev (rev host) [] = Some (h, p) \<longleftrightarrow>
      host = h @ '':'' @ p \<and> CHR '':'' \<notin> set p \<and> CHR '']'' \<notin> set p"
    unfolding split_port_rev_Some by auto
  moreover have "splitPort host = (h, p, True) \<longleftrightarrow> split_port_rev (rev host) [] = Some (h, p)"
    by (auto simp: splitPort_def split: option.splits)
  ultimately show ?thesis by simp
qed

lemma splitPort_rest: "\<not> snd (snd (splitPort host)) \<Longrightarrow> splitPort host = (host, [], False)"
  by (auto simp: splitPort_def split: option.splits)

lemma Itoa_443: "Itoa DefaultGRPCPort = ''443''"
  by (simp add: DefaultGRPCPort_def Itoa_def nat_digits.simps digit_char_def digits_def)

lemma cvp_target_port:
  assumes "cvp_target G raw = Inr t"
  shows "\<exists>h p. t = h @ '':'' @ p \<and> CHR '':'' \<notin> set p \<and> CHR '']'' \<notin> set p"
proof -
  from assms obtain host where "t = host @ '':443'' \<or> snd (snd (splitPort t))"
    by (auto simp: cvp_target_def Itoa_443 Let_def split: sum.splits if_splits)
  then show ?thesis
  proof
    assume "t = host @ '':443''"
    then show ?thesis by (intro exI [of _ host] exI [of _ "''443''"]) simp
  next
    assume "snd (snd (splitPort t))"
    then obtain h p where "splitPort t = (h, p, True)" by (metis prod.collapse)
    then show ?thesis by (auto simp: splitPort_iff)
  qed
qed

text \<open>
  A URL without a scheme parses to a path alone, and all of that path becomes the host: a
  text such as \<open>cvp.example/api\<close> gives the target \<open>cvp.example/api:443\<close>.
\<close>

lemma cvp_path_target:
  assumes "url_Parse G raw = Inr u" and "u_Host u = []" and "u_Path u \<noteq> []" and "CHR '':'' \<notin> set (u_Path u)"
  shows "cvp_target G raw = Inr (u_Path u @ '':443'')"
proof -
  have "splitPort (u_Path u) \<noteq> (h, p, True)" for h p using assms(4) by (auto simp: splitPort_iff)
  then have "\<not> snd (snd (splitPort (u_Path u)))" by (metis prod.collapse)
  with assms show ?thesis by (simp add: cvp_target_def Itoa_443)
qed

section \<open>Connections\<close>

lemma cvp_New_Inr:
  assumes "cvp_New L G ctxErr cfg w = (Inr c, w')"
  shows "cvc_cfg c = cfg \<and> w' = w \<and> ctxErr w = None
    \<and> (\<exists>t conn tls. cvp_target G (cv_URL cfg) = Inr t \<and> buildTLS L cfg = Inr tls \<and> cvc_conn c = Some conn
        \<and> grpc_NewClient L t (NewTLS tls) (Some (bearerCreds (cv_Token cfg))) = Inr conn)"
  using assms by (auto simp: cvp_New_def split: option.splits sum.splits prod.splits)

lemma buildTLS_Inr:
  assumes "buildTLS L cfg = Inr t"
  shows "tls_MinVersion t = VersionTLS13 \<and> \<not> tls_InsecureSkipVerify t
    \<and> tls_RootCAs t = (if cv_CACertPEM cfg = [] then None else Some (cv_CACertPEM cfg))"
  using pin_bundle_Inr [OF assms [unfolded buildTLS_def]] by auto

lemma errors_is_refl [simp]: "errors_is e e"
  by (cases e) simp_all

lemma cvp_New_cancelled:
  assumes "ctxErr w = Some e" and "cvp_New L G ctxErr cfg w = (r, w')"
  shows "(\<exists>x. r = Inl x) \<and>
    (w' = w \<or> (\<exists>t tls conn ce. grpc_NewClient L t (NewTLS tls) (Some (bearerCreds (cv_Token cfg))) = Inr conn
                 \<and> conn_Close L conn w = (ce, w') \<and> errors_is (projl r) e))"
  using assms by (fastforce simp: cvp_New_def split: option.splits sum.splits prod.splits)

end
