(* ===== verification/Vuln_Audit.thy ===== *)
theory Vuln_Audit
  imports Go_Strings Go_Conv "HOL-Library.AList" "HOL-Library.List_Lexorder" "HOL-Library.Char_ord"
begin

text \<open>
  \<open>scripts/vuln-audit.go\<close>: the gate that runs two vulnerability scanners and fails on any
  finding that is not allowed.  Running a scanner and decoding its JSON are parameters: a
  finished process is a record, a decoder a function from the output to the decoded values.
  What is printed is a list of texts.
\<close>

section \<open>Findings\<close>

record finding =
  f_Scanner :: string
  f_ID :: string
  f_Package :: string
  f_Version :: string
  f_Source :: string

record allowEntry =
  ae_Package :: string
  ae_Reason :: string

definition allowlist :: "string \<Rightarrow> allowEntry option" where
  "allowlist = Map.empty"

text \<open>What the anonymous structs hold after decoding.\<close>

record trace_frame =
  tf_Module :: string
  tf_Package :: string
  tf_Function :: string

record gv_finding =
  gv_OSV :: string
  gv_Trace :: "trace_frame list"

type_synonym gv_message = "gv_finding option"

record osv_package =
  op_Name :: string
  op_Version :: string
  op_Groups :: "string list list"
  op_Vulnerabilities :: "string list"

record osv_result =
  or_Path :: string
  or_Packages :: "osv_package list"

text \<open>
  The decoder reads messages up to the end of the input or to an error; \<open>Unmarshal\<close> reads one
  report.
\<close>

record decoders =
  decode_stream :: "string \<Rightarrow> gv_message list \<times> error option"
  unmarshal_report :: "string \<Rightarrow> error + osv_result list"

section \<open>Collecting\<close>

text \<open>The Go map \<open>seen\<close>, from keys to findings; keys join the fields with a NUL byte.\<close>

type_synonym seen = "(string \<times> finding) list"

definition sortedFindings :: "seen \<Rightarrow> finding list" where
  "sortedFindings items = map (\<lambda>k. the (map_of items k)) (sort (map fst items))"

definition gv_item :: "gv_finding \<Rightarrow> finding" where
  "gv_item f =
     (case gv_Trace f of
        [] \<Rightarrow> \<lparr>f_Scanner = ''govulncheck'', f_ID = gv_OSV f, f_Package = [], f_Version = [], f_Source = []\<rparr>
      | t # _ \<Rightarrow> \<lparr>f_Scanner = ''govulncheck'', f_ID = gv_OSV f,
                  f_Package = (if tf_Package t = [] then tf_Module t else tf_Package t),
                  f_Version = [], f_Source = tf_Function t\<rparr>)"

definition gv_key :: "finding \<Rightarrow> string" where
  "gv_key i = Join [f_Scanner i, f_ID i, f_Package i, f_Source i] [CHR 0x00]"

definition gv_step :: "gv_message \<Rightarrow> seen \<Rightarrow> seen" where
  "gv_step m seen =
     (case m of
        None \<Rightarrow> seen
      | Some f \<Rightarrow> if gv_OSV f = [] then seen else AList.update (gv_key (gv_item f)) (gv_item f) seen)"

definition parseGovulncheck :: "decoders \<Rightarrow> string \<Rightarrow> error + finding list" where
  "parseGovulncheck D data =
     (case decode_stream D data of
        (ms, Some e) \<Rightarrow> Inl e
      | (ms, None) \<Rightarrow> Inr (sortedFindings (fold gv_step ms [])))"

definition osv_key :: "finding \<Rightarrow> string" where
  "osv_key i = Join [f_Scanner i, f_ID i, f_Package i, f_Version i, f_Source i] [CHR 0x00]"

definition osv_item :: "string \<Rightarrow> osv_package \<Rightarrow> string \<Rightarrow> finding" where
  "osv_item path pkg vid =
     \<lparr>f_Scanner = ''osv-scanner'', f_ID = vid, f_Package = op_Name pkg, f_Version = op_Version pkg,
      f_Source = path\<rparr>"

definition addOSVFinding :: "string \<Rightarrow> osv_package \<Rightarrow> string \<Rightarrow> seen \<Rightarrow> seen" where
  "addOSVFinding path pkg vid seen =
     (if vid = [] then seen
      else AList.update (osv_key (osv_item path pkg vid)) (osv_item path pkg vid) seen)"

definition osv_package_step :: "string \<Rightarrow> osv_package \<Rightarrow> seen \<Rightarrow> seen" where
  "osv_package_step path pkg seen =
     fold (addOSVFinding path pkg) (op_Vulnerabilities pkg)
       (fold (\<lambda>ids. fold (addOSVFinding path pkg) ids) (op_Groups pkg) seen)"

definition osv_result_step :: "osv_result \<Rightarrow> seen \<Rightarrow> seen" where
  "osv_result_step r seen = fold (osv_package_step (or_Path r)) (or_Packages r) seen"

definition parseOSVScanner :: "decoders \<Rightarrow> string \<Rightarrow> error + finding list" where
  "parseOSVScanner D data =
     (if TrimSpace data = [] then Inr []
      else case unmarshal_report D data of
        Inl e \<Rightarrow> Inl e
      | Inr rs \<Rightarrow> Inr (sortedFindings (fold osv_result_step rs [])))"

section \<open>The report\<close>

type_synonym groups = "(string \<times> finding list) list"

definition add_group :: "finding \<Rightarrow> groups \<Rightarrow> groups" where
  "add_group i g = AList.update (f_ID i) ((case map_of g (f_ID i) of None \<Rightarrow> [] | Some fs \<Rightarrow> fs) @ [i]) g"

definition sortedIDs :: "groups \<Rightarrow> string list" where
  "sortedIDs g = sort (map fst g)"

definition report_item :: "finding \<Rightarrow> string" where
  "report_item i =
     ''  - '' @ f_Scanner i @ '': '' @ f_Package i @ '' '' @ f_Version i @ '' '' @ f_Source i @ [newline]"

definition report_items :: "groups \<Rightarrow> string \<Rightarrow> string list" where
  "report_items g vid = map report_item (case map_of g vid of None \<Rightarrow> [] | Some fs \<Rightarrow> fs)"

record outcome =
  o_stdout :: "string list"
  o_stderr :: "string list"
  o_exit :: int

definition report_with :: "(string \<Rightarrow> allowEntry option) \<Rightarrow> finding list \<Rightarrow> outcome" where
  "report_with A findings =
     (let allowed = fold add_group (filter (\<lambda>i. A (f_ID i) \<noteq> None) findings) [];
          unallowed = fold add_group (filter (\<lambda>i. A (f_ID i) = None) findings) [];
          allowed_lines = concat (map (\<lambda>vid.
            (''allowed vulnerability: '' @ vid @ '' ('' @ ae_Package (the (A vid)) @ '') - ''
               @ ae_Reason (the (A vid)) @ [newline]) # report_items allowed vid) (sortedIDs allowed));
          unallowed_lines = concat (map (\<lambda>vid.
            (''unallowed vulnerability: '' @ vid @ [newline]) # report_items unallowed vid) (sortedIDs unallowed))
      in if unallowed \<noteq> []
         then \<lparr>o_stdout = [], o_stderr = allowed_lines @ unallowed_lines, o_exit = 1\<rparr>
         else \<lparr>o_stdout =
                 [if allowed = [] then ''vulnerability audit: no vulnerabilities found''
                  else ''vulnerability audit: no unallowed vulnerabilities found''],
               o_stderr = allowed_lines, o_exit = 0\<rparr>)"

definition report :: "finding list \<Rightarrow> outcome" where
  "report = report_with allowlist"

section \<open>The driver\<close>

text \<open>\<open>run_error\<close>: the error of \<open>cmd.Run\<close>; an \<open>ExitError\<close> carries the exit code.\<close>

datatype run_error = ExitError int | OtherError error

record process =
  p_Stdout :: string
  p_Stderr :: string
  p_Err :: "run_error option"
  p_Deadline :: bool

record commandResult =
  cr_Stdout :: string
  cr_Stderr :: string
  cr_Code :: int
  cr_Err :: "run_error option"
  cr_TimedOut :: bool

definition runGo :: "process \<Rightarrow> commandResult" where
  "runGo p =
     \<lparr>cr_Stdout = p_Stdout p, cr_Stderr = p_Stderr p,
      cr_Code = (case p_Err p of None \<Rightarrow> 0 | Some (ExitError c) \<Rightarrow> c | Some (OtherError _) \<Rightarrow> 1),
      cr_Err = p_Err p, cr_TimedOut = p_Deadline p\<rparr>"

definition printStderr :: "string \<Rightarrow> string \<Rightarrow> string list" where
  "printStderr scanner stderr =
     (if TrimSpace stderr = [] then []
      else (''vulnerability audit: '' @ scanner @ '' stderr:'' @ [newline] @ stderr)
        # (if CutSuffix stderr [newline] = None then [[newline]] else []))"

datatype failure = ParseFailed string error | TimedOut string | ScannerFailed string int run_error

text \<open>One scanner's part of \<open>main\<close>: what went wrong, given what its parser returned.\<close>

definition scanner_failures :: "string \<Rightarrow> commandResult \<Rightarrow> error + finding list \<Rightarrow> failure list" where
  "scanner_failures name r parsed =
     (case parsed of Inl e \<Rightarrow> [ParseFailed name e] | Inr _ \<Rightarrow> [])
       @ (if cr_TimedOut r then [TimedOut name] else [])
       @ (case cr_Err r of
            Some e \<Rightarrow> if (case parsed of Inl _ \<Rightarrow> [] | Inr fs \<Rightarrow> fs) = []
                      then [ScannerFailed name (cr_Code r) e] else []
          | None \<Rightarrow> [])"

datatype audit_outcome = AuditFailed "failure list" | Reported outcome

definition audit_exit :: "audit_outcome \<Rightarrow> int" where
  "audit_exit a = (case a of AuditFailed _ \<Rightarrow> 2 | Reported r \<Rightarrow> o_exit r)"

definition audit_main :: "decoders \<Rightarrow> process \<Rightarrow> process \<Rightarrow> audit_outcome" where
  "audit_main D gv_run osv_run =
     (let govuln = runGo gv_run; gv = parseGovulncheck D (cr_Stdout govuln);
          osv = runGo osv_run; os = parseOSVScanner D (cr_Stdout osv);
          failures = scanner_failures ''govulncheck'' govuln gv @ scanner_failures ''osv-scanner'' osv os
      in if failures \<noteq> [] then AuditFailed failures
         else Reported (report
           ((case gv of Inl _ \<Rightarrow> [] | Inr fs \<Rightarrow> fs) @ (case os of Inl _ \<Rightarrow> [] | Inr fs \<Rightarrow> fs))))"

section \<open>What is collected\<close>

text \<open>Every entry of \<open>seen\<close> is keyed by its own fields, and no key occurs twice.\<close>

definition keyed :: "(finding \<Rightarrow> string) \<Rightarrow> seen \<Rightarrow> bool" where
  "keyed key seen \<longleftrightarrow> distinct (map fst seen) \<and> (\<forall>(k, i)\<in>set seen. k = key i)"

lemma keyed_Nil [simp]: "keyed key []"
  by (simp add: keyed_def)

lemma set_update_subset: "set (AList.update k v al) \<subseteq> insert (k, v) (set al)"
  by (induction al) auto

lemma keyed_update: "keyed key seen \<Longrightarrow> keyed key (AList.update (key i) i seen)"
  using set_update_subset [of "key i" i seen] by (auto simp: keyed_def distinct_update)

lemma keyed_fold: "(\<And>x s. keyed key s \<Longrightarrow> keyed key (f x s)) \<Longrightarrow> keyed key s \<Longrightarrow> keyed key (fold f xs s)"
  by (induction xs arbitrary: s) simp_all

lemma keyed_gv: "keyed gv_key (fold gv_step ms [])"
  by (rule keyed_fold) (auto simp: gv_step_def keyed_update split: option.split)

lemma keyed_osv: "keyed osv_key (fold osv_result_step rs [])"
  by (intro keyed_fold | simp add: osv_result_step_def osv_package_step_def addOSVFinding_def keyed_update)+

lemma keyed_sortedFindings:
  assumes "keyed key seen"
  shows "map key (sortedFindings seen) = sort (map fst seen)" "set (sortedFindings seen) = snd ` set seen"
proof -
  have the: "the (map_of seen k) = i \<and> key i = k" if "(k, i) \<in> set seen" for k i
    using assms that by (auto simp: keyed_def)
  then show "map key (sortedFindings seen) = sort (map fst seen)"
    by (auto simp: sortedFindings_def intro!: map_idI)
  show "set (sortedFindings seen) = snd ` set seen"
    using the by (force simp: sortedFindings_def)
qed

lemma sortedFindings_empty [simp]: "sortedFindings seen = [] \<longleftrightarrow> seen = []"
  by (simp add: sortedFindings_def flip: length_0_conv)

lemma update_not_Nil [simp]: "AList.update k v al \<noteq> []"
  by (cases al) auto

lemma fold_empty:
  assumes "\<And>x s. f x s = [] \<longleftrightarrow> P x \<and> s = []"
  shows "fold f xs s = [] \<longleftrightarrow> (\<forall>x\<in>set xs. P x) \<and> s = []"
  by (induction xs arbitrary: s) (auto simp: assms)

lemma gv_collected_empty:
  "fold gv_step ms [] = [] \<longleftrightarrow> (\<forall>f. Some f \<in> set ms \<longrightarrow> gv_OSV f = [])"
proof -
  have "gv_step m s = [] \<longleftrightarrow> (\<forall>f. m = Some f \<longrightarrow> gv_OSV f = []) \<and> s = []" for m s
    by (auto simp: gv_step_def split: option.split)
  from fold_empty [of gv_step, OF this] show ?thesis by auto
qed

definition osv_ids :: "osv_result list \<Rightarrow> string set" where
  "osv_ids rs = (\<Union>r\<in>set rs. \<Union>p\<in>set (or_Packages r). \<Union> (set ` set (op_Groups p)) \<union> set (op_Vulnerabilities p))"

lemma osv_collected_empty: "fold osv_result_step rs [] = [] \<longleftrightarrow> osv_ids rs \<subseteq> {[]}"
proof -
  have add: "addOSVFinding path pkg vid s = [] \<longleftrightarrow> vid = [] \<and> s = []" for path pkg vid s
    by (simp add: addOSVFinding_def)
  have ids: "fold (addOSVFinding path pkg) ids s = [] \<longleftrightarrow> (\<forall>vid\<in>set ids. vid = []) \<and> s = []" for path pkg ids s
    by (rule fold_empty) (rule add)
  have gs: "fold (\<lambda>ids. fold (addOSVFinding path pkg) ids) g s = [] \<longleftrightarrow> (\<forall>is\<in>set g. \<forall>vid\<in>set is. vid = []) \<and> s = []"
    for path pkg g s by (rule fold_empty) (rule ids)
  have pk: "osv_package_step path pkg s = [] \<longleftrightarrow>
      ((\<forall>is\<in>set (op_Groups pkg). \<forall>vid\<in>set is. vid = []) \<and> (\<forall>vid\<in>set (op_Vulnerabilities pkg). vid = [])) \<and> s = []"
    for path pkg s by (auto simp: osv_package_step_def ids gs)
  have rs: "osv_result_step r s = [] \<longleftrightarrow> (\<forall>p\<in>set (or_Packages r).
      (\<forall>is\<in>set (op_Groups p). \<forall>vid\<in>set is. vid = []) \<and> (\<forall>vid\<in>set (op_Vulnerabilities p). vid = [])) \<and> s = []"
    for r s unfolding osv_result_step_def by (rule fold_empty) (rule pk)
  show ?thesis unfolding fold_empty [of osv_result_step, OF rs] by (auto simp: osv_ids_def)
qed

section \<open>When the gate passes\<close>

lemma fold_group_empty: "fold add_group fs [] = [] \<longleftrightarrow> fs = []"
  by (induction fs rule: rev_induct) (simp_all add: add_group_def)

lemma report_with_exit: "o_exit (report_with A fs) = (if \<forall>i\<in>set fs. A (f_ID i) \<noteq> None then 0 else 1)"
  by (auto simp: report_with_def Let_def fold_group_empty filter_empty_conv)

text \<open>A scanner is clean when it ended well and in time and its output was read and names nothing.\<close>

definition gv_clean :: "decoders \<Rightarrow> process \<Rightarrow> bool" where
  "gv_clean D p \<longleftrightarrow> p_Err p = None \<and> \<not> p_Deadline p
     \<and> (case decode_stream D (p_Stdout p) of (ms, e) \<Rightarrow> e = None \<and> (\<forall>f. Some f \<in> set ms \<longrightarrow> gv_OSV f = []))"

definition osv_clean :: "decoders \<Rightarrow> process \<Rightarrow> bool" where
  "osv_clean D p \<longleftrightarrow> p_Err p = None \<and> \<not> p_Deadline p
     \<and> (TrimSpace (p_Stdout p) = [] \<or>
        (\<exists>rs. unmarshal_report D (p_Stdout p) = Inr rs \<and> osv_ids rs \<subseteq> {[]}))"

lemma gv_clean_iff:
  "gv_clean D p \<longleftrightarrow> scanner_failures ''govulncheck'' (runGo p) (parseGovulncheck D (p_Stdout p)) = []
     \<and> parseGovulncheck D (p_Stdout p) = Inr []"
  by (auto simp: gv_clean_def scanner_failures_def parseGovulncheck_def runGo_def gv_collected_empty
      split: prod.splits option.splits)

lemma osv_clean_iff:
  "osv_clean D p \<longleftrightarrow> scanner_failures ''osv-scanner'' (runGo p) (parseOSVScanner D (p_Stdout p)) = []
     \<and> parseOSVScanner D (p_Stdout p) = Inr []"
  by (auto simp: osv_clean_def scanner_failures_def parseOSVScanner_def runGo_def osv_collected_empty
      split: sum.splits option.splits)

lemma audit_passes_iff: "audit_exit (audit_main D p q) = 0 \<longleftrightarrow> gv_clean D p \<and> osv_clean D q"
proof -
  let ?gv = "parseGovulncheck D (p_Stdout p)" and ?os = "parseOSVScanner D (p_Stdout q)"
  let ?fs = "scanner_failures ''govulncheck'' (runGo p) ?gv @ scanner_failures ''osv-scanner'' (runGo q) ?os"
  have m: "audit_main D p q = (if ?fs \<noteq> [] then AuditFailed ?fs else Reported (report
      ((case ?gv of Inl _ \<Rightarrow> [] | Inr fs \<Rightarrow> fs) @ (case ?os of Inl _ \<Rightarrow> [] | Inr fs \<Rightarrow> fs))))"
    by (simp add: audit_main_def runGo_def)
  have e: "o_exit (report fs) = (if fs = [] then 0 else 1)" for fs
    by (auto simp: report_def report_with_exit allowlist_def)
  show ?thesis
  proof (cases "?fs = []")
    case False
    then show ?thesis using gv_clean_iff [of D p] osv_clean_iff [of D q] by (auto simp: m audit_exit_def)
  next
    case True
    then obtain fs os where "?gv = Inr fs" "?os = Inr os"
      by (auto simp: scanner_failures_def split: sum.splits)
    with True show ?thesis
      using gv_clean_iff [of D p] osv_clean_iff [of D q] by (auto simp: m audit_exit_def e)
  qed
qed

text \<open>An error of a scanner that still named something is dropped when all it named is allowed.\<close>

lemma scanner_error_masked:
  "fs \<noteq> [] \<Longrightarrow> \<not> cr_TimedOut r \<Longrightarrow> scanner_failures name r (Inr fs) = []"
  by (auto simp: scanner_failures_def split: option.splits)

end
