(* ===== verification/Probe_Helpers.thy ===== *)
theory Probe_Helpers
  imports Session_Protocol "HOL-Library.Word" "HOL-Library.AList"
begin

text \<open>
  \<open>test/integration/probe_helpers.go\<close>: the harness that probes a device with one command per
  session.  \<open>t.Fatalf\<close> ends the test: it is the result \<open>Err\<close>.  The counter of cleanups is a
  64-bit word that is threaded through.
\<close>

section \<open>Decimal texts\<close>

text \<open>\<open>n = -n\<close> wraps around on 64-bit integers.\<close>

definition negate64 :: "int \<Rightarrow> int" where
  "negate64 n = signed_take_bit 63 (- n)"

function digits_loop :: "int \<Rightarrow> string \<Rightarrow> string" where
  "digits_loop n ds =
     (if n > 0 then digits_loop (n div 10) (digit_char (nat (n mod 10)) # ds) else ds)"
  by pat_completeness auto
termination
  by (relation "measure (\<lambda>(n, ds). nat n)") auto

declare digits_loop.simps [simp del]

definition intToA :: "int \<Rightarrow> string" where
  "intToA n =
     (if n = 0 then ''0''
      else (if n < 0 then ''-'' else []) @ digits_loop (if n < 0 then negate64 n else n) [])"

lemma digits_loop_int_digits: "0 < n \<Longrightarrow> digits_loop n ds = int_digits n @ ds"
proof (induction n ds rule: digits_loop.induct)
  case (1 n ds)
  show ?case
  proof (cases "n < 10")
    case True
    with 1 show ?thesis
      by (simp add: digits_loop.simps [of n] digits_loop.simps [of 0] int_digits.simps [of n])
  next
    case False
    with 1 show ?thesis by (simp add: digits_loop.simps [of n] int_digits.simps [of n])
  qed
qed

lemma negate64_plain: "int64 n \<Longrightarrow> - 9223372036854775808 < n \<Longrightarrow> negate64 n = - n"
  unfolding negate64_def int64_def by (rule signed_take_bit_int_eq_self) simp_all

text \<open>The loop agrees with \<open>strconv.Itoa\<close> but on the least integer, whose negation is itself.\<close>

lemma intToA_Itoa:
  assumes "int64 n"
  shows "intToA n = (if n = - 9223372036854775808 then ''-'' else Itoa n)"
proof -
  have z: "int_digits 0 = ''0''" by (simp add: int_digits.simps digit_char_def digits_def)
  consider "n = 0" | "0 < n" | "n = - 9223372036854775808" | "n < 0" "- 9223372036854775808 < n"
    using assms by (force simp: int64_def)
  then show ?thesis
  proof cases
    case 3
    then show ?thesis by (simp add: intToA_def negate64_def digits_loop.simps signed_take_bit_eq_if_negative)
  next
    case 4
    with assms show ?thesis by (simp add: intToA_def Itoa_code negate64_plain digits_loop_int_digits)
  qed (simp_all add: intToA_def Itoa_code digits_loop_int_digits z)
qed

section \<open>One session\<close>

datatype probe_verdict = Committed | OpenErr error | StageErr error | CommitErr error

text \<open>
  Open, stage and commit; the error of an abort is dropped, and no error is wrapped.
\<close>

definition probe_session ::
  "('n, 'w) env \<Rightarrow> 'n client \<Rightarrow> string \<Rightarrow> string list \<Rightarrow> 'w \<Rightarrow> probe_verdict res \<times> 'n client \<times> 'w" where
  "probe_session E c name body w =
     (case OpenSession E c name w of
        (Ok s, c1, w1) \<Rightarrow>
          (case Stage E s body w1 of
             (Ok _, w2) \<Rightarrow>
               (case Commit E s w2 of
                  (r, s', w3) \<Rightarrow>
                    ((case r of Ok _ \<Rightarrow> Ok Committed | Err e \<Rightarrow> Ok (CommitErr e)
                      | Panic \<Rightarrow> Panic | Blocked \<Rightarrow> Blocked), s_parent s', w3))
           | (Err e, w2) \<Rightarrow>
               (case Abort E s w2 of
                  (r, s', w3) \<Rightarrow>
                    ((case r of Ok _ \<Rightarrow> Ok (StageErr e) | Err _ \<Rightarrow> Ok (StageErr e)
                      | Panic \<Rightarrow> Panic | Blocked \<Rightarrow> Blocked), s_parent s', w3))
           | (Panic, w2) \<Rightarrow> (Panic, c1, w2)
           | (Blocked, w2) \<Rightarrow> (Blocked, c1, w2))
      | (Err e, c1, w1) \<Rightarrow> (Ok (OpenErr e), c1, w1)
      | (Panic, c1, w1) \<Rightarrow> (Panic, c1, w1)
      | (Blocked, c1, w1) \<Rightarrow> (Blocked, c1, w1))"

text \<open>
  The harness works on the client, the counter and the world; \<open>seq\<close> goes on after a value and
  ends the test otherwise.
\<close>

type_synonym ('n, 'w) probe_state = "'n client \<times> 64 word \<times> 'w"

definition seq :: "'a res \<times> 's \<Rightarrow> ('a \<Rightarrow> 's \<Rightarrow> 'b res \<times> 's) \<Rightarrow> 'b res \<times> 's" where
  "seq p f =
     (case p of
        (Ok v, s) \<Rightarrow> f v s
      | (Err e, s) \<Rightarrow> (Err e, s)
      | (Panic, s) \<Rightarrow> (Panic, s)
      | (Blocked, s) \<Rightarrow> (Blocked, s))"

definition run_probe ::
  "('n, 'w) env \<Rightarrow> string \<Rightarrow> string list \<Rightarrow> ('n, 'w) probe_state \<Rightarrow> probe_verdict res \<times> ('n, 'w) probe_state"
where
  "run_probe E name body st =
     (case st of (c, n, w) \<Rightarrow> (case probe_session E c name body w of (r, c', w') \<Rightarrow> (r, (c', n, w'))))"

text \<open>\<open>cleanupCounter.Add(1)\<close> wraps around, and \<open>int\<close> reads the word as signed.\<close>

definition runCleanup ::
  "('n, 'w) env \<Rightarrow> string list \<Rightarrow> ('n, 'w) probe_state \<Rightarrow> unit res \<times> ('n, 'w) probe_state" where
  "runCleanup E cleanup st =
     (case st of (c, n, w) \<Rightarrow>
        if cleanup = [] then (Ok (), st)
        else seq (run_probe E (''probe-cleanup-'' @ intToA (sint (n + 1))) cleanup (c, n + 1, w))
               (\<lambda>_ st'. (Ok (), st')))"

definition probeSessionName :: "string \<Rightarrow> int \<Rightarrow> string" where
  "probeSessionName prefix idx = prefix @ ''-'' @ intToA idx"

section \<open>One probe per command\<close>

text \<open>\<open>po_Err\<close> is \<open>None\<close> in a good outcome.\<close>

record ProbeOutcome =
  po_Cmd :: string
  po_OK :: bool
  po_Err :: "error option"

definition probe_outcome :: "string \<Rightarrow> string \<Rightarrow> probe_verdict \<Rightarrow> ProbeOutcome res" where
  "probe_outcome sname cmd v =
     (case v of
        OpenErr e \<Rightarrow> Err (Got (Wrap ''ProbeOnePerCmd: OpenSession'' e) [DStr sname])
      | StageErr e \<Rightarrow> Ok \<lparr>po_Cmd = cmd, po_OK = False, po_Err = Some e\<rparr>
      | CommitErr e \<Rightarrow> Ok \<lparr>po_Cmd = cmd, po_OK = False, po_Err = Some e\<rparr>
      | Committed \<Rightarrow> Ok \<lparr>po_Cmd = cmd, po_OK = True, po_Err = None\<rparr>)"

fun probe_loop ::
  "('n, 'w) env \<Rightarrow> string \<Rightarrow> string list \<Rightarrow> string list \<Rightarrow> int \<Rightarrow> string list \<Rightarrow> ('n, 'w) probe_state
     \<Rightarrow> ProbeOutcome list res \<times> ('n, 'w) probe_state" where
  "probe_loop E prefix fixture cleanup i [] st = (Ok [], st)"
| "probe_loop E prefix fixture cleanup i (cmd # cmds) st =
     seq (runCleanup E cleanup st) (\<lambda>_ st1.
     seq (run_probe E (probeSessionName prefix i) (fixture @ [cmd]) st1) (\<lambda>v st2.
     seq (probe_outcome (probeSessionName prefix i) cmd v, st2) (\<lambda>out st3.
     seq (probe_loop E prefix fixture cleanup (i + 1) cmds st3) (\<lambda>outs st4. (Ok (out # outs), st4)))))"

definition ProbeOnePerCmd ::
  "('n, 'w) env \<Rightarrow> string \<Rightarrow> string list \<Rightarrow> string list \<Rightarrow> string list \<Rightarrow> ('n, 'w) probe_state
     \<Rightarrow> ProbeOutcome list res \<times> ('n, 'w) probe_state" where
  "ProbeOnePerCmd E prefix fixture cleanup cmds st =
     seq (probe_loop E prefix fixture cleanup 0 cmds st) (\<lambda>out st1.
     seq (runCleanup E cleanup st1) (\<lambda>_ st2. (Ok out, st2)))"

section \<open>The whole body\<close>

definition fatal_verdict :: "string \<Rightarrow> probe_verdict \<Rightarrow> unit res" where
  "fatal_verdict what v =
     (case v of
        Committed \<Rightarrow> Ok ()
      | OpenErr e \<Rightarrow> Err (Wrap (''ProbeFullBody: OpenSession'' @ what) e)
      | StageErr e \<Rightarrow> Err (Wrap (''ProbeFullBody: Stage'' @ what) e)
      | CommitErr e \<Rightarrow> Err (Wrap (''ProbeFullBody: Commit'' @ what) e))"

fun capture_views ::
  "('n, 'w) env \<Rightarrow> string list \<Rightarrow> (string \<times> string) list \<Rightarrow> ('n, 'w) probe_state
     \<Rightarrow> (string \<times> string) list res \<times> ('n, 'w) probe_state"
where
  "capture_views E [] captured st = (Ok captured, st)"
| "capture_views E (view # views) captured (c, n, w) =
     (case RunCmds E c [view] ''text'' w of
        (r, w') \<Rightarrow>
          seq (errorf (''ProbeFullBody: '' @ view) r, (c, n, w')) (\<lambda>resp st.
            capture_views E views (AList.update view (TrimSpace (text_output resp)) captured) st))"

definition ProbeFullBody ::
  "('n, 'w) env \<Rightarrow> string \<Rightarrow> string list \<Rightarrow> string list \<Rightarrow> string list \<Rightarrow> ('n, 'w) probe_state
     \<Rightarrow> (string \<times> string) list res \<times> ('n, 'w) probe_state" where
  "ProbeFullBody E name body cleanup views st =
     seq (runCleanup E cleanup st) (\<lambda>_ st1.
     seq (run_probe E name body st1) (\<lambda>v st2.
     seq (fatal_verdict (''('' @ name @ '')'') v, st2) (\<lambda>_ st3.
     seq (capture_views E views [] st3) (\<lambda>captured st4.
     seq (run_probe E (name @ ''-idem'') body st4) (\<lambda>v' st5.
     seq (fatal_verdict '' idem'' v', st5) (\<lambda>_ st6.
     seq (runCleanup E cleanup st6) (\<lambda>_ st7. (Ok captured, st7))))))))"

section \<open>The harness returns and leaves the client usable\<close>

lemma probe_session_returns:
  assumes "slot_free c" and "probe_session E c name body w = (r, c', w')"
  shows "returns r \<and> slot_free c'"
proof -
  obtain ro c1 w1 where o: "OpenSession E c name w = (ro, c1, w1)" by (cases "OpenSession E c name w")
  have "returns ro" using OpenSession_returns [OF assms(1), of E name w] o by simp
  then consider s where "ro = Ok s" | e where "ro = Err e" by (cases ro) auto
  then show ?thesis
  proof cases
    case 1
    with o have live: "s_open s" by (auto dest: OpenSession_live)
    obtain rs w2 where st: "Stage E s body w1 = (rs, w2)" by (cases "Stage E s body w1")
    have "returns rs" using Stage_returns [of E s body w1] st by simp
    then consider "rs = Ok ()" | e where "rs = Err e" by (cases rs) auto
    then show ?thesis
    proof cases
      case a: 1
      obtain rc s' w3 where k: "Commit E s w2 = (rc, s', w3)" by (cases "Commit E s w2")
      with Commit_closes [OF live k] a o st 1 assms(2) show ?thesis
        by (cases rc) (auto simp: probe_session_def)
    next
      case 2
      obtain ra s' w3 where k: "Abort E s w2 = (ra, s', w3)" by (cases "Abort E s w2")
      with Abort_closes [OF live k] 2 o st 1 assms(2) show ?thesis
        by (cases ra) (auto simp: probe_session_def)
    qed
  next
    case 2
    with o assms OpenSession_Err [OF assms(1)] show ?thesis by (auto simp: probe_session_def)
  qed
qed

text \<open>A run is safe when it ends, with a value or with a fatal error, and its client is usable.\<close>

definition safe_run :: "'a res \<times> ('n, 'w) probe_state \<Rightarrow> bool" where
  "safe_run p \<longleftrightarrow> returns (fst p) \<and> slot_free (fst (snd p))"

lemma safe_run_value [simp]: "safe_run (r, st) \<longleftrightarrow> returns r \<and> slot_free (fst st)"
  by (simp add: safe_run_def)

lemma safe_run_seq:
  assumes "safe_run p" and "\<And>v st. fst p = Ok v \<Longrightarrow> slot_free (fst st) \<Longrightarrow> safe_run (f v st)"
  shows "safe_run (seq p f)"
proof -
  obtain r st where p: "p = (r, st)" by (cases p)
  with assms(1) have "returns r" "slot_free (fst st)" by (auto simp: safe_run_def)
  with assms p show ?thesis by (cases r) (auto simp: seq_def)
qed

lemma safe_run_probe: "slot_free (fst st) \<Longrightarrow> safe_run (run_probe E name body st)"
  by (auto simp: run_probe_def dest: probe_session_returns split: prod.splits)

lemma safe_runCleanup: "slot_free (fst st) \<Longrightarrow> safe_run (runCleanup E cleanup st)"
  by (auto simp: runCleanup_def intro!: safe_run_seq safe_run_probe split: prod.splits)

lemma returns_verdicts [simp]: "returns (probe_outcome sname cmd v)" "returns (fatal_verdict what v)"
  by (cases v; simp add: probe_outcome_def fatal_verdict_def)+

lemma safe_probe_loop: "slot_free (fst st) \<Longrightarrow> safe_run (probe_loop E prefix fixture cleanup i cmds st)"
  by (induction cmds arbitrary: i st) (auto intro!: safe_run_seq safe_runCleanup safe_run_probe)

lemma safe_ProbeOnePerCmd:
  "slot_free (fst st) \<Longrightarrow> safe_run (ProbeOnePerCmd E prefix fixture cleanup cmds st)"
  by (auto simp: ProbeOnePerCmd_def intro!: safe_run_seq safe_probe_loop safe_runCleanup)

lemma safe_capture_views: "slot_free (fst st) \<Longrightarrow> safe_run (capture_views E views captured st)"
proof (induction views arbitrary: captured st)
  case (Cons view views)
  obtain c n w where "st = (c, n, w)" by (cases st)
  with Cons show ?case
    by (auto intro!: safe_run_seq dest: RunCmds_returns split: prod.splits)
qed simp

lemma safe_ProbeFullBody:
  "slot_free (fst st) \<Longrightarrow> safe_run (ProbeFullBody E name body cleanup views st)"
  by (auto simp: ProbeFullBody_def intro!: safe_run_seq safe_runCleanup safe_run_probe safe_capture_views)

text \<open>One outcome per command, in order, good exactly without an error.\<close>

lemma seq_Ok: "seq p f = (Ok v, st) \<longleftrightarrow> (\<exists>u st'. p = (Ok u, st') \<and> f u st' = (Ok v, st))"
  by (auto simp: seq_def split: prod.splits res.splits)

lemma probe_outcome_Ok:
  "probe_outcome sname cmd v = Ok out \<Longrightarrow>
     po_Cmd out = cmd \<and> (po_OK out \<longleftrightarrow> v = Committed) \<and> (po_OK out \<longleftrightarrow> po_Err out = None)"
  by (cases v) (auto simp: probe_outcome_def)

lemma probe_loop_Ok:
  "probe_loop E prefix fixture cleanup i cmds st = (Ok outs, st') \<Longrightarrow>
     map po_Cmd outs = cmds \<and> (\<forall>out\<in>set outs. po_OK out \<longleftrightarrow> po_Err out = None)"
  by (induction cmds arbitrary: i st outs st') (fastforce simp: seq_Ok dest: probe_outcome_Ok)+

lemma ProbeOnePerCmd_Ok:
  "ProbeOnePerCmd E prefix fixture cleanup cmds st = (Ok outs, st') \<Longrightarrow>
     map po_Cmd outs = cmds \<and> (\<forall>out\<in>set outs. po_OK out \<longleftrightarrow> po_Err out = None)"
  by (auto simp: ProbeOnePerCmd_def seq_Ok dest: probe_loop_Ok)

end
