(* ===== verification/Slot_Liveness.thy ===== *)
theory Slot_Liveness
  imports Session_Slot
begin

text \<open>
  Progress of the goroutines of \<open>Session_Slot\<close>: however their steps interleave and whatever
  the device answers, they come to an end, in bounded many steps, with a free slot, and
  every one that can be cancelled by nothing has had its session by then.
\<close>

text \<open>The operations that a goroutine has left, at most.\<close>

fun steps_left :: "'n goroutine \<Rightarrow> nat" where
  "steps_left (Ready name cmds) = 4"
| "steps_left (Opening name cmds) = 3"
| "steps_left (Staging h cmds) = 2"
| "steps_left (AtCommit h) = 1"
| "steps_left (AtAbort h e) = 1"
| "steps_left _ = 0"

fun over :: "'n goroutine \<Rightarrow> bool" where
  "over (Done r) = True"
| "over (Refused e) = True"
| "over Absent = True"
| "over _ = False"

definition slot_work :: "nat \<Rightarrow> 'n slot_sys \<Rightarrow> nat" where
  "slot_work n s = (\<Sum>i<n. steps_left (ss_pc s i))"

text \<open>From the \<open>n\<close>-th on there are no goroutines, and below it there are.\<close>

definition numbered :: "nat \<Rightarrow> 'n slot_sys \<Rightarrow> bool" where
  "numbered n s \<longleftrightarrow> (\<forall>i. (ss_pc s i = Absent) = (n \<le> i))"

lemma sum_fun_upd_less:
  fixes g :: "'a \<Rightarrow> nat" and n :: nat
  assumes "i < n" and "g x < g (f i)"
  shows "(\<Sum>j<n. g ((f(i := x)) j)) < (\<Sum>j<n. g (f j))"
  using assms by (intro sum_strict_mono_ex1) (auto intro: bexI [of _ i])

text \<open>Every step is one operation of one goroutine, which has one less to do.\<close>

lemma slot_step_shape:
  assumes "slot_step E s t"
  obtains i g where "ss_pc t = (ss_pc s)(i := g)" "steps_left g < steps_left (ss_pc s i)"
    "ss_pc s i \<noteq> Absent" "g \<noteq> Absent"
  using assms
proof (cases rule: slot_step.cases)
  case (opened i name cmds w r c w')
  then show ?thesis by (intro that [of i "after_open r cmds"]) (cases r; simp add: after_open_def)+
next
  case (staged i h cmds w r w')
  then show ?thesis by (intro that [of i "after_stage r h"]) (cases r; simp add: after_stage_def)+
qed (auto intro: that)

lemma slot_step_work:
  assumes "slot_step E s t" and "numbered n s"
  shows "numbered n t \<and> slot_work n t < slot_work n s"
proof -
  obtain i g where t: "ss_pc t = (ss_pc s)(i := g)" and l: "steps_left g < steps_left (ss_pc s i)"
    and a: "ss_pc s i \<noteq> Absent" "g \<noteq> Absent"
    using slot_step_shape [OF assms(1)] .
  have "i < n" using assms(2) a(1) by (auto simp: numbered_def)
  moreover from this have "numbered n t" using assms(2) t a by (auto simp: numbered_def)
  ultimately show ?thesis
    using sum_fun_upd_less [where f = "ss_pc s" and g = steps_left, of i n g] l t
    by (simp add: slot_work_def)
qed

lemma slot_run_work:
  assumes "(slot_step E ^^ k) s t" and "numbered n s"
  shows "numbered n t \<and> k + slot_work n t \<le> slot_work n s"
  using assms(1)
proof (induction k arbitrary: t)
  case 0
  then show ?case using assms(2) by simp
next
  case (Suc k)
  then obtain u where "(slot_step E ^^ k) s u" "slot_step E u t" by auto
  with Suc.IH slot_step_work [of E u t n] show ?case by fastforce
qed

lemma slot_start_work:
  "numbered (length jobs) (slot_start c jobs)"
  "slot_work (length jobs) (slot_start c jobs) = 4 * length jobs"
  by (simp_all add: numbered_def slot_start_def slot_work_def)

lemma slot_run_reachable:
  "(slot_step E ^^ k) (slot_start c jobs) t \<Longrightarrow> slot_reachable E c jobs t"
  by (induction k arbitrary: t) (auto intro: slot_begin slot_next)

section \<open>No deadlock\<close>

text \<open>
  A goroutine in a session always has a step; one that waits has one when the slot is free.
\<close>

lemma session_steps: "in_session (ss_pc s i) \<Longrightarrow> \<exists>t. slot_step E s t"
proof (cases "ss_pc s i")
  case (Opening name cmds)
  show ?thesis
    using slot_step.opened [OF Opening, of E undefined] by (metis prod.exhaust)
next
  case (Staging h cmds)
  show ?thesis
    using slot_step.staged [OF Staging, of E undefined] by (metis prod.exhaust)
next
  case (AtCommit h)
  show ?thesis
    using slot_step.committed [OF AtCommit, of E undefined] by (metis prod.exhaust)
next
  case (AtAbort h e)
  show ?thesis
    using slot_step.aborted [OF AtAbort, of E undefined] by (metis prod.exhaust)
qed simp_all

lemma ready_steps:
  assumes "ss_pc s i = Ready name cmds" and "\<not> cl_slot (ss_client s)"
  shows "\<exists>t. slot_step E s t"
  using acquire_slot_free [OF assms(2), of E name undefined]
    slot_step.enter [OF assms(1), of E undefined] slot_step.refuse [OF assms(1), of E undefined]
  by metis

lemma stuck_over:
  assumes "slot_inv s" and stuck: "\<not> (\<exists>t. slot_step E s t)"
  shows "\<not> cl_slot (ss_client s) \<and> (\<forall>i. over (ss_pc s i))"
proof -
  have out: "\<not> in_session (ss_pc s i)" for i using stuck session_steps by blast
  with assms(1) have free: "\<not> cl_slot (ss_client s)" by (simp add: slot_inv_def)
  have "over (ss_pc s i)" for i
    using out [of i] stuck ready_steps [of s i _ _ E] free by (cases "ss_pc s i") auto
  with free show ?thesis by blast
qed

section \<open>Who is refused\<close>

text \<open>
  A goroutine keeps its session name until it enters, and is refused only for an empty
  name or a context that is done.
\<close>

definition keeps_jobs :: "('n, 'w) env \<Rightarrow> (string \<times> string list) list \<Rightarrow> 'n slot_sys \<Rightarrow> bool" where
  "keeps_jobs E jobs s \<longleftrightarrow>
     (\<forall>i name cmds. ss_pc s i = Ready name cmds \<longrightarrow> i < length jobs \<and> jobs ! i = (name, cmds)) \<and>
     (\<forall>i e. ss_pc s i = Refused e \<longrightarrow>
        i < length jobs \<and> (fst (jobs ! i) = [] \<or> (\<exists>w. ctx_err E w \<noteq> None)))"

lemma keeps_jobs_start: "keeps_jobs E jobs (slot_start c jobs)"
  by (auto simp: keeps_jobs_def slot_start_def)

lemma keeps_jobs_moved:
  assumes "keeps_jobs E jobs s" and "\<And>name cmds. g \<noteq> Ready name cmds"
    and "\<And>e. g = Refused e \<Longrightarrow> i < length jobs \<and> (fst (jobs ! i) = [] \<or> (\<exists>w. ctx_err E w \<noteq> None))"
  shows "keeps_jobs E jobs (moved s i c g)"
  using assms by (auto simp: keeps_jobs_def)

lemma slot_step_keeps_jobs: "slot_step E s t \<Longrightarrow> keeps_jobs E jobs s \<Longrightarrow> keeps_jobs E jobs t"
proof (induction rule: slot_step.induct)
  case (refuse s i name cmds w e)
  from refuse.prems refuse.hyps(1) have "i < length jobs" "jobs ! i = (name, cmds)"
    by (auto simp: keeps_jobs_def)
  with acquire_slot_Err [OF refuse.hyps(2)] show ?case by (intro keeps_jobs_moved refuse.prems) auto
next
  case (opened s i name cmds w r c w')
  then show ?case by (intro keeps_jobs_moved) (cases r; simp add: after_open_def)+
next
  case (staged s i h cmds w r w')
  then show ?case by (intro keeps_jobs_moved) (cases r; simp add: after_stage_def)+
qed (auto intro: keeps_jobs_moved)

lemma slot_reachable_keeps_jobs: "slot_reachable E c jobs s \<Longrightarrow> keeps_jobs E jobs s"
  by (induction rule: slot_reachable.induct) (auto intro: keeps_jobs_start slot_step_keeps_jobs)

text \<open>At the end everyone has been in a session, unless something could refuse him.\<close>

lemma stuck_served:
  assumes "slot_reachable E c jobs s" and "\<not> (\<exists>t. slot_step E s t)"
    and "numbered (length jobs) s" and "i < length jobs"
    and "fst (jobs ! i) \<noteq> []" and "\<And>w. ctx_err E w = None"
  shows "\<exists>r. ss_pc s i = Done r"
proof -
  have "over (ss_pc s i)" using stuck_over [OF slot_reachable_inv [OF assms(1)] assms(2)] by blast
  moreover have "ss_pc s i \<noteq> Absent" using assms(3,4) by (auto simp: numbered_def)
  moreover have "ss_pc s i \<noteq> Refused e" for e
    using slot_reachable_keeps_jobs [OF assms(1)] assms(5,6) by (auto simp: keeps_jobs_def)
  ultimately show ?thesis by (cases "ss_pc s i") auto
qed

text \<open>Only a goroutine that is in a session can be \<open>Done\<close> next.\<close>

lemma done_from_session:
  assumes "slot_step E s t" and "ss_pc t i = Done r"
  shows "ss_pc s i = Done r \<or> in_session (ss_pc s i)"
  using assms by (cases rule: slot_step.cases) (auto split: if_splits)

end
