(* ===== verification/Entry_Point.thy ===== *)
theory Entry_Point
  imports Prelude
begin

text \<open>
  \<open>cmd/pulumi-resource-eos/main.go\<close>, \<open>internal/version/version.go\<close> and the registry of
  \<open>internal/provider/provider.go\<close>.  Building and running the provider are calls of the
  framework, parameters here.
\<close>

section \<open>Version\<close>

text \<open>The build-time variables, which the linker may set.\<close>

record build_vars =
  Version :: string
  GitCommit :: string
  BuildDate :: string

definition default_build :: build_vars where
  "default_build = \<lparr>Version = ''dev'', GitCommit = ''unknown'', BuildDate = ''unknown''\<rparr>"

definition Full :: "build_vars \<Rightarrow> string" where
  "Full b = ''version='' @ Version b @ '' commit='' @ GitCommit b @ '' built='' @ BuildDate b"

section \<open>The registry\<close>

text \<open>Package and type name of what \<open>New\<close> registers, in order.\<close>

definition registered_resources :: "(string \<times> string) list" where
  "registered_resources =
     map (Pair ''device'') [''Device'', ''Configlet'', ''RawCli'']
     @ map (Pair ''l2'') [''Vlan'', ''VlanInterface'', ''Interface'', ''PortChannel'', ''VxlanInterface'',
         ''EvpnEthernetSegment'', ''Mlag'', ''Stp'', ''Varp'', ''VlanRange'']
     @ map (Pair ''l3'') [''Loopback'', ''Vrf'', ''Bfd'', ''Subinterface'', ''StaticRoute'', ''RouterBgp'',
         ''PrefixList'', ''RouteMap'', ''CommunityList'', ''ExtCommunityList'', ''AsPathAccessList'', ''Rcf'',
         ''Rpki'', ''RouterOspf'', ''GreTunnel'', ''Vrrp'', ''ResilientEcmp'', ''PolicyBasedRouting'']"

definition registered_functions :: "(string \<times> string) list" where
  "registered_functions = [(''l2'', ''MacAddressTable'')]"

definition Namespace :: string where "Namespace = ''eos''"

text \<open>\<open>eos:<area>:<Resource>\<close>, the tokens that the comment on \<open>Namespace\<close> promises.\<close>

definition token :: "string \<times> string \<Rightarrow> string" where
  "token r = Namespace @ '':'' @ fst r @ '':'' @ snd r"

text \<open>
  What \<open>New\<close> hands to the framework's builder, the configuration and the resources by the names
  of their types; \<open>Build\<close> is the parameter.
\<close>

record provider_spec =
  ps_Namespace :: string
  ps_DisplayName :: string
  ps_License :: string
  ps_Repository :: string
  ps_Homepage :: string
  ps_Description :: string
  ps_Keywords :: "string list"
  ps_LanguageMap :: "(string \<times> (string \<times> string) list) list"
  ps_Config :: string
  ps_Resources :: "(string \<times> string) list"
  ps_Functions :: "(string \<times> string) list"

definition provider_New :: "(provider_spec \<Rightarrow> error + 'p) \<Rightarrow> error + 'p" where
  "provider_New Build =
     Build \<lparr>ps_Namespace = Namespace, ps_DisplayName = ''Arista EOS'', ps_License = ''Apache-2.0'',
       ps_Repository = ''https://github.com/dantte-lp/pulumi-eos'',
       ps_Homepage = ''https://github.com/dantte-lp/pulumi-eos'',
       ps_Description = ''Native Go Pulumi resource provider for Arista EOS and CloudVision (CVP / CVaaS).'',
       ps_Keywords = [''arista'', ''eos'', ''cloudvision'', ''cvp'', ''cvaas'', ''network'', ''gnmi'', ''eapi''],
       ps_LanguageMap =
         [(''go'', [(''importBasePath'', ''github.com/dantte-lp/pulumi-eos/sdk/go/eos'')]),
          (''nodejs'', [(''packageName'', ''@dantte-lp/pulumi-eos'')]),
          (''python'', [(''packageName'', ''pulumi_eos'')])],
       ps_Config = ''config.Config'', ps_Resources = registered_resources, ps_Functions = registered_functions\<rparr>"

section \<open>The entry point\<close>

text \<open>
  \<open>newP\<close> is what building the provider returns, \<open>runP\<close> the error of \<open>p.Run\<close>.  The result is
  the printed line, if any, and the error.
\<close>

definition providerName :: string where "providerName = ''eos''"

definition run_main ::
  "build_vars \<Rightarrow> error + 'p \<Rightarrow> ('p \<Rightarrow> string \<Rightarrow> string \<Rightarrow> error option) \<Rightarrow> string list \<Rightarrow> string option \<times> error option"
where
  "run_main b newP runP args =
     (if args = [''-version''] \<or> args = [''--version''] then (Some (Full b), None)
      else case newP of
        Inl e \<Rightarrow> (None, Some (Wrap ''build provider'' e))
      | Inr p \<Rightarrow> (None, runP p providerName (Version b)))"

definition exit_code :: "error option \<Rightarrow> int" where
  "exit_code e = (case e of None \<Rightarrow> 0 | Some _ \<Rightarrow> 1)"

lemma registered_distinct: "distinct (registered_resources @ registered_functions)"
  by (simp add: registered_resources_def registered_functions_def)

text \<open>The version flag answers without building a provider, also when that would fail.\<close>

lemma version_flag:
  "args \<in> {[''-version''], [''--version'']} \<Longrightarrow> run_main b newP runP args = (Some (Full b), None)"
  by (auto simp: run_main_def)

end
