(* ===== verification/Client_Properties.thy ===== *)
theory Client_Properties
  imports Gnmi_Client Cvp_Client Vuln_Audit Probe_Helpers Slot_Liveness Entry_Point Fixtures
begin

text \<open>
  Properties of the clients beside eAPI, of the session slot's progress, and of the tools of
  the repository.
\<close>

section \<open>Sessions\<close>

text \<open>
  C30. Progress of the goroutines that share a client.  Each is given a session name and
  commands, and runs \<open>OpenSession\<close>, \<open>Stage\<close> and \<open>Commit\<close> or \<open>Abort\<close>.  However the operations interleave, whatever
  the device answers and whenever a context ends: there are at most four steps per
  goroutine; and whenever no step is possible any more, the slot is free, all are back, and
  every one with a name for its session has had that session, if contexts are never done:
  \<open>Done\<close> is reached only from within a session.  So each of them is served in every run that
  goes on as long as it can.
\<close>

theorem slot_liveness:
  assumes "(slot_step E ^^ k) (slot_start c jobs) s"
  shows "k \<le> 4 * length jobs
    \<and> ((\<exists>t. slot_step E s t)
       \<or> \<not> cl_slot (ss_client s) \<and> (\<forall>i. over (ss_pc s i))
         \<and> (\<forall>i<length jobs. fst (jobs ! i) \<noteq> [] \<longrightarrow> (\<forall>w. ctx_err E w = None) \<longrightarrow> (\<exists>r. ss_pc s i = Done r)))
    \<and> (\<forall>t i r. slot_step E s t \<longrightarrow> ss_pc t i = Done r \<longrightarrow> ss_pc s i = Done r \<or> in_session (ss_pc s i))"
proof -
  note r = slot_run_reachable [OF assms]
  have "k \<le> 4 * length jobs" and n: "numbered (length jobs) s"
    using slot_run_work [OF assms slot_start_work(1)] by (simp_all add: slot_start_work(2))
  with stuck_over [OF slot_reachable_inv [OF r], of E] stuck_served [OF r _ n] done_from_session show ?thesis
    by blast
qed

text \<open>Two goroutines, of which the first has the slot.\<close>

lemma slot_liveness_witness:
  "\<exists>s. (slot_step (text_env []) ^^ 1) (slot_start demo_client [(''a'', [''vlan 7'']), (''b'', [])]) s
     \<and> (1::nat) \<le> 4 * 2 \<and> (\<exists>t. slot_step (text_env []) s t)"
proof -
  let ?jobs = "[(''a'', [''vlan 7'']), (''b'', [])]"
  let ?s = "slot_start demo_client ?jobs"
  have pc: "ss_pc ?s 0 = Ready ''a'' [''vlan 7'']" by (simp add: slot_start_def)
  have "acquire_slot (text_env []) (ss_client ?s) ''a'' () = Ok ((ss_client ?s)\<lparr>cl_slot := True\<rparr>)"
    by (simp add: acquire_slot_def slot_start_def text_env_def)
  from slot_step.enter [OF pc this] obtain s where
    s: "slot_step (text_env []) ?s s" "ss_pc s 0 = Opening ''a'' [''vlan 7'']" by simp
  then have run: "(slot_step (text_env []) ^^ 1) ?s s" by (simp only: relpowp_1)
  have "\<not> over (ss_pc s 0)" using s(2) by simp
  with slot_liveness [OF run] run show ?thesis by auto
qed

section \<open>The gNMI client\<close>

text \<open>
  C31. The gNMI path notation round-trips.  Every path of named elements, with keys whose
  values may hold slashes and equality signs, is parsed back from the text that writes it,
  with and without the leading slash.
\<close>

theorem gnmi_path_roundtrip:
  assumes "\<forall>e\<in>set es. elem_ok e"
  shows "ParsePath (print_path es) = Inr es
     \<and> (es \<noteq> [] \<longrightarrow> ParsePath (Join (map print_elem es) ''/'') = Inr es)"
  using ParsePath_printed [OF assms] ParsePath_relative [OF assms] by simp

theorem gnmi_path_roundtrip_witness:
  "ParsePath ''/interface[name=Ethernet1/1][a=b=c]/state''
     = Inr [\<lparr>pe_Name = ''interface'', pe_Key = Some [(''name'', ''Ethernet1/1''), (''a'', ''b=c'')]\<rparr>,
            \<lparr>pe_Name = ''state'', pe_Key = None\<rparr>]"
proof -
  let ?es = "[\<lparr>pe_Name = ''interface'', pe_Key = Some [(''name'', ''Ethernet1/1''), (''a'', ''b=c'')]\<rparr>,
            \<lparr>pe_Name = ''state'', pe_Key = None\<rparr>]"
  have ok: "\<forall>e\<in>set ?es. elem_ok e" by (simp add: elem_ok_def key_ok_def brackets_def)
  have "print_path ?es = ''/interface[name=Ethernet1/1][a=b=c]/state''"
    by (simp add: print_path_def print_elem_def print_key_def)
  with gnmi_path_roundtrip [OF ok] show ?thesis by simp
qed

text \<open>
  C32. What the parser returns for any text.  It fails for the empty text only; otherwise
  every element is a well-formed path element (no bracket in the name, no key twice, no
  equality sign in a key, no closing bracket in a key or value), one for each piece, and
  the pieces joined by slashes are the text, but for a slash at either end.
\<close>

theorem gnmi_path_typed:
  "case ParsePath s of
     Inl e \<Rightarrow> s = [] \<and> e = ErrEmptyPathString
   | Inr es \<Rightarrow> s \<noteq> [] \<and> list_all typed_elem es
       \<and> (\<exists>pieces sl. es = map splitElem pieces \<and> (sl = [] \<or> sl = ''/'')
            \<and> TrimPrefix s ''/'' = Join pieces ''/'' @ sl)"
proof (cases "TrimPrefix s ''/'' = []")
  case True
  then show ?thesis by (auto simp: ParsePath_def intro!: exI [of _ "[]"])
next
  case False
  let ?ps = "splitPath (TrimPrefix s ''/'')"
  have "\<exists>sl. (sl = [] \<or> sl = ''/'') \<and> TrimPrefix s ''/'' = Join ?ps ''/'' @ sl"
    using splitPath_Join [of "TrimPrefix s ''/''"] by auto
  moreover have "s \<noteq> []" using False by (auto simp: TrimPrefix_def)
  moreover have "list_all typed_elem (map splitElem ?ps)" by (simp add: list_all_iff splitElem_typed)
  ultimately show ?thesis using False by (auto simp: ParsePath_def)
qed

text \<open>
  C33. Malformed keys are dropped without an error.  A key without an equality sign leaves an
  element without keys, which selects every instance of the list instead of one; and after
  a bracket that is not closed the rest of the path is lost as well.
\<close>

theorem gnmi_malformed_keys_dropped:
  assumes "n \<noteq> []" and "set n \<inter> insert (CHR ''/'') brackets = {}"
    and "set k \<inter> insert (CHR ''='') brackets = {}" and "CHR '']'' \<notin> set t"
  shows "ParsePath (n @ ''['' @ k @ '']'') = Inr [\<lparr>pe_Name = n, pe_Key = Some []\<rparr>]
    \<and> ParsePath (n @ ''['' @ t) = Inr [\<lparr>pe_Name = n, pe_Key = Some []\<rparr>]"
proof -
  from assms(1,2) have h: "hd (n @ r) \<noteq> CHR ''/''" for r by (cases n) auto
  have b: "set n \<inter> brackets = {}" "CHR ''['' \<notin> set n" "set k \<inter> brackets = {}"
    using assms(2,3) by (auto simp: brackets_def)
  show ?thesis
    using ParsePath_single [OF _ h splitPath_bracket [OF assms(2) b(3)]]
      ParsePath_single [OF _ h splitPath_unclosed [OF assms(2,4)]]
      splitElem_no_equality [OF b(1) assms(3), of "[]"] splitElem_unclosed [OF b(2) assms(4)]
    by simp
qed

theorem gnmi_malformed_keys_dropped_witness:
  "ParsePath ''interface[Ethernet1]'' = Inr [\<lparr>pe_Name = ''interface'', pe_Key = Some []\<rparr>]
   \<and> ParsePath ''interface[name=Ethernet1/state'' = Inr [\<lparr>pe_Name = ''interface'', pe_Key = Some []\<rparr>]"
  using gnmi_malformed_keys_dropped [of "''interface''" "''Ethernet1''" "''name=Ethernet1/state''"]
  by (simp add: brackets_def)

text \<open>
  C34. The life of a gNMI client.  Whatever calls are made on a dialled client, in any order,
  the connection is closed at most once and nothing is sent after that; every request that
  was sent carries the credentials of the client's configuration; and a closed client
  answers every further request with the error that it is not initialised.
\<close>

theorem gnmi_client_life:
  assumes "gnmi_Dial L cfg = Inr c" and "gnmi_reach (gnmi_traced L) (c, (w, [])) (c', (w', l))"
  shows "(\<exists>rs. Closed \<notin> set rs \<and> l = rs @ (if gcl_conn c' = None then [Closed] else []))
    \<and> (\<forall>md ps. Sent md ps \<in> set l \<longrightarrow> (\<exists>md0. md = md0 @ auth_pairs cfg))
    \<and> (gcl_conn c' = None \<longrightarrow>
        gnmi_Get L (Some c') md0 paths v = (Inl gnmi_ErrClientNotInit, v)
        \<and> gnmi_Capabilities L (Some c') md0 v = (Inl gnmi_ErrClientNotInit, v)
        \<and> gnmi_Close L (Some c') v = (None, Some c', v))"
proof -
  have "gnmi_inv cfg c []" using gnmi_Dial_Inr [OF assms(1)] by (auto simp: gnmi_inv_def)
  then have inv: "gnmi_inv cfg c' l" using gnmi_reach_inv [OF assms(2), of cfg] by simp
  then have "carries cfg (Sent md ps)" if "Sent md ps \<in> set l" for md ps
    using that by (auto simp: gnmi_inv_def)
  with inv show ?thesis
    by (auto simp: gnmi_inv_def carries_def gnmi_Get_def gnmi_Capabilities_def gnmi_Close_def)
qed

text \<open>A server that answers every request with the number of requests before it.\<close>

definition demo_gnmi :: "(unit, nat, nat, nat) gnmi_lib" where
  "demo_gnmi =
     \<lparr>AppendCertsFromPEM = (\<lambda>_. False), grpc_NewClient = (\<lambda>_ _ _. Inr ()),
      conn_Close = (\<lambda>_ w. (None, w)), stub_Capabilities = (\<lambda>_ _ w. (Inr w, Suc w)),
      stub_Get = (\<lambda>_ _ _ w. (Inr w, Suc w))\<rparr>"

definition demo_gnmi_config :: gnmi_config where
  "demo_gnmi_config =
     \<lparr>gc_Host = ''leaf-01'', gc_Port = 0, gc_Username = ''admin'', gc_Password = [], gc_CACert = [],
      gc_InsecureSkipVerify = True, gc_PlaintextNoTLS = False\<rparr>"

lemma demo_gnmi_dial:
  "gnmi_Dial demo_gnmi demo_gnmi_config
     = Inr \<lparr>gcl_cfg = demo_gnmi_config, gcl_conn = Some (), gcl_stub = Some ()\<rparr>"
  by (simp add: gnmi_Dial_def gnmi_validate_def demo_gnmi_config_def demo_gnmi_def transportCreds_def
      pin_bundle_def)

theorem gnmi_client_life_witness:
  "\<exists>c' w' l. gnmi_reach (gnmi_traced demo_gnmi)
       (\<lparr>gcl_cfg = demo_gnmi_config, gcl_conn = Some (), gcl_stub = Some ()\<rparr>, (0, [])) (c', (w', l))
     \<and> (\<exists>rs. Closed \<notin> set rs \<and> l = rs @ [Closed])
     \<and> gnmi_Get demo_gnmi (Some c') [] [''/''] 5 = (Inl gnmi_ErrClientNotInit, 5)"
proof -
  let ?c = "\<lparr>gcl_cfg = demo_gnmi_config, gcl_conn = Some (), gcl_stub = Some ()\<rparr>"
  let ?d = "?c\<lparr>gcl_conn := None, gcl_stub := None\<rparr>"
  have "gnmi_Close (gnmi_traced demo_gnmi) (Some ?c) (0, []) = (None, Some ?d, (0, [Closed]))"
    by (simp add: gnmi_Close_def gnmi_traced_def demo_gnmi_def)
  then have "gnmi_reach (gnmi_traced demo_gnmi) (?c, (0, [])) (?d, (0, [Closed]))"
    by (intro gnmi_reach.step [OF gnmi_reach.start] gnmi_step.close)
  with gnmi_client_life [OF demo_gnmi_dial this, of "[]" "[''/'']" 5] show ?thesis by force
qed



section \<open>The CloudVision client\<close>

text \<open>
  C36. A CloudVision connection is never made insecurely.  When \<open>New\<close> succeeds the context was
  still live, and the connection was opened to a target with a port, over TLS 1.3 with the
  server's certificate verified (against the pinned bundle, when there is one), with the
  token as a bearer credential that refuses a transport without TLS.
\<close>

theorem cvp_connection_secure:
  assumes "cvp_New L G ctxErr cfg w = (Inr c, w')"
  shows "w' = w \<and> ctxErr w = None \<and> cv_Token cfg \<noteq> []
    \<and> (\<exists>h p tls conn. cvc_conn c = Some conn
        \<and> grpc_NewClient L (h @ '':'' @ p) (NewTLS tls)
            (Some \<lparr>GetRequestMetadata = [(''authorization'', ''Bearer '' @ cv_Token cfg)],
                   RequireTransportSecurity = True\<rparr>) = Inr conn
        \<and> CHR '':'' \<notin> set p \<and> CHR '']'' \<notin> set p
        \<and> tls_MinVersion tls = VersionTLS13 \<and> \<not> tls_InsecureSkipVerify tls
        \<and> tls_RootCAs tls = (if cv_CACertPEM cfg = [] then None else Some (cv_CACertPEM cfg)))"
proof -
  from cvp_New_Inr [OF assms] obtain t conn tls where
    c: "cvp_target G (cv_URL cfg) = Inr t" "buildTLS L cfg = Inr tls" "cvc_conn c = Some conn"
      "grpc_NewClient L t (NewTLS tls) (Some (bearerCreds (cv_Token cfg))) = Inr conn"
      "w' = w" "ctxErr w = None" by blast
  moreover from cvp_target_port [OF c(1)] obtain h p where
    "t = h @ '':'' @ p" "CHR '':'' \<notin> set p" "CHR '']'' \<notin> set p" by blast
  moreover have "cv_Token cfg \<noteq> []"
    using assms by (auto simp: cvp_New_def cvp_validate_def split: if_splits)
  ultimately show ?thesis using buildTLS_Inr [OF c(2)]
    unfolding bearerCreds_def by (intro conjI exI [of _ h] exI [of _ p] exI [of _ tls] exI [of _ conn]) simp_all
qed

theorem cvp_connection_secure_witness:
  "\<exists>h p tls. grpc_NewClient demo_gnmi (h @ '':'' @ p) (NewTLS tls)
      (Some \<lparr>GetRequestMetadata = [(''authorization'', ''Bearer t0'')], RequireTransportSecurity = True\<rparr>) = Inr ()
    \<and> tls_MinVersion tls = VersionTLS13 \<and> \<not> tls_InsecureSkipVerify tls"
proof -
  let ?cfg = "\<lparr>cv_URL = ''https://cvp'', cv_Token = ''t0'', cv_CACertPEM = []\<rparr>"
  have parse: "url_Parse demo_lib ''https://cvp''
      = Inr \<lparr>u_Scheme = ''https'', u_Host = ''cvp'', u_Hostname = ''cvp'', u_Port = [], u_Path = []\<rparr>"
    by (simp add: demo_lib_def demo_url_def)
  have "\<exists>c w'. cvp_New demo_gnmi demo_lib (\<lambda>_. None) ?cfg (0::nat) = (Inr c, w')"
    by (simp add: cvp_New_def cvp_validate_def parse parse_err_def buildTLS_def pin_bundle_def
        cvp_target_def demo_gnmi_def Let_def)
  then obtain c w' where "cvp_New demo_gnmi demo_lib (\<lambda>_. None) ?cfg (0::nat) = (Inr c, w')" by blast
  from cvp_connection_secure [OF this] show ?thesis by auto
qed

section \<open>Tools\<close>

text \<open>
  C37. The vulnerability gate.  The audit passes exactly when both scanners ended without an
  error and in time, their output could be read, and neither names a vulnerability; it
  never exits with a code but 0, 1 and 2, and with 1 exactly when both runs count as good,
  both outputs were read and one was named.
\<close>

theorem audit_gate:
  "(audit_exit (audit_main D p q) = 0 \<longleftrightarrow> gv_clean D p \<and> osv_clean D q)
   \<and> audit_exit (audit_main D p q) \<in> {0, 1, 2}
   \<and> (audit_exit (audit_main D p q) = 1 \<longleftrightarrow>
       (\<exists>fs gs. parseGovulncheck D (p_Stdout p) = Inr fs \<and> parseOSVScanner D (p_Stdout q) = Inr gs \<and> fs @ gs \<noteq> []
          \<and> scanner_failures ''govulncheck'' (runGo p) (Inr fs) = []
          \<and> scanner_failures ''osv-scanner'' (runGo q) (Inr gs) = []))"
proof -
  have e: "o_exit (report fs) = (if fs = [] then 0 else 1)" for fs
    by (auto simp: report_def report_with_exit allowlist_def)
  have f: "scanner_failures name r (Inl x) \<noteq> []" for name r x by (simp add: scanner_failures_def)
  have r: "cr_Stdout (runGo x) = p_Stdout x" for x by (simp add: runGo_def)
  have "audit_exit (audit_main D p q) \<in> {0, 1, 2}"
    by (auto simp: audit_main_def audit_exit_def Let_def e)
  moreover have "audit_exit (audit_main D p q) = 1 \<longleftrightarrow>
       (\<exists>fs gs. parseGovulncheck D (p_Stdout p) = Inr fs \<and> parseOSVScanner D (p_Stdout q) = Inr gs \<and> fs @ gs \<noteq> []
          \<and> scanner_failures ''govulncheck'' (runGo p) (Inr fs) = []
          \<and> scanner_failures ''osv-scanner'' (runGo q) (Inr gs) = [])"
    by (cases "parseGovulncheck D (p_Stdout p)"; cases "parseOSVScanner D (p_Stdout q)")
      (auto simp: audit_main_def audit_exit_def Let_def e f r)
  ultimately show ?thesis using audit_passes_iff by blast
qed

text \<open>
  C38. The probe harness.  On a client whose slot is free, both probes always end, with a
  value or by failing the test, and leave the slot free, whatever the device answers; a
  probe that ends with a value has one outcome for each command, in their order, which is
  good exactly when there is no error.
\<close>

theorem probes_end:
  assumes "slot_free (fst st)"
  shows "safe_run (ProbeFullBody E name body cleanup views st)
    \<and> (case ProbeOnePerCmd E prefix fixture cleanup cmds st of
         (r, st') \<Rightarrow> returns r \<and> slot_free (fst st')
           \<and> (case r of Ok outs \<Rightarrow> map po_Cmd outs = cmds \<and> list_all (\<lambda>out. po_OK out = (po_Err out = None)) outs
              | _ \<Rightarrow> True))"
proof -
  obtain r st' where run: "ProbeOnePerCmd E prefix fixture cleanup cmds st = (r, st')"
    by (cases "ProbeOnePerCmd E prefix fixture cleanup cmds st")
  have "returns r" "slot_free (fst st')"
    using safe_ProbeOnePerCmd [OF assms, of E prefix fixture cleanup cmds] run by simp_all
  moreover have "map po_Cmd outs = cmds \<and> list_all (\<lambda>out. po_OK out = (po_Err out = None)) outs" if "r = Ok outs" for outs
    using ProbeOnePerCmd_Ok [of E prefix fixture cleanup cmds st outs st'] run that by (simp add: list_all_iff)
  ultimately show ?thesis
    using safe_ProbeFullBody [OF assms] run by (auto split: res.split)
qed

theorem probes_end_witness:
  "safe_run (ProbeFullBody (text_env ''x'') ''s'' [''vlan 7''] [''no vlan 7''] [''show vlan''] (demo_client, 0, ()))"
  using probes_end [of "(demo_client, 0, ())"] by simp

end
