(* ===== verification/Reads.thy ===== *)
theory Reads
  imports L2_Properties Device_Properties L3_Handlers
begin

text \<open>
  The handlers that only look.  A refresh sends nothing but show commands, whatever the device
  answers, and returns: it neither panics nor waits for ever, but for one resource.
\<close>

section \<open>Looking at a device\<close>

text \<open>\<open>observes E w w'\<close>: from \<open>w\<close> a sequence of single show commands leads to \<open>w'\<close>.\<close>

inductive observes :: "('n, 'w) env \<Rightarrow> 'w \<Rightarrow> 'w \<Rightarrow> bool" for E where
  nothing: "observes E w w"
| show_command: "observes E w w1 \<Longrightarrow> HasPrefix cmd ''show '' \<Longrightarrow> node_run E n [cmd] fmt w1 = (r, w2) \<Longrightarrow> observes E w w2"

lemma observes_trans: "observes E v w \<Longrightarrow> observes E u v \<Longrightarrow> observes E u w"
  by (induction rule: observes.induct) (auto intro: observes.show_command)

text \<open>A device whose show commands change nothing it runs is left as it was.\<close>

lemma observes_unchanged:
  assumes "observes E w w'"
    and "\<And>n cmd fmt v r v'. HasPrefix cmd ''show '' \<Longrightarrow> node_run E n [cmd] fmt v = (r, v') \<Longrightarrow> running v' = running v"
  shows "running w' = running w"
  using assms(1) by (induction rule: observes.induct) (auto dest: assms(2))

definition harmless :: "('n, 'w) env \<Rightarrow> 'w \<Rightarrow> 'a res \<times> 'w \<Rightarrow> bool" where
  "harmless E w p \<longleftrightarrow> returns (fst p) \<and> observes E w (snd p)"

lemma harmless_value [simp]: "harmless E w (r, w) \<longleftrightarrow> returns r"
  by (simp add: harmless_def observes.nothing)

lemma harmless_map: "harmless E w (case p of (r, w') \<Rightarrow> (map_res f r, w')) = harmless E w p"
  by (cases p) (simp add: harmless_def)

lemma harmless_RunCmds:
  assumes "HasPrefix cmd ''show ''"
  shows "harmless E w (RunCmds E c [cmd] fmt w)"
proof -
  obtain r w' where run: "RunCmds E c [cmd] fmt w = (r, w')" by (cases "RunCmds E c [cmd] fmt w")
  then have "w' = w \<or> (\<exists>n f q. node_run E n [cmd] f w = (q, w'))"
    by (auto simp: RunCmds_def split: option.splits prod.splits sum.splits)
  with RunCmds_returns [OF run] assms show ?thesis
    by (auto simp: harmless_def run intro: observes.intros)
qed

lemma harmless_show_text: "HasPrefix cmd ''show '' \<Longrightarrow> harmless (cx_env C) w (show_text C cli cmd w)"
  unfolding show_text_def harmless_map by (rule harmless_RunCmds)

lemma harmless_bind:
  assumes "harmless E w p" and "\<And>v. returns (f v)"
  shows "harmless E w (case p of (r, w') \<Rightarrow> (bind_res r f, w'))"
proof -
  obtain r w' where "p = (r, w')" by (cases p)
  with assms show ?thesis by (cases r) (simp_all add: harmless_def)
qed

lemma harmless_read_text:
  "HasPrefix cmd ''show '' \<Longrightarrow> (\<And>out. returns (parse out)) \<Longrightarrow> harmless (cx_env C) w (read_text C cli cmd parse w)"
  unfolding read_text_def by (intro harmless_bind harmless_show_text) simp_all

lemma harmless_and_then:
  assumes "harmless E w p" and "\<And>v w'. harmless E w' (f v w')"
  shows "harmless E w (case p of (r, w') \<Rightarrow> and_then r f w')"
proof -
  obtain r w' where p: "p = (r, w')" by (cases p)
  show ?thesis
  proof (cases r)
    case (Ok v)
    with assms p show ?thesis by (auto simp: harmless_def intro: observes_trans)
  qed (use assms p in \<open>auto simp: harmless_def\<close>)
qed

lemma harmless_map_and_then:
  assumes "harmless E w p" and "\<And>v w'. harmless E w' (f v w')"
  shows "harmless E w (case p of (r, w') \<Rightarrow> and_then (map_res g r) f w')"
proof -
  obtain r w' where p: "p = (r, w')" by (cases p)
  have "harmless E w (case (map_res g r, w') of (r, w') \<Rightarrow> and_then r f w')"
    using assms p by (intro harmless_and_then) (auto simp: harmless_def)
  then show ?thesis by (simp add: p)
qed

text \<open>The read handler of a resource whose reader only looks.\<close>

lemma harmless_crud_read:
  assumes "\<And>cli. harmless (cx_env C) w (reader cli a w)"
  shows "harmless (cx_env C) w (crud_read (newClient C) reader ident fill a w)"
proof (cases "newClient C a")
  case (Ok cli)
  then show ?thesis using assms [of cli] by (simp add: crud_read_def harmless_map)
qed (use newClient_returns [of C a] in \<open>simp_all add: crud_read_def\<close>)

lemma harmless_crud_read_shared:
  assumes "\<And>cli. harmless (cx_env C) w (reader cli a w)"
  shows "harmless (cx_env C) w (crud_read_shared (newClient C) reader ident fill a w)"
proof (cases "newClient C a")
  case (Ok cli)
  then show ?thesis using assms [of cli] by (simp add: crud_read_shared_def harmless_map)
qed (use newClient_returns [of C a] in \<open>simp_all add: crud_read_shared_def\<close>)

lemmas harmless_readers = harmless_map harmless_show_text harmless_RunCmds harmless_read_text

section \<open>The resources\<close>

lemma harmless_probe: "harmless E w p \<Longrightarrow> harmless E w (probe p put row)"
  by (cases p; cases "fst p") (auto simp: probe_def harmless_def)

lemma harmless_readVrf:
  fixes C :: "('a, 'b) ctx"
  shows "harmless (cx_env C) w (readVrf C cli name w)"
proof -
  have q: "harmless (cx_env C) v (vrfRoutingEnabled C cli name six v)" for six v
    by (simp add: vrfRoutingEnabled_def harmless_readers)
  have "harmless (cx_env C) v (case probe (vrfRoutingEnabled C cli name True v) (\<lambda>b. row\<lparr>vrr_IPv6Routing := b\<rparr>) row of
      (r6, w3) \<Rightarrow> (map_res Some r6, w3))" for row v
    unfolding harmless_map by (rule harmless_probe) (rule q)
  then have "harmless (cx_env C) v (case probe (vrfRoutingEnabled C cli name False v) (\<lambda>b. row\<lparr>vrr_IPRouting := b\<rparr>) row of
      (r4, w2) \<Rightarrow> and_then r4 (\<lambda>row w2. case probe (vrfRoutingEnabled C cli name True w2) (\<lambda>b. row\<lparr>vrr_IPv6Routing := b\<rparr>) row of
        (r6, w3) \<Rightarrow> (map_res Some r6, w3)) w2)" for row v
    by (intro harmless_and_then harmless_probe q)
  note found = this
  show ?thesis
    unfolding readVrf_def
    by (rule harmless_map_and_then, rule harmless_show_text, simp, split option.split)
      (simp only: harmless_value returns_simps found simp_thms option.simps)
qed

lemma harmless_readVlanRange: "harmless (cx_env C) w (readVlanRange C cli a w)"
proof -
  have q: "harmless (cx_env C) v (readVlanForRange C cli i v)" for i v
    by (simp add: readVlanForRange_def harmless_readers)
  obtain r w1 where lo: "readVlanForRange C cli (vr_Start a) w = (r, w1)"
    by (cases "readVlanForRange C cli (vr_Start a) w")
  have l: "returns r" "observes (cx_env C) w w1" using q [of w "vr_Start a"] lo by (simp_all add: harmless_def)
  show ?thesis
  proof (cases r)
    case (Ok v)
    have "harmless (cx_env C) w1 (case readVlanForRange C cli (vr_End a) w1 of
        (r, w2) \<Rightarrow> (map_res (\<lambda>hi. if v = None \<or> hi = None then None else v) r, w2))"
      unfolding harmless_map by (rule q)
    with Ok lo l show ?thesis by (auto simp: readVlanRange_def harmless_def intro: observes_trans)
  qed (use lo l in \<open>simp_all add: readVlanRange_def harmless_def\<close>)
qed

lemma harmless_Vlan_Read: "harmless (cx_env C) w (Vlan_Read C a w)"
  unfolding Vlan_Read_def by (rule harmless_crud_read) (simp add: readVlan_def harmless_readers)

lemma harmless_VlanRange_Read: "harmless (cx_env C) w (VlanRange_Read C a w)"
  unfolding VlanRange_Read_def by (rule harmless_crud_read) (rule harmless_readVlanRange)

lemma harmless_Interface_Read: "harmless (cx_env C) w (Interface_Read C a w)"
  unfolding Interface_Read_def by (rule harmless_crud_read) (simp add: readInterface_def harmless_readers)

lemma harmless_PortChannel_Read: "harmless (cx_env C) w (PortChannel_Read C a w)"
  unfolding PortChannel_Read_def by (rule harmless_crud_read) (simp add: readPortChannel_def harmless_readers)

lemma harmless_VlanInterface_Read: "harmless (cx_env C) w (VlanInterface_Read C a w)"
  unfolding VlanInterface_Read_def by (rule harmless_crud_read) (simp add: readVlanInterface_def harmless_readers)

lemma harmless_Varp_Read: "harmless (cx_env C) w (Varp_Read C a w)"
  unfolding Varp_Read_def by (rule harmless_crud_read) (simp add: readVarp_def harmless_readers)

lemma harmless_Stp_Read: "harmless (cx_env C) w (Stp_Read C a w)"
  unfolding Stp_Read_def by (rule harmless_crud_read) (simp add: readStp_def harmless_readers)

lemma harmless_Mlag_Read: "harmless (cx_env C) w (Mlag_Read C a w)"
  unfolding Mlag_Read_def by (rule harmless_crud_read) (simp add: readMlag_def harmless_readers)

lemma harmless_Loopback_Read: "harmless (cx_env C) w (Loopback_Read C a w)"
  unfolding Loopback_Read_def by (rule harmless_crud_read) (simp add: readLoopback_def harmless_readers)

lemma harmless_Subinterface_Read: "harmless (cx_env C) w (Subinterface_Read C a w)"
  unfolding Subinterface_Read_def by (rule harmless_crud_read) (simp add: readSubinterface_def harmless_readers)

lemma harmless_GreTunnel_Read: "harmless (cx_env C) w (GreTunnel_Read C a w)"
  unfolding GreTunnel_Read_def by (rule harmless_crud_read) (simp add: readGreTunnel_def harmless_readers)

lemma harmless_Vrrp_Read: "harmless (cx_env C) w (Vrrp_Read C a w)"
  unfolding Vrrp_Read_def by (rule harmless_crud_read) (simp add: readVrrp_def harmless_readers)

lemma harmless_Vrf_Read: "harmless (cx_env C) w (Vrf_Read C a w)"
  unfolding Vrf_Read_def by (rule harmless_crud_read) (rule harmless_readVrf)

lemma harmless_StaticRoute_Read: "harmless (cx_env C) w (StaticRoute_Read C a w)"
  unfolding StaticRoute_Read_def by (rule harmless_crud_read) (simp add: readStaticRoute_def harmless_readers)

lemma harmless_Bfd_Read: "harmless (cx_env C) w (Bfd_Read C a w)"
  unfolding Bfd_Read_def by (rule harmless_crud_read) (simp add: readBfd_def harmless_readers)

lemma harmless_RouterBgp_Read: "harmless (cx_env C) w (RouterBgp_Read C a w)"
  unfolding RouterBgp_Read_def by (rule harmless_crud_read) (simp add: read_own_bgp_def readRouterBgp_def harmless_readers)

lemma harmless_RouterOspf_Read: "harmless (cx_env C) w (RouterOspf_Read C a w)"
  unfolding RouterOspf_Read_def by (rule harmless_crud_read) (simp add: readRouterOspf_def harmless_readers)

lemma harmless_Rpki_Read: "harmless (cx_env C) w (Rpki_Read C a w)"
  unfolding Rpki_Read_def by (rule harmless_crud_read) (simp add: readRpki_def harmless_readers)

lemma harmless_PolicyBasedRouting_Read: "harmless (cx_env C) w (PolicyBasedRouting_Read C a w)"
  unfolding PolicyBasedRouting_Read_def by (rule harmless_crud_read) (simp add: readPbr_def harmless_readers)

lemma harmless_RouteMap_Read: "harmless (cx_env C) w (RouteMap_Read C a w)"
  unfolding RouteMap_Read_def by (rule harmless_crud_read) (simp add: readRouteMap_def harmless_readers)

lemma harmless_PrefixList_Read: "harmless (cx_env C) w (PrefixList_Read C a w)"
  unfolding PrefixList_Read_def by (rule harmless_crud_read) (simp add: readPrefixList_def harmless_readers)

lemma harmless_AsPathAccessList_Read: "harmless (cx_env C) w (AsPathAccessList_Read C a w)"
  unfolding AsPathAccessList_Read_def by (rule harmless_crud_read) (simp add: readAsPathAccessList_def harmless_readers)

lemma harmless_CommunityList_Read: "harmless (cx_env C) w (CommunityList_Read C a w)"
  unfolding CommunityList_Read_def by (rule harmless_crud_read) (simp add: readCommunityList_def harmless_readers)

lemma harmless_ExtCommunityList_Read: "harmless (cx_env C) w (ExtCommunityList_Read C a w)"
  unfolding ExtCommunityList_Read_def by (rule harmless_crud_read) (simp add: readExtCommunityList_def harmless_readers)

lemma harmless_Rcf_Read: "harmless (cx_env C) w (Rcf_Read C a w)"
  unfolding Rcf_Read_def by (rule harmless_crud_read) (simp add: readRcf_def harmless_readers)

lemma harmless_ResilientEcmp_Read: "harmless (cx_env C) w (ResilientEcmp_Read C a w)"
  unfolding ResilientEcmp_Read_def by (rule harmless_crud_read) (simp add: readResilientEcmp_def harmless_readers)

lemma harmless_VxlanInterface_Read: "harmless (cx_env C) w (VxlanInterface_Read C caps a w)"
  unfolding VxlanInterface_Read_def
  by (rule harmless_crud_read_shared) (simp add: readVxlanInterface_def harmless_readers)

lemma harmless_Device_Read: "harmless (cx_env C) w (Device_Read C i a prior w)"
proof -
  let ?st = "with_device_args a prior"
  let ?cli = "device_newClient C (dv_Host ?st) (dv_Username ?st) (dv_Password ?st) (dv_Port ?st)"
  have c: "returns ?cli" by (simp add: device_newClient_def)
  have "harmless (cx_env C) w (readFacts C ?st w)"
  proof (cases ?cli)
    case (Ok cli)
    have h: "harmless (cx_env C) w (RunCmds (cx_env C) cli [''show version''] ''json'' w)"
      by (rule harmless_RunCmds) simp
    obtain q w' where "RunCmds (cx_env C) cli [''show version''] ''json'' w = (q, w')"
      by (cases "RunCmds (cx_env C) cli [''show version''] ''json'' w")
    with h Ok show ?thesis
      by (cases q) (auto simp: readFacts_def harmless_def split: list.split)
  qed (use c in \<open>simp_all add: readFacts_def\<close>)
  then show ?thesis by (auto simp: Device_Read_def harmless_def split: prod.split)
qed

lemma harmless_MacAddressTable_Invoke: "harmless (cx_env C) w (MacAddressTable_Invoke C args w)"
proof (cases "validateMacEntryType (mt_EntryType args)")
  case None
  show ?thesis
  proof (cases "newClient C args")
    case (Ok cli)
    have "harmless (cx_env C) w (RunCmds (cx_env C) cli [''show mac address-table''] ''json'' w)"
      by (rule harmless_RunCmds) simp
    with None Ok show ?thesis by (auto simp: MacAddressTable_Invoke_def harmless_def split: prod.split)
  qed (use None newClient_returns [of C args] in \<open>simp_all add: MacAddressTable_Invoke_def\<close>)
qed (simp add: MacAddressTable_Invoke_def)

text \<open>The reader of an Ethernet segment only looks as well, but its parser can panic.\<close>

lemma es_line_not_Blocked: "es_line h l r \<noteq> Blocked"
  by (auto simp: es_line_def es_inner_def parseDfAlgorithmLine_def Let_def split: list.split)

lemma es_step_not_Blocked: "q \<noteq> Blocked \<Longrightarrow> es_step h l q \<noteq> Blocked"
  by (cases q) (simp_all add: es_step_def es_line_not_Blocked)

lemma es_scan_not_Blocked: "q \<noteq> Blocked \<Longrightarrow> fold (es_step h) ls q \<noteq> Blocked"
  by (induction ls arbitrary: q) (simp_all add: es_step_not_Blocked)

lemma es_parse_not_Blocked: "parseEvpnEthernetSegmentConfig out parent \<noteq> Blocked"
proof -
  have m: "map_res f r = Blocked \<longleftrightarrow> r = Blocked" for f :: "evpnEthernetSegmentRow \<Rightarrow> evpnEthernetSegmentRow option" and r
    by (cases r) simp_all
  show ?thesis by (simp add: parseEvpnEthernetSegmentConfig_def Let_def m scan_def es_scan_not_Blocked)
qed

lemma EvpnEthernetSegment_Read_looks:
  "observes (cx_env C) w (snd (EvpnEthernetSegment_Read C a w)) \<and> fst (EvpnEthernetSegment_Read C a w) \<noteq> Blocked"
proof (cases "newClient C a")
  case (Ok cli)
  let ?cmd = "''show running-config interfaces '' @ es_ParentInterface a"
  obtain r w' where show_: "show_text C cli ?cmd w = (r, w')" by (cases "show_text C cli ?cmd w")
  have "harmless (cx_env C) w (show_text C cli ?cmd w)" by (rule harmless_show_text) simp
  then have h: "returns r" "observes (cx_env C) w w'" unfolding show_ harmless_def by simp_all
  have "map_res f (bind_res r (\<lambda>out. if out = [] then Ok None
        else parseEvpnEthernetSegmentConfig out (es_ParentInterface a))) \<noteq> Blocked" for f :: "_ \<Rightarrow> 'c"
  proof (cases r)
    case (Ok out)
    then show ?thesis using es_parse_not_Blocked [of out "es_ParentInterface a"]
      by (cases "parseEvpnEthernetSegmentConfig out (es_ParentInterface a)") simp_all
  qed (use h in simp_all)
  with h(2) show ?thesis
    unfolding EvpnEthernetSegment_Read_def crud_read_def readEvpnEthernetSegment_def read_text_def
      Ok res.case show_ prod.case by simp
qed (use newClient_returns [of C a] in
  \<open>simp_all add: EvpnEthernetSegment_Read_def crud_read_def observes.nothing\<close>)

lemma local_reads: "returns (Configlet_Read C a)" "returns (RawCli_Read C b prior)"
  by (auto simp: Configlet_Read_def RawCli_Read_def prepareRawCli_def Let_def split: option.split)

section \<open>No refresh writes\<close>

text \<open>
  C39. Every refresh, and the MAC table call, only looks.  Whatever the device answers, it
  sends nothing but single show commands and then returns, with a value or an error; the
  refresh of an Ethernet segment sends nothing else either and never waits for ever.  The
  refreshes of a configlet and of a raw block send nothing at all and return.
\<close>

theorem reads_only_look:
  "harmless (cx_env C) w (Vlan_Read C a1 w)
     \<and> harmless (cx_env C) w (VlanRange_Read C a2 w)
     \<and> harmless (cx_env C) w (Interface_Read C a3 w)
     \<and> harmless (cx_env C) w (PortChannel_Read C a4 w)
     \<and> harmless (cx_env C) w (VlanInterface_Read C a5 w)
     \<and> harmless (cx_env C) w (Varp_Read C a6 w)
     \<and> harmless (cx_env C) w (Stp_Read C a7 w)
     \<and> harmless (cx_env C) w (Mlag_Read C a8 w)
     \<and> harmless (cx_env C) w (Loopback_Read C a9 w)
     \<and> harmless (cx_env C) w (Subinterface_Read C a10 w)
     \<and> harmless (cx_env C) w (GreTunnel_Read C a11 w)
     \<and> harmless (cx_env C) w (Vrrp_Read C a12 w)
     \<and> harmless (cx_env C) w (Vrf_Read C a13 w)
     \<and> harmless (cx_env C) w (StaticRoute_Read C a14 w)
     \<and> harmless (cx_env C) w (Bfd_Read C a15 w)
     \<and> harmless (cx_env C) w (RouterBgp_Read C a16 w)
     \<and> harmless (cx_env C) w (RouterOspf_Read C a17 w)
     \<and> harmless (cx_env C) w (Rpki_Read C a18 w)
     \<and> harmless (cx_env C) w (PolicyBasedRouting_Read C a19 w)
     \<and> harmless (cx_env C) w (RouteMap_Read C a20 w)
     \<and> harmless (cx_env C) w (PrefixList_Read C a21 w)
     \<and> harmless (cx_env C) w (AsPathAccessList_Read C a22 w)
     \<and> harmless (cx_env C) w (CommunityList_Read C a23 w)
     \<and> harmless (cx_env C) w (ExtCommunityList_Read C a24 w)
     \<and> harmless (cx_env C) w (Rcf_Read C a25 w)
     \<and> harmless (cx_env C) w (ResilientEcmp_Read C a26 w)
     \<and> harmless (cx_env C) w (VxlanInterface_Read C caps a27 w)
     \<and> harmless (cx_env C) w (Device_Read C dev_id a28 prior w)
     \<and> harmless (cx_env C) w (MacAddressTable_Invoke C a29 w)
     \<and> observes (cx_env C) w (snd (EvpnEthernetSegment_Read C a30 w))
     \<and> fst (EvpnEthernetSegment_Read C a30 w) \<noteq> Blocked
     \<and> returns (Configlet_Read C a31)
     \<and> returns (RawCli_Read C a32 raw)"
  by (intro conjI EvpnEthernetSegment_Read_looks [THEN conjunct1] EvpnEthernetSegment_Read_looks [THEN conjunct2]
      local_reads
      harmless_Vlan_Read harmless_VlanRange_Read harmless_Interface_Read harmless_PortChannel_Read
      harmless_VlanInterface_Read harmless_Varp_Read harmless_Stp_Read harmless_Mlag_Read
      harmless_Loopback_Read harmless_Subinterface_Read harmless_GreTunnel_Read harmless_Vrrp_Read
      harmless_Vrf_Read harmless_StaticRoute_Read harmless_Bfd_Read harmless_RouterBgp_Read
      harmless_RouterOspf_Read harmless_Rpki_Read harmless_PolicyBasedRouting_Read harmless_RouteMap_Read
      harmless_PrefixList_Read harmless_AsPathAccessList_Read harmless_CommunityList_Read harmless_ExtCommunityList_Read
      harmless_Rcf_Read harmless_ResilientEcmp_Read harmless_VxlanInterface_Read harmless_Device_Read
      harmless_MacAddressTable_Invoke)

end
