(* ===== verification/Shared_Sessions.thy ===== *)
theory Shared_Sessions
  imports L3_Handlers
begin

text \<open>
  Two handlers at once.  Every handler makes its own client, so the session slot of one does
  not hold back the other; what keeps them apart on the device is the name of the session
  alone.  Names are made from resource names by replacing characters, so they can coincide.
\<close>

section \<open>One session, two clients\<close>

text \<open>
  While one client has staged its commands in a session, a run of another client in a session
  of the same name commits them; the abort of the first takes nothing back.
\<close>

lemma shared_session_commits:
  assumes h: "honours_sessions E n name running pending merge"
    and o: "OpenSession E c name w = (Ok s, c', w1)" and node: "cl_node c = Some n"
    and st: "Stage E s cmds w1 = (Ok (), w2)"
    and run: "run_session E d name cmds' w2 = (Ok (), d', w3)" and free: "slot_free d" and node': "cl_node d = Some n"
  shows "running w3 = merge (running w) (pending w @ cmds @ cmds') \<and> pending w3 = []"
    and "Abort E s w3 = (r, s', w4) \<Longrightarrow> running w4 = running w3"
proof -
  have s: "s_name s = name" "cl_node (s_parent s) = Some n"
    using OpenSession_Ok [OF o] node by auto
  have "running w1 = running w" "pending w1 = pending w" using OpenSession_device [OF h o node] by auto
  moreover have "running w2 = running w1" "pending w2 = pending w1 @ cmds"
    using Stage_device [OF _ st s(2)] h s(1) by auto
  ultimately show "running w3 = merge (running w) (pending w @ cmds @ cmds') \<and> pending w3 = []"
    using run_session_device [OF h run free node'] by simp
  show "Abort E s w3 = (r, s', w4) \<Longrightarrow> running w4 = running w3"
    using Abort_device [OF _ _ s(2)] h s(1) by auto
qed

section \<open>Prefix lists whose names differ\<close>

text \<open>
  C40. Prefix lists can share a session.  Two valid lists with different names and different
  IDs whose names agree up to dots, slashes, colons, blanks and hyphens use one session.
  When one has staged its commands and the other is applied, the device runs the commands of
  both, though the first has committed nothing, and its abort does not take them back.
\<close>

theorem prefix_lists_share_session:
  assumes "validatePrefixList a = None" and "validatePrefixList b = None"
    and "pl_Name a \<noteq> pl_Name b" and "sanitizePrefixListName (pl_Name a) = sanitizePrefixListName (pl_Name b)"
    and "newClient C a = Ok ca" and "cl_node ca = Some n" and "newClient C b = Ok cb" and "cl_node cb = Some n"
    and "honours_sessions (cx_env C) n (session_name C (''pfxlist-'' @ sanitizePrefixListName (pl_Name a)))
           running pending merge"
    and "OpenSession (cx_env C) ca (session_name C (''pfxlist-'' @ sanitizePrefixListName (pl_Name a))) w = (Ok s, ca', w1)"
    and "Stage (cx_env C) s (buildPrefixListCmds a False) w1 = (Ok (), w2)"
    and "applyPrefixList C b False w2 = (Ok (), w3)"
  shows "prefixListID (pl_Name a) \<noteq> prefixListID (pl_Name b)
    \<and> running w3 = merge (running w) (pending w @ buildPrefixListCmds a False @ buildPrefixListCmds b False)
    \<and> running (snd (snd (Abort (cx_env C) s w3))) = running w3"
proof -
  let ?name = "session_name C (''pfxlist-'' @ sanitizePrefixListName (pl_Name a))"
  obtain cb' where run: "run_session (cx_env C) cb ?name (buildPrefixListCmds b False) w2 = (Ok (), cb', w3)"
    using assms(12) by (auto simp: applyPrefixList_def apply_session_def assms(4,7) split: prod.splits)
  have free: "slot_free cb" using newClient_Ok [OF assms(7)] by simp
  note shared = shared_session_commits [OF assms(9,10,6,11) run free assms(8)]
  obtain r s' w4 where ab: "Abort (cx_env C) s w3 = (r, s', w4)" by (metis prod.exhaust)
  have "prefixListID (pl_Name a) \<noteq> prefixListID (pl_Name b)" using assms(3) by (simp add: prefixListID_def)
  with shared(1) shared(2) [OF ab] ab show ?thesis by simp
qed

lemma run_multi:
  "name \<noteq> [] \<Longrightarrow> \<exists>c' w'. run_session (cx_env multi_ctx) demo_client name cmds w = (Ok (), c', w')"
  by (simp add: run_session_def with_session_def OpenSession_eq Stage_def Commit_def RunCmds_def
      multi_ctx_def demo_client_def Let_def)

definition demo_prefix_list :: "string \<Rightarrow> PrefixListArgs" where
  "demo_prefix_list name =
     \<lparr>Host = None, Username = None, Password = None, pl_Name = name, pl_Remark = None,
      pl_Entries = [\<lparr>ple_Seq = 10, ple_Action = ''permit'', ple_Prefix = ''10.0.0.0/8'',
                     ple_Eq = None, ple_Ge = None, ple_Le = None\<rparr>]\<rparr>"

theorem prefix_lists_share_session_witness:
  "\<exists>w w3. applyPrefixList multi_ctx (demo_prefix_list ''A-B'') False w = (Ok (), w3)
     \<and> mu_running w3 = buildPrefixListCmds (demo_prefix_list ''A.B'') False
          @ buildPrefixListCmds (demo_prefix_list ''A-B'') False"
proof -
  let ?a = "demo_prefix_list ''A.B''" and ?b = "demo_prefix_list ''A-B''" and ?C = multi_ctx
  let ?w = "\<lparr>mu_running = [], mu_pending = (\<lambda>_. [])\<rparr>"
  have s: "sanitizePrefixListName (pl_Name ?a) = ''A-B''" "sanitizePrefixListName (pl_Name ?b) = ''A-B''"
    by (simp_all add: demo_prefix_list_def sanitizePrefixListName_def replace_bytes_def)
  have v: "validatePrefixList ?a = None" "validatePrefixList ?b = None" by code_simp+
  have c: "newClient ?C ?a = Ok demo_client" "newClient ?C ?b = Ok demo_client"
    by (simp_all add: newClient_multi demo_prefix_list_def)
  let ?name = "session_name ?C (''pfxlist-'' @ ''A-B'')"
  obtain st ca' w1 where o: "OpenSession (cx_env ?C) demo_client ?name ?w = (Ok st, ca', w1)"
    by (simp add: OpenSession_eq RunCmds_def multi_ctx_def demo_client_def Let_def)
  obtain w2 where g: "Stage (cx_env ?C) st (buildPrefixListCmds ?a False) w1 = (Ok (), w2)"
    using OpenSession_Ok [OF o] by (auto simp: Stage_def RunCmds_def multi_ctx_def demo_client_def)
  obtain w3 where p: "applyPrefixList ?C ?b False w2 = (Ok (), w3)"
    using run_multi [of "session_name ?C (''pfxlist-'' @ sanitizePrefixListName (pl_Name ?b))" "buildPrefixListCmds ?b False" w2]
    unfolding applyPrefixList_def apply_session_def c by auto
  have d: "pl_Name ?a \<noteq> pl_Name ?b" by (simp add: demo_prefix_list_def)
  have e: "sanitizePrefixListName (pl_Name ?a) = sanitizePrefixListName (pl_Name ?b)" by (simp only: s)
  have nd: "cl_node demo_client = Some ()" by simp
  from prefix_lists_share_session [OF v d e c(1) nd c(2) nd multi_honours o [folded s(1)] g p]
  have "mu_running w3 = buildPrefixListCmds ?a False @ buildPrefixListCmds ?b False" by simp
  with p show ?thesis by blast
qed

end
