(* ===== verification/Session_Steps.thy ===== *)
theory Session_Steps
  imports Session_Managed
begin

text \<open>
  Handlers that run at the same time.  Every handler has its own client, so nothing in the
  program orders the requests of two of them: the device sees them in any order.  Here the
  pattern of \<open>Session_Protocol\<close> is taken one request at a time, an interleaving of several
  handlers is a schedule, the list of the handlers whose turn it is, and the theory shows that
  on a device that keeps sessions apart every interleaving ends like some serial order.
\<close>

section \<open>The pattern, one request at a time\<close>

datatype 'n apply_pc =
    AtOpen "'n client"
  | AtStage "'n session"
  | AtCommit "'n session"
  | AtAbort "'n session" error
  | Returned "unit res"

fun apply_step ::
  "('n, 'w) env \<Rightarrow> string \<Rightarrow> string list \<Rightarrow> 'n apply_pc \<Rightarrow> 'w \<Rightarrow> 'n apply_pc \<times> 'w" where
  "apply_step E name cmds (AtOpen c) w =
     (case OpenSession E c name w of
        (Ok s, _, w') \<Rightarrow> (AtStage s, w')
      | (r, _, w') \<Rightarrow> (Returned (drop_value r), w'))"
| "apply_step E name cmds (AtStage s) w =
     (case Stage E s cmds w of
        (Ok _, w') \<Rightarrow> (AtCommit s, w')
      | (Err e, w') \<Rightarrow> (AtAbort s e, w')
      | (r, w') \<Rightarrow> (Returned r, w'))"
| "apply_step E name cmds (AtCommit s) w = (case Commit E s w of (r, _, w') \<Rightarrow> (Returned r, w'))"
| "apply_step E name cmds (AtAbort s e) w = (case Abort E s w of (r, _, w') \<Rightarrow> (Returned (after_abort e r), w'))"
| "apply_step E name cmds (Returned r) w = (Returned r, w)"

text \<open>Undisturbed, three steps are the pattern.\<close>

definition three_steps :: "('n, 'w) env \<Rightarrow> string \<Rightarrow> string list \<Rightarrow> 'n apply_pc \<Rightarrow> 'w \<Rightarrow> 'n apply_pc \<times> 'w" where
  "three_steps E name cmds p w =
     (case apply_step E name cmds p w of (p1, w1) \<Rightarrow>
        (case apply_step E name cmds p1 w1 of (p2, w2) \<Rightarrow> apply_step E name cmds p2 w2))"

lemma three_steps_alone:
  "run_session E c name cmds w = (r, c', w') \<Longrightarrow> three_steps E name cmds (AtOpen c) w = (Returned r, w')"
  by (auto simp: run_session_def with_session_def three_steps_def split: prod.splits res.splits)

text \<open>How many steps are left at most; a step is one of them.\<close>

fun steps_to_go :: "'n apply_pc \<Rightarrow> nat" where
  "steps_to_go (AtOpen c) = 3"
| "steps_to_go (AtStage s) = 2"
| "steps_to_go (AtCommit s) = 1"
| "steps_to_go (AtAbort s e) = 1"
| "steps_to_go (Returned r) = 0"

lemma apply_step_progress:
  "steps_to_go (fst (apply_step E name cmds p w)) \<le> steps_to_go p - 1"
  by (cases p) (auto split: prod.splits res.splits)

lemma steps_to_go_0: "steps_to_go p = 0 \<longleftrightarrow> (\<exists>r. p = Returned r)"
  by (cases p) auto

section \<open>Jobs and schedules\<close>

text \<open>A job is a handler about to apply: its client, the name of its session, its commands.\<close>

record 'n job =
  job_client :: "'n client"
  job_session :: string
  job_cmds :: "string list"

definition turn ::
  "('n, 'w) env \<Rightarrow> 'n job list \<Rightarrow> nat \<Rightarrow> 'n apply_pc list \<times> 'w \<Rightarrow> 'n apply_pc list \<times> 'w" where
  "turn E js i st =
     (if i < length js
      then (case apply_step E (job_session (js ! i)) (job_cmds (js ! i)) (fst st ! i) (snd st) of
              (p, w) \<Rightarrow> ((fst st)[i := p], w))
      else st)"

fun run_jobs ::
  "('n, 'w) env \<Rightarrow> 'n job list \<Rightarrow> nat list \<Rightarrow> 'n apply_pc list \<times> 'w \<Rightarrow> 'n apply_pc list \<times> 'w" where
  "run_jobs E js [] st = st"
| "run_jobs E js (i # sched) st = run_jobs E js sched (turn E js i st)"

definition start_jobs :: "'n job list \<Rightarrow> 'n apply_pc list" where
  "start_jobs js = map (\<lambda>j. AtOpen (job_client j)) js"

lemma length_turn [simp]: "length (fst (turn E js i st)) = length (fst st)"
  by (simp add: turn_def split: prod.split)

lemma turn_progress:
  assumes "length (fst st) = length js" and "i < length js"
  shows "steps_to_go (fst (turn E js k st) ! i) \<le> steps_to_go (fst st ! i) - (if k = i then 1 else 0)"
  using assms apply_step_progress [of E "job_session (js ! i)" "job_cmds (js ! i)" "fst st ! i" "snd st"]
  by (auto simp: turn_def nth_list_update split: prod.splits)

lemma run_jobs_progress:
  "length (fst st) = length js \<Longrightarrow> i < length js \<Longrightarrow>
     steps_to_go (fst (run_jobs E js sched st) ! i) \<le> steps_to_go (fst st ! i) - count_list sched i"
proof (induction sched arbitrary: st)
  case (Cons k sched)
  show ?case
    using Cons.IH [of "turn E js k st"] Cons.prems turn_progress [OF Cons.prems, of E k]
    by (auto split: if_splits)
qed simp

text \<open>A job that has had three turns has returned.\<close>

lemma three_turns_return:
  assumes "i < length js" and "3 \<le> count_list sched i"
  shows "\<exists>r. fst (run_jobs E js sched (start_jobs js, w)) ! i = Returned r"
  using run_jobs_progress [of "(start_jobs js, w)" js i E sched] assms
  by (simp add: start_jobs_def steps_to_go_0 [symmetric])

section \<open>A device that keeps sessions apart\<close>

text \<open>The requests that the pattern sends in a session.\<close>

definition session_requests :: "string \<Rightarrow> string list set" where
  "session_requests name =
     {open_cmds name, [abort_cmd name], [commit_cmd name]} \<union> range (stage_cmds name)"

text \<open>
  Every session behaves as documented, and a request in one session leaves what is pending in
  another as it is.
\<close>

definition isolates_sessions ::
  "('n, 'w) env \<Rightarrow> ('w \<Rightarrow> 'cfg) \<Rightarrow> (string \<Rightarrow> 'w \<Rightarrow> string list) \<Rightarrow> ('cfg \<Rightarrow> string list \<Rightarrow> 'cfg) \<Rightarrow> bool" where
  "isolates_sessions E running pending merge \<longleftrightarrow>
     (\<forall>n name. honours_sessions E n name running (pending name) merge) \<and>
     (\<forall>n name other cmds w. name \<noteq> other \<longrightarrow> cmds \<in> session_requests name \<longrightarrow>
        pending other (snd (node_run E n cmds ''json'' w)) = pending other w)"

lemma isolates_honours: "isolates_sessions E running pending merge \<Longrightarrow> honours_sessions E n name running (pending name) merge"
  by (simp add: isolates_sessions_def)

lemma RunCmds_other:
  assumes "isolates_sessions E running pending merge" and "other \<noteq> name" and "cmds \<in> session_requests name"
    and "RunCmds E c cmds ''json'' w = (r, w')"
  shows "pending other w' = pending other w"
  using assms
  by (auto simp: RunCmds_def isolates_sessions_def split: option.splits prod.splits sum.splits)
    (metis snd_conv)+

text \<open>So no call of the client touches another session.\<close>

lemma calls_other:
  assumes "isolates_sessions E running pending merge" and "other \<noteq> name"
  shows "OpenSession E c name w = (ro, c', w1) \<Longrightarrow> pending other w1 = pending other w"
    and "s_name s = name \<Longrightarrow> Stage E s cmds w = (rs, w2) \<Longrightarrow> pending other w2 = pending other w"
    and "s_name s = name \<Longrightarrow> Commit E s w = (rc, s', w3) \<Longrightarrow> pending other w3 = pending other w"
    and "s_name s = name \<Longrightarrow> Abort E s w = (ra, s', w4) \<Longrightarrow> pending other w4 = pending other w"
proof -
  have in_requests: "open_cmds name \<in> session_requests name" "stage_cmds name m \<in> session_requests name"
    "[commit_cmd name] \<in> session_requests name" "[abort_cmd name] \<in> session_requests name" for m
    by (simp_all add: session_requests_def)
  note same = in_requests [THEN RunCmds_other [OF assms]]
  show "OpenSession E c name w = (ro, c', w1) \<Longrightarrow> pending other w1 = pending other w"
    by (auto simp: OpenSession_eq Let_def split: if_splits option.splits prod.splits dest: same(1))
  show "pending other w2 = pending other w" if n: "s_name s = name" and o: "Stage E s cmds w = (rs, w2)"
    using o unfolding Stage_def n by (auto split: if_splits prod.splits dest: same(2))
  show "pending other w3 = pending other w" if n: "s_name s = name" and o: "Commit E s w = (rc, s', w3)"
    using o unfolding Commit_def n by (auto split: if_splits prod.splits dest: same(3))
  show "pending other w4 = pending other w" if n: "s_name s = name" and o: "Abort E s w = (ra, s', w4)"
    using o unfolding Abort_def n by (auto split: if_splits prod.splits dest: same(4))
qed

section \<open>One step of one job\<close>

text \<open>
  What holds of a job between two of its steps: it has its session, and the session holds
  what was pending before the job, and its commands once they are staged.
\<close>

definition holds_session :: "'n job \<Rightarrow> 'n session \<Rightarrow> bool" where
  "holds_session j s \<longleftrightarrow> s_open s \<and> s_name s = job_session j \<and> (\<exists>n. cl_node (s_parent s) = Some n)"

fun pc_inv :: "'n job \<Rightarrow> string list \<Rightarrow> string list \<Rightarrow> 'n apply_pc \<Rightarrow> bool" where
  "pc_inv j before now (AtOpen c) = (slot_free c \<and> (\<exists>n. cl_node c = Some n) \<and> now = before)"
| "pc_inv j before now (AtStage s) = (holds_session j s \<and> now = before)"
| "pc_inv j before now (AtCommit s) = (holds_session j s \<and> now = before @ job_cmds j)"
| "pc_inv j before now (AtAbort s e) = holds_session j s"
| "pc_inv j before now (Returned r) = returns r"

lemma step_open:
  assumes iso: "isolates_sessions E running pending merge"
    and inv: "slot_free c" "cl_node c = Some n" "pending (job_session j) w = before"
    and step: "apply_step E (job_session j) cmds (AtOpen c) w = (p, w')"
  shows "pc_inv j before (pending (job_session j) w') p \<and> p \<noteq> Returned (Ok ()) \<and> running w' = running w"
proof -
  obtain ro c' w1 where o: "OpenSession E c (job_session j) w = (ro, c', w1)" by (metis prod.exhaust)
  note d = OpenSession_device [OF isolates_honours [OF iso] o inv(2)]
  have "returns ro" using OpenSession_returns [OF inv(1), of E "job_session j" w] o by simp
  then consider s where "ro = Ok s" | e where "ro = Err e" by (cases ro) auto
  then show ?thesis
  proof cases
    case 1
    then show ?thesis
      using step o d inv OpenSession_session [of E c "job_session j" w s c' w1] by (auto simp: holds_session_def)
  qed (use step o d in auto)
qed

lemma step_stage:
  assumes iso: "isolates_sessions E running pending merge"
    and inv: "holds_session j s" "pending (job_session j) w = before"
    and step: "apply_step E (job_session j) (job_cmds j) (AtStage s) w = (p, w')"
  shows "pc_inv j before (pending (job_session j) w') p \<and> p \<noteq> Returned (Ok ()) \<and> running w' = running w"
proof -
  obtain rs w1 where o: "Stage E s (job_cmds j) w = (rs, w1)" by (rule prod.exhaust)
  obtain n where n: "s_name s = job_session j" "cl_node (s_parent s) = Some n"
    using inv(1) by (auto simp: holds_session_def)
  note d = Stage_device [OF isolates_honours [OF iso, where name = "s_name s"] o n(2)]
  have "returns rs" using Stage_returns [of E s "job_cmds j" w] o by simp
  then consider "rs = Ok ()" | e where "rs = Err e" by (cases rs) auto
  then show ?thesis using step o d inv n(1) by cases auto
qed

lemma step_commit:
  assumes iso: "isolates_sessions E running pending merge"
    and inv: "holds_session j s" "pending (job_session j) w = before @ job_cmds j"
    and step: "apply_step E (job_session j) (job_cmds j) (AtCommit s) w = (p, w')"
  shows "\<exists>r. p = Returned r \<and> returns r \<and>
    running w' = (if r = Ok () then merge (running w) (before @ job_cmds j) else running w)"
proof -
  obtain rc s' w1 where o: "Commit E s w = (rc, s', w1)" by (metis prod.exhaust)
  obtain n where n: "s_open s" "s_name s = job_session j" "cl_node (s_parent s) = Some n"
    using inv(1) by (auto simp: holds_session_def)
  note d = Commit_device [OF isolates_honours [OF iso, where name = "s_name s"] o n(3)]
  have ret: "returns rc" using Commit_closes [OF n(1) o] by simp
  have p: "p = Returned rc" "w' = w1" using step o by simp_all
  from ret consider "rc = Ok ()" | e where "rc = Err e" by (cases rc) auto
  then show ?thesis using d inv(2) n(2) ret unfolding p by cases simp_all
qed

lemma step_abort:
  assumes iso: "isolates_sessions E running pending merge"
    and inv: "holds_session j s"
    and step: "apply_step E (job_session j) cmds (AtAbort s e) w = (p, w')"
  shows "\<exists>r. p = Returned r \<and> returns r \<and> r \<noteq> Ok () \<and> running w' = running w"
proof -
  obtain ra s' w1 where o: "Abort E s w = (ra, s', w1)" by (metis prod.exhaust)
  obtain n where n: "s_open s" "cl_node (s_parent s) = Some n"
    using inv by (auto simp: holds_session_def)
  note d = Abort_device [OF isolates_honours [OF iso, where name = "s_name s"] o n(2)]
  have "returns ra" using Abort_closes [OF n(1) o] by simp
  moreover have "p = Returned (after_abort e ra)" "w' = w1" using step o by simp_all
  ultimately show ?thesis using d by simp
qed

text \<open>Together: a step keeps the job's invariant, and changes the configuration only by a commit that succeeds.\<close>

lemma apply_step_inv:
  assumes iso: "isolates_sessions E running pending merge"
    and inv: "pc_inv j before (pending (job_session j) w) p"
    and step: "apply_step E (job_session j) (job_cmds j) p w = (p', w')"
  shows "pc_inv j before (pending (job_session j) w') p' \<and>
    running w' = (if p' = Returned (Ok ()) \<and> p \<noteq> Returned (Ok ())
                  then merge (running w) (before @ job_cmds j) else running w)"
proof (cases p)
  case (AtOpen c)
  then show ?thesis using step_open [OF iso _ _ _ step [unfolded AtOpen], of _ before] inv by auto
next
  case (AtStage s)
  then show ?thesis using step_stage [OF iso _ _ step [unfolded AtStage], of before] inv by auto
next
  case (AtCommit s)
  then show ?thesis using step_commit [OF iso _ _ step [unfolded AtCommit], of before] inv by auto
next
  case (AtAbort s e)
  then show ?thesis using step_abort [OF iso _ step [unfolded AtAbort]] inv by auto
qed (use inv step in auto)

lemma apply_step_other:
  assumes iso: "isolates_sessions E running pending merge" and "other \<noteq> job_session j"
    and inv: "pc_inv j before (pending (job_session j) w) p"
    and step: "apply_step E (job_session j) cmds p w = (p', w')"
  shows "pending other w' = pending other w"
  using inv step calls_other [OF iso assms(2)]
  by (cases p) (auto simp: holds_session_def split: prod.splits res.splits)

section \<open>Every interleaving is serial\<close>

text \<open>
  The specification: the jobs that committed, one after the other in some order, each
  merging what was pending in its session before the jobs began and its own commands.
\<close>

definition job_merge ::
  "('cfg \<Rightarrow> string list \<Rightarrow> 'cfg) \<Rightarrow> (string \<Rightarrow> string list) \<Rightarrow> 'n job \<Rightarrow> 'cfg \<Rightarrow> 'cfg" where
  "job_merge merge before j cfg = merge cfg (before (job_session j) @ job_cmds j)"

definition committed :: "'n apply_pc list \<Rightarrow> nat set" where
  "committed ps = {i. i < length ps \<and> ps ! i = Returned (Ok ())}"

definition serial_inv ::
  "'n job list \<Rightarrow> ('w \<Rightarrow> 'cfg) \<Rightarrow> (string \<Rightarrow> 'w \<Rightarrow> string list) \<Rightarrow> ('cfg \<Rightarrow> string list \<Rightarrow> 'cfg) \<Rightarrow> 'w \<Rightarrow>
   nat list \<Rightarrow> 'n apply_pc list \<times> 'w \<Rightarrow> bool" where
  "serial_inv js running pending merge w0 ord st \<longleftrightarrow>
     length (fst st) = length js \<and>
     (\<forall>i < length js. pc_inv (js ! i) (pending (job_session (js ! i)) w0)
                        (pending (job_session (js ! i)) (snd st)) (fst st ! i)) \<and>
     distinct ord \<and> set ord = committed (fst st) \<and>
     running (snd st) = fold (\<lambda>i. job_merge merge (\<lambda>name. pending name w0) (js ! i)) ord (running w0)"

lemma committed_update:
  "i < length ps \<Longrightarrow> committed (ps[i := p]) = (if p = Returned (Ok ()) then insert i (committed ps) else committed ps - {i})"
  by (auto simp: committed_def nth_list_update)

lemma turn_serial:
  assumes iso: "isolates_sessions E running pending merge" and names: "distinct (map job_session js)"
    and inv: "serial_inv js running pending merge w0 ord st"
  shows "\<exists>ord'. serial_inv js running pending merge w0 ord' (turn E js i st)"
proof (cases "i < length js")
  case True
  obtain ps w where st: "st = (ps, w)" by (cases st)
  let ?j = "js ! i" and ?p = "ps ! i"
  obtain p w' where step: "apply_step E (job_session ?j) (job_cmds ?j) ?p w = (p, w')" by (rule prod.exhaust)
  have len: "length ps = length js" and pcs: "\<And>k. k < length js \<Longrightarrow> pc_inv (js ! k) (pending (job_session (js ! k)) w0)
       (pending (job_session (js ! k)) w) (ps ! k)"
    and ord: "distinct ord" "set ord = committed ps"
    and run: "running w = fold (\<lambda>i. job_merge merge (\<lambda>name. pending name w0) (js ! i)) ord (running w0)"
    using inv by (simp_all add: serial_inv_def st)
  note mine = apply_step_inv [OF iso pcs [OF True] step]
  have others: "pending (job_session (js ! k)) w' = pending (job_session (js ! k)) w" if "k < length js" "k \<noteq> i" for k
    using apply_step_other [OF iso _ pcs [OF True] step, of "job_session (js ! k)"] that True names
    by (simp add: distinct_conv_nth)
  have pcs': "pc_inv (js ! k) (pending (job_session (js ! k)) w0) (pending (job_session (js ! k)) w') (ps[i := p] ! k)"
    if "k < length js" for k
    using mine others [of k] pcs [of k] that len by (cases "k = i") simp_all
  have stays: "p = Returned (Ok ())" if "?p = Returned (Ok ())" using step that by simp
  let ?ord = "if p = Returned (Ok ()) \<and> ?p \<noteq> Returned (Ok ()) then ord @ [i] else ord"
  have mem: "i \<in> committed ps \<longleftrightarrow> ?p = Returned (Ok ())" using True len by (simp add: committed_def)
  have "committed (ps[i := p]) = (if p = Returned (Ok ()) then insert i (committed ps) else committed ps - {i})"
    using True len by (simp add: committed_update)
  then have "set ?ord = committed (ps[i := p])" using ord(2) stays mem by (simp add: insert_absorb)
  moreover have "distinct ?ord" using ord mem by simp
  moreover have "running w' = fold (\<lambda>i. job_merge merge (\<lambda>name. pending name w0) (js ! i)) ?ord (running w0)"
    using mine run by (simp add: job_merge_def)
  moreover have "turn E js i st = (ps[i := p], w')" using True step by (simp add: turn_def st)
  ultimately have "serial_inv js running pending merge w0 ?ord (turn E js i st)"
    using pcs' len by (simp add: serial_inv_def)
  then show ?thesis ..
qed (use inv in \<open>auto simp: turn_def\<close>)

lemma run_jobs_serial:
  assumes iso: "isolates_sessions E running pending merge" and names: "distinct (map job_session js)"
  shows "serial_inv js running pending merge w0 ord st \<Longrightarrow>
    \<exists>ord'. serial_inv js running pending merge w0 ord' (run_jobs E js sched st)"
proof (induction sched arbitrary: ord st)
  case (Cons i sched)
  obtain ord' where "serial_inv js running pending merge w0 ord' (turn E js i st)"
    using turn_serial [OF iso names Cons.prems] by blast
  from Cons.IH [OF this] show ?case by simp
qed auto

text \<open>Ready to begin: every client is free and connected.\<close>

definition ready_job :: "'n job \<Rightarrow> bool" where
  "ready_job j \<longleftrightarrow> slot_free (job_client j) \<and> (\<exists>n. cl_node (job_client j) = Some n)"

lemma start_serial:
  "\<forall>j \<in> set js. ready_job j \<Longrightarrow> serial_inv js running pending merge w [] (start_jobs js, w)"
  by (auto simp: serial_inv_def start_jobs_def committed_def ready_job_def)

lemma jobs_inv:
  assumes "isolates_sessions E running pending merge" and "distinct (map job_session js)"
    and "\<forall>j \<in> set js. ready_job j"
    and "run_jobs E js sched (start_jobs js, w) = (ps, w')"
  shows "\<exists>ord. serial_inv js running pending merge w ord (ps, w')"
proof -
  have "serial_inv js running pending merge w [] (start_jobs js, w)" using assms(3) by (rule start_serial)
  from run_jobs_serial [OF assms(1,2) this, of sched] assms(4) show ?thesis by simp
qed

lemma jobs_serializable:
  assumes "isolates_sessions E running pending merge" and "distinct (map job_session js)"
    and "\<forall>j \<in> set js. ready_job j"
    and "run_jobs E js sched (start_jobs js, w) = (ps, w')"
  shows "\<exists>ord. distinct ord \<and> set ord = committed ps \<and>
      running w' = fold (\<lambda>i. job_merge merge (\<lambda>name. pending name w) (js ! i)) ord (running w)"
  using jobs_inv [OF assms] by (auto simp: serial_inv_def)

text \<open>All of them return, whatever the schedule, once each has had three turns.\<close>

lemma jobs_return:
  assumes "isolates_sessions E running pending merge" and "distinct (map job_session js)"
    and "\<forall>j \<in> set js. ready_job j"
    and "run_jobs E js sched (start_jobs js, w) = (ps, w')"
    and "i < length js" and "3 \<le> count_list sched i"
  shows "\<exists>r. ps ! i = Returned r \<and> returns r"
proof -
  obtain ord where inv: "serial_inv js running pending merge w ord (ps, w')" using jobs_inv [OF assms(1-4)] by blast
  obtain r where r: "ps ! i = Returned r" using three_turns_return [OF assms(5,6)] assms(4) by (metis fst_conv)
  from inv assms(5) have "pc_inv (js ! i) (pending (job_session (js ! i)) w) (pending (job_session (js ! i)) w') (ps ! i)"
    by (simp add: serial_inv_def)
  with r show ?thesis by simp
qed

end
