(* ===== verification/Session_Names.thy ===== *)
theory Session_Names
  imports Session_Steps L2_Properties L3_Handlers Device_Properties Entry_Point
begin

text \<open>
  The names of the configuration sessions.  A session belongs to the device, not to a client,
  so two resources applied at the same time are kept apart by the names of their sessions
  alone.  This theory collects the resources that open sessions, gives each the name that
  its apply function uses, and shows which resources can ever meet in one session.
\<close>

section \<open>The resources that open sessions\<close>

datatype managed_resource =
    VlanRes VlanArgs
  | VlanRangeRes VlanRangeArgs
  | InterfaceRes InterfaceArgs
  | PortChannelRes PortChannelArgs
  | VlanInterfaceRes VlanInterfaceArgs
  | VxlanInterfaceRes VxlanInterfaceArgs
  | VarpRes VarpArgs
  | StpRes StpArgs
  | MlagRes MlagArgs
  | EthernetSegmentRes EvpnEthernetSegmentArgs
  | LoopbackRes LoopbackArgs
  | SubinterfaceRes SubinterfaceArgs
  | GreTunnelRes GreTunnelArgs
  | VrrpRes VrrpArgs
  | VrfRes VrfArgs
  | StaticRouteRes StaticRouteArgs
  | BfdRes BfdArgs
  | ResilientEcmpRes ResilientEcmpArgs
  | RouterBgpRes RouterBgpArgs
  | RouterOspfRes RouterOspfArgs
  | RpkiRes RpkiArgs
  | PolicyBasedRoutingRes PolicyBasedRoutingArgs
  | RouteMapRes RouteMapArgs
  | RcfRes RcfArgs
  | PrefixListRes PrefixListArgs
  | AsPathRes AsPathAccessListArgs
  | CommunityListRes CommunityListArgs
  | ExtCommunityListRes ExtCommunityListArgs
  | ConfigletRes ConfigletArgs
  | RawCliRes string RawCliArgs

text \<open>
  The suffix that the apply function of each resource puts after the provider's prefix; a raw
  block is named after the operation as well.
\<close>

fun session_suffix :: "managed_resource \<Rightarrow> string" where
  "session_suffix (VlanRes a) = ''vlan-'' @ Itoa (vlan_Id a)"
| "session_suffix (VlanRangeRes a) = ''vlanrange-'' @ vlan_span (vr_Start a) (vr_End a)"
| "session_suffix (InterfaceRes a) = ''iface-'' @ sanitizeForSession (if_Name a)"
| "session_suffix (PortChannelRes a) = ''po-'' @ Itoa (pc_Id a)"
| "session_suffix (VlanInterfaceRes a) = ''svi-'' @ Itoa (vi_VlanId a)"
| "session_suffix (VxlanInterfaceRes a) = ''vxlan-'' @ Itoa (vx_Id a)"
| "session_suffix (VarpRes a) = ''varp''"
| "session_suffix (StpRes a) = ''stp''"
| "session_suffix (MlagRes a) = ''mlag''"
| "session_suffix (EthernetSegmentRes a) = ''es-'' @ sanitizeForSession (es_ParentInterface a)"
| "session_suffix (LoopbackRes a) = ''loopback-'' @ Itoa (lo_Number a)"
| "session_suffix (SubinterfaceRes a) = ''subif-'' @ sanitizeSessionName (su_Name a)"
| "session_suffix (GreTunnelRes a) = ''tunnel-'' @ Itoa (gr_Id a)"
| "session_suffix (VrrpRes a) = ''vrrp-'' @ sanitizePrefixListName (vp_Interface a) @ ''-'' @ Itoa (vp_Vrid a)"
| "session_suffix (VrfRes a) = ''vrf-'' @ vrf_Name a"
| "session_suffix (StaticRouteRes a) = ''route-'' @ staticRouteSessionToken a"
| "session_suffix (BfdRes a) = ''bfd-global''"
| "session_suffix (ResilientEcmpRes a) = ''recmp-'' @ sanitizePrefixListName (re_Prefix a)"
| "session_suffix (RouterBgpRes a) = ''rbgp-'' @ Itoa (rb_Asn a)"
| "session_suffix (RouterOspfRes a) = ospf_suffix a"
| "session_suffix (RpkiRes a) = ''rpki-'' @ Itoa (rp_BgpAsn a) @ ''-'' @ sanitizePrefixListName (rp_Name a)"
| "session_suffix (PolicyBasedRoutingRes a) = ''pbr-'' @ sanitizePrefixListName (pb_Name a)"
| "session_suffix (RouteMapRes a) = ''rmap-'' @ sanitizePrefixListName (rm_Name a)"
| "session_suffix (RcfRes a) = ''rcf-'' @ sanitizePrefixListName (rcf_Name a)"
| "session_suffix (PrefixListRes a) = ''pfxlist-'' @ sanitizePrefixListName (pl_Name a)"
| "session_suffix (AsPathRes a) = ''aspath-'' @ sanitizePrefixListName (ap_Name a)"
| "session_suffix (CommunityListRes a) = ''comm-'' @ sanitizePrefixListName (cl_Name a)"
| "session_suffix (ExtCommunityListRes a) = ''extcomm-'' @ sanitizePrefixListName (ec_Name a)"
| "session_suffix (ConfigletRes a) = ''configlet-'' @ device_sanitizeForSession (cf_Name a)"
| "session_suffix (RawCliRes op' a) = rawcli_suffix op' (rc_Name a)"

text \<open>The connection overrides that the arguments begin with.\<close>

fun resource_overrides :: "managed_resource \<Rightarrow> overrides" where
  "resource_overrides (VlanRes a) = overrides.truncate a"
| "resource_overrides (VlanRangeRes a) = overrides.truncate a"
| "resource_overrides (InterfaceRes a) = overrides.truncate a"
| "resource_overrides (PortChannelRes a) = overrides.truncate a"
| "resource_overrides (VlanInterfaceRes a) = overrides.truncate a"
| "resource_overrides (VxlanInterfaceRes a) = overrides.truncate a"
| "resource_overrides (VarpRes a) = overrides.truncate a"
| "resource_overrides (StpRes a) = overrides.truncate a"
| "resource_overrides (MlagRes a) = overrides.truncate a"
| "resource_overrides (EthernetSegmentRes a) = overrides.truncate a"
| "resource_overrides (LoopbackRes a) = overrides.truncate a"
| "resource_overrides (SubinterfaceRes a) = overrides.truncate a"
| "resource_overrides (GreTunnelRes a) = overrides.truncate a"
| "resource_overrides (VrrpRes a) = overrides.truncate a"
| "resource_overrides (VrfRes a) = overrides.truncate a"
| "resource_overrides (StaticRouteRes a) = overrides.truncate a"
| "resource_overrides (BfdRes a) = overrides.truncate a"
| "resource_overrides (ResilientEcmpRes a) = overrides.truncate a"
| "resource_overrides (RouterBgpRes a) = overrides.truncate a"
| "resource_overrides (RouterOspfRes a) = overrides.truncate a"
| "resource_overrides (RpkiRes a) = overrides.truncate a"
| "resource_overrides (PolicyBasedRoutingRes a) = overrides.truncate a"
| "resource_overrides (RouteMapRes a) = overrides.truncate a"
| "resource_overrides (RcfRes a) = overrides.truncate a"
| "resource_overrides (PrefixListRes a) = overrides.truncate a"
| "resource_overrides (AsPathRes a) = overrides.truncate a"
| "resource_overrides (CommunityListRes a) = overrides.truncate a"
| "resource_overrides (ExtCommunityListRes a) = overrides.truncate a"
| "resource_overrides (ConfigletRes a) = overrides.truncate a"
| "resource_overrides (RawCliRes op' a) = overrides.truncate a"

text \<open>
  The apply function that Create and Update (\<open>rm = False\<close>) and Delete call.  A configlet is only
  ever written.  A raw block is applied by a function that reports the difference too; what it
  stages is the body, or on Delete the delete body, and nothing happens when that has no line.
\<close>

definition rawcli_lines :: "RawCliArgs \<Rightarrow> bool \<Rightarrow> string list" where
  "rawcli_lines a rm =
     canonicalConfigletLines (if rm then (case rc_DeleteBody a of Some b \<Rightarrow> b | None \<Rightarrow> []) else rc_Body a)"

definition apply_rawcli ::
  "('n, 'w) ctx \<Rightarrow> RawCliArgs \<Rightarrow> string list \<Rightarrow> string \<Rightarrow> 'w \<Rightarrow> unit res \<times> 'w" where
  "apply_rawcli C a cmds op' w = (case applyRawCli C a cmds op' w of (r, w') \<Rightarrow> (map_res (\<lambda>_. ()) r, w'))"

fun apply_resource ::
  "('n, 'w) ctx \<Rightarrow> managed_resource \<Rightarrow> bool \<Rightarrow> ('w \<Rightarrow> unit res \<times> 'w) option" where
  "apply_resource C (VlanRes a) rm = Some (applyVlan C a rm)"
| "apply_resource C (VlanRangeRes a) rm = Some (applyVlanRange C a rm)"
| "apply_resource C (InterfaceRes a) rm = Some (applyInterface C a rm)"
| "apply_resource C (PortChannelRes a) rm = Some (applyPortChannel C a rm)"
| "apply_resource C (VlanInterfaceRes a) rm = Some (applyVlanInterface C a rm)"
| "apply_resource C (VxlanInterfaceRes a) rm = Some (applyVxlanInterface C a rm)"
| "apply_resource C (VarpRes a) rm = Some (applyVarp C a rm)"
| "apply_resource C (StpRes a) rm = Some (applyStp C a rm)"
| "apply_resource C (MlagRes a) rm = Some (applyMlag C a rm)"
| "apply_resource C (EthernetSegmentRes a) rm = Some (applyEvpnEthernetSegment C a rm)"
| "apply_resource C (LoopbackRes a) rm = Some (applyLoopback C a rm)"
| "apply_resource C (SubinterfaceRes a) rm = Some (applySubinterface C a rm)"
| "apply_resource C (GreTunnelRes a) rm = Some (applyGreTunnel C a rm)"
| "apply_resource C (VrrpRes a) rm = Some (applyVrrp C a rm)"
| "apply_resource C (VrfRes a) rm = Some (applyVrf C a rm)"
| "apply_resource C (StaticRouteRes a) rm = Some (applyStaticRoute C a rm)"
| "apply_resource C (BfdRes a) rm = Some (applyBfd C a rm)"
| "apply_resource C (ResilientEcmpRes a) rm = Some (applyResilientEcmp C a rm)"
| "apply_resource C (RouterBgpRes a) rm = Some (applyRouterBgp C a rm)"
| "apply_resource C (RouterOspfRes a) rm = Some (applyRouterOspf C a rm)"
| "apply_resource C (RpkiRes a) rm = Some (applyRpki C a rm)"
| "apply_resource C (PolicyBasedRoutingRes a) rm = Some (applyPbr C a rm)"
| "apply_resource C (RouteMapRes a) rm = Some (applyRouteMap C a rm)"
| "apply_resource C (RcfRes a) rm = Some (applyRcf C a rm)"
| "apply_resource C (PrefixListRes a) rm = Some (applyPrefixList C a rm)"
| "apply_resource C (AsPathRes a) rm = Some (applyAsPathAccessList C a rm)"
| "apply_resource C (CommunityListRes a) rm = Some (applyCommunityList C a rm)"
| "apply_resource C (ExtCommunityListRes a) rm = Some (applyExtCommunityList C a rm)"
| "apply_resource C (ConfigletRes a) rm = (if rm then None else Some (applyConfiglet C a (canonicalConfigletLines (cf_Body a))))"
| "apply_resource C (RawCliRes op' a) rm = (if rawcli_lines a rm = [] then None else Some (apply_rawcli C a (rawcli_lines a rm) op'))"

text \<open>
  The commands, where the apply function is one session with plain commands: not so for a
  VARP address that is rejected while rendering, a prefix without a family, inline RCF code,
  which is sent as a rich command, and raw blocks, which look at the diff first.
\<close>

fun plain_cmds :: "managed_resource \<Rightarrow> bool \<Rightarrow> string list option" where
  "plain_cmds (VlanRes a) rm = Some (buildVlanCmds a rm)"
| "plain_cmds (VlanRangeRes a) rm = Some (buildVlanRangeCmds a rm)"
| "plain_cmds (InterfaceRes a) rm = Some (buildInterfaceCmds a rm)"
| "plain_cmds (PortChannelRes a) rm = Some (buildPortChannelCmds a rm)"
| "plain_cmds (VlanInterfaceRes a) rm = Some (buildVlanInterfaceCmds a rm)"
| "plain_cmds (VxlanInterfaceRes a) rm = Some (buildVxlanInterfaceCmds a rm)"
| "plain_cmds (VarpRes a) rm = (case buildVarpCmds a rm of Inr cmds \<Rightarrow> Some cmds | Inl _ \<Rightarrow> None)"
| "plain_cmds (StpRes a) rm = Some (buildStpCmds a rm)"
| "plain_cmds (MlagRes a) rm = Some (buildMlagCmds a rm)"
| "plain_cmds (EthernetSegmentRes a) rm = Some (buildEvpnEthernetSegmentCmds a rm)"
| "plain_cmds (LoopbackRes a) rm = Some (buildLoopbackCmds a rm)"
| "plain_cmds (SubinterfaceRes a) rm = Some (buildSubinterfaceCmds a rm)"
| "plain_cmds (GreTunnelRes a) rm = Some (buildGreTunnelCmds a rm)"
| "plain_cmds (VrrpRes a) rm = Some (buildVrrpCmds a rm)"
| "plain_cmds (VrfRes a) rm = Some (buildVrfCmds a rm)"
| "plain_cmds (StaticRouteRes a) rm = Some (buildStaticRouteCmds a rm)"
| "plain_cmds (BfdRes a) rm = Some (buildBfdCmds a rm)"
| "plain_cmds (ResilientEcmpRes a) rm = (case canonicaliseFamily a of Ok f \<Rightarrow> Some (buildResilientEcmpCmds a f rm) | _ \<Rightarrow> None)"
| "plain_cmds (RouterBgpRes a) rm = Some (buildRouterBgpCmds a rm)"
| "plain_cmds (RouterOspfRes a) rm = Some (buildRouterOspfCmds a rm)"
| "plain_cmds (RpkiRes a) rm = Some (buildRpkiCmds a rm)"
| "plain_cmds (PolicyBasedRoutingRes a) rm = Some (buildPbrCmds a rm)"
| "plain_cmds (RouteMapRes a) rm = Some (buildRouteMapCmds a rm)"
| "plain_cmds (RcfRes a) rm = (if rm \<or> nonempty (rcf_Code a) = None then Some (buildRcfPlainCmds a rm) else None)"
| "plain_cmds (PrefixListRes a) rm = Some (buildPrefixListCmds a rm)"
| "plain_cmds (AsPathRes a) rm = Some (buildAsPathAccessListCmds a rm)"
| "plain_cmds (CommunityListRes a) rm = Some (buildCommunityListCmds a rm)"
| "plain_cmds (ExtCommunityListRes a) rm = Some (buildExtCommunityListCmds a rm)"
| "plain_cmds (ConfigletRes a) rm = (if rm then None else Some (canonicalConfigletLines (cf_Body a)))"
| "plain_cmds (RawCliRes op' a) rm = None"

text \<open>The area and the type under which the provider registers the resource.\<close>

fun resource_type :: "managed_resource \<Rightarrow> string \<times> string" where
  "resource_type (VlanRes a) = (''l2'', ''Vlan'')"
| "resource_type (VlanRangeRes a) = (''l2'', ''VlanRange'')"
| "resource_type (InterfaceRes a) = (''l2'', ''Interface'')"
| "resource_type (PortChannelRes a) = (''l2'', ''PortChannel'')"
| "resource_type (VlanInterfaceRes a) = (''l2'', ''VlanInterface'')"
| "resource_type (VxlanInterfaceRes a) = (''l2'', ''VxlanInterface'')"
| "resource_type (VarpRes a) = (''l2'', ''Varp'')"
| "resource_type (StpRes a) = (''l2'', ''Stp'')"
| "resource_type (MlagRes a) = (''l2'', ''Mlag'')"
| "resource_type (EthernetSegmentRes a) = (''l2'', ''EvpnEthernetSegment'')"
| "resource_type (LoopbackRes a) = (''l3'', ''Loopback'')"
| "resource_type (SubinterfaceRes a) = (''l3'', ''Subinterface'')"
| "resource_type (GreTunnelRes a) = (''l3'', ''GreTunnel'')"
| "resource_type (VrrpRes a) = (''l3'', ''Vrrp'')"
| "resource_type (VrfRes a) = (''l3'', ''Vrf'')"
| "resource_type (StaticRouteRes a) = (''l3'', ''StaticRoute'')"
| "resource_type (BfdRes a) = (''l3'', ''Bfd'')"
| "resource_type (ResilientEcmpRes a) = (''l3'', ''ResilientEcmp'')"
| "resource_type (RouterBgpRes a) = (''l3'', ''RouterBgp'')"
| "resource_type (RouterOspfRes a) = (''l3'', ''RouterOspf'')"
| "resource_type (RpkiRes a) = (''l3'', ''Rpki'')"
| "resource_type (PolicyBasedRoutingRes a) = (''l3'', ''PolicyBasedRouting'')"
| "resource_type (RouteMapRes a) = (''l3'', ''RouteMap'')"
| "resource_type (RcfRes a) = (''l3'', ''Rcf'')"
| "resource_type (PrefixListRes a) = (''l3'', ''PrefixList'')"
| "resource_type (AsPathRes a) = (''l3'', ''AsPathAccessList'')"
| "resource_type (CommunityListRes a) = (''l3'', ''CommunityList'')"
| "resource_type (ExtCommunityListRes a) = (''l3'', ''ExtCommunityList'')"
| "resource_type (ConfigletRes a) = (''device'', ''Configlet'')"
| "resource_type (RawCliRes op' a) = (''device'', ''RawCli'')"

section \<open>What a name is made of\<close>

text \<open>The kind of a resource is the fixed word that its names begin with.\<close>

fun session_kind :: "managed_resource \<Rightarrow> string" where
  "session_kind (VlanRes a) = ''vlan-''"
| "session_kind (VlanRangeRes a) = ''vlanrange-''"
| "session_kind (InterfaceRes a) = ''iface-''"
| "session_kind (PortChannelRes a) = ''po-''"
| "session_kind (VlanInterfaceRes a) = ''svi-''"
| "session_kind (VxlanInterfaceRes a) = ''vxlan-''"
| "session_kind (VarpRes a) = ''varp''"
| "session_kind (StpRes a) = ''stp''"
| "session_kind (MlagRes a) = ''mlag''"
| "session_kind (EthernetSegmentRes a) = ''es-''"
| "session_kind (LoopbackRes a) = ''loopback-''"
| "session_kind (SubinterfaceRes a) = ''subif-''"
| "session_kind (GreTunnelRes a) = ''tunnel-''"
| "session_kind (VrrpRes a) = ''vrrp-''"
| "session_kind (VrfRes a) = ''vrf-''"
| "session_kind (StaticRouteRes a) = ''route-''"
| "session_kind (BfdRes a) = ''bfd-global''"
| "session_kind (ResilientEcmpRes a) = ''recmp-''"
| "session_kind (RouterBgpRes a) = ''rbgp-''"
| "session_kind (RouterOspfRes a) = ''ospf-''"
| "session_kind (RpkiRes a) = ''rpki-''"
| "session_kind (PolicyBasedRoutingRes a) = ''pbr-''"
| "session_kind (RouteMapRes a) = ''rmap-''"
| "session_kind (RcfRes a) = ''rcf-''"
| "session_kind (PrefixListRes a) = ''pfxlist-''"
| "session_kind (AsPathRes a) = ''aspath-''"
| "session_kind (CommunityListRes a) = ''comm-''"
| "session_kind (ExtCommunityListRes a) = ''extcomm-''"
| "session_kind (ConfigletRes a) = ''configlet-''"
| "session_kind (RawCliRes op' a) = ''rawcli-''"

text \<open>What tells resources of one kind apart, after the characters have been replaced.\<close>

datatype name_key =
    Whole
  | Number int
  | Span int int
  | Words string
  | WordsNumber string int
  | NumberMaybe int "string option"

fun session_key :: "managed_resource \<Rightarrow> name_key" where
  "session_key (VlanRes a) = Number (vlan_Id a)"
| "session_key (VlanRangeRes a) = Span (vr_Start a) (vr_End a)"
| "session_key (InterfaceRes a) = Words (sanitizeForSession (if_Name a))"
| "session_key (PortChannelRes a) = Number (pc_Id a)"
| "session_key (VlanInterfaceRes a) = Number (vi_VlanId a)"
| "session_key (VxlanInterfaceRes a) = Number (vx_Id a)"
| "session_key (VarpRes a) = Whole"
| "session_key (StpRes a) = Whole"
| "session_key (MlagRes a) = Whole"
| "session_key (EthernetSegmentRes a) = Words (sanitizeForSession (es_ParentInterface a))"
| "session_key (LoopbackRes a) = Number (lo_Number a)"
| "session_key (SubinterfaceRes a) = Words (sanitizeSessionName (su_Name a))"
| "session_key (GreTunnelRes a) = Number (gr_Id a)"
| "session_key (VrrpRes a) = WordsNumber (sanitizePrefixListName (vp_Interface a)) (vp_Vrid a)"
| "session_key (VrfRes a) = Words (vrf_Name a)"
| "session_key (StaticRouteRes a) = Words (staticRouteSessionToken a)"
| "session_key (BfdRes a) = Whole"
| "session_key (ResilientEcmpRes a) = Words (sanitizePrefixListName (re_Prefix a))"
| "session_key (RouterBgpRes a) = Number (rb_Asn a)"
| "session_key (RouterOspfRes a) = NumberMaybe (ro_Instance a) (map_option sanitizePrefixListName (nonempty (ro_Vrf a)))"
| "session_key (RpkiRes a) = NumberMaybe (rp_BgpAsn a) (Some (sanitizePrefixListName (rp_Name a)))"
| "session_key (PolicyBasedRoutingRes a) = Words (sanitizePrefixListName (pb_Name a))"
| "session_key (RouteMapRes a) = Words (sanitizePrefixListName (rm_Name a))"
| "session_key (RcfRes a) = Words (sanitizePrefixListName (rcf_Name a))"
| "session_key (PrefixListRes a) = Words (sanitizePrefixListName (pl_Name a))"
| "session_key (AsPathRes a) = Words (sanitizePrefixListName (ap_Name a))"
| "session_key (CommunityListRes a) = Words (sanitizePrefixListName (cl_Name a))"
| "session_key (ExtCommunityListRes a) = Words (sanitizePrefixListName (ec_Name a))"
| "session_key (ConfigletRes a) = Words (device_sanitizeForSession (cf_Name a))"
| "session_key (RawCliRes op' a) = Words (op' @ ''-'' @ device_sanitizeForSession (rc_Name a))"

fun key_text :: "name_key \<Rightarrow> string" where
  "key_text Whole = []"
| "key_text (Number i) = Itoa i"
| "key_text (Span i j) = Itoa i @ ''-'' @ Itoa j"
| "key_text (Words s) = s"
| "key_text (WordsNumber s i) = s @ ''-'' @ Itoa i"
| "key_text (NumberMaybe i x) = Itoa i @ (case x of Some s \<Rightarrow> ''-'' @ s | None \<Rightarrow> [])"

fun key_shape :: "name_key \<Rightarrow> nat" where
  "key_shape Whole = 0"
| "key_shape (Number i) = 1"
| "key_shape (Span i j) = 2"
| "key_shape (Words s) = 3"
| "key_shape (WordsNumber s i) = 4"
| "key_shape (NumberMaybe i x) = 5"

text \<open>The kinds, with the shape of their keys.\<close>

definition kind_shapes :: "(string \<times> nat) list" where
  "kind_shapes =
     [(''vlan-'', 1),
      (''vlanrange-'', 2),
      (''iface-'', 3),
      (''po-'', 1),
      (''svi-'', 1),
      (''vxlan-'', 1),
      (''varp'', 0),
      (''stp'', 0),
      (''mlag'', 0),
      (''es-'', 3),
      (''loopback-'', 1),
      (''subif-'', 3),
      (''tunnel-'', 1),
      (''vrrp-'', 4),
      (''vrf-'', 3),
      (''route-'', 3),
      (''bfd-global'', 0),
      (''recmp-'', 3),
      (''rbgp-'', 1),
      (''ospf-'', 5),
      (''rpki-'', 5),
      (''pbr-'', 3),
      (''rmap-'', 3),
      (''rcf-'', 3),
      (''pfxlist-'', 3),
      (''aspath-'', 3),
      (''comm-'', 3),
      (''extcomm-'', 3),
      (''configlet-'', 3),
      (''rawcli-'', 3)]"

text \<open>The kinds, with the types they stand for.\<close>

definition kind_types :: "(string \<times> string \<times> string) list" where
  "kind_types =
     [(''vlan-'', ''l2'', ''Vlan''),
      (''vlanrange-'', ''l2'', ''VlanRange''),
      (''iface-'', ''l2'', ''Interface''),
      (''po-'', ''l2'', ''PortChannel''),
      (''svi-'', ''l2'', ''VlanInterface''),
      (''vxlan-'', ''l2'', ''VxlanInterface''),
      (''varp'', ''l2'', ''Varp''),
      (''stp'', ''l2'', ''Stp''),
      (''mlag'', ''l2'', ''Mlag''),
      (''es-'', ''l2'', ''EvpnEthernetSegment''),
      (''loopback-'', ''l3'', ''Loopback''),
      (''subif-'', ''l3'', ''Subinterface''),
      (''tunnel-'', ''l3'', ''GreTunnel''),
      (''vrrp-'', ''l3'', ''Vrrp''),
      (''vrf-'', ''l3'', ''Vrf''),
      (''route-'', ''l3'', ''StaticRoute''),
      (''bfd-global'', ''l3'', ''Bfd''),
      (''recmp-'', ''l3'', ''ResilientEcmp''),
      (''rbgp-'', ''l3'', ''RouterBgp''),
      (''ospf-'', ''l3'', ''RouterOspf''),
      (''rpki-'', ''l3'', ''Rpki''),
      (''pbr-'', ''l3'', ''PolicyBasedRouting''),
      (''rmap-'', ''l3'', ''RouteMap''),
      (''rcf-'', ''l3'', ''Rcf''),
      (''pfxlist-'', ''l3'', ''PrefixList''),
      (''aspath-'', ''l3'', ''AsPathAccessList''),
      (''comm-'', ''l3'', ''CommunityList''),
      (''extcomm-'', ''l3'', ''ExtCommunityList''),
      (''configlet-'', ''device'', ''Configlet''),
      (''rawcli-'', ''device'', ''RawCli'')]"

lemma kind_typed: "map_of kind_types (session_kind r) = Some (resource_type r)"
  by (cases r) (simp_all add: kind_types_def)

lemma types_distinct: "distinct (map snd kind_types)"
  by code_simp

lemma types_registered: "set (map snd kind_types) = set registered_resources - {(''device'', ''Device'')}"
  by code_simp

lemma kind_type_eq: "session_kind r = session_kind s \<longleftrightarrow> resource_type r = resource_type s"
proof
  assume same: "resource_type r = resource_type s"
  have inj: "inj_on snd (set kind_types)" using types_distinct by (simp add: distinct_map)
  have "(session_kind r, resource_type r) \<in> set kind_types" "(session_kind s, resource_type s) \<in> set kind_types"
    by (rule map_of_SomeD [OF kind_typed])+
  from inj_onD [OF inj _ this] same show "session_kind r = session_kind s" by simp
next
  assume "session_kind r = session_kind s"
  then have "Some (resource_type r) = Some (resource_type s)" unfolding kind_typed [symmetric] by simp
  then show "resource_type r = resource_type s" by simp
qed

lemma resource_types: "range resource_type = set registered_resources - {(''device'', ''Device'')}"
proof (rule subset_antisym)
  have "resource_type r \<in> set (map snd kind_types)" for r
    using imageI [OF map_of_SomeD [OF kind_typed [of r]], of snd] by simp
  then show "range resource_type \<subseteq> set registered_resources - {(''device'', ''Device'')}"
    unfolding types_registered by (rule image_subsetI)
  show "set registered_resources - {(''device'', ''Device'')} \<subseteq> range resource_type"
    unfolding types_registered [symmetric] kind_types_def
    using 
rangeI [of resource_type "VlanRes undefined", unfolded resource_type.simps]
      rangeI [of resource_type "VlanRangeRes undefined", unfolded resource_type.simps]
      rangeI [of resource_type "InterfaceRes undefined", unfolded resource_type.simps]
      rangeI [of resource_type "PortChannelRes undefined", unfolded resource_type.simps]
      rangeI [of resource_type "VlanInterfaceRes undefined", unfolded resource_type.simps]
      rangeI [of resource_type "VxlanInterfaceRes undefined", unfolded resource_type.simps]
      rangeI [of resource_type "VarpRes undefined", unfolded resource_type.simps]
      rangeI [of resource_type "StpRes undefined", unfolded resource_type.simps]
      rangeI [of resource_type "MlagRes undefined", unfolded resource_type.simps]
      rangeI [of resource_type "EthernetSegmentRes undefined", unfolded resource_type.simps]
      rangeI [of resource_type "LoopbackRes undefined", unfolded resource_type.simps]
      rangeI [of resource_type "SubinterfaceRes undefined", unfolded resource_type.simps]
      rangeI [of resource_type "GreTunnelRes undefined", unfolded resource_type.simps]
      rangeI [of resource_type "VrrpRes undefined", unfolded resource_type.simps]
      rangeI [of resource_type "VrfRes undefined", unfolded resource_type.simps]
      rangeI [of resource_type "StaticRouteRes undefined", unfolded resource_type.simps]
      rangeI [of resource_type "BfdRes undefined", unfolded resource_type.simps]
      rangeI [of resource_type "ResilientEcmpRes undefined", unfolded resource_type.simps]
      rangeI [of resource_type "RouterBgpRes undefined", unfolded resource_type.simps]
      rangeI [of resource_type "RouterOspfRes undefined", unfolded resource_type.simps]
      rangeI [of resource_type "RpkiRes undefined", unfolded resource_type.simps]
      rangeI [of resource_type "PolicyBasedRoutingRes undefined", unfolded resource_type.simps]
      rangeI [of resource_type "RouteMapRes undefined", unfolded resource_type.simps]
      rangeI [of resource_type "RcfRes undefined", unfolded resource_type.simps]
      rangeI [of resource_type "PrefixListRes undefined", unfolded resource_type.simps]
      rangeI [of resource_type "AsPathRes undefined", unfolded resource_type.simps]
      rangeI [of resource_type "CommunityListRes undefined", unfolded resource_type.simps]
      rangeI [of resource_type "ExtCommunityListRes undefined", unfolded resource_type.simps]
      rangeI [of resource_type "ConfigletRes undefined", unfolded resource_type.simps]
      rangeI [of resource_type "RawCliRes [] undefined", unfolded resource_type.simps]
    by simp
qed

lemma kind_listed: "map_of kind_shapes (session_kind r) = Some (key_shape (session_key r))"
  by (cases r) (simp_all add: kind_shapes_def)

lemma kinds_unambiguous:
  "list_all (\<lambda>k. list_all (\<lambda>l. CutPrefix l k = None \<or> k = l) (map fst kind_shapes)) (map fst kind_shapes)"
  by code_simp

lemma suffix_parts: "session_suffix r = session_kind r @ key_text (session_key r)"
  by (cases r) (simp_all add: vlan_span_def ospf_suffix_def rawcli_suffix_def split: option.split)

lemma apply_session_overrides: "apply_session C (overrides.truncate a) = apply_session C a"
  by (simp add: fun_eq_iff apply_session_def newClient_def overrides.truncate_def)

lemma plain_cmds_apply:
  "plain_cmds r rm = Some cmds \<Longrightarrow>
     apply_resource C r rm = Some (apply_session C (resource_overrides r) (session_suffix r) cmds)"
  by (cases r)
    (auto simp: fun_eq_iff apply_session_overrides applyVlan_def applyVlanRange_def applyInterface_def
      applyPortChannel_def applyVlanInterface_def applyVxlanInterface_def applyVarp_def applyStp_def
      applyMlag_def applyEvpnEthernetSegment_def applyLoopback_def applySubinterface_def
      applyGreTunnel_def applyVrrp_def applyVrf_def applyStaticRoute_def applyBfd_def
      applyResilientEcmp_def applyRouterBgp_def applyRouterOspf_def applyRpki_def applyPbr_def
      applyRouteMap_def applyRcf_def applyPrefixList_def applyAsPathAccessList_def
      applyCommunityList_def applyExtCommunityList_def applyConfiglet_def
      split: sum.splits res.splits if_splits)

section \<open>Reading a name\<close>

lemma hyphen_unique:
  assumes "d @ CHR ''-'' # x = e @ CHR ''-'' # y" and "CHR ''-'' \<notin> set d" and "CHR ''-'' \<notin> set e"
  shows "d = e \<and> x = y"
proof -
  have cut: "takeWhile (\<lambda>c. c \<noteq> CHR ''-'') (ds @ CHR ''-'' # z) = ds" if "CHR ''-'' \<notin> set ds" for ds z
    using that by (induction ds) auto
  from cut [OF assms(2), of x] cut [OF assms(3), of y] assms(1) have "d = e" by simp
  with assms(1) show ?thesis by simp
qed

lemma Itoa_hyphen:
  assumes "Itoa v @ CHR ''-'' # x = Itoa w @ CHR ''-'' # y"
  shows "v = w \<and> x = y"
proof (cases "v < 0 \<longleftrightarrow> w < 0")
  case True
  then have "nat_digits (nat (\<bar>v\<bar>)) @ CHR ''-'' # x = nat_digits (nat (\<bar>w\<bar>)) @ CHR ''-'' # y"
    using assms by (auto simp: Itoa_def split: if_splits)
  from hyphen_unique [OF this digits_no_hyphen digits_no_hyphen] True show ?thesis
    by (auto dest!: nat_digits_inj split: if_splits)
next
  case False
  then show ?thesis
    using assms nat_digits_hd [of "nat v"] nat_digits_hd [of "nat w"] by (auto simp: Itoa_def split: if_splits)
qed

lemma Itoa_no_hyphen:
  "Itoa v \<noteq> Itoa w @ CHR ''-'' # y"
proof
  assume e: "Itoa v = Itoa w @ CHR ''-'' # y"
  obtain ds where ds: "Itoa v = ds \<or> Itoa v = CHR ''-'' # ds" "CHR ''-'' \<notin> set ds"
    using digits_no_hyphen by (metis Itoa_def)
  have "\<exists>c cs. Itoa w = c # cs" using Itoa_nonempty [of w] by (cases "Itoa w") auto
  with e ds show False by auto
qed

text \<open>The hyphen in front of a number that is not negative is the last one of the name.\<close>

lemma Itoa_last_hyphen:
  assumes "x @ CHR ''-'' # Itoa v = y @ CHR ''-'' # Itoa w" and "0 \<le> v" and "0 \<le> w"
  shows "x = y \<and> v = w"
proof -
  have "rev (Itoa v) @ CHR ''-'' # rev x = rev (Itoa w) @ CHR ''-'' # rev y"
    using arg_cong [OF assms(1), of rev] by simp
  moreover have "CHR ''-'' \<notin> set (rev (Itoa v))" "CHR ''-'' \<notin> set (rev (Itoa w))"
    using assms(2,3) digits_no_hyphen by (simp_all add: Itoa_def)
  ultimately have "rev (Itoa v) = rev (Itoa w) \<and> rev x = rev y" by (rule hyphen_unique)
  then show ?thesis by (auto dest: Itoa_injective)
qed

fun key_readable :: "name_key \<Rightarrow> bool" where
  "key_readable (WordsNumber s i) = (0 \<le> i)"
| "key_readable _ = True"

lemma key_text_inj:
  assumes "key_shape k = key_shape l" and "key_readable k" and "key_readable l" and "key_text k = key_text l"
  shows "k = l"
  using assms
  by (cases k; cases l)
    (auto dest: Itoa_injective Itoa_hyphen Itoa_last_hyphen simp: Itoa_no_hyphen Itoa_no_hyphen [symmetric] split: option.splits)

text \<open>The fixed words can be told apart whatever follows them.\<close>

lemma kinds_split:
  assumes "k @ x = l @ y" and "k \<in> set (map fst kind_shapes)" and "l \<in> set (map fst kind_shapes)"
  shows "k = l \<and> x = y"
proof -
  have apart: "CutPrefix q p = None \<or> p = q"
    if "p \<in> set (map fst kind_shapes)" "q \<in> set (map fst kind_shapes)" for p q
    by (rule kinds_unambiguous [unfolded list_all_iff, rule_format, OF that])
  obtain us where "k = l @ us \<or> l = k @ us" using assms(1) by (auto simp: append_eq_append_conv2)
  then have "CutPrefix k l \<noteq> None \<or> CutPrefix l k \<noteq> None" by auto
  with apart [OF assms(2,3)] apart [OF assms(3,2)] have "k = l" by auto
  with assms(1) show ?thesis by simp
qed

text \<open>
  Validation of a VRRP group keeps its number positive; nothing else has to be valid for the
  names to be readable.
\<close>

fun admitted :: "managed_resource \<Rightarrow> bool" where
  "admitted (VrrpRes a) = (validateVrrp a = None)"
| "admitted _ = True"

lemma admitted_readable: "admitted r \<Longrightarrow> key_readable (session_key r)"
  by (cases r) (auto simp: validateVrrp_def Let_def split: if_splits)

lemma session_name_eq:
  assumes "admitted r" and "admitted s"
  shows "session_name C (session_suffix r) = session_name C (session_suffix s) \<longleftrightarrow>
    session_kind r = session_kind s \<and> session_key r = session_key s"
proof
  assume "session_name C (session_suffix r) = session_name C (session_suffix s)"
  then have "session_kind r @ key_text (session_key r) = session_kind s @ key_text (session_key s)"
    by (simp add: session_name_def suffix_parts)
  moreover have "session_kind q \<in> set (map fst kind_shapes)" for q
    using kind_listed [of q] by (force dest: map_of_SomeD)
  ultimately have "session_kind r = session_kind s \<and> key_text (session_key r) = key_text (session_key s)"
    by (intro kinds_split)
  moreover from this have "key_shape (session_key r) = key_shape (session_key s)"
    using kind_listed [of r] kind_listed [of s] by simp
  ultimately show "session_kind r = session_kind s \<and> session_key r = session_key s"
    using key_text_inj admitted_readable assms by blast
qed (simp add: suffix_parts)

end
