(* ===== verification/Session_Confined.thy ===== *)
theory Session_Confined
  imports Session_Names
begin

text \<open>
  That an apply function stays in its session: \<open>only_session\<close> is an environment that answers
  nothing but the requests of one session, and an apply function that does the same in it
  as in the environment without that limit, whatever the device, has sent no other request.
\<close>

section \<open>The environment of one session\<close>

definition show_diffs :: "string \<Rightarrow> string list" where
  "show_diffs name = [''show session-config named '' @ name @ '' diffs'']"

text \<open>A rich request of the session: its commands are wrapped in \<open>configure session\<close> and \<open>end\<close>.\<close>

definition rich_request :: "string \<Rightarrow> json \<Rightarrow> bool" where
  "rich_request name body \<longleftrightarrow>
     (\<exists>cs. body = buildRichPayload (plain (''configure session '' @ name) # cs @ [plain ''end'']) ''json'')"

definition only_session :: "('n, 'w) env \<Rightarrow> string \<Rightarrow> ('n, 'w) env" where
  "only_session E name =
     E\<lparr>node_run := (\<lambda>n cmds fmt w.
          if cmds \<in> session_requests name \<or> cmds = show_diffs name then node_run E n cmds fmt w
          else (Inl (Foreign ''not a request of the session''), w)),
        http_do := (\<lambda>q w.
          if rich_request name (hr_Body q) then http_do E q w
          else (Inl (Foreign ''not a request of the session''), w))\<rparr>"

lemma only_session_same [simp]:
  "goeapi_connect (only_session E name) = goeapi_connect E" "ctx_err (only_session E name) = ctx_err E"
  "select_done (only_session E name) = select_done E" "new_request_err (only_session E name) = new_request_err E"
  by (simp_all add: only_session_def)

lemma RunCmds_only:
  "cmds \<in> session_requests name \<or> cmds = show_diffs name \<Longrightarrow>
     RunCmds (only_session E name) c cmds fmt w = RunCmds E c cmds fmt w"
  by (simp add: RunCmds_def only_session_def cong: option.case_cong)

lemma in_session_requests:
  "open_cmds name \<in> session_requests name" "stage_cmds name m \<in> session_requests name"
  "[commit_cmd name] \<in> session_requests name" "[abort_cmd name] \<in> session_requests name"
  by (simp_all add: session_requests_def)

lemmas RunCmds_in_session = RunCmds_only [OF disjI1 [OF in_session_requests(1)]]
  RunCmds_only [OF disjI1 [OF in_session_requests(2)]] RunCmds_only [OF disjI1 [OF in_session_requests(3)]]
  RunCmds_only [OF disjI1 [OF in_session_requests(4)]]

lemma calls_only:
  "OpenSession (only_session E name) c name w = OpenSession E c name w"
  "s_name s = name \<Longrightarrow> Stage (only_session E name) s m w = Stage E s m w"
  "s_name s = name \<Longrightarrow> Commit (only_session E name) s w = Commit E s w"
  "s_name s = name \<Longrightarrow> Abort (only_session E name) s w = Abort E s w"
  by (auto simp: OpenSession_eq Stage_def Commit_def Abort_def RunCmds_in_session)

lemma Diff_only: "s_name s = name \<Longrightarrow> Diff (only_session E name) s w = Diff E s w"
  using RunCmds_only [of "show_diffs name" name E "s_parent s" "''text''" w]
  by (auto simp: Diff_def show_diffs_def)

lemma postEAPI_only:
  "rich_request name body \<Longrightarrow> postEAPI (only_session E name) c body w = postEAPI E c body w"
  by (simp add: postEAPI_def only_session_def Let_def split: option.split)

lemma StageRich_only:
  assumes "s_name s = name"
  shows "StageRich (only_session E name) s m w = StageRich E s m w"
proof -
  define cs where "cs = plain (''configure session '' @ name) # m @ [plain ''end'']"
  have "rich_request name (buildRichPayload cs ''json'')"
    unfolding rich_request_def cs_def by blast
  then have "RunCmdsRich (only_session E name) (s_parent s) cs ''json'' w = RunCmdsRich E (s_parent s) cs ''json'' w"
    by (simp add: RunCmdsRich_def postEAPI_only split: option.split)
  then show ?thesis unfolding StageRich_def assms cs_def [symmetric] by simp
qed

section \<open>The patterns in it\<close>

lemma with_session_cong:
  assumes "opn' c name w = opn c name w"
    and "\<And>s c1 w1. opn c name w = (Ok s, c1, w1) \<Longrightarrow>
           (\<forall>v. stg' s m v = stg s m v) \<and> (\<forall>v. abt' s v = abt s v) \<and> (\<forall>v. cmt' s v = cmt s v)"
  shows "with_session opn' stg' abt' cmt' par c name m w = with_session opn stg abt cmt par c name m w"
  using assms by (auto simp: with_session_def split: res.split prod.split)

lemma with_diff_session_cong:
  assumes "opn' c name w = opn c name w"
    and "\<And>s c1 w1. opn c name w = (Ok s, c1, w1) \<Longrightarrow>
           (\<forall>v. stg' s m v = stg s m v) \<and> (\<forall>v. dif' s v = dif s v)
           \<and> (\<forall>v. abt' s v = abt s v) \<and> (\<forall>v. cmt' s v = cmt s v)"
  shows "with_diff_session opn' stg' dif' abt' cmt' par c name m w
       = with_diff_session opn stg dif abt cmt par c name m w"
proof (cases "opn c name w")
  case (fields ro c1 w1)
  show ?thesis
  proof (cases ro)
    case (Ok s)
    with assms(2) [of s c1 w1] fields have same: "stg' s m v = stg s m v" "dif' s v = dif s v"
      "abt' s v = abt s v" "cmt' s v = cmt s v" for v by simp_all
    show ?thesis
      by (simp add: with_diff_session_def assms(1) fields Ok same split: res.split prod.split)
  qed (simp_all add: with_diff_session_def assms(1) fields)
qed

lemma run_session_only:
  "run_session (only_session E name) c name cmds w = run_session E c name cmds w"
  unfolding run_session_def
  by (rule with_session_cong) (auto simp: calls_only dest!: OpenSession_session)

lemma rich_session_only:
  "with_session (OpenSession (only_session E name)) (StageRich (only_session E name)) (Abort (only_session E name))
     (Commit (only_session E name)) s_parent c name cmds w
   = with_session (OpenSession E) (StageRich E) (Abort E) (Commit E) s_parent c name cmds w"
  by (rule with_session_cong) (auto simp: calls_only StageRich_only dest!: OpenSession_session)

lemma run_diff_session_only:
  "run_diff_session (only_session E name) c name cmds w = run_diff_session E c name cmds w"
  unfolding run_diff_session_def
  by (rule with_diff_session_cong) (auto simp: calls_only Diff_only dest!: OpenSession_session)

section \<open>The apply functions in it\<close>

definition confined :: "('n, 'w) ctx \<Rightarrow> string \<Rightarrow> ('n, 'w) ctx" where
  "confined C name = C\<lparr>cx_env := only_session (cx_env C) name\<rparr>"

lemma confined_same [simp]:
  "newClient (confined C name) ov = newClient C ov" "session_name (confined C name) suffix = session_name C suffix"
  "cx_env (confined C name) = only_session (cx_env C) name" "cx_lib (confined C name) = cx_lib C"
  by (simp_all add: confined_def newClient_def EAPIClient_def New_def session_name_def Let_def
      split: sum.split option.split)

lemma apply_session_confined:
  "apply_session (confined C (session_name C suffix)) ov suffix cmds = apply_session C ov suffix cmds"
  by (simp add: fun_eq_iff apply_session_def run_session_only split: res.split)

lemma apply_rich_session_confined:
  "apply_rich_session (confined C (session_name C suffix)) ov suffix cmds = apply_rich_session C ov suffix cmds"
  by (simp add: fun_eq_iff apply_rich_session_def rich_session_only split: res.split)

lemma applyVarp_confined:
  "applyVarp (confined C (session_name C ''varp'')) a rm = applyVarp C a rm"
proof -
  let ?D = "confined C (session_name C ''varp'')"
  have "(case OpenSession (cx_env C) cli (session_name C ''varp'') w of
        (Ok s, _, w1) \<Rightarrow> (case Abort (cx_env ?D) s w1 of (r, _, w2) \<Rightarrow> (after_abort e r, w2))
      | (r, _, w1) \<Rightarrow> (map_res (\<lambda>_. ()) r, w1))
    = (case OpenSession (cx_env C) cli (session_name C ''varp'') w of
        (Ok s, _, w1) \<Rightarrow> (case Abort (cx_env C) s w1 of (r, _, w2) \<Rightarrow> (after_abort e r, w2))
      | (r, _, w1) \<Rightarrow> (map_res (\<lambda>_. ()) r, w1))" for cli w e
    by (auto simp: calls_only split: prod.split res.split dest!: OpenSession_session)
  then show ?thesis
    by (simp add: fun_eq_iff applyVarp_def apply_session_confined calls_only split: sum.split)
qed

lemma applyRawCli_confined:
  "applyRawCli (confined C (session_name C (rawcli_suffix op' (rc_Name a)))) a cmds op' = applyRawCli C a cmds op'"
  by (simp add: fun_eq_iff applyRawCli_def run_diff_session_only)

lemma apply_resource_confined:
  "apply_resource (confined C (session_name C (session_suffix r))) r rm = apply_resource C r rm"
proof (cases "plain_cmds r rm")
  case (Some cmds)
  show ?thesis unfolding plain_cmds_apply [OF Some] apply_session_confined ..
next
  case None
  then show ?thesis
    by (cases r)
      (auto simp: fun_eq_iff applyVarp_confined applyResilientEcmp_def applyRcf_def apply_rawcli_def
        applyRawCli_confined apply_rich_session_confined apply_session_confined split: res.splits)
qed

lemma apply_resource_None:
  "apply_resource C r rm = None \<longleftrightarrow>
     rm \<and> (\<exists>a. r = ConfigletRes a) \<or> (\<exists>op' a. r = RawCliRes op' a \<and> rawcli_lines a rm = [])"
  by (cases r) simp_all

end
