(* ===== verification/Concurrent_Applies.thy ===== *)
theory Concurrent_Applies
  imports Session_Confined
begin

text \<open>
  Resources applied at the same time: which of them can meet in one session, and what becomes
  of the device when those that cannot are interleaved.
\<close>





text \<open>
  C7. Session names.  Two of the resources that open sessions, which are all that the provider
  registers but the device itself, use one session exactly when they are of the same type and
  agree in what tells resources of that type apart: the number, or the name (of a raw block
  with the operation) after its separators have become hyphens.  So resources of different
  types never meet, nor do two that are told apart by a number.  Every apply function sends
  requests of the session of that name and no other, on every path: plain commands, inline
  RCF code, a raw block with its inspection and a VARP address that is rejected after the session was
  opened.  Where it sends plain commands it is one run of open, stage, and commit or abort.
  Only the removal of a configlet, and of a raw block without lines, has none.
\<close>

theorem session_names_apart:
  assumes "admitted r" and "admitted s"
  shows "(session_name C (session_suffix r) = session_name C (session_suffix s) \<longleftrightarrow>
       resource_type r = resource_type s \<and> session_key r = session_key s)
    \<and> range resource_type = set registered_resources - {(''device'', ''Device'')}
    \<and> (\<forall>rm. apply_resource (confined C (session_name C (session_suffix r))) r rm = apply_resource C r rm)
    \<and> (\<forall>rm cmds. plain_cmds r rm = Some cmds \<longrightarrow>
         apply_resource C r rm = Some (apply_session C (resource_overrides r) (session_suffix r) cmds))
    \<and> (\<forall>rm. apply_resource C r rm = None \<longleftrightarrow>
         rm \<and> (\<exists>a. r = ConfigletRes a) \<or> (\<exists>op' a. r = RawCliRes op' a \<and> rawcli_lines a rm = []))"
  using session_name_eq [OF assms, of C] resource_types apply_resource_confined [where C = C and r = r]
    plain_cmds_apply [where C = C and r = r] apply_resource_None [where C = C and r = r]
  unfolding kind_type_eq by (intro conjI allI impI) assumption+

theorem session_names_apart_witness:
  "session_name multi_ctx (session_suffix (VlanRes demo_vlan_args))
     \<noteq> session_name multi_ctx (session_suffix (VlanInterfaceRes demo_svi))"
  using session_names_apart [of "VlanRes demo_vlan_args" "VlanInterfaceRes demo_svi" multi_ctx] by simp





end
