(* ===== verification/Create_Then_Read.thy ===== *)
theory Create_Then_Read
  imports L2_Properties L3_Handlers
begin

text \<open>
  A whole cycle: Create writes to the device, Read asks it, and the answer is parsed.  The two
  halves, that a successful apply has merged the rendered commands and that the parsers undo
  the renderers, are put together over a device that shows what was merged.
\<close>

text \<open>
  What a device answers to a \<open>show\<close> command depends on its running configuration:
  \<open>display cfg cmd\<close> is the text.
\<close>

definition answers_shows ::
  "('n, 'w) ctx \<Rightarrow> ('w \<Rightarrow> 'cfg) \<Rightarrow> ('cfg \<Rightarrow> string \<Rightarrow> string) \<Rightarrow> bool" where
  "answers_shows C running display \<longleftrightarrow>
     (\<forall>cli cmd w out w'. HasPrefix cmd ''show '' \<longrightarrow> show_text C cli cmd w = (Ok out, w') \<longrightarrow>
        out = display (running w) cmd)"

text \<open>
  After a successful Create, in a session in which nothing was pending, on a device that shows
  the merged commands as \<open>shown\<close>: if the show command is answered at all, Read returns the ID
  and the state that Create returned, and the inputs as they were.
\<close>

definition reads_back ::
  "('n, 'w) ctx \<Rightarrow> ('w \<Rightarrow> 'cfg) \<Rightarrow> (string \<Rightarrow> 'w \<Rightarrow> string list) \<Rightarrow> ('cfg \<Rightarrow> string list \<Rightarrow> 'cfg) \<Rightarrow>
   ('cfg \<Rightarrow> string \<Rightarrow> string) \<Rightarrow> string \<Rightarrow> string list \<Rightarrow> string \<Rightarrow> (string \<Rightarrow> bool) \<Rightarrow> string list \<Rightarrow>
   ('x overrides_scheme request \<Rightarrow> 'w \<Rightarrow> 'x overrides_scheme created res \<times> 'w) \<Rightarrow>
   ('x overrides_scheme \<Rightarrow> 'w \<Rightarrow> ('x overrides_scheme, 'x overrides_scheme) read_response option res \<times> 'w) \<Rightarrow>
   'x overrides_scheme \<Rightarrow> 'w \<Rightarrow> bool" where
  "reads_back C running pending merge display suffix cmds cmd idle shown create read a w \<longleftrightarrow>
     (\<forall>resp w1 cli out w2.
        create \<lparr>Inputs = a, DryRun = False\<rparr> w = (Ok resp, w1) \<longrightarrow>
        pending (session_name C suffix) w = [] \<longrightarrow>
        prints idle (display (merge (running w) cmds) cmd) shown \<longrightarrow>
        newClient C a = Ok cli \<longrightarrow> show_text C cli cmd w1 = (Ok out, w2) \<longrightarrow>
        read a w1 = (Ok (Some \<lparr>rd_ID = cr_ID resp, rd_Inputs = a, rd_State = cr_Output resp\<rparr>), w2))"

text \<open>A resource that is written in one session and read back from one text.\<close>

locale read_after_write =
  session_managed C validate ident apply_to suffix cmds + readback validate canonical idle shown parse fill
  for C :: "('n, 'w) ctx"
    and validate :: "'x overrides_scheme \<Rightarrow> error option"
    and ident :: "'x overrides_scheme \<Rightarrow> string"
    and apply_to :: "'x overrides_scheme \<Rightarrow> bool \<Rightarrow> 'w \<Rightarrow> unit res \<times> 'w"
    and suffix :: "'x overrides_scheme \<Rightarrow> string"
    and cmds :: "'x overrides_scheme \<Rightarrow> bool \<Rightarrow> string list"
    and canonical :: "'x overrides_scheme \<Rightarrow> bool"
    and idle :: "string \<Rightarrow> bool"
    and shown :: "'x overrides_scheme \<Rightarrow> string list"
    and parse :: "'x overrides_scheme \<Rightarrow> string \<Rightarrow> 'r option res"
    and fill :: "'r \<Rightarrow> 'x overrides_scheme \<Rightarrow> 'x overrides_scheme"
begin

lemma created_reads_back:
  assumes h: "\<forall>n name. honours_sessions (cx_env C) n name running (pending name) merge"
    and d: "answers_shows C running display" and c: "canonical a" and p: "HasPrefix (cmd a) ''show ''"
  shows "reads_back C running pending merge display (suffix a) (cmds a False) (cmd a) idle (shown a)
    (crud_create validate ident apply_to lab)
    (crud_read (newClient C) (\<lambda>cli a. read_text C cli (cmd a) (parse a)) ident fill) a w"
  unfolding reads_back_def
proof (intro allI impI)
  fix resp w1 cli out w2
  assume made: "crud_create validate ident apply_to lab \<lparr>Inputs = a, DryRun = False\<rparr> w = (Ok resp, w1)"
    and none: "pending (session_name C (suffix a)) w = []"
    and printed: "prints idle (display (merge (running w) (cmds a False)) (cmd a)) (shown a)"
    and cli: "newClient C a = Ok cli" and show': "show_text C cli (cmd a) w1 = (Ok out, w2)"
  have valid: "validate a = None" and resp: "resp = \<lparr>cr_ID = ident a, cr_Output = a\<rparr>"
    using create_Ok_iff [where req = "\<lparr>Inputs = a, DryRun = False\<rparr>" and lab = lab and w = w and resp = resp] made by simp_all
  have "\<forall>n. honours_sessions (cx_env C) n (session_name C (suffix a)) running (pending (session_name C (suffix a))) merge"
    using h by blast
  from handlers_device(1) [OF this, where validate = validate and ident = ident and lab = lab and w = w] made none
  have "running w1 = merge (running w) (cmds a False)" by (simp add: changed_by_def)
  moreover have "out = display (running w1) (cmd a)" using d p show' unfolding answers_shows_def by blast
  ultimately have "prints idle out (shown a)" using printed by simp
  from refresh_stable [where client = "newClient C" and cmd = cmd and ident = ident, OF valid c this cli show'] resp
  show "crud_read (newClient C) (\<lambda>cli a. read_text C cli (cmd a) (parse a)) ident fill a w1
      = (Ok (Some \<lparr>rd_ID = cr_ID resp, rd_Inputs = a, rd_State = cr_Output resp\<rparr>), w2)" by simp
qed

end


interpretation interface_cycle: read_after_write C validateInterface "\<lambda>a. interfaceID (if_Name a)"
  "applyInterface C" "\<lambda>a. ''iface-'' @ sanitizeForSession (if_Name a)" buildInterfaceCmds
  canonical_interface interface_idle "\<lambda>a. buildInterfaceCmds a False" "\<lambda>a out. Ok (parseInterfaceConfig out (if_Name a))" fillInterface
  by unfold_locales

interpretation portChannel_cycle: read_after_write C validatePortChannel "\<lambda>a. portChannelID (pc_Id a)"
  "applyPortChannel C" "\<lambda>a. ''po-'' @ Itoa (pc_Id a)" buildPortChannelCmds
  canonical_port_channel interface_idle "\<lambda>a. buildPortChannelCmds a False" "\<lambda>a out. Ok (parsePortChannelConfig out (pc_Id a))" fillPortChannel
  by unfold_locales

interpretation vlanInterface_cycle: read_after_write C validateVlanInterface "\<lambda>a. vlanInterfaceID (vi_VlanId a)"
  "applyVlanInterface C" "\<lambda>a. ''svi-'' @ Itoa (vi_VlanId a)" buildVlanInterfaceCmds
  canonical_vlan_interface svi_idle "\<lambda>a. buildVlanInterfaceCmds a False" "\<lambda>a out. Ok (parseVlanInterfaceConfig out (vi_VlanId a))" fillVlanInterface
  by unfold_locales

interpretation stp_cycle: read_after_write C validateStp "\<lambda>_. stpID"
  "applyStp C" "\<lambda>_. ''stp''" buildStpCmds
  canonical_stp stp_idle shown_stp "\<lambda>a out. Ok (parseStpConfig out)" fillStp
  by unfold_locales

interpretation mlag_cycle: read_after_write C validateMlag "\<lambda>_. mlagID"
  "applyMlag C" "\<lambda>_. ''mlag''" buildMlagCmds
  canonical_mlag mlag_idle "\<lambda>a. buildMlagCmds a False" "\<lambda>a out. Ok (parseMlagConfig out)" fillMlag
  by unfold_locales

interpretation evpnEthernetSegment_cycle: read_after_write C validateEvpnEthernetSegment "\<lambda>a. evpnEthernetSegmentID (es_ParentInterface a)"
  "applyEvpnEthernetSegment C" "\<lambda>a. ''es-'' @ sanitizeForSession (es_ParentInterface a)" buildEvpnEthernetSegmentCmds
  canonical_es es_idle "\<lambda>a. buildEvpnEthernetSegmentCmds a False" "\<lambda>a out. parseEvpnEthernetSegmentConfig out (es_ParentInterface a)" fillEvpnEthernetSegment
  by unfold_locales

interpretation loopback_cycle: read_after_write C validateLoopback "\<lambda>a. loopbackID (lo_Number a)"
  "applyLoopback C" "\<lambda>a. ''loopback-'' @ Itoa (lo_Number a)" buildLoopbackCmds
  "\<lambda>_. True" loopback_idle "\<lambda>a. buildLoopbackCmds a False" "\<lambda>a out. Ok (parseLoopbackConfig out (lo_Number a))" fillLoopback
  by unfold_locales

interpretation subinterface_cycle: read_after_write C validateSubinterface "\<lambda>a. subinterfaceID (su_Name a)"
  "applySubinterface C" "\<lambda>a. ''subif-'' @ sanitizeSessionName (su_Name a)" buildSubinterfaceCmds
  canonical_subinterface subinterface_idle "\<lambda>a. buildSubinterfaceCmds a False" "\<lambda>a out. Ok (Some (parseSubinterfaceConfig out (su_Name a)))" fillSubinterface
  by unfold_locales

interpretation greTunnel_cycle: read_after_write C validateGreTunnel "\<lambda>a. greTunnelID (gr_Id a)"
  "applyGreTunnel C" "\<lambda>a. ''tunnel-'' @ Itoa (gr_Id a)" buildGreTunnelCmds
  canonical_gre gre_idle "\<lambda>a. buildGreTunnelCmds a False" "\<lambda>a out. Ok (parseGreTunnelConfig out (gr_Id a))" fillGreTunnel
  by unfold_locales

text \<open>
  C8. Create, then Read.  Take a device that implements sessions as documented and answers a
  show command from its running configuration.  When a Create has succeeded, and the device
  shows the merged commands, the Read that follows returns the ID and the state that Create
  returned: no drift, for each of nine resources and all their valid arguments in canonical
  form.
\<close>

theorem create_then_read:
  assumes "\<forall>n name. honours_sessions (cx_env C) n name running (pending name) merge"
    and "answers_shows C running display"
  shows "(canonical_interface it \<longrightarrow> reads_back C running pending merge display (''iface-'' @ sanitizeForSession (if_Name it)) (buildInterfaceCmds it False)
         (''show running-config interfaces '' @ if_Name it) interface_idle (buildInterfaceCmds it False) (Interface_Create C) (Interface_Read C) it w)
     \<and> (canonical_port_channel pc \<longrightarrow> reads_back C running pending merge display (''po-'' @ Itoa (pc_Id pc)) (buildPortChannelCmds pc False)
         (''show running-config interfaces '' @ portChannelName (pc_Id pc)) interface_idle (buildPortChannelCmds pc False) (PortChannel_Create C) (PortChannel_Read C) pc w)
     \<and> (canonical_vlan_interface vi \<longrightarrow> reads_back C running pending merge display (''svi-'' @ Itoa (vi_VlanId vi)) (buildVlanInterfaceCmds vi False)
         (''show running-config interfaces Vlan'' @ Itoa (vi_VlanId vi)) svi_idle (buildVlanInterfaceCmds vi False) (VlanInterface_Create C) (VlanInterface_Read C) vi w)
     \<and> (canonical_stp st \<longrightarrow> reads_back C running pending merge display (''stp'') (buildStpCmds st False)
         (''show running-config | section spanning-tree'') stp_idle (shown_stp st) (Stp_Create C) (Stp_Read C) st w)
     \<and> (canonical_mlag ml \<longrightarrow> reads_back C running pending merge display (''mlag'') (buildMlagCmds ml False)
         (''show running-config | section mlag configuration'') mlag_idle (buildMlagCmds ml False) (Mlag_Create C) (Mlag_Read C) ml w)
     \<and> (canonical_es es \<longrightarrow> reads_back C running pending merge display (''es-'' @ sanitizeForSession (es_ParentInterface es)) (buildEvpnEthernetSegmentCmds es False)
         (''show running-config interfaces '' @ es_ParentInterface es) es_idle (buildEvpnEthernetSegmentCmds es False) (EvpnEthernetSegment_Create C) (EvpnEthernetSegment_Read C) es w)
     \<and> reads_back C running pending merge display (''loopback-'' @ Itoa (lo_Number lo)) (buildLoopbackCmds lo False)
         (''show running-config interfaces '' @ loopbackName (lo_Number lo)) loopback_idle (buildLoopbackCmds lo False) (Loopback_Create C) (Loopback_Read C) lo w
     \<and> (canonical_subinterface su \<longrightarrow> reads_back C running pending merge display (''subif-'' @ sanitizeSessionName (su_Name su)) (buildSubinterfaceCmds su False)
         (''show running-config interfaces '' @ su_Name su) subinterface_idle (buildSubinterfaceCmds su False) (Subinterface_Create C) (Subinterface_Read C) su w)
     \<and> (canonical_gre gr \<longrightarrow> reads_back C running pending merge display (''tunnel-'' @ Itoa (gr_Id gr)) (buildGreTunnelCmds gr False)
         (''show running-config interfaces Tunnel'' @ Itoa (gr_Id gr)) gre_idle (buildGreTunnelCmds gr False) (GreTunnel_Create C) (GreTunnel_Read C) gr w)"
  unfolding Interface_Create_def Interface_Read_def readInterface_def
    PortChannel_Create_def PortChannel_Read_def readPortChannel_def
    VlanInterface_Create_def VlanInterface_Read_def readVlanInterface_def
    Stp_Create_def Stp_Read_def readStp_def
    Mlag_Create_def Mlag_Read_def readMlag_def
    EvpnEthernetSegment_Create_def EvpnEthernetSegment_Read_def readEvpnEthernetSegment_def
    Loopback_Create_def Loopback_Read_def readLoopback_def
    Subinterface_Create_def Subinterface_Read_def readSubinterface_def
    GreTunnel_Create_def GreTunnel_Read_def readGreTunnel_def
  by (intro conjI impI interface_cycle.created_reads_back [where running = running and pending = pending and merge = merge, OF assms]
      portChannel_cycle.created_reads_back [where running = running and pending = pending and merge = merge, OF assms]
      vlanInterface_cycle.created_reads_back [where running = running and pending = pending and merge = merge, OF assms]
      stp_cycle.created_reads_back [where running = running and pending = pending and merge = merge, OF assms]
      mlag_cycle.created_reads_back [where running = running and pending = pending and merge = merge, OF assms]
      evpnEthernetSegment_cycle.created_reads_back [where running = running and pending = pending and merge = merge, OF assms]
      loopback_cycle.created_reads_back [where running = running and pending = pending and merge = merge, OF assms]
      subinterface_cycle.created_reads_back [where running = running and pending = pending and merge = merge, OF assms]
      greTunnel_cycle.created_reads_back [where running = running and pending = pending and merge = merge, OF assms];
      simp add: HasPrefix_def)

section \<open>A device that shows what it has merged\<close>

definition screen_ctx :: "(unit, multi) ctx" where
  "screen_ctx =
     \<lparr>cx_env = \<lparr>goeapi_connect = (\<lambda>_ _ _ _ _. Inr ()),
        node_run = (\<lambda>_ cmds _ w.
          if length cmds = 1 \<and> HasPrefix (hd cmds) ''show ''
          then (Inr [[(''output'', JStr (demo_text (mu_running w)))]], w) else (Inr [], multi_run cmds w)),
        new_request_err = (\<lambda>_. None), http_do = (\<lambda>_ w. (Inr (Inr \<lparr>rpc_Result = [], rpc_Error = None\<rparr>), w)),
        ctx_err = (\<lambda>_. None), select_done = (\<lambda>_. False)\<rparr>,
      cx_config = demo_config, cx_lib = demo_lib\<rparr>"

lemma screen_honours:
  "honours_sessions (cx_env screen_ctx) n name mu_running (\<lambda>w. mu_pending w name) (@)"
  by (simp add: honours_sessions_def screen_ctx_def multi_run_def multi_single_def open_cmds_def
      stage_cmds_def commit_cmd_def abort_cmd_def HasPrefix_def)

lemma screen_shows: "answers_shows screen_ctx mu_running (\<lambda>cfg cmd. demo_text cfg)"
  unfolding answers_shows_def
proof (intro allI impI)
  fix cli :: "unit client" and cmd w out w'
  assume "HasPrefix cmd ''show ''" and "show_text screen_ctx cli cmd w = (Ok out, w')"
  then show "out = demo_text (mu_running w)"
    by (auto simp: show_text_def RunCmds_def screen_ctx_def text_output_def get_str_def split: option.splits)
qed

lemma newClient_screen: "Host ov = None \<Longrightarrow> Username ov = None \<Longrightarrow> Password ov = None \<Longrightarrow>
    newClient screen_ctx ov = Ok demo_client"
  unfolding screen_ctx_def by (rule connect_demo) simp_all

theorem create_then_read_witness:
  "\<exists>w1. Interface_Create screen_ctx \<lparr>Inputs = demo_interface, DryRun = False\<rparr> \<lparr>mu_running = [], mu_pending = (\<lambda>_. [])\<rparr>
       = (Ok \<lparr>cr_ID = ''interface/Ethernet1/1'', cr_Output = demo_interface\<rparr>, w1)
     \<and> Interface_Read screen_ctx demo_interface w1
       = (Ok (Some \<lparr>rd_ID = ''interface/Ethernet1/1'', rd_Inputs = demo_interface, rd_State = demo_interface\<rparr>), w1)"
proof -
  let ?w = "\<lparr>mu_running = [], mu_pending = (\<lambda>_. [])\<rparr>" and ?a = demo_interface
  let ?cmd = "''show running-config interfaces '' @ if_Name ?a"
  have ok: "is_Ok (fst (Interface_Create screen_ctx \<lparr>Inputs = ?a, DryRun = False\<rparr> ?w))" by code_simp
  then obtain resp w1 where made: "Interface_Create screen_ctx \<lparr>Inputs = ?a, DryRun = False\<rparr> ?w = (Ok resp, w1)"
    by (cases "Interface_Create screen_ctx \<lparr>Inputs = ?a, DryRun = False\<rparr> ?w") (auto simp: is_Ok_def)
  have name: "interfaceID (if_Name ?a) = ''interface/Ethernet1/1''" by code_simp
  from made have "fst (crud_create validateInterface (\<lambda>a. interfaceID (if_Name a)) (applyInterface screen_ctx)
      (\<lambda>a. ''create interface '' @ if_Name a) \<lparr>Inputs = ?a, DryRun = False\<rparr> ?w) = Ok resp"
    unfolding Interface_Create_def by simp
  then have resp: "resp = \<lparr>cr_ID = ''interface/Ethernet1/1'', cr_Output = ?a\<rparr>"
    unfolding interface_mgr.create_Ok_iff by (simp add: name)
  have c: "canonical_interface ?a"
    by (simp add: canonical_interface_def canonical_switchport_def if_switchport_def demo_interface_def int64_def)
  have "\<forall>l\<in>set (buildInterfaceCmds ?a False). clean_line l" by code_simp
  then have p: "prints interface_idle (demo_text (mu_running ?w @ buildInterfaceCmds ?a False)) (buildInterfaceCmds ?a False)"
    unfolding multi.simps append_Nil by (rule demo_read) (simp add: buildInterfaceCmds_def)
  have cli: "newClient screen_ctx ?a = Ok demo_client"
    by (rule newClient_screen) (simp_all add: demo_interface_def)
  have shown: "show_text screen_ctx demo_client ?cmd w1 = (Ok (demo_text (mu_running w1)), w1)"
    by (simp add: show_text_def RunCmds_def screen_ctx_def demo_client_def text_output_def get_str_def HasPrefix_def)
  have h: "\<forall>n name. honours_sessions (cx_env screen_ctx) n name mu_running (\<lambda>w. mu_pending w name) (@)"
    by (simp add: screen_honours)
  have none: "mu_pending ?w name = []" for name by simp
  from create_then_read [OF h screen_shows, THEN conjunct1, rule_format, OF c, unfolded reads_back_def, rule_format,
      OF made none p cli shown] made resp
  show ?thesis by simp
qed

end
