(* ===== verification/Spec2Isabelle.thy ===== *)
theory Spec2Isabelle
  imports L2_Properties Device_Properties L3_Properties Client_Properties Reads Shared_Sessions
    Concurrent_Applies Create_Then_Read
begin

text \<open>
  \<^bold>\<open>The program.\<close>  pulumi-eos is a Pulumi provider for Arista EOS switches, written in Go.  Every
  resource is a set of handlers (Create, Read, Update, Delete).  The handlers that change a
  device render configuration commands from the resource's arguments and apply them in one
  named configuration session over the eAPI: open the session, stage the commands, and
  commit, or abort when staging failed.  Read asks the device for its running configuration
  or a show table, parses the answer and reports what it finds; a difference is drift.

  \<^bold>\<open>Theories and sources\<close> (paths under \<open>src/internal\<close>; cmd, scripts and test are
  directories of \<open>src\<close>).
  \<^item> \<open>Prelude\<close>: Go error values, outcomes of calls (\<open>Ok\<close>, \<open>Err\<close>, \<open>Panic\<close>, \<open>Blocked\<close>), decoded JSON.
  \<^item> \<open>Go_Strings\<close>, \<open>Go_Conv\<close>, \<open>Go_Net\<close>: what the sources use of the packages strings, strconv and
    net (ParseIP, ParseCIDR's prefix, ParseMAC).  \<open>Go_Float\<close>: rounding to float64, and the durations of
    package time as floats.
  \<^item> \<open>Eapi\<close>: \<open>client/eapi/client.go\<close>, every method.  \<open>Session_Protocol\<close>: the open, stage, commit or
    abort pattern of the apply functions, as a locale over the session's interface, interpreted
    on the client.  \<open>Session_Trace\<close>: the requests such a run sends.  \<open>Session_Device\<close>: its effect on a
    device that implements sessions.  \<open>Session_Steps\<close>: the pattern one request at a time, and
    several handlers interleaved on one device.  \<open>Session_Slot\<close>: goroutines that share a client, their steps
    being the client's own operations, and \<open>Slot_Liveness\<close> their progress.
  \<^item> \<open>Provider_Config\<close>: \<open>config/config.go\<close> and \<open>config/clients.go\<close>, but the gNMI factory.
  \<^item> \<open>Grpc\<close>, \<open>Go_Base64\<close>: what the two gRPC clients use of their libraries.  \<open>Gnmi_Path\<close> (paths) and
    \<open>Gnmi_Client\<close> (client, life cycle, factory): \<open>client/gnmi/client.go\<close>.  \<open>Cvp_Client\<close>: \<open>client/cvp/client.go\<close>.
  \<^item> \<open>Entry_Point\<close>: \<open>cmd/pulumi-resource-eos/main.go\<close>, \<open>version/version.go\<close> and the registry of
    \<open>provider/provider.go\<close>.  \<open>Vuln_Audit\<close>: \<open>scripts/vuln-audit.go\<close>.  \<open>Probe_Helpers\<close>:
    \<open>test/integration/probe_helpers.go\<close>.
  \<^item> \<open>Resource\<close>: the handlers that every resource repeats, written once over the resource's own
    functions.  \<open>Session_Managed\<close>: resources whose apply function is one session.
    \<open>Running_Config\<close>: the line scanners, as locales for the attributes, switches and lists that a
    scanner reads.
  \<^item> \<open>Vlan\<close>, \<open>Vlan_Range\<close>, \<open>Switchport\<close>, \<open>Interface\<close>, \<open>Port_Channel\<close>, \<open>Vlan_Interface\<close>, \<open>Vxlan_Interface\<close>,
    \<open>Varp\<close>, \<open>Mac_Address_Table\<close>, \<open>Stp\<close>, \<open>Mlag\<close>, \<open>Evpn_Es\<close>: the files of \<open>resources/l2\<close>.
  \<^item> \<open>Configlet\<close>, \<open>Raw_Cli\<close>, \<open>Device_Facts\<close>: the files of \<open>resources/device\<close>.
  \<^item> \<open>L3_Common\<close>, \<open>Loopback\<close>, \<open>Subinterface\<close>, \<open>Gre_Tunnel\<close>, \<open>Vrrp\<close>, \<open>Vrf\<close>, \<open>Static_Route\<close>, \<open>Bfd\<close>, \<open>Resilient_Ecmp\<close>,
    \<open>Router_Bgp\<close>, \<open>Router_Ospf\<close>, \<open>Rpki\<close>, \<open>Policy_Based_Routing\<close>, \<open>Route_Map\<close>, \<open>Rcf\<close>, \<open>Prefix_List\<close>,
    \<open>As_Path_Access_List\<close>, \<open>Community_List\<close>, \<open>Ext_Community_List\<close>: the files of \<open>resources/l3\<close>, in the same
    order: arguments, validation, rendered commands, row, scanner, handlers, round trip.
  \<^item> \<open>Session_Names\<close>: the thirty resources that open sessions, the names of their sessions and when
    two coincide.  \<open>Session_Confined\<close>: that an apply function sends the requests of its session only.
  \<^item> \<open>Fixtures\<close>: concrete inputs.  \<open>L2_Properties\<close>, \<open>L3_Handlers\<close>, \<open>L3_Properties\<close>, \<open>Device_Properties\<close>,
    \<open>Client_Properties\<close>, \<open>Reads\<close> (no refresh writes), \<open>Shared_Sessions\<close> (two handlers in one session),
    \<open>Concurrent_Applies\<close> (handlers at once in sessions of their own), \<open>Create_Then_Read\<close> (a whole
    cycle) and this theory: the properties.

  \<^bold>\<open>State and operations.\<close>  A client is a record of its configuration, its connection and its
  one-place session slot; a session holds its client, its name and whether it is open.  The
  device and the context are an environment \<open>env\<close>: the answer of a request and the effect on a
  world of any type \<open>'w\<close> are functions of the environment, so the theorems hold for every
  device unless a hypothesis says that it implements sessions as documented (\<open>honours_sessions\<close>;
  \<open>shows_diffs\<close>: the difference it shows is a function of the two configurations), that a
  request in one session leaves the others alone (\<open>isolates_sessions\<close>), that it answers show
  commands from its running configuration (\<open>answers_shows\<close>) or lists its VLANs (\<open>lists_vlans\<close>).
  Sessions as documented commit nothing before the commit, so RCF units pulled from a URL,
  which the device commits by itself, are left out of C21.  Arguments and parsed rows are
  records with the fields of the Go structs; pointers are options.  A parser's loop body is a
  function on one trimmed line and the row.

  \<^bold>\<open>What the lemmas show.\<close>  Requests of an apply, release of the slot and atomicity; clients and
  configuration; handlers of every resource: atomic, guarded by validation and dry run,
  returning, and writing nothing when they read; which sessions share a name, what becomes of
  handlers that do, and that all others can be interleaved freely; what Read returns after
  Create; round trips of the renderers through the parsers, and where they fail (the
  attributes that a refresh loses, invents or takes from a neighbour); the independence of
  rendered commands from the order of declarations; raw configuration; the gNMI path notation,
  the life of a gNMI client and what both gRPC clients dial; when the audit passes; that the
  probes end.  The theories of single
  resources hold more round trips than the properties name (\<open>gre_roundtrip\<close>, \<open>vrrp_roundtrip\<close>,
  \<open>pbr_roundtrip\<close>, \<open>rpki_section_back\<close>, \<open>rcf_inline_back\<close>, \<open>ecmp_back\<close> and others).

  \<^bold>\<open>Bounds.\<close>  Decimal conversions are on 64-bit integers.  The loops of \<open>Go_Net\<close> are structural;
  the loop over the groups of an IPv6 address runs at most eight times.  The floats of \<open>CommitTimer\<close>
  are rounded as the source's are; below 4096 hours (\<open>exact_timer\<close>) they truncate to integer division,
  whose error of two roundings cannot reach the next unit there.  \<open>ToLower\<close>
  folds ASCII and the two non-ASCII characters that fold into it.  The capacities of Go slices
  are a parameter where the source writes into a shared array.  The counter of the probes is a
  64-bit word, and negation wraps around in their decimal conversion.  An apply takes at most three
  requests (\<open>steps_to_go\<close>), so three turns of a schedule end it, and four operations of the client,
  with the one that enters the slot (\<open>steps_left\<close>).

  \<^bold>\<open>Parameters.\<close>  The eAPI library, HTTP, the context and the device (\<open>env\<close>); \<open>url.Parse\<close>,
  \<open>time.ParseDuration\<close> and SHA-256 (\<open>golib\<close>); gRPC, the gNMI stub and the parser of certificates
  (\<open>grpc_lib\<close>, \<open>gnmi_lib\<close>); the scanners and the decoding of their JSON (\<open>process\<close>,
  \<open>decoders\<close>); building and running the provider, and reading a file.

  \<^bold>\<open>Not modelled.\<close>  The schema texts that Annotate registers, and \<open>FromContext\<close>, which reads the
  configuration out of a context of the framework.  They keep no state and decide nothing.
\<close>

section \<open>Configuration sessions\<close>

text \<open>
  C1. The requests of one apply.  Whatever the device answers, and whenever the context is
  cancelled, a run of the session pattern sends only one of the legal sequences: it
  stops at the first failure, it aborts after a failed staging, it sends the commit only
  after the open and the staging succeeded, and it reports success exactly when the three
  requests were sent and accepted.  A request is missing from its sequence, the abort
  included, only if the context is done at the end of the run.
\<close>

theorem session_requests_legal:
  assumes "run_session (traced E) c name cmds (w, l) = (r, c', (w', l'))"
    and "slot_free c" and "cl_node c = Some n"
  shows "\<exists>tr. l' = l @ tr \<and> legal_trace name cmds (ctx_err E w' \<noteq> None) (is_Ok r) tr"
  using assms by (rule run_session_trace)

theorem session_requests_legal_witness:
  "\<exists>r c' w' tr. run_session (traced (sim_env ''s'')) demo_client ''s'' [''vlan 7'']
       (\<lparr>sim_running = [], sim_pending = [], sim_refuses = False\<rparr>, []) = (r, c', (w', [] @ tr))
     \<and> legal_trace ''s'' [''vlan 7''] (ctx_err (sim_env ''s'') w' \<noteq> None) (is_Ok r) tr"
proof -
  let ?run = "run_session (traced (sim_env ''s'')) demo_client ''s'' [''vlan 7'']
       (\<lparr>sim_running = [], sim_pending = [], sim_refuses = False\<rparr>, [])"
  obtain r c' w' l' where run: "?run = (r, c', (w', l'))" by (metis prod.exhaust)
  from session_requests_legal [OF run, of "()"] obtain tr where "l' = [] @ tr"
    "legal_trace ''s'' [''vlan 7''] (ctx_err (sim_env ''s'') w' \<noteq> None) (is_Ok r) tr" by auto
  with run show ?thesis by auto
qed

text \<open>
  C2. An apply always returns, neither panicking nor waiting for ever, and gives the session
  slot back in every case, so the client can open the next session.
\<close>

theorem session_returns_and_frees_slot:
  assumes "slot_free c" and "run_session E c name cmds w = (r, c', w')"
  shows "returns r \<and> slot_free c'"
  using assms by (rule run_session_returns)

theorem session_returns_and_frees_slot_witness:
  "slot_free (fst (snd (run_session (sim_env ''s'') demo_client ''s'' [''vlan 7'']
      \<lparr>sim_running = [], sim_pending = [], sim_refuses = True\<rparr>)))"
proof -
  let ?run = "run_session (sim_env ''s'') demo_client ''s'' [''vlan 7'']
      \<lparr>sim_running = [], sim_pending = [], sim_refuses = True\<rparr>"
  obtain r c' w' where run: "?run = (r, c', w')" by (metis prod.exhaust)
  from session_returns_and_frees_slot [OF _ run] show ?thesis unfolding run by simp
qed

text \<open>
  C3. Atomic change.  On a device that implements configuration sessions as documented, an
  apply either reports an error and leaves the running configuration as it was, or reports
  success, has merged all its commands, and leaves nothing pending.  What is merged also
  contains what an earlier run left pending in a session of the same name.
\<close>

theorem apply_atomic:
  assumes "newClient C ov = Ok cli" and "cl_node cli = Some n"
    and "honours_sessions (cx_env C) n (session_name C suffix) running pending merge"
    and "apply_session C ov suffix cmds w = (r, w')"
  shows "if is_Ok r then running w' = merge (running w) (pending w @ cmds) \<and> pending w' = []
         else running w' = running w"
proof -
  obtain c' where "run_session (cx_env C) cli (session_name C suffix) cmds w = (r, c', w')"
    using assms(1,4) by (auto simp: apply_session_def split: prod.splits)
  from run_session_device [OF assms(3) this _ assms(2)] newClient_Ok [OF assms(1)]
  show ?thesis by blast
qed

theorem apply_atomic_witness:
  "\<exists>r w'. apply_session (sim_ctx ''vlan-7'') no_overrides ''vlan-7'' [''vlan 7'']
            \<lparr>sim_running = [''hostname a''], sim_pending = [], sim_refuses = False\<rparr> = (r, w') \<and>
     (if is_Ok r then sim_running w' = [''hostname a'', ''vlan 7''] \<and> sim_pending w' = []
      else sim_running w' = [''hostname a''])"
proof -
  let ?w = "\<lparr>sim_running = [''hostname a''], sim_pending = [], sim_refuses = False\<rparr>"
  obtain r w' where a: "apply_session (sim_ctx ''vlan-7'') no_overrides ''vlan-7'' [''vlan 7''] ?w = (r, w')"
    by (rule prod.exhaust)
  have cli: "newClient (sim_ctx ''vlan-7'') no_overrides = Ok demo_client"
    by (rule newClient_sim) (simp_all add: no_overrides_def)
  have "honours_sessions (cx_env (sim_ctx ''vlan-7'')) () (session_name (sim_ctx ''vlan-7'') ''vlan-7'')
          sim_running sim_pending (@)"
    unfolding session_name_sim by (simp add: sim_ctx_def sim_honours)
  from apply_atomic [OF cli _ this a] show ?thesis using a by (auto split: if_splits)
qed

text \<open>
  C4. A commit that the device refuses cannot be aborted.  The session is closed and the slot
  released, so the Abort that the session's contract asks for after an error sends no
  request; the staged commands stay pending on the device under the session's name.
\<close>

theorem failed_commit_not_aborted:
  assumes "honours_sessions E n (s_name s) running pending merge"
    and "Commit E s w = (Err e, s', w')" and "cl_node (s_parent s) = Some n" and "s_open s"
  shows "pending w' = pending w \<and> \<not> s_open s' \<and> slot_free (s_parent s') \<and> Abort E s' v = (Ok (), s', v)"
  using assms by (rule failed_commit_keeps_pending)

theorem failed_commit_not_aborted_witness:
  "\<exists>s' w'. Commit (sim_env ''s'') \<lparr>s_parent = demo_client, s_name = ''s'', s_open = True\<rparr>
       \<lparr>sim_running = [], sim_pending = [''vlan 7''], sim_refuses = True\<rparr>
     = (Err (Wrap ''eapi: commit s'' (Wrap ''eapi: runCmds [configure session s commit]'' (Foreign ''commit refused''))), s', w')
     \<and> sim_pending w' = [''vlan 7''] \<and> Abort (sim_env ''s'') s' w' = (Ok (), s', w')"
proof -
  let ?s = "\<lparr>s_parent = demo_client, s_name = ''s'', s_open = True\<rparr>"
  let ?w = "\<lparr>sim_running = [], sim_pending = [''vlan 7''], sim_refuses = True\<rparr>"
  obtain r s' w' where c: "Commit (sim_env ''s'') ?s ?w = (r, s', w')" by (metis prod.exhaust)
  then have r: "r = Err (Wrap ''eapi: commit s''
      (Wrap ''eapi: runCmds [configure session s commit]'' (Foreign ''commit refused'')))"
    by (simp add: Commit_def RunCmds_def sim_env_def sim_run_def demo_client_def commit_cmd_def)
  have "honours_sessions (sim_env ''s'') () (s_name ?s) sim_running sim_pending (@)"
    by (simp add: sim_honours)
  from failed_commit_not_aborted [OF this c [unfolded r], of w'] c r show ?thesis by auto
qed

text \<open>
  C5. At most one session per client.  Goroutines that share a client run \<open>OpenSession\<close>, \<open>Stage\<close>
  and \<open>Commit\<close> or \<open>Abort\<close>, their operations interleaved in any order, with any answers of the device
  and contexts that end at any time.  In every state they can reach, two goroutines between
  entry into the slot and the end of \<open>Commit\<close> or \<open>Abort\<close> are the same one, and the slot holds its token
  exactly while there is one.  The operations are those of the client: a goroutine that finds
  the slot free and is not interrupted ends as \<open>run_session\<close> does, with its result and its client.
\<close>

theorem one_session_per_client:
  assumes "slot_reachable E c jobs s"
  shows "(cl_slot (ss_client s) \<longleftrightarrow> (\<exists>i. in_session (ss_pc s i)))
    \<and> (\<forall>i j. in_session (ss_pc s i) \<longrightarrow> in_session (ss_pc s j) \<longrightarrow> i = j)
    \<and> (\<forall>i name cmds w r c' w'. ss_pc s i = Ready name cmds \<longrightarrow> \<not> cl_slot (ss_client s) \<longrightarrow>
         run_session E (ss_client s) name cmds w = (r, c', w') \<longrightarrow> ends_with E s i c' r)"
proof -
  have inv: "slot_inv s" using assms by (rule slot_reachable_inv)
  have ends: "ss_pc s i = Ready name cmds \<longrightarrow> \<not> cl_slot (ss_client s) \<longrightarrow>
      run_session E (ss_client s) name cmds w = (r, c', w') \<longrightarrow> ends_with E s i c' r" for i name cmds w r c' w'
    using run_session_ends_with [of s i name cmds E w r c' w'] by blast
  from inv show ?thesis unfolding slot_inv_def using ends by simp
qed

theorem one_session_per_client_witness:
  "\<exists>s. slot_reachable (text_env []) demo_client [(''a'', []), (''b'', [])] s
     \<and> in_session (ss_pc s 1) \<and> cl_slot (ss_client s) \<and> \<not> in_session (ss_pc s 0)"
proof -
  let ?E = "text_env []"
  let ?i = "slot_start demo_client [(''a'', []), (''b'', [])]"
  have pc: "ss_pc ?i 1 = Ready ''b'' []" by (simp add: slot_start_def)
  have "acquire_slot ?E (ss_client ?i) ''b'' () = Ok ((ss_client ?i)\<lparr>cl_slot := True\<rparr>)"
    by (simp add: acquire_slot_def slot_start_def text_env_def)
  from slot_step.enter [OF pc this] obtain s where
    s: "slot_step ?E ?i s" "ss_pc s 1 = Opening ''b'' []" by simp
  then have r: "slot_reachable ?E demo_client [(''a'', []), (''b'', [])] s"
    by (intro slot_next [OF slot_begin])
  have "in_session (ss_pc s 1)" using s(2) by simp
  with one_session_per_client [OF r] have "cl_slot (ss_client s)" "\<not> in_session (ss_pc s 0)"
    by (blast, metis zero_neq_one)
  with r s(2) show ?thesis by auto
qed

section \<open>Clients\<close>

text \<open>
  C9. Whom a client talks to.  A client made by the factory has the credentials of the
  resource where it gives them and of the provider otherwise, a host and a user that are not
  empty, and a node that was connected to exactly that endpoint, by https precisely when the
  endpoint's scheme is https; a bare host of the resource replaces the provider's host.
\<close>

theorem client_endpoint:
  assumes "EAPIClient E G c host user pass = Ok cli"
  shows "(\<exists>n timeout. requestTimeout G c = Inr timeout \<and> ec_Timeout (cl_cfg cli) = timeout \<and> cl_node cli = Some n
         \<and> goeapi_connect E (if ec_UseHTTPS (cl_cfg cli) then ''https'' else ''http'') (ec_Host (cl_cfg cli))
             (ec_Username (cl_cfg cli)) (ec_Password (cl_cfg cli)) (effective_port (ec_Port (cl_cfg cli))) = Inr n)
     \<and> ec_Username (cl_cfg cli) = override user (EOSUsername c) \<and> ec_Username (cl_cfg cli) \<noteq> []
     \<and> ec_Password (cl_cfg cli) = override pass (or_empty (EOSPassword c))
     \<and> ec_Host (cl_cfg cli) \<noteq> [] \<and> slot_free cli
     \<and> (case nonempty host of Some h \<Rightarrow> Contains h ''://'' \<or> ec_Host (cl_cfg cli) = h | None \<Rightarrow> True)"
proof -
  obtain ep timeout where ep: "splitEOSURL G (EOSURL c) host = Inr ep"
    and t: "requestTimeout G c = Inr timeout"
    and new: "New E \<lparr>ec_Host = ep_Host ep, ec_Port = ep_Port ep, ec_Username = override user (EOSUsername c),
        ec_Password = override pass (or_empty (EOSPassword c)), ec_Timeout = timeout,
        ec_UseHTTPS = (ep_Scheme ep = ''https'')\<rparr> = Ok cli"
    using assms by (auto simp: EAPIClient_def split: sum.splits if_splits)
  have "Contains h ''://'' \<or> ep_Host ep = h" if "nonempty host = Some h" for h
  proof (cases "Contains h ''://''")
    case False
    with ep that have "split_provider G (EOSURL c) h = Inr ep" and "h \<noteq> []"
      by (simp_all add: splitEOSURL_def)
    then show ?thesis by (auto simp: split_provider_def split: if_splits sum.splits)
  qed simp
  with New_Ok [OF new] t show ?thesis by (auto split: option.split)
qed

theorem client_endpoint_witness:
  "\<exists>cli. EAPIClient (text_env []) demo_lib demo_config (Some ''spine-02'') None (Some ''other'') = Ok cli
     \<and> ec_Host (cl_cfg cli) = ''spine-02'' \<and> ec_Username (cl_cfg cli) = ''admin'' \<and> ec_Password (cl_cfg cli) = ''other''"
proof -
  obtain cli where cli: "EAPIClient (text_env []) demo_lib demo_config (Some ''spine-02'') None (Some ''other'') = Ok cli"
    by (simp add: EAPIClient_def splitEOSURL_def
        split_provider_def demo_config_def demo_lib_def demo_url_def hostPort_def requestTimeout_def
        duration_or_def defaultRequestTimeout_def New_def validate_config_def override_def text_env_def)
  have "\<not> Contains ''spine-02'' ''://''" by code_simp
  with client_endpoint [OF cli] cli show ?thesis by (auto simp: override_def demo_config_def)
qed

text \<open>
  C10. A host override can lower the transport.  A resource whose host is a URL with any
  scheme other than https, http and none at all included, gets a client that is connected by
  plain http, with the credentials.  The provider's own URL is refused when its scheme is neither
  of the two and not empty.
\<close>

theorem host_override_plaintext:
  assumes "host = Some h" and "Contains h ''://''" and "url_Parse G h = Inr u"
    and "u_Scheme u \<noteq> ''https''" and "EAPIClient E G c host user pass = Ok cli"
  shows "\<not> ec_UseHTTPS (cl_cfg cli)
     \<and> (\<exists>n. goeapi_connect E ''http'' (u_Hostname u) (override user (EOSUsername c))
           (override pass (or_empty (EOSPassword c))) (effective_port (snd (hostPort u))) = Inr n)
     \<and> (u_Scheme u \<in> {''http'', []} \<or> EAPIClient E G (c\<lparr>EOSURL := h\<rparr>) None user pass = Err ErrUnsupportedScheme)"
proof -
  have h: "h \<noteq> []" using assms(2) Contains_nonempty by blast
  with assms(1) have "nonempty host = Some h" by simp
  then have ep: "splitEOSURL G (EOSURL c) host
      = Inr \<lparr>ep_Host = u_Hostname u, ep_Port = snd (hostPort u), ep_Scheme = u_Scheme u\<rparr>"
    using assms(2,3) by (simp add: splitEOSURL_def hostPort_def del: nonempty_eq_Some)
  with assms(4,5) obtain timeout where new: "New E \<lparr>ec_Host = u_Hostname u, ec_Port = snd (hostPort u),
        ec_Username = override user (EOSUsername c), ec_Password = override pass (or_empty (EOSPassword c)),
        ec_Timeout = timeout, ec_UseHTTPS = False\<rparr> = Ok cli"
    by (auto simp: EAPIClient_def split: sum.splits if_splits)
  have "EAPIClient E G (c\<lparr>EOSURL := h\<rparr>) None user pass = Err ErrUnsupportedScheme" if "u_Scheme u \<notin> {''http'', []}"
    using assms(3,4) h that by (simp add: EAPIClient_def splitEOSURL_def split_provider_def)
  with New_Ok [OF new] show ?thesis by auto
qed

theorem host_override_plaintext_witness:
  "\<exists>cli. EAPIClient (text_env []) demo_lib demo_config (Some ''ssh://spine-02'') None None = Ok cli
     \<and> \<not> ec_UseHTTPS (cl_cfg cli)
     \<and> EAPIClient (text_env []) demo_lib (demo_config\<lparr>EOSURL := ''ssh://spine-02''\<rparr>) None None None
         = Err ErrUnsupportedScheme"
proof -
  have parse: "url_Parse demo_lib ''ssh://spine-02''
      = Inr \<lparr>u_Scheme = ''ssh'', u_Host = ''spine-02'', u_Hostname = ''spine-02'', u_Port = [], u_Path = []\<rparr>"
    by (simp add: demo_lib_def demo_url_def)
  have c: "Contains ''ssh://spine-02'' ''://''" by code_simp
  obtain cli where cli: "EAPIClient (text_env []) demo_lib demo_config (Some ''ssh://spine-02'') None None = Ok cli"
    using c by (simp add: EAPIClient_def splitEOSURL_def parse
        demo_config_def hostPort_def requestTimeout_def
        duration_or_def defaultRequestTimeout_def New_def validate_config_def override_def text_env_def)
  from host_override_plaintext [OF refl c parse _ cli] cli show ?thesis by simp
qed

text \<open>
  C11. Which configurations the provider accepts: one with an endpoint, URLs that parse where
  they are given, one of the two transports, and durations that parse.
\<close>

theorem configure_accepts:
  "Configure G c = None \<longleftrightarrow>
     (HasEOS c \<or> HasCVP c)
     \<and> (EOSURL c = [] \<or> (\<exists>u. url_Parse G (EOSURL c) = Inr u)) \<and> (CVPURL c = [] \<or> (\<exists>u. url_Parse G (CVPURL c) = Inr u))
     \<and> transport c \<in> {''eapi'', ''gnmi''}
     \<and> (\<exists>t b m. requestTimeout G c = Inr t \<and> retryBase G c = Inr b \<and> retryMax G c = Inr m)"
proof -
  have e: "parse_err f r = None \<longleftrightarrow> (\<exists>x. r = Inr x)" for f and r :: "error + 'z"
    by (cases r) (simp_all add: parse_err_def)
  have guard: "(if b \<and> x \<noteq> None then x else y) = None \<longleftrightarrow> (\<not> b \<or> x = None) \<and> y = None" for b and x y :: "error option"
    by auto
  show ?thesis
    unfolding Configure_def guard check_chain
    unfolding e HasEOS_def HasCVP_def TransportEAPI_def TransportGNMI_def
    by blast
qed

text \<open>
  C12. The timer of a confirmed commit.  For every timeout below 4096 hours, and for the five
  minutes taken when none is given, the hours, minutes and seconds of the command add up to
  the timeout in whole seconds, although the code takes them from floats, and the minutes and
  the seconds are below sixty and written in two digits.  The bound is needed: of the timeout one
  nanosecond short of 4097 hours the hours are rounded up to 4097, and the minutes are -1.
\<close>

theorem commit_timer_exact:
  assumes "exact_timer t"
  shows "(case timer_parts (if t \<le> 0 then DefaultCommitTimer else t) of (hh, mm, ss) \<Rightarrow>
       hh * 3600 + mm * 60 + ss = (if t \<le> 0 then 300 else t div second)
       \<and> 0 \<le> hh \<and> 0 \<le> mm \<and> mm < 60 \<and> 0 \<le> ss \<and> ss < 60
       \<and> length (pad2 mm) = 2 \<and> length (pad2 ss) = 2)
     \<and> timer_parts (4097 * 3600 * second - 1) = (4097, - 1, 59)"
proof -
  define d where "d = (if t \<le> 0 then DefaultCommitTimer else t)"
  have d: "0 \<le> d" "exact_timer d"
    using assms by (simp_all add: d_def exact_timer_def DefaultCommitTimer_def second_def)
  have s: "d div second = (if t \<le> 0 then 300 else t div second)"
    by (simp add: d_def DefaultCommitTimer_def second_def)
  have "0 \<le> d div second" using d(1) by (simp add: second_def pos_imp_zdiv_nonneg_iff)
  then show ?thesis
    unfolding d_def [symmetric] timer_parts_div [OF d] s [symmetric]
    unfolding timer_parts_rounded_up prod.case using hms_sum [of "d div second"]
    by (simp add: pos_imp_zdiv_nonneg_iff length_pad2)
qed

text \<open>The longest timeout of whole hours.\<close>

lemma commit_timer_exact_witness:
  "case timer_parts (4095 * 3600 * second) of (hh, mm, ss) \<Rightarrow>
     hh * 3600 + mm * 60 + ss = (4095 * 3600 * second) div second \<and> 0 \<le> mm \<and> mm < 60"
  using commit_timer_exact [of "4095 * 3600 * second"]
  by (simp add: exact_timer_def second_def split: prod.splits)

section \<open>Handlers\<close>

text \<open>
  C13. What Create, Update and Delete do to the device.  On a device that implements sessions
  as documented, each of the ten resources either succeeds and has merged exactly the commands
  it renders from its arguments, or its removal commands, after whatever was left pending
  under its session's name; or it fails and leaves the running configuration alone.
\<close>

theorem apply_handlers_atomic:
  assumes "\<forall>n name. honours_sessions (cx_env C) n name running (pending name) merge"
  shows "(session_changed C running pending merge (''vlan-'' @ Itoa (vlan_Id vl)) (buildVlanCmds vl False) w
       (Vlan_Create C \<lparr>Inputs = vl, DryRun = False\<rparr> w)
     \<and> session_changed C running pending merge (''vlan-'' @ Itoa (vlan_Id vl)) (buildVlanCmds vl False) w
       (Vlan_Update C \<lparr>Inputs = vl, DryRun = False\<rparr> w)
     \<and> session_changed C running pending merge (''vlanrange-'' @ vlan_span (vr_Start vr) (vr_End vr)) (buildVlanRangeCmds vr False) w
       (VlanRange_Create C \<lparr>Inputs = vr, DryRun = False\<rparr> w)
     \<and> session_changed C running pending merge (''vlanrange-'' @ vlan_span (vr_Start vr) (vr_End vr)) (buildVlanRangeCmds vr False) w
       (VlanRange_Update C \<lparr>Inputs = vr, DryRun = False\<rparr> w)
     \<and> session_changed C running pending merge (''iface-'' @ sanitizeForSession (if_Name it)) (buildInterfaceCmds it False) w
       (Interface_Create C \<lparr>Inputs = it, DryRun = False\<rparr> w)
     \<and> session_changed C running pending merge (''iface-'' @ sanitizeForSession (if_Name it)) (buildInterfaceCmds it False) w
       (Interface_Update C \<lparr>Inputs = it, DryRun = False\<rparr> w)
     \<and> session_changed C running pending merge (''po-'' @ Itoa (pc_Id pc)) (buildPortChannelCmds pc False) w
       (PortChannel_Create C \<lparr>Inputs = pc, DryRun = False\<rparr> w)
     \<and> session_changed C running pending merge (''po-'' @ Itoa (pc_Id pc)) (buildPortChannelCmds pc False) w
       (PortChannel_Update C \<lparr>Inputs = pc, DryRun = False\<rparr> w)
     \<and> session_changed C running pending merge (''svi-'' @ Itoa (vi_VlanId vi)) (buildVlanInterfaceCmds vi False) w
       (VlanInterface_Create C \<lparr>Inputs = vi, DryRun = False\<rparr> w)
     \<and> session_changed C running pending merge (''svi-'' @ Itoa (vi_VlanId vi)) (buildVlanInterfaceCmds vi False) w
       (VlanInterface_Update C \<lparr>Inputs = vi, DryRun = False\<rparr> w)
     \<and> session_changed C running pending merge (''vxlan-'' @ Itoa (vx_Id vx)) (buildVxlanInterfaceCmds vx False) w
       (VxlanInterface_Create C \<lparr>Inputs = vx, DryRun = False\<rparr> w)
     \<and> session_changed C running pending merge (''vxlan-'' @ Itoa (vx_Id vx)) (buildVxlanInterfaceCmds vx False) w
       (VxlanInterface_Update C \<lparr>Inputs = vx, DryRun = False\<rparr> w)
     \<and> session_changed C running pending merge ''varp'' (varp_cmds va False) w
       (Varp_Create C \<lparr>Inputs = va, DryRun = False\<rparr> w)
     \<and> session_changed C running pending merge ''varp'' (varp_cmds va False) w
       (Varp_Update C \<lparr>Inputs = va, DryRun = False\<rparr> w)
     \<and> session_changed C running pending merge ''stp'' (buildStpCmds st False) w
       (Stp_Create C \<lparr>Inputs = st, DryRun = False\<rparr> w)
     \<and> session_changed C running pending merge ''stp'' (buildStpCmds st False) w
       (Stp_Update C \<lparr>Inputs = st, DryRun = False\<rparr> w)
     \<and> session_changed C running pending merge ''mlag'' (buildMlagCmds ml False) w
       (Mlag_Create C \<lparr>Inputs = ml, DryRun = False\<rparr> w)
     \<and> session_changed C running pending merge ''mlag'' (buildMlagCmds ml False) w
       (Mlag_Update C \<lparr>Inputs = ml, DryRun = False\<rparr> w)
     \<and> session_changed C running pending merge (''es-'' @ sanitizeForSession (es_ParentInterface es)) (buildEvpnEthernetSegmentCmds es False) w
       (EvpnEthernetSegment_Create C \<lparr>Inputs = es, DryRun = False\<rparr> w)
     \<and> session_changed C running pending merge (''es-'' @ sanitizeForSession (es_ParentInterface es)) (buildEvpnEthernetSegmentCmds es False) w
       (EvpnEthernetSegment_Update C \<lparr>Inputs = es, DryRun = False\<rparr> w))
     \<and> (session_changed C running pending merge (''vlan-'' @ Itoa (vlan_Id vl)) (buildVlanCmds vl True) w (Vlan_Delete C vl w)
     \<and> session_changed C running pending merge (''vlanrange-'' @ vlan_span (vr_Start vr) (vr_End vr)) (buildVlanRangeCmds vr True) w (VlanRange_Delete C vr w)
     \<and> session_changed C running pending merge (''iface-'' @ sanitizeForSession (if_Name it)) (buildInterfaceCmds it True) w (Interface_Delete C it w)
     \<and> session_changed C running pending merge (''po-'' @ Itoa (pc_Id pc)) (buildPortChannelCmds pc True) w (PortChannel_Delete C pc w)
     \<and> session_changed C running pending merge (''svi-'' @ Itoa (vi_VlanId vi)) (buildVlanInterfaceCmds vi True) w (VlanInterface_Delete C vi w)
     \<and> session_changed C running pending merge (''vxlan-'' @ Itoa (vx_Id vx)) (buildVxlanInterfaceCmds vx True) w (VxlanInterface_Delete C vx w)
     \<and> session_changed C running pending merge ''varp'' (varp_cmds va True) w (Varp_Delete C va w)
     \<and> session_changed C running pending merge ''stp'' (buildStpCmds st True) w (Stp_Delete C st w)
     \<and> session_changed C running pending merge ''mlag'' (buildMlagCmds ml True) w (Mlag_Delete C ml w)
     \<and> session_changed C running pending merge (''es-'' @ sanitizeForSession (es_ParentInterface es)) (buildEvpnEthernetSegmentCmds es True) w (EvpnEthernetSegment_Delete C es w))"
  unfolding session_changed_def
    Vlan_Create_def Vlan_Update_def VlanRange_Create_def VlanRange_Update_def Interface_Create_def
    Interface_Update_def PortChannel_Create_def PortChannel_Update_def VlanInterface_Create_def
    VlanInterface_Update_def VxlanInterface_Create_def VxlanInterface_Update_def Varp_Create_def
    Varp_Update_def Stp_Create_def Stp_Update_def Mlag_Create_def Mlag_Update_def
    EvpnEthernetSegment_Create_def EvpnEthernetSegment_Update_def Vlan_Delete_def
    VlanRange_Delete_def Interface_Delete_def PortChannel_Delete_def VlanInterface_Delete_def
    VxlanInterface_Delete_def Varp_Delete_def Stp_Delete_def Mlag_Delete_def
    EvpnEthernetSegment_Delete_def
  using assms by (intro conjI vlan_mgr.handlers_device vlan_range_mgr.handlers_device interface_mgr.handlers_device
      port_channel_mgr.handlers_device vlan_interface_mgr.handlers_device vxlan_mgr.handlers_device
      varp_handlers_device stp_mgr.handlers_device mlag_mgr.handlers_device es_mgr.handlers_device; simp)+

definition demo_vlan :: VlanArgs where
  "demo_vlan = \<lparr>Host = None, Username = None, Password = None, vlan_Id = 7, vlan_Name = Some ''users''\<rparr>"

definition idle_switch :: multi where
  "idle_switch = \<lparr>mu_running = [''hostname a''], mu_pending = (\<lambda>_. [])\<rparr>"

lemma idle_simps: "mu_running idle_switch = [''hostname a'']" "mu_pending idle_switch name = []"
  by (simp_all add: idle_switch_def)

theorem apply_handlers_atomic_witness:
  "is_Ok (fst (Vlan_Create multi_ctx \<lparr>Inputs = demo_vlan, DryRun = False\<rparr> idle_switch)) \<and>
   mu_running (snd (Vlan_Create multi_ctx \<lparr>Inputs = demo_vlan, DryRun = False\<rparr> idle_switch)) = [''hostname a'', ''vlan 7'', ''name users''] \<and>
   is_Ok (fst (Vlan_Delete multi_ctx demo_vlan idle_switch)) \<and>
   mu_running (snd (Vlan_Delete multi_ctx demo_vlan idle_switch)) = [''hostname a'', ''no vlan 7'']"
proof -
  have ok: "is_Ok (fst (Vlan_Create multi_ctx \<lparr>Inputs = demo_vlan, DryRun = False\<rparr> idle_switch))"
    and okd: "is_Ok (fst (Vlan_Delete multi_ctx demo_vlan idle_switch))" by code_simp+
  have h: "\<forall>n name. honours_sessions (cx_env multi_ctx) n name mu_running (\<lambda>w. mu_pending w name) (@)"
    by (simp add: multi_honours)
  have cmds: "buildVlanCmds demo_vlan False = [''vlan 7'', ''name users'']" "buildVlanCmds demo_vlan True = [''no vlan 7'']" by code_simp+
  note both = apply_handlers_atomic [OF h, of demo_vlan idle_switch]
  from both [THEN conjunct1, THEN conjunct1] both [THEN conjunct2, THEN conjunct1] show ?thesis
    unfolding session_changed_def changed_by_def cmds using ok okd by (simp add: idle_simps)
qed

text \<open>
  C14. When a handler reaches the device, and that it returns.  A dry run and an invalid input
  never do: Create and Update change the world only by the apply function, and only for a
  valid input that is not a dry run; then and only then, and if the apply function succeeds,
  they report success, and the output is the input under the resource's ID.  The same holds
  of configlets and raw blocks, whose output adds the digest of the prepared lines and, for a
  raw block, what the apply function reports of the difference.  Deleting a configlet touches
  nothing; deleting a raw block applies its delete body, and nothing if that has no line.
  No handler that changes a device panics or waits for ever, whatever the device answers and
  whenever the context is cancelled.
\<close>

theorem handlers_guarded:
  shows "guarded dry (validateVlanID (vlan_Id vl)) (applyVlan C vl False w) \<lparr>cr_ID = vlanID (vlan_Id vl), cr_Output = vl\<rparr> w
       (Vlan_Create C \<lparr>Inputs = vl, DryRun = dry\<rparr> w)
     \<and> guarded dry (validateVlanID (vlan_Id vl)) (applyVlan C vl False w) vl w
       (Vlan_Update C \<lparr>Inputs = vl, DryRun = dry\<rparr> w)
     \<and> guarded dry (validateVlanRange vr) (applyVlanRange C vr False w) \<lparr>cr_ID = vlanRangeID (vr_Start vr) (vr_End vr), cr_Output = vr\<rparr> w
       (VlanRange_Create C \<lparr>Inputs = vr, DryRun = dry\<rparr> w)
     \<and> guarded dry (validateVlanRange vr) (applyVlanRange C vr False w) vr w
       (VlanRange_Update C \<lparr>Inputs = vr, DryRun = dry\<rparr> w)
     \<and> guarded dry (validateInterface it) (applyInterface C it False w) \<lparr>cr_ID = interfaceID (if_Name it), cr_Output = it\<rparr> w
       (Interface_Create C \<lparr>Inputs = it, DryRun = dry\<rparr> w)
     \<and> guarded dry (validateInterface it) (applyInterface C it False w) it w
       (Interface_Update C \<lparr>Inputs = it, DryRun = dry\<rparr> w)
     \<and> guarded dry (validatePortChannel pc) (applyPortChannel C pc False w) \<lparr>cr_ID = portChannelID (pc_Id pc), cr_Output = pc\<rparr> w
       (PortChannel_Create C \<lparr>Inputs = pc, DryRun = dry\<rparr> w)
     \<and> guarded dry (validatePortChannel pc) (applyPortChannel C pc False w) pc w
       (PortChannel_Update C \<lparr>Inputs = pc, DryRun = dry\<rparr> w)
     \<and> guarded dry (validateVlanInterface vi) (applyVlanInterface C vi False w) \<lparr>cr_ID = vlanInterfaceID (vi_VlanId vi), cr_Output = vi\<rparr> w
       (VlanInterface_Create C \<lparr>Inputs = vi, DryRun = dry\<rparr> w)
     \<and> guarded dry (validateVlanInterface vi) (applyVlanInterface C vi False w) vi w
       (VlanInterface_Update C \<lparr>Inputs = vi, DryRun = dry\<rparr> w)
     \<and> guarded dry (validateVxlanInterface vx) (applyVxlanInterface C vx False w) \<lparr>cr_ID = vxlanInterfaceID (vx_Id vx), cr_Output = vx\<rparr> w
       (VxlanInterface_Create C \<lparr>Inputs = vx, DryRun = dry\<rparr> w)
     \<and> guarded dry (validateVxlanInterface vx) (applyVxlanInterface C vx False w) vx w
       (VxlanInterface_Update C \<lparr>Inputs = vx, DryRun = dry\<rparr> w)
     \<and> guarded dry (validateVarp va) (applyVarp C va False w) \<lparr>cr_ID = varpID, cr_Output = va\<rparr> w
       (Varp_Create C \<lparr>Inputs = va, DryRun = dry\<rparr> w)
     \<and> guarded dry (validateVarp va) (applyVarp C va False w) va w
       (Varp_Update C \<lparr>Inputs = va, DryRun = dry\<rparr> w)
     \<and> guarded dry (validateStp st) (applyStp C st False w) \<lparr>cr_ID = stpID, cr_Output = st\<rparr> w
       (Stp_Create C \<lparr>Inputs = st, DryRun = dry\<rparr> w)
     \<and> guarded dry (validateStp st) (applyStp C st False w) st w
       (Stp_Update C \<lparr>Inputs = st, DryRun = dry\<rparr> w)
     \<and> guarded dry (validateMlag ml) (applyMlag C ml False w) \<lparr>cr_ID = mlagID, cr_Output = ml\<rparr> w
       (Mlag_Create C \<lparr>Inputs = ml, DryRun = dry\<rparr> w)
     \<and> guarded dry (validateMlag ml) (applyMlag C ml False w) ml w
       (Mlag_Update C \<lparr>Inputs = ml, DryRun = dry\<rparr> w)
     \<and> guarded dry (validateEvpnEthernetSegment es) (applyEvpnEthernetSegment C es False w) \<lparr>cr_ID = evpnEthernetSegmentID (es_ParentInterface es), cr_Output = es\<rparr> w
       (EvpnEthernetSegment_Create C \<lparr>Inputs = es, DryRun = dry\<rparr> w)
     \<and> guarded dry (validateEvpnEthernetSegment es) (applyEvpnEthernetSegment C es False w) es w
       (EvpnEthernetSegment_Update C \<lparr>Inputs = es, DryRun = dry\<rparr> w)
     \<and> prepared_guarded dry (prepareConfiglet (cx_lib C) cf) (\<lambda>p. applyConfiglet C cf (fst p) w)
       (\<lambda>p. \<lparr>cr_ID = configletID (cf_Name cf), cr_Output = configlet_state cf (snd p)\<rparr>)
       (\<lambda>p _. \<lparr>cr_ID = configletID (cf_Name cf), cr_Output = configlet_state cf (snd p)\<rparr>) w
       (Configlet_Create C \<lparr>Inputs = cf, DryRun = dry\<rparr> w)
     \<and> prepared_guarded dry (prepareConfiglet (cx_lib C) cf) (\<lambda>p. applyConfiglet C cf (fst p) w)
       (\<lambda>p. configlet_state cf (snd p)) (\<lambda>p _. configlet_state cf (snd p)) w
       (Configlet_Update C \<lparr>Inputs = cf, DryRun = dry\<rparr> w)
     \<and> Configlet_Delete cf_st w = (Ok (), w)
     \<and> prepared_guarded dry (prepareRawCli (cx_lib C) rc) (\<lambda>p. applyRawCli C rc (fst p) ''create'' w)
       (\<lambda>p. \<lparr>cr_ID = rawCliID (rc_Name rc), cr_Output = rawcli_state rc (snd p) [] False\<rparr>)
       (\<lambda>p d. \<lparr>cr_ID = rawCliID (rc_Name rc), cr_Output = rawcli_state rc (snd p) (fst d) (snd d)\<rparr>) w
       (RawCli_Create C \<lparr>Inputs = rc, DryRun = dry\<rparr> w)
     \<and> prepared_guarded dry (prepareRawCli (cx_lib C) rc) (\<lambda>p. applyRawCli C rc (fst p) ''update'' w)
       (\<lambda>p. rawcli_state rc (snd p) [] False) (\<lambda>p d. rawcli_state rc (snd p) (fst d) (snd d)) w
       (RawCli_Update C \<lparr>Inputs = rc, DryRun = dry\<rparr> w)
     \<and> (if delete_lines rc_st = [] then RawCli_Delete C rc_st w = (Ok (), w)
        else snd (RawCli_Delete C rc_st w) = snd (applyRawCli C rc_st (delete_lines rc_st) ''delete'' w)
          \<and> is_Ok (fst (RawCli_Delete C rc_st w)) = is_Ok (fst (applyRawCli C rc_st (delete_lines rc_st) ''delete'' w)))
     \<and> returns (fst (Vlan_Create C vl_rq w))
     \<and> returns (fst (Vlan_Update C vl_rq w))
     \<and> returns (fst (Vlan_Delete C vl_st w))
     \<and> returns (fst (VlanRange_Create C vr_rq w))
     \<and> returns (fst (VlanRange_Update C vr_rq w))
     \<and> returns (fst (VlanRange_Delete C vr_st w))
     \<and> returns (fst (Interface_Create C it_rq w))
     \<and> returns (fst (Interface_Update C it_rq w))
     \<and> returns (fst (Interface_Delete C it_st w))
     \<and> returns (fst (PortChannel_Create C pc_rq w))
     \<and> returns (fst (PortChannel_Update C pc_rq w))
     \<and> returns (fst (PortChannel_Delete C pc_st w))
     \<and> returns (fst (VlanInterface_Create C vi_rq w))
     \<and> returns (fst (VlanInterface_Update C vi_rq w))
     \<and> returns (fst (VlanInterface_Delete C vi_st w))
     \<and> returns (fst (VxlanInterface_Create C vx_rq w))
     \<and> returns (fst (VxlanInterface_Update C vx_rq w))
     \<and> returns (fst (VxlanInterface_Delete C vx_st w))
     \<and> returns (fst (Varp_Create C va_rq w))
     \<and> returns (fst (Varp_Update C va_rq w))
     \<and> returns (fst (Varp_Delete C va_st w))
     \<and> returns (fst (Stp_Create C st_rq w))
     \<and> returns (fst (Stp_Update C st_rq w))
     \<and> returns (fst (Stp_Delete C st_st w))
     \<and> returns (fst (Mlag_Create C ml_rq w))
     \<and> returns (fst (Mlag_Update C ml_rq w))
     \<and> returns (fst (Mlag_Delete C ml_st w))
     \<and> returns (fst (EvpnEthernetSegment_Create C es_rq w))
     \<and> returns (fst (EvpnEthernetSegment_Update C es_rq w))
     \<and> returns (fst (EvpnEthernetSegment_Delete C es_st w))
     \<and> returns (fst (Configlet_Create C cf_rq w))
     \<and> returns (fst (Configlet_Update C cf_rq w))
     \<and> returns (fst (Configlet_Delete cf_st w))
     \<and> returns (fst (RawCli_Create C rc_rq w))
     \<and> returns (fst (RawCli_Update C rc_rq w))
     \<and> returns (fst (RawCli_Delete C rc_st w))"
  unfolding
    Vlan_Create_def Vlan_Update_def VlanRange_Create_def VlanRange_Update_def Interface_Create_def
    Interface_Update_def PortChannel_Create_def PortChannel_Update_def VlanInterface_Create_def
    VlanInterface_Update_def VxlanInterface_Create_def VxlanInterface_Update_def Varp_Create_def
    Varp_Update_def Stp_Create_def Stp_Update_def Mlag_Create_def Mlag_Update_def
    EvpnEthernetSegment_Create_def EvpnEthernetSegment_Update_def Vlan_Delete_def
    VlanRange_Delete_def Interface_Delete_def PortChannel_Delete_def VlanInterface_Delete_def
    VxlanInterface_Delete_def Varp_Delete_def Stp_Delete_def Mlag_Delete_def
    EvpnEthernetSegment_Delete_def
  by (intro conjI crud_guarded configlet_guarded rawcli_guarded rawcli_delete_guarded Configlet_Delete_def
      vlan_mgr.create_returns vlan_mgr.update_returns vlan_mgr.delete_returns
      vlan_range_mgr.create_returns vlan_range_mgr.update_returns vlan_range_mgr.delete_returns
      interface_mgr.create_returns interface_mgr.update_returns interface_mgr.delete_returns
      port_channel_mgr.create_returns port_channel_mgr.update_returns port_channel_mgr.delete_returns
      vlan_interface_mgr.create_returns vlan_interface_mgr.update_returns vlan_interface_mgr.delete_returns
      vxlan_mgr.create_returns vxlan_mgr.update_returns vxlan_mgr.delete_returns
      varp_mgr.create_returns varp_mgr.update_returns varp_mgr.delete_returns
      stp_mgr.create_returns stp_mgr.update_returns stp_mgr.delete_returns
      mlag_mgr.create_returns mlag_mgr.update_returns mlag_mgr.delete_returns
      es_mgr.create_returns es_mgr.update_returns es_mgr.delete_returns
      configlet_returns rawcli_returns)

end
